(* ===== verification/Go_Prelude.thy ===== *)
theory Go_Prelude
  imports Main "HOL-Library.AList" "HOL-Library.Multiset" "HOL-Library.Char_ord" "HOL-Library.List_Lexorder"
begin

text \<open>
  What the other theories share: the Go data the program is written in, and the lemmas about it.

  \<^item> A Go string is a list of bytes, so it is a \<open>string\<close> here. \<open>ToLower\<close>, \<open>TrimSpace\<close> and
    their kin follow package \<open>strings\<close> on ASCII text; bytes above 127 are left alone.
  \<^item> A Go map is an association list with distinct keys (\<open>gomap_ok\<close>). Ranging over a map visits
    the list in its order. Every theorem is about an arbitrary list, so it holds for each of the
    orders in which Go may visit the map.
  \<^item> A \<open>time.Time\<close> is the number of nanoseconds since 0001-01-01 00:00 UTC, so the zero time is 0.
  \<^item> An error is a value of \<open>err\<close>: the two sentinel errors of store.go with the text that wraps
    them, and every other \<open>fmt.Errorf\<close>.
  \<^item> \<open>sort.Slice\<close> is known by the contract \<open>go_sort\<close> only.
\<close>

named_theorems go_simps \<open>equations for the Go library functions\<close>

section \<open>Errors and results\<close>

datatype err = ErrNotFound string | ErrConflict string | ErrOther string

type_synonym 'a res = "err + 'a"
type_synonym time = int

abbreviation (input) IsZero :: "time \<Rightarrow> bool" where
  "IsZero t \<equiv> t = 0"

definition second_ns :: int where "second_ns = 1000000000"
definition minute_ns :: int where "minute_ns = 60 * second_ns"

definition and_then :: "'a res \<Rightarrow> ('a \<Rightarrow> 'b res) \<Rightarrow> 'b res" where
  "and_then r f = (case r of Inl e \<Rightarrow> Inl e | Inr x \<Rightarrow> f x)"

lemma and_then_Inr [simp]: "and_then (Inr x) f = f x"
  by (simp add: and_then_def)

lemma and_then_Inl [simp]: "and_then (Inl e) f = Inl e"
  by (simp add: and_then_def)

lemma and_then_eq_Inr_iff: "and_then r f = Inr y \<longleftrightarrow> (\<exists>x. r = Inr x \<and> f x = Inr y)"
  by (cases r) auto

lemma and_then_InrE:
  assumes "and_then r f = Inr y"
  obtains x where "r = Inr x" and "f x = Inr y"
  using assms by (auto simp: and_then_eq_Inr_iff)

definition is_ok :: "'a res \<Rightarrow> bool" where
  "is_ok r = (case r of Inl _ \<Rightarrow> False | Inr _ \<Rightarrow> True)"

lemma is_ok_simps [simp]: "is_ok (Inr x)" "\<not> is_ok (Inl e)"
  by (simp_all add: is_ok_def)

lemma is_ok_iff: "is_ok r \<longleftrightarrow> (\<exists>x. r = Inr x)"
  by (cases r) auto

section \<open>Strings\<close>

definition byte :: "char \<Rightarrow> nat" where
  "byte c = of_char c"

definition is_space :: "char \<Rightarrow> bool" where
  "is_space c \<longleftrightarrow> (9 \<le> byte c \<and> byte c \<le> 13) \<or> byte c = 32"

definition lower_char :: "char \<Rightarrow> char" where
  "lower_char c = (if 65 \<le> byte c \<and> byte c \<le> 90 then char_of (byte c + 32) else c)"

definition ToLower :: "string \<Rightarrow> string" where
  "ToLower s = map lower_char s"

definition TrimFunc :: "(char \<Rightarrow> bool) \<Rightarrow> string \<Rightarrow> string" where
  "TrimFunc p s = rev (dropWhile p (rev (dropWhile p s)))"

definition TrimSpace :: "string \<Rightarrow> string" where
  "TrimSpace s = TrimFunc is_space s"

definition EqualFold :: "string \<Rightarrow> string \<Rightarrow> bool" where
  "EqualFold s t \<longleftrightarrow> ToLower s = ToLower t"

definition HasPrefix :: "string \<Rightarrow> string \<Rightarrow> bool" where
  "HasPrefix s p \<longleftrightarrow> take (length p) s = p"

definition HasSuffix :: "string \<Rightarrow> string \<Rightarrow> bool" where
  "HasSuffix s p \<longleftrightarrow> HasPrefix (rev s) (rev p)"

definition TrimPrefix :: "string \<Rightarrow> string \<Rightarrow> string" where
  "TrimPrefix s p = (if HasPrefix s p then drop (length p) s else s)"

definition TrimSuffix :: "string \<Rightarrow> string \<Rightarrow> string" where
  "TrimSuffix s p = (if HasSuffix s p then take (length s - length p) s else s)"

definition is_lower :: "char \<Rightarrow> bool" where
  "is_lower c \<longleftrightarrow> 97 \<le> byte c \<and> byte c \<le> 122"

definition is_upper :: "char \<Rightarrow> bool" where
  "is_upper c \<longleftrightarrow> 65 \<le> byte c \<and> byte c \<le> 90"

definition is_digit :: "char \<Rightarrow> bool" where
  "is_digit c \<longleftrightarrow> 48 \<le> byte c \<and> byte c \<le> 57"

definition is_lower_alnum :: "char \<Rightarrow> bool" where
  "is_lower_alnum c \<longleftrightarrow> is_lower c \<or> is_digit c"

text \<open>\<open>strings.Cut\<close> at one byte, and \<open>strings.Split\<close> at one byte.\<close>

fun Cut :: "char \<Rightarrow> string \<Rightarrow> string \<times> string \<times> bool" where
  "Cut c [] = ([], [], False)"
| "Cut c (x # xs) =
     (if x = c then ([], xs, True)
      else (case Cut c xs of (b, a, ok) \<Rightarrow> (x # b, a, ok)))"

fun Split :: "char \<Rightarrow> string \<Rightarrow> string list" where
  "Split c [] = [[]]"
| "Split c (x # xs) =
     (if x = c then [] # Split c xs
      else (case Split c xs of [] \<Rightarrow> [[x]] | y # ys \<Rightarrow> (x # y) # ys))"

fun Join :: "string \<Rightarrow> string list \<Rightarrow> string" where
  "Join sep [] = []"
| "Join sep [x] = x"
| "Join sep (x # y # ys) = x @ sep @ Join sep (y # ys)"

text \<open>Decimal rendering (\<open>%d\<close>) of a natural number.\<close>

fun itoa :: "nat \<Rightarrow> string" where
  "itoa n = (if n < 10 then [char_of (48 + n)]
             else itoa (n div 10) @ [char_of (48 + n mod 10)])"

declare itoa.simps [simp del]

subsection \<open>Trimming and lower case are normal forms\<close>

lemma dropWhile_append_last:
  "dropWhile p (xs @ [x]) = (if \<forall>y \<in> set xs. p y then (if p x then [] else [x]) else dropWhile p xs @ [x])"
  by (induction xs) auto

lemma hd_dropWhile_not: "dropWhile p xs = y # ys \<Longrightarrow> \<not> p y"
  by (induction xs) (auto split: if_splits)

lemma dropWhile_id: "(case xs of [] \<Rightarrow> True | x # _ \<Rightarrow> \<not> p x) \<Longrightarrow> dropWhile p xs = xs"
  by (cases xs) auto

lemma rev_eq_snocD: "rev d = t @ (rev xs @ [x]) \<Longrightarrow> d = x # xs @ rev t"
  by (simp add: rev_swap)

lemma TrimFunc_Nil [simp]: "TrimFunc p [] = []"
  by (simp add: TrimFunc_def)

lemma TrimFunc_head: "TrimFunc p s = x # xs \<Longrightarrow> \<not> p x"
proof -
  assume "TrimFunc p s = x # xs"
  then have eq: "dropWhile p (rev (dropWhile p s)) = rev xs @ [x]"
    by (simp add: TrimFunc_def rev_eq_Cons_iff)
  have "takeWhile p (rev (dropWhile p s)) @ (rev xs @ [x]) = rev (dropWhile p s)"
    using takeWhile_dropWhile_id [of p "rev (dropWhile p s)"] unfolding eq .
  then have "dropWhile p s = x # xs @ rev (takeWhile p (rev (dropWhile p s)))"
    by (rule rev_eq_snocD [OF sym])
  then show "\<not> p x" by (rule hd_dropWhile_not)
qed

lemma TrimFunc_last:
  assumes "rev (TrimFunc p s) = x # xs"
  shows "\<not> p x"
  using assms unfolding TrimFunc_def rev_rev_ident by (rule hd_dropWhile_not)

lemma TrimFunc_idem [simp]: "TrimFunc p (TrimFunc p s) = TrimFunc p s"
proof -
  let ?t = "TrimFunc p s"
  have a: "dropWhile p ?t = ?t"
    by (rule dropWhile_id) (auto split: list.splits dest: TrimFunc_head)
  have "dropWhile p (rev ?t) = rev ?t"
  proof (rule dropWhile_id, cases "rev ?t")
    case (Cons x xs)
    then show "case rev ?t of [] \<Rightarrow> True | x # _ \<Rightarrow> \<not> p x"
      using TrimFunc_last [OF Cons] unfolding Cons by simp
  qed simp
  with a show ?thesis by (simp add: TrimFunc_def [of p "TrimFunc p s"])
qed

lemma TrimSpace_idem [simp]: "TrimSpace (TrimSpace s) = TrimSpace s"
  by (simp add: TrimSpace_def)

lemma TrimSpace_Nil [simp]: "TrimSpace [] = []"
  by (simp add: TrimSpace_def)

lemma byte_lower_char: "byte (lower_char c) = (if is_upper c then byte c + 32 else byte c)"
proof (cases "is_upper c")
  case True
  then have "byte c + 32 < 256" by (simp add: is_upper_def)
  with True show ?thesis
    by (simp add: lower_char_def is_upper_def byte_def)
next
  case False
  then show ?thesis by (auto simp: lower_char_def is_upper_def)
qed

lemma lower_char_idem [simp]: "lower_char (lower_char c) = lower_char c"
  using byte_lower_char [of c]
  by (auto simp: lower_char_def [of "lower_char c"] is_upper_def split: if_splits)

lemma ToLower_idem [simp]: "ToLower (ToLower s) = ToLower s"
  by (simp add: ToLower_def)

lemma ToLower_Nil [simp]: "ToLower [] = []"
  by (simp add: ToLower_def)

lemma ToLower_eq_Nil [simp]: "ToLower s = [] \<longleftrightarrow> s = []"
  by (simp add: ToLower_def)

lemma ToLower_append [simp]: "ToLower (s @ t) = ToLower s @ ToLower t"
  by (simp add: ToLower_def)

lemma length_ToLower [simp]: "length (ToLower s) = length s"
  by (simp add: ToLower_def)

lemma is_space_lower_char [simp]: "is_space (lower_char c) = is_space c"
  by (auto simp: is_space_def byte_lower_char is_upper_def)

lemma TrimFunc_map:
  assumes "\<And>c. p (f c) = p c"
  shows "TrimFunc p (map f s) = map f (TrimFunc p s)"
proof -
  have "p \<circ> f = p" using assms by auto
  then show ?thesis by (simp add: TrimFunc_def dropWhile_map rev_map)
qed

lemma TrimSpace_ToLower: "TrimSpace (ToLower s) = ToLower (TrimSpace s)"
  by (simp add: TrimSpace_def ToLower_def TrimFunc_map)

text \<open>The normal form under which the store keeps emails and project refs.\<close>

definition norm_key :: "string \<Rightarrow> string" where
  "norm_key s = ToLower (TrimSpace s)"

lemma norm_key_idem [simp]: "norm_key (norm_key s) = norm_key s"
  by (simp add: norm_key_def TrimSpace_ToLower)

lemma HasPrefix_append [simp]: "HasPrefix (p @ s) p"
  by (simp add: HasPrefix_def)

lemma HasPrefix_iff: "HasPrefix s p \<longleftrightarrow> (\<exists>r. s = p @ r)"
  by (metis HasPrefix_append HasPrefix_def append_take_drop_id)

subsection \<open>Splitting\<close>

lemma Cut_sep: "c \<notin> set s \<Longrightarrow> Cut c (s @ c # t) = (s, t, True)"
  by (induction s) auto

lemma Cut_ok: "Cut c s = (b, a, True) \<Longrightarrow> s = b @ c # a \<and> c \<notin> set b"
  by (induction s arbitrary: b) (auto split: if_splits prod.splits)

lemma Split_id: "c \<notin> set s \<Longrightarrow> Split c s = [s]"
  by (induction s) auto

lemma Split_not_Nil [simp]: "Split c s \<noteq> []"
  by (induction s) (auto split: list.splits)

lemma Split_append_sep: "c \<notin> set s \<Longrightarrow> Split c (s @ c # t) = s # Split c t"
  by (induction s) (auto split: list.splits)

lemma Split_snoc_sep: "Split c (s @ [c]) = Split c s @ [[]]"
  by (induction s) (auto split: list.splits)

lemma set_Split: "x \<in> set s \<Longrightarrow> x = c \<or> (\<exists>l \<in> set (Split c s). x \<in> set l)"
proof (induction s)
  case (Cons y ys)
  obtain z zs where "Split c ys = z # zs" by (cases "Split c ys") simp_all
  with Cons show ?case by auto
qed simp

lemma notin_Split: "l \<in> set (Split c s) \<Longrightarrow> c \<notin> set l"
proof (induction s arbitrary: l)
  case (Cons y ys)
  obtain z zs where "Split c ys = z # zs" by (cases "Split c ys") simp_all
  with Cons show ?case by (auto split: if_splits)
qed simp

section \<open>Maps\<close>

type_synonym ('k, 'v) gomap = "('k \<times> 'v) list"

definition gomap_ok :: "('k, 'v) gomap \<Rightarrow> bool" where
  "gomap_ok m \<longleftrightarrow> distinct (map fst m)"

definition get_or :: "'v \<Rightarrow> ('k, 'v) gomap \<Rightarrow> 'k \<Rightarrow> 'v" where
  "get_or d m k = (case map_of m k of None \<Rightarrow> d | Some v \<Rightarrow> v)"

definition values_of :: "('k, 'v) gomap \<Rightarrow> 'v list" where
  "values_of m = map snd m"

lemma gomap_ok_Nil [simp]: "gomap_ok []"
  by (simp add: gomap_ok_def)

lemma gomap_ok_update [simp]: "gomap_ok m \<Longrightarrow> gomap_ok (AList.update k v m)"
  by (simp add: gomap_ok_def AList.distinct_update)

lemma gomap_ok_delete [simp]: "gomap_ok m \<Longrightarrow> gomap_ok (AList.delete k m)"
  by (simp add: gomap_ok_def AList.distinct_delete)

lemma gomap_ok_Cons: "gomap_ok ((k, v) # m) \<longleftrightarrow> map_of m k = None \<and> gomap_ok m"
  by (auto simp: gomap_ok_def map_of_eq_None_iff)

lemma gomap_ok_map_ran [simp]: "gomap_ok (AList.map_ran f m) = gomap_ok m"
  by (simp add: gomap_ok_def AList.dom_map_ran AList.map_ran_def split_beta comp_def)

lemma map_of_update [simp]:
  "map_of (AList.update k v m) k' = (if k' = k then Some v else map_of m k')"
  by (simp add: AList.update_conv')

lemma map_of_delete [simp]:
  "map_of (AList.delete k m) k' = (if k' = k then None else map_of m k')"
  by (simp add: AList.delete_conv')

lemma map_of_map_ran [simp]: "map_of (AList.map_ran f m) k = map_option (f k) (map_of m k)"
  by (simp add: AList.map_ran_conv)

lemma gomap_mem_iff: "gomap_ok m \<Longrightarrow> (k, v) \<in> set m \<longleftrightarrow> map_of m k = Some v"
  by (auto simp: gomap_ok_def)

lemma get_or_update [simp]: "get_or d (AList.update k v m) k' = (if k' = k then v else get_or d m k')"
  by (simp add: get_or_def)

lemma get_or_delete [simp]: "get_or d (AList.delete k m) k' = (if k' = k then d else get_or d m k')"
  by (simp add: get_or_def)

lemma get_or_Nil [simp]: "get_or d [] k = d"
  by (simp add: get_or_def)

text \<open>Summing over the entries of a map, one key at a time.\<close>

definition sum_map :: "('k \<Rightarrow> 'v \<Rightarrow> 'a::comm_monoid_add) \<Rightarrow> ('k, 'v) gomap \<Rightarrow> 'a" where
  "sum_map f m = sum_list (map (\<lambda>(k, v). f k v) m)"

lemma sum_map_Nil [simp]: "sum_map f [] = 0"
  by (simp add: sum_map_def)

lemma sum_map_Cons [simp]: "sum_map f ((k, v) # m) = f k v + sum_map f m"
  by (simp add: sum_map_def)

lemma sum_map_update_new: "map_of m k = None \<Longrightarrow> sum_map f (AList.update k v m) = sum_map f m + f k v"
  by (induction m) (auto simp: ac_simps split: if_splits)

lemma sum_map_update_old:
  "gomap_ok m \<Longrightarrow> map_of m k = Some u \<Longrightarrow> sum_map f (AList.update k v m) + f k u = sum_map f m + f k v"
proof (induction m)
  case (Cons x m)
  obtain k' v' where x: "x = (k', v')" by (cases x)
  show ?case
  proof (cases "k' = k")
    case True
    with Cons.prems x show ?thesis by (simp add: ac_simps)
  next
    case False
    with Cons x have "sum_map f (AList.update k v m) + f k u = sum_map f m + f k v"
      by (simp add: gomap_ok_Cons)
    with False x show ?thesis by (simp add: add.assoc)
  qed
qed simp

lemma sum_map_delete:
  "gomap_ok m \<Longrightarrow> map_of m k = Some u \<Longrightarrow> sum_map f (AList.delete k m) + f k u = sum_map f m"
proof (induction m)
  case (Cons x m)
  obtain k' v' where x: "x = (k', v')" by (cases x)
  show ?case
  proof (cases "k' = k")
    case True
    with Cons.prems x have "map_of m k = None" by (simp add: gomap_ok_Cons)
    then have "AList.delete k m = m"
      by (simp add: AList.delete_notin_dom map_of_eq_None_iff)
    with True Cons.prems x show ?thesis by (simp add: ac_simps)
  next
    case False
    with Cons x have "sum_map f (AList.delete k m) + f k u = sum_map f m"
      by (simp add: gomap_ok_Cons)
    with False x show ?thesis by (simp add: add.assoc)
  qed
qed simp

section \<open>Sorting\<close>

text \<open>
  \<open>sort.Slice\<close> returns some permutation that is ordered by the comparison, provided the comparison
  is a strict weak order. Nothing else is documented: equal elements may come out in any order.
  Clients use the laws of the locale; \<open>sort_slice\<close> is one function that obeys them.
\<close>

definition weak_order :: "('a \<Rightarrow> 'a \<Rightarrow> bool) \<Rightarrow> bool" where
  "weak_order lt \<longleftrightarrow> (\<forall>x y. lt x y \<longrightarrow> \<not> lt y x) \<and>
     (\<forall>x y z. \<not> lt x y \<longrightarrow> \<not> lt y z \<longrightarrow> \<not> lt x z)"

lemma weak_order_asym: "weak_order lt \<Longrightarrow> lt x y \<Longrightarrow> \<not> lt y x"
  unfolding weak_order_def by blast

lemma weak_order_irrefl: "weak_order lt \<Longrightarrow> \<not> lt x x"
  unfolding weak_order_def by blast

lemma weak_order_trans: "weak_order lt \<Longrightarrow> \<not> lt x y \<Longrightarrow> \<not> lt y z \<Longrightarrow> \<not> lt x z"
  unfolding weak_order_def by blast

locale go_sort =
  fixes srt :: "('a \<Rightarrow> 'a \<Rightarrow> bool) \<Rightarrow> 'a list \<Rightarrow> 'a list"
  assumes mset_srt: "mset (srt lt xs) = mset xs"
    and ordered_srt: "weak_order lt \<Longrightarrow> sorted_wrt (\<lambda>x y. \<not> lt y x) (srt lt xs)"
begin

lemma set_srt: "set (srt lt xs) = set xs"
  by (rule mset_eq_setD [OF mset_srt])

lemma length_srt: "length (srt lt xs) = length xs"
  by (rule mset_eq_length [OF mset_srt])

lemma distinct_srt: "distinct (srt lt xs) = distinct xs"
  by (rule mset_eq_imp_distinct_iff [OF mset_srt])

lemma srt_eq_Nil: "srt lt xs = [] \<longleftrightarrow> xs = []"
  using length_srt [of lt xs] by auto

lemma sum_list_srt: "sum_list (map f (srt lt xs)) = sum_list (map f xs)" for f :: "'a \<Rightarrow> int"
  using mset_srt [of lt xs] by (metis mset_map sum_mset_sum_list)

lemma head_srt:
  assumes "weak_order lt" and "srt lt xs = y # ys" and "x \<in> set xs"
  shows "\<not> lt x y"
proof -
  have "x \<in> set (y # ys)" using assms(3) set_srt [of lt xs] unfolding assms(2) by simp
  moreover have "sorted_wrt (\<lambda>x y. \<not> lt y x) (y # ys)"
    using ordered_srt [OF assms(1), of xs] unfolding assms(2) .
  ultimately show ?thesis using weak_order_irrefl [OF assms(1)] by auto
qed

end

fun insort_by :: "('a \<Rightarrow> 'a \<Rightarrow> bool) \<Rightarrow> 'a \<Rightarrow> 'a list \<Rightarrow> 'a list" where
  "insort_by lt x [] = [x]"
| "insort_by lt x (y # ys) = (if lt y x then y # insort_by lt x ys else x # y # ys)"

definition sort_slice :: "('a \<Rightarrow> 'a \<Rightarrow> bool) \<Rightarrow> 'a list \<Rightarrow> 'a list" where
  "sort_slice lt xs = foldr (insort_by lt) xs []"

lemma mset_insort_by: "mset (insort_by lt x xs) = add_mset x (mset xs)"
  by (induction xs) auto

lemma sorted_insort_by:
  assumes "weak_order lt" and "sorted_wrt (\<lambda>x y. \<not> lt y x) xs"
  shows "sorted_wrt (\<lambda>x y. \<not> lt y x) (insort_by lt x xs)"
  using assms(2)
proof (induction xs)
  case (Cons y ys)
  have set: "set (insort_by lt x ys) = insert x (set ys)"
    using mset_insort_by [of lt x ys] by (metis set_mset_add_mset_insert set_mset_mset)
  show ?case
  proof (cases "lt y x")
    case True
    then have "\<not> lt x y" by (rule weak_order_asym [OF assms(1)])
    with True Cons set show ?thesis by auto
  next
    case False
    then have "\<not> lt z x" if "z \<in> set ys" for z
      using that Cons.prems weak_order_trans [OF assms(1), of z y x] by auto
    with False Cons.prems show ?thesis by auto
  qed
qed simp

interpretation slice: go_sort sort_slice
proof unfold_locales
  fix lt :: "'a \<Rightarrow> 'a \<Rightarrow> bool" and xs
  show "mset (sort_slice lt xs) = mset xs"
    by (induction xs) (simp_all add: sort_slice_def mset_insort_by)
  show "sorted_wrt (\<lambda>x y. \<not> lt y x) (sort_slice lt xs)" if "weak_order lt"
    using that by (induction xs) (simp_all add: sort_slice_def sorted_insort_by)
qed

section \<open>Ledgers\<close>

text \<open>
  A ledger books amounts that are added and taken away again. The total booked under the entries of
  a map changes with the map: a new key adds its amount, a deleted key takes it away, a changed
  entry takes the old amount away and adds the new one. Taking away is only promised to undo an
  addition to a proper amount, because the program clips at zero.
\<close>

locale ledger =
  fixes add :: "'a \<Rightarrow> 'a \<Rightarrow> 'a" and sub :: "'a \<Rightarrow> 'a \<Rightarrow> 'a" and zero :: 'a and proper :: "'a \<Rightarrow> bool"
  assumes add_assoc: "add (add a b) c = add a (add b c)"
    and add_comm: "add a b = add b a"
    and add_zero: "add zero a = a"
    and sub_add: "proper a \<Longrightarrow> sub (add a b) b = a"
    and proper_zero: "proper zero"
    and proper_add: "proper a \<Longrightarrow> proper b \<Longrightarrow> proper (add a b)"
begin

definition total :: "('k \<Rightarrow> 'v \<Rightarrow> 'a) \<Rightarrow> ('k, 'v) gomap \<Rightarrow> 'a" where
  "total f m = foldr (\<lambda>(k, v). add (f k v)) m zero"

lemma add_left_comm: "add a (add b c) = add b (add a c)"
  by (metis add_assoc add_comm)

lemma total_Nil: "total f [] = zero"
  by (simp add: total_def)

lemma total_Cons: "total f ((k, v) # m) = add (f k v) (total f m)"
  by (simp add: total_def)

lemmas total_simps = total_Nil total_Cons

lemma proper_total: "(\<And>k v. (k, v) \<in> set m \<Longrightarrow> proper (f k v)) \<Longrightarrow> proper (total f m)"
  by (induction m) (auto simp: total_simps proper_zero proper_add)

lemma total_cong: "(\<And>k v. (k, v) \<in> set m \<Longrightarrow> f k v = g k v) \<Longrightarrow> total f m = total g m"
  by (induction m) (auto simp: total_simps)

lemma total_update_new: "map_of m k = None \<Longrightarrow> total f (AList.update k v m) = add (total f m) (f k v)"
  by (induction m) (auto simp: total_simps add_assoc add_comm [of zero] split: if_splits)

lemma total_split:
  "gomap_ok m \<Longrightarrow> map_of m k = Some u \<Longrightarrow> total f m = add (total f (AList.delete k m)) (f k u)"
proof (induction m)
  case (Cons x m)
  obtain k' v' where x: "x = (k', v')" by (cases x)
  show ?case
  proof (cases "k' = k")
    case True
    with Cons.prems x have "AList.delete k m = m" and "v' = u"
      by (simp_all add: gomap_ok_Cons AList.delete_notin_dom map_of_eq_None_iff)
    with True x show ?thesis by (simp add: total_simps add_comm)
  next
    case False
    with Cons x show ?thesis by (simp add: gomap_ok_Cons total_simps add_assoc)
  qed
qed simp

lemma total_update_old:
  assumes "gomap_ok m" and "map_of m k = Some u"
  shows "total f (AList.update k v m) = add (total f (AList.delete k m)) (f k v)"
proof -
  have "AList.delete k (AList.update k v m) = AList.delete k m"
    using assms by (induction m) (auto simp: gomap_ok_Cons)
  then show ?thesis
    using total_split [of "AList.update k v m" k v f] assms(1) by simp
qed

lemma total_delete:
  assumes "gomap_ok m" and "map_of m k = Some u" and "\<And>k v. (k, v) \<in> set m \<Longrightarrow> proper (f k v)"
  shows "total f (AList.delete k m) = sub (total f m) (f k u)"
proof -
  have "proper (total f (AList.delete k m))"
    by (rule proper_total) (use assms(3) in \<open>auto simp: AList.delete_eq\<close>)
  with total_split [OF assms(1,2), of f] show ?thesis by (simp add: sub_add)
qed

lemma total_change:
  assumes "gomap_ok m" and "map_of m k = Some u" and "\<And>k v. (k, v) \<in> set m \<Longrightarrow> proper (f k v)"
  shows "total f (AList.update k v m) = add (sub (total f m) (f k u)) (f k v)"
  using total_update_old [OF assms(1,2), of f v] total_delete [OF assms] by simp

end

end
