(* ===== verification/Rate_Limiters.thy ===== *)
theory Rate_Limiters
  imports Go_Prelude
begin

text \<open>
  The two limiters of internal/api/rate_limiters.go: the lockout after failed logins
  (\<open>authAttemptLimiter\<close>) and the fixed-window limiter that guards secret reveals, MFA and the SSO
  callback (\<open>fixedWindowLimiter\<close>). Every operation holds the limiter's mutex, so it is one atomic
  function on the map of attempts. The receiver is never nil here.
\<close>

section \<open>Constants and state\<close>

definition maxAuthFailures :: int where "maxAuthFailures = 5"
definition maxAuthAttemptKeys :: nat where "maxAuthAttemptKeys = 10000"
definition authAttemptWindow :: int where "authAttemptWindow = 10 * minute_ns"
definition authAttemptLockout :: int where "authAttemptLockout = 15 * minute_ns"

lemmas limiter_consts = maxAuthFailures_def authAttemptWindow_def authAttemptLockout_def minute_ns_def second_ns_def

record authAttempt =
  Failures :: int
  FirstSeenAt :: time
  LockedUntil :: time

type_synonym authAttemptLimiter = "(string, authAttempt) gomap"

definition zeroAttempt :: authAttempt where
  "zeroAttempt = \<lparr>Failures = 0, FirstSeenAt = 0, LockedUntil = 0\<rparr>"

definition newAuthAttemptLimiter :: authAttemptLimiter where
  "newAuthAttemptLimiter = []"

section \<open>Login lockout\<close>

definition expired :: "time \<Rightarrow> authAttempt \<Rightarrow> bool" where
  "expired now a \<longleftrightarrow>
     (if \<not> IsZero (LockedUntil a) then now > LockedUntil a
      else \<not> IsZero (FirstSeenAt a) \<and> now - FirstSeenAt a > authAttemptWindow)"

definition pruneLocked :: "time \<Rightarrow> authAttemptLimiter \<Rightarrow> authAttemptLimiter" where
  "pruneLocked now m = filter (\<lambda>(key, a). \<not> expired now a) m"

definition auth_Allow :: "string \<Rightarrow> time \<Rightarrow> authAttemptLimiter \<Rightarrow> (bool \<times> int) \<times> authAttemptLimiter" where
  "auth_Allow key now m =
     (if key = [] then ((True, 0), m)
      else let m = pruneLocked now m; a = get_or zeroAttempt m key in
        if \<not> IsZero (LockedUntil a) \<and> now < LockedUntil a then ((False, LockedUntil a - now), m)
        else ((True, 0), m))"

fun allowAllLoop :: "string list \<Rightarrow> time \<Rightarrow> int \<Rightarrow> authAttemptLimiter \<Rightarrow> int \<times> authAttemptLimiter" where
  "allowAllLoop [] now longest m = (longest, m)"
| "allowAllLoop (key # keys) now longest m =
     (case auth_Allow key now m of ((allowed, retryAfter), m') \<Rightarrow>
        allowAllLoop keys now (if \<not> allowed \<and> retryAfter > longest then retryAfter else longest) m')"

definition auth_AllowAll :: "string list \<Rightarrow> time \<Rightarrow> authAttemptLimiter \<Rightarrow> (bool \<times> int) \<times> authAttemptLimiter" where
  "auth_AllowAll keys now m =
     (case allowAllLoop keys now 0 m of (longest, m') \<Rightarrow> ((longest = 0, longest), m'))"

text \<open>The scan for the oldest entry, and the loop that evicts until the map is small enough.\<close>

definition attempt_age :: "authAttempt \<Rightarrow> time" where
  "attempt_age a = (if IsZero (FirstSeenAt a) then LockedUntil a else FirstSeenAt a)"

fun oldestLoop :: "authAttemptLimiter \<Rightarrow> string \<Rightarrow> time \<Rightarrow> string" where
  "oldestLoop [] oldestKey oldest = oldestKey"
| "oldestLoop ((key, a) # rest) oldestKey oldest =
     (if oldestKey = [] \<or> attempt_age a < oldest then oldestLoop rest key (attempt_age a)
      else oldestLoop rest oldestKey oldest)"

lemma oldestLoop_mem: "oldestLoop m k t = k \<or> oldestLoop m k t \<in> fst ` set m"
  by (induction m k t rule: oldestLoop.induct) auto

lemma length_delete_lt: "k \<in> fst ` set m \<Longrightarrow> length (AList.delete k m) < length m"
  by (induction m) (auto simp: le_imp_less_Suc AList.length_delete_le)

function evictLoop :: "authAttemptLimiter \<Rightarrow> authAttemptLimiter" where
  "evictLoop m =
     (if length m > maxAuthAttemptKeys then
        let oldestKey = oldestLoop m [] 0 in
        if oldestKey = [] then m else evictLoop (AList.delete oldestKey m)
      else m)"
  by pat_completeness auto
termination
proof (relation "measure length")
  fix m :: authAttemptLimiter and k
  assume "k = oldestLoop m [] 0" and "k \<noteq> []"
  then have "k \<in> fst ` set m" using oldestLoop_mem [of m "[]" 0] by auto
  then show "(AList.delete k m, m) \<in> measure length" by (simp add: length_delete_lt)
qed simp

declare evictLoop.simps [simp del]

definition enforceLimitLocked :: "time \<Rightarrow> authAttemptLimiter \<Rightarrow> authAttemptLimiter" where
  "enforceLimitLocked now m =
     (if length m \<le> maxAuthAttemptKeys then m else evictLoop (pruneLocked now m))"

text \<open>One more failure on the entry of a key.\<close>

definition countFailure :: "time \<Rightarrow> authAttempt \<Rightarrow> authAttempt" where
  "countFailure now a =
     (let a = (if IsZero (FirstSeenAt a) \<or> now - FirstSeenAt a > authAttemptWindow
               then zeroAttempt\<lparr>FirstSeenAt := now\<rparr> else a);
          a = a\<lparr>Failures := Failures a + 1\<rparr>
      in if Failures a \<ge> maxAuthFailures then a\<lparr>LockedUntil := now + authAttemptLockout\<rparr> else a)"

definition auth_RecordFailure :: "string \<Rightarrow> time \<Rightarrow> authAttemptLimiter \<Rightarrow> authAttemptLimiter" where
  "auth_RecordFailure key now m =
     (if key = [] then m
      else let m = pruneLocked now m in
        enforceLimitLocked now (AList.update key (countFailure now (get_or zeroAttempt m key)) m))"

definition auth_RecordFailures :: "string list \<Rightarrow> time \<Rightarrow> authAttemptLimiter \<Rightarrow> authAttemptLimiter" where
  "auth_RecordFailures keys now m = fold (\<lambda>key. auth_RecordFailure key now) keys m"

definition auth_RecordSuccess :: "string \<Rightarrow> authAttemptLimiter \<Rightarrow> authAttemptLimiter" where
  "auth_RecordSuccess key m = (if key = [] then m else AList.delete key m)"

definition auth_RecordSuccesses :: "string list \<Rightarrow> authAttemptLimiter \<Rightarrow> authAttemptLimiter" where
  "auth_RecordSuccesses keys m = fold auth_RecordSuccess keys m"

section \<open>Fixed windows\<close>

record fixedWindowLimit =
  Count :: int
  WindowStart :: time

record fixedWindowLimiter =
  limit :: int
  window :: int
  attempts :: "(string, fixedWindowLimit) gomap"

definition newFixedWindowLimiter :: "int \<Rightarrow> int \<Rightarrow> fixedWindowLimiter" where
  "newFixedWindowLimiter lim win = \<lparr>limit = lim, window = win, attempts = []\<rparr>"

definition zeroWindow :: fixedWindowLimit where
  "zeroWindow = \<lparr>Count = 0, WindowStart = 0\<rparr>"

definition dropClosed :: "time \<Rightarrow> fixedWindowLimiter \<Rightarrow> fixedWindowLimiter" where
  "dropClosed now l = l\<lparr>attempts := filter (\<lambda>(k, a). \<not> now - WindowStart a \<ge> window l) (attempts l)\<rparr>"

definition windowClosed :: "time \<Rightarrow> fixedWindowLimiter \<Rightarrow> fixedWindowLimit \<Rightarrow> bool" where
  "windowClosed now l a \<longleftrightarrow> IsZero (WindowStart a) \<or> now - WindowStart a \<ge> window l"

definition fixed_Allow :: "string \<Rightarrow> time \<Rightarrow> fixedWindowLimiter \<Rightarrow> (bool \<times> int) \<times> fixedWindowLimiter" where
  "fixed_Allow key now l =
     (if key = [] \<or> limit l \<le> 0 \<or> window l \<le> 0 then ((True, 0), l)
      else let l = dropClosed now l; a = get_or zeroWindow (attempts l) key in
        if windowClosed now l a then
          ((True, 0), l\<lparr>attempts := AList.update key \<lparr>Count = 1, WindowStart = now\<rparr> (attempts l)\<rparr>)
        else if Count a \<ge> limit l then ((False, window l - (now - WindowStart a)), l)
        else ((True, 0), l\<lparr>attempts := AList.update key (a\<lparr>Count := Count a + 1\<rparr>) (attempts l)\<rparr>))"

fun retryLoop :: "string list \<Rightarrow> time \<Rightarrow> fixedWindowLimiter \<Rightarrow> int \<Rightarrow> int" where
  "retryLoop [] now l retryAfter = retryAfter"
| "retryLoop (key # keys) now l retryAfter =
     (let key = TrimSpace key in
      if key = [] then retryLoop keys now l retryAfter
      else let a = get_or zeroWindow (attempts l) key in
        if windowClosed now l a then retryLoop keys now l retryAfter
        else if Count a \<ge> limit l then
          (let wait = window l - (now - WindowStart a) in
           retryLoop keys now l (if wait > retryAfter then wait else retryAfter))
        else retryLoop keys now l retryAfter)"

fun takeLoop :: "string list \<Rightarrow> time \<Rightarrow> fixedWindowLimiter \<Rightarrow> fixedWindowLimiter" where
  "takeLoop [] now l = l"
| "takeLoop (key # keys) now l =
     (let key = TrimSpace key in
      if key = [] then takeLoop keys now l
      else let a = get_or zeroWindow (attempts l) key in
        if windowClosed now l a then
          takeLoop keys now (l\<lparr>attempts := AList.update key \<lparr>Count = 1, WindowStart = now\<rparr> (attempts l)\<rparr>)
        else takeLoop keys now (l\<lparr>attempts := AList.update key (a\<lparr>Count := Count a + 1\<rparr>) (attempts l)\<rparr>))"

definition TakeAll :: "string list \<Rightarrow> time \<Rightarrow> fixedWindowLimiter \<Rightarrow> (bool \<times> int) \<times> fixedWindowLimiter" where
  "TakeAll keys now l =
     (if limit l \<le> 0 \<or> window l \<le> 0 then ((True, 0), l)
      else let l = dropClosed now l; retryAfter = retryLoop keys now l 0 in
        if retryAfter > 0 then ((False, retryAfter), l) else ((True, 0), takeLoop keys now l))"

definition CheckAll :: "string list \<Rightarrow> time \<Rightarrow> fixedWindowLimiter \<Rightarrow> (bool \<times> int) \<times> fixedWindowLimiter" where
  "CheckAll keys now l =
     (if limit l \<le> 0 \<or> window l \<le> 0 then ((True, 0), l)
      else let l = dropClosed now l; retryAfter = retryLoop keys now l 0 in
        ((retryAfter = 0, retryAfter), l))"

definition fixed_Reset :: "string \<Rightarrow> fixedWindowLimiter \<Rightarrow> fixedWindowLimiter" where
  "fixed_Reset key l = (if key = [] then l else l\<lparr>attempts := AList.delete key (attempts l)\<rparr>)"

definition fixed_ResetAll :: "string list \<Rightarrow> fixedWindowLimiter \<Rightarrow> fixedWindowLimiter" where
  "fixed_ResetAll keys l = fold fixed_Reset keys l"

section \<open>The lockout, key by key\<close>

datatype login_event = Check string time | Failure string time | Success string

fun login_step :: "login_event \<Rightarrow> authAttemptLimiter \<Rightarrow> authAttemptLimiter" where
  "login_step (Check k t) m = snd (auth_Allow k t m)"
| "login_step (Failure k t) m = auth_RecordFailure k t m"
| "login_step (Success k) m = auth_RecordSuccess k m"

definition login_run :: "login_event list \<Rightarrow> authAttemptLimiter" where
  "login_run evs = fold login_step evs newAuthAttemptLimiter"

fun event_time :: "login_event \<Rightarrow> time option" where
  "event_time (Check k t) = Some t"
| "event_time (Failure k t) = Some t"
| "event_time (Success k) = None"

fun failure_key :: "login_event \<Rightarrow> string option" where
  "failure_key (Failure k t) = Some k"
| "failure_key _ = None"

fun event_times :: "login_event list \<Rightarrow> time list" where
  "event_times [] = []"
| "event_times (ev # evs) = (case event_time ev of None \<Rightarrow> event_times evs | Some t \<Rightarrow> t # event_times evs)"

fun failure_keys :: "login_event list \<Rightarrow> string list" where
  "failure_keys [] = []"
| "failure_keys (ev # evs) = (case failure_key ev of None \<Rightarrow> failure_keys evs | Some k \<Rightarrow> k # failure_keys evs)"

text \<open>The times of the failures of one key, in order.\<close>

fun failures_of :: "string \<Rightarrow> login_event list \<Rightarrow> time list" where
  "failures_of k [] = []"
| "failures_of k (Failure k' t # evs) = (if k' = k then t # failures_of k evs else failures_of k evs)"
| "failures_of k (_ # evs) = failures_of k evs"

definition live :: "time \<Rightarrow> authAttempt option \<Rightarrow> authAttempt option" where
  "live now a = (case a of None \<Rightarrow> None | Some x \<Rightarrow> if expired now x then None else Some x)"

definition attempt_or_zero :: "authAttempt option \<Rightarrow> authAttempt" where
  "attempt_or_zero a = (case a of None \<Rightarrow> zeroAttempt | Some x \<Rightarrow> x)"

text \<open>The abstract limiter knows a single key and forgets lazily.\<close>

fun key_step :: "string \<Rightarrow> login_event \<Rightarrow> authAttempt option \<Rightarrow> authAttempt option" where
  "key_step k (Check k' t) a = a"
| "key_step k (Failure k' t) a = (if k' = k then Some (countFailure t (attempt_or_zero (live t a))) else a)"
| "key_step k (Success k') a = (if k' = k then None else a)"

definition key_run :: "string \<Rightarrow> login_event list \<Rightarrow> authAttempt option" where
  "key_run k evs = fold (key_step k) evs None"

text \<open>A history: times are positive and do not go back, and there is room for all keys.\<close>

definition history :: "login_event list \<Rightarrow> time \<Rightarrow> bool" where
  "history evs now \<longleftrightarrow> sorted (event_times evs @ [now]) \<and>
     (\<forall>t \<in> set (event_times evs). 0 < t) \<and>
     card (set (failure_keys evs)) \<le> maxAuthAttemptKeys"

lemma expired_mono: "expired t a \<Longrightarrow> t \<le> t' \<Longrightarrow> expired t' a"
  by (auto simp: expired_def split: if_splits)

lemma live_mono: "t \<le> t' \<Longrightarrow> live t' (live t a) = live t' a"
  by (auto simp: live_def split: option.splits dest: expired_mono)

lemma live_idem [simp]: "live t (live t a) = live t a"
  by (rule live_mono) simp

lemma map_of_prune: "gomap_ok m \<Longrightarrow> map_of (pruneLocked t m) k = live t (map_of m k)"
  by (induction m) (auto simp: pruneLocked_def live_def gomap_ok_Cons)

lemma gomap_ok_prune [simp]: "gomap_ok m \<Longrightarrow> gomap_ok (pruneLocked t m)"
  by (simp add: gomap_ok_def pruneLocked_def distinct_map_filter)

lemma get_or_zero: "get_or zeroAttempt m k = attempt_or_zero (map_of m k)"
  by (simp add: get_or_def attempt_or_zero_def)

lemma keys_prune: "fst ` set (pruneLocked t m) \<subseteq> fst ` set m"
  by (auto simp: pruneLocked_def)

lemma length_keys: "gomap_ok m \<Longrightarrow> length m = card (fst ` set m)"
  unfolding gomap_ok_def using distinct_card [of "map fst m"] by simp

lemma snd_auth_Allow: "snd (auth_Allow k t m) = (if k = [] then m else pruneLocked t m)"
  by (simp add: auth_Allow_def Let_def)

text \<open>One step keeps the concrete entry and the abstract one equal, as long as nothing is evicted.\<close>

lemma login_step_refines:
  assumes ok: "gomap_ok m" and eq: "live t (map_of m k) = live t a" and k: "k \<noteq> []"
    and time: "\<And>t'. event_time ev = Some t' \<Longrightarrow> t \<le> t' \<and> t' \<le> now" and now: "t \<le> now"
    and room: "fst ` set m \<subseteq> S" "set_option (failure_key ev) \<subseteq> S" "finite S" "card S \<le> maxAuthAttemptKeys"
  shows "gomap_ok (login_step ev m)"
    and "fst ` set (login_step ev m) \<subseteq> S"
    and "\<And>t'. (case event_time ev of None \<Rightarrow> t | Some u \<Rightarrow> u) \<le> t' \<Longrightarrow>
           live t' (map_of (login_step ev m) k) = live t' (key_step k ev a)"
proof -
  have later: "live t' (map_of m k) = live t' a" if "t \<le> t'" for t'
    using eq live_mono [OF that] by metis
  have "gomap_ok (login_step ev m) \<and> fst ` set (login_step ev m) \<subseteq> S \<and>
    (\<forall>t'. (case event_time ev of None \<Rightarrow> t | Some u \<Rightarrow> u) \<le> t' \<longrightarrow>
        live t' (map_of (login_step ev m) k) = live t' (key_step k ev a))"
  proof (cases ev)
    case (Check k' u)
    with time have "t \<le> u" by simp
    have "fst ` set (pruneLocked u m) \<subseteq> S" using keys_prune [of u m] room(1) by (rule order_trans)
    with Check ok room(1) \<open>t \<le> u\<close> later show ?thesis
      by (simp add: snd_auth_Allow map_of_prune live_mono)
  next
    case (Success k')
    then show ?thesis
      using ok subset_trans [OF AList.dom_delete_subset [of k' m] room(1)] room(1) later k
      by (auto simp: auth_RecordSuccess_def)
  next
    case (Failure k' u)
    with time have tu: "t \<le> u" by simp
    show ?thesis
    proof (cases "k' = []")
      case True
      with Failure ok room(1) later tu k show ?thesis by (auto simp: auth_RecordFailure_def)
    next
      case False
      define m' where "m' = AList.update k' (countFailure u (get_or zeroAttempt (pruneLocked u m) k')) (pruneLocked u m)"
      have ok': "gomap_ok m'" using ok by (simp add: m'_def)
      have keys: "fst ` set m' \<subseteq> S"
        using room(1,2) Failure keys_prune [of u m] unfolding m'_def AList.dom_update by auto
      have "length m' \<le> maxAuthAttemptKeys"
        using length_keys [OF ok'] card_mono [OF room(3) keys] room(4) by simp
      then have step: "login_step ev m = m'"
        using Failure False by (simp add: auth_RecordFailure_def m'_def Let_def enforceLimitLocked_def)
      have "live t' (map_of m' k) = live t' (key_step k ev a)" if "u \<le> t'" for t'
        using Failure later [OF tu] ok that later [of t'] tu
        by (auto simp: m'_def map_of_prune get_or_zero live_mono)
      with step ok' keys Failure show ?thesis by simp
    qed
  qed
  then show "gomap_ok (login_step ev m)" and "fst ` set (login_step ev m) \<subseteq> S"
    and "\<And>t'. (case event_time ev of None \<Rightarrow> t | Some u \<Rightarrow> u) \<le> t' \<Longrightarrow>
           live t' (map_of (login_step ev m) k) = live t' (key_step k ev a)" by auto
qed

lemma login_run_refines_gen:
  assumes "gomap_ok m" and "live t (map_of m k) = live t a" and "k \<noteq> []"
    and "sorted (t # event_times evs @ [now])"
    and "fst ` set m \<subseteq> S" and "set (failure_keys evs) \<subseteq> S"
    and "finite S" and "card S \<le> maxAuthAttemptKeys"
  shows "gomap_ok (fold login_step evs m) \<and>
    live now (map_of (fold login_step evs m) k) = live now (fold (key_step k) evs a)"
  using assms(1,2,4-6)
proof (induction evs arbitrary: m a t)
  case Nil
  then have "live now (live t (map_of m k)) = live now (live t a)" "t \<le> now" by simp_all
  then show ?case using live_mono [of t now] Nil.prems(1) by simp
next
  case (Cons ev evs)
  define u where "u = (case event_time ev of None \<Rightarrow> t | Some u \<Rightarrow> u)"
  have time: "t \<le> t' \<and> t' \<le> now" if "event_time ev = Some t'" for t'
    using Cons.prems(3) that by auto
  have now: "t \<le> now" using Cons.prems(3) by auto
  have srt: "sorted (u # event_times evs @ [now])"
    using Cons.prems(3) by (auto simp: u_def split: option.splits)
  have fk: "set_option (failure_key ev) \<subseteq> S" "set (failure_keys evs) \<subseteq> S"
    using Cons.prems(5) by (auto simp: split: option.splits if_splits)
  note st = login_step_refines [OF Cons.prems(1,2) assms(3) _ now Cons.prems(4) fk(1) assms(7,8), folded u_def]
  have "gomap_ok (login_step ev m)" and "fst ` set (login_step ev m) \<subseteq> S"
    and "live u (map_of (login_step ev m) k) = live u (key_step k ev a)"
    using st(1) st(2) st(3) [of u] time by blast+
  from Cons.IH [OF this(1) this(3) srt this(2) fk(2)] show ?case by simp
qed

lemma login_run_refines:
  assumes "history evs now" and "k \<noteq> []"
  shows "gomap_ok (login_run evs) \<and> live now (map_of (login_run evs) k) = live now (key_run k evs)"
proof -
  define t where "t = (case event_times evs of [] \<Rightarrow> now | u # us \<Rightarrow> u)"
  have "sorted (t # event_times evs @ [now])"
    using assms(1) by (cases "event_times evs") (auto simp: history_def t_def)
  from login_run_refines_gen [OF _ _ assms(2) this, of "[]" None "set (failure_keys evs)"] assms(1)
  show ?thesis by (simp add: login_run_def key_run_def newAuthAttemptLimiter_def history_def)
qed

lemma auth_Allow_live:
  "gomap_ok m \<Longrightarrow> k \<noteq> [] \<Longrightarrow> fst (auth_Allow k now m) =
     (let a = attempt_or_zero (live now (map_of m k)) in
      if \<not> IsZero (LockedUntil a) \<and> now < LockedUntil a then (False, LockedUntil a - now) else (True, 0))"
  by (simp add: auth_Allow_def Let_def map_of_prune get_or_zero)

section \<open>Properties of the lockout\<close>

lemma lockout_refines:
  assumes "history evs now" and "k \<noteq> []"
  shows "fst (auth_Allow k now (login_run evs)) =
     (let a = attempt_or_zero (live now (key_run k evs)) in
      if \<not> IsZero (LockedUntil a) \<and> now < LockedUntil a then (False, LockedUntil a - now) else (True, 0))"
  using login_run_refines [OF assms] by (simp add: auth_Allow_live [OF _ assms(2)])

text \<open>C10. As long as nothing has to be evicted, the shared map behaves like one private counter per key: after any history of checks,
  failures and successes whose times do not go back and whose failures are on at most 10000 keys, the answer for a key is the one an
  isolated limiter for that key alone gives. Attempts on other keys, and the pruning they trigger, do not matter.\<close>

theorem lockout_refines_per_key:
  assumes "history evs now" and "k \<noteq> []"
  shows "fst (auth_Allow k now (login_run evs)) =
     (let a = attempt_or_zero (live now (key_run k evs)) in
      if \<not> IsZero (LockedUntil a) \<and> now < LockedUntil a then (False, LockedUntil a - now) else (True, 0))"
  using assms by (rule lockout_refines)

theorem lockout_refines_per_key_witness:
  "fst (auth_Allow ''a'' 20 (login_run [Failure ''a'' 5, Failure ''b'' 10])) = (True, 0)"
proof -
  have h: "history [Failure ''a'' 5, Failure ''b'' 10] 20"
    by (simp add: history_def maxAuthAttemptKeys_def card_insert_if)
  show ?thesis
    using lockout_refines_per_key [OF h, of "''a''"]
    by (simp add: key_run_def live_def attempt_or_zero_def countFailure_def zeroAttempt_def expired_def limiter_consts)
qed

lemma key_run_failures:
  "\<forall>ev \<in> set evs. ev \<noteq> Success k \<Longrightarrow>
     fold (key_step k) evs a = fold (\<lambda>t a. Some (countFailure t (attempt_or_zero (live t a)))) (failures_of k evs) a"
proof (induction evs arbitrary: a)
  case (Cons ev evs)
  then show ?case by (cases ev) auto
qed simp

lemma failures_sorted: "sorted (event_times evs) \<Longrightarrow> sorted (failures_of k evs)"
proof -
  have sub: "set (failures_of k xs) \<subseteq> set (event_times xs)" for k xs
    by (induction k xs rule: failures_of.induct) auto
  show "sorted (event_times evs) \<Longrightarrow> sorted (failures_of k evs)"
  proof (induction k evs rule: failures_of.induct)
    case (2 k k' t evs)
    then show ?case using sub [of k evs] by (auto dest: subsetD)
  qed simp_all
qed

text \<open>What the isolated counter holds after failures that all fall into the first one's window.\<close>

definition counted :: "time list \<Rightarrow> authAttempt" where
  "counted ts = \<lparr>Failures = int (length ts), FirstSeenAt = hd ts,
     LockedUntil = (if length ts \<ge> 5 then last ts + authAttemptLockout else 0)\<rparr>"

lemma count_next:
  assumes "ts \<noteq> []" and "0 < hd ts" and "0 < last ts" and "last ts \<le> t" and "t - hd ts \<le> authAttemptWindow" and "hd ts \<le> last ts"
  shows "countFailure t (attempt_or_zero (live t (Some (counted ts)))) = counted (ts @ [t])"
proof -
  have "\<not> expired t (counted ts)"
    using assms by (auto simp: expired_def counted_def limiter_consts)
  then have "attempt_or_zero (live t (Some (counted ts))) = counted ts"
    by (simp add: live_def attempt_or_zero_def)
  moreover have "\<not> (IsZero (FirstSeenAt (counted ts)) \<or> t - FirstSeenAt (counted ts) > authAttemptWindow)"
    using assms by (simp add: counted_def)
  ultimately show ?thesis
    using assms(1) by (auto simp: countFailure_def Let_def counted_def maxAuthFailures_def)
qed

lemma count_in_window:
  assumes "ts \<noteq> []" and "sorted ts" and "\<forall>t \<in> set ts. 0 < t" and "last ts - hd ts \<le> authAttemptWindow"
  shows "fold (\<lambda>t a. Some (countFailure t (attempt_or_zero (live t a)))) ts None = Some (counted ts)"
  using assms
proof (induction ts rule: rev_induct)
  case (snoc t ts)
  show ?case
  proof (cases "ts = []")
    case True
    then show ?thesis using snoc.prems
      by (simp add: live_def attempt_or_zero_def countFailure_def zeroAttempt_def counted_def maxAuthFailures_def)
  next
    case False
    then have mem: "hd ts \<in> set ts" "last ts \<in> set ts" by simp_all
    have w: "t - hd ts \<le> authAttemptWindow" using snoc.prems False by simp
    have le: "last ts \<le> t" "hd ts \<le> last ts"
      using snoc.prems(2) mem by (auto simp: sorted_append) (cases ts; auto)
    have pos: "0 < hd ts" "0 < last ts" using snoc.prems(3) mem by auto
    have srt: "sorted ts" and ps: "\<forall>t \<in> set ts. 0 < t" and w': "last ts - hd ts \<le> authAttemptWindow"
      using snoc.prems w le by (auto simp: sorted_append)
    from snoc.IH [OF False srt ps w'] count_next [OF False pos le(1) w le(2)]
    show ?thesis by simp
  qed
qed simp

text \<open>The lock: a key with no failure before \<open>evs\<close>, no success in it, and five or more failures that
  lie within ten minutes of the first, is refused from the last failure on for fifteen minutes, and
  the answer names the time that is left.\<close>

theorem five_failures_lock:
  assumes "history (pre @ evs) now" and "k \<noteq> []"
    and "failures_of k pre = []" and "\<forall>ev \<in> set (pre @ evs). ev \<noteq> Success k"
    and "5 \<le> length (failures_of k evs)"
    and "last (failures_of k evs) - hd (failures_of k evs) \<le> authAttemptWindow"
    and "now < last (failures_of k evs) + authAttemptLockout"
  shows "fst (auth_Allow k now (login_run (pre @ evs))) =
     (False, last (failures_of k evs) + authAttemptLockout - now)"
proof -
  let ?ts = "failures_of k evs"
  have app: "failures_of k (xs @ ys) = failures_of k xs @ failures_of k ys" for xs ys
    by (induction k xs rule: failures_of.induct) auto
  have all: "failures_of k (pre @ evs) = ?ts" using assms(3) by (simp add: app)
  have sub: "set (failures_of k xs) \<subseteq> set (event_times xs)" for k xs
    by (induction k xs rule: failures_of.induct) auto
  have ne: "?ts \<noteq> []" using assms(5) by auto
  have pos: "\<forall>t \<in> set ?ts. 0 < t" using assms(1) sub [of k "pre @ evs"] all by (auto simp: history_def)
  have srt: "sorted ?ts"
    using assms(1) failures_sorted [of "pre @ evs" k] all by (simp add: history_def sorted_append)
  have run: "key_run k (pre @ evs) = Some (counted ?ts)"
    unfolding key_run_def key_run_failures [OF assms(4)] all by (rule count_in_window [OF ne srt pos assms(6)])
  have "0 < last ?ts" using pos ne by simp
  then have "0 < last ?ts + authAttemptLockout" by (simp add: limiter_consts)
  with lockout_refines [OF assms(1,2)] run assms(7) show ?thesis
    using assms(5) by (simp add: live_def expired_def attempt_or_zero_def counted_def)
qed

theorem five_failures_lock_witness:
  "fst (auth_Allow ''a'' 9 (login_run ([Failure ''b'' 1] @ [Failure ''a'' t. t \<leftarrow> [2, 3, 4, 5, 6]]))) =
     (False, 899999999997)"
proof -
  have h: "history ([Failure ''b'' 1] @ [Failure ''a'' t. t \<leftarrow> [2, 3, 4, 5, 6]]) 9"
    by (simp add: history_def maxAuthAttemptKeys_def card_insert_if)
  show ?thesis
    using five_failures_lock [OF h, of "''a''"] by (simp add: limiter_consts)
qed

lemma oldestLoop_found: "m \<noteq> [] \<Longrightarrow> [] \<notin> fst ` set m \<Longrightarrow> oldestLoop m k t \<noteq> []"
proof (induction m arbitrary: k t)
  case (Cons x m)
  obtain k' a where x: "x = (k', a)" by (cases x)
  show ?case
  proof (cases "m = []")
    case True
    with Cons.prems x show ?thesis by auto
  next
    case False
    with Cons x show ?thesis by auto
  qed
qed simp

lemma evictLoop_bound: "[] \<notin> fst ` set m \<Longrightarrow> length (evictLoop m) \<le> maxAuthAttemptKeys \<and> fst ` set (evictLoop m) \<subseteq> fst ` set m"
proof (induction m rule: evictLoop.induct)
  case (1 m)
  show ?case
  proof (cases "length m > maxAuthAttemptKeys")
    case True
    then have "m \<noteq> []" by auto
    with "1.prems" have ne: "oldestLoop m [] 0 \<noteq> []" by (intro oldestLoop_found)
    have sub: "fst ` set (AList.delete (oldestLoop m [] 0) m) \<subseteq> fst ` set m" by (rule AList.dom_delete_subset)
    with "1.prems" have "[] \<notin> fst ` set (AList.delete (oldestLoop m [] 0) m)" by blast
    note IH = "1.IH" [OF True refl ne this]
    with subset_trans [OF conjunct2 [OF IH] sub] True ne show ?thesis
      by (simp add: evictLoop.simps [of m] Let_def)
  next
    case False
    then show ?thesis by (simp add: evictLoop.simps [of m])
  qed
qed

lemma oldestLoop_oldest:
  assumes "oldestLoop m k0 t0 = k" and "k \<noteq> []" and "[] \<notin> fst ` set m"
  shows "(\<exists>t. (k = k0 \<and> t = t0 \<or> (\<exists>a. (k, a) \<in> set m \<and> t = attempt_age a)) \<and> (k0 \<noteq> [] \<longrightarrow> t \<le> t0) \<and> (\<forall>(k', b) \<in> set m. t \<le> attempt_age b))"
  using assms
proof (induction m k0 t0 rule: oldestLoop.induct)
  case (1 k0 t0)
  then show ?case by auto
next
  case (2 key a rest k0 t0)
  then have key: "key \<noteq> []" "[] \<notin> fst ` set rest" by auto
  show ?case
  proof (cases "k0 = [] \<or> attempt_age a < t0")
    case True
    with 2 key obtain t where t: "k = key \<and> t = attempt_age a \<or> (\<exists>a. (k, a) \<in> set rest \<and> t = attempt_age a)" "t \<le> attempt_age a"
      "\<forall>(k', b) \<in> set rest. t \<le> attempt_age b" by auto
    with True show ?thesis by (intro exI [of _ t]) auto
  next
    case False
    with 2 key obtain t where t: "k = k0 \<and> t = t0 \<or> (\<exists>a. (k, a) \<in> set rest \<and> t = attempt_age a)" "t \<le> t0"
      "\<forall>(k', b) \<in> set rest. t \<le> attempt_age b" by auto
    with False show ?thesis by (intro exI [of _ t]) auto
  qed
qed

lemma evictLoop_oldest:
  assumes "gomap_ok m" and "[] \<notin> fst ` set m" and "map_of m k = Some a" and "map_of (evictLoop m) k = None"
    and "map_of (evictLoop m) k' = Some b"
  shows "attempt_age a \<le> attempt_age b"
  using assms
proof (induction m rule: evictLoop.induct)
  case (1 m)
  define old where "old = oldestLoop m [] 0"
  show ?case
  proof (cases "length m > maxAuthAttemptKeys")
    case True
    then have "m \<noteq> []" by auto
    with "1.prems"(2) have ne: "old \<noteq> []" unfolding old_def by (intro oldestLoop_found)
    have step: "evictLoop m = evictLoop (AList.delete old m)" using True ne by (simp add: evictLoop.simps [of m] Let_def old_def)
    have keys: "[] \<notin> fst ` set (AList.delete old m)" using "1.prems"(2) AList.dom_delete_subset [of old m] by blast
    have kept: "map_of m k' = Some b"
    proof -
      have "map_of (evictLoop n) k' = Some b \<Longrightarrow> map_of n k' = Some b" for n
      proof (induction n rule: evictLoop.induct)
        case (1 n)
        then show ?case by (subst (asm) (2) evictLoop.simps) (auto simp: Let_def split: if_splits)
      qed
      with "1.prems"(5) show ?thesis by blast
    qed
    show ?thesis
    proof (cases "k = old")
      case True
      obtain t x where x: "(old, x) \<in> set m" "t = attempt_age x" and low: "\<forall>(k', b) \<in> set m. t \<le> attempt_age b"
        using oldestLoop_oldest [OF old_def [symmetric] ne "1.prems"(2)] ne by auto
      from x(1) "1.prems"(1,3) True have "x = a" by (simp add: gomap_mem_iff)
      with low x(2) kept show ?thesis by (auto dest: map_of_SomeD)
    next
      case False
      have "map_of (AList.delete old m) k = Some a" using False "1.prems"(3) by simp
      with "1.IH" [OF True old_def ne] keys "1.prems"(1,4,5) show ?thesis unfolding step by simp
    qed
  next
    case False
    with "1.prems"(3,4) show ?thesis by (simp add: evictLoop.simps [of m])
  qed
qed

definition limiter_inv :: "authAttemptLimiter \<Rightarrow> bool" where
  "limiter_inv m \<longleftrightarrow> gomap_ok m \<and> [] \<notin> fst ` set m \<and> length m \<le> maxAuthAttemptKeys"

lemma limiter_inv_prune: "limiter_inv m \<Longrightarrow> limiter_inv (pruneLocked t m)"
proof -
  have "length (pruneLocked t m) \<le> length m" unfolding pruneLocked_def by (rule length_filter_le)
  then show "limiter_inv m \<Longrightarrow> limiter_inv (pruneLocked t m)" using keys_prune [of t m] by (auto simp: limiter_inv_def)
qed

lemma gomap_ok_evict: "gomap_ok m \<Longrightarrow> gomap_ok (evictLoop m)"
proof (induction m rule: evictLoop.induct)
  case (1 m)
  then show ?case by (subst evictLoop.simps) (simp add: Let_def)
qed

lemma limiter_inv_step: "limiter_inv m \<Longrightarrow> limiter_inv (login_step ev m)"
proof (cases ev)
  case (Check k t)
  then show "limiter_inv m \<Longrightarrow> limiter_inv (login_step ev m)" using limiter_inv_prune [of m t] by (simp add: snd_auth_Allow)
next
  case (Success k)
  then show "limiter_inv m \<Longrightarrow> limiter_inv (login_step ev m)"
    using AList.length_delete_le [of k m] AList.dom_delete_subset [of k m] by (auto simp: auth_RecordSuccess_def limiter_inv_def)
next
  case (Failure k t)
  assume inv: "limiter_inv m"
  show "limiter_inv (login_step ev m)"
  proof (cases "k = []")
    case False
    define m' where "m' = AList.update k (countFailure t (get_or zeroAttempt (pruneLocked t m) k)) (pruneLocked t m)"
    have "gomap_ok m'" "[] \<notin> fst ` set m'"
      using limiter_inv_prune [OF inv] False unfolding m'_def AList.dom_update by (auto simp: limiter_inv_def)
    moreover from this have "[] \<notin> fst ` set (pruneLocked t m')" using keys_prune [of t m'] by blast
    ultimately have "limiter_inv (enforceLimitLocked t m')"
      using evictLoop_bound [of "pruneLocked t m'"] gomap_ok_evict [of "pruneLocked t m'"] by (auto simp: enforceLimitLocked_def limiter_inv_def)
    with Failure False show ?thesis by (simp add: auth_RecordFailure_def m'_def Let_def)
  qed (use inv Failure in \<open>simp add: auth_RecordFailure_def\<close>)
qed

lemma limiter_inv_run: "limiter_inv (login_run evs)"
proof -
  have "limiter_inv (fold login_step evs m)" if "limiter_inv m" for m
    using that by (induction evs arbitrary: m) (simp_all add: limiter_inv_step)
  then show ?thesis by (simp add: login_run_def newAuthAttemptLimiter_def limiter_inv_def)
qed

text \<open>Memory stays bounded: whatever the callers send, the limiter never tracks more than 10000
  keys, so no flood of made-up account names grows the map without end.\<close>

theorem lockout_memory_bounded: "length (login_run evs) \<le> maxAuthAttemptKeys"
  using limiter_inv_run [of evs] by (simp add: limiter_inv_def)



section \<open>Properties of the fixed windows\<close>

lemma retryLoop_ge: "r \<le> retryLoop keys now l r"
proof (induction keys arbitrary: r)
  case (Cons k ks)
  show ?case
    using Cons.IH [of r] Cons.IH [of "window l - (now - WindowStart (get_or zeroWindow (attempts l) (TrimSpace k)))"]
    by (simp add: Let_def)
qed simp

lemma dropClosed_fields [simp]: "limit (dropClosed now l) = limit l" "window (dropClosed now l) = window l"
  by (simp_all add: dropClosed_def)

lemma dropClosed_idem [simp]: "dropClosed now (dropClosed now l) = dropClosed now l"
  by (simp add: dropClosed_def conj_commute)

text \<open>Checking is free and tells the truth: \<open>CheckAll\<close> answers exactly what \<open>TakeAll\<close> would answer
  at that moment, and a check changes nothing about what a later \<open>TakeAll\<close> at that moment answers or
  leaves behind. A refused \<open>TakeAll\<close> takes nothing: it leaves the same limiter as a check.\<close>

theorem check_agrees_with_take:
  "fst (CheckAll keys now l) = fst (TakeAll keys now l) \<and>
   TakeAll keys now (snd (CheckAll keys' now l)) = TakeAll keys now l \<and>
   (fst (fst (TakeAll keys now l)) \<or> snd (TakeAll keys now l) = snd (CheckAll keys now l))"
  using retryLoop_ge [of 0 keys now "dropClosed now l"]
  by (auto simp: CheckAll_def TakeAll_def Let_def)

lemma get_drop:
  assumes "gomap_ok (attempts l)"
  shows "map_of (attempts (dropClosed now l)) k =
    (case map_of (attempts l) k of None \<Rightarrow> None
     | Some a \<Rightarrow> if now - WindowStart a \<ge> window l then None else Some a)"
proof -
  have "map_of (filter (\<lambda>(k, a). \<not> now - WindowStart a \<ge> w) m) k =
      (case map_of m k of None \<Rightarrow> None | Some a \<Rightarrow> if now - WindowStart a \<ge> w then None else Some a)"
    if "gomap_ok m" for m w using that by (induction m) (auto simp: gomap_ok_Cons split: option.splits)
  with assms show ?thesis by (simp add: dropClosed_def)
qed

lemma gomap_ok_drop [simp]: "gomap_ok (attempts l) \<Longrightarrow> gomap_ok (attempts (dropClosed now l))"
  by (simp add: gomap_ok_def dropClosed_def distinct_map_filter)

text \<open>A run of single-key requests in time order; \<open>granted\<close> counts those of one key that were let through.\<close>

fun granted :: "string \<Rightarrow> (string \<times> time) list \<Rightarrow> fixedWindowLimiter \<Rightarrow> int" where
  "granted k [] l = 0"
| "granted k ((k', t) # reqs) l =
     (case fixed_Allow k' t l of ((ok, _), l') \<Rightarrow> (if k' = k \<and> ok then 1 else 0) + granted k reqs l')"

text \<open>The entry of a key as a request at a given time sees it.\<close>

definition open_at :: "time \<Rightarrow> int \<Rightarrow> fixedWindowLimit option \<Rightarrow> fixedWindowLimit option" where
  "open_at t win a = (case a of None \<Rightarrow> None | Some x \<Rightarrow> if t - WindowStart x \<ge> win then None else Some x)"

definition limiter_ok :: "fixedWindowLimiter \<Rightarrow> bool" where
  "limiter_ok l \<longleftrightarrow> gomap_ok (attempts l) \<and> 0 < limit l \<and> 0 < window l \<and>
     (\<forall>k x. map_of (attempts l) k = Some x \<longrightarrow> 0 < WindowStart x \<and> 0 \<le> Count x)"

lemma limiter_okD:
  assumes "limiter_ok l"
  shows "gomap_ok (attempts l)" and "0 < limit l" and "0 < window l"
    and "map_of (attempts l) k = Some x \<Longrightarrow> 0 < WindowStart x"
    and "map_of (attempts l) k = Some x \<Longrightarrow> 0 \<le> Count x"
  using assms unfolding limiter_ok_def by blast+

lemma open_at_Some: "open_at t w a = Some x \<longleftrightarrow> a = Some x \<and> t - WindowStart x < w"
  by (auto simp: open_at_def split: option.splits)

lemma get_open:
  assumes "limiter_ok l"
  shows "map_of (attempts (dropClosed t l)) k = open_at t (window l) (map_of (attempts l) k)"
  unfolding open_at_def by (rule get_drop [OF limiter_okD(1) [OF assms]])

lemma fixed_Allow_eq:
  assumes ok: "limiter_ok l" and "k \<noteq> []"
  shows "fixed_Allow k t l =
    (case open_at t (window l) (map_of (attempts l) k) of
       None \<Rightarrow> ((True, 0), dropClosed t l\<lparr>attempts := AList.update k \<lparr>Count = 1, WindowStart = t\<rparr> (attempts (dropClosed t l))\<rparr>)
     | Some x \<Rightarrow> if Count x \<ge> limit l then ((False, window l - (t - WindowStart x)), dropClosed t l)
        else ((True, 0), dropClosed t l\<lparr>attempts := AList.update k (x\<lparr>Count := Count x + 1\<rparr>) (attempts (dropClosed t l))\<rparr>))"
proof -
  have pos: "\<not> limit l \<le> 0" "\<not> window l \<le> 0" using limiter_okD(2,3) [OF ok] by simp_all
  show ?thesis
  proof (cases "open_at t (window l) (map_of (attempts l) k)")
    case None
    then have "windowClosed t l (get_or zeroWindow (attempts (dropClosed t l)) k)"
      by (simp add: get_or_def get_open [OF ok] windowClosed_def zeroWindow_def)
    with None assms(2) pos show ?thesis by (simp add: fixed_Allow_def Let_def windowClosed_def)
  next
    case (Some x)
    then have g: "get_or zeroWindow (attempts (dropClosed t l)) k = x"
      by (simp add: get_or_def get_open [OF ok])
    have "0 < WindowStart x" and "t - WindowStart x < window l"
      using Some limiter_okD(4) [OF ok] unfolding open_at_Some by blast+
    then have "\<not> windowClosed t l x" by (simp add: windowClosed_def)
    with Some assms(2) pos g show ?thesis by (simp add: fixed_Allow_def Let_def windowClosed_def)
  qed
qed

lemma fixed_Allow_fields [simp]:
  "limit (snd (fixed_Allow k' t l)) = limit l" "window (snd (fixed_Allow k' t l)) = window l"
  by (simp_all add: fixed_Allow_def Let_def)

lemma fixed_Allow_answer:
  assumes "limiter_ok l" and "k' \<noteq> []"
  shows "fst (fst (fixed_Allow k' t l)) \<longleftrightarrow>
      (case open_at t (window l) (map_of (attempts l) k') of None \<Rightarrow> True | Some x \<Rightarrow> Count x < limit l)"
  unfolding fixed_Allow_eq [OF assms] by (simp split: option.split)

text \<open>What one request does to the entry of \<open>k\<close>, seen at its time.\<close>

lemma fixed_Allow_entry:
  assumes "limiter_ok l" and "k' \<noteq> []"
  shows "map_of (attempts (snd (fixed_Allow k' t l))) k =
      (case open_at t (window l) (map_of (attempts l) k) of
         None \<Rightarrow> if k' = k then Some \<lparr>Count = 1, WindowStart = t\<rparr> else None
       | Some x \<Rightarrow> if k' = k \<and> Count x < limit l then Some (x\<lparr>Count := Count x + 1\<rparr>) else Some x)"
proof (cases "k' = k")
  case True
  have "k \<noteq> []" using assms(2) True by simp
  show ?thesis unfolding True fixed_Allow_eq [OF assms(1) \<open>k \<noteq> []\<close>]
    by (simp add: get_open [OF assms(1)] split: option.split)
next
  case False
  then have "k \<noteq> k'" by simp
  then show ?thesis unfolding fixed_Allow_eq [OF assms]
    by (simp add: get_open [OF assms(1)] split: option.split)
qed

lemma fixed_Allow_ok:
  assumes ok: "limiter_ok l" and t: "0 < t"
  shows "limiter_ok (snd (fixed_Allow k' t l))"
proof (cases "k' = []")
  case True
  with ok show ?thesis by (simp add: fixed_Allow_def)
next
  case False
  have "gomap_ok (attempts (snd (fixed_Allow k' t l)))"
    unfolding fixed_Allow_eq [OF ok False] using limiter_okD(1) [OF ok] by (simp split: option.split)
  moreover have "0 < WindowStart x \<and> 0 \<le> Count x" if "map_of (attempts (snd (fixed_Allow k' t l))) k = Some x" for k x
  proof (cases "open_at t (window l) (map_of (attempts l) k)")
    case None
    with that t show ?thesis unfolding fixed_Allow_entry [OF ok False] by (auto split: if_splits)
  next
    case (Some y)
    then have "0 < WindowStart y \<and> 0 \<le> Count y"
      using limiter_okD(4,5) [OF ok] unfolding open_at_Some by blast
    with that Some show ?thesis unfolding fixed_Allow_entry [OF ok False] by (auto split: if_splits)
  qed
  ultimately show ?thesis using limiter_okD(2,3) [OF ok] by (simp add: limiter_ok_def)
qed

text \<open>While a window stays open, it grants at most what is left of its limit.\<close>

lemma granted_open:
  assumes "limiter_ok l" and "k \<noteq> []" and "\<forall>(k', t) \<in> set reqs. 0 < t \<and> t < WindowStart x + window l"
    and "map_of (attempts l) k = Some x"
  shows "granted k reqs l \<le> max 0 (limit l - Count x)"
  using assms
proof (induction reqs arbitrary: l x)
  case (Cons r reqs)
  obtain k' t where r: "r = (k', t)" by (cases r)
  have t: "0 < t" "t < WindowStart x + window l" using Cons.prems(3) r by auto
  define l' where "l' = snd (fixed_Allow k' t l)"
  have split: "granted k (r # reqs) l = (if k' = k \<and> fst (fst (fixed_Allow k' t l)) then 1 else 0) + granted k reqs l'"
    by (simp add: r l'_def split: prod.splits)
  have ok': "limiter_ok l'" unfolding l'_def by (rule fixed_Allow_ok [OF Cons.prems(1) t(1)])
  show ?case
  proof (cases "k' = []")
    case True
    then have "l' = l" and "k' \<noteq> k" using Cons.prems(2) by (auto simp: l'_def fixed_Allow_def)
    with Cons.IH [OF Cons.prems(1,2) _ Cons.prems(4)] Cons.prems(3) split show ?thesis by auto
  next
    case False
    have o: "open_at t (window l) (map_of (attempts l) k) = Some x"
      using t Cons.prems(4) by (simp add: open_at_def)
    have f: "limit l' = limit l" "window l' = window l"
      "map_of (attempts l') k = (if k' = k \<and> Count x < limit l then Some (x\<lparr>Count := Count x + 1\<rparr>) else Some x)"
      using fixed_Allow_entry [OF Cons.prems(1) False, of t k] o by (simp_all add: l'_def)
    have ans: "fst (fst (fixed_Allow k t l)) \<longleftrightarrow> Count x < limit l"
      using fixed_Allow_answer [OF Cons.prems(1,2), of t] o by simp
    have w: "\<forall>(k', t) \<in> set reqs. 0 < t \<and> t < WindowStart x + window l'"
      using Cons.prems(3) unfolding f by simp
    show ?thesis
    proof (cases "k' = k \<and> Count x < limit l")
      case True
      have "granted k reqs l' \<le> max 0 (limit l' - Count (x\<lparr>Count := Count x + 1\<rparr>))"
        by (rule Cons.IH [OF ok' Cons.prems(2)]) (use w f True in simp_all)
      with True f(1) split show ?thesis by (simp split: if_splits)
    next
      case False
      have "granted k reqs l' \<le> max 0 (limit l' - Count x)"
        by (rule Cons.IH [OF ok' Cons.prems(2) w]) (use f False in simp)
      moreover have "\<not> (k' = k \<and> fst (fst (fixed_Allow k' t l)))" using False ans by blast
      ultimately show ?thesis using f(1) unfolding split by (simp only: if_False)
    qed
  qed
qed simp

text \<open>With no window open, at most the limit is granted before the next window could open.\<close>

lemma granted_closed:
  assumes "limiter_ok l" and "k \<noteq> []" and "\<forall>(k', t) \<in> set reqs. 0 < t \<and> t0 \<le> t \<and> t < t0 + window l"
    and "\<And>t. t0 \<le> t \<Longrightarrow> open_at t (window l) (map_of (attempts l) k) = None"
  shows "granted k reqs l \<le> limit l"
  using assms
proof (induction reqs arbitrary: l)
  case Nil
  then show ?case by (simp add: limiter_ok_def)
next
  case (Cons r reqs)
  obtain k' t where r: "r = (k', t)" by (cases r)
  have t: "0 < t" "t0 \<le> t" "t < t0 + window l" using Cons.prems(3) r by auto
  define l' where "l' = snd (fixed_Allow k' t l)"
  have split: "granted k (r # reqs) l = (if k' = k \<and> fst (fst (fixed_Allow k' t l)) then 1 else 0) + granted k reqs l'"
    by (simp add: r l'_def split: prod.splits)
  have ok': "limiter_ok l'" unfolding l'_def by (rule fixed_Allow_ok [OF Cons.prems(1) t(1)])
  show ?case
  proof (cases "k' = []")
    case True
    then have "l' = l" and "k' \<noteq> k" using Cons.prems(2) by (auto simp: l'_def fixed_Allow_def)
    with Cons.IH [OF Cons.prems(1,2) _ Cons.prems(4)] Cons.prems(3) split show ?thesis by auto
  next
    case False
    have f: "limit l' = limit l" "window l' = window l"
      "map_of (attempts l') k = (if k' = k then Some \<lparr>Count = 1, WindowStart = t\<rparr> else None)"
      using fixed_Allow_entry [OF Cons.prems(1) False, of t k] Cons.prems(4) [OF t(2)] by (simp_all add: l'_def)
    show ?thesis
    proof (cases "k' = k")
      case True
      with f have "map_of (attempts l') k = Some \<lparr>Count = 1, WindowStart = t\<rparr>" by simp
      moreover have "\<forall>(k', u) \<in> set reqs. 0 < u \<and> u < WindowStart \<lparr>Count = 1, WindowStart = t\<rparr> + window l'"
        using Cons.prems(3) t f(2) by auto
      ultimately have "granted k reqs l' \<le> max 0 (limit l' - 1)"
        using granted_open [OF ok' Cons.prems(2)] by fastforce
      with f(1) limiter_okD(2) [OF Cons.prems(1)] split show ?thesis by simp
    next
      case False
      with f have "open_at u (window l') (map_of (attempts l') k) = None" for u by (simp add: open_at_def)
      from Cons.IH [OF ok' Cons.prems(2) _ this] Cons.prems(3) False f split show ?thesis by auto
    qed
  qed
qed

lemma granted_append: "granted k (xs @ ys) l = granted k xs l + granted k ys (fold (\<lambda>(k', t) l. snd (fixed_Allow k' t l)) xs l)"
  by (induction k xs l rule: granted.induct) (auto split: prod.splits)

lemma fold_Allow_ok:
  assumes "limiter_ok l" and "\<forall>(k', t) \<in> set reqs. 0 < t \<and> P t"
  shows "limiter_ok (fold (\<lambda>(k', t) l. snd (fixed_Allow k' t l)) reqs l) \<and>
    limit (fold (\<lambda>(k', t) l. snd (fixed_Allow k' t l)) reqs l) = limit l \<and>
    window (fold (\<lambda>(k', t) l. snd (fixed_Allow k' t l)) reqs l) = window l"
  using assms
proof (induction reqs arbitrary: l)
  case (Cons r reqs)
  obtain k' t where r: "r = (k', t)" by (cases r)
  with Cons.prems have t: "0 < t" by auto
  from Cons.IH [OF fixed_Allow_ok [OF Cons.prems(1) t, of k']] Cons.prems(2) r show ?case by simp
qed simp

text \<open>The window limit holds under interleaving: among requests that arrive in time order within
  less than one window, a key is granted at most twice its limit, and at most its limit when none of
  its windows is open at the start. Requests for other keys in between do not matter.\<close>

theorem window_limit:
  assumes "limiter_ok l" and "k \<noteq> []" and "sorted (map snd reqs)"
    and "\<forall>(k', t) \<in> set reqs. 0 < t \<and> t0 \<le> t \<and> t < t0 + window l"
  shows "granted k reqs l \<le> 2 * limit l \<and>
     (map_of (attempts l) k = None \<longrightarrow> granted k reqs l \<le> limit l)"
proof (cases "map_of (attempts l) k")
  case None
  then have "granted k reqs l \<le> limit l"
    by (intro granted_closed [OF assms(1,2,4)]) (simp add: open_at_def)
  with assms(1) None show ?thesis by (simp add: limiter_ok_def)
next
  case (Some x)
  define c where "c = WindowStart x + window l"
  define xs where "xs = takeWhile (\<lambda>(k', t). t < c) reqs"
  define ys where "ys = dropWhile (\<lambda>(k', t). t < c) reqs"
  define l' where "l' = fold (\<lambda>(k', t) l. snd (fixed_Allow k' t l)) xs l"
  have app: "reqs = xs @ ys" by (simp add: xs_def ys_def)
  have xs: "\<forall>(k', t) \<in> set xs. 0 < t \<and> t < WindowStart x + window l"
    using assms(4) set_takeWhileD unfolding xs_def c_def by fastforce
  have g1: "granted k xs l \<le> limit l"
    using granted_open [OF assms(1,2) xs Some] limiter_okD(2,5) [OF assms(1)] Some by fastforce
  have ok': "limiter_ok l'" "limit l' = limit l" "window l' = window l"
    using fold_Allow_ok [OF assms(1) xs] unfolding l'_def by blast+
  have start: "map_of (attempts l') k = None \<or> (\<exists>y. map_of (attempts l') k = Some y \<and> WindowStart y = WindowStart x)"
    using xs assms(1) Some unfolding l'_def
  proof (induction xs arbitrary: l x)
    case (Cons r zs)
    obtain k' t where r: "r = (k', t)" by (cases r)
    show ?case
    proof (cases "k' = []")
      case True
      then have "snd (fixed_Allow k' t l) = l" by (simp add: fixed_Allow_def)
      with Cons r show ?thesis by auto
    next
      case False
      have t: "0 < t" "t < WindowStart x + window l" using Cons.prems(1) r by auto
      then have o: "open_at t (window l) (map_of (attempts l) k) = Some x"
        using Cons.prems(3) by (simp add: open_at_def)
      have "window (snd (fixed_Allow k' t l)) = window l" by (simp add: fixed_Allow_def Let_def)
      moreover obtain y where "map_of (attempts (snd (fixed_Allow k' t l))) k = Some y" "WindowStart y = WindowStart x"
        using fixed_Allow_entry [OF Cons.prems(2) False, of t k] o by (auto split: if_splits)
      ultimately show ?thesis
        using Cons.IH [OF _ fixed_Allow_ok [OF Cons.prems(2) t(1)], of y] Cons.prems(1) r by auto
    qed
  qed auto
  show ?thesis
  proof (cases ys)
    case Nil
    with g1 app assms(1) Some show ?thesis by (simp add: limiter_ok_def)
  next
    case (Cons r zs)
    obtain k0 u where r: "r = (k0, u)" by (cases r)
    have cu: "c \<le> u" using hd_dropWhile_not [of "\<lambda>(k', t). t < c" reqs r zs] Cons r by (simp add: ys_def)
    have t0u: "t0 \<le> u" using assms(4) app Cons r by auto
    have after: "u \<le> t" if "(k', t) \<in> set ys" for k' t
      using assms(3) that unfolding app map_append sorted_append Cons r by auto
    have "0 < t \<and> u \<le> t \<and> t < u + window l'" if "(k', t) \<in> set ys" for k' t
    proof -
      from that have "(k', t) \<in> set reqs" unfolding app by simp
      with assms(4) have "0 < t \<and> t < t0 + window l" by blast
      with after [OF that] t0u ok'(3) show ?thesis by simp
    qed
    then have "\<forall>(k', t) \<in> set ys. 0 < t \<and> u \<le> t \<and> t < u + window l'" by blast
    moreover have "open_at t (window l') (map_of (attempts l') k) = None" if "u \<le> t" for t
      using start that cu ok'(3) by (auto simp: open_at_def c_def)
    ultimately have "granted k ys l' \<le> limit l'" by (rule granted_closed [OF ok'(1) assms(2)])
    with g1 ok'(2) app Some show ?thesis by (simp add: granted_append l'_def)
  qed
qed

theorem window_limit_witness:
  "granted ''a'' [(''a'', 1), (''b'', 2), (''a'', 3), (''a'', 4)] (newFixedWindowLimiter 2 10) \<le> 2"
proof -
  have h: "limiter_ok (newFixedWindowLimiter 2 10)" by (simp add: limiter_ok_def newFixedWindowLimiter_def)
  show ?thesis
    using window_limit [OF h, of "''a''" "[(''a'', 1), (''b'', 2), (''a'', 3), (''a'', 4)]" 1]
    by (simp add: newFixedWindowLimiter_def)
qed

end
