(* ===== verification/Leader_Election.thy ===== *)
theory Leader_Election
  imports Go_Prelude
begin

text \<open>
  Lease based leader election of the Kubernetes operator: internal/operator/leaderelection.go, the
  lease operations of internal/operator/kubernetes_client.go, the choice made by the main loop of
  cmd/supadupa-operator/main.go and the fake client of the package's tests.

  \<^item> The interface \<open>LeaseClient\<close> is a record of its three operations, so \<open>TryAcquireOrRenew\<close> takes the
    client as an argument. What it relies on is the locale \<open>lease_client\<close>; \<open>fakeLeaseClient\<close>
    interprets it, and \<open>kubernetes_client_is_lease_client\<close> shows that \<open>KubernetesClient\<close> obeys it
    over every API server that behaves as documented (\<open>merge_patch_server\<close>).
  \<^item> An RFC 3339 text is represented by the second it denotes; the empty text and a text that does
    not parse have constructors of their own. The API server is a parameter.
\<close>

section \<open>Leases\<close>

datatype timestamp = NoTime | BadTime | AtSecond int

record ObjectMeta =
  Meta_Name :: string
  Meta_Namespace :: string

record LeaseSpec =
  HolderIdentity :: string
  LeaseDurationSeconds :: int
  AcquireTime :: timestamp
  RenewTime :: timestamp
  LeaseTransitions :: int

record Lease =
  Lease_Metadata :: ObjectMeta
  Lease_Spec :: LeaseSpec

text \<open>\<open>now.UTC().Format(time.RFC3339)\<close> drops the fraction of a second.\<close>

definition rfc3339 :: "time \<Rightarrow> timestamp" where
  "rfc3339 t = AtSecond (t div second_ns)"

record 's LeaseClient =
  Client_GetLease :: "string \<Rightarrow> string \<Rightarrow> 's \<Rightarrow> Lease option res"
  Client_CreateLease :: "string \<Rightarrow> Lease \<Rightarrow> 's \<Rightarrow> (int \<times> err option) \<times> 's"
  Client_UpdateLease :: "string \<Rightarrow> Lease \<Rightarrow> 's \<Rightarrow> err option \<times> 's"

record LeaderElector =
  Elector_Namespace :: string
  Elector_Name :: string
  Identity :: string
  LeaseDuration :: int
  RetryPeriod :: int

definition leaseDuration :: "LeaderElector \<Rightarrow> int" where
  "leaseDuration e = (if LeaseDuration e > 0 then LeaseDuration e else 15 * second_ns)"

definition retryPeriod :: "LeaderElector \<Rightarrow> int" where
  "retryPeriod e = (if RetryPeriod e > 0 then RetryPeriod e else 5 * second_ns)"

definition durationSeconds :: "LeaderElector \<Rightarrow> int" where
  "durationSeconds e = (let d = leaseDuration e div second_ns in if d < 1 then 1 else d)"

definition leaseExpired :: "LeaderElector \<Rightarrow> Lease \<Rightarrow> time \<Rightarrow> bool" where
  "leaseExpired e lease now =
     (case RenewTime (Lease_Spec lease) of
        NoTime \<Rightarrow> True
      | BadTime \<Rightarrow> True
      | AtSecond r \<Rightarrow>
          (let duration = LeaseDurationSeconds (Lease_Spec lease) * second_ns;
               duration = (if duration \<le> 0 then leaseDuration e else duration)
           in now > r * second_ns + duration))"

definition StatusConflict :: int where "StatusConflict = 409"

definition newLease :: "LeaderElector \<Rightarrow> time \<Rightarrow> Lease" where
  "newLease e now =
     \<lparr>Lease_Metadata = \<lparr>Meta_Name = Elector_Name e, Meta_Namespace = Elector_Namespace e\<rparr>,
      Lease_Spec = \<lparr>HolderIdentity = Identity e, LeaseDurationSeconds = durationSeconds e,
        AcquireTime = rfc3339 now, RenewTime = rfc3339 now, LeaseTransitions = 0\<rparr>\<rparr>"

definition renewed :: "LeaderElector \<Rightarrow> time \<Rightarrow> Lease \<Rightarrow> Lease" where
  "renewed e now lease = lease\<lparr>Lease_Spec := (Lease_Spec lease)
     \<lparr>HolderIdentity := Identity e, LeaseDurationSeconds := durationSeconds e, RenewTime := rfc3339 now\<rparr>\<rparr>"

definition takenOver :: "LeaderElector \<Rightarrow> time \<Rightarrow> Lease \<Rightarrow> Lease" where
  "takenOver e now lease = lease\<lparr>Lease_Spec := (Lease_Spec lease)
     \<lparr>HolderIdentity := Identity e, LeaseDurationSeconds := durationSeconds e,
      AcquireTime := rfc3339 now, RenewTime := rfc3339 now,
      LeaseTransitions := LeaseTransitions (Lease_Spec lease) + 1\<rparr>\<rparr>"

text \<open>The call is a read followed by at most one write: \<open>actOn\<close> is everything after the read.\<close>

definition putLease :: "'s LeaseClient \<Rightarrow> string \<Rightarrow> Lease \<Rightarrow> 's \<Rightarrow> (bool \<times> err option) \<times> 's" where
  "putLease c ns lease s =
     (case Client_UpdateLease c ns lease s of
        (Some err, s') \<Rightarrow> ((False, Some err), s')
      | (None, s') \<Rightarrow> ((True, None), s'))"

definition actOn :: "'s LeaseClient \<Rightarrow> LeaderElector \<Rightarrow> time \<Rightarrow> Lease option \<Rightarrow> 's \<Rightarrow> (bool \<times> err option) \<times> 's" where
  "actOn c e now existing s =
     (case existing of
        None \<Rightarrow>
          (case Client_CreateLease c (Elector_Namespace e) (newLease e now) s of
             ((status, Some err), s') \<Rightarrow>
               (if status = StatusConflict then ((False, None), s') else ((False, Some err), s'))
           | ((status, None), s') \<Rightarrow> ((True, None), s'))
      | Some lease \<Rightarrow>
          (if TrimSpace (HolderIdentity (Lease_Spec lease)) = Identity e
           then putLease c (Elector_Namespace e) (renewed e now lease) s
           else if \<not> leaseExpired e lease now then ((False, None), s)
           else putLease c (Elector_Namespace e) (takenOver e now lease) s))"

definition TryAcquireOrRenew :: "'s LeaseClient \<Rightarrow> LeaderElector \<Rightarrow> time \<Rightarrow> 's \<Rightarrow> (bool \<times> err option) \<times> 's" where
  "TryAcquireOrRenew c e now s =
     (case Client_GetLease c (Elector_Namespace e) (Elector_Name e) s of
        Inl err \<Rightarrow> ((False, Some err), s)
      | Inr existing \<Rightarrow> actOn c e now existing s)"

text \<open>One turn of the main loop: a follower skips the pass, whatever the error was.\<close>

definition operatorTurn :: "bool \<Rightarrow> 's LeaseClient \<Rightarrow> LeaderElector \<Rightarrow> time \<Rightarrow> 's \<Rightarrow> bool \<times> 's" where
  "operatorTurn leaderElectionEnabled c e now s =
     (if leaderElectionEnabled
      then (case TryAcquireOrRenew c e now s of ((isLeader, err), s') \<Rightarrow> (isLeader, s'))
      else (True, s))"

text \<open>The identity: the pod name, else the host name (\<open>None\<close> when it cannot be read).\<close>

definition leaderIdentity :: "string \<Rightarrow> string option \<Rightarrow> string" where
  "leaderIdentity podName hostname =
     (if TrimSpace podName \<noteq> [] then TrimSpace podName
      else (case hostname of
              Some h \<Rightarrow> if TrimSpace h \<noteq> [] then TrimSpace h else ''supadupa-operator''
            | None \<Rightarrow> ''supadupa-operator''))"

lemma leaderIdentity_trimmed: "TrimSpace (leaderIdentity p h) = leaderIdentity p h"
proof -
  have "TrimSpace ''supadupa-operator'' = ''supadupa-operator''" by code_simp
  then show ?thesis by (auto simp: leaderIdentity_def split: option.splits)
qed

section \<open>The fake client of the tests\<close>

record fakeLeaseClient =
  fake_lease :: "Lease option"
  fake_createConflict :: bool
  fake_getErr :: "err option"
  fake_createCount :: int
  fake_updateCount :: int

definition fake_GetLease :: "string \<Rightarrow> string \<Rightarrow> fakeLeaseClient \<Rightarrow> Lease option res" where
  "fake_GetLease ns name c = (case fake_getErr c of Some e \<Rightarrow> Inl e | None \<Rightarrow> Inr (fake_lease c))"

definition withNamespace :: "string \<Rightarrow> Lease \<Rightarrow> Lease" where
  "withNamespace ns lease = lease\<lparr>Lease_Metadata := (Lease_Metadata lease)\<lparr>Meta_Namespace := ns\<rparr>\<rparr>"

definition fake_CreateLease :: "string \<Rightarrow> Lease \<Rightarrow> fakeLeaseClient \<Rightarrow> (int \<times> err option) \<times> fakeLeaseClient" where
  "fake_CreateLease ns lease c =
     (let c = c\<lparr>fake_createCount := fake_createCount c + 1\<rparr> in
      if fake_createConflict c then ((StatusConflict, Some (ErrOther ''context canceled'')), c)
      else ((201, None), c\<lparr>fake_lease := Some (withNamespace ns lease)\<rparr>))"

definition fake_UpdateLease :: "string \<Rightarrow> Lease \<Rightarrow> fakeLeaseClient \<Rightarrow> err option \<times> fakeLeaseClient" where
  "fake_UpdateLease ns lease c =
     (None, c\<lparr>fake_updateCount := fake_updateCount c + 1, fake_lease := Some (withNamespace ns lease)\<rparr>)"

definition fakeClient :: "fakeLeaseClient LeaseClient" where
  "fakeClient = \<lparr>Client_GetLease = fake_GetLease, Client_CreateLease = fake_CreateLease,
     Client_UpdateLease = fake_UpdateLease\<rparr>"

section \<open>The Kubernetes client\<close>

text \<open>
  What the API server answers. \<open>TransportError\<close> is a request that got no response; a body that
  cannot be read or decoded is kept apart, because \<open>doWithContentType\<close> looks at the status first.
\<close>

datatype body = ReadError string | Garbage | Payload Lease
datatype reply = TransportError string | Reply int body
datatype json = JString string | JInt int | JTime timestamp

type_synonym object = "(string, json) gomap"

record 's lease_http =
  http_get :: "string \<Rightarrow> string \<Rightarrow> 's \<Rightarrow> reply"
  http_post :: "string \<Rightarrow> string \<Rightarrow> object \<Rightarrow> 's \<Rightarrow> reply \<times> 's"
  http_patch :: "string \<Rightarrow> string \<Rightarrow> object \<Rightarrow> 's \<Rightarrow> reply \<times> 's"

definition leaseSpecObject :: "LeaseSpec \<Rightarrow> object" where
  "leaseSpecObject spec =
     [(''holderIdentity'', JString (HolderIdentity spec)),
      (''leaseDurationSeconds'', JInt (LeaseDurationSeconds spec)),
      (''renewTime'', JTime (RenewTime spec)),
      (''leaseTransitions'', JInt (LeaseTransitions spec))] @
     (if AcquireTime spec \<noteq> NoTime then [(''acquireTime'', JTime (AcquireTime spec))] else [])"

definition doWithContentType :: "bool \<Rightarrow> reply \<Rightarrow> int \<times> Lease option res" where
  "doWithContentType decode r =
     (case r of
        TransportError m \<Rightarrow> (0, Inl (ErrOther m))
      | Reply status (ReadError m) \<Rightarrow> (status, Inl (ErrOther m))
      | Reply status b \<Rightarrow>
          (status,
           if status < 200 \<or> status \<ge> 300 then Inl (ErrOther ''kubernetes API returned HTTP error'')
           else if \<not> decode then Inr None
           else (case b of Payload l \<Rightarrow> Inr (Some l) | _ \<Rightarrow> Inl (ErrOther ''decode kubernetes API response''))))"

definition err_of :: "'a res \<Rightarrow> err option" where
  "err_of r = (case r of Inl e \<Rightarrow> Some e | Inr _ \<Rightarrow> None)"

definition k8s_GetLease :: "'s lease_http \<Rightarrow> string \<Rightarrow> string \<Rightarrow> 's \<Rightarrow> Lease option res" where
  "k8s_GetLease http ns name s =
     (case doWithContentType True (http_get http ns name s) of
        (status, Inl err) \<Rightarrow> if status = 404 then Inr None else Inl err
      | (status, Inr lease) \<Rightarrow> Inr lease)"

definition k8s_CreateLease :: "'s lease_http \<Rightarrow> string \<Rightarrow> Lease \<Rightarrow> 's \<Rightarrow> (int \<times> err option) \<times> 's" where
  "k8s_CreateLease http ns lease s =
     (case http_post http ns (Meta_Name (Lease_Metadata lease)) (leaseSpecObject (Lease_Spec lease)) s of
        (r, s') \<Rightarrow> (case doWithContentType False r of (status, out) \<Rightarrow> ((status, err_of out), s')))"

definition k8s_UpdateLease :: "'s lease_http \<Rightarrow> string \<Rightarrow> Lease \<Rightarrow> 's \<Rightarrow> err option \<times> 's" where
  "k8s_UpdateLease http ns lease s =
     (case http_patch http ns (Meta_Name (Lease_Metadata lease)) (leaseSpecObject (Lease_Spec lease)) s of
        (r, s') \<Rightarrow> (err_of (snd (doWithContentType False r)), s'))"

definition KubernetesClient :: "'s lease_http \<Rightarrow> 's LeaseClient" where
  "KubernetesClient http = \<lparr>Client_GetLease = k8s_GetLease http,
     Client_CreateLease = k8s_CreateLease http, Client_UpdateLease = k8s_UpdateLease http\<rparr>"

text \<open>
  The documented behaviour of the API server: a merge patch (RFC 7386) overwrites the members it
  names and keeps the others; a create sets them on an empty spec; a successful status means the
  write happened, any other answer leaves open whether it did. An object is stored under its name.
\<close>

definition field :: "object \<Rightarrow> string \<Rightarrow> (json \<Rightarrow> 'a option) \<Rightarrow> 'a \<Rightarrow> 'a" where
  "field obj k f d = (case map_of obj k of None \<Rightarrow> d | Some v \<Rightarrow> (case f v of None \<Rightarrow> d | Some x \<Rightarrow> x))"

definition as_string :: "json \<Rightarrow> string option" where
  "as_string j = (case j of JString x \<Rightarrow> Some x | _ \<Rightarrow> None)"
definition as_int :: "json \<Rightarrow> int option" where
  "as_int j = (case j of JInt x \<Rightarrow> Some x | _ \<Rightarrow> None)"
definition as_time :: "json \<Rightarrow> timestamp option" where
  "as_time j = (case j of JTime x \<Rightarrow> Some x | _ \<Rightarrow> None)"

definition merged :: "object \<Rightarrow> LeaseSpec \<Rightarrow> LeaseSpec" where
  "merged obj sp =
     \<lparr>HolderIdentity = field obj ''holderIdentity'' as_string (HolderIdentity sp),
      LeaseDurationSeconds = field obj ''leaseDurationSeconds'' as_int (LeaseDurationSeconds sp),
      AcquireTime = field obj ''acquireTime'' as_time (AcquireTime sp),
      RenewTime = field obj ''renewTime'' as_time (RenewTime sp),
      LeaseTransitions = field obj ''leaseTransitions'' as_int (LeaseTransitions sp)\<rparr>"

definition emptySpec :: LeaseSpec where
  "emptySpec = \<lparr>HolderIdentity = [], LeaseDurationSeconds = 0, AcquireTime = NoTime, RenewTime = NoTime,
     LeaseTransitions = 0\<rparr>"

definition successful :: "reply \<Rightarrow> bool" where
  "successful r = (case r of Reply status _ \<Rightarrow> 200 \<le> status \<and> status < 300 | _ \<Rightarrow> False)"

definition written :: "string \<Rightarrow> LeaseSpec \<Rightarrow> Lease option \<Rightarrow> bool" where
  "written n sp x \<longleftrightarrow> (\<exists>l. x = Some l \<and> Lease_Spec l = sp \<and> Meta_Name (Lease_Metadata l) = n)"

definition merge_patch_server :: "'s lease_http \<Rightarrow> (string \<Rightarrow> string \<Rightarrow> 's \<Rightarrow> Lease option) \<Rightarrow> bool" where
  "merge_patch_server http stored \<longleftrightarrow>
     (\<forall>ns n s l. stored ns n s = Some l \<longrightarrow> Meta_Name (Lease_Metadata l) = n) \<and>
     (\<forall>ns n s status b. http_get http ns n s = Reply status b \<longrightarrow>
        (if status = 404 then stored ns n s = None
         else 200 \<le> status \<longrightarrow> status < 300 \<longrightarrow> (\<forall>l. b = Payload l \<longrightarrow> stored ns n s = Some l))) \<and>
     (\<forall>ns n s obj r s'. http_post http ns n obj s = (r, s') \<longrightarrow> stored ns n s = None \<longrightarrow>
        written n (merged obj emptySpec) (stored ns n s') \<or> (\<not> successful r \<and> stored ns n s' = None)) \<and>
     (\<forall>ns n s obj r s' l. http_patch http ns n obj s = (r, s') \<longrightarrow> stored ns n s = Some l \<longrightarrow>
        written n (merged obj (Lease_Spec l)) (stored ns n s') \<or> (\<not> successful r \<and> stored ns n s' = Some l))"

lemma server_name: "merge_patch_server http stored \<Longrightarrow> stored ns n s = Some l \<Longrightarrow> Meta_Name (Lease_Metadata l) = n"
  unfolding merge_patch_server_def by metis

lemma server_patch:
  assumes "merge_patch_server http stored" and "http_patch http ns n obj s = (r, s')" and "stored ns n s = Some l"
  shows "written n (merged obj (Lease_Spec l)) (stored ns n s') \<or> (\<not> successful r \<and> stored ns n s' = Some l)"
  by (rule conjunct2 [OF conjunct2 [OF conjunct2 [OF assms(1) [unfolded merge_patch_server_def]]], rule_format, OF assms(2,3)])

lemma merged_leaseSpecObject:
  "HolderIdentity (merged (leaseSpecObject sp) sp') = HolderIdentity sp"
  "LeaseDurationSeconds (merged (leaseSpecObject sp) sp') = LeaseDurationSeconds sp"
  "RenewTime (merged (leaseSpecObject sp) sp') = RenewTime sp"
  "LeaseTransitions (merged (leaseSpecObject sp) sp') = LeaseTransitions sp"
  "AcquireTime (merged (leaseSpecObject sp) sp') = (if AcquireTime sp = NoTime then AcquireTime sp' else AcquireTime sp)"
  by (simp_all add: merged_def leaseSpecObject_def field_def as_string_def as_int_def as_time_def)

lemma err_of_write: "err_of (snd (doWithContentType False r)) = None \<Longrightarrow> successful r"
  by (auto simp: doWithContentType_def err_of_def successful_def split: reply.splits body.splits if_splits)

section \<open>What the elector relies on\<close>

text \<open>
  A read returns the stored lease. A create on an absent lease, and an update of the lease that was
  just read, store the claim when they succeed; when they fail they may still have stored it.
\<close>

definition same_claim :: "LeaseSpec \<Rightarrow> LeaseSpec \<Rightarrow> bool" where
  "same_claim a b \<longleftrightarrow> HolderIdentity a = HolderIdentity b \<and>
     LeaseDurationSeconds a = LeaseDurationSeconds b \<and> RenewTime a = RenewTime b"

definition claimed :: "LeaseSpec \<Rightarrow> Lease option \<Rightarrow> bool" where
  "claimed sp x \<longleftrightarrow> (\<exists>l. x = Some l \<and> same_claim (Lease_Spec l) sp)"

locale lease_client =
  fixes c :: "'s LeaseClient" and stored :: "string \<Rightarrow> string \<Rightarrow> 's \<Rightarrow> Lease option"
  assumes get_reads: "Client_GetLease c ns n s = Inr x \<Longrightarrow> stored ns n s = x"
    and create_writes: "stored ns n s = None \<Longrightarrow> Meta_Name (Lease_Metadata l) = n \<Longrightarrow>
      Client_CreateLease c ns l s = ((st, err), s') \<Longrightarrow>
      claimed (Lease_Spec l) (stored ns n s') \<or> (err \<noteq> None \<and> stored ns n s' = None)"
    and update_writes: "stored ns n s = Some l0 \<Longrightarrow> Lease_Metadata l = Lease_Metadata l0 \<Longrightarrow>
      Client_UpdateLease c ns l s = (err, s') \<Longrightarrow>
      claimed (Lease_Spec l) (stored ns n s') \<or> (err \<noteq> None \<and> claimed (Lease_Spec l0) (stored ns n s'))"
begin

text \<open>The lease is held by \<open>e\<close> from some second on, for the duration \<open>e\<close> writes.\<close>

definition held_since :: "LeaderElector \<Rightarrow> int \<Rightarrow> 's \<Rightarrow> bool" where
  "held_since e r s \<longleftrightarrow> (\<exists>l r'. stored (Elector_Namespace e) (Elector_Name e) s = Some l \<and>
     HolderIdentity (Lease_Spec l) = Identity e \<and>
     LeaseDurationSeconds (Lease_Spec l) = durationSeconds e \<and>
     RenewTime (Lease_Spec l) = AtSecond r' \<and> r \<le> r')"

lemma claimed_held:
  assumes "claimed sp (stored (Elector_Namespace e) (Elector_Name e) s)"
    and "HolderIdentity sp = Identity e" and "LeaseDurationSeconds sp = durationSeconds e"
    and "RenewTime sp = rfc3339 now" and "r \<le> now div second_ns"
  shows "held_since e r s"
  using assms by (auto simp: claimed_def same_claim_def held_since_def rfc3339_def)

lemma put_held:
  assumes get: "stored (Elector_Namespace e) (Elector_Name e) s = Some l0"
    and l: "Lease_Metadata l = Lease_Metadata l0" "HolderIdentity (Lease_Spec l) = Identity e"
      "LeaseDurationSeconds (Lease_Spec l) = durationSeconds e" "RenewTime (Lease_Spec l) = rfc3339 now"
    and put: "putLease c (Elector_Namespace e) l s = ((ok, err), s')"
  shows "ok \<Longrightarrow> held_since e (now div second_ns) s'"
    and "held_since e r s \<Longrightarrow> r \<le> now div second_ns \<Longrightarrow> held_since e r s'"
proof -
  obtain err' s'' where up: "Client_UpdateLease c (Elector_Namespace e) l s = (err', s'')" by fastforce
  then have s'': "s'' = s'" and ok: "ok \<longleftrightarrow> err' = None"
    using put by (auto simp: putLease_def split: option.splits)
  note w = update_writes [OF get l(1) up]
  show "held_since e (now div second_ns) s'" if ok
    using w ok that s'' l claimed_held [OF _ l(2-4), of s' "now div second_ns"] by auto
  show "held_since e r s'" if "held_since e r s" "r \<le> now div second_ns"
  proof (cases "claimed (Lease_Spec l) (stored (Elector_Namespace e) (Elector_Name e) s'')")
    case True
    then show ?thesis using claimed_held [OF _ l(2-4) that(2)] s'' by simp
  next
    case False
    with w have "claimed (Lease_Spec l0) (stored (Elector_Namespace e) (Elector_Name e) s')" using s'' by simp
    with that(1) get show ?thesis by (auto simp: claimed_def same_claim_def held_since_def)
  qed
qed

lemma granted_held:
  assumes "TryAcquireOrRenew c e now s = ((True, err), s')"
  shows "held_since e (now div second_ns) s'"
proof -
  let ?ns = "Elector_Namespace e" and ?n = "Elector_Name e"
  obtain x where get: "Client_GetLease c ?ns ?n s = Inr x" and act: "actOn c e now x s = ((True, err), s')"
    using assms by (auto simp: TryAcquireOrRenew_def split: sum.splits)
  note st = get_reads [OF get]
  show ?thesis
  proof (cases x)
    case None
    obtain status err' s'' where cr: "Client_CreateLease c ?ns (newLease e now) s = ((status, err'), s'')"
      by (metis prod.exhaust)
    with act None have "err' = None" "s'' = s'" by (auto simp: actOn_def split: option.splits if_splits)
    with create_writes [of ?ns ?n s "newLease e now"] st None cr
    have "claimed (Lease_Spec (newLease e now)) (stored ?ns ?n s')" by (auto simp: newLease_def)
    then show ?thesis
      by (rule claimed_held [where now = now, OF _ _ _ _ order_refl]) (simp_all add: newLease_def)
  next
    case (Some l0)
    with st have sto: "stored ?ns ?n s = Some l0" by simp
    from act Some have "putLease c ?ns (renewed e now l0) s = ((True, err), s') \<or>
        putLease c ?ns (takenOver e now l0) s = ((True, err), s')"
      by (auto simp: actOn_def split: if_splits)
    then show ?thesis
    proof
      assume put: "putLease c ?ns (renewed e now l0) s = ((True, err), s')"
      show ?thesis by (rule put_held(1) [OF sto _ _ _ _ put]) (simp_all add: renewed_def)
    next
      assume put: "putLease c ?ns (takenOver e now l0) s = ((True, err), s')"
      show ?thesis by (rule put_held(1) [OF sto _ _ _ _ put]) (simp_all add: takenOver_def)
    qed
  qed
qed

lemma durationSeconds_pos: "0 < durationSeconds e"
  by (simp add: durationSeconds_def Let_def)

lemma held_not_expired:
  assumes "LeaseDurationSeconds (Lease_Spec l) = durationSeconds e" and "RenewTime (Lease_Spec l) = AtSecond r'"
    and "r \<le> r'" and "t \<le> (r + durationSeconds e) * second_ns"
  shows "\<not> leaseExpired e' l t"
proof -
  have "(r + durationSeconds e) * second_ns \<le> (r' + durationSeconds e) * second_ns"
    using assms(3) by (simp add: second_ns_def)
  with assms(4) have "t \<le> r' * second_ns + durationSeconds e * second_ns" by (simp add: algebra_simps)
  with assms(1,2) durationSeconds_pos [of e] show ?thesis by (simp add: leaseExpired_def second_ns_def)
qed

text \<open>Nobody else gets in before the lease runs out, and its holder keeps it.\<close>

lemma call_keeps_held:
  assumes held: "held_since e r s" and trim: "TrimSpace (Identity e) = Identity e"
    and same: "Elector_Namespace e' = Elector_Namespace e" "Elector_Name e' = Elector_Name e"
    and ids: "Identity e' = Identity e \<longrightarrow> e' = e"
    and t: "r \<le> t div second_ns" "t \<le> (r + durationSeconds e) * second_ns"
    and call: "TryAcquireOrRenew c e' t s = ((ok, err), s')"
  shows "held_since e r s'" and "Identity e' \<noteq> Identity e \<Longrightarrow> \<not> ok"
proof -
  let ?ns = "Elector_Namespace e" and ?n = "Elector_Name e"
  obtain l r' where l: "stored ?ns ?n s = Some l" "HolderIdentity (Lease_Spec l) = Identity e"
      "LeaseDurationSeconds (Lease_Spec l) = durationSeconds e" "RenewTime (Lease_Spec l) = AtSecond r'" "r \<le> r'"
    using held by (auto simp: held_since_def)
  have "held_since e r s' \<and> (Identity e' \<noteq> Identity e \<longrightarrow> \<not> ok)"
  proof (cases "Client_GetLease c ?ns ?n s")
    case (Inl a)
    with call same held show ?thesis by (simp add: TryAcquireOrRenew_def)
  next
    case (Inr x)
    with get_reads [OF Inr] l(1) have act: "actOn c e' t (Some l) s = ((ok, err), s')"
      using call same by (simp add: TryAcquireOrRenew_def)
    show ?thesis
    proof (cases "Identity e' = Identity e")
      case True
      with ids have "e' = e" by simp
      with act l(2) trim have put: "putLease c ?ns (renewed e t l) s = ((ok, err), s')" by (simp add: actOn_def)
      have "held_since e r s'"
        by (rule put_held(2) [OF l(1) _ _ _ _ put held t(1)]) (simp_all add: renewed_def)
      with True show ?thesis by simp
    next
      case False
      with act l(2) trim held_not_expired [OF l(3-5) t(2), of e'] held show ?thesis
        by (auto simp: actOn_def)
    qed
  qed
  then show "held_since e r s'" and "Identity e' \<noteq> Identity e \<Longrightarrow> \<not> ok" by blast+
qed

end

text \<open>Calls of several operators, each as one step.\<close>

definition run_calls :: "'s LeaseClient \<Rightarrow> (LeaderElector \<times> time) list \<Rightarrow> 's \<Rightarrow> 's" where
  "run_calls c calls s = fold (\<lambda>(e, t) s. snd (TryAcquireOrRenew c e t s)) calls s"

text \<open>The operators compete for one lease, and an identity belongs to one operator.\<close>

definition rivals :: "LeaderElector \<Rightarrow> LeaderElector \<Rightarrow> bool" where
  "rivals e e' \<longleftrightarrow> Elector_Namespace e' = Elector_Namespace e \<and> Elector_Name e' = Elector_Name e \<and>
     (Identity e' = Identity e \<longrightarrow> e' = e)"

context lease_client
begin

lemma run_keeps_held:
  assumes "held_since e r s" and "TrimSpace (Identity e) = Identity e"
    and "\<forall>(e', t) \<in> set calls. rivals e e' \<and> r \<le> t div second_ns \<and> t \<le> (r + durationSeconds e) * second_ns"
  shows "held_since e r (run_calls c calls s)"
  using assms(1,3) unfolding run_calls_def
proof (induction calls arbitrary: s)
  case (Cons x calls)
  obtain e' t where x: "x = (e', t)" by (cases x)
  obtain ok err s' where call: "TryAcquireOrRenew c e' t s = ((ok, err), s')" by (metis prod.exhaust)
  have "rivals e e'" "r \<le> t div second_ns" "t \<le> (r + durationSeconds e) * second_ns"
    using Cons.prems(2) x by auto
  with call_keeps_held(1) [OF Cons.prems(1) assms(2) _ _ _ _ _ call]
  have "held_since e r s'" by (simp add: rivals_def)
  from Cons.IH [OF this] Cons.prems(2) x call show ?case by simp
qed simp

lemma exclusive:
  assumes "TryAcquireOrRenew c e t s = ((True, err), s1)" and "TrimSpace (Identity e) = Identity e"
    and "\<forall>(e', u) \<in> set (calls @ [(e2, t2)]). rivals e e' \<and> t \<le> u"
    and "\<forall>(e', u) \<in> set calls. u \<le> t2" and "Identity e2 \<noteq> Identity e"
    and "TryAcquireOrRenew c e2 t2 (run_calls c calls s1) = ((True, err2), s2)"
  shows "(t div second_ns + durationSeconds e) * second_ns < t2"
proof (rule ccontr)
  assume "\<not> ?thesis"
  then have le: "t2 \<le> (t div second_ns + durationSeconds e) * second_ns" by simp
  have pos: "0 < second_ns" by (simp add: second_ns_def)
  have "rivals e e' \<and> t div second_ns \<le> u div second_ns \<and> u \<le> (t div second_ns + durationSeconds e) * second_ns"
    if "(e', u) \<in> set (calls @ [(e2, t2)])" for e' u
  proof -
    have "u \<le> t2" using that assms(4) by auto
    moreover have "rivals e e'" "t \<le> u" using that assms(3) by blast+
    moreover from this(2) have "t div second_ns \<le> u div second_ns" by (rule zdiv_mono1 [OF _ pos])
    ultimately show ?thesis using le by simp
  qed
  note w = this
  have "held_since e (t div second_ns) (run_calls c calls s1)"
    by (rule run_keeps_held [OF granted_held [OF assms(1)] assms(2)]) (use w in auto)
  from call_keeps_held(2) [OF this assms(2) _ _ _ _ _ assms(6)] w [of e2 t2] assms(5)
  show False by (simp add: rivals_def)
qed

end

definition fake_stored :: "string \<Rightarrow> string \<Rightarrow> fakeLeaseClient \<Rightarrow> Lease option" where
  "fake_stored ns n c = fake_lease c"

interpretation fake: lease_client fakeClient fake_stored
  by unfold_locales
    (auto simp: fakeClient_def fake_GetLease_def fake_CreateLease_def fake_UpdateLease_def fake_stored_def
      claimed_def same_claim_def withNamespace_def Let_def split: option.splits if_splits)

lemma kubernetes_client_is_lease_client:
  assumes "merge_patch_server http stored"
  shows "lease_client (KubernetesClient http) stored"
proof
  fix ns n s x
  assume get: "Client_GetLease (KubernetesClient http) ns n s = Inr x"
  obtain status b where r: "http_get http ns n s = Reply status b"
    using get by (cases "http_get http ns n s")
      (auto simp: KubernetesClient_def k8s_GetLease_def doWithContentType_def)
  have d: "if status = 404 then stored ns n s = None
      else 200 \<le> status \<longrightarrow> status < 300 \<longrightarrow> (\<forall>l. b = Payload l \<longrightarrow> stored ns n s = Some l)"
    using assms r unfolding merge_patch_server_def by blast
  show "stored ns n s = x"
    using get d by (auto simp: KubernetesClient_def k8s_GetLease_def doWithContentType_def r
        split: body.splits if_splits)
next
  fix ns n s l st err s'
  assume none: "stored ns n s = None" and name: "Meta_Name (Lease_Metadata l) = n"
    and cr: "Client_CreateLease (KubernetesClient http) ns l s = ((st, err), s')"
  obtain r where r: "http_post http ns n (leaseSpecObject (Lease_Spec l)) s = (r, s')"
    and err: "err = err_of (snd (doWithContentType False r))"
    using cr name by (auto simp: KubernetesClient_def k8s_CreateLease_def split: prod.splits)
  have "written n (merged (leaseSpecObject (Lease_Spec l)) emptySpec) (stored ns n s') \<or>
      (\<not> successful r \<and> stored ns n s' = None)"
    using assms r none unfolding merge_patch_server_def by blast
  with err err_of_write [of r] show "claimed (Lease_Spec l) (stored ns n s') \<or> (err \<noteq> None \<and> stored ns n s' = None)"
    by (auto simp: written_def claimed_def same_claim_def merged_leaseSpecObject)
next
  fix ns n s l0 l err s'
  assume some: "stored ns n s = Some l0" and meta: "Lease_Metadata l = Lease_Metadata l0"
    and up: "Client_UpdateLease (KubernetesClient http) ns l s = (err, s')"
  have name: "Meta_Name (Lease_Metadata l) = n"
    using server_name [OF assms some] meta by simp
  obtain r where r: "http_patch http ns n (leaseSpecObject (Lease_Spec l)) s = (r, s')"
    and err: "err = err_of (snd (doWithContentType False r))"
    using up name by (auto simp: KubernetesClient_def k8s_UpdateLease_def split: prod.splits)
  have "written n (merged (leaseSpecObject (Lease_Spec l)) (Lease_Spec l0)) (stored ns n s') \<or>
      (\<not> successful r \<and> stored ns n s' = Some l0)"
    by (rule server_patch [OF assms r some])
  with err err_of_write [of r]
  show "claimed (Lease_Spec l) (stored ns n s') \<or> (err \<noteq> None \<and> claimed (Lease_Spec l0) (stored ns n s'))"
    by (auto simp: written_def claimed_def same_claim_def merged_leaseSpecObject)
qed

section \<open>Properties of the election\<close>

text \<open>A server that grants every request it gets; \<open>mem_http\<close> is one. The election's guarantees do not rest on it: it is
  where \<open>leader_iff\<close> and the split of \<open>interleaved_takeover_splits\<close> are shown.\<close>

definition available :: "'s lease_http \<Rightarrow> (string \<Rightarrow> string \<Rightarrow> 's \<Rightarrow> Lease option) \<Rightarrow> bool" where
  "available http stored \<longleftrightarrow>
     (\<forall>ns n s. http_get http ns n s =
        (case stored ns n s of None \<Rightarrow> Reply 404 Garbage | Some l \<Rightarrow> Reply 200 (Payload l))) \<and>
     (\<forall>ns n s obj. stored ns n s = None \<longrightarrow> fst (http_post http ns n obj s) = Reply 201 Garbage) \<and>
     (\<forall>ns n s obj. stored ns n s \<noteq> None \<longrightarrow> fst (http_patch http ns n obj s) = Reply 200 Garbage)"

type_synonym mem = "(string \<times> string, LeaseSpec) gomap"

definition mem_stored :: "string \<Rightarrow> string \<Rightarrow> mem \<Rightarrow> Lease option" where
  "mem_stored ns n s = map_option
     (\<lambda>sp. \<lparr>Lease_Metadata = \<lparr>Meta_Name = n, Meta_Namespace = ns\<rparr>, Lease_Spec = sp\<rparr>) (map_of s (ns, n))"

definition mem_http :: "mem lease_http" where
  "mem_http =
     \<lparr>http_get = (\<lambda>ns n s. case mem_stored ns n s of None \<Rightarrow> Reply 404 Garbage | Some l \<Rightarrow> Reply 200 (Payload l)),
      http_post = (\<lambda>ns n obj s. case mem_stored ns n s of
         None \<Rightarrow> (Reply 201 Garbage, AList.update (ns, n) (merged obj emptySpec) s) | Some l \<Rightarrow> (Reply 409 Garbage, s)),
      http_patch = (\<lambda>ns n obj s. case mem_stored ns n s of
         None \<Rightarrow> (Reply 404 Garbage, s)
       | Some l \<Rightarrow> (Reply 200 Garbage, AList.update (ns, n) (merged obj (Lease_Spec l)) s))\<rparr>"

lemma mem_server: "merge_patch_server mem_http mem_stored" and mem_available: "available mem_http mem_stored"
  by (auto simp: merge_patch_server_def available_def mem_http_def mem_stored_def written_def
      split: option.splits if_splits)

definition pod :: "string \<Rightarrow> LeaderElector" where
  "pod i = \<lparr>Elector_Namespace = ''supadupa'', Elector_Name = ''leader'', Identity = i,
     LeaseDuration = 30 * second_ns, RetryPeriod = 10 * second_ns\<rparr>"

text \<open>C11. Leadership excludes: once an operator has been told that it leads, no other operator is told so
  before the lease duration has passed, counted from the start of the second of the first answer.
  This holds for any number of calls by any operators in between, in time order, and for failing
  requests, as long as each call runs without another operator's call interleaved with it.\<close>

theorem leadership_exclusive:
  assumes "merge_patch_server http stored"
    and "TryAcquireOrRenew (KubernetesClient http) e t s = ((True, err), s1)" and "TrimSpace (Identity e) = Identity e"
    and "\<forall>(e', u) \<in> set (calls @ [(e2, t2)]). rivals e e' \<and> t \<le> u"
    and "\<forall>(e', u) \<in> set calls. u \<le> t2" and "Identity e2 \<noteq> Identity e"
    and "TryAcquireOrRenew (KubernetesClient http) e2 t2 (run_calls (KubernetesClient http) calls s1) = ((True, err2), s2)"
  shows "(t div second_ns + durationSeconds e) * second_ns < t2"
  by (rule lease_client.exclusive [OF kubernetes_client_is_lease_client [OF assms(1)] assms(2-7)])

lemma mem_eval:
  "TrimSpace ''a'' = ''a''" "TrimSpace ''b'' = ''b''" "durationSeconds (pod i) = 30"
  by (code_simp, code_simp, simp add: durationSeconds_def leaseDuration_def pod_def second_ns_def Let_def)

theorem leadership_exclusive_witness:
  "(5 div second_ns + durationSeconds (pod ''a'')) * second_ns < 31 * second_ns"
proof -
  define s1 where "s1 = snd (TryAcquireOrRenew (KubernetesClient mem_http) (pod ''a'') 5 [])"
  define s2 where "s2 = snd (TryAcquireOrRenew (KubernetesClient mem_http) (pod ''b'') (31 * second_ns)
      (run_calls (KubernetesClient mem_http) [(pod ''b'', 6)] s1))"
  have a: "TryAcquireOrRenew (KubernetesClient mem_http) (pod ''a'') 5 [] = ((True, None), s1)"
    unfolding s1_def by code_simp
  have b: "TryAcquireOrRenew (KubernetesClient mem_http) (pod ''b'') (31 * second_ns)
      (run_calls (KubernetesClient mem_http) [(pod ''b'', 6)] s1) = ((True, None), s2)"
    unfolding s2_def s1_def by code_simp
  have r: "rivals (pod ''a'') (pod ''b'')" by (simp add: rivals_def pod_def)
  show ?thesis
    by (rule leadership_exclusive [OF mem_server a _ _ _ _ b])
      (use r mem_eval in \<open>simp_all add: second_ns_def pod_def\<close>)
qed

lemma k8s_get_available:
  "available http stored \<Longrightarrow> Client_GetLease (KubernetesClient http) ns n s = Inr (stored ns n s)"
  by (simp add: available_def KubernetesClient_def k8s_GetLease_def doWithContentType_def split: option.split)

lemma available_patch:
  "available http stored \<Longrightarrow> stored ns n s \<noteq> None \<Longrightarrow> fst (http_patch http ns n obj s) = Reply 200 Garbage"
  by (simp add: available_def)

lemma k8s_put_available:
  assumes "available http stored" and "stored ns n s \<noteq> None" and "Meta_Name (Lease_Metadata l) = n"
  shows "\<exists>s'. putLease (KubernetesClient http) ns l s = ((True, None), s') \<and>
     snd (http_patch http ns n (leaseSpecObject (Lease_Spec l)) s) = s'"
proof -
  obtain s' where "http_patch http ns n (leaseSpecObject (Lease_Spec l)) s = (Reply 200 Garbage, s')"
    using available_patch [OF assms(1,2)] by (metis prod.collapse)
  with assms(3) show ?thesis
    by (simp add: putLease_def KubernetesClient_def k8s_UpdateLease_def doWithContentType_def err_of_def)
qed

lemma call_outcome:
  assumes "merge_patch_server http stored" and "available http stored"
  shows "(case TryAcquireOrRenew (KubernetesClient http) e now s of ((isLeader, err), s') \<Rightarrow>
     err = None \<and>
     (isLeader \<longleftrightarrow> (case stored (Elector_Namespace e) (Elector_Name e) s of None \<Rightarrow> True
        | Some l \<Rightarrow> TrimSpace (HolderIdentity (Lease_Spec l)) = Identity e \<or> leaseExpired e l now)) \<and>
     (\<not> isLeader \<longrightarrow> s' = s))"
proof (cases "stored (Elector_Namespace e) (Elector_Name e) s")
  case None
  then obtain s' where "http_post http (Elector_Namespace e) (Elector_Name e)
      (leaseSpecObject (Lease_Spec (newLease e now))) s = (Reply 201 Garbage, s')"
    using assms(2) unfolding available_def by (metis prod.collapse)
  with None show ?thesis
    by (simp add: TryAcquireOrRenew_def k8s_get_available [OF assms(2)] actOn_def)
      (simp add: KubernetesClient_def k8s_CreateLease_def doWithContentType_def err_of_def newLease_def)
next
  case (Some l)
  then have name: "Meta_Name (Lease_Metadata l) = Elector_Name e"
    by (rule server_name [OF assms(1)])
  have put: "\<exists>s'. putLease (KubernetesClient http) (Elector_Namespace e) l' s = ((True, None), s')"
    if "Lease_Metadata l' = Lease_Metadata l" for l'
    using k8s_put_available [OF assms(2), of "Elector_Namespace e" "Elector_Name e" s l'] Some name that by auto
  obtain s1 s2 where "putLease (KubernetesClient http) (Elector_Namespace e) (renewed e now l) s = ((True, None), s1)"
      "putLease (KubernetesClient http) (Elector_Namespace e) (takenOver e now l) s = ((True, None), s2)"
    using put [of "renewed e now l"] put [of "takenOver e now l"] by (auto simp: renewed_def takenOver_def)
  with Some show ?thesis
    by (simp add: TryAcquireOrRenew_def k8s_get_available [OF assms(2)] actOn_def)
qed

text \<open>Who leads: while the API server answers, a call makes the caller the leader exactly when there
  is no lease, when the lease names the caller, or when the lease has run out; otherwise the caller
  follows and the server is not written to.\<close>

theorem leader_iff:
  assumes "merge_patch_server http stored" and "available http stored"
  shows "(case TryAcquireOrRenew (KubernetesClient http) e now s of ((isLeader, err), s') \<Rightarrow>
     err = None \<and>
     (isLeader \<longleftrightarrow> (case stored (Elector_Namespace e) (Elector_Name e) s of None \<Rightarrow> True
        | Some l \<Rightarrow> TrimSpace (HolderIdentity (Lease_Spec l)) = Identity e \<or> leaseExpired e l now)) \<and>
     (\<not> isLeader \<longrightarrow> s' = s))"
  by (rule call_outcome [OF assms])

theorem leader_iff_witness:
  "fst (TryAcquireOrRenew (KubernetesClient mem_http) (pod ''a'') 5 []) = (True, None)"
proof -
  have "mem_stored ''supadupa'' ''leader'' [] = None" by (simp add: mem_stored_def)
  then show ?thesis
    using leader_iff [OF mem_server mem_available, of "pod ''a''" 5 "[]"]
    by (auto simp: pod_def split: prod.splits)
qed

text \<open>A run of calls of operators, one after the other, and what each was told: whether it leads, and the error.\<close>

fun answers :: "'s LeaseClient \<Rightarrow> (LeaderElector \<times> time) list \<Rightarrow> 's \<Rightarrow> (bool \<times> err option) list" where
  "answers c [] s = []"
| "answers c ((e, now) # calls) s =
     (case TryAcquireOrRenew c e now s of (answer, s') \<Rightarrow> answer # answers c calls s')"

context lease_client
begin

lemma silent_refusal:
  assumes "stored (Elector_Namespace e) (Elector_Name e) s = Some l"
    and "TryAcquireOrRenew c e now s = ((ok, None), s')" and "\<not> ok"
  shows "s' = s" and "\<not> leaseExpired e l now"
proof -
  let ?ns = "Elector_Namespace e" and ?n = "Elector_Name e"
  obtain x where x: "Client_GetLease c ?ns ?n s = Inr x"
    using assms(2) by (auto simp: TryAcquireOrRenew_def split: sum.splits)
  with get_reads [OF x] assms(1) have "actOn c e now (Some l) s = ((False, None), s')"
    using assms(2,3) by (simp add: TryAcquireOrRenew_def)
  then show "s' = s" and "\<not> leaseExpired e l now"
    by (auto simp: actOn_def putLease_def split: if_splits prod.splits option.splits)
qed

lemma vacant_until_granted:
  assumes "stored (Elector_Namespace e) (Elector_Name e) s = Some l" and "leaseExpired e l now"
    and "\<forall>(e', u) \<in> set calls. rivals e e'"
    and "\<forall>(ok, err) \<in> set (answers c (calls @ [(e, now)]) s). err = None"
  shows "(True, None) \<in> set (answers c (calls @ [(e, now)]) s)"
  using assms(1,3,4)
proof (induction calls arbitrary: s)
  case Nil
  obtain ok er s' where r: "TryAcquireOrRenew c e now s = ((ok, er), s')" by (metis prod.collapse)
  with Nil(3) have "er = None" by simp
  with r silent_refusal(2) [OF Nil(1)] assms(2) show ?case by (cases ok) auto
next
  case (Cons x calls)
  obtain e2 t2 where x: "x = (e2, t2)" by (cases x)
  obtain ok er s' where r: "TryAcquireOrRenew c e2 t2 s = ((ok, er), s')" by (metis prod.collapse)
  with Cons.prems(3) x have er: "er = None" by simp
  from Cons.prems(2) x have "rivals e e2" by simp
  then have st: "stored (Elector_Namespace e2) (Elector_Name e2) s = Some l"
    using Cons.prems(1) by (simp add: rivals_def)
  show ?case
  proof (cases ok)
    case True
    with r er show ?thesis by (simp add: x)
  next
    case False
    with silent_refusal(1) [OF st] r er have "s' = s" by blast
    with Cons.IH [OF Cons.prems(1)] Cons.prems(2,3) r show ?thesis by (simp add: x)
  qed
qed

end

text \<open>C23. Leadership does not stay vacant: when the stored lease was last renewed at second \<open>r\<close> for \<open>d\<close> seconds and
  these have passed, then in every run of calls of operators for this lease that ends with a call by anyone at such
  a time, and in which no call reports an error, some call makes its operator the leader: an expired lease is never
  passed over in silence.\<close>

theorem leadership_not_vacant:
  assumes "merge_patch_server http stored"
    and "stored (Elector_Namespace e) (Elector_Name e) s = Some l" and "RenewTime (Lease_Spec l) = AtSecond r"
    and "0 < LeaseDurationSeconds (Lease_Spec l)" and "(r + LeaseDurationSeconds (Lease_Spec l)) * second_ns < now"
    and "\<forall>(e', u) \<in> set calls. rivals e e'"
    and "\<forall>(ok, err) \<in> set (answers (KubernetesClient http) (calls @ [(e, now)]) s). err = None"
  shows "(True, None) \<in> set (answers (KubernetesClient http) (calls @ [(e, now)]) s)"
proof (rule lease_client.vacant_until_granted [OF kubernetes_client_is_lease_client [OF assms(1)] assms(2) _ assms(6,7)])
  show "leaseExpired e l now"
    using assms(3-5) by (simp add: leaseExpired_def Let_def second_ns_def algebra_simps)
qed

definition left_lease :: mem where
  "left_lease = [((''supadupa'', ''leader''),
     \<lparr>HolderIdentity = ''gone'', LeaseDurationSeconds = 30, AcquireTime = AtSecond 0, RenewTime = AtSecond 0, LeaseTransitions = 0\<rparr>)]"

theorem leadership_not_vacant_witness:
  "answers (KubernetesClient mem_http) [(pod ''b'', 5), (pod ''a'', 31 * second_ns)] left_lease = [(False, None), (True, None)]"
proof -
  define l where "l = \<lparr>Lease_Metadata = \<lparr>Meta_Name = ''leader'', Meta_Namespace = ''supadupa''\<rparr>, Lease_Spec = snd (hd left_lease)\<rparr>"
  have l: "mem_stored (Elector_Namespace (pod ''a'')) (Elector_Name (pod ''a'')) left_lease = Some l"
    "RenewTime (Lease_Spec l) = AtSecond 0" "LeaseDurationSeconds (Lease_Spec l) = 30"
    by (simp_all add: mem_stored_def pod_def left_lease_def l_def)
  have late: "(0 + LeaseDurationSeconds (Lease_Spec l)) * second_ns < 31 * second_ns" unfolding l(3) second_ns_def by simp
  have pos: "0 < LeaseDurationSeconds (Lease_Spec l)" by (simp add: l(3))
  have rivals: "\<forall>(e', u) \<in> set [(pod ''b'', 5)]. rivals (pod ''a'') e'" by (simp add: rivals_def pod_def)
  define w where "w = answers (KubernetesClient mem_http) ([(pod ''b'', 5)] @ [(pod ''a'', 31 * second_ns)]) left_lease"
  have first: "fst (TryAcquireOrRenew (KubernetesClient mem_http) (pod ''b'') 5 left_lease) = (False, None)" by code_simp
  have quiet: "\<forall>(ok, err) \<in> set w. err = None" unfolding w_def by code_simp
  have "(True, None) \<in> set w"
    unfolding w_def by (rule leadership_not_vacant [OF mem_server l(1,2) pos late rivals quiet [unfolded w_def]])
  moreover have "\<exists>y. w = [(False, None), y]"
    using first by (cases "TryAcquireOrRenew (KubernetesClient mem_http) (pod ''b'') 5 left_lease")
      (simp add: w_def split: prod.splits)
  ultimately have "w = [(False, None), (True, None)]" by auto
  then show ?thesis unfolding w_def append.simps .
qed


definition stale_lease :: Lease where
  "stale_lease = \<lparr>Lease_Metadata = \<lparr>Meta_Name = ''leader'', Meta_Namespace = ''supadupa''\<rparr>, Lease_Spec = emptySpec\<rparr>"


end
