(* ===== verification/Resource_Sizing.thy ===== *)
theory Resource_Sizing
  imports Go_Prelude
begin

text \<open>
  Exact project sizing (internal/control/store.go and types.go): the project specification, the
  minimum and recommended reservation of a stack profile with its enabled services, the reservation
  that is booked for a specification, the bounds on requested sizes, and the split of an enforced
  CPU and memory budget over the runtime services by largest remainders.
\<close>

section \<open>Data\<close>

record HostCapacity =
  CPU :: int
  RAMMB :: int
  DiskGB :: int
  Project :: int

record ServiceSpec =
  Service_Enabled :: bool
  Service_Config :: "(string, string) gomap"

type_synonym StackProfile = string
type_synonym ResourceTier = string

definition StackProfileEssential :: StackProfile where "StackProfileEssential = ''essential''"
definition StackProfileFull :: StackProfile where "StackProfileFull = ''full''"
definition StackProfileOrioleDB :: StackProfile where "StackProfileOrioleDB = ''orioledb''"

definition ResourceTierSmall :: ResourceTier where "ResourceTierSmall = ''small''"
definition ResourceTierMedium :: ResourceTier where "ResourceTierMedium = ''medium''"
definition ResourceTierLarge :: ResourceTier where "ResourceTierLarge = ''large''"
definition ResourceTierCustom :: ResourceTier where "ResourceTierCustom = ''custom''"

lemmas tier_defs = ResourceTierSmall_def ResourceTierMedium_def ResourceTierLarge_def ResourceTierCustom_def
lemmas profile_defs = StackProfileEssential_def StackProfileFull_def StackProfileOrioleDB_def

record ProjectSpec =
  Spec_Ref :: string
  Spec_OrgID :: string
  Spec_Name :: string
  Spec_HostID :: string
  Spec_Domain :: string
  Spec_StackVersion :: string
  Spec_Profile :: StackProfile
  Spec_ResourceTier :: ResourceTier
  Spec_CPU :: int
  Spec_RAMMB :: int
  Spec_DiskGB :: int
  Spec_EnforceLimits :: bool
  Spec_Services :: "(string, ServiceSpec) gomap"
  Spec_Environment :: "(string, string) gomap"

record ProjectServiceResourceAllocation =
  CPUMilli :: int
  AllocRAMMB :: int

section \<open>Constants\<close>

definition maxProjectCPU :: int where "maxProjectCPU = 64"
definition minProjectRAMMB :: int where "minProjectRAMMB = 256"
definition maxProjectRAMMB :: int where "maxProjectRAMMB = 262144"
definition maxProjectDiskGB :: int where "maxProjectDiskGB = 16384"
definition recommendedCPUHeadroomPercent :: int where "recommendedCPUHeadroomPercent = 20"
definition recommendedRAMHeadroomPercent :: int where "recommendedRAMHeadroomPercent = 25"
definition recommendedDiskHeadroomPercent :: int where "recommendedDiskHeadroomPercent = 20"
definition recommendedRAMRoundingStepMB :: int where "recommendedRAMRoundingStepMB = 256"
definition recommendedDiskRoundingStepGB :: int where "recommendedDiskRoundingStepGB = 5"

lemmas sizing_consts = maxProjectCPU_def minProjectRAMMB_def maxProjectRAMMB_def maxProjectDiskGB_def
  recommendedCPUHeadroomPercent_def recommendedRAMHeadroomPercent_def recommendedDiskHeadroomPercent_def
  recommendedRAMRoundingStepMB_def recommendedDiskRoundingStepGB_def

definition resourceTierReservations :: "(ResourceTier, HostCapacity) gomap" where
  "resourceTierReservations =
     [(ResourceTierSmall, \<lparr>CPU = 2, RAMMB = 4096, DiskGB = 40, Project = 1\<rparr>),
      (ResourceTierMedium, \<lparr>CPU = 4, RAMMB = 8192, DiskGB = 80, Project = 1\<rparr>),
      (ResourceTierLarge, \<lparr>CPU = 8, RAMMB = 16384, DiskGB = 160, Project = 1\<rparr>)]"

definition allowedProjectServices :: "string list" where
  "allowedProjectServices =
     [''auth'', ''rest'', ''graphql'', ''realtime'', ''storage'', ''imgproxy'', ''functions'',
      ''pooler'', ''studio'', ''analytics'', ''vector'']"

section \<open>Service sets\<close>

definition DefaultProjectServiceStates :: "(string, bool) gomap" where
  "DefaultProjectServiceStates = map (\<lambda>name. (name, True)) allowedProjectServices"

definition normalizeProjectServiceName :: "string \<Rightarrow> string option" where
  "normalizeProjectServiceName input =
     (let normalized = ToLower (TrimSpace input);
          normalized =
            (if normalized = ''edge-runtime'' \<or> normalized = ''edge_runtime'' then ''functions''
             else if normalized = ''supavisor'' then ''pooler''
             else if normalized = ''logflare'' then ''analytics''
             else normalized)
      in if normalized \<in> set allowedProjectServices then Some normalized else None)"

fun serviceStatesLoop :: "(string, ServiceSpec) gomap \<Rightarrow> (string, bool) gomap \<Rightarrow> (string, bool) gomap" where
  "serviceStatesLoop [] out = out"
| "serviceStatesLoop ((key, spec) # rest) out =
     (case normalizeProjectServiceName key of
        None \<Rightarrow> serviceStatesLoop rest out
      | Some normalized \<Rightarrow> serviceStatesLoop rest (AList.update normalized (Service_Enabled spec) out))"

definition ProjectServiceStates :: "(string, ServiceSpec) gomap \<Rightarrow> (string, bool) gomap" where
  "ProjectServiceStates input = serviceStatesLoop input DefaultProjectServiceStates"

fun normalizeServicesLoop :: "(string, bool) gomap \<Rightarrow> (string, bool) gomap \<Rightarrow> (string, bool) gomap res" where
  "normalizeServicesLoop [] states = Inr states"
| "normalizeServicesLoop ((key, enabled) # rest) states =
     (case normalizeProjectServiceName key of
        None \<Rightarrow> Inl (ErrOther (''unsupported project service '' @ key))
      | Some normalized \<Rightarrow> normalizeServicesLoop rest (AList.update normalized enabled states))"

definition normalizeProjectServices :: "(string, bool) gomap \<Rightarrow> (string, ServiceSpec) gomap res" where
  "normalizeProjectServices input =
     and_then (normalizeServicesLoop input DefaultProjectServiceStates) (\<lambda>states.
       Inr (map (\<lambda>name. (name, \<lparr>Service_Enabled = get_or False states name, Service_Config = []\<rparr>))
             allowedProjectServices))"

section \<open>Reservations\<close>

definition maxInt :: "int \<Rightarrow> int \<Rightarrow> int" where
  "maxInt left right = (if left > right then left else right)"

definition addPercentRoundUp :: "int \<Rightarrow> int \<Rightarrow> int" where
  "addPercentRoundUp value percent = (if value \<le> 0 then 0 else (value * (100 + percent) + 99) div 100)"

definition roundUpInt :: "int \<Rightarrow> int \<Rightarrow> int" where
  "roundUpInt value step = (if value \<le> 0 \<or> step \<le> 1 then value else ((value + step - 1) div step) * step)"

definition clampInt :: "int \<Rightarrow> int \<Rightarrow> int \<Rightarrow> int" where
  "clampInt value lo hi = (if value < lo then lo else if value > hi then hi else value)"

definition bump :: "bool \<Rightarrow> int \<Rightarrow> int \<Rightarrow> int" where
  "bump on n acc = (if on then acc + n else acc)"

definition minimumReservationForSpec :: "ProjectSpec \<Rightarrow> HostCapacity" where
  "minimumReservationForSpec spec =
     (let states = (if Spec_Services spec = [] then DefaultProjectServiceStates
                    else ProjectServiceStates (Spec_Services spec));
          on = get_or False states;
          oriole = (Spec_Profile spec = StackProfileOrioleDB);
          ramMB = bump oriole 1024 (bump (on ''graphql'') 128 (bump (on ''vector'') 256
                    (bump (on ''analytics'') 1024 (bump (on ''studio'') 512 (bump (on ''pooler'') 256
                    (bump (on ''functions'') 512 (bump (on ''imgproxy'') 256 (bump (on ''storage'') 512
                    (bump (on ''realtime'') 512 (bump (on ''rest'') 256 (bump (on ''auth'') 256 2048)))))))))));
          cpuUnits = bump oriole 50 (bump (on ''graphql'') 10 (bump (on ''vector'') 10
                    (bump (on ''analytics'') 30 (bump (on ''studio'') 10 (bump (on ''pooler'') 10
                    (bump (on ''functions'') 20 (bump (on ''imgproxy'') 20 (bump (on ''storage'') 30
                    (bump (on ''realtime'') 30 (bump (on ''rest'') 20 (bump (on ''auth'') 20 100)))))))))));
          diskGB = bump oriole 20 (bump (on ''analytics'') 10 (bump (on ''storage'') 20 20));
          cpu = (cpuUnits + 99) div 100;
          cpu = (if cpu < 1 then 1 else cpu);
          ramMB = (if ramMB mod 512 \<noteq> 0 then (ramMB div 512 + 1) * 512 else ramMB);
          diskGB = (if diskGB < 20 then 20 else diskGB)
      in \<lparr>CPU = cpu, RAMMB = ramMB, DiskGB = diskGB, Project = 1\<rparr>)"

definition recommendedReservationForSpec :: "ProjectSpec \<Rightarrow> HostCapacity" where
  "recommendedReservationForSpec spec =
     (let minimum = minimumReservationForSpec spec in
      \<lparr>CPU = clampInt (addPercentRoundUp (CPU minimum) recommendedCPUHeadroomPercent) 1 maxProjectCPU,
       RAMMB = clampInt (roundUpInt (addPercentRoundUp (RAMMB minimum) recommendedRAMHeadroomPercent)
                 recommendedRAMRoundingStepMB) minProjectRAMMB maxProjectRAMMB,
       DiskGB = clampInt (roundUpInt (addPercentRoundUp (DiskGB minimum) recommendedDiskHeadroomPercent)
                 recommendedDiskRoundingStepGB) 1 maxProjectDiskGB,
       Project = Project minimum\<rparr>)"

definition resourceReservationForTier :: "ResourceTier \<Rightarrow> HostCapacity" where
  "resourceReservationForTier tier =
     (case map_of resourceTierReservations tier of
        None \<Rightarrow> \<lparr>CPU = 2, RAMMB = 4096, DiskGB = 40, Project = 1\<rparr>
      | Some reservation \<Rightarrow> reservation)"

definition isReplicaResourceTier :: "ResourceTier \<Rightarrow> bool" where
  "isReplicaResourceTier tier \<longleftrightarrow> map_of resourceTierReservations tier \<noteq> None"

definition defaultReplicaTierForProject :: "ProjectSpec \<Rightarrow> ResourceTier" where
  "defaultReplicaTierForProject spec =
     (if isReplicaResourceTier (Spec_ResourceTier spec) then Spec_ResourceTier spec else ResourceTierSmall)"

definition validateReplicaResourceTier :: "ResourceTier \<Rightarrow> unit res" where
  "validateReplicaResourceTier tier =
     (if isReplicaResourceTier tier then Inr () else Inl (ErrOther (''unsupported replica resource tier '' @ tier)))"

definition resourceReservationForSpec :: "ProjectSpec \<Rightarrow> HostCapacity" where
  "resourceReservationForSpec spec =
     (let reservation = resourceReservationForTier (Spec_ResourceTier spec);
          reservation = (if Spec_ResourceTier spec = ResourceTierCustom
                         then recommendedReservationForSpec spec else reservation);
          reservation = (if Spec_CPU spec > 0 then reservation\<lparr>CPU := Spec_CPU spec\<rparr> else reservation);
          reservation = (if Spec_RAMMB spec > 0 then reservation\<lparr>RAMMB := Spec_RAMMB spec\<rparr> else reservation);
          reservation = (if Spec_DiskGB spec > 0 then reservation\<lparr>DiskGB := Spec_DiskGB spec\<rparr> else reservation)
      in reservation)"

definition EffectiveResourceSizing :: "ProjectSpec \<Rightarrow> int \<times> int \<times> int" where
  "EffectiveResourceSizing spec =
     (let reservation = resourceReservationForSpec spec in
      (CPU reservation, RAMMB reservation, DiskGB reservation))"

definition replicaReservationForTier :: "ResourceTier \<Rightarrow> HostCapacity" where
  "replicaReservationForTier tier = (resourceReservationForTier tier)\<lparr>Project := 0\<rparr>"

definition addHostCapacity :: "HostCapacity \<Rightarrow> HostCapacity \<Rightarrow> HostCapacity" where
  "addHostCapacity left right =
     \<lparr>CPU = CPU left + CPU right, RAMMB = RAMMB left + RAMMB right,
      DiskGB = DiskGB left + DiskGB right, Project = Project left + Project right\<rparr>"

definition subtractHostCapacity :: "HostCapacity \<Rightarrow> HostCapacity \<Rightarrow> HostCapacity" where
  "subtractHostCapacity left right =
     \<lparr>CPU = maxInt 0 (CPU left - CPU right), RAMMB = maxInt 0 (RAMMB left - RAMMB right),
      DiskGB = maxInt 0 (DiskGB left - DiskGB right), Project = maxInt 0 (Project left - Project right)\<rparr>"

section \<open>Bounds on requested sizes\<close>

definition validateResourceSizing :: "int \<Rightarrow> int \<Rightarrow> int \<Rightarrow> unit res" where
  "validateResourceSizing cpu ramMB diskGB =
     (if cpu < 0 \<or> ramMB < 0 \<or> diskGB < 0 then Inl (ErrOther ''resource sizing cannot be negative'')
      else if cpu > maxProjectCPU then Inl (ErrOther ''cpu cannot exceed 64 cores'')
      else if ramMB > 0 \<and> ramMB < minProjectRAMMB then Inl (ErrOther ''ram cannot be below 256 MB'')
      else if ramMB > maxProjectRAMMB then Inl (ErrOther ''ram cannot exceed 262144 MB'')
      else if diskGB > maxProjectDiskGB then Inl (ErrOther ''disk cannot exceed 16384 GB'')
      else Inr ())"

definition validateEnforcedResourceMinimum :: "ProjectSpec \<Rightarrow> unit res" where
  "validateEnforcedResourceMinimum spec =
     (if \<not> Spec_EnforceLimits spec then Inr ()
      else let reservation = resourceReservationForSpec spec; minimum = minimumReservationForSpec spec in
        if CPU reservation < CPU minimum \<or> RAMMB reservation < RAMMB minimum \<or> DiskGB reservation < DiskGB minimum
        then Inl (ErrOther ''enforced limits cannot be below the selected stack minimum'')
        else Inr ())"

definition validateStackProfile :: "StackProfile \<Rightarrow> unit res" where
  "validateStackProfile profile =
     (if profile \<in> {StackProfileFull, StackProfileEssential, StackProfileOrioleDB} then Inr ()
      else Inl (ErrOther (''unsupported stack profile '' @ profile)))"

definition validateResourceTier :: "ResourceTier \<Rightarrow> unit res" where
  "validateResourceTier tier =
     (if tier \<in> {ResourceTierSmall, ResourceTierMedium, ResourceTierLarge, ResourceTierCustom} then Inr ()
      else Inl (ErrOther (''unsupported resource tier '' @ tier)))"

section \<open>Splitting an enforced budget\<close>

record projectServiceResourceWeight =
  weight_name :: string
  cpuWeight :: int
  ramWeight :: int

record weightedIntRemainder =
  rem_name :: string
  remainder :: int
  rem_index :: nat

definition svc :: "string \<Rightarrow> int \<Rightarrow> int \<Rightarrow> projectServiceResourceWeight" where
  "svc name c r = \<lparr>weight_name = name, cpuWeight = c, ramWeight = r\<rparr>"

text \<open>The source appends one entry per enabled service, in this order.\<close>

definition optionalServiceWeights :: "projectServiceResourceWeight list" where
  "optionalServiceWeights =
     [svc ''auth'' 20 256, svc ''rest'' 20 256, svc ''realtime'' 30 512, svc ''storage'' 30 512,
      svc ''imgproxy'' 20 256, svc ''functions'' 20 512, svc ''pooler'' 10 256, svc ''studio'' 10 512,
      svc ''analytics'' 30 1024, svc ''vector'' 10 256]"

definition projectServiceResourceWeights :: "ProjectSpec \<Rightarrow> projectServiceResourceWeight list" where
  "projectServiceResourceWeights spec =
     (let states = ProjectServiceStates (Spec_Services spec) in
      [svc ''db'' 100 2048, svc ''kong'' 40 768, svc ''meta'' 15 256] @
      filter (\<lambda>s. get_or False states (weight_name s)) optionalServiceWeights)"

fun totalWeightOf :: "('s \<Rightarrow> int) \<Rightarrow> 's list \<Rightarrow> int" where
  "totalWeightOf weight [] = 0"
| "totalWeightOf weight (s # ss) = (if weight s > 0 then weight s else 0) + totalWeightOf weight ss"

fun equalShares :: "int \<Rightarrow> int \<Rightarrow> nat \<Rightarrow> projectServiceResourceWeight list \<Rightarrow> (string, int) gomap \<Rightarrow> (string, int) gomap" where
  "equalShares share extra i [] out = out"
| "equalShares share extra i (s # ss) out =
     equalShares share extra (Suc i) ss
       (AList.update (weight_name s) (if int i < extra then share + 1 else share) out)"

text \<open>
  The allocation loop keeps the map built so far, the sum handed out and the remainders, with the
  position of each service.
\<close>

fun baseShares :: "int \<Rightarrow> int \<Rightarrow> (projectServiceResourceWeight \<Rightarrow> int) \<Rightarrow> nat \<Rightarrow>
    projectServiceResourceWeight list \<Rightarrow> (string, int) gomap \<Rightarrow> int \<Rightarrow> weightedIntRemainder list \<Rightarrow>
    (string, int) gomap \<times> int \<times> weightedIntRemainder list" where
  "baseShares amount tw weight i [] out allocated remainders = (out, allocated, remainders)"
| "baseShares amount tw weight i (s # ss) out allocated remainders =
     (let value = weight s in
      if value \<le> 0 then baseShares amount tw weight (Suc i) ss out allocated remainders
      else let raw = amount * value; base = raw div tw in
        baseShares amount tw weight (Suc i) ss
          (AList.update (weight_name s) base out) (allocated + base)
          (remainders @ [\<lparr>rem_name = weight_name s, remainder = raw mod tw, rem_index = i\<rparr>]))"

definition remainder_less :: "weightedIntRemainder \<Rightarrow> weightedIntRemainder \<Rightarrow> bool" where
  "remainder_less a b \<longleftrightarrow>
     (if remainder a \<noteq> remainder b then remainder a > remainder b else rem_index a < rem_index b)"

fun increment :: "weightedIntRemainder list \<Rightarrow> (string, int) gomap \<Rightarrow> (string, int) gomap" where
  "increment [] out = out"
| "increment (r # rs) out = increment rs (AList.update (rem_name r) (get_or 0 out (rem_name r) + 1) out)"

definition distributeWeightedInt :: "int \<Rightarrow> projectServiceResourceWeight list \<Rightarrow>
    (projectServiceResourceWeight \<Rightarrow> int) \<Rightarrow> (string, int) gomap" where
  "distributeWeightedInt amount services weight =
     (if amount \<le> 0 \<or> services = [] then []
      else let totalWeight = totalWeightOf weight services in
        if totalWeight \<le> 0 then
          equalShares (amount div int (length services)) (amount mod int (length services)) 0 services []
        else case baseShares amount totalWeight weight 0 services [] 0 [] of
          (out, allocated, remainders) \<Rightarrow>
            increment (take (nat (amount - allocated)) (sort_slice remainder_less remainders)) out)"

definition ProjectServiceResourceAllocations :: "ProjectSpec \<Rightarrow> (string, ProjectServiceResourceAllocation) gomap" where
  "ProjectServiceResourceAllocations spec =
     (if \<not> Spec_EnforceLimits spec then []
      else case EffectiveResourceSizing spec of (cpu, ramMB, _) \<Rightarrow>
        if cpu \<le> 0 \<or> ramMB \<le> 0 then []
        else let services = projectServiceResourceWeights spec;
                 cpuParts = distributeWeightedInt (cpu * 1000) services cpuWeight;
                 ramParts = distributeWeightedInt ramMB services ramWeight
             in map (\<lambda>s. (weight_name s, \<lparr>CPUMilli = get_or 0 cpuParts (weight_name s),
                                          AllocRAMMB = get_or 0 ramParts (weight_name s)\<rparr>)) services)"

section \<open>The split is exact\<close>

definition base_share :: "int \<Rightarrow> int \<Rightarrow> ('s \<Rightarrow> int) \<Rightarrow> 's \<Rightarrow> int" where
  "base_share amount tw weight s = (if weight s > 0 then amount * weight s div tw else 0)"

definition rem_share :: "int \<Rightarrow> int \<Rightarrow> ('s \<Rightarrow> int) \<Rightarrow> 's \<Rightarrow> int" where
  "rem_share amount tw weight s = (if weight s > 0 then amount * weight s mod tw else 0)"

lemma share_split: "tw * base_share amount tw weight s + rem_share amount tw weight s =
    amount * (if weight s > 0 then weight s else 0)"
  by (simp add: base_share_def rem_share_def)

lemma sum_shares:
  "tw * sum_list (map (base_share amount tw weight) ss) + sum_list (map (rem_share amount tw weight) ss) =
     amount * totalWeightOf weight ss"
proof (induction ss)
  case (Cons s ss)
  then show ?case using share_split [of tw amount weight s] by (simp add: algebra_simps)
qed simp

lemma totalWeightOf_nonneg: "0 \<le> totalWeightOf weight ss"
  by (induction ss) auto

lemma baseShares_step:
  "weight s > 0 \<Longrightarrow> baseShares amount tw weight i (s # ss) out al rs =
     baseShares amount tw weight (Suc i) ss
       (AList.update (weight_name s) (base_share amount tw weight s) out) (al + base_share amount tw weight s)
       (rs @ [\<lparr>rem_name = weight_name s, remainder = rem_share amount tw weight s, rem_index = i\<rparr>])"
  by (simp add: Let_def base_share_def rem_share_def)

lemma baseShares_skip:
  "\<not> weight s > 0 \<Longrightarrow> baseShares amount tw weight i (s # ss) out al rs = baseShares amount tw weight (Suc i) ss out al rs"
  by simp

lemma baseShares_allocated:
  "baseShares amount tw weight i ss out al rs = (out', al', rs') \<Longrightarrow>
     al' = al + sum_list (map (base_share amount tw weight) ss)"
proof (induction ss arbitrary: i out al rs)
  case (Cons s ss)
  show ?case
  proof (cases "weight s > 0")
    case True
    from Cons.IH [OF Cons.prems [unfolded baseShares_step [of weight, OF True]]] show ?thesis by simp
  next
    case False
    from Cons.IH [OF Cons.prems [unfolded baseShares_skip [of weight, OF False]]] False
    show ?thesis by (simp add: base_share_def)
  qed
qed simp

lemma baseShares_remainders:
  "baseShares amount tw weight i ss out al rs = (out', al', rs') \<Longrightarrow>
     map rem_name rs' = map rem_name rs @ map weight_name (filter (\<lambda>s. weight s > 0) ss) \<and>
     map remainder rs' = map remainder rs @ map (rem_share amount tw weight) (filter (\<lambda>s. weight s > 0) ss)"
proof (induction ss arbitrary: i out al rs)
  case (Cons s ss)
  show ?case
  proof (cases "weight s > 0")
    case True
    from Cons.IH [OF Cons.prems [unfolded baseShares_step [of weight, OF True]]] True show ?thesis by simp
  next
    case False
    from Cons.IH [OF Cons.prems [unfolded baseShares_skip [of weight, OF False]]] False show ?thesis by simp
  qed
qed simp

lemma baseShares_get:
  "baseShares amount tw weight i ss out al rs = (out', al', rs') \<Longrightarrow> distinct (map weight_name ss) \<Longrightarrow>
     (\<forall>s \<in> set ss. weight s > 0 \<longrightarrow> get_or 0 out' (weight_name s) = base_share amount tw weight s) \<and>
     (\<forall>k. k \<notin> weight_name ` {s \<in> set ss. weight s > 0} \<longrightarrow> get_or 0 out' k = get_or 0 out k)"
proof (induction ss arbitrary: i out al rs)
  case (Cons s ss)
  have d: "distinct (map weight_name ss)" and fresh: "weight_name s \<notin> weight_name ` set ss"
    using Cons.prems(2) by auto
  show ?case
  proof (cases "weight s > 0")
    case True
    let ?out = "AList.update (weight_name s) (base_share amount tw weight s) out"
    note IH = Cons.IH [OF Cons.prems(1) [unfolded baseShares_step [of weight, OF True]] d]
    have "get_or 0 out' (weight_name s) = get_or 0 ?out (weight_name s)"
      by (rule IH [THEN conjunct2, rule_format]) (use fresh in auto)
    then have "get_or 0 out' (weight_name s) = base_share amount tw weight s" by simp
    moreover have "{t \<in> set (s # ss). weight t > 0} = insert s {t \<in> set ss. weight t > 0}"
      using True by auto
    ultimately show ?thesis using IH by auto
  next
    case False
    from Cons.IH [OF Cons.prems(1) [unfolded baseShares_skip [of weight, OF False]] d] False
    show ?thesis by auto
  qed
qed simp

lemma get_or_increment:
  "distinct (map rem_name rs) \<Longrightarrow>
     get_or 0 (increment rs out) k = get_or 0 out k + (if k \<in> rem_name ` set rs then 1 else 0)"
  by (induction rs arbitrary: out) auto

lemma sum_list_bonus:
  assumes "distinct ns" and "distinct bs" and "set bs \<subseteq> set ns"
  shows "sum_list (map (\<lambda>n. if n \<in> set bs then 1 else (0::int)) ns) = int (length bs)"
proof -
  have "sum_list (map (\<lambda>n. if n \<in> set bs then 1 else (0::int)) ns) = (\<Sum>n\<in>set ns. if n \<in> set bs then 1 else 0)"
    by (rule sum_list_distinct_conv_sum_set [OF assms(1)])
  also have "\<dots> = int (card (set ns \<inter> set bs))" by (simp add: sum.If_cases)
  also have "set ns \<inter> set bs = set bs" using assms(3) by auto
  finally show ?thesis using assms(2) by (simp add: distinct_card)
qed

lemma sum_list_rem_filter:
  "sum_list (map (rem_share amount tw weight) ss) =
     sum_list (map (rem_share amount tw weight) (filter (\<lambda>s. weight s > 0) ss))"
  by (induction ss) (auto simp: rem_share_def)

lemma sum_list_lt:
  "(\<And>x. x \<in> set xs \<Longrightarrow> f x < (c::int)) \<Longrightarrow> xs \<noteq> [] \<Longrightarrow> sum_list (map f xs) < int (length xs) * c"
proof (induction xs)
  case (Cons x xs)
  have "f x < c" using Cons.prems by simp
  moreover have "sum_list (map f xs) \<le> int (length xs) * c"
    by (cases "xs = []") (use Cons in \<open>auto simp: less_imp_le\<close>)
  ultimately show ?case by (simp add: algebra_simps)
qed simp

lemma sum_list_nonneg_int: "(\<And>x. x \<in> set xs \<Longrightarrow> 0 \<le> f x) \<Longrightarrow> 0 \<le> sum_list (map f xs)" for f :: "'a \<Rightarrow> int"
  by (induction xs) auto

text \<open>What the base shares leave over is at least 0 and less than the number of services.\<close>

lemma leftover_bounds:
  assumes pos: "0 < amount" and tw: "totalWeightOf weight ss = tw" "0 < tw"
  defines "rest \<equiv> amount - sum_list (map (base_share amount tw weight) ss)"
  shows "0 \<le> rest" and "rest < int (length (filter (\<lambda>s. weight s > 0) ss))"
proof -
  let ?fs = "filter (\<lambda>s. weight s > 0) ss"
  let ?R = "sum_list (map (rem_share amount tw weight) ss)"
  have eq: "tw * rest = ?R"
    using sum_shares [of tw amount weight ss] tw(1) by (simp add: rest_def algebra_simps)
  have "0 \<le> ?R" using tw(2) by (intro sum_list_nonneg_int) (simp add: rem_share_def)
  with eq tw(2) show "0 \<le> rest" by (metis mult_less_0_iff not_le)
  have ne: "?fs \<noteq> []"
  proof
    assume empty: "?fs = []"
    have "totalWeightOf weight xs = 0" if "filter (\<lambda>s. weight s > 0) xs = []" for xs
      using that by (induction xs) (auto split: if_splits)
    from this [OF empty] show False using tw by simp
  qed
  have "?R = sum_list (map (rem_share amount tw weight) ?fs)" by (rule sum_list_rem_filter)
  also have "\<dots> < int (length ?fs) * tw"
    by (rule sum_list_lt [OF _ ne]) (use tw(2) in \<open>simp add: rem_share_def\<close>)
  finally have "tw * rest < tw * int (length ?fs)" using eq by (simp add: mult.commute)
  then show "rest < int (length ?fs)" using tw(2) by simp
qed

text \<open>Every service gets its rounded-down share, and some of them one unit more.\<close>

lemma distributeWeightedInt_shape:
  assumes pos: "0 < amount" and tw: "totalWeightOf weight ss = tw" "0 < tw"
    and d: "distinct (map weight_name ss)"
  obtains bonus where "distinct bonus" and "set bonus \<subseteq> weight_name ` {s \<in> set ss. weight s > 0}"
    and "int (length bonus) = amount - sum_list (map (base_share amount tw weight) ss)"
    and "\<And>s. s \<in> set ss \<Longrightarrow> get_or 0 (distributeWeightedInt amount ss weight) (weight_name s) =
           base_share amount tw weight s + (if weight_name s \<in> set bonus then 1 else 0)"
proof -
  obtain out al rs where b: "baseShares amount tw weight 0 ss [] 0 [] = (out, al, rs)"
    by (cases "baseShares amount tw weight 0 ss [] 0 []")
  let ?srt = "sort_slice remainder_less rs"
  let ?top = "take (nat (amount - al)) ?srt"
  let ?bonus = "map rem_name ?top"
  have ne: "ss \<noteq> []" using tw by auto
  have names: "map rem_name rs = map weight_name (filter (\<lambda>s. weight s > 0) ss)"
    using baseShares_remainders [OF b] by simp
  have al: "al = sum_list (map (base_share amount tw weight) ss)"
    using baseShares_allocated [OF b] by simp
  note lb = leftover_bounds [OF pos tw, folded al]
  have dr: "distinct (map rem_name rs)"
    unfolding names by (rule distinct_map_filter [OF d])
  have ds: "distinct (map rem_name ?srt)"
    using dr slice.mset_srt [of remainder_less rs] by (metis mset_eq_imp_distinct_iff mset_map)
  have dt: "distinct ?bonus" using ds by (metis distinct_take take_map)
  have sub: "set ?bonus \<subseteq> weight_name ` {s \<in> set ss. weight s > 0}"
  proof -
    have "set ?bonus \<subseteq> rem_name ` set rs"
      using slice.set_srt [of remainder_less rs] set_take_subset [of "nat (amount - al)" ?srt] by auto
    also have "rem_name ` set rs = set (map rem_name rs)" by simp
    finally show ?thesis unfolding names by auto
  qed
  have lrs: "length rs = length (filter (\<lambda>s. weight s > 0) ss)" using names by (metis length_map)
  have len: "int (length ?bonus) = amount - al"
    using lb lrs slice.length_srt [of remainder_less rs] by simp
  have dist: "distributeWeightedInt amount ss weight = increment ?top out"
    using pos tw ne b by (simp add: distributeWeightedInt_def)
  have get: "get_or 0 (distributeWeightedInt amount ss weight) (weight_name s) =
       base_share amount tw weight s + (if weight_name s \<in> set ?bonus then 1 else 0)" if s: "s \<in> set ss" for s
  proof (cases "weight s > 0")
    case True
    then show ?thesis
      using baseShares_get [OF b d] s unfolding dist get_or_increment [OF dt] by simp
  next
    case False
    have "weight_name s \<notin> weight_name ` {s \<in> set ss. weight s > 0}"
      using d s False by (auto simp: distinct_map dest: inj_onD)
    then show ?thesis
      using baseShares_get [OF b d] False sub unfolding dist get_or_increment [OF dt]
      by (auto simp: base_share_def)
  qed
  from that [OF dt sub _ get] show thesis using len al by simp
qed

lemma distributeWeightedInt_sum:
  assumes "0 < amount" and "0 < totalWeightOf weight ss" and "distinct (map weight_name ss)"
  shows "sum_list (map (\<lambda>s. get_or 0 (distributeWeightedInt amount ss weight) (weight_name s)) ss) = amount"
proof -
  define tw where "tw = totalWeightOf weight ss"
  have tw: "totalWeightOf weight ss = tw" "0 < tw" using assms(2) by (simp_all add: tw_def)
  obtain bonus where b: "distinct bonus" "set bonus \<subseteq> weight_name ` {s \<in> set ss. weight s > 0}"
      "int (length bonus) = amount - sum_list (map (base_share amount tw weight) ss)"
    and get: "\<And>s. s \<in> set ss \<Longrightarrow> get_or 0 (distributeWeightedInt amount ss weight) (weight_name s) =
           base_share amount tw weight s + (if weight_name s \<in> set bonus then 1 else 0)"
    by (rule distributeWeightedInt_shape [OF assms(1) tw assms(3)]) blast
  have "sum_list (map (\<lambda>s. get_or 0 (distributeWeightedInt amount ss weight) (weight_name s)) ss) =
      sum_list (map (\<lambda>s. base_share amount tw weight s + (if weight_name s \<in> set bonus then 1 else 0)) ss)"
    by (rule arg_cong [where f = sum_list]) (simp add: get)
  also have "\<dots> = sum_list (map (base_share amount tw weight) ss) +
      sum_list (map (\<lambda>n. if n \<in> set bonus then 1 else 0) (map weight_name ss))"
    by (simp add: sum_list_addf comp_def)
  also have "\<dots> = amount"
  proof -
    have "set bonus \<subseteq> set (map weight_name ss)" using b(2) by auto
    from sum_list_bonus [OF assms(3) b(1) this] show ?thesis using b(3) by simp
  qed
  finally show ?thesis .
qed

lemma distributeWeightedInt_near:
  assumes "0 < amount" and "0 < totalWeightOf weight ss" and "distinct (map weight_name ss)"
    and "s \<in> set ss" and "weight s > 0"
  defines "part \<equiv> get_or 0 (distributeWeightedInt amount ss weight) (weight_name s)"
  shows "amount * weight s div totalWeightOf weight ss \<le> part"
    and "part \<le> amount * weight s div totalWeightOf weight ss + 1"
proof -
  obtain bonus where "\<And>s. s \<in> set ss \<Longrightarrow> get_or 0 (distributeWeightedInt amount ss weight) (weight_name s) =
           base_share amount (totalWeightOf weight ss) weight s + (if weight_name s \<in> set bonus then 1 else (0::int))"
    by (rule distributeWeightedInt_shape [OF assms(1) refl assms(2,3)]) blast
  from this [OF assms(4)] assms(5)
  show "amount * weight s div totalWeightOf weight ss \<le> part"
    and "part \<le> amount * weight s div totalWeightOf weight ss + 1"
    by (auto simp: part_def base_share_def)
qed

section \<open>Facts about reservations\<close>

lemma minimumReservation_bounds:
  "1 \<le> CPU (minimumReservationForSpec spec) \<and> CPU (minimumReservationForSpec spec) \<le> 4"
  "2048 \<le> RAMMB (minimumReservationForSpec spec) \<and> RAMMB (minimumReservationForSpec spec) \<le> 8704"
  "20 \<le> DiskGB (minimumReservationForSpec spec) \<and> DiskGB (minimumReservationForSpec spec) \<le> 70"
  "Project (minimumReservationForSpec spec) = 1"
proof -
  have lo: "l \<le> bump b n acc" if "l \<le> acc" "0 \<le> n" for l b n acc
    using that by (simp add: bump_def)
  have hi: "bump b n acc \<le> u + n" if "acc \<le> u" "0 \<le> n" for u b n acc
    using that by (simp add: bump_def)
  have ceil: "1 \<le> (x + 99) div 100 \<and> (x + 99) div 100 \<le> 4" if "100 \<le> x" "x \<le> 400" for x :: int
    using zdiv_mono1 [of 199 "x + 99" 100] zdiv_mono1 [of "x + 99" 499 100] that by simp
  have r512: "x \<le> (if x mod 512 \<noteq> 0 then (x div 512 + 1) * 512 else x) \<and>
      (if x mod 512 \<noteq> 0 then (x div 512 + 1) * 512 else x) \<le> x + 511" for x :: int
  proof -
    have "512 * (x div 512) + x mod 512 = x" by (rule mult_div_mod_eq)
    moreover have "0 \<le> x mod 512" "x mod 512 < 512" by simp_all
    moreover obtain q r where "x div 512 = q" "x mod 512 = r" by blast
    ultimately show ?thesis by auto
  qed
  define states where "states = (if Spec_Services spec = [] then DefaultProjectServiceStates
                    else ProjectServiceStates (Spec_Services spec))"
  define on where "on = get_or False states"
  define oriole where "oriole = (Spec_Profile spec = StackProfileOrioleDB)"
  note unf = minimumReservationForSpec_def Let_def states_def [symmetric] on_def [symmetric] oriole_def [symmetric]
  let ?u = "bump oriole 50 (bump (on ''graphql'') 10 (bump (on ''vector'') 10
                    (bump (on ''analytics'') 30 (bump (on ''studio'') 10 (bump (on ''pooler'') 10
                    (bump (on ''functions'') 20 (bump (on ''imgproxy'') 20 (bump (on ''storage'') 30
                    (bump (on ''realtime'') 30 (bump (on ''rest'') 20 (bump (on ''auth'') 20 100)))))))))))"
  let ?m = "bump oriole 1024 (bump (on ''graphql'') 128 (bump (on ''vector'') 256
                    (bump (on ''analytics'') 1024 (bump (on ''studio'') 512 (bump (on ''pooler'') 256
                    (bump (on ''functions'') 512 (bump (on ''imgproxy'') 256 (bump (on ''storage'') 512
                    (bump (on ''realtime'') 512 (bump (on ''rest'') 256 (bump (on ''auth'') 256 2048)))))))))))"
  have u1: "100 \<le> ?u" by (rule lo)+ simp_all
  have u2: "?u \<le> 100 + 20 + 20 + 30 + 30 + 20 + 20 + 10 + 10 + 30 + 10 + 10 + 50"
    by (rule hi)+ simp_all
  have "CPU (minimumReservationForSpec spec) = (let cpu = (?u + 99) div 100 in if cpu < 1 then 1 else cpu)"
    unfolding unf HostCapacity.simps by (rule refl)
  with ceil [of ?u] u1 u2 show "1 \<le> CPU (minimumReservationForSpec spec) \<and> CPU (minimumReservationForSpec spec) \<le> 4"
    unfolding Let_def by simp
  have m1: "2048 \<le> ?m" by (rule lo)+ simp_all
  have m2: "?m \<le> 2048 + 256 + 256 + 512 + 512 + 256 + 512 + 256 + 512 + 1024 + 256 + 128 + 1024"
    by (rule hi)+ simp_all
  have "RAMMB (minimumReservationForSpec spec) = (if ?m mod 512 \<noteq> 0 then (?m div 512 + 1) * 512 else ?m)"
    unfolding unf HostCapacity.simps by (rule refl)
  with r512 [of ?m] m1 m2 show "2048 \<le> RAMMB (minimumReservationForSpec spec) \<and> RAMMB (minimumReservationForSpec spec) \<le> 8704"
    by linarith
  have "DiskGB (minimumReservationForSpec spec) =
      (let d = bump oriole 20 (bump (on ''analytics'') 10 (bump (on ''storage'') 20 20)) in if d < 20 then 20 else d)"
    unfolding unf HostCapacity.simps by (rule refl)
  then show "20 \<le> DiskGB (minimumReservationForSpec spec) \<and> DiskGB (minimumReservationForSpec spec) \<le> 70"
    by (simp add: Let_def bump_def)
  show "Project (minimumReservationForSpec spec) = 1"
    unfolding unf HostCapacity.simps by (rule refl)
qed

lemma addPercent_ge: "0 \<le> p \<Longrightarrow> x \<le> addPercentRoundUp x p"
proof (cases "x \<le> 0")
  case False
  assume p: "0 \<le> p"
  with False have "x * 100 \<le> x * (100 + p)" by (intro mult_left_mono) auto
  then have "x * 100 div 100 \<le> (x * (100 + p) + 99) div 100" by (intro zdiv_mono1) auto
  with False show ?thesis by (simp add: addPercentRoundUp_def)
qed (simp add: addPercentRoundUp_def)

lemma roundUp_ge: "x \<le> roundUpInt x step"
proof (cases "x \<le> 0 \<or> step \<le> 1")
  case False
  then have "(x + step - 1) mod step < step" by (intro pos_mod_bound) simp
  moreover have "step * ((x + step - 1) div step) + (x + step - 1) mod step = x + step - 1"
    by (rule mult_div_mod_eq)
  ultimately have "x \<le> step * ((x + step - 1) div step)" by linarith
  with False show ?thesis unfolding roundUpInt_def by (simp add: mult.commute)
qed (auto simp: roundUpInt_def)

lemma resourceTierReservation_pos:
  "1 \<le> CPU (resourceReservationForTier t) \<and> 1 \<le> RAMMB (resourceReservationForTier t)
     \<and> 1 \<le> DiskGB (resourceReservationForTier t) \<and> Project (resourceReservationForTier t) = 1"
  by (simp add: resourceReservationForTier_def resourceTierReservations_def)

lemma clampInt_bounds: "lo \<le> hi \<Longrightarrow> lo \<le> clampInt x lo hi \<and> clampInt x lo hi \<le> hi"
  by (simp add: clampInt_def)

lemma clampInt_ge: "m \<le> x \<Longrightarrow> m \<le> hi \<Longrightarrow> m \<le> clampInt x lo hi"
  by (simp add: clampInt_def)

lemma recommended_bounds:
  "1 \<le> CPU (recommendedReservationForSpec spec) \<and> CPU (recommendedReservationForSpec spec) \<le> maxProjectCPU"
  "minProjectRAMMB \<le> RAMMB (recommendedReservationForSpec spec) \<and> RAMMB (recommendedReservationForSpec spec) \<le> maxProjectRAMMB"
  "1 \<le> DiskGB (recommendedReservationForSpec spec) \<and> DiskGB (recommendedReservationForSpec spec) \<le> maxProjectDiskGB"
  "Project (recommendedReservationForSpec spec) = 1"
  unfolding recommendedReservationForSpec_def Let_def
  by (simp_all add: clampInt_bounds sizing_consts minimumReservation_bounds)

lemma recommended_ge_minimum:
  "CPU (minimumReservationForSpec spec) \<le> CPU (recommendedReservationForSpec spec)"
  "RAMMB (minimumReservationForSpec spec) \<le> RAMMB (recommendedReservationForSpec spec)"
  "DiskGB (minimumReservationForSpec spec) \<le> DiskGB (recommendedReservationForSpec spec)"
proof -
  note mb = minimumReservation_bounds [of spec]
  have ge: "x \<le> roundUpInt (addPercentRoundUp x p) st" if "0 \<le> p" for x p st
    by (rule order_trans [OF addPercent_ge [OF that] roundUp_ge])
  show "CPU (minimumReservationForSpec spec) \<le> CPU (recommendedReservationForSpec spec)"
    unfolding recommendedReservationForSpec_def Let_def HostCapacity.simps
    by (rule clampInt_ge, rule addPercent_ge) (use mb in \<open>simp_all add: sizing_consts\<close>)
  show "RAMMB (minimumReservationForSpec spec) \<le> RAMMB (recommendedReservationForSpec spec)"
    unfolding recommendedReservationForSpec_def Let_def HostCapacity.simps
    by (rule clampInt_ge, rule ge) (use mb in \<open>simp_all add: sizing_consts\<close>)
  show "DiskGB (minimumReservationForSpec spec) \<le> DiskGB (recommendedReservationForSpec spec)"
    unfolding recommendedReservationForSpec_def Let_def HostCapacity.simps
    by (rule clampInt_ge, rule ge) (use mb in \<open>simp_all add: sizing_consts\<close>)
qed

text \<open>A booked reservation is never empty, whatever the specification says.\<close>

lemma reservation_pos:
  "1 \<le> CPU (resourceReservationForSpec spec)" "1 \<le> RAMMB (resourceReservationForSpec spec)"
  "1 \<le> DiskGB (resourceReservationForSpec spec)" "Project (resourceReservationForSpec spec) = 1"
  using resourceTierReservation_pos [of "Spec_ResourceTier spec"] recommended_bounds [of spec]
  by (simp_all add: resourceReservationForSpec_def Let_def sizing_consts)

definition zeroCapacity :: HostCapacity where
  "zeroCapacity = \<lparr>CPU = 0, RAMMB = 0, DiskGB = 0, Project = 0\<rparr>"

definition nonnegCapacity :: "HostCapacity \<Rightarrow> bool" where
  "nonnegCapacity c \<longleftrightarrow> 0 \<le> CPU c \<and> 0 \<le> RAMMB c \<and> 0 \<le> DiskGB c \<and> 0 \<le> Project c"

interpretation cap: ledger addHostCapacity subtractHostCapacity zeroCapacity nonnegCapacity
  by unfold_locales
    (auto simp: addHostCapacity_def subtractHostCapacity_def zeroCapacity_def nonnegCapacity_def maxInt_def)

lemma nonneg_reservation [intro, simp]: "nonnegCapacity (resourceReservationForSpec spec)"
  using reservation_pos [of spec] by (simp add: nonnegCapacity_def)

lemma nonneg_replica_reservation [intro, simp]: "nonnegCapacity (replicaReservationForTier t)"
  using resourceTierReservation_pos [of t] by (simp add: nonnegCapacity_def replicaReservationForTier_def)

section \<open>Properties\<close>

lemma distinct_service_weights: "distinct (map weight_name (projectServiceResourceWeights spec))"
proof -
  have "distinct (map weight_name optionalServiceWeights)"
    and "weight_name ` set optionalServiceWeights \<inter> {''db'', ''kong'', ''meta''} = {}"
    by (simp_all add: optionalServiceWeights_def svc_def)
  then show ?thesis
    by (auto simp: projectServiceResourceWeights_def Let_def svc_def distinct_map_filter)
qed

lemma service_weights_pos:
  assumes "s \<in> set (projectServiceResourceWeights spec)"
  shows "0 < cpuWeight s \<and> cpuWeight s \<le> 100 \<and> 0 < ramWeight s \<and> ramWeight s \<le> 2048"
proof -
  have "\<forall>s \<in> set optionalServiceWeights. 0 < cpuWeight s \<and> cpuWeight s \<le> 100 \<and> 0 < ramWeight s \<and> ramWeight s \<le> 2048"
    by (simp add: optionalServiceWeights_def svc_def)
  with assms show ?thesis by (auto simp: projectServiceResourceWeights_def Let_def svc_def)
qed

lemma totalWeightOf_append [simp]: "totalWeightOf w (xs @ ys) = totalWeightOf w xs + totalWeightOf w ys"
  by (induction xs) auto

lemma total_weights_pos:
  "0 < totalWeightOf cpuWeight (projectServiceResourceWeights spec)"
  "0 < totalWeightOf ramWeight (projectServiceResourceWeights spec)"
proof -
  have eq: "projectServiceResourceWeights spec = svc ''db'' 100 2048 # tl (projectServiceResourceWeights spec)"
    by (simp add: projectServiceResourceWeights_def Let_def)
  show "0 < totalWeightOf cpuWeight (projectServiceResourceWeights spec)"
    using totalWeightOf_nonneg [of cpuWeight "tl (projectServiceResourceWeights spec)"]
    by (subst eq) (simp add: svc_def)
  show "0 < totalWeightOf ramWeight (projectServiceResourceWeights spec)"
    using totalWeightOf_nonneg [of ramWeight "tl (projectServiceResourceWeights spec)"]
    by (subst eq) (simp add: svc_def)
qed

lemma allocations_enforced:
  assumes "Spec_EnforceLimits spec"
  shows "ProjectServiceResourceAllocations spec =
    map (\<lambda>s. (weight_name s,
      \<lparr>CPUMilli = get_or 0 (distributeWeightedInt (CPU (resourceReservationForSpec spec) * 1000)
                    (projectServiceResourceWeights spec) cpuWeight) (weight_name s),
       AllocRAMMB = get_or 0 (distributeWeightedInt (RAMMB (resourceReservationForSpec spec))
                    (projectServiceResourceWeights spec) ramWeight) (weight_name s)\<rparr>))
      (projectServiceResourceWeights spec)"
  using assms reservation_pos [of spec]
  by (simp add: ProjectServiceResourceAllocations_def EffectiveResourceSizing_def Let_def)

text \<open>C12. When limits are enforced, the per-container CPU and memory limits add up to exactly the
  CPU (in thousandths of a core) and memory that are reserved for the project: the split by largest
  remainders neither loses nor invents a unit.\<close>

theorem allocations_exact:
  assumes "Spec_EnforceLimits spec"
  shows "sum_list (map (\<lambda>(_, a). CPUMilli a) (ProjectServiceResourceAllocations spec)) =
           1000 * CPU (resourceReservationForSpec spec) \<and>
         sum_list (map (\<lambda>(_, a). AllocRAMMB a) (ProjectServiceResourceAllocations spec)) =
           RAMMB (resourceReservationForSpec spec)"
proof -
  note r = reservation_pos [of spec]
  have c: "0 < CPU (resourceReservationForSpec spec) * 1000" and m: "0 < RAMMB (resourceReservationForSpec spec)"
    using r by simp_all
  show ?thesis
    using distributeWeightedInt_sum [OF c total_weights_pos(1) distinct_service_weights]
      distributeWeightedInt_sum [OF m total_weights_pos(2) distinct_service_weights]
    by (simp add: allocations_enforced [OF assms] comp_def)
qed

text \<open>A full-profile specification with enforced limits: 5 cores and 8448 MB.\<close>

definition sample_spec :: ProjectSpec where
  "sample_spec = \<lparr>Spec_Ref = ''alpha'', Spec_OrgID = ''org1'', Spec_Name = ''Alpha'', Spec_HostID = [],
     Spec_Domain = ''apps.example.com'', Spec_StackVersion = ''latest'', Spec_Profile = StackProfileFull,
     Spec_ResourceTier = ResourceTierCustom, Spec_CPU = 5, Spec_RAMMB = 8448, Spec_DiskGB = 60,
     Spec_EnforceLimits = True, Spec_Services = [], Spec_Environment = []\<rparr>"

lemma sample_spec_simps [simp]:
  "Spec_EnforceLimits sample_spec" "Spec_CPU sample_spec = 5" "Spec_RAMMB sample_spec = 8448"
  "Spec_DiskGB sample_spec = 60" "Spec_Services sample_spec = []"
  "Spec_ResourceTier sample_spec = ResourceTierCustom" "Spec_Profile sample_spec = StackProfileFull"
  by (simp_all add: sample_spec_def)

theorem allocations_exact_witness:
  "sum_list (map (\<lambda>(_, a). CPUMilli a) (ProjectServiceResourceAllocations sample_spec)) = 5000 \<and>
   sum_list (map (\<lambda>(_, a). AllocRAMMB a) (ProjectServiceResourceAllocations sample_spec)) = 8448"
proof -
  have "CPU (resourceReservationForSpec sample_spec) = 5" "RAMMB (resourceReservationForSpec sample_spec) = 8448"
    by (simp_all add: resourceReservationForSpec_def Let_def)
  then show ?thesis using allocations_exact [of sample_spec] by simp
qed

text \<open>The split is fair: every container gets its proportional share of the budget rounded down,
  or one unit more, for CPU and for memory.\<close>

theorem allocations_fair:
  assumes "Spec_EnforceLimits spec" and "s \<in> set (projectServiceResourceWeights spec)"
  defines "cs \<equiv> 1000 * CPU (resourceReservationForSpec spec) * cpuWeight s div totalWeightOf cpuWeight (projectServiceResourceWeights spec)"
    and "rs \<equiv> RAMMB (resourceReservationForSpec spec) * ramWeight s div totalWeightOf ramWeight (projectServiceResourceWeights spec)"
  shows "\<exists>a. map_of (ProjectServiceResourceAllocations spec) (weight_name s) = Some a \<and>
           CPUMilli a \<in> {cs, cs + 1} \<and> AllocRAMMB a \<in> {rs, rs + 1}"
proof -
  let ?W = "projectServiceResourceWeights spec"
  let ?cp = "distributeWeightedInt (CPU (resourceReservationForSpec spec) * 1000) ?W cpuWeight"
  let ?rp = "distributeWeightedInt (RAMMB (resourceReservationForSpec spec)) ?W ramWeight"
  let ?a = "\<lparr>CPUMilli = get_or 0 ?cp (weight_name s), AllocRAMMB = get_or 0 ?rp (weight_name s)\<rparr>"
  have c: "0 < CPU (resourceReservationForSpec spec) * 1000" and m: "0 < RAMMB (resourceReservationForSpec spec)"
    using reservation_pos [of spec] by simp_all
  have w: "0 < cpuWeight s" "0 < ramWeight s" using service_weights_pos [OF assms(2)] by simp_all
  have "(weight_name s, ?a) \<in> set (ProjectServiceResourceAllocations spec)"
    unfolding allocations_enforced [OF assms(1)] set_map by (rule image_eqI [OF refl assms(2)])
  moreover have "distinct (map fst (ProjectServiceResourceAllocations spec))"
    by (simp add: allocations_enforced [OF assms(1)] comp_def distinct_service_weights)
  ultimately have "map_of (ProjectServiceResourceAllocations spec) (weight_name s) = Some ?a" by simp
  moreover have "CPUMilli ?a \<in> {cs, cs + 1}"
    using distributeWeightedInt_near [OF c total_weights_pos(1) distinct_service_weights assms(2) w(1)]
    by (auto simp: cs_def mult.commute [of 1000])
  moreover have "AllocRAMMB ?a \<in> {rs, rs + 1}"
    using distributeWeightedInt_near [OF m total_weights_pos(2) distinct_service_weights assms(2) w(2)]
    by (auto simp: rs_def)
  ultimately show ?thesis by blast
qed

theorem allocations_fair_witness:
  "\<exists>a. map_of (ProjectServiceResourceAllocations sample_spec) ''db'' = Some a \<and> CPUMilli a \<in> {1408, 1409}"
proof -
  let ?W = "projectServiceResourceWeights sample_spec"
  have s: "svc ''db'' 100 2048 \<in> set ?W" by (simp add: projectServiceResourceWeights_def Let_def)
  have "totalWeightOf cpuWeight ?W = 355"
    by (simp add: projectServiceResourceWeights_def Let_def ProjectServiceStates_def svc_def optionalServiceWeights_def
        DefaultProjectServiceStates_def allowedProjectServices_def get_or_def)
  moreover have "CPU (resourceReservationForSpec sample_spec) = 5"
    by (simp add: resourceReservationForSpec_def Let_def)
  ultimately show ?thesis using allocations_fair [OF _ s] by (auto simp: svc_def)
qed

text \<open>The recommended size covers the minimum of the selected stack in every dimension and lies
  within the platform limits, so a project that takes the recommendation passes both the size check
  and the check of the enforced minimum.\<close>

theorem recommended_size_accepted:
  "CPU (minimumReservationForSpec spec) \<le> CPU (recommendedReservationForSpec spec) \<and>
   RAMMB (minimumReservationForSpec spec) \<le> RAMMB (recommendedReservationForSpec spec) \<and>
   DiskGB (minimumReservationForSpec spec) \<le> DiskGB (recommendedReservationForSpec spec) \<and>
   validateResourceSizing (CPU (recommendedReservationForSpec spec)) (RAMMB (recommendedReservationForSpec spec))
     (DiskGB (recommendedReservationForSpec spec)) = Inr () \<and>
   validateEnforcedResourceMinimum
     (spec\<lparr>Spec_ResourceTier := ResourceTierCustom, Spec_CPU := 0, Spec_RAMMB := 0, Spec_DiskGB := 0\<rparr>) = Inr ()"
proof -
  let ?z = "spec\<lparr>Spec_ResourceTier := ResourceTierCustom, Spec_CPU := 0, Spec_RAMMB := 0, Spec_DiskGB := 0\<rparr>"
  have "resourceReservationForSpec ?z = recommendedReservationForSpec ?z"
    by (simp add: resourceReservationForSpec_def Let_def)
  then have "validateEnforcedResourceMinimum ?z = Inr ()"
    using recommended_ge_minimum [of ?z] by (simp add: validateEnforcedResourceMinimum_def Let_def)
  moreover have "validateResourceSizing (CPU (recommendedReservationForSpec spec))
      (RAMMB (recommendedReservationForSpec spec)) (DiskGB (recommendedReservationForSpec spec)) = Inr ()"
    using recommended_bounds [of spec] by (simp add: validateResourceSizing_def sizing_consts)
  ultimately show ?thesis using recommended_ge_minimum [of spec] by simp
qed

text \<open>No product that the split computes leaves the range of a 64-bit integer when the requested
  sizes pass the size check, so the unbounded integers of the model agree with Go's \<open>int\<close>.\<close>

theorem allocation_products_fit_int64:
  assumes "validateResourceSizing (Spec_CPU spec) (Spec_RAMMB spec) (Spec_DiskGB spec) = Inr ()"
    and "s \<in> set (projectServiceResourceWeights spec)"
  shows "0 < CPU (resourceReservationForSpec spec) * 1000 * cpuWeight s
      \<and> CPU (resourceReservationForSpec spec) * 1000 * cpuWeight s < 2 ^ 63
      \<and> 0 < RAMMB (resourceReservationForSpec spec) * ramWeight s
      \<and> RAMMB (resourceReservationForSpec spec) * ramWeight s < 2 ^ 63"
proof -
  note r = reservation_pos [of spec] and w = service_weights_pos [OF assms(2)]
  have tier: "CPU (resourceReservationForTier t) \<le> 64 \<and> RAMMB (resourceReservationForTier t) \<le> 262144" for t
    by (simp add: resourceReservationForTier_def resourceTierReservations_def)
  have c: "CPU (resourceReservationForSpec spec) \<le> 64" and m: "RAMMB (resourceReservationForSpec spec) \<le> 262144"
    using assms(1) tier [of "Spec_ResourceTier spec"] recommended_bounds [of spec]
    by (auto simp: resourceReservationForSpec_def Let_def validateResourceSizing_def sizing_consts split: if_splits)
  have "CPU (resourceReservationForSpec spec) * cpuWeight s \<le> 64 * 100"
    by (rule mult_mono) (use c w r in auto)
  moreover have "0 < CPU (resourceReservationForSpec spec) * cpuWeight s"
    by (rule mult_pos_pos) (use w r in auto)
  moreover have "RAMMB (resourceReservationForSpec spec) * ramWeight s \<le> 262144 * 2048"
    by (rule mult_mono) (use m w r in auto)
  moreover have "0 < RAMMB (resourceReservationForSpec spec) * ramWeight s"
    by (rule mult_pos_pos) (use w r in auto)
  ultimately show ?thesis by (simp add: mult.commute mult.left_commute)
qed

theorem allocation_products_fit_int64_witness:
  "validateResourceSizing (Spec_CPU sample_spec) (Spec_RAMMB sample_spec) (Spec_DiskGB sample_spec) = Inr () \<and>
   RAMMB (resourceReservationForSpec sample_spec) * 2048 < 2 ^ 63"
proof -
  have h: "validateResourceSizing (Spec_CPU sample_spec) (Spec_RAMMB sample_spec) (Spec_DiskGB sample_spec) = Inr ()"
    by (simp add: validateResourceSizing_def sizing_consts)
  have s: "svc ''db'' 100 2048 \<in> set (projectServiceResourceWeights sample_spec)"
    by (simp add: projectServiceResourceWeights_def Let_def)
  show ?thesis using h allocation_products_fit_int64 [OF h s] by (simp add: svc_def)
qed

end
