(* ===== verification/Store_Types.thy ===== *)
theory Store_Types
  imports Resource_Sizing
begin

text \<open>
  The data of the in-memory store (internal/control/store.go and types.go): the structs it keeps and
  \<open>MemoryStore\<close> itself, with the maps that the modelled operations read or write. The lock of the
  store makes each method one step, so a method is a function from the store to an error or to the
  new store and the result. A pointer that may be nil is an option.

  \<open>OpCtx\<close> holds what a method takes from outside: the clock, fresh identifiers, generated secrets,
  the environment, the stack releases that are supported, and the host part that \<open>url.Parse\<close> finds.
\<close>

section \<open>Users and organisations\<close>

record User =
  User_ID :: string
  User_Email :: string
  User_PasswordHash :: string
  User_Role :: string
  User_MFAEnabled :: bool
  User_MFASecret :: string
  User_MFAPendingSecret :: string
  User_MFAConfirmedAt :: time
  User_MFAUpdatedAt :: time
  User_MFALastCounter :: int
  User_TokenVersion :: int
  User_CreatedAt :: time
  User_LastLoginAt :: "time option"

record Org =
  Org_ID :: string
  Org_Name :: string
  Org_FeatureFlagOverrides :: "(string, bool) gomap"
  Org_FeatureFlags :: "(string, bool) gomap"
  Org_CreatedAt :: time

record OrgQuota =
  Quota_OrgID :: string
  MaxProjects :: int
  MaxCPU :: int
  MaxRAMMB :: int
  MaxDiskGB :: int
  Quota_Used :: HostCapacity
  Quota_UpdatedAt :: time

record OrgQuotaInput =
  QuotaInput_MaxProjects :: int
  QuotaInput_MaxCPU :: int
  QuotaInput_MaxRAMMB :: int
  QuotaInput_MaxDiskGB :: int

record Membership =
  Member_UserID :: string
  Member_OrgID :: string
  Member_Email :: string
  Member_Role :: string
  Member_CreatedAt :: time

record Team =
  Team_ID :: string
  Team_OrgID :: string
  Team_Name :: string
  Team_Slug :: string
  Team_CreatedAt :: time

record TeamMember =
  TM_TeamID :: string
  TM_OrgID :: string
  TM_TeamSlug :: string
  TM_UserID :: string
  TM_Email :: string
  TM_CreatedAt :: time

record ProjectAccessGrant =
  Grant_ID :: string
  Grant_ProjectRef :: string
  Grant_OrgID :: string
  Grant_SubjectType :: string
  Grant_SubjectID :: string
  Grant_SubjectName :: string
  Grant_Role :: string
  Grant_CreatedAt :: time

section \<open>Hosts and projects\<close>

record Host =
  Host_ID :: string
  Host_Name :: string
  Host_Address :: string
  Host_Capacity :: HostCapacity
  Host_Used :: HostCapacity
  Host_CreatedAt :: time

record CreateHostRequest =
  HostReq_Name :: string
  HostReq_Address :: string
  HostReq_Capacity :: HostCapacity

type_synonym ProjectPhase = string

definition ProjectProvisioning :: ProjectPhase where "ProjectProvisioning = ''provisioning''"
definition ProjectHealthy :: ProjectPhase where "ProjectHealthy = ''healthy''"

record RuntimeService =
  RS_Name :: string
  RS_ComposeService :: string
  RS_Desired :: bool
  RS_State :: string
  RS_Health :: string
  RS_ExitCode :: int
  RS_Message :: string

record ProjectStatus =
  PS_Ref :: string
  PS_Phase :: ProjectPhase
  PS_Message :: string
  PS_Endpoints :: "(string, string) gomap"
  PS_Services :: "RuntimeService list"

record Project =
  Proj_ID :: string
  Proj_Ref :: string
  Proj_OrgID :: string
  Proj_Name :: string
  Proj_Status :: ProjectPhase
  Proj_Message :: string
  Proj_Spec :: ProjectSpec
  Proj_RuntimeStatus :: "ProjectStatus option"
  Proj_DBIngressMode :: string
  Proj_CreatedAt :: time
  Proj_UpdatedAt :: time

record CreateProjectRequest =
  Req_OrgID :: string
  Req_Ref :: string
  Req_Name :: string
  Req_HostID :: string
  Req_Domain :: string
  Req_StackVersion :: string
  Req_Profile :: StackProfile
  Req_ResourceTier :: ResourceTier
  Req_CPU :: int
  Req_RAMMB :: int
  Req_DiskGB :: int
  Req_EnforceLimits :: bool
  Req_Services :: "(string, bool) gomap"
  Req_Environment :: "(string, string) gomap"

record ProjectResourcesInput =
  Res_CPU :: int
  Res_RAMMB :: int
  Res_DiskGB :: int
  Res_EnforceLimits :: bool

record ProjectServices =
  PSvc_ProjectRef :: string
  PSvc_Services :: "(string, bool) gomap"
  PSvc_UpdatedAt :: time

section \<open>What belongs to a project\<close>

record ProjectRoute =
  Route_ID :: string
  Route_ProjectRef :: string
  Route_Name :: string
  Route_FQDN :: string
  Route_PathPrefix :: string
  Route_StripPrefix :: string
  Route_UpstreamURL :: string
  Route_TLS :: bool
  Route_SSLEnforced :: bool
  Route_IPAllowlist :: "string list"
  Route_SSORequired :: bool
  Route_CacheControl :: string
  Route_SmartCDN :: bool
  Route_CertMode :: string
  Route_CertFile :: string
  Route_KeyFile :: string
  Route_CreatedAt :: time

record ProjectDomain =
  Dom_ProjectRef :: string
  Dom_FQDN :: string
  Dom_CertStatus :: string
  Dom_CertMode :: string
  Dom_CertFingerprint :: string
  Dom_CertNotAfter :: "time option"
  Dom_CreatedAt :: time
  Dom_UpdatedAt :: time

record ProjectDomainCertificateMetadata =
  Cert_Status :: string
  Cert_Mode :: string
  Cert_Fingerprint :: string
  Cert_NotAfter :: "time option"

record ProjectConfig =
  Conf_ProjectRef :: string
  Conf_Area :: string
  Conf_Config :: "(string, string) gomap"
  Conf_UpdatedAt :: time

record ProjectBranch =
  Branch_ID :: string
  Branch_SourceProjectRef :: string
  Branch_ProjectRef :: string
  Branch_Name :: string
  Branch_WithData :: bool
  Branch_Status :: string
  Branch_CreatedAt :: time
  Branch_ExpiresAt :: "time option"

record ProjectBranchInput =
  BranchIn_Ref :: string
  BranchIn_Name :: string
  BranchIn_TTLHours :: int
  BranchIn_WithData :: bool

record ProjectReplica =
  Rep_ID :: string
  Rep_ProjectRef :: string
  Rep_Name :: string
  Rep_HostID :: string
  Rep_Region :: string
  Rep_Tier :: ResourceTier
  Rep_Status :: string
  Rep_Role :: string
  Rep_Message :: string
  Rep_ReadURI :: string
  Rep_PublicReadURI :: string
  Rep_InternalReadURI :: string
  Rep_ReadWeight :: int
  Rep_FailoverPriority :: int
  Rep_ReplicationLagBytes :: int
  Rep_ReplicationLagSeconds :: int
  Rep_PromotedAt :: "time option"
  Rep_CreatedAt :: time
  Rep_UpdatedAt :: time

record ProjectReplicaInput =
  RepIn_Name :: string
  RepIn_HostID :: string
  RepIn_Region :: string
  RepIn_Tier :: ResourceTier
  RepIn_ReadWeight :: int
  RepIn_FailoverPriority :: int

record ProjectSecret =
  Secret_ID :: string
  Secret_ProjectRef :: string
  Secret_Kind :: string
  Secret_Value :: string
  Secret_Masked :: string
  Secret_CreatedAt :: time
  Secret_RotatedAt :: "time option"

record BackupPolicy =
  BP_ProjectRef :: string
  BP_Enabled :: bool
  BP_Schedule :: string
  BP_Kind :: string
  BP_StorageTargetID :: string
  BP_LastRunAt :: "time option"
  BP_NextRunAt :: "time option"
  BP_UpdatedAt :: time

record PITRPolicy =
  PITR_ProjectRef :: string
  PITR_Enabled :: bool
  PITR_ArchiveBucket :: string
  PITR_RetentionDays :: int
  PITR_LastArchiveAt :: "time option"
  PITR_UpdatedAt :: time

record AuditEvent =
  Audit_ID :: string
  Audit_ActorID :: string
  Audit_ChainIndex :: int
  Audit_PreviousHash :: string
  Audit_Hash :: string
  Audit_Action :: string
  Audit_Target :: string
  Audit_Metadata :: "(string, string) gomap"
  Audit_CreatedAt :: time

record PlatformDefaults =
  Defaults_Domain :: string
  Defaults_StackVersion :: string
  Defaults_Profile :: StackProfile
  Defaults_ResourceTier :: ResourceTier
  Defaults_BackupSchedule :: string
  Defaults_FeatureFlags :: "(string, bool) gomap"
  Defaults_DatabaseIngressAllowedCIDRs :: "string list"
  Defaults_UpdatedAt :: time

section \<open>The store\<close>

record MemoryStore =
  s_platformDefaults :: PlatformDefaults
  s_users :: "(string, User) gomap"
  s_orgs :: "(string, Org) gomap"
  s_orgQuotas :: "(string, OrgQuota) gomap"
  s_memberships :: "(string, (string, Membership) gomap) gomap"
  s_teams :: "(string, (string, Team) gomap) gomap"
  s_teamMembers :: "(string, (string, TeamMember) gomap) gomap"
  s_projectAccess :: "(string, ProjectAccessGrant list) gomap"
  s_hosts :: "(string, Host) gomap"
  s_projects :: "(string, Project) gomap"
  s_routes :: "(string, ProjectRoute list) gomap"
  s_domains :: "(string, ProjectDomain list) gomap"
  s_configs :: "(string, (string, ProjectConfig) gomap) gomap"
  s_branches :: "(string, ProjectBranch list) gomap"
  s_replicas :: "(string, ProjectReplica list) gomap"
  s_secrets :: "(string, (string, ProjectSecret) gomap) gomap"
  s_policies :: "(string, BackupPolicy) gomap"
  s_pitrPolicies :: "(string, PITRPolicy) gomap"
  s_auditEvents :: "AuditEvent list"

definition NewMemoryStore :: "PlatformDefaults \<Rightarrow> MemoryStore" where
  "NewMemoryStore defaults =
     \<lparr>s_platformDefaults = defaults, s_users = [], s_orgs = [], s_orgQuotas = [], s_memberships = [],
      s_teams = [], s_teamMembers = [], s_projectAccess = [], s_hosts = [], s_projects = [],
      s_routes = [], s_domains = [], s_configs = [], s_branches = [], s_replicas = [], s_secrets = [],
      s_policies = [], s_pitrPolicies = [], s_auditEvents = []\<rparr>"

record OpCtx =
  ctx_now :: time
  ctx_newID :: string
  ctx_newID2 :: string
  ctx_secrets :: "(string, ProjectSecret) gomap"
  ctx_databaseConfig :: "(string, string) gomap"
  ctx_supportedStackVersion :: "string \<Rightarrow> bool"
  ctx_urlHostname :: "string \<Rightarrow> string"
  ctx_getenv :: "string \<Rightarrow> string"

text \<open>A method that changes the store, and reading a key that must be there.\<close>

type_synonym 'a op = "(MemoryStore \<times> 'a) res"

definition lookup_or :: "err \<Rightarrow> ('k, 'v) gomap \<Rightarrow> 'k \<Rightarrow> 'v res" where
  "lookup_or e m k = (case map_of m k of None \<Rightarrow> Inl e | Some v \<Rightarrow> Inr v)"

definition check :: "bool \<Rightarrow> err \<Rightarrow> unit res" where
  "check b e = (if b then Inr () else Inl e)"

lemma lookup_or_eq_Inr [simp]: "lookup_or e m k = Inr v \<longleftrightarrow> map_of m k = Some v"
  by (simp add: lookup_or_def split: option.split)

lemma check_eq_Inr [simp]: "check b e = Inr u \<longleftrightarrow> b"
  by (simp add: check_def)

end
