(* ===== verification/Host_Names.thy ===== *)
theory Host_Names
  imports Store_Types
begin

text \<open>
  Host names (internal/control/routing.go and store.go): the host names a project and its replicas
  get under its domain, the checks on refs, replica names and domains, and the table of host names
  that are already reserved when a project or a custom domain is added.

  The regular expressions are written out as predicates on the text. The three patterns are anchored
  at both ends. \<open>url.Parse\<close> enters through \<open>ctx_urlHostname\<close>.
\<close>

section \<open>Patterns\<close>

definition is_slug_char :: "char \<Rightarrow> bool" where
  "is_slug_char c \<longleftrightarrow> is_lower_alnum c \<or> c = CHR ''-''"

definition slug_between :: "nat \<Rightarrow> nat \<Rightarrow> string \<Rightarrow> bool" where
  "slug_between lo hi s \<longleftrightarrow> lo \<le> length s \<and> length s \<le> hi \<and> s \<noteq> [] \<and>
     is_lower_alnum (hd s) \<and> is_lower_alnum (last s) \<and> (\<forall>c \<in> set s. is_slug_char c)"

definition projectRefPattern :: "string \<Rightarrow> bool" where
  "projectRefPattern s \<longleftrightarrow> slug_between 3 55 s"

definition replicaNamePattern :: "string \<Rightarrow> bool" where
  "replicaNamePattern s \<longleftrightarrow> slug_between 3 64 s"

definition domainPattern :: "string \<Rightarrow> bool" where
  "domainPattern s \<longleftrightarrow> 2 \<le> length (Split CHR ''.'' s) \<and> (\<forall>l \<in> set (Split CHR ''.'' s). slug_between 1 63 l)"

section \<open>Names\<close>

definition TrimDots :: "string \<Rightarrow> string" where
  "TrimDots s = TrimFunc (\<lambda>c. c = CHR ''.'') s"

definition normalizeDomain :: "string \<Rightarrow> string res" where
  "normalizeDomain input =
     (let fqdn = TrimSuffix (ToLower (TrimSpace input)) ''.'' in
      if fqdn = [] then Inl (ErrOther ''fqdn is required'')
      else if CHR ''/'' \<in> set fqdn \<or> CHR '' '' \<in> set fqdn \<or> CHR 0x5C \<in> set fqdn
        then Inl (ErrOther ''fqdn must be a hostname'')
      else if length fqdn > 253 \<or> \<not> domainPattern fqdn then Inl (ErrOther ''fqdn must be a valid hostname'')
      else Inr fqdn)"

text \<open>\<open>routeNamePattern.ReplaceAllString(..., "-")\<close>: each maximal run of other bytes becomes one hyphen.\<close>

fun replaceRuns :: "bool \<Rightarrow> string \<Rightarrow> string" where
  "replaceRuns inRun [] = []"
| "replaceRuns inRun (c # cs) =
     (if is_slug_char c then c # replaceRuns False cs
      else if inRun then replaceRuns True cs
      else CHR ''-'' # replaceRuns True cs)"

definition routeName :: "string \<Rightarrow> string" where
  "routeName input =
     (let name = TrimFunc (\<lambda>c. c = CHR ''-'') (replaceRuns False (ToLower input)) in
      if name = [] then ''domain'' else name)"

definition projectHost :: "string \<Rightarrow> string \<Rightarrow> string" where
  "projectHost ref domain = ref @ ''.'' @ domain"

definition studioHost :: "string \<Rightarrow> string \<Rightarrow> string" where
  "studioHost ref domain = ''studio-'' @ ref @ ''.'' @ domain"

definition storageHost :: "string \<Rightarrow> string \<Rightarrow> string" where
  "storageHost ref domain = ''storage-'' @ ref @ ''.'' @ domain"

definition databaseHost :: "string \<Rightarrow> string \<Rightarrow> string" where
  "databaseHost ref domain = ''db-'' @ ref @ ''.'' @ domain"

definition poolerHost :: "string \<Rightarrow> string \<Rightarrow> string" where
  "poolerHost ref domain = ''pooler-'' @ ref @ ''.'' @ domain"

definition replicaDatabaseHost :: "string \<Rightarrow> string \<Rightarrow> string \<Rightarrow> string" where
  "replicaDatabaseHost ref replicaName domain =
     ''db-replica-'' @ routeName replicaName @ ''-'' @ ref @ ''.'' @ domain"

definition generatedProjectHosts :: "string \<Rightarrow> string \<Rightarrow> (string, string) gomap" where
  "generatedProjectHosts ref domain =
     (let ref = ToLower (TrimSpace ref); domain = TrimDots (ToLower (TrimSpace domain)) in
      [(''project API'', projectHost ref domain), (''project Studio'', studioHost ref domain),
       (''project Storage'', storageHost ref domain), (''project database'', databaseHost ref domain),
       (''project pooler'', poolerHost ref domain)])"

definition validateGeneratedProjectFQDNs :: "string \<Rightarrow> string \<Rightarrow> unit res" where
  "validateGeneratedProjectFQDNs ref domain =
     (let ref = ToLower (TrimSpace ref); domain = TrimDots (ToLower (TrimSpace domain)) in
      if \<exists>(label, host) \<in> set (generatedProjectHosts ref domain). length host > 253
      then Inl (ErrOther ''host exceeds the 253-character DNS name limit'') else Inr ())"

definition normalizeReplicaName :: "string \<Rightarrow> string res" where
  "normalizeReplicaName name =
     (let normalized = ToLower (TrimSpace name) in
      if normalized = [] then Inl (ErrOther ''replica name is required'')
      else if \<not> replicaNamePattern normalized
        then Inl (ErrOther ''replica name must be 3-64 lowercase letters, numbers, or dashes'')
      else Inr normalized)"

definition validateReplicaPublicDNSHost :: "string \<Rightarrow> string \<Rightarrow> string \<Rightarrow> unit res" where
  "validateReplicaPublicDNSHost ref replicaName domain =
     (let label = ''db-replica-'' @ routeName replicaName @ ''-'' @ ToLower (TrimSpace ref) in
      if length label \<le> 63 then
        (if length (replicaDatabaseHost ref replicaName (TrimDots (ToLower (TrimSpace domain)))) > 253
         then Inl (ErrOther ''project replica host exceeds the 253-character DNS name limit'') else Inr ())
      else let maxReplicaNameLength = 63 - 11 - 1 - int (length (TrimSpace ref)) in
        if maxReplicaNameLength < 3
        then Inl (ErrOther ''project ref is too long for public read-replica DNS labels'')
        else Inl (ErrOther ''replica name is too long for the project ref''))"

section \<open>Reserved host names\<close>

definition inferredPlatformHostsForProjectDomain :: "string \<Rightarrow> string list" where
  "inferredPlatformHostsForProjectDomain domain =
     (let domain = TrimDots (ToLower (TrimSpace domain)) in
      if domain = [] then []
      else let suffix = (if HasPrefix domain ''apps.'' then TrimPrefix domain ''apps.'' else domain)
        in [''admin.'' @ suffix, ''api.'' @ suffix])"

definition normalizedHostForDomainReservation :: "OpCtx \<Rightarrow> string \<Rightarrow> string option" where
  "normalizedHostForDomainReservation c value =
     (let value = TrimSpace value in
      if value = [] then None
      else let value =
          (if ctx_urlHostname c value \<noteq> [] then ctx_urlHostname c value
           else hd (Split CHR '':'' (hd (Split CHR ''/'' (TrimPrefix (TrimPrefix value ''https://'') ''http://'')))))
        in case normalizeDomain value of Inl e \<Rightarrow> None | Inr host \<Rightarrow> Some host)"

definition addReservedDomainHost :: "OpCtx \<Rightarrow> string \<times> string \<Rightarrow> (string, string) gomap \<Rightarrow> (string, string) gomap" where
  "addReservedDomainHost c entry out =
     (case entry of (value, owner) \<Rightarrow>
        case normalizedHostForDomainReservation c value of
          None \<Rightarrow> out
        | Some host \<Rightarrow> if map_of out host = None then AList.update host owner out else out)"

definition projectReservations :: "MemoryStore \<Rightarrow> Project \<Rightarrow> (string \<times> string) list" where
  "projectReservations s project =
     (let domain = TrimSpace (Spec_Domain (Proj_Spec project)); ref = Proj_Ref project in
      [(domain, ''project domain '' @ domain),
       (projectHost ref domain, ''project API '' @ ref),
       (studioHost ref domain, ''project Studio '' @ ref),
       (storageHost ref domain, ''project storage '' @ ref),
       (databaseHost ref domain, ''project database '' @ ref),
       (poolerHost ref domain, ''project pooler '' @ ref)] @
      map (\<lambda>replica. (replicaDatabaseHost ref (Rep_Name replica) domain,
             ''project replica '' @ ref @ ''/'' @ Rep_Name replica)) (get_or [] (s_replicas s) ref) @
      map (\<lambda>host. (host, ''platform host'')) (inferredPlatformHostsForProjectDomain domain))"

definition platformReservations :: "OpCtx \<Rightarrow> (string \<times> string) list" where
  "platformReservations c =
     [(ctx_getenv c ''SUPADUPA_ADMIN_HOST'', ''platform admin''),
      (ctx_getenv c ''SUPADUPA_API_HOST'', ''platform API''),
      (ctx_getenv c ''SUPADUPA_ADMIN_URL'', ''platform admin''),
      (ctx_getenv c ''SUPADUPA_API_URL'', ''platform API'')]"

definition reservations :: "OpCtx \<Rightarrow> MemoryStore \<Rightarrow> (string \<times> string) list" where
  "reservations c s =
     concat (map (projectReservations s) (values_of (s_projects s))) @
     concat (map (\<lambda>(ref, ds). map (\<lambda>d. (Dom_FQDN d, ''project custom domain '' @ ref)) ds) (s_domains s)) @
     platformReservations c"

definition reservedCustomDomainHostLocked :: "OpCtx \<Rightarrow> MemoryStore \<Rightarrow> string \<Rightarrow> string" where
  "reservedCustomDomainHostLocked c s fqdn =
     get_or [] (fold (addReservedDomainHost c) (reservations c s) []) fqdn"

definition validateGeneratedProjectHostReservationsLocked :: "OpCtx \<Rightarrow> MemoryStore \<Rightarrow> string \<Rightarrow> string \<Rightarrow> unit res" where
  "validateGeneratedProjectHostReservationsLocked c s ref domain =
     (let domain = TrimDots (ToLower (TrimSpace domain));
          hosts = generatedProjectHosts ref domain;
          inferred = map (normalizedHostForDomainReservation c) (inferredPlatformHostsForProjectDomain domain)
      in if \<exists>(label, host) \<in> set hosts. reservedCustomDomainHostLocked c s host \<noteq> []
         then Inl (ErrConflict ''generated host is reserved'')
         else if \<exists>(label, host) \<in> set hosts. normalizedHostForDomainReservation c host \<noteq> None \<and>
                   normalizedHostForDomainReservation c host \<in> set inferred
         then Inl (ErrConflict ''generated host is reserved by platform host topology'')
         else Inr ())"

section \<open>Normal forms\<close>

text \<open>Host names in normal form consist of these bytes, which no normalisation touches.\<close>

definition plain :: "string \<Rightarrow> bool" where
  "plain s \<longleftrightarrow> (\<forall>c \<in> set s. is_slug_char c \<or> c = CHR ''.'')"

lemma byte_chars:
  "byte CHR ''.'' = 46" "byte CHR ''-'' = 45" "byte CHR ''/'' = 47" "byte CHR '':'' = 58"
  "byte CHR '' '' = 32" "byte CHR 0x5C = 92"
  by (simp_all add: byte_def)

lemma byte_eq_iff: "byte c = byte d \<longleftrightarrow> c = d"
  by (simp add: byte_def)

lemma slug_char_byte:
  "is_slug_char c \<longleftrightarrow> (97 \<le> byte c \<and> byte c \<le> 122) \<or> (48 \<le> byte c \<and> byte c \<le> 57) \<or> byte c = 45"
proof -
  have "c = CHR ''-'' \<longleftrightarrow> byte c = byte CHR ''-''" by (simp only: byte_eq_iff)
  then show ?thesis by (auto simp: is_slug_char_def is_lower_alnum_def is_lower_def is_digit_def byte_chars)
qed

lemma plain_byte: "is_slug_char c \<or> c = CHR ''.'' \<Longrightarrow>
    (97 \<le> byte c \<and> byte c \<le> 122) \<or> (45 \<le> byte c \<and> byte c \<le> 57 \<and> byte c \<noteq> 47)"
proof (erule disjE)
  assume "is_slug_char c"
  then show ?thesis unfolding slug_char_byte by linarith
next
  assume "c = CHR ''.''"
  then show ?thesis by (simp add: byte_chars)
qed

lemma plain_chars:
  assumes "is_slug_char c \<or> c = CHR ''.''"
  shows "lower_char c = c" and "\<not> is_space c" and "c \<noteq> CHR ''/''" and "c \<noteq> CHR '':''"
    and "c \<noteq> CHR '' ''" and "c \<noteq> CHR 0x5C"
proof -
  note b = plain_byte [OF assms]
  show "lower_char c = c" unfolding lower_char_def by (rule if_not_P) (use b in linarith)
  show "\<not> is_space c" using b unfolding is_space_def by linarith
  have "byte c \<noteq> 47" "byte c \<noteq> 58" "byte c \<noteq> 32" "byte c \<noteq> 92" using b by linarith+
  then show "c \<noteq> CHR ''/''" "c \<noteq> CHR '':''" "c \<noteq> CHR '' ''" "c \<noteq> CHR 0x5C"
    using byte_chars by metis+
qed

lemma TrimFunc_id: "(\<And>c. c \<in> set s \<Longrightarrow> \<not> p c) \<Longrightarrow> TrimFunc p s = s"
proof -
  assume a: "\<And>c. c \<in> set s \<Longrightarrow> \<not> p c"
  have 1: "dropWhile p s = s" using a by (cases s) auto
  have 2: "dropWhile p (rev s) = rev s" using a by (cases "rev s") (auto dest: arg_cong [where f = set])
  show ?thesis unfolding TrimFunc_def 1 2 by simp
qed

lemma plain_ToLower: "plain s \<Longrightarrow> ToLower s = s"
  unfolding ToLower_def plain_def using plain_chars(1) by (simp add: map_idI)

lemma plain_TrimSpace: "plain s \<Longrightarrow> TrimSpace s = s"
  unfolding TrimSpace_def plain_def using plain_chars(2) by (intro TrimFunc_id) blast

lemma plain_notin:
  assumes "plain s"
  shows "CHR ''/'' \<notin> set s" and "CHR '':'' \<notin> set s" and "CHR '' '' \<notin> set s" and "CHR 0x5C \<notin> set s"
proof -
  have "c \<noteq> CHR ''/'' \<and> c \<noteq> CHR '':'' \<and> c \<noteq> CHR '' '' \<and> c \<noteq> CHR 0x5C" if "c \<in> set s" for c
    using assms that plain_chars(3-6) [of c] unfolding plain_def by blast
  then show "CHR ''/'' \<notin> set s" "CHR '':'' \<notin> set s" "CHR '' '' \<notin> set s" "CHR 0x5C \<notin> set s" by blast+
qed

lemma slug_between_plain: "slug_between lo hi s \<Longrightarrow> c \<in> set s \<Longrightarrow> is_slug_char c"
  by (simp add: slug_between_def)

lemma dot_not_slug: "\<not> is_slug_char CHR ''.''"
  by (simp add: slug_char_byte byte_chars)

lemma slug_no_dot: "slug_between lo hi s \<Longrightarrow> CHR ''.'' \<notin> set s"
  using slug_between_plain dot_not_slug by blast

lemma slug_plain: "slug_between lo hi s \<Longrightarrow> plain s"
  by (auto simp: plain_def dest: slug_between_plain)

lemma domain_plain: "domainPattern s \<Longrightarrow> plain s"
  unfolding plain_def domainPattern_def using set_Split slug_between_plain by metis

lemma domain_no_dot_end: "domainPattern s \<Longrightarrow> \<not> HasSuffix s ''.''"
proof
  assume d: "domainPattern s" and "HasSuffix s ''.''"
  then obtain r where "rev s = ''.'' @ r" by (auto simp: HasSuffix_def HasPrefix_iff)
  then have "s = rev r @ ''.''" by (simp add: rev_eq_Cons_iff)
  then have "[] \<in> set (Split CHR ''.'' s)" by (simp add: Split_snoc_sep)
  with d show False by (auto simp: domainPattern_def slug_between_def)
qed

lemma domain_no_dot_start: "domainPattern (x # s) \<Longrightarrow> x \<noteq> CHR ''.''"
  by (auto simp: domainPattern_def slug_between_def)

lemma domain_not_Nil: "domainPattern s \<Longrightarrow> s \<noteq> []"
  by (auto simp: domainPattern_def)

definition valid_domain :: "string \<Rightarrow> bool" where
  "valid_domain d \<longleftrightarrow> length d \<le> 253 \<and> domainPattern d"

lemma normalizeDomain_valid: "normalizeDomain input = Inr d \<Longrightarrow> valid_domain d"
  by (auto simp: normalizeDomain_def valid_domain_def Let_def split: if_splits)

lemma valid_normalizeDomain: "valid_domain d \<Longrightarrow> normalizeDomain d = Inr d"
proof -
  assume "valid_domain d"
  then have len: "length d \<le> 253" and d: "domainPattern d" by (simp_all add: valid_domain_def)
  have "TrimSuffix (ToLower (TrimSpace d)) ''.'' = d"
    using domain_no_dot_end [OF d] by (simp add: plain_ToLower plain_TrimSpace domain_plain [OF d] TrimSuffix_def)
  with len d show ?thesis
    using plain_notin [OF domain_plain [OF d]] domain_not_Nil [OF d] by (simp add: normalizeDomain_def)
qed

lemma domain_TrimDots: "domainPattern d \<Longrightarrow> TrimDots d = d"
proof -
  assume d: "domainPattern d"
  have 1: "dropWhile (\<lambda>c. c = CHR ''.'') d = d"
    using domain_no_dot_start d by (cases d) auto
  have 2: "dropWhile (\<lambda>c. c = CHR ''.'') (rev d) = rev d"
    using domain_no_dot_end [OF d] by (cases "rev d") (auto simp: HasSuffix_def HasPrefix_def)
  show ?thesis unfolding TrimDots_def TrimFunc_def 1 2 by simp
qed

lemma valid_domain_norm:
  assumes "valid_domain d"
  shows "TrimSpace d = d" and "ToLower d = d" and "TrimDots d = d"
  using assms by (simp_all add: valid_domain_def plain_TrimSpace plain_ToLower domain_plain domain_TrimDots)

section \<open>The hosts of a project\<close>

definition project_hosts :: "string \<Rightarrow> string \<Rightarrow> string list" where
  "project_hosts ref domain = map snd (generatedProjectHosts ref domain)"

text \<open>The part of a project's data that its host names are built from is in normal form.\<close>

definition good_site :: "string \<Rightarrow> string \<Rightarrow> bool" where
  "good_site ref domain \<longleftrightarrow> projectRefPattern ref \<and> valid_domain domain \<and>
     (\<forall>h \<in> set (project_hosts ref domain). length h \<le> 253)"

lemma slug_prefix:
  assumes "slug_between lo hi s" and "is_lower_alnum (hd (p @ s))" and "\<And>c. c \<in> set p \<Longrightarrow> is_slug_char c"
    and "length p + hi \<le> hi'"
  shows "slug_between 1 hi' (p @ s)"
  using assms by (auto simp: slug_between_def Suc_leI)

lemma host_prefix_slugs:
  "is_slug_char CHR ''-''" "is_slug_char CHR ''a''" "is_slug_char CHR ''b''" "is_slug_char CHR ''d''" "is_slug_char CHR ''e''"
  "is_slug_char CHR ''g''" "is_slug_char CHR ''i''" "is_slug_char CHR ''l''" "is_slug_char CHR ''o''" "is_slug_char CHR ''p''"
  "is_slug_char CHR ''r''" "is_slug_char CHR ''s''" "is_slug_char CHR ''t''" "is_slug_char CHR ''u''" "is_slug_char CHR ''c''"
  "is_lower_alnum CHR ''s''" "is_lower_alnum CHR ''d''" "is_lower_alnum CHR ''p''"
  by (simp_all add: is_slug_char_def is_lower_alnum_def is_lower_def byte_def)

lemma ref_labels:
  assumes "projectRefPattern ref"
  shows "slug_between 1 63 ref" and "slug_between 1 63 (''studio-'' @ ref)" and "slug_between 1 63 (''storage-'' @ ref)"
    and "slug_between 1 63 (''db-'' @ ref)" and "slug_between 1 63 (''pooler-'' @ ref)"
proof -
  have r: "slug_between 3 55 ref" using assms by (simp add: projectRefPattern_def)
  show "slug_between 1 63 ref" using r by (simp add: slug_between_def)
  show "slug_between 1 63 (''studio-'' @ ref)" "slug_between 1 63 (''storage-'' @ ref)"
    "slug_between 1 63 (''db-'' @ ref)" "slug_between 1 63 (''pooler-'' @ ref)"
    by (rule slug_prefix [OF r]; auto simp: host_prefix_slugs)+
qed

lemma label_host:
  assumes "slug_between 1 63 l" and "valid_domain d" and "length (l @ ''.'' @ d) \<le> 253"
  shows "valid_domain (l @ ''.'' @ d)"
  using assms Split_append_sep [OF slug_no_dot [OF assms(1)], of d]
  by (simp add: valid_domain_def domainPattern_def)

lemma good_site_norm:
  assumes "good_site ref domain"
  shows "ToLower (TrimSpace ref) = ref" and "TrimSpace ref = ref"
    and "TrimSpace domain = domain" and "TrimDots (ToLower (TrimSpace domain)) = domain"
proof -
  have p: "plain ref" using assms by (auto simp: good_site_def projectRefPattern_def intro: slug_plain)
  then show "ToLower (TrimSpace ref) = ref" "TrimSpace ref = ref" by (simp_all add: plain_TrimSpace plain_ToLower)
  have "valid_domain domain" using assms by (simp add: good_site_def)
  then show "TrimSpace domain = domain" "TrimDots (ToLower (TrimSpace domain)) = domain"
    by (simp_all add: valid_domain_norm)
qed

lemma project_hosts_good:
  assumes "good_site ref domain"
  shows "project_hosts ref domain =
    [projectHost ref domain, studioHost ref domain, storageHost ref domain, databaseHost ref domain, poolerHost ref domain]"
  using good_site_norm [OF assms] by (simp add: project_hosts_def generatedProjectHosts_def Let_def)

lemma project_hosts_valid:
  assumes "good_site ref domain" and "h \<in> set (project_hosts ref domain)"
  shows "valid_domain h"
proof -
  have len: "length h \<le> 253" and d: "valid_domain domain" and r: "projectRefPattern ref"
    using assms by (auto simp: good_site_def)
  have "\<exists>l. slug_between 1 63 l \<and> h = l @ ''.'' @ domain"
    using assms(2) ref_labels [OF r] unfolding project_hosts_good [OF assms(1)]
    by (auto simp: projectHost_def studioHost_def storageHost_def databaseHost_def poolerHost_def)
  with len d label_host show ?thesis by blast
qed

section \<open>The table of reserved hosts\<close>

text \<open>Documented behaviour of \<open>url.Parse\<close>: without a slash and a colon there is no host part.\<close>

definition plain_urls :: "OpCtx \<Rightarrow> bool" where
  "plain_urls c \<longleftrightarrow> (\<forall>h. CHR ''/'' \<notin> set h \<longrightarrow> CHR '':'' \<notin> set h \<longrightarrow> ctx_urlHostname c h = [])"

lemma TrimPrefix_notin: "x \<in> set p \<Longrightarrow> x \<notin> set s \<Longrightarrow> TrimPrefix s p = s"
proof -
  assume a: "x \<in> set p" "x \<notin> set s"
  have "\<not> HasPrefix s p" using a by (auto simp: HasPrefix_iff)
  then show ?thesis by (simp add: TrimPrefix_def)
qed

lemma normalized_valid:
  assumes "plain_urls c" and "valid_domain h"
  shows "normalizedHostForDomainReservation c h = Some h"
proof -
  have d: "domainPattern h" using assms(2) by (simp add: valid_domain_def)
  note p = plain_notin [OF domain_plain [OF d]]
  have u: "ctx_urlHostname c h = []" using assms(1) p(1,2) by (simp add: plain_urls_def)
  have t: "TrimPrefix h ''https://'' = h" "TrimPrefix h ''http://'' = h"
    using p(1) by (auto intro: TrimPrefix_notin [of "CHR ''/''"])
  have s: "Split CHR ''/'' h = [h]" "Split CHR '':'' h = [h]" using p(1,2) by (simp_all add: Split_id)
  show ?thesis
    using domain_not_Nil [OF d]
    by (simp add: normalizedHostForDomainReservation_def plain_TrimSpace [OF domain_plain [OF d]] u t s
        valid_normalizeDomain [OF assms(2)])
qed

lemma normalizedHost_valid: "normalizedHostForDomainReservation c v = Some h \<Longrightarrow> valid_domain h"
  by (auto simp: normalizedHostForDomainReservation_def Let_def normalizeDomain_valid split: if_splits sum.splits)

lemma addReserved_keys:
  "map_of (addReservedDomainHost c e out) f = None \<longleftrightarrow>
     map_of out f = None \<and> normalizedHostForDomainReservation c (fst e) \<noteq> Some f"
  by (auto simp: addReservedDomainHost_def split: prod.splits option.splits)

lemma reserved_keys:
  "map_of (fold (addReservedDomainHost c) es out) f = None \<longleftrightarrow>
     map_of out f = None \<and> (\<forall>e \<in> set es. normalizedHostForDomainReservation c (fst e) \<noteq> Some f)"
  by (induction es arbitrary: out) (auto simp: addReserved_keys)

lemma reserved_owner:
  assumes "\<forall>e \<in> set es. snd e \<noteq> []" and "\<forall>x \<in> ran (map_of out). x \<noteq> []"
  shows "\<forall>x \<in> ran (map_of (fold (addReservedDomainHost c) es out)). x \<noteq> []"
  using assms
proof (induction es arbitrary: out)
  case (Cons e es)
  have "\<forall>x \<in> ran (map_of (addReservedDomainHost c e out)). x \<noteq> []"
    using Cons.prems by (auto simp: addReservedDomainHost_def ran_def split: prod.splits option.splits)
  with Cons show ?case by simp
qed simp

lemma reservations_owner: "e \<in> set (reservations c s) \<Longrightarrow> snd e \<noteq> []"
  by (auto simp: reservations_def projectReservations_def platformReservations_def Let_def)

lemma reserved_Nil_iff:
  "reservedCustomDomainHostLocked c s f = [] \<longleftrightarrow>
     (\<forall>e \<in> set (reservations c s). normalizedHostForDomainReservation c (fst e) \<noteq> Some f)"
proof -
  let ?m = "fold (addReservedDomainHost c) (reservations c s) []"
  have "\<forall>x \<in> ran (map_of ?m). x \<noteq> []" by (rule reserved_owner) (auto dest: reservations_owner)
  then have "get_or [] ?m f = [] \<longleftrightarrow> map_of ?m f = None"
    by (auto simp: get_or_def ran_def split: option.splits)
  then show ?thesis by (simp add: reservedCustomDomainHostLocked_def reserved_keys)
qed

lemma not_reservedD:
  assumes "reservedCustomDomainHostLocked c s f = []" and "(v, w) \<in> set (reservations c s)"
  shows "normalizedHostForDomainReservation c v \<noteq> Some f"
  using assms by (auto simp: reserved_Nil_iff)

end
