(* ===== verification/Projects.thy ===== *)
theory Projects
  imports Host_Names
begin

text \<open>
  Hosts and projects of the store (internal/control/store.go): the capacity of hosts and the quotas
  of organisations, creating, resizing, branching and deleting projects, and their routes. Each
  method is one definition. The children of a project that are removed with it
  (project_child_resources.go) are those whose maps are part of \<open>MemoryStore\<close>.

  Go visits the entries of a map in an arbitrary order; the list order stands for one of them.
\<close>

section \<open>Capacity and quota\<close>

definition capacityWithinLimit :: "int \<Rightarrow> int \<Rightarrow> bool" where
  "capacityWithinLimit next_used lim \<longleftrightarrow> lim \<le> 0 \<or> next_used \<le> lim"

definition quotaWithinLimit :: "int \<Rightarrow> int \<Rightarrow> bool" where
  "quotaWithinLimit next_used lim \<longleftrightarrow> lim \<le> 0 \<or> next_used \<le> lim"

definition usedWithinCapacity :: "HostCapacity \<Rightarrow> HostCapacity \<Rightarrow> bool" where
  "usedWithinCapacity used lim \<longleftrightarrow>
     capacityWithinLimit (CPU used) (CPU lim) \<and> capacityWithinLimit (RAMMB used) (RAMMB lim) \<and>
     capacityWithinLimit (DiskGB used) (DiskGB lim) \<and> capacityWithinLimit (Project used) (Project lim)"

definition hostHasCapacity :: "Host \<Rightarrow> HostCapacity \<Rightarrow> bool" where
  "hostHasCapacity host reservation =
     usedWithinCapacity (addHostCapacity (Host_Used host) reservation) (Host_Capacity host)"

definition replicasUsage :: "ProjectReplica list \<Rightarrow> HostCapacity \<Rightarrow> HostCapacity" where
  "replicasUsage rs usage = fold (\<lambda>r u. addHostCapacity u (replicaReservationForTier (Rep_Tier r))) rs usage"

definition orgUsageLocked :: "MemoryStore \<Rightarrow> string \<Rightarrow> HostCapacity" where
  "orgUsageLocked s orgID =
     fold (\<lambda>(ref, rs) u.
         case map_of (s_projects s) ref of
           None \<Rightarrow> u
         | Some p \<Rightarrow> if Proj_OrgID p \<noteq> orgID then u else replicasUsage rs u)
       (s_replicas s)
       (fold (\<lambda>(ref, p) u. if Proj_OrgID p = orgID then addHostCapacity u (resourceReservationForSpec (Proj_Spec p)) else u)
         (s_projects s) zeroCapacity)"

definition zeroQuota :: OrgQuota where
  "zeroQuota = \<lparr>Quota_OrgID = [], MaxProjects = 0, MaxCPU = 0, MaxRAMMB = 0, MaxDiskGB = 0,
     Quota_Used = zeroCapacity, Quota_UpdatedAt = 0\<rparr>"

definition orgQuotaLocked :: "OpCtx \<Rightarrow> MemoryStore \<Rightarrow> string \<Rightarrow> OrgQuota" where
  "orgQuotaLocked c s orgID =
     (let quota = get_or zeroQuota (s_orgQuotas s) orgID;
          quota = (if Quota_OrgID quota = [] then quota\<lparr>Quota_OrgID := orgID, Quota_UpdatedAt := ctx_now c\<rparr> else quota)
      in quota\<lparr>Quota_Used := orgUsageLocked s orgID\<rparr>)"

definition checkResourceQuota :: "OrgQuota \<Rightarrow> HostCapacity \<Rightarrow> unit res" where
  "checkResourceQuota quota next_used =
     and_then (check (quotaWithinLimit (CPU next_used) (MaxCPU quota)) (ErrConflict ''org cpu quota exceeded'')) (\<lambda>_.
     and_then (check (quotaWithinLimit (RAMMB next_used) (MaxRAMMB quota)) (ErrConflict ''org ram quota exceeded'')) (\<lambda>_.
     check (quotaWithinLimit (DiskGB next_used) (MaxDiskGB quota)) (ErrConflict ''org disk quota exceeded'')))"

definition checkQuota :: "OrgQuota \<Rightarrow> HostCapacity \<Rightarrow> unit res" where
  "checkQuota quota next_used =
     and_then (check (quotaWithinLimit (Project next_used) (MaxProjects quota)) (ErrConflict ''org project quota exceeded'')) (\<lambda>_.
     checkResourceQuota quota next_used)"

definition validateOrgQuotaLocked :: "OpCtx \<Rightarrow> MemoryStore \<Rightarrow> string \<Rightarrow> HostCapacity \<Rightarrow> unit res" where
  "validateOrgQuotaLocked c s orgID reservation =
     (let quota = orgQuotaLocked c s orgID in checkQuota quota (addHostCapacity (Quota_Used quota) reservation))"

definition validateOrgReplicaQuotaLocked :: "OpCtx \<Rightarrow> MemoryStore \<Rightarrow> string \<Rightarrow> HostCapacity \<Rightarrow> unit res" where
  "validateOrgReplicaQuotaLocked c s orgID reservation =
     (let quota = orgQuotaLocked c s orgID in checkResourceQuota quota (addHostCapacity (Quota_Used quota) reservation))"

definition validateProjectScaleQuotaLocked :: "OpCtx \<Rightarrow> MemoryStore \<Rightarrow> string \<Rightarrow> HostCapacity \<Rightarrow> HostCapacity \<Rightarrow> unit res" where
  "validateProjectScaleQuotaLocked c s orgID oldReservation newReservation =
     (let quota = orgQuotaLocked c s orgID in
      checkQuota quota (addHostCapacity (subtractHostCapacity (Quota_Used quota) oldReservation) newReservation))"

section \<open>Hosts\<close>

definition CreateHost :: "OpCtx \<Rightarrow> CreateHostRequest \<Rightarrow> MemoryStore \<Rightarrow> Host op" where
  "CreateHost c req s =
     (let name = TrimSpace (HostReq_Name req); address = TrimSpace (HostReq_Address req); lim = HostReq_Capacity req in
      and_then (check (name \<noteq> []) (ErrOther ''host name is required'')) (\<lambda>_.
      and_then (check (address \<noteq> []) (ErrOther ''host address is required'')) (\<lambda>_.
      and_then (check (\<not> (CPU lim < 0 \<or> RAMMB lim < 0 \<or> DiskGB lim < 0 \<or> Project lim < 0))
        (ErrOther ''host capacity cannot be negative'')) (\<lambda>_.
      let host = \<lparr>Host_ID = ctx_newID c, Host_Name = name, Host_Address = address, Host_Capacity = lim,
                  Host_Used = zeroCapacity, Host_CreatedAt = ctx_now c\<rparr>
      in Inr (s\<lparr>s_hosts := AList.update (Host_ID host) host (s_hosts s)\<rparr>, host)))))"

definition ListHosts :: "MemoryStore \<Rightarrow> Host list" where
  "ListHosts s = sort_slice (\<lambda>a b. Host_CreatedAt a < Host_CreatedAt b) (values_of (s_hosts s))"

definition GetHost :: "string \<Rightarrow> MemoryStore \<Rightarrow> Host res" where
  "GetHost i s = lookup_or (ErrNotFound ''host'') (s_hosts s) i"

definition DeleteHost :: "string \<Rightarrow> MemoryStore \<Rightarrow> unit op" where
  "DeleteHost i s =
     and_then (lookup_or (ErrNotFound ''host'') (s_hosts s) i) (\<lambda>host.
     and_then (check (\<not> (CPU (Host_Used host) > 0 \<or> RAMMB (Host_Used host) > 0 \<or>
         DiskGB (Host_Used host) > 0 \<or> Project (Host_Used host) > 0))
       (ErrConflict ''host still has reserved capacity'')) (\<lambda>_.
     Inr (s\<lparr>s_hosts := AList.delete i (s_hosts s)\<rparr>, ())))"

text \<open>Booking a reservation on a host, taking it off, and exchanging it; no host means no booking.\<close>

definition bookHost :: "string \<Rightarrow> HostCapacity \<Rightarrow> MemoryStore \<Rightarrow> MemoryStore res" where
  "bookHost hostID reservation s =
     (if hostID = [] then Inr s
      else and_then (lookup_or (ErrNotFound ''host'') (s_hosts s) hostID) (\<lambda>host.
           and_then (check (hostHasCapacity host reservation) (ErrConflict ''host has insufficient capacity'')) (\<lambda>_.
           let host = host\<lparr>Host_Used := addHostCapacity (Host_Used host) reservation\<rparr>
           in Inr (s\<lparr>s_hosts := AList.update (Host_ID host) host (s_hosts s)\<rparr>))))"

definition releaseHost :: "string \<Rightarrow> HostCapacity \<Rightarrow> MemoryStore \<Rightarrow> MemoryStore" where
  "releaseHost hostID reservation s =
     (if hostID = [] then s
      else case map_of (s_hosts s) hostID of
        None \<Rightarrow> s
      | Some host \<Rightarrow>
          let host = host\<lparr>Host_Used := subtractHostCapacity (Host_Used host) reservation\<rparr>
          in s\<lparr>s_hosts := AList.update (Host_ID host) host (s_hosts s)\<rparr>)"

definition rebookHost :: "string \<Rightarrow> HostCapacity \<Rightarrow> HostCapacity \<Rightarrow> MemoryStore \<Rightarrow> MemoryStore res" where
  "rebookHost hostID oldReservation newReservation s =
     (if hostID = [] then Inr s
      else and_then (lookup_or (ErrNotFound ''host'') (s_hosts s) hostID) (\<lambda>host.
           let nextUsed = addHostCapacity (subtractHostCapacity (Host_Used host) oldReservation) newReservation in
           and_then (check (usedWithinCapacity nextUsed (Host_Capacity host)) (ErrConflict ''host has insufficient capacity'')) (\<lambda>_.
           Inr (s\<lparr>s_hosts := AList.update (Host_ID host) (host\<lparr>Host_Used := nextUsed\<rparr>) (s_hosts s)\<rparr>))))"

record candidate =
  cand_id :: string
  cand_projects :: int
  cand_cpu :: int

definition candidate_less :: "candidate \<Rightarrow> candidate \<Rightarrow> bool" where
  "candidate_less a b \<longleftrightarrow>
     (if cand_projects a \<noteq> cand_projects b then cand_projects a < cand_projects b
      else if cand_cpu a \<noteq> cand_cpu b then cand_cpu a < cand_cpu b
      else cand_id a < cand_id b)"

definition defaultHostForReservationLocked :: "MemoryStore \<Rightarrow> HostCapacity \<Rightarrow> string" where
  "defaultHostForReservationLocked s reservation =
     (let candidates = map (\<lambda>host. \<lparr>cand_id = Host_ID host, cand_projects = Project (Host_Used host),
                                    cand_cpu = CPU (Host_Used host)\<rparr>)
                         (filter (\<lambda>host. hostHasCapacity host reservation) (values_of (s_hosts s)))
      in case sort_slice candidate_less candidates of [] \<Rightarrow> [] | cand # _ \<Rightarrow> cand_id cand)"

section \<open>Requests\<close>

definition NormalizeStackReleaseVersion :: "string \<Rightarrow> string" where
  "NormalizeStackReleaseVersion version =
     (let version = TrimSpace version in
      if version = [] \<or> EqualFold version ''latest'' then ''15.8.1.085'' else version)"

definition validateSupportedStackVersion :: "OpCtx \<Rightarrow> string \<Rightarrow> unit res" where
  "validateSupportedStackVersion c version =
     check (ctx_supportedStackVersion c (NormalizeStackReleaseVersion version)) (ErrOther ''unsupported stack version'')"

definition toSpec :: "CreateProjectRequest \<Rightarrow> ProjectSpec" where
  "toSpec req =
     (let services = (case normalizeProjectServices (Req_Services req) of
                        Inr services \<Rightarrow> services
                      | Inl _ \<Rightarrow> (case normalizeProjectServices [] of Inr services \<Rightarrow> services | Inl _ \<Rightarrow> []))
      in \<lparr>Spec_Ref = Req_Ref req, Spec_OrgID = Req_OrgID req, Spec_Name = Req_Name req, Spec_HostID = Req_HostID req,
          Spec_Domain = TrimSuffix (ToLower (TrimSpace (Req_Domain req))) ''.'',
          Spec_StackVersion = TrimSpace (Req_StackVersion req), Spec_Profile = Req_Profile req,
          Spec_ResourceTier = Req_ResourceTier req, Spec_CPU = Req_CPU req, Spec_RAMMB = Req_RAMMB req,
          Spec_DiskGB = Req_DiskGB req, Spec_EnforceLimits = Req_EnforceLimits req, Spec_Services = services,
          Spec_Environment = Req_Environment req\<rparr>)"

definition validateCreateProject :: "OpCtx \<Rightarrow> CreateProjectRequest \<Rightarrow> unit res" where
  "validateCreateProject c req =
     and_then (check (Req_OrgID req \<noteq> []) (ErrOther ''org id is required'')) (\<lambda>_.
     and_then (check (projectRefPattern (Req_Ref req))
       (ErrOther ''ref must be 3-55 lowercase letters, numbers, or hyphens, and cannot start or end with a hyphen'')) (\<lambda>_.
     and_then (check (TrimSpace (Req_Name req) \<noteq> []) (ErrOther ''name is required'')) (\<lambda>_.
     and_then (normalizeDomain (Req_Domain req)) (\<lambda>domain.
     and_then (validateGeneratedProjectFQDNs (Req_Ref req) domain) (\<lambda>_.
     and_then (check (TrimSpace (Req_StackVersion req) \<noteq> []) (ErrOther ''stack version is required'')) (\<lambda>_.
     and_then (validateSupportedStackVersion c (Req_StackVersion req)) (\<lambda>_.
     and_then (validateStackProfile (Req_Profile req)) (\<lambda>_.
     and_then (validateResourceTier (Req_ResourceTier req)) (\<lambda>_.
     and_then (validateResourceSizing (Req_CPU req) (Req_RAMMB req) (Req_DiskGB req)) (\<lambda>_.
     and_then (normalizeProjectServices (Req_Services req)) (\<lambda>_.
     validateEnforcedResourceMinimum (toSpec req))))))))))))"

text \<open>\<open>defaults\<close> are the normalised platform defaults.\<close>

definition createProjectRequestWithDefaults :: "PlatformDefaults \<Rightarrow> CreateProjectRequest \<Rightarrow> CreateProjectRequest" where
  "createProjectRequestWithDefaults defaults req =
     (let req = (if TrimSpace (Req_Domain req) = [] then req\<lparr>Req_Domain := Defaults_Domain defaults\<rparr> else req);
          req = (if TrimSpace (Req_StackVersion req) = [] then req\<lparr>Req_StackVersion := Defaults_StackVersion defaults\<rparr> else req);
          req = req\<lparr>Req_StackVersion := NormalizeStackReleaseVersion (Req_StackVersion req)\<rparr>;
          req = (if Req_Profile req = [] then req\<lparr>Req_Profile := Defaults_Profile defaults\<rparr> else req);
          req = (if Req_ResourceTier req = [] then req\<lparr>Req_ResourceTier := ResourceTierCustom\<rparr> else req)
      in if Req_ResourceTier req = ResourceTierCustom
         then let recommended = recommendedReservationForSpec (toSpec req);
                  req = (if Req_CPU req = 0 then req\<lparr>Req_CPU := CPU recommended\<rparr> else req);
                  req = (if Req_RAMMB req = 0 then req\<lparr>Req_RAMMB := RAMMB recommended\<rparr> else req)
              in (if Req_DiskGB req = 0 then req\<lparr>Req_DiskGB := DiskGB recommended\<rparr> else req)
         else req)"

section \<open>Policies of a new project\<close>

definition hour_ns :: int where "hour_ns = 60 * minute_ns"
definition day_ns :: int where "day_ns = 24 * hour_ns"

definition nextBackupRun :: "time \<Rightarrow> string \<Rightarrow> time" where
  "nextBackupRun t schedule =
     (if schedule = ''hourly'' then (t + hour_ns) div hour_ns * hour_ns
      else let next_run = t div day_ns * day_ns + 2 * hour_ns in
        if \<not> next_run > t then next_run + day_ns else next_run)"

definition validateBackupSchedule :: "string \<Rightarrow> unit res" where
  "validateBackupSchedule schedule =
     check (\<not> (schedule \<noteq> ''daily'' \<and> schedule \<noteq> ''hourly'')) (ErrOther (''unsupported backup schedule '' @ schedule))"

definition defaultBackupPolicyForSchedule :: "OpCtx \<Rightarrow> string \<Rightarrow> string \<Rightarrow> BackupPolicy" where
  "defaultBackupPolicyForSchedule c ref schedule =
     (let schedule = (if is_ok (validateBackupSchedule schedule) then schedule else ''daily'')
      in \<lparr>BP_ProjectRef = ref, BP_Enabled = True, BP_Schedule = schedule, BP_Kind = ''logical'',
          BP_StorageTargetID = [], BP_LastRunAt = None, BP_NextRunAt = Some (nextBackupRun (ctx_now c) schedule),
          BP_UpdatedAt = ctx_now c\<rparr>)"

definition defaultBackupPolicy :: "OpCtx \<Rightarrow> string \<Rightarrow> BackupPolicy" where
  "defaultBackupPolicy c ref = defaultBackupPolicyForSchedule c ref ''daily''"

definition defaultPITRPolicy :: "OpCtx \<Rightarrow> string \<Rightarrow> PITRPolicy" where
  "defaultPITRPolicy c ref =
     \<lparr>PITR_ProjectRef = ref, PITR_Enabled = False, PITR_ArchiveBucket = [], PITR_RetentionDays = 7,
      PITR_LastArchiveAt = None, PITR_UpdatedAt = ctx_now c\<rparr>"

section \<open>Creating projects\<close>

definition newProject :: "OpCtx \<Rightarrow> string \<Rightarrow> string \<Rightarrow> CreateProjectRequest \<Rightarrow> ProjectSpec \<Rightarrow> Project" where
  "newProject c i message req spec =
     \<lparr>Proj_ID = i, Proj_Ref = Req_Ref req, Proj_OrgID = Req_OrgID req, Proj_Name = Req_Name req,
      Proj_Status = ProjectProvisioning, Proj_Message = message, Proj_Spec = spec, Proj_RuntimeStatus = None,
      Proj_DBIngressMode = [], Proj_CreatedAt = ctx_now c, Proj_UpdatedAt = ctx_now c\<rparr>"

definition addOrioleConfig :: "OpCtx \<Rightarrow> string \<Rightarrow> MemoryStore \<Rightarrow> MemoryStore" where
  "addOrioleConfig c ref s =
     (let config = \<lparr>Conf_ProjectRef = ref, Conf_Area = ''database'',
            Conf_Config = AList.update ''orioledb_profile'' ''preview'' (ctx_databaseConfig c),
            Conf_UpdatedAt = ctx_now c\<rparr>
      in s\<lparr>s_configs := AList.update ref (AList.update ''database'' config (get_or [] (s_configs s) ref)) (s_configs s)\<rparr>)"

definition storeProject :: "OpCtx \<Rightarrow> Project \<Rightarrow> MemoryStore \<Rightarrow> MemoryStore" where
  "storeProject c project s =
     (let ref = Proj_Ref project;
          s = s\<lparr>s_projects := AList.update ref project (s_projects s)\<rparr>;
          s = (if Spec_Profile (Proj_Spec project) = StackProfileOrioleDB then addOrioleConfig c ref s else s)
      in s\<lparr>s_secrets := AList.update ref (ctx_secrets c) (s_secrets s),
           s_policies := AList.update ref
             (defaultBackupPolicyForSchedule c ref (Defaults_BackupSchedule (s_platformDefaults s))) (s_policies s),
           s_pitrPolicies := AList.update ref (defaultPITRPolicy c ref) (s_pitrPolicies s)\<rparr>)"

definition CreateProject :: "OpCtx \<Rightarrow> PlatformDefaults \<Rightarrow> CreateProjectRequest \<Rightarrow> MemoryStore \<Rightarrow> Project op" where
  "CreateProject c defaults request s =
     (let req = createProjectRequestWithDefaults defaults request in
      and_then (validateCreateProject c req) (\<lambda>_.
      and_then (lookup_or (ErrNotFound ''org'') (s_orgs s) (Req_OrgID req)) (\<lambda>_.
      and_then (check (map_of (s_projects s) (Req_Ref req) = None) (ErrConflict ''project ref already exists'')) (\<lambda>_.
      and_then (validateGeneratedProjectHostReservationsLocked c s (Req_Ref req) (Req_Domain req)) (\<lambda>_.
      let reservation = resourceReservationForSpec (toSpec req) in
      and_then (validateOrgQuotaLocked c s (Req_OrgID req) reservation) (\<lambda>_.
      let hostID = (if Req_HostID req = [] then defaultHostForReservationLocked s reservation else Req_HostID req);
          spec = (toSpec req)\<lparr>Spec_HostID := hostID\<rparr> in
      and_then (bookHost hostID reservation s) (\<lambda>s.
      let project = newProject c (ctx_newID c) ''project accepted for provisioning'' req spec
      in Inr (storeProject c project s, project))))))))"

definition branchRequest :: "Project \<Rightarrow> string \<Rightarrow> string \<Rightarrow> CreateProjectRequest" where
  "branchRequest source branchRef name =
     (let spec = Proj_Spec source in
      \<lparr>Req_OrgID = Proj_OrgID source, Req_Ref = branchRef, Req_Name = name, Req_HostID = Spec_HostID spec,
       Req_Domain = Spec_Domain spec, Req_StackVersion = Spec_StackVersion spec, Req_Profile = Spec_Profile spec,
       Req_ResourceTier = Spec_ResourceTier spec, Req_CPU = Spec_CPU spec, Req_RAMMB = Spec_RAMMB spec,
       Req_DiskGB = Spec_DiskGB spec, Req_EnforceLimits = Spec_EnforceLimits spec,
       Req_Services = ProjectServiceStates (Spec_Services spec),
       Req_Environment = AList.update ''SUPADUPA_BRANCH_SOURCE_REF'' (Proj_Ref source) (Spec_Environment spec)\<rparr>)"

definition CreateProjectBranch :: "OpCtx \<Rightarrow> string \<Rightarrow> ProjectBranchInput \<Rightarrow> MemoryStore \<Rightarrow> (ProjectBranch \<times> Project) op" where
  "CreateProjectBranch c sourceRef input s =
     (let sourceRef = ToLower (TrimSpace sourceRef); branchRef = ToLower (TrimSpace (BranchIn_Ref input)) in
      and_then (check (projectRefPattern branchRef) (ErrOther ''branch ref must be 3-55 lowercase letters, numbers, or hyphens'')) (\<lambda>_.
      let name = (if TrimSpace (BranchIn_Name input) = [] then branchRef else TrimSpace (BranchIn_Name input)) in
      and_then (check (\<not> BranchIn_TTLHours input < 0) (ErrOther ''ttl_hours cannot be negative'')) (\<lambda>_.
      let expiresAt = (if BranchIn_TTLHours input > 0 then Some (ctx_now c + BranchIn_TTLHours input * hour_ns) else None) in
      and_then (lookup_or (ErrNotFound ''project'') (s_projects s) sourceRef) (\<lambda>source.
      and_then (check (map_of (s_projects s) branchRef = None) (ErrConflict ''project ref already exists'')) (\<lambda>_.
      let req = branchRequest source branchRef name in
      and_then (validateCreateProject c req) (\<lambda>_.
      and_then (validateGeneratedProjectHostReservationsLocked c s (Req_Ref req) (Req_Domain req)) (\<lambda>_.
      let project = newProject c (ctx_newID c) ''branch accepted for provisioning'' req (toSpec req);
          reservation = resourceReservationForSpec (Proj_Spec project) in
      and_then (validateOrgQuotaLocked c s (Proj_OrgID project) reservation) (\<lambda>_.
      and_then (bookHost (Spec_HostID (Proj_Spec project)) reservation s) (\<lambda>s.
      let ref = Proj_Ref project; src = Proj_Ref source;
          branch = \<lparr>Branch_ID = ctx_newID2 c, Branch_SourceProjectRef = src, Branch_ProjectRef = ref,
                    Branch_Name = name, Branch_WithData = BranchIn_WithData input, Branch_Status = Proj_Status project,
                    Branch_CreatedAt = ctx_now c, Branch_ExpiresAt = expiresAt\<rparr>
      in Inr (s\<lparr>s_projects := AList.update ref project (s_projects s),
                s_branches := AList.update src (get_or [] (s_branches s) src @ [branch]) (s_branches s),
                s_secrets := AList.update ref (ctx_secrets c) (s_secrets s),
                s_policies := AList.update ref (defaultBackupPolicy c ref) (s_policies s),
                s_pitrPolicies := AList.update ref (defaultPITRPolicy c ref) (s_pitrPolicies s)\<rparr>, (branch, project)))))))))))"

section \<open>Reading and changing projects\<close>

definition ListProjectsByOrg :: "string \<Rightarrow> MemoryStore \<Rightarrow> Project list res" where
  "ListProjectsByOrg orgID s =
     and_then (lookup_or (ErrNotFound ''org'') (s_orgs s) orgID) (\<lambda>_.
     Inr (sort_slice (\<lambda>a b. Proj_CreatedAt a < Proj_CreatedAt b)
           (filter (\<lambda>p. Proj_OrgID p = orgID) (values_of (s_projects s)))))"

definition ListProjects :: "MemoryStore \<Rightarrow> Project list" where
  "ListProjects s = sort_slice (\<lambda>a b. Proj_CreatedAt a < Proj_CreatedAt b) (values_of (s_projects s))"

definition GetProject :: "string \<Rightarrow> MemoryStore \<Rightarrow> Project res" where
  "GetProject ref s = lookup_or (ErrNotFound ''project'') (s_projects s) ref"

definition putProject :: "string \<Rightarrow> Project \<Rightarrow> MemoryStore \<Rightarrow> MemoryStore" where
  "putProject ref project s = s\<lparr>s_projects := AList.update ref project (s_projects s)\<rparr>"

definition UpdateProjectStatus :: "OpCtx \<Rightarrow> string \<Rightarrow> ProjectPhase \<Rightarrow> string \<Rightarrow> MemoryStore \<Rightarrow> Project op" where
  "UpdateProjectStatus c ref status message s =
     and_then (lookup_or (ErrNotFound ''project'') (s_projects s) ref) (\<lambda>project.
     let project = project\<lparr>Proj_Status := status, Proj_Message := message, Proj_UpdatedAt := ctx_now c\<rparr>
     in Inr (putProject ref project s, project))"

definition UpdateProjectStackVersion :: "OpCtx \<Rightarrow> string \<Rightarrow> string \<Rightarrow> MemoryStore \<Rightarrow> Project op" where
  "UpdateProjectStackVersion c ref version s =
     (let version = TrimSpace version in
      and_then (check (version \<noteq> []) (ErrOther ''stack version is required'')) (\<lambda>_.
      and_then (lookup_or (ErrNotFound ''project'') (s_projects s) ref) (\<lambda>project.
      let project = project\<lparr>Proj_Spec := (Proj_Spec project)\<lparr>Spec_StackVersion := version\<rparr>,
            Proj_Message := ''stack version updated'', Proj_UpdatedAt := ctx_now c\<rparr>
      in Inr (putProject ref project s, project))))"

definition UpdateProjectResourceTier :: "OpCtx \<Rightarrow> string \<Rightarrow> ResourceTier \<Rightarrow> MemoryStore \<Rightarrow> Project op" where
  "UpdateProjectResourceTier c ref tier s =
     and_then (check (tier \<noteq> []) (ErrOther ''resource tier is required'')) (\<lambda>_.
     and_then (check (map_of resourceTierReservations tier \<noteq> None) (ErrOther ''unsupported resource tier'')) (\<lambda>_.
     and_then (lookup_or (ErrNotFound ''project'') (s_projects s) ref) (\<lambda>project.
     let oldReservation = resourceReservationForSpec (Proj_Spec project);
         newReservation = resourceReservationForTier tier in
     and_then (validateProjectScaleQuotaLocked c s (Proj_OrgID project) oldReservation newReservation) (\<lambda>_.
     and_then (rebookHost (Spec_HostID (Proj_Spec project)) oldReservation newReservation s) (\<lambda>s.
     let project = project\<lparr>Proj_Spec := (Proj_Spec project)\<lparr>Spec_ResourceTier := tier, Spec_CPU := 0,
             Spec_RAMMB := 0, Spec_DiskGB := 0\<rparr>,
           Proj_Message := ''resource tier updated'', Proj_UpdatedAt := ctx_now c\<rparr>
     in Inr (putProject ref project s, project))))))"

definition UpdateProjectResources :: "OpCtx \<Rightarrow> string \<Rightarrow> ProjectResourcesInput \<Rightarrow> MemoryStore \<Rightarrow> Project op" where
  "UpdateProjectResources c ref input s =
     and_then (check (\<not> Res_CPU input < 1) (ErrOther ''cpu must be at least 1 core'')) (\<lambda>_.
     and_then (check (\<not> Res_RAMMB input < minProjectRAMMB) (ErrOther ''ram cannot be below 256 MB'')) (\<lambda>_.
     and_then (check (\<not> Res_DiskGB input < 1) (ErrOther ''disk must be at least 1 GB'')) (\<lambda>_.
     and_then (validateResourceSizing (Res_CPU input) (Res_RAMMB input) (Res_DiskGB input)) (\<lambda>_.
     and_then (lookup_or (ErrNotFound ''project'') (s_projects s) ref) (\<lambda>project.
     let oldReservation = resourceReservationForSpec (Proj_Spec project);
         nextSpec = (Proj_Spec project)\<lparr>Spec_ResourceTier := ResourceTierCustom, Spec_CPU := Res_CPU input,
           Spec_RAMMB := Res_RAMMB input, Spec_DiskGB := Res_DiskGB input,
           Spec_EnforceLimits := Res_EnforceLimits input\<rparr> in
     and_then (validateEnforcedResourceMinimum nextSpec) (\<lambda>_.
     let newReservation = resourceReservationForSpec nextSpec in
     and_then (validateProjectScaleQuotaLocked c s (Proj_OrgID project) oldReservation newReservation) (\<lambda>_.
     and_then (rebookHost (Spec_HostID (Proj_Spec project)) oldReservation newReservation s) (\<lambda>s.
     let project = project\<lparr>Proj_Spec := nextSpec, Proj_Message := ''resource sizing updated'',
           Proj_UpdatedAt := ctx_now c\<rparr>
     in Inr (putProject ref project s, project)))))))))"

definition GetProjectServices :: "string \<Rightarrow> MemoryStore \<Rightarrow> ProjectServices res" where
  "GetProjectServices ref s =
     and_then (lookup_or (ErrNotFound ''project'') (s_projects s) ref) (\<lambda>project.
     Inr \<lparr>PSvc_ProjectRef = Proj_Ref project, PSvc_Services = ProjectServiceStates (Spec_Services (Proj_Spec project)),
          PSvc_UpdatedAt = Proj_UpdatedAt project\<rparr>)"

definition UpdateProjectServices :: "OpCtx \<Rightarrow> string \<Rightarrow> (string, bool) gomap \<Rightarrow> MemoryStore \<Rightarrow> Project op" where
  "UpdateProjectServices c ref input s =
     and_then (normalizeProjectServices input) (\<lambda>services.
     and_then (lookup_or (ErrNotFound ''project'') (s_projects s) ref) (\<lambda>project.
     let project = project\<lparr>Proj_Spec := (Proj_Spec project)\<lparr>Spec_Services := services\<rparr>,
           Proj_Message := ''enabled services updated'', Proj_UpdatedAt := ctx_now c\<rparr>
     in Inr (putProject ref project s, project)))"

section \<open>Deleting projects\<close>

definition cleanupRegisteredProjectChildrenLocked :: "string \<Rightarrow> MemoryStore \<Rightarrow> MemoryStore" where
  "cleanupRegisteredProjectChildrenLocked ref s =
     s\<lparr>s_routes := AList.delete ref (s_routes s), s_domains := AList.delete ref (s_domains s),
       s_configs := AList.delete ref (s_configs s), s_secrets := AList.delete ref (s_secrets s),
       s_policies := AList.delete ref (s_policies s), s_pitrPolicies := AList.delete ref (s_pitrPolicies s),
       s_projectAccess := AList.delete ref (s_projectAccess s)\<rparr>"

definition releaseReplicas :: "ProjectReplica list \<Rightarrow> MemoryStore \<Rightarrow> MemoryStore" where
  "releaseReplicas rs s =
     fold (\<lambda>r. releaseHost (Rep_HostID r) (replicaReservationForTier (Rep_Tier r))) rs s"

definition withoutBranch :: "string \<Rightarrow> (string, ProjectBranch list) gomap \<Rightarrow> (string, ProjectBranch list) gomap" where
  "withoutBranch ref m =
     filter (\<lambda>(src, bs). bs \<noteq> []) (map (\<lambda>(src, bs). (src, filter (\<lambda>b. Branch_ProjectRef b \<noteq> ref) bs)) m)"

definition deleteProjectLocked :: "string \<Rightarrow> MemoryStore \<Rightarrow> unit op" where
  "deleteProjectLocked ref s =
     and_then (lookup_or (ErrNotFound ''project'') (s_projects s) ref) (\<lambda>project.
     let s = releaseHost (Spec_HostID (Proj_Spec project)) (resourceReservationForSpec (Proj_Spec project)) s;
         s = s\<lparr>s_projects := AList.delete ref (s_projects s), s_branches := AList.delete ref (s_branches s)\<rparr>;
         s = releaseReplicas (get_or [] (s_replicas s) ref) s;
         s = s\<lparr>s_replicas := AList.delete ref (s_replicas s), s_branches := withoutBranch ref (s_branches s)\<rparr>
     in Inr (cleanupRegisteredProjectChildrenLocked ref s, ()))"

definition DeleteProject :: "string \<Rightarrow> MemoryStore \<Rightarrow> unit op" where
  "DeleteProject ref s = deleteProjectLocked ref s"

definition ListProjectBranches :: "string \<Rightarrow> MemoryStore \<Rightarrow> ProjectBranch list res" where
  "ListProjectBranches sourceRef s =
     (let sourceRef = ToLower (TrimSpace sourceRef) in
      and_then (lookup_or (ErrNotFound ''project'') (s_projects s) sourceRef) (\<lambda>_.
      Inr (sort_slice (\<lambda>a b. Branch_CreatedAt a < Branch_CreatedAt b)
            (map (\<lambda>b. case map_of (s_projects s) (Branch_ProjectRef b) of
                        None \<Rightarrow> b | Some p \<Rightarrow> b\<lparr>Branch_Status := Proj_Status p\<rparr>)
              (get_or [] (s_branches s) sourceRef)))))"

definition DeleteProjectBranch :: "string \<Rightarrow> string \<Rightarrow> MemoryStore \<Rightarrow> unit op" where
  "DeleteProjectBranch sourceRef branchRef s =
     (let sourceRef = ToLower (TrimSpace sourceRef); branchRef = ToLower (TrimSpace branchRef) in
      and_then (lookup_or (ErrNotFound ''project'') (s_projects s) sourceRef) (\<lambda>_.
      and_then (check (\<exists>b \<in> set (get_or [] (s_branches s) sourceRef). Branch_ProjectRef b = branchRef)
        (ErrNotFound ''branch'')) (\<lambda>_.
      deleteProjectLocked branchRef s)))"

section \<open>Routes\<close>

fun normalizeRoutes :: "OpCtx \<Rightarrow> string \<Rightarrow> (nat \<Rightarrow> string) \<Rightarrow> nat \<Rightarrow> ProjectRoute list \<Rightarrow> ProjectRoute list res" where
  "normalizeRoutes c ref ids i [] = Inr []"
| "normalizeRoutes c ref ids i (route # routes) =
     (if TrimSpace (Route_Name route) = [] then Inl (ErrOther ''route name is required'')
      else if TrimSpace (Route_FQDN route) = [] then Inl (ErrOther ''route fqdn is required'')
      else if TrimSpace (Route_UpstreamURL route) = [] then Inl (ErrOther ''route upstream url is required'')
      else let route = (if Route_ID route = [] then route\<lparr>Route_ID := ids i\<rparr> else route);
               route = route\<lparr>Route_ProjectRef := ref\<rparr>;
               route = (if IsZero (Route_CreatedAt route) then route\<lparr>Route_CreatedAt := ctx_now c\<rparr> else route)
        in and_then (normalizeRoutes c ref ids (Suc i) routes) (\<lambda>rest. Inr (route # rest)))"

definition UpsertProjectRoutes :: "OpCtx \<Rightarrow> (nat \<Rightarrow> string) \<Rightarrow> string \<Rightarrow> ProjectRoute list \<Rightarrow> MemoryStore \<Rightarrow> ProjectRoute list op" where
  "UpsertProjectRoutes c ids ref routes s =
     and_then (lookup_or (ErrNotFound ''project'') (s_projects s) ref) (\<lambda>_.
     and_then (normalizeRoutes c ref ids 0 routes) (\<lambda>normalized.
     let normalized = sort_slice (\<lambda>a b. Route_Name a < Route_Name b) normalized
     in Inr (s\<lparr>s_routes := AList.update ref normalized (s_routes s)\<rparr>, normalized)))"

definition ListProjectRoutes :: "string \<Rightarrow> MemoryStore \<Rightarrow> ProjectRoute list res" where
  "ListProjectRoutes ref s =
     and_then (lookup_or (ErrNotFound ''project'') (s_projects s) ref) (\<lambda>_. Inr (get_or [] (s_routes s) ref))"

definition DeleteProjectRoutes :: "string \<Rightarrow> MemoryStore \<Rightarrow> unit op" where
  "DeleteProjectRoutes ref s =
     and_then (lookup_or (ErrNotFound ''project'') (s_projects s) ref) (\<lambda>_.
     Inr (s\<lparr>s_routes := AList.delete ref (s_routes s)\<rparr>, ()))"

section \<open>Fields that an operation leaves alone\<close>

lemma storeProject_fields:
  "s_hosts (storeProject c p s) = s_hosts s"
  "s_projects (storeProject c p s) = AList.update (Proj_Ref p) p (s_projects s)"
  "s_replicas (storeProject c p s) = s_replicas s" "s_domains (storeProject c p s) = s_domains s"
  "s_orgQuotas (storeProject c p s) = s_orgQuotas s"
  by (simp_all add: storeProject_def addOrioleConfig_def Let_def)

end
