(* ===== verification/Domains.thy ===== *)
theory Domains
  imports Projects
begin

text \<open>
  Custom domains of projects (internal/control/store.go): adding, listing and deleting them and
  changing their certificate state. A host name belongs to at most one project: the invariant
  \<open>hosts_owned\<close>, over the generated hosts of all projects and all custom domains.
\<close>

section \<open>Operations\<close>

definition ListProjectDomains :: "string \<Rightarrow> MemoryStore \<Rightarrow> ProjectDomain list res" where
  "ListProjectDomains ref s =
     and_then (lookup_or (ErrNotFound ''project'') (s_projects s) ref) (\<lambda>_.
     Inr (sort_slice (\<lambda>a b. Dom_CreatedAt a < Dom_CreatedAt b) (get_or [] (s_domains s) ref)))"

text \<open>The loop over all custom domains stops at the first conflict.\<close>

fun domainConflicts :: "string \<Rightarrow> string \<Rightarrow> (string, ProjectDomain list) gomap \<Rightarrow> unit res" where
  "domainConflicts ref fqdn [] = Inr ()"
| "domainConflicts ref fqdn ((projectRef, ds) # rest) =
     (case filter (\<lambda>d. Dom_FQDN d = fqdn \<or> (projectRef = ref \<and> routeName (Dom_FQDN d) = routeName fqdn)) ds of
        [] \<Rightarrow> domainConflicts ref fqdn rest
      | d # _ \<Rightarrow>
          if Dom_FQDN d = fqdn then Inl (ErrConflict ''domain already exists for project'')
          else Inl (ErrConflict ''domain conflicts with route name for existing domain''))"

definition AddProjectDomain :: "OpCtx \<Rightarrow> string \<Rightarrow> string \<Rightarrow> MemoryStore \<Rightarrow> ProjectDomain op" where
  "AddProjectDomain c ref input s =
     and_then (normalizeDomain input) (\<lambda>fqdn.
     and_then (lookup_or (ErrNotFound ''project'') (s_projects s) ref) (\<lambda>project.
     and_then (check (reservedCustomDomainHostLocked c s fqdn = []) (ErrConflict ''domain is reserved'')) (\<lambda>_.
     and_then (domainConflicts ref fqdn (s_domains s)) (\<lambda>_.
     let domain = \<lparr>Dom_ProjectRef = Proj_Ref project, Dom_FQDN = fqdn, Dom_CertStatus = ''pending'', Dom_CertMode = ''acme'',
           Dom_CertFingerprint = [], Dom_CertNotAfter = None, Dom_CreatedAt = ctx_now c, Dom_UpdatedAt = ctx_now c\<rparr>
     in Inr (s\<lparr>s_domains := AList.update ref (get_or [] (s_domains s) ref @ [domain]) (s_domains s)\<rparr>, domain)))))"

definition certStatuses :: "string list" where
  "certStatuses = [''pending'', ''issued'', ''failed'', ''uploaded'']"

definition certModes :: "string list" where
  "certModes = [''acme'', ''manual'', ''command'', ''byo'']"

text \<open>Changing the first domain with a name; \<open>None\<close> when there is none.\<close>

fun updateDomain :: "string \<Rightarrow> (ProjectDomain \<Rightarrow> ProjectDomain) \<Rightarrow> ProjectDomain list \<Rightarrow> (ProjectDomain list \<times> ProjectDomain) option" where
  "updateDomain fqdn f [] = None"
| "updateDomain fqdn f (d # ds) =
     (if Dom_FQDN d = fqdn then Some (f d # ds, f d)
      else (case updateDomain fqdn f ds of None \<Rightarrow> None | Some (ds', d') \<Rightarrow> Some (d # ds', d')))"

definition changeDomain :: "string \<Rightarrow> string \<Rightarrow> (ProjectDomain \<Rightarrow> ProjectDomain) \<Rightarrow> MemoryStore \<Rightarrow> ProjectDomain op" where
  "changeDomain ref fqdn f s =
     and_then (lookup_or (ErrNotFound ''project'') (s_projects s) ref) (\<lambda>_.
     case updateDomain fqdn f (get_or [] (s_domains s) ref) of
       None \<Rightarrow> Inl (ErrNotFound ''domain'')
     | Some (ds, d) \<Rightarrow> Inr (s\<lparr>s_domains := AList.update ref ds (s_domains s)\<rparr>, d))"

definition UpdateProjectDomainCertStatus :: "OpCtx \<Rightarrow> string \<Rightarrow> string \<Rightarrow> string \<Rightarrow> MemoryStore \<Rightarrow> ProjectDomain op" where
  "UpdateProjectDomainCertStatus c ref fqdn status s =
     and_then (normalizeDomain fqdn) (\<lambda>normalized.
     let status = ToLower (TrimSpace status) in
     and_then (check (status \<noteq> []) (ErrOther ''cert status is required'')) (\<lambda>_.
     and_then (check (status \<in> set certStatuses) (ErrOther ''unsupported cert status'')) (\<lambda>_.
     changeDomain ref normalized (\<lambda>d. d\<lparr>Dom_CertStatus := status, Dom_UpdatedAt := ctx_now c\<rparr>) s)))"

definition UpdateProjectDomainCertificate :: "OpCtx \<Rightarrow> string \<Rightarrow> string \<Rightarrow> ProjectDomainCertificateMetadata \<Rightarrow> MemoryStore \<Rightarrow> ProjectDomain op" where
  "UpdateProjectDomainCertificate c ref fqdn metadata s =
     and_then (normalizeDomain fqdn) (\<lambda>normalized.
     let status = ToLower (TrimSpace (Cert_Status metadata));
         status = (if status = [] then ''uploaded'' else status) in
     and_then (check (status \<in> set certStatuses) (ErrOther ''unsupported cert status'')) (\<lambda>_.
     let mode = ToLower (TrimSpace (Cert_Mode metadata)); mode = (if mode = [] then ''byo'' else mode) in
     and_then (check (mode \<in> set certModes) (ErrOther ''unsupported cert mode'')) (\<lambda>_.
     changeDomain ref normalized
       (\<lambda>d. d\<lparr>Dom_CertStatus := status, Dom_CertMode := mode, Dom_CertFingerprint := TrimSpace (Cert_Fingerprint metadata),
              Dom_CertNotAfter := Cert_NotAfter metadata, Dom_UpdatedAt := ctx_now c\<rparr>) s)))"

fun removeDomain :: "string \<Rightarrow> ProjectDomain list \<Rightarrow> ProjectDomain list option" where
  "removeDomain fqdn [] = None"
| "removeDomain fqdn (d # ds) =
     (if Dom_FQDN d = fqdn then Some ds
      else (case removeDomain fqdn ds of None \<Rightarrow> None | Some ds' \<Rightarrow> Some (d # ds')))"

definition DeleteProjectDomain :: "string \<Rightarrow> string \<Rightarrow> MemoryStore \<Rightarrow> unit op" where
  "DeleteProjectDomain ref fqdn s =
     and_then (normalizeDomain fqdn) (\<lambda>normalized.
     and_then (lookup_or (ErrNotFound ''project'') (s_projects s) ref) (\<lambda>_.
     case removeDomain normalized (get_or [] (s_domains s) ref) of
       None \<Rightarrow> Inl (ErrNotFound ''domain'')
     | Some ds \<Rightarrow> Inr (s\<lparr>s_domains := AList.update ref ds (s_domains s)\<rparr>, ())))"

end
