(* ===== verification/Store_Steps.thy ===== *)
theory Store_Steps
  imports Replicas Domains
begin

text \<open>
  The store as a state machine. A step is one method call that succeeded; a call that fails leaves the
  store alone. \<open>Other\<close> stands for every method that does not touch hosts, projects, replicas and
  custom domains, such as those on users, organisations and teams. Fresh identifiers are unused and
  \<open>url.Parse\<close> behaves as documented (\<open>plain_urls\<close>).
\<close>

inductive store_step :: "MemoryStore \<Rightarrow> MemoryStore \<Rightarrow> bool" where
  Step_CreateHost: "CreateHost c req s = Inr (s', r) \<Longrightarrow> ctx_newID c \<noteq> [] \<Longrightarrow>
     map_of (s_hosts s) (ctx_newID c) = None \<Longrightarrow> store_step s s'"
| Step_DeleteHost: "DeleteHost i s = Inr (s', r1) \<Longrightarrow> store_step s s'"
| Step_CreateProject: "CreateProject c defaults req s = Inr (s', r2) \<Longrightarrow> plain_urls c \<Longrightarrow> store_step s s'"
| Step_CreateBranch: "CreateProjectBranch c ref input s = Inr (s', r3) \<Longrightarrow> plain_urls c \<Longrightarrow> store_step s s'"
| Step_DeleteProject: "DeleteProject ref s = Inr (s', r4) \<Longrightarrow> store_step s s'"
| Step_DeleteBranch: "DeleteProjectBranch src ref s = Inr (s', r5) \<Longrightarrow> store_step s s'"
| Step_Status: "UpdateProjectStatus c ref status message s = Inr (s', r6) \<Longrightarrow> store_step s s'"
| Step_StackVersion: "UpdateProjectStackVersion c ref version s = Inr (s', r7) \<Longrightarrow> store_step s s'"
| Step_Tier: "UpdateProjectResourceTier c ref tier s = Inr (s', r8) \<Longrightarrow> store_step s s'"
| Step_Resources: "UpdateProjectResources c ref sizing s = Inr (s', r9) \<Longrightarrow> store_step s s'"
| Step_Services: "UpdateProjectServices c ref services s = Inr (s', r10) \<Longrightarrow> store_step s s'"
| Step_CreateReplica: "CreateProjectReplica c ref rinput s = Inr (s', r11) \<Longrightarrow>
     ctx_newID c \<notin> Rep_ID ` set (get_or [] (s_replicas s) (norm_key ref)) \<Longrightarrow> store_step s s'"
| Step_ReplicaStatus: "UpdateProjectReplicaStatus c ref i status message s = Inr (s', r12) \<Longrightarrow> store_step s s'"
| Step_DeleteReplica: "DeleteProjectReplica ref i s = Inr (s', r13) \<Longrightarrow> store_step s s'"
| Step_Promote: "PromoteProjectReplica c ref i reason s = Inr (s', r14) \<Longrightarrow> store_step s s'"
| Step_Failover: "FailoverProjectReplica c ref reason s = Inr (s', r15) \<Longrightarrow> store_step s s'"
| Step_AddDomain: "AddProjectDomain c ref fqdn s = Inr (s', r16) \<Longrightarrow> plain_urls c \<Longrightarrow> store_step s s'"
| Step_CertStatus: "UpdateProjectDomainCertStatus c ref fqdn status s = Inr (s', r17) \<Longrightarrow> store_step s s'"
| Step_Certificate: "UpdateProjectDomainCertificate c ref fqdn metadata s = Inr (s', r18) \<Longrightarrow> store_step s s'"
| Step_DeleteDomain: "DeleteProjectDomain ref fqdn s = Inr (s', r19) \<Longrightarrow> store_step s s'"
| Step_UpsertRoutes: "UpsertProjectRoutes c ids ref routes s = Inr (s', r20) \<Longrightarrow> store_step s s'"
| Step_DeleteRoutes: "DeleteProjectRoutes ref s = Inr (s', r21) \<Longrightarrow> store_step s s'"
| Step_Other: "s_hosts s' = s_hosts s \<Longrightarrow> s_projects s' = s_projects s \<Longrightarrow> s_replicas s' = s_replicas s \<Longrightarrow>
     s_domains s' = s_domains s \<Longrightarrow> store_step s s'"

inductive reachable :: "MemoryStore \<Rightarrow> bool" where
  Reach_init: "reachable (NewMemoryStore defaults)"
| Reach_step: "reachable s \<Longrightarrow> store_step s s' \<Longrightarrow> reachable s'"

text \<open>The part of the store that the invariants speak about, and what each kind of change does to it.\<close>

definition same_sites :: "MemoryStore \<Rightarrow> MemoryStore \<Rightarrow> bool" where
  "same_sites s s' \<longleftrightarrow> s_projects s' = s_projects s \<and> s_replicas s' = s_replicas s \<and> s_domains s' = s_domains s"

lemma bookHost_same: "bookHost h r s = Inr s' \<Longrightarrow> same_sites s s'"
  by (auto simp: bookHost_def same_sites_def and_then_eq_Inr_iff Let_def split: if_splits)

lemma rebookHost_same: "rebookHost h r r' s = Inr s' \<Longrightarrow> same_sites s s'"
  by (auto simp: rebookHost_def same_sites_def and_then_eq_Inr_iff Let_def split: if_splits)

lemma releaseHost_same: "same_sites s (releaseHost h r s)"
  by (auto simp: releaseHost_def same_sites_def Let_def split: option.splits)

lemma releaseReplicas_same: "same_sites s (releaseReplicas rs s)"
  unfolding releaseReplicas_def
proof (induction rs arbitrary: s)
  case (Cons r rs)
  then show ?case using releaseHost_same [of s "Rep_HostID r" "replicaReservationForTier (Rep_Tier r)"]
    by (auto simp: same_sites_def)
qed (simp add: same_sites_def)

lemma CreateProject_eq:
  assumes "CreateProject c defaults request s = Inr (s', p)"
  obtains req hostID s1 where "req = createProjectRequestWithDefaults defaults request"
    and "validateCreateProject c req = Inr ()" and "map_of (s_projects s) (Req_Ref req) = None"
    and "map_of (s_orgs s) (Req_OrgID req) \<noteq> None"
    and "validateGeneratedProjectHostReservationsLocked c s (Req_Ref req) (Req_Domain req) = Inr ()"
    and "validateOrgQuotaLocked c s (Req_OrgID req) (resourceReservationForSpec (toSpec req)) = Inr ()"
    and "bookHost hostID (resourceReservationForSpec (toSpec req)) s = Inr s1"
    and "p = newProject c (ctx_newID c) ''project accepted for provisioning'' req ((toSpec req)\<lparr>Spec_HostID := hostID\<rparr>)"
    and "s_hosts s' = s_hosts s1" and "s_projects s' = AList.update (Req_Ref req) p (s_projects s)"
    and "s_replicas s' = s_replicas s" and "s_domains s' = s_domains s" and "s_orgQuotas s' = s_orgQuotas s"
proof -
  define req where "req = createProjectRequestWithDefaults defaults request"
  define res where "res = resourceReservationForSpec (toSpec req)"
  define hostID where "hostID = (if Req_HostID req = [] then defaultHostForReservationLocked s res else Req_HostID req)"
  from assms obtain u v w x y s1 where st: "validateCreateProject c req = Inr u"
      "lookup_or (ErrNotFound ''org'') (s_orgs s) (Req_OrgID req) = Inr v"
      "check (map_of (s_projects s) (Req_Ref req) = None) (ErrConflict ''project ref already exists'') = Inr w"
      "validateGeneratedProjectHostReservationsLocked c s (Req_Ref req) (Req_Domain req) = Inr x"
      "validateOrgQuotaLocked c s (Req_OrgID req) res = Inr y"
    and b: "bookHost hostID res s = Inr s1"
    and last: "Inr (storeProject c (newProject c (ctx_newID c) ''project accepted for provisioning'' req
           ((toSpec req)\<lparr>Spec_HostID := hostID\<rparr>)) s1,
         newProject c (ctx_newID c) ''project accepted for provisioning'' req ((toSpec req)\<lparr>Spec_HostID := hostID\<rparr>)) =
       (Inr (s', p) :: (MemoryStore \<times> Project) res)"
    unfolding CreateProject_def Let_def req_def [symmetric] res_def [symmetric] hostID_def [symmetric]
    by (elim and_then_InrE)
  have quotas: "s_orgQuotas s1 = s_orgQuotas s"
    using b by (auto simp: bookHost_def and_then_eq_Inr_iff Let_def split: if_splits)
  have p: "p = newProject c (ctx_newID c) ''project accepted for provisioning'' req ((toSpec req)\<lparr>Spec_HostID := hostID\<rparr>)"
    and s': "s' = storeProject c p s1" using last by auto
  show ?thesis
    by (rule that [OF req_def _ _ _ _ _ b [unfolded res_def] p])
      (use st bookHost_same [OF b] quotas res_def s' in
        \<open>simp_all add: same_sites_def storeProject_fields p newProject_def\<close>)
qed

lemma CreateProjectBranch_eq:
  assumes "CreateProjectBranch c sourceRef input s = Inr (s', b, p)"
  obtains source name s1 where "map_of (s_projects s) (norm_key sourceRef) = Some source"
    and "map_of (s_projects s) (norm_key (BranchIn_Ref input)) = None"
    and "validateCreateProject c (branchRequest source (norm_key (BranchIn_Ref input)) name) = Inr ()"
    and "validateGeneratedProjectHostReservationsLocked c s (norm_key (BranchIn_Ref input)) (Spec_Domain (Proj_Spec source)) = Inr ()"
    and "validateOrgQuotaLocked c s (Proj_OrgID source)
      (resourceReservationForSpec (toSpec (branchRequest source (norm_key (BranchIn_Ref input)) name))) = Inr ()"
    and "bookHost (Spec_HostID (Proj_Spec source))
      (resourceReservationForSpec (toSpec (branchRequest source (norm_key (BranchIn_Ref input)) name))) s = Inr s1"
    and "p = newProject c (ctx_newID c) ''branch accepted for provisioning''
      (branchRequest source (norm_key (BranchIn_Ref input)) name) (toSpec (branchRequest source (norm_key (BranchIn_Ref input)) name))"
    and "s_hosts s' = s_hosts s1" and "s_projects s' = AList.update (norm_key (BranchIn_Ref input)) p (s_projects s)"
    and "s_replicas s' = s_replicas s" and "s_domains s' = s_domains s"
proof -
  define branchRef where "branchRef = norm_key (BranchIn_Ref input)"
  define name where "name = (if TrimSpace (BranchIn_Name input) = [] then branchRef else TrimSpace (BranchIn_Name input))"
  have req: "Req_Ref (branchRequest source branchRef name) = branchRef"
    "Req_Domain (branchRequest source branchRef name) = Spec_Domain (Proj_Spec source)"
    "Req_OrgID (branchRequest source branchRef name) = Proj_OrgID source"
    "Req_HostID (branchRequest source branchRef name) = Spec_HostID (Proj_Spec source)" for source
    by (simp_all add: branchRequest_def Let_def)
  have new: "Proj_Ref (newProject c i m r sp) = Req_Ref r" "Proj_OrgID (newProject c i m r sp) = Req_OrgID r"
    "Proj_Spec (newProject c i m r sp) = sp" for i m r sp
    by (simp_all add: newProject_def)
  have spec: "Spec_HostID (toSpec r) = Req_HostID r" for r
    by (simp add: toSpec_def Let_def)
  from assms obtain source u v w x y z t s1 where st: "lookup_or (ErrNotFound ''project'') (s_projects s) (norm_key sourceRef) = Inr source"
      "check (map_of (s_projects s) branchRef = None) (ErrConflict ''project ref already exists'') = Inr w"
      "validateCreateProject c (branchRequest source branchRef name) = Inr x"
      "validateGeneratedProjectHostReservationsLocked c s branchRef (Spec_Domain (Proj_Spec source)) = Inr y"
      "validateOrgQuotaLocked c s (Proj_OrgID source) (resourceReservationForSpec (toSpec (branchRequest source branchRef name))) = Inr z"
      "bookHost (Spec_HostID (Proj_Spec source)) (resourceReservationForSpec (toSpec (branchRequest source branchRef name))) s = Inr s1"
    and last: "\<exists>bs se po pi. s' = s1\<lparr>s_projects := AList.update branchRef p (s_projects s1), s_branches := bs, s_secrets := se,
        s_policies := po, s_pitrPolicies := pi\<rparr>"
    and p: "p = newProject c (ctx_newID c) ''branch accepted for provisioning'' (branchRequest source branchRef name)
        (toSpec (branchRequest source branchRef name))"
    unfolding CreateProjectBranch_def Let_def norm_key_def [symmetric] branchRef_def [symmetric] name_def [symmetric] req new spec
    by (elim and_then_InrE) blast
  from last obtain bs se po pi where s': "s' = s1\<lparr>s_projects := AList.update branchRef p (s_projects s1), s_branches := bs,
      s_secrets := se, s_policies := po, s_pitrPolicies := pi\<rparr>" by blast
  show ?thesis
    by (rule that [of source name s1]) (use st bookHost_same [OF st(6)] s' p in
        \<open>simp_all add: branchRef_def [symmetric] same_sites_def\<close>)
qed

lemma deleteProjectLocked_eq:
  assumes "deleteProjectLocked ref s = Inr (s', u)"
  obtains project where "map_of (s_projects s) ref = Some project"
    and "s_hosts s' = s_hosts (releaseReplicas (get_or [] (s_replicas s) ref)
           (releaseHost (Spec_HostID (Proj_Spec project)) (resourceReservationForSpec (Proj_Spec project)) s
             \<lparr>s_projects := AList.delete ref (s_projects s), s_branches := AList.delete ref (s_branches s)\<rparr>))"
    and "s_projects s' = AList.delete ref (s_projects s)"
    and "s_replicas s' = AList.delete ref (s_replicas s)" and "s_domains s' = AList.delete ref (s_domains s)"
proof -
  from assms obtain project where p: "map_of (s_projects s) ref = Some project"
    by (auto simp: deleteProjectLocked_def elim!: and_then_InrE)
  define s1 where "s1 = releaseHost (Spec_HostID (Proj_Spec project)) (resourceReservationForSpec (Proj_Spec project)) s"
  have same1: "s_projects s1 = s_projects s" "s_replicas s1 = s_replicas s" "s_domains s1 = s_domains s" "s_branches s1 = s_branches s"
    by (auto simp: s1_def releaseHost_def Let_def split: option.splits)
  define s2 where "s2 = releaseReplicas (get_or [] (s_replicas s) ref)
      (s1\<lparr>s_projects := AList.delete ref (s_projects s), s_branches := AList.delete ref (s_branches s)\<rparr>)"
  have same2: "s_projects s2 = AList.delete ref (s_projects s)" "s_replicas s2 = s_replicas s" "s_domains s2 = s_domains s"
    using releaseReplicas_same [of "s1\<lparr>s_projects := AList.delete ref (s_projects s), s_branches := AList.delete ref (s_branches s)\<rparr>"]
    unfolding s2_def by (simp_all add: same_sites_def same1)
  have "s' = cleanupRegisteredProjectChildrenLocked ref
      (s2\<lparr>s_replicas := AList.delete ref (s_replicas s2), s_branches := withoutBranch ref (s_branches s2)\<rparr>)"
    using assms p by (simp add: deleteProjectLocked_def lookup_or_def Let_def s1_def [symmetric] same1 s2_def [symmetric])
  with same2 that [OF p] show ?thesis
    by (simp add: cleanupRegisteredProjectChildrenLocked_def s2_def s1_def)
qed

lemma DeleteProjectBranch_deletes:
  "DeleteProjectBranch src ref s = Inr (s', u) \<Longrightarrow> deleteProjectLocked (norm_key ref) s = Inr (s', u)"
  by (auto simp: DeleteProjectBranch_def norm_key_def Let_def elim!: and_then_InrE)

text \<open>Operations that replace one project.\<close>

definition replaces_project :: "string \<Rightarrow> Project \<Rightarrow> Project \<Rightarrow> MemoryStore \<Rightarrow> MemoryStore \<Rightarrow> bool" where
  "replaces_project ref p p' s s' \<longleftrightarrow> map_of (s_projects s) ref = Some p \<and>
     s_projects s' = AList.update ref p' (s_projects s) \<and> s_replicas s' = s_replicas s \<and> s_domains s' = s_domains s \<and>
     Proj_Ref p' = Proj_Ref p \<and> Spec_Domain (Proj_Spec p') = Spec_Domain (Proj_Spec p) \<and>
     Spec_HostID (Proj_Spec p') = Spec_HostID (Proj_Spec p) \<and> Proj_OrgID p' = Proj_OrgID p"

lemma UpdateProjectStatus_eq:
  assumes "UpdateProjectStatus c ref status message s = Inr (s', r)"
  shows "\<exists>p. replaces_project ref p r s s' \<and> Proj_Spec r = Proj_Spec p \<and> s_hosts s' = s_hosts s"
  using assms by (auto simp: UpdateProjectStatus_def replaces_project_def putProject_def Let_def elim!: and_then_InrE)

lemma UpdateProjectStackVersion_eq:
  assumes "UpdateProjectStackVersion c ref version s = Inr (s', r)"
  shows "\<exists>p. replaces_project ref p r s s' \<and>
     (\<exists>v. Proj_Spec r = (Proj_Spec p)\<lparr>Spec_StackVersion := v\<rparr>) \<and> s_hosts s' = s_hosts s"
  using assms by (auto simp: UpdateProjectStackVersion_def replaces_project_def putProject_def Let_def elim!: and_then_InrE)

lemma UpdateProjectServices_eq:
  assumes "UpdateProjectServices c ref services s = Inr (s', r)"
  shows "\<exists>p. replaces_project ref p r s s' \<and>
     (\<exists>v. Proj_Spec r = (Proj_Spec p)\<lparr>Spec_Services := v\<rparr>) \<and> s_hosts s' = s_hosts s"
  using assms by (auto simp: UpdateProjectServices_def replaces_project_def putProject_def Let_def elim!: and_then_InrE)

lemma UpdateProjectResourceTier_eq:
  assumes "UpdateProjectResourceTier c ref tier s = Inr (s', r)"
  shows "\<exists>p p' s1. replaces_project ref p p' s s' \<and> map_of resourceTierReservations tier \<noteq> None \<and>
     Proj_Spec p' = (Proj_Spec p)\<lparr>Spec_ResourceTier := tier, Spec_CPU := 0, Spec_RAMMB := 0, Spec_DiskGB := 0\<rparr> \<and>
     rebookHost (Spec_HostID (Proj_Spec p)) (resourceReservationForSpec (Proj_Spec p)) (resourceReservationForTier tier) s = Inr s1 \<and>
     s_hosts s' = s_hosts s1"
proof -
  from assms obtain p s1 where p: "map_of (s_projects s) ref = Some p" "map_of resourceTierReservations tier \<noteq> None"
    and b: "rebookHost (Spec_HostID (Proj_Spec p)) (resourceReservationForSpec (Proj_Spec p)) (resourceReservationForTier tier) s = Inr s1"
    and s': "s' = putProject ref (p\<lparr>Proj_Spec := (Proj_Spec p)\<lparr>Spec_ResourceTier := tier, Spec_CPU := 0,
             Spec_RAMMB := 0, Spec_DiskGB := 0\<rparr>,
           Proj_Message := ''resource tier updated'', Proj_UpdatedAt := ctx_now c\<rparr>) s1"
    unfolding UpdateProjectResourceTier_def Let_def by (elim and_then_InrE) auto
  with rebookHost_same [OF b] show ?thesis
    by (intro exI [of _ p] exI [of _ "p\<lparr>Proj_Spec := (Proj_Spec p)\<lparr>Spec_ResourceTier := tier, Spec_CPU := 0,
             Spec_RAMMB := 0, Spec_DiskGB := 0\<rparr>,
           Proj_Message := ''resource tier updated'', Proj_UpdatedAt := ctx_now c\<rparr>"] exI [of _ s1])
      (auto simp: replaces_project_def putProject_def same_sites_def)
qed

lemma UpdateProjectResources_eq:
  assumes "UpdateProjectResources c ref input s = Inr (s', r)"
  shows "\<exists>p p' s1. replaces_project ref p p' s s' \<and> 1 \<le> Res_CPU input \<and> minProjectRAMMB \<le> Res_RAMMB input \<and> 1 \<le> Res_DiskGB input \<and>
     Proj_Spec p' = (Proj_Spec p)\<lparr>Spec_ResourceTier := ResourceTierCustom, Spec_CPU := Res_CPU input,
       Spec_RAMMB := Res_RAMMB input, Spec_DiskGB := Res_DiskGB input, Spec_EnforceLimits := Res_EnforceLimits input\<rparr> \<and>
     rebookHost (Spec_HostID (Proj_Spec p)) (resourceReservationForSpec (Proj_Spec p)) (resourceReservationForSpec (Proj_Spec p')) s = Inr s1 \<and>
     s_hosts s' = s_hosts s1"
proof -
  define nx where "nx p = (Proj_Spec p)\<lparr>Spec_ResourceTier := ResourceTierCustom, Spec_CPU := Res_CPU input,
       Spec_RAMMB := Res_RAMMB input, Spec_DiskGB := Res_DiskGB input, Spec_EnforceLimits := Res_EnforceLimits input\<rparr>" for p :: Project
  from assms obtain p s1 where p: "map_of (s_projects s) ref = Some p" "1 \<le> Res_CPU input" "minProjectRAMMB \<le> Res_RAMMB input"
      "1 \<le> Res_DiskGB input"
    and b: "rebookHost (Spec_HostID (Proj_Spec p)) (resourceReservationForSpec (Proj_Spec p)) (resourceReservationForSpec (nx p)) s = Inr s1"
    and s': "s' = putProject ref (p\<lparr>Proj_Spec := nx p, Proj_Message := ''resource sizing updated'', Proj_UpdatedAt := ctx_now c\<rparr>) s1"
    unfolding UpdateProjectResources_def Let_def nx_def [symmetric] by (elim and_then_InrE) auto
  have keep: "Spec_Domain (nx p) = Spec_Domain (Proj_Spec p)" "Spec_HostID (nx p) = Spec_HostID (Proj_Spec p)"
    by (simp_all add: nx_def)
  show ?thesis
    by (intro exI [of _ p] exI [of _ "p\<lparr>Proj_Spec := nx p, Proj_Message := ''resource sizing updated'', Proj_UpdatedAt := ctx_now c\<rparr>"] exI [of _ s1])
      (use p b s' keep rebookHost_same [OF b] in \<open>simp add: replaces_project_def putProject_def same_sites_def nx_def [symmetric]\<close>)
qed

text \<open>Operations on the replicas of one project.\<close>

lemma CreateProjectReplica_eq:
  assumes "CreateProjectReplica c ref input s = Inr (s', r)"
  obtains project s1 where "map_of (s_projects s) (norm_key ref) = Some project"
    and "bookHost (Rep_HostID r) (replicaReservationForTier (Rep_Tier r)) s = Inr s1"
    and "s_hosts s' = s_hosts s1" and "s_projects s' = s_projects s" and "s_domains s' = s_domains s"
    and "s_replicas s' = AList.update (norm_key ref) (get_or [] (s_replicas s) (norm_key ref) @ [r]) (s_replicas s)"
    and "Rep_Role r = ''read''" and "Rep_ID r = ctx_newID c"
    and "validateOrgReplicaQuotaLocked c s (Proj_OrgID project) (replicaReservationForTier (Rep_Tier r)) = Inr ()"
proof -
  define hostID where "hostID = TrimSpace (RepIn_HostID input)"
  define tier where "tier project = (if TrimSpace (RepIn_Tier input) = [] then defaultReplicaTierForProject (Proj_Spec project)
      else TrimSpace (RepIn_Tier input))" for project :: Project
  from assms obtain project n w pr u s1 where h: "map_of (s_projects s) (norm_key ref) = Some project"
      "bookHost hostID (replicaReservationForTier (tier project)) s = Inr s1"
    and q: "validateOrgReplicaQuotaLocked c s (Proj_OrgID project) (replicaReservationForTier (tier project)) = Inr u"
    and r: "r = newReplica c (norm_key ref) (Spec_Domain (Proj_Spec project)) n hostID (TrimSpace (RepIn_Region input)) (tier project) w pr"
    and s': "s' = s1\<lparr>s_replicas := AList.update (norm_key ref) (get_or [] (s_replicas s) (norm_key ref) @ [r]) (s_replicas s1)\<rparr>"
    unfolding CreateProjectReplica_def Let_def norm_key_def [symmetric] tier_def [symmetric] hostID_def [symmetric]
    by (elim and_then_InrE) auto
  have "Rep_HostID r = hostID" "Rep_Tier r = tier project" "Rep_Role r = ''read''" "Rep_ID r = ctx_newID c"
    by (simp_all add: r newReplica_def Let_def)
  with h q s' bookHost_same [OF h(2)] that show ?thesis by (simp add: same_sites_def)
qed

text \<open>What a replica books, and who it is.\<close>

definition rep_booking :: "ProjectReplica \<Rightarrow> string \<times> ResourceTier \<times> string" where
  "rep_booking r = (Rep_HostID r, Rep_Tier r, Rep_ID r)"

lemma UpdateProjectReplicaStatus_eq:
  assumes "UpdateProjectReplicaStatus c ref i status message s = Inr (s', r)"
  obtains rs rs' where "map_of (s_replicas s) (norm_key ref) = Some rs"
    and "s' = s\<lparr>s_replicas := AList.update (norm_key ref) rs' (s_replicas s)\<rparr>"
    and "map rep_booking rs' = map rep_booking rs" and "map is_primary rs' = map is_primary rs"
proof -
  define rs where "rs = get_or [] (s_replicas s) (norm_key ref)"
  from assms obtain k r0 r' where ix: "replicaIndex (TrimSpace i) rs 0 = Some (k, r0)"
    and r': "r' = (normalizedReplicaForRouting (r0\<lparr>Rep_Status := ToLower (TrimSpace status)\<rparr>) k)
          \<lparr>Rep_Message := TrimSpace message, Rep_UpdatedAt := ctx_now c\<rparr>"
    and s': "s' = s\<lparr>s_replicas := AList.update (norm_key ref) (rs[k := r']) (s_replicas s)\<rparr>"
    unfolding UpdateProjectReplicaStatus_def Let_def norm_key_def [symmetric] rs_def [symmetric]
    by (elim and_then_InrE) (auto split: option.splits)
  have k: "k < length rs" "rs ! k = r0" using replicaIndex_Some [OF ix] by simp_all
  have some: "map_of (s_replicas s) (norm_key ref) = Some rs"
    using k by (auto simp: rs_def get_or_def split: option.splits)
  have "rep_booking r' = rep_booking r0" "is_primary r' = is_primary r0"
    by (auto simp: r' rep_booking_def normalizedReplicaForRouting_def Let_def)
  then have "map rep_booking (rs[k := r']) = map rep_booking rs" "map is_primary (rs[k := r']) = map is_primary rs"
    using k by (simp_all add: map_update list_update_same_conv)
  with some s' that show ?thesis by blast
qed

lemma promoteAt_eq:
  assumes "promoteAt c ref project rs index r message s = (s', r')" and "index < length rs" and "rs ! index = r"
    and "map_of (s_projects s) ref = Some project" and "rs = get_or [] (s_replicas s) ref"
  shows "\<exists>rs' project'. map_of (s_replicas s) ref = Some rs \<and> map rep_booking rs' = map rep_booking rs \<and>
     filter is_primary rs' = [r'] \<and> Proj_Spec project' = Proj_Spec project \<and> Proj_Ref project' = Proj_Ref project \<and>
     Proj_OrgID project' = Proj_OrgID project \<and>
     s' = s\<lparr>s_projects := AList.update ref project' (s_projects s), s_replicas := AList.update ref rs' (s_replicas s)\<rparr>"
proof -
  define r1 where "r1 = r\<lparr>Rep_Role := ''primary'', Rep_Message := message, Rep_PromotedAt := Some (ctx_now c), Rep_UpdatedAt := ctx_now c\<rparr>"
  define rs' where "rs' = (map (demote (ctx_now c)) rs)[index := r1]"
  define project' where "project' = project\<lparr>Proj_Status := ProjectHealthy, Proj_Message := ''replica '' @ Rep_Name r @ '' promoted'', Proj_UpdatedAt := ctx_now c\<rparr>"
  have eq: "s' = s\<lparr>s_projects := AList.update ref project' (s_projects s), s_replicas := AList.update ref rs' (s_replicas s)\<rparr>" "r' = r1"
    using assms(1) by (auto simp: promoteAt_def Let_def r1_def rs'_def project'_def)
  have "rep_booking (demote t x) = rep_booking x" for t x by (simp add: demote_def rep_booking_def)
  moreover have "rep_booking r1 = rep_booking r" by (simp add: r1_def rep_booking_def)
  ultimately have "map rep_booking rs' = map rep_booking rs"
    using assms(2,3) by (simp add: rs'_def map_update list_update_same_conv comp_def)
  moreover have "filter is_primary rs' = [r']" unfolding rs'_def eq(2)
    by (rule filter_update_one) (use assms(2) in \<open>auto simp: r1_def\<close>)
  moreover have "map_of (s_replicas s) ref = Some rs"
    using assms(2,5) by (auto simp: get_or_def split: option.splits)
  moreover have "Proj_Spec project' = Proj_Spec project" "Proj_Ref project' = Proj_Ref project" "Proj_OrgID project' = Proj_OrgID project"
    by (simp_all add: project'_def)
  ultimately show ?thesis using eq(1) by blast
qed

lemma promotion_eq:
  assumes "PromoteProjectReplica c ref i reason s = Inr (s', r) \<or> FailoverProjectReplica c ref reason s = Inr (s', r)"
  obtains rs rs' project project' where "map_of (s_replicas s) (norm_key ref) = Some rs"
    and "map_of (s_projects s) (norm_key ref) = Some project" and "map rep_booking rs' = map rep_booking rs"
    and "filter is_primary rs' = [r]" and "Proj_Spec project' = Proj_Spec project" and "Proj_Ref project' = Proj_Ref project"
    and "Proj_OrgID project' = Proj_OrgID project"
    and "s' = s\<lparr>s_projects := AList.update (norm_key ref) project' (s_projects s),
        s_replicas := AList.update (norm_key ref) rs' (s_replicas s)\<rparr>"
  using assms
proof
  assume "PromoteProjectReplica c ref i reason s = Inr (s', r)"
  then obtain project index r0 message where h: "map_of (s_projects s) (norm_key ref) = Some project"
    "index < length (get_or [] (s_replicas s) (norm_key ref))" "get_or [] (s_replicas s) (norm_key ref) ! index = r0"
    "promoteAt c (norm_key ref) project (get_or [] (s_replicas s) (norm_key ref)) index r0 message s = (s', r)"
    by (rule PromoteProjectReplica_eq)
  from promoteAt_eq [OF h(4,2,3,1) refl] h(1) that show ?thesis by blast
next
  assume "FailoverProjectReplica c ref reason s = Inr (s', r)"
  then obtain project index r0 message where h: "map_of (s_projects s) (norm_key ref) = Some project"
    "failoverIndex 0 (get_or [] (s_replicas s) (norm_key ref)) None = Some (index, r0)"
    "promoteAt c (norm_key ref) project (get_or [] (s_replicas s) (norm_key ref)) index r0 message s = (s', r)"
    by (rule FailoverProjectReplica_eq)
  from promoteAt_eq [OF h(3) failoverIndex_Some(1,2) [OF h(2)] h(1) refl] h(1) that show ?thesis by blast
qed

lemma removeReplica_keeps:
  "removeReplica i rs = Inr (kept, x) \<Longrightarrow> i \<notin> Rep_ID ` set rs \<Longrightarrow> kept = rs \<and> x = None"
  by (induction rs arbitrary: kept x) (auto elim!: and_then_InrE)

lemma removeReplica_eq:
  assumes "removeReplica i rs = Inr (kept, Some r)" and "distinct (map Rep_ID rs)"
  shows "\<exists>xs ys. rs = xs @ r # ys \<and> kept = xs @ ys \<and> Rep_ID r = i \<and> \<not> is_primary r"
  using assms
proof (induction rs arbitrary: kept)
  case (Cons q rs)
  show ?case
  proof (cases "Rep_ID q = i")
    case True
    with Cons.prems obtain k x where k: "removeReplica i rs = Inr (k, x)" "kept = k" "\<not> is_primary q"
      "Some r = (case x of None \<Rightarrow> Some q | Some y \<Rightarrow> Some y)"
      by (auto split: if_splits elim!: and_then_InrE)
    from Cons.prems(2) True have "i \<notin> Rep_ID ` set rs" by auto
    with removeReplica_keeps [OF k(1)] k True show ?thesis by (intro exI [of _ "[]"] exI [of _ rs]) simp
  next
    case False
    with Cons.prems obtain k where k: "removeReplica i rs = Inr (k, Some r)" "kept = q # k"
      by (auto elim!: and_then_InrE)
    from Cons.IH [OF k(1)] Cons.prems(2) obtain xs ys where "rs = xs @ r # ys" "k = xs @ ys" "Rep_ID r = i" "\<not> is_primary r" by auto
    with k(2) show ?thesis by (intro exI [of _ "q # xs"] exI [of _ ys]) simp
  qed
qed simp

lemma DeleteProjectReplica_eq:
  assumes "DeleteProjectReplica ref i s = Inr (s', u)"
  obtains kept r where "removeReplica (TrimSpace i) (get_or [] (s_replicas s) (norm_key ref)) = Inr (kept, Some r)"
    and "s_hosts s' = s_hosts (releaseHost (Rep_HostID r) (replicaReservationForTier (Rep_Tier r)) s)"
    and "s_projects s' = s_projects s" and "s_domains s' = s_domains s"
    and "s_replicas s' = (if kept = [] then AList.delete (norm_key ref) (s_replicas s)
        else AList.update (norm_key ref) kept (s_replicas s))"
    and "\<exists>p. map_of (s_projects s) (norm_key ref) = Some p"
proof -
  from assms obtain p kept r where "map_of (s_projects s) (norm_key ref) = Some p"
      "removeReplica (TrimSpace i) (get_or [] (s_replicas s) (norm_key ref)) = Inr (kept, Some r)"
    and s': "s' = (if kept = [] then (releaseHost (Rep_HostID r) (replicaReservationForTier (Rep_Tier r)) s)
              \<lparr>s_replicas := AList.delete (norm_key ref) (s_replicas (releaseHost (Rep_HostID r) (replicaReservationForTier (Rep_Tier r)) s))\<rparr>
            else (releaseHost (Rep_HostID r) (replicaReservationForTier (Rep_Tier r)) s)
              \<lparr>s_replicas := AList.update (norm_key ref) kept (s_replicas (releaseHost (Rep_HostID r) (replicaReservationForTier (Rep_Tier r)) s))\<rparr>)"
    unfolding DeleteProjectReplica_def Let_def norm_key_def [symmetric]
    by (elim and_then_InrE) (auto split: option.splits)
  with releaseHost_same [of s "Rep_HostID r" "replicaReservationForTier (Rep_Tier r)"] that
  show ?thesis by (simp add: same_sites_def split: if_splits)
qed

text \<open>Operations on custom domains leave everything else alone.\<close>

definition only_domains :: "MemoryStore \<Rightarrow> MemoryStore \<Rightarrow> bool" where
  "only_domains s s' \<longleftrightarrow> s_hosts s' = s_hosts s \<and> s_projects s' = s_projects s \<and> s_replicas s' = s_replicas s"

lemma domain_ops_frame:
  "AddProjectDomain c ref fqdn s = Inr (s', r) \<Longrightarrow> only_domains s s'"
  "UpdateProjectDomainCertStatus c ref fqdn status s = Inr (s', r) \<Longrightarrow> only_domains s s'"
  "UpdateProjectDomainCertificate c ref fqdn metadata s = Inr (s', r) \<Longrightarrow> only_domains s s'"
  "DeleteProjectDomain ref fqdn s = Inr (s', u) \<Longrightarrow> only_domains s s'"
  by (auto simp: AddProjectDomain_def UpdateProjectDomainCertStatus_def UpdateProjectDomainCertificate_def
      DeleteProjectDomain_def changeDomain_def only_domains_def Let_def split: option.splits elim!: and_then_InrE)

lemma route_ops_frame:
  "UpsertProjectRoutes c ids ref routes s = Inr (s', r) \<Longrightarrow> only_domains s s' \<and> s_domains s' = s_domains s"
  "DeleteProjectRoutes ref s = Inr (s', u) \<Longrightarrow> only_domains s s' \<and> s_domains s' = s_domains s"
  by (auto simp: UpsertProjectRoutes_def DeleteProjectRoutes_def only_domains_def Let_def elim!: and_then_InrE)

end
