(* ===== verification/Capacity.thy ===== *)
theory Capacity
  imports Store_Steps
begin

text \<open>
  The capacity ledger of the hosts. The used capacity kept with a host is a running total that creating,
  resizing and deleting projects and replicas adjust. The invariant says that it never drifts: it is the
  sum of what the projects and replicas on the host reserve, and it never exceeds the capacity of the host.
  The locale \<open>ledger\<close> of the prelude, interpreted as \<open>cap\<close>, carries the sums.
\<close>

section \<open>What is booked on a host\<close>

definition on_host :: "string \<Rightarrow> HostCapacity \<Rightarrow> string \<Rightarrow> HostCapacity" where
  "on_host h r k = (if h = k then r else zeroCapacity)"

definition projectsOn :: "string \<Rightarrow> (string, Project) gomap \<Rightarrow> HostCapacity" where
  "projectsOn k = cap.total (\<lambda>ref p. on_host (Spec_HostID (Proj_Spec p)) (resourceReservationForSpec (Proj_Spec p)) k)"

definition replicaListOn :: "string \<Rightarrow> ProjectReplica list \<Rightarrow> HostCapacity" where
  "replicaListOn k rs =
     foldr (\<lambda>r. addHostCapacity (on_host (Rep_HostID r) (replicaReservationForTier (Rep_Tier r)) k)) rs zeroCapacity"

definition replicasOn :: "string \<Rightarrow> (string, ProjectReplica list) gomap \<Rightarrow> HostCapacity" where
  "replicasOn k = cap.total (\<lambda>ref rs. replicaListOn k rs)"

definition booked :: "MemoryStore \<Rightarrow> string \<Rightarrow> HostCapacity" where
  "booked s k = addHostCapacity (projectsOn k (s_projects s)) (replicasOn k (s_replicas s))"

lemmas cap_ac = cap.add_assoc cap.add_comm cap.add_left_comm

lemma cap_zero [simp]: "addHostCapacity zeroCapacity a = a" "addHostCapacity a zeroCapacity = a"
  using cap.add_zero cap.add_comm by metis+

lemma nonneg_on_host [simp]: "nonnegCapacity r \<Longrightarrow> nonnegCapacity (on_host h r k)"
  by (simp add: on_host_def cap.proper_zero)

lemma replicaListOn_simps [simp]:
  "replicaListOn k [] = zeroCapacity"
  "replicaListOn k (r # rs) = addHostCapacity (on_host (Rep_HostID r) (replicaReservationForTier (Rep_Tier r)) k) (replicaListOn k rs)"
  by (simp_all add: replicaListOn_def)

lemma replicaListOn_append: "replicaListOn k (xs @ ys) = addHostCapacity (replicaListOn k xs) (replicaListOn k ys)"
  by (induction xs) (simp_all add: cap_ac)

lemma nonneg_replicaListOn [simp]: "nonnegCapacity (replicaListOn k rs)"
  by (induction rs) (simp_all add: cap.proper_zero cap.proper_add)

lemma nonneg_projectsOn [simp]: "nonnegCapacity (projectsOn k m)"
  unfolding projectsOn_def by (rule cap.proper_total) simp

lemma nonneg_replicasOn [simp]: "nonnegCapacity (replicasOn k m)"
  unfolding replicasOn_def by (rule cap.proper_total) simp

lemma nonneg_booked [simp]: "nonnegCapacity (booked s k)"
  by (simp add: booked_def cap.proper_add)

lemma replicaListOn_booking: "map rep_booking rs = map rep_booking rs' \<Longrightarrow> replicaListOn k rs = replicaListOn k rs'"
proof (induction rs arbitrary: rs')
  case (Cons r rs)
  then obtain q qs where q: "rs' = q # qs" "rep_booking r = rep_booking q" "map rep_booking rs = map rep_booking qs"
    by (cases rs') auto
  from q(2) Cons.IH [OF q(3)] show ?case unfolding q(1) by (simp add: rep_booking_def)
qed simp

section \<open>Booking, releasing and rebooking keep the accounts\<close>

definition hosts_ok :: "(string, Host) gomap \<Rightarrow> bool" where
  "hosts_ok hs \<longleftrightarrow> gomap_ok hs \<and> (\<forall>k h. map_of hs k = Some h \<longrightarrow> Host_ID h = k \<and> k \<noteq> [])"

definition accounts :: "(string, Host) gomap \<Rightarrow> (string \<Rightarrow> HostCapacity) \<Rightarrow> bool" where
  "accounts hs B \<longleftrightarrow> (\<forall>k h. map_of hs k = Some h \<longrightarrow> Host_Used h = B k \<and> usedWithinCapacity (B k) (Host_Capacity h))"

lemma accountsD:
  assumes "accounts hs B" and "map_of hs k = Some h"
  shows "Host_Used h = B k" and "usedWithinCapacity (B k) (Host_Capacity h)"
  using assms unfolding accounts_def by blast+

lemma accounts_cong: "(\<And>k. map_of hs k \<noteq> None \<Longrightarrow> B k = B' k) \<Longrightarrow> accounts hs B = accounts hs B'"
  by (auto simp: accounts_def)

lemma hosts_ok_update:
  assumes "hosts_ok hs" and "map_of hs k = Some host" and "Host_ID host' = Host_ID host"
  shows "hosts_ok (AList.update (Host_ID host) host' hs)" and "Host_ID host = k"
    and "map_of (AList.update (Host_ID host) host' hs) k' \<noteq> None \<longleftrightarrow> map_of hs k' \<noteq> None"
proof -
  show k: "Host_ID host = k" using assms(1,2) unfolding hosts_ok_def by blast
  with assms show "hosts_ok (AList.update (Host_ID host) host' hs)"
    by (auto simp: hosts_ok_def)
  show "map_of (AList.update (Host_ID host) host' hs) k' \<noteq> None \<longleftrightarrow> map_of hs k' \<noteq> None"
    using assms(2) k by auto
qed

lemma accounts_update:
  assumes "accounts hs B" and "hosts_ok hs" and "map_of hs h = Some host"
    and "Host_Used host' = B' h" and "usedWithinCapacity (B' h) (Host_Capacity host')" and "\<And>k. k \<noteq> h \<Longrightarrow> B' k = B k"
    and "Host_ID host' = Host_ID host"
  shows "accounts (AList.update (Host_ID host) host' hs) B'"
proof -
  have "Host_ID host = h" by (rule hosts_ok_update(2) [OF assms(2,3,7)])
  with assms show ?thesis by (auto simp: accounts_def)
qed

definition known_host :: "(string, Host) gomap \<Rightarrow> string \<Rightarrow> bool" where
  "known_host hs h \<longleftrightarrow> h = [] \<or> map_of hs h \<noteq> None"

definition same_keys :: "('k, 'a) gomap \<Rightarrow> ('k, 'b) gomap \<Rightarrow> bool" where
  "same_keys m m' \<longleftrightarrow> (\<forall>k. (map_of m' k \<noteq> None) = (map_of m k \<noteq> None))"

lemma book_accounts:
  assumes "bookHost h r s = Inr s1" and "hosts_ok (s_hosts s)" and "accounts (s_hosts s) B"
  shows "hosts_ok (s_hosts s1)" and "accounts (s_hosts s1) (\<lambda>k. addHostCapacity (B k) (on_host h r k))"
    and "same_keys (s_hosts s) (s_hosts s1)" and "known_host (s_hosts s) h"
proof -
  have "hosts_ok (s_hosts s1) \<and> accounts (s_hosts s1) (\<lambda>k. addHostCapacity (B k) (on_host h r k)) \<and>
      same_keys (s_hosts s) (s_hosts s1) \<and> known_host (s_hosts s) h"
  proof (cases "h = []")
    case True
    then have "s1 = s" using assms(1) by (simp add: bookHost_def)
    moreover have "on_host h r k = zeroCapacity" if "map_of (s_hosts s) k \<noteq> None" for k
      using assms(2) that True by (auto simp: on_host_def hosts_ok_def)
    then have "accounts (s_hosts s) (\<lambda>k. addHostCapacity (B k) (on_host h r k)) = accounts (s_hosts s) B"
      by (intro accounts_cong) simp
    ultimately show ?thesis using assms(2,3) True by (simp add: same_keys_def known_host_def)
  next
    case False
    then obtain host where host: "map_of (s_hosts s) h = Some host" "hostHasCapacity host r"
      and s1: "s1 = s\<lparr>s_hosts := AList.update (Host_ID host) (host\<lparr>Host_Used := addHostCapacity (Host_Used host) r\<rparr>) (s_hosts s)\<rparr>"
      using assms(1) by (auto simp: bookHost_def Let_def elim!: and_then_InrE)
    have used: "Host_Used host = B h" using assms(3) host(1) by (simp add: accounts_def)
    have "accounts (s_hosts s1) (\<lambda>k. addHostCapacity (B k) (on_host h r k))"
      unfolding s1 by (simp, rule accounts_update [OF assms(3,2) host(1)])
        (use used host(2) in \<open>simp_all add: on_host_def hostHasCapacity_def\<close>)
    with hosts_ok_update [OF assms(2) host(1), of "host\<lparr>Host_Used := addHostCapacity (Host_Used host) r\<rparr>"] host(1) s1
    show ?thesis by (simp add: same_keys_def known_host_def)
  qed
  then show "hosts_ok (s_hosts s1)" "accounts (s_hosts s1) (\<lambda>k. addHostCapacity (B k) (on_host h r k))"
    "same_keys (s_hosts s) (s_hosts s1)" "known_host (s_hosts s) h" by blast+
qed

lemma usedWithin_less: "usedWithinCapacity (addHostCapacity b x) lim \<Longrightarrow> nonnegCapacity x \<Longrightarrow> usedWithinCapacity b lim"
  by (auto simp: usedWithinCapacity_def capacityWithinLimit_def addHostCapacity_def nonnegCapacity_def)

lemma release_accounts:
  assumes "hosts_ok (s_hosts s)" and "accounts (s_hosts s) (\<lambda>k. addHostCapacity (B k) (on_host h r k))"
    and "\<And>k. nonnegCapacity (B k)" and "nonnegCapacity r"
  shows "hosts_ok (s_hosts (releaseHost h r s))" and "accounts (s_hosts (releaseHost h r s)) B"
    and "same_keys (s_hosts s) (s_hosts (releaseHost h r s))"
proof -
  have "hosts_ok (s_hosts (releaseHost h r s)) \<and> accounts (s_hosts (releaseHost h r s)) B \<and>
      same_keys (s_hosts s) (s_hosts (releaseHost h r s))"
  proof (cases "map_of (s_hosts s) h")
    case None
    then have "releaseHost h r s = s" by (simp add: releaseHost_def)
    moreover have "on_host h r k = zeroCapacity" if "map_of (s_hosts s) k \<noteq> None" for k
      using that None by (auto simp: on_host_def)
    then have "accounts (s_hosts s) (\<lambda>k. addHostCapacity (B k) (on_host h r k)) = accounts (s_hosts s) B"
      by (intro accounts_cong) simp
    ultimately show ?thesis using assms(1,2) by (simp add: same_keys_def)
  next
    case (Some host)
    then have ne: "h \<noteq> []" using assms(1) by (auto simp: hosts_ok_def)
    have used: "Host_Used host = addHostCapacity (B h) r" "usedWithinCapacity (addHostCapacity (B h) r) (Host_Capacity host)"
      using accountsD [OF assms(2) Some] by (simp_all add: on_host_def)
    have undo_eq: "subtractHostCapacity (Host_Used host) r = B h" unfolding used(1) by (rule cap.sub_add) (rule assms(3))
    have eq: "s_hosts (releaseHost h r s) = AList.update (Host_ID host) (host\<lparr>Host_Used := B h\<rparr>) (s_hosts s)"
      using Some ne undo_eq by (simp add: releaseHost_def Let_def)
    have "accounts (s_hosts (releaseHost h r s)) B"
      unfolding eq by (rule accounts_update [OF assms(2,1) Some])
        (use usedWithin_less [OF used(2) assms(4)] in \<open>simp_all add: on_host_def\<close>)
    with hosts_ok_update [OF assms(1) Some, of "host\<lparr>Host_Used := B h\<rparr>"] show ?thesis
      by (simp add: same_keys_def eq)
  qed
  then show "hosts_ok (s_hosts (releaseHost h r s))" "accounts (s_hosts (releaseHost h r s)) B"
    "same_keys (s_hosts s) (s_hosts (releaseHost h r s))" by blast+
qed

lemma rebook_accounts:
  assumes "rebookHost h r r' s = Inr s1" and "hosts_ok (s_hosts s)"
    and "accounts (s_hosts s) (\<lambda>k. addHostCapacity (B k) (on_host h r k))" and "\<And>k. nonnegCapacity (B k)"
  shows "hosts_ok (s_hosts s1)" and "accounts (s_hosts s1) (\<lambda>k. addHostCapacity (B k) (on_host h r' k))"
    and "same_keys (s_hosts s) (s_hosts s1)"
proof -
  have "hosts_ok (s_hosts s1) \<and> accounts (s_hosts s1) (\<lambda>k. addHostCapacity (B k) (on_host h r' k)) \<and>
      same_keys (s_hosts s) (s_hosts s1)"
  proof (cases "h = []")
    case True
    then have "s1 = s" using assms(1) by (simp add: rebookHost_def)
    moreover have "on_host h r k = on_host h r' k" if "map_of (s_hosts s) k \<noteq> None" for k
      using assms(2) that True by (auto simp: on_host_def hosts_ok_def)
    then have "accounts (s_hosts s) (\<lambda>k. addHostCapacity (B k) (on_host h r k)) =
        accounts (s_hosts s) (\<lambda>k. addHostCapacity (B k) (on_host h r' k))"
      by (intro accounts_cong) simp
    ultimately show ?thesis using assms(2,3) by (simp add: same_keys_def)
  next
    case False
    then obtain host where host: "map_of (s_hosts s) h = Some host"
        "usedWithinCapacity (addHostCapacity (subtractHostCapacity (Host_Used host) r) r') (Host_Capacity host)"
      and s1: "s1 = s\<lparr>s_hosts := AList.update (Host_ID host) (host\<lparr>Host_Used := addHostCapacity (subtractHostCapacity (Host_Used host) r) r'\<rparr>) (s_hosts s)\<rparr>"
      using assms(1) by (auto simp: rebookHost_def Let_def elim!: and_then_InrE)
    have used: "Host_Used host = addHostCapacity (B h) r" using accountsD(1) [OF assms(3) host(1)] by (simp add: on_host_def)
    have undo_eq: "subtractHostCapacity (Host_Used host) r = B h" unfolding used by (rule cap.sub_add) (rule assms(4))
    have eq: "s_hosts s1 = AList.update (Host_ID host) (host\<lparr>Host_Used := addHostCapacity (B h) r'\<rparr>) (s_hosts s)"
      unfolding s1 undo_eq by simp
    have "accounts (s_hosts s1) (\<lambda>k. addHostCapacity (B k) (on_host h r' k))"
      unfolding eq by (rule accounts_update [OF assms(3,2) host(1)])
        (use host(2) undo_eq in \<open>simp_all add: on_host_def\<close>)
    with hosts_ok_update [OF assms(2) host(1), of "host\<lparr>Host_Used := addHostCapacity (B h) r'\<rparr>"] show ?thesis
      by (simp add: same_keys_def eq)
  qed
  then show "hosts_ok (s_hosts s1)" "accounts (s_hosts s1) (\<lambda>k. addHostCapacity (B k) (on_host h r' k))"
    "same_keys (s_hosts s) (s_hosts s1)" by blast+
qed

lemma releaseReplicas_accounts:
  assumes "hosts_ok (s_hosts s)" and "accounts (s_hosts s) (\<lambda>k. addHostCapacity (B k) (replicaListOn k rs))"
    and "\<And>k. nonnegCapacity (B k)"
  shows "hosts_ok (s_hosts (releaseReplicas rs s)) \<and> accounts (s_hosts (releaseReplicas rs s)) B \<and>
    same_keys (s_hosts s) (s_hosts (releaseReplicas rs s))"
  using assms(1,2)
proof (induction rs arbitrary: s)
  case Nil
  then show ?case by (simp add: releaseReplicas_def same_keys_def)
next
  case (Cons r rs)
  let ?h = "Rep_HostID r" and ?r = "replicaReservationForTier (Rep_Tier r)"
  have acc: "accounts (s_hosts s) (\<lambda>k. addHostCapacity (addHostCapacity (B k) (replicaListOn k rs)) (on_host ?h ?r k))"
    using Cons.prems(2) by (simp add: cap_ac)
  note rel = release_accounts [OF Cons.prems(1) acc]
  have "hosts_ok (s_hosts (releaseHost ?h ?r s))" "accounts (s_hosts (releaseHost ?h ?r s)) (\<lambda>k. addHostCapacity (B k) (replicaListOn k rs))"
    "same_keys (s_hosts s) (s_hosts (releaseHost ?h ?r s))"
    by (rule rel; simp add: cap.proper_add assms(3))+
  with Cons.IH [OF this(1,2)] show ?case by (simp add: releaseReplicas_def same_keys_def)
qed

section \<open>Projects whose reservation does not depend on their services\<close>

definition sized :: "ProjectSpec \<Rightarrow> bool" where
  "sized spec \<longleftrightarrow> (Spec_ResourceTier spec = ResourceTierCustom \<longrightarrow> 0 < Spec_CPU spec \<and> 0 < Spec_RAMMB spec \<and> 0 < Spec_DiskGB spec)"

lemma sized_custom_reservation:
  assumes "Spec_ResourceTier spec = ResourceTierCustom" and "sized spec"
  shows "resourceReservationForSpec spec =
    \<lparr>CPU = Spec_CPU spec, RAMMB = Spec_RAMMB spec, DiskGB = Spec_DiskGB spec, Project = 1\<rparr>"
proof -
  have "CPU (resourceReservationForSpec spec) = Spec_CPU spec" "RAMMB (resourceReservationForSpec spec) = Spec_RAMMB spec"
    "DiskGB (resourceReservationForSpec spec) = Spec_DiskGB spec"
    using assms by (simp_all add: sized_def resourceReservationForSpec_def Let_def)
  with reservation_pos(4) [of spec] show ?thesis by (intro HostCapacity.equality) simp_all
qed

lemma sized_services:
  assumes "sized spec"
  shows "resourceReservationForSpec (spec\<lparr>Spec_Services := v\<rparr>) = resourceReservationForSpec spec"
proof (cases "Spec_ResourceTier spec = ResourceTierCustom")
  case True
  moreover have "sized (spec\<lparr>Spec_Services := v\<rparr>)" using assms by (simp add: sized_def)
  ultimately show ?thesis using assms by (simp add: sized_custom_reservation)
qed (simp add: resourceReservationForSpec_def Let_def)

lemma minimum_cong:
  assumes "Spec_Services spec' = Spec_Services spec" and "Spec_Profile spec' = Spec_Profile spec"
  shows "minimumReservationForSpec spec' = minimumReservationForSpec spec"
  unfolding minimumReservationForSpec_def assms by (rule refl)

lemma reservation_cong:
  assumes "Spec_Services spec' = Spec_Services spec" and "Spec_Profile spec' = Spec_Profile spec"
    and "Spec_ResourceTier spec' = Spec_ResourceTier spec" and "Spec_CPU spec' = Spec_CPU spec"
    and "Spec_RAMMB spec' = Spec_RAMMB spec" and "Spec_DiskGB spec' = Spec_DiskGB spec"
  shows "resourceReservationForSpec spec' = resourceReservationForSpec spec"
  unfolding resourceReservationForSpec_def recommendedReservationForSpec_def minimum_cong [OF assms(1,2)] assms(3-6)
  by (rule refl)

lemma reservation_host [simp]: "resourceReservationForSpec (spec\<lparr>Spec_HostID := h\<rparr>) = resourceReservationForSpec spec"
  by (rule reservation_cong) simp_all

lemma reservation_version [simp]: "resourceReservationForSpec (spec\<lparr>Spec_StackVersion := v\<rparr>) = resourceReservationForSpec spec"
  by (rule reservation_cong) simp_all

lemma tier_reservation:
  assumes "map_of resourceTierReservations tier \<noteq> None"
  shows "resourceReservationForSpec (spec\<lparr>Spec_ResourceTier := tier, Spec_CPU := 0, Spec_RAMMB := 0, Spec_DiskGB := 0\<rparr>) =
      resourceReservationForTier tier"
    and "sized (spec\<lparr>Spec_ResourceTier := tier, Spec_CPU := 0, Spec_RAMMB := 0, Spec_DiskGB := 0\<rparr>)"
proof -
  have "tier \<noteq> ResourceTierCustom" using assms by (auto simp: resourceTierReservations_def tier_defs)
  then show "resourceReservationForSpec (spec\<lparr>Spec_ResourceTier := tier, Spec_CPU := 0, Spec_RAMMB := 0, Spec_DiskGB := 0\<rparr>) =
      resourceReservationForTier tier"
    and "sized (spec\<lparr>Spec_ResourceTier := tier, Spec_CPU := 0, Spec_RAMMB := 0, Spec_DiskGB := 0\<rparr>)"
    by (simp_all add: resourceReservationForSpec_def sized_def)
qed

lemma toSpec_fields:
  "Spec_HostID (toSpec r) = Req_HostID r" "Spec_ResourceTier (toSpec r) = Req_ResourceTier r" "Spec_CPU (toSpec r) = Req_CPU r"
  "Spec_RAMMB (toSpec r) = Req_RAMMB r" "Spec_DiskGB (toSpec r) = Req_DiskGB r" "Spec_Ref (toSpec r) = Req_Ref r"
  "Spec_Domain (toSpec r) = TrimSuffix (ToLower (TrimSpace (Req_Domain r))) ''.''"
  by (simp_all add: toSpec_def Let_def)

text \<open>Creating a project fills in the recommended size.\<close>

lemma created_sized:
  assumes "validateCreateProject c (createProjectRequestWithDefaults d req) = Inr ()"
  shows "sized (toSpec (createProjectRequestWithDefaults d req))"
proof -
  define r where "r = createProjectRequestWithDefaults d req"
  have "is_ok (validateResourceSizing (Req_CPU r) (Req_RAMMB r) (Req_DiskGB r))"
    using assms unfolding r_def [symmetric] by (auto simp: validateCreateProject_def elim!: and_then_InrE)
  then have nonneg: "0 \<le> Req_CPU r" "0 \<le> Req_RAMMB r" "0 \<le> Req_DiskGB r"
    by (auto simp: validateResourceSizing_def split: if_splits)
  have "Req_ResourceTier r = ResourceTierCustom \<longrightarrow> Req_CPU r \<noteq> 0 \<and> Req_RAMMB r \<noteq> 0 \<and> Req_DiskGB r \<noteq> 0"
  proof -
    define r4 where "r4 = (let req = (if TrimSpace (Req_Domain req) = [] then req\<lparr>Req_Domain := Defaults_Domain d\<rparr> else req);
          req = (if TrimSpace (Req_StackVersion req) = [] then req\<lparr>Req_StackVersion := Defaults_StackVersion d\<rparr> else req);
          req = req\<lparr>Req_StackVersion := NormalizeStackReleaseVersion (Req_StackVersion req)\<rparr>;
          req = (if Req_Profile req = [] then req\<lparr>Req_Profile := Defaults_Profile d\<rparr> else req)
      in (if Req_ResourceTier req = [] then req\<lparr>Req_ResourceTier := ResourceTierCustom\<rparr> else req))"
    define rec where "rec = recommendedReservationForSpec (toSpec r4)"
    have pos: "CPU rec \<noteq> 0" "RAMMB rec \<noteq> 0" "DiskGB rec \<noteq> 0"
      using recommended_bounds [of "toSpec r4"] by (auto simp: rec_def sizing_consts)
    have "r = (if Req_ResourceTier r4 = ResourceTierCustom
         then let req = (if Req_CPU r4 = 0 then r4\<lparr>Req_CPU := CPU rec\<rparr> else r4);
                  req = (if Req_RAMMB req = 0 then req\<lparr>Req_RAMMB := RAMMB rec\<rparr> else req)
              in (if Req_DiskGB req = 0 then req\<lparr>Req_DiskGB := DiskGB rec\<rparr> else req)
         else r4)"
      unfolding r_def createProjectRequestWithDefaults_def Let_def r4_def rec_def by (rule refl)
    then show ?thesis using pos by (simp add: Let_def)
  qed
  with nonneg show ?thesis unfolding r_def [symmetric] by (auto simp: sized_def toSpec_fields)
qed

section \<open>The invariant\<close>

definition placed_ok :: "MemoryStore \<Rightarrow> bool" where
  "placed_ok s \<longleftrightarrow>
     (\<forall>ref p. map_of (s_projects s) ref = Some p \<longrightarrow> sized (Proj_Spec p) \<and> known_host (s_hosts s) (Spec_HostID (Proj_Spec p))) \<and>
     (\<forall>ref rs. map_of (s_replicas s) ref = Some rs \<longrightarrow> distinct (map Rep_ID rs) \<and> (\<forall>r \<in> set rs. known_host (s_hosts s) (Rep_HostID r)))"

definition capacity_inv :: "MemoryStore \<Rightarrow> bool" where
  "capacity_inv s \<longleftrightarrow> hosts_ok (s_hosts s) \<and> gomap_ok (s_projects s) \<and> gomap_ok (s_replicas s) \<and> placed_ok s \<and>
     accounts (s_hosts s) (booked s)"

lemma known_host_same: "same_keys hs hs' \<Longrightarrow> known_host hs' h = known_host hs h"
  by (auto simp: known_host_def same_keys_def)

lemma projectsOn_new: "map_of m ref = None \<Longrightarrow>
    projectsOn k (AList.update ref p m) =
      addHostCapacity (projectsOn k m) (on_host (Spec_HostID (Proj_Spec p)) (resourceReservationForSpec (Proj_Spec p)) k)"
  unfolding projectsOn_def by (rule cap.total_update_new)

lemma projectsOn_split: "gomap_ok m \<Longrightarrow> map_of m ref = Some p \<Longrightarrow>
    projectsOn k m = addHostCapacity (projectsOn k (AList.delete ref m))
      (on_host (Spec_HostID (Proj_Spec p)) (resourceReservationForSpec (Proj_Spec p)) k)"
  unfolding projectsOn_def by (rule cap.total_split)

lemma projectsOn_change: "gomap_ok m \<Longrightarrow> map_of m ref = Some p \<Longrightarrow>
    projectsOn k (AList.update ref p' m) = addHostCapacity (projectsOn k (AList.delete ref m))
      (on_host (Spec_HostID (Proj_Spec p')) (resourceReservationForSpec (Proj_Spec p')) k)"
  unfolding projectsOn_def by (rule cap.total_update_old)

lemma replicasOn_new: "map_of m ref = None \<Longrightarrow>
    replicasOn k (AList.update ref rs m) = addHostCapacity (replicasOn k m) (replicaListOn k rs)"
  unfolding replicasOn_def by (rule cap.total_update_new)

lemma replicasOn_split: "gomap_ok m \<Longrightarrow>
    replicasOn k m = addHostCapacity (replicasOn k (AList.delete ref m)) (replicaListOn k (get_or [] m ref))"
proof (cases "map_of m ref")
  case None
  then have "AList.delete ref m = m" by (simp add: AList.delete_notin_dom map_of_eq_None_iff)
  with None show ?thesis by (simp add: get_or_def)
next
  case (Some rs)
  assume "gomap_ok m"
  with Some show ?thesis unfolding replicasOn_def by (simp add: get_or_def cap.total_split)
qed

lemma replicasOn_change: "gomap_ok m \<Longrightarrow>
    replicasOn k (AList.update ref rs m) = addHostCapacity (replicasOn k (AList.delete ref m)) (replicaListOn k rs)"
proof -
  assume ok: "gomap_ok m"
  have "AList.delete ref (AList.update ref rs m) = AList.delete ref m"
    using ok by (induction m) (auto simp: gomap_ok_Cons)
  then show ?thesis using replicasOn_split [of "AList.update ref rs m" k ref] ok by simp
qed

lemma reachable_init: "capacity_inv (NewMemoryStore defaults)"
  by (simp add: capacity_inv_def NewMemoryStore_def hosts_ok_def placed_ok_def accounts_def)

text \<open>A replaced project with the same reservation, or with the exchanged one, keeps the invariant.\<close>

lemma replaces_capacity:
  assumes inv: "capacity_inv s" and rep: "replaces_project ref p p' s s'" and sz: "sized (Proj_Spec p')"
    and hosts: "hosts_ok (s_hosts s')" "same_keys (s_hosts s) (s_hosts s')"
      "accounts (s_hosts s') (\<lambda>k. addHostCapacity (addHostCapacity (projectsOn k (AList.delete ref (s_projects s))) (replicasOn k (s_replicas s)))
         (on_host (Spec_HostID (Proj_Spec p)) (resourceReservationForSpec (Proj_Spec p')) k))"
  shows "capacity_inv s'"
proof -
  have r: "map_of (s_projects s) ref = Some p" "s_projects s' = AList.update ref p' (s_projects s)" "s_replicas s' = s_replicas s"
    "Spec_HostID (Proj_Spec p') = Spec_HostID (Proj_Spec p)" using rep by (simp_all add: replaces_project_def)
  have ok: "gomap_ok (s_projects s)" using inv by (simp add: capacity_inv_def)
  have "booked s' = (\<lambda>k. addHostCapacity (addHostCapacity (projectsOn k (AList.delete ref (s_projects s))) (replicasOn k (s_replicas s)))
         (on_host (Spec_HostID (Proj_Spec p)) (resourceReservationForSpec (Proj_Spec p')) k))"
    by (rule ext) (simp add: booked_def r(2-4) projectsOn_change [OF ok r(1)] cap_ac)
  moreover have "placed_ok s'"
    using inv sz r by (auto simp: capacity_inv_def placed_ok_def known_host_same [OF hosts(2)])
  ultimately show ?thesis using inv hosts r(2,3) by (simp add: capacity_inv_def)
qed

lemma booked_split:
  assumes "capacity_inv s" and "map_of (s_projects s) ref = Some p"
  shows "booked s = (\<lambda>k. addHostCapacity (addHostCapacity (projectsOn k (AList.delete ref (s_projects s))) (replicasOn k (s_replicas s)))
         (on_host (Spec_HostID (Proj_Spec p)) (resourceReservationForSpec (Proj_Spec p)) k))"
  using assms by (intro ext) (simp add: booked_def capacity_inv_def projectsOn_split [of _ ref p] cap_ac)

lemma same_keys_refl [simp]: "same_keys m m"
  by (simp add: same_keys_def)

lemma replaces_same_reservation:
  assumes inv: "capacity_inv s" and rep: "replaces_project ref p p' s s'" and "s_hosts s' = s_hosts s"
    and "sized (Proj_Spec p')" and "resourceReservationForSpec (Proj_Spec p') = resourceReservationForSpec (Proj_Spec p)"
  shows "capacity_inv s'"
proof (rule replaces_capacity [OF inv rep assms(4)])
  have p: "map_of (s_projects s) ref = Some p" using rep by (simp add: replaces_project_def)
  show "hosts_ok (s_hosts s')" "same_keys (s_hosts s) (s_hosts s')"
    using inv assms(3) by (simp_all add: capacity_inv_def)
  show "accounts (s_hosts s') (\<lambda>k. addHostCapacity (addHostCapacity (projectsOn k (AList.delete ref (s_projects s))) (replicasOn k (s_replicas s)))
         (on_host (Spec_HostID (Proj_Spec p)) (resourceReservationForSpec (Proj_Spec p')) k))"
    using inv unfolding assms(3,5) booked_split [OF inv p, symmetric] by (simp add: capacity_inv_def)
qed

lemma replaces_rebooked:
  assumes inv: "capacity_inv s" and rep: "replaces_project ref p p' s s'" and "sized (Proj_Spec p')"
    and rb: "rebookHost (Spec_HostID (Proj_Spec p)) (resourceReservationForSpec (Proj_Spec p)) (resourceReservationForSpec (Proj_Spec p')) s = Inr s1"
    and "s_hosts s' = s_hosts s1"
  shows "capacity_inv s'"
proof (rule replaces_capacity [OF inv rep assms(3)])
  have p: "map_of (s_projects s) ref = Some p" using rep by (simp add: replaces_project_def)
  have "hosts_ok (s_hosts s)" and acc: "accounts (s_hosts s) (booked s)" using inv by (simp_all add: capacity_inv_def)
  note b = rebook_accounts [OF rb this(1) acc [unfolded booked_split [OF inv p]]]
  show "hosts_ok (s_hosts s')" "same_keys (s_hosts s) (s_hosts s')"
    "accounts (s_hosts s') (\<lambda>k. addHostCapacity (addHostCapacity (projectsOn k (AList.delete ref (s_projects s))) (replicasOn k (s_replicas s)))
         (on_host (Spec_HostID (Proj_Spec p)) (resourceReservationForSpec (Proj_Spec p')) k))"
    unfolding assms(5) by (rule b; simp add: cap.proper_add)+
qed

section \<open>Every step keeps the invariant\<close>

lemma capacity_invD:
  assumes "capacity_inv s"
  shows "hosts_ok (s_hosts s)" and "gomap_ok (s_projects s)" and "gomap_ok (s_replicas s)" and "placed_ok s"
    and "accounts (s_hosts s) (booked s)"
  using assms by (simp_all add: capacity_inv_def)

lemma new_project_capacity:
  assumes inv: "capacity_inv s" and "map_of (s_projects s) ref = None"
    and b: "bookHost (Spec_HostID (Proj_Spec p)) (resourceReservationForSpec (Proj_Spec p)) s = Inr s1"
    and s': "s_hosts s' = s_hosts s1" "s_projects s' = AList.update ref p (s_projects s)" "s_replicas s' = s_replicas s"
    and "sized (Proj_Spec p)"
  shows "capacity_inv s'"
proof -
  note i = capacity_invD [OF inv] and bk = book_accounts [OF b capacity_invD(1) [OF inv] capacity_invD(5) [OF inv]]
  have "booked s' = (\<lambda>k. addHostCapacity (booked s k) (on_host (Spec_HostID (Proj_Spec p)) (resourceReservationForSpec (Proj_Spec p)) k))"
    by (rule ext) (simp add: booked_def s' projectsOn_new [OF assms(2)] cap_ac)
  moreover have "placed_ok s'"
    using i(4) assms(7) bk(4) unfolding placed_ok_def s' by (auto simp: known_host_same [OF bk(3)])
  ultimately show ?thesis using i bk s' by (simp add: capacity_inv_def)
qed

lemma delete_project_capacity:
  assumes inv: "capacity_inv s" and del: "deleteProjectLocked ref s = Inr (s', u)"
  shows "capacity_inv s'"
proof -
  obtain p where p: "map_of (s_projects s) ref = Some p"
    and s': "s_hosts s' = s_hosts (releaseReplicas (get_or [] (s_replicas s) ref)
           (releaseHost (Spec_HostID (Proj_Spec p)) (resourceReservationForSpec (Proj_Spec p)) s
             \<lparr>s_projects := AList.delete ref (s_projects s), s_branches := AList.delete ref (s_branches s)\<rparr>))"
      "s_projects s' = AList.delete ref (s_projects s)" "s_replicas s' = AList.delete ref (s_replicas s)"
    using del by (rule deleteProjectLocked_eq)
  note i = capacity_invD [OF inv]
  define s1 where "s1 = releaseHost (Spec_HostID (Proj_Spec p)) (resourceReservationForSpec (Proj_Spec p)) s
             \<lparr>s_projects := AList.delete ref (s_projects s), s_branches := AList.delete ref (s_branches s)\<rparr>"
  define P where "P k = projectsOn k (AList.delete ref (s_projects s))" for k
  define R where "R k = replicasOn k (AList.delete ref (s_replicas s))" for k
  define L where "L k = replicaListOn k (get_or [] (s_replicas s) ref)" for k
  have all: "booked s = (\<lambda>k. addHostCapacity (addHostCapacity (addHostCapacity (P k) (R k)) (L k))
      (on_host (Spec_HostID (Proj_Spec p)) (resourceReservationForSpec (Proj_Spec p)) k))"
    by (rule ext) (simp add: booked_def P_def R_def L_def projectsOn_split [OF i(2) p] replicasOn_split [OF i(3), of _ ref] cap_ac)
  have h1: "s_hosts s1 = s_hosts (releaseHost (Spec_HostID (Proj_Spec p)) (resourceReservationForSpec (Proj_Spec p)) s)"
    by (simp add: s1_def)
  note rel = release_accounts [OF i(1) i(5) [unfolded all]]
  have r1: "hosts_ok (s_hosts s1)" "accounts (s_hosts s1) (\<lambda>k. addHostCapacity (addHostCapacity (P k) (R k)) (L k))"
    "same_keys (s_hosts s) (s_hosts s1)"
    unfolding h1 by (rule rel; simp add: P_def R_def L_def cap.proper_add)+
  have r2: "hosts_ok (s_hosts s')" "accounts (s_hosts s') (\<lambda>k. addHostCapacity (P k) (R k))" "same_keys (s_hosts s1) (s_hosts s')"
    using releaseReplicas_accounts [OF r1(1) r1(2) [unfolded L_def]] unfolding s'(1) s1_def [symmetric]
    by (simp_all add: P_def R_def cap.proper_add)
  have "booked s' = (\<lambda>k. addHostCapacity (P k) (R k))" by (rule ext) (simp add: booked_def s' P_def R_def)
  moreover have "same_keys (s_hosts s) (s_hosts s')" using r1(3) r2(3) by (simp add: same_keys_def)
  then have "placed_ok s'"
    using i(4) unfolding placed_ok_def s'(2,3) by (auto simp: known_host_same split: if_splits)
  ultimately show ?thesis using i r2 s' by (simp add: capacity_inv_def)
qed

lemma replicas_same_booking:
  assumes inv: "capacity_inv s" and "map_of (s_replicas s) ref = Some rs" and "map rep_booking rs' = map rep_booking rs"
    and s': "s_hosts s' = s_hosts s" "s_replicas s' = AList.update ref rs' (s_replicas s)"
    and pr: "s_projects s' = s_projects s \<or> (\<exists>p p'. map_of (s_projects s) ref = Some p \<and> Proj_Spec p' = Proj_Spec p \<and>
      s_projects s' = AList.update ref p' (s_projects s))"
  shows "capacity_inv s'"
proof -
  note i = capacity_invD [OF inv]
  have projects: "projectsOn k (s_projects s') = projectsOn k (s_projects s)" for k
    using pr i(2) by (auto simp: projectsOn_change projectsOn_split)
  have get: "get_or [] (s_replicas s) ref = rs" using assms(2) by (simp add: get_or_def)
  have "replicasOn k (s_replicas s') = replicasOn k (s_replicas s)" for k
    unfolding s' replicasOn_change [OF i(3)] replicasOn_split [OF i(3), of k ref] get
    using replicaListOn_booking [OF assms(3)] by simp
  with projects have b: "booked s' = booked s" by (intro ext) (simp add: booked_def)
  have ids: "map Rep_ID rs' = map Rep_ID rs" and hosts: "map Rep_HostID rs' = map Rep_HostID rs"
    using arg_cong [OF assms(3), of "map (\<lambda>(h, t, i). i)"] arg_cong [OF assms(3), of "map (\<lambda>(h, t, i). h)"]
    by (simp_all add: rep_booking_def comp_def)
  have "Rep_HostID ` set rs' = Rep_HostID ` set rs" using arg_cong [OF hosts, of set] by simp
  then have "known_host (s_hosts s) (Rep_HostID r)" if r: "r \<in> set rs'" for r
  proof -
    assume eq: "Rep_HostID ` set rs' = Rep_HostID ` set rs"
    from r have "Rep_HostID r \<in> Rep_HostID ` set rs'" by (rule imageI)
    then obtain q where "q \<in> set rs" "Rep_HostID q = Rep_HostID r" unfolding eq by auto
    with i(4) assms(2) show ?thesis unfolding placed_ok_def by metis
  qed
  with i(4) ids assms(2) pr have "placed_ok s'"
    unfolding placed_ok_def s' by (auto split: if_splits)
  with i b s' pr show ?thesis by (auto simp: capacity_inv_def)
qed

lemma placed_get:
  assumes "placed_ok s"
  shows "distinct (map Rep_ID (get_or [] (s_replicas s) ref))"
    and "\<forall>q \<in> set (get_or [] (s_replicas s) ref). known_host (s_hosts s) (Rep_HostID q)"
  using assms unfolding placed_ok_def by (cases "map_of (s_replicas s) ref"; simp add: get_or_def)+

lemma create_replica_capacity:
  assumes inv: "capacity_inv s" and cr: "CreateProjectReplica c ref input s = Inr (s', r)"
    and fresh: "ctx_newID c \<notin> Rep_ID ` set (get_or [] (s_replicas s) (norm_key ref))"
  shows "capacity_inv s'"
proof -
  obtain s1 where b: "bookHost (Rep_HostID r) (replicaReservationForTier (Rep_Tier r)) s = Inr s1"
    and s': "s_hosts s' = s_hosts s1" "s_projects s' = s_projects s"
      "s_replicas s' = AList.update (norm_key ref) (get_or [] (s_replicas s) (norm_key ref) @ [r]) (s_replicas s)"
    and i: "Rep_ID r = ctx_newID c"
    using cr by (rule CreateProjectReplica_eq)
  note iv = capacity_invD [OF inv] and bk = book_accounts [OF b capacity_invD(1) [OF inv] capacity_invD(5) [OF inv]]
  have "booked s' = (\<lambda>k. addHostCapacity (booked s k) (on_host (Rep_HostID r) (replicaReservationForTier (Rep_Tier r)) k))"
    by (rule ext) (simp add: booked_def s' replicasOn_change [OF iv(3)] replicasOn_split [OF iv(3), of _ "norm_key ref"]
        replicaListOn_append cap_ac)
  moreover have old: "distinct (map Rep_ID (get_or [] (s_replicas s) (norm_key ref)))"
    "\<forall>q \<in> set (get_or [] (s_replicas s) (norm_key ref)). known_host (s_hosts s) (Rep_HostID q)"
    by (rule placed_get [OF iv(4)])+
  then have "placed_ok s'"
    using iv(4) bk(4) fresh i unfolding placed_ok_def s' by (auto simp: known_host_same [OF bk(3)] split: if_splits)
  ultimately show ?thesis using iv bk s' by (simp add: capacity_inv_def)
qed

lemma delete_replica_capacity:
  assumes inv: "capacity_inv s" and del: "DeleteProjectReplica ref i s = Inr (s', u)"
  shows "capacity_inv s'"
proof -
  let ?rs = "get_or [] (s_replicas s) (norm_key ref)"
  obtain kept r where rm: "removeReplica (TrimSpace i) ?rs = Inr (kept, Some r)"
    and s': "s_hosts s' = s_hosts (releaseHost (Rep_HostID r) (replicaReservationForTier (Rep_Tier r)) s)"
      "s_projects s' = s_projects s"
      "s_replicas s' = (if kept = [] then AList.delete (norm_key ref) (s_replicas s)
        else AList.update (norm_key ref) kept (s_replicas s))"
    using del by (rule DeleteProjectReplica_eq)
  note iv = capacity_invD [OF inv]
  have dist: "distinct (map Rep_ID ?rs)" by (rule placed_get [OF iv(4)])
  obtain xs ys where xy: "?rs = xs @ r # ys" "kept = xs @ ys" using removeReplica_eq [OF rm dist] by blast
  define B where "B k = addHostCapacity (projectsOn k (s_projects s))
      (addHostCapacity (replicasOn k (AList.delete (norm_key ref) (s_replicas s))) (replicaListOn k kept))" for k
  have "booked s = (\<lambda>k. addHostCapacity (B k) (on_host (Rep_HostID r) (replicaReservationForTier (Rep_Tier r)) k))"
    by (rule ext) (simp add: booked_def B_def replicasOn_split [OF iv(3), of _ "norm_key ref"] xy replicaListOn_append cap_ac)
  note rel = release_accounts [OF iv(1) iv(5) [unfolded this]]
  have r: "hosts_ok (s_hosts s')" "accounts (s_hosts s') B" "same_keys (s_hosts s) (s_hosts s')"
    unfolding s'(1) by (rule rel; simp add: B_def cap.proper_add)+
  have "booked s' = B"
    by (rule ext) (simp add: booked_def B_def s' replicasOn_change [OF iv(3)])
  moreover have kept: "distinct (map Rep_ID kept)" using dist by (auto simp: xy)
  have "\<forall>q \<in> set ?rs. known_host (s_hosts s) (Rep_HostID q)"
    by (rule placed_get [OF iv(4)])
  then have "\<forall>q \<in> set kept. known_host (s_hosts s) (Rep_HostID q)" by (simp add: xy)
  with kept have "placed_ok s'"
    using iv(4) unfolding placed_ok_def s'(2,3) by (auto simp: known_host_same [OF r(3)] split: if_splits)
  ultimately show ?thesis using iv r s' by (simp add: capacity_inv_def)
qed

text \<open>A fresh host carries nothing; a host without used capacity carries nothing either.\<close>

lemma placed_elsewhere:
  assumes "\<And>ref p. map_of (s_projects s) ref = Some p \<Longrightarrow> Spec_HostID (Proj_Spec p) \<noteq> k"
    and "\<And>ref rs r. map_of (s_replicas s) ref = Some rs \<Longrightarrow> r \<in> set rs \<Longrightarrow> Rep_HostID r \<noteq> k"
    and "gomap_ok (s_projects s)" and "gomap_ok (s_replicas s)"
  shows "booked s k = zeroCapacity"
proof -
  have list: "replicaListOn k rs = zeroCapacity" if "\<forall>r \<in> set rs. Rep_HostID r \<noteq> k" for rs
    using that by (induction rs) (simp_all add: on_host_def)
  have zero: "cap.total f m = zeroCapacity" if "\<forall>(ref, v) \<in> set m. f ref v = zeroCapacity" for f and m :: "('a, 'b) gomap"
    using that by (induction m) (auto simp: cap.total_simps)
  have "projectsOn k (s_projects s) = zeroCapacity" unfolding projectsOn_def
    by (rule cap.total_cong [of _ _ "\<lambda>_ _. zeroCapacity", THEN trans])
      (use assms(1) map_of_is_SomeI [OF assms(3) [unfolded gomap_ok_def]] in \<open>auto simp: on_host_def intro!: zero\<close>)
  moreover have "replicasOn k (s_replicas s) = zeroCapacity" unfolding replicasOn_def
    by (rule cap.total_cong [of _ _ "\<lambda>_ _. zeroCapacity", THEN trans])
      (use assms(2) [OF map_of_is_SomeI [OF assms(4) [unfolded gomap_ok_def]]] in \<open>auto intro!: list zero\<close>)
  ultimately show ?thesis by (simp add: booked_def)
qed

lemma create_host_capacity:
  assumes inv: "capacity_inv s" and cr: "CreateHost c req s = Inr (s', h)"
    and fresh: "ctx_newID c \<noteq> []" "map_of (s_hosts s) (ctx_newID c) = None"
  shows "capacity_inv s'"
proof -
  note i = capacity_invD [OF inv]
  have h: "Host_ID h = ctx_newID c" "Host_Used h = zeroCapacity"
    and s': "s' = s\<lparr>s_hosts := AList.update (ctx_newID c) h (s_hosts s)\<rparr>"
    and lim: "nonnegCapacity (Host_Capacity h)"
    using cr by (auto simp: CreateHost_def Let_def nonnegCapacity_def elim!: and_then_InrE)
  have known: "known_host (s_hosts s) x \<Longrightarrow> x \<noteq> ctx_newID c" for x
    using fresh by (auto simp: known_host_def)
  have "booked s (ctx_newID c) = zeroCapacity"
    by (rule placed_elsewhere) (use i known in \<open>auto simp: placed_ok_def\<close>)
  moreover have "usedWithinCapacity zeroCapacity (Host_Capacity h)"
    using lim by (auto simp: usedWithinCapacity_def capacityWithinLimit_def zeroCapacity_def nonnegCapacity_def)
  moreover have "booked s' = booked s" by (rule ext) (simp add: booked_def s')
  ultimately have "accounts (s_hosts s') (booked s')"
    using i(5) h by (auto simp: accounts_def s')
  moreover have "placed_ok s'" using i(4) unfolding placed_ok_def s' by (auto simp: known_host_def)
  moreover have "hosts_ok (s_hosts s')" using i(1) fresh(1) h by (auto simp: hosts_ok_def s')
  ultimately show ?thesis using i s' by (simp add: capacity_inv_def)
qed

lemma booked_project:
  assumes "capacity_inv s" and "map_of (s_projects s) ref = Some p" and "Spec_HostID (Proj_Spec p) = k"
  shows "1 \<le> Project (booked s k)"
proof -
  have "nonnegCapacity (addHostCapacity (projectsOn k (AList.delete ref (s_projects s))) (replicasOn k (s_replicas s)))"
    by (simp add: cap.proper_add)
  with reservation_pos(4) [of "Proj_Spec p"] show ?thesis
    by (simp add: booked_split [OF assms(1,2)] on_host_def assms(3) nonnegCapacity_def addHostCapacity_def)
qed

lemma booked_replica:
  assumes "capacity_inv s" and "map_of (s_replicas s) ref = Some rs" and "r \<in> set rs" and "Rep_HostID r = k"
  shows "1 \<le> CPU (booked s k)"
proof -
  from assms(3) obtain xs ys where rs: "rs = xs @ r # ys" by (meson split_list)
  define x where "x = addHostCapacity (replicaListOn k xs) (replicaListOn k ys)"
  have get: "get_or [] (s_replicas s) ref = rs" using assms(2) by (simp add: get_or_def)
  have "booked s k = addHostCapacity (replicaReservationForTier (Rep_Tier r))
      (addHostCapacity x (addHostCapacity (projectsOn k (s_projects s)) (replicasOn k (AList.delete ref (s_replicas s)))))"
    unfolding booked_def replicasOn_split [OF capacity_invD(3) [OF assms(1)], of k ref] get rs x_def
    by (simp add: replicaListOn_append on_host_def assms(4) cap_ac)
  moreover have "nonnegCapacity (addHostCapacity x (addHostCapacity (projectsOn k (s_projects s)) (replicasOn k (AList.delete ref (s_replicas s)))))"
    by (simp add: x_def cap.proper_add)
  ultimately show ?thesis using resourceTierReservation_pos [of "Rep_Tier r"]
    by (simp add: nonnegCapacity_def addHostCapacity_def replicaReservationForTier_def)
qed

lemma delete_host_unused:
  assumes inv: "capacity_inv s" and del: "DeleteHost k s = Inr (s', u)"
  shows "\<forall>ref p. map_of (s_projects s) ref = Some p \<longrightarrow> Spec_HostID (Proj_Spec p) \<noteq> k"
    and "\<forall>ref rs r. map_of (s_replicas s) ref = Some rs \<longrightarrow> r \<in> set rs \<longrightarrow> Rep_HostID r \<noteq> k"
    and "s' = s\<lparr>s_hosts := AList.delete k (s_hosts s)\<rparr>"
proof -
  obtain h where h: "map_of (s_hosts s) k = Some h" "\<not> CPU (Host_Used h) > 0" "\<not> Project (Host_Used h) > 0"
    and s': "s' = s\<lparr>s_hosts := AList.delete k (s_hosts s)\<rparr>"
    using del by (auto simp: DeleteHost_def elim!: and_then_InrE)
  have used: "Host_Used h = booked s k" using accountsD(1) [OF capacity_invD(5) [OF inv] h(1)] .
  show "\<forall>ref p. map_of (s_projects s) ref = Some p \<longrightarrow> Spec_HostID (Proj_Spec p) \<noteq> k"
    using booked_project [OF inv] h(3) unfolding used by fastforce
  show "\<forall>ref rs r. map_of (s_replicas s) ref = Some rs \<longrightarrow> r \<in> set rs \<longrightarrow> Rep_HostID r \<noteq> k"
    using booked_replica [OF inv] h(2) unfolding used by fastforce
  show "s' = s\<lparr>s_hosts := AList.delete k (s_hosts s)\<rparr>" by (rule s')
qed

lemma delete_host_capacity:
  assumes inv: "capacity_inv s" and del: "DeleteHost k s = Inr (s', u)"
  shows "capacity_inv s'"
proof -
  note i = capacity_invD [OF inv] and d = delete_host_unused [OF inv del]
  have "booked s' = booked s" by (rule ext) (simp add: booked_def d(3))
  moreover have "placed_ok s'"
    using i(4) d(1,2) unfolding placed_ok_def d(3) by (auto simp: known_host_def)
  ultimately show ?thesis using i d(3)
    by (auto simp: capacity_inv_def hosts_ok_def accounts_def)
qed

lemma capacity_frame:
  assumes "capacity_inv s" and "s_hosts s' = s_hosts s" and "s_projects s' = s_projects s" and "s_replicas s' = s_replicas s"
  shows "capacity_inv s'"
  using assms by (simp add: capacity_inv_def placed_ok_def booked_def [abs_def])

lemma create_project_capacity:
  assumes inv: "capacity_inv s" and cr: "CreateProject c defaults request s = Inr (s', p)"
  shows "capacity_inv s'"
proof -
  obtain req hostID s1 where req: "req = createProjectRequestWithDefaults defaults request"
    and v: "validateCreateProject c req = Inr ()" and new: "map_of (s_projects s) (Req_Ref req) = None"
    and b: "bookHost hostID (resourceReservationForSpec (toSpec req)) s = Inr s1"
    and p: "p = newProject c (ctx_newID c) ''project accepted for provisioning'' req ((toSpec req)\<lparr>Spec_HostID := hostID\<rparr>)"
    and s': "s_hosts s' = s_hosts s1" "s_projects s' = AList.update (Req_Ref req) p (s_projects s)" "s_replicas s' = s_replicas s"
    using cr by (rule CreateProject_eq)
  have spec: "Proj_Spec p = (toSpec req)\<lparr>Spec_HostID := hostID\<rparr>" by (simp add: p newProject_def)
  show ?thesis
    by (rule new_project_capacity [OF inv new, of p s1])
      (use b s' created_sized [OF v [unfolded req]] in \<open>simp_all add: spec req [symmetric] sized_def\<close>)
qed

lemma create_branch_capacity:
  assumes inv: "capacity_inv s" and cr: "CreateProjectBranch c sourceRef input s = Inr (s', b, p)"
  shows "capacity_inv s'"
proof -
  obtain source name s1 where src: "map_of (s_projects s) (norm_key sourceRef) = Some source"
    and new: "map_of (s_projects s) (norm_key (BranchIn_Ref input)) = None"
    and b: "bookHost (Spec_HostID (Proj_Spec source))
      (resourceReservationForSpec (toSpec (branchRequest source (norm_key (BranchIn_Ref input)) name))) s = Inr s1"
    and p: "p = newProject c (ctx_newID c) ''branch accepted for provisioning''
      (branchRequest source (norm_key (BranchIn_Ref input)) name) (toSpec (branchRequest source (norm_key (BranchIn_Ref input)) name))"
    and s': "s_hosts s' = s_hosts s1" "s_projects s' = AList.update (norm_key (BranchIn_Ref input)) p (s_projects s)"
      "s_replicas s' = s_replicas s"
    using cr by (rule CreateProjectBranch_eq)
  have spec: "Proj_Spec p = toSpec (branchRequest source (norm_key (BranchIn_Ref input)) name)" by (simp add: p newProject_def)
  have "sized (Proj_Spec source)" using capacity_invD(4) [OF inv] src by (simp add: placed_ok_def)
  then have "sized (Proj_Spec p)" by (simp add: spec sized_def toSpec_fields branchRequest_def Let_def)
  moreover have "Spec_HostID (Proj_Spec p) = Spec_HostID (Proj_Spec source)"
    by (simp add: spec toSpec_fields branchRequest_def Let_def)
  ultimately show ?thesis using new_project_capacity [OF inv new _ s'] b spec by simp
qed

lemma project_update_capacity:
  assumes inv: "capacity_inv s"
  shows "UpdateProjectStatus c ref status message s = Inr (s', r) \<Longrightarrow> capacity_inv s'"
    and "UpdateProjectStackVersion c ref version s = Inr (s', r) \<Longrightarrow> capacity_inv s'"
    and "UpdateProjectServices c ref services s = Inr (s', r) \<Longrightarrow> capacity_inv s'"
    and "UpdateProjectResourceTier c ref tier s = Inr (s', r) \<Longrightarrow> capacity_inv s'"
    and "UpdateProjectResources c ref sizing s = Inr (s', r) \<Longrightarrow> capacity_inv s'"
proof -
  have szd: "sized (Proj_Spec p)" if "replaces_project ref p q s s'" for p q
    using that capacity_invD(4) [OF inv] unfolding replaces_project_def placed_ok_def by blast
  have keep: "sized spec \<Longrightarrow> sized (spec\<lparr>Spec_StackVersion := v\<rparr>)" "sized spec \<Longrightarrow> sized (spec\<lparr>Spec_Services := w\<rparr>)" for spec v w
    by (simp_all add: sized_def)
  show "capacity_inv s'" if up: "UpdateProjectStatus c ref status message s = Inr (s', r)"
  proof -
    obtain p where p: "replaces_project ref p r s s'" "Proj_Spec r = Proj_Spec p" "s_hosts s' = s_hosts s"
      using UpdateProjectStatus_eq [OF up] by blast
    show ?thesis by (rule replaces_same_reservation [OF inv p(1,3)]) (simp_all add: p(2) szd [OF p(1)])
  qed
  show "capacity_inv s'" if up: "UpdateProjectStackVersion c ref version s = Inr (s', r)"
  proof -
    obtain p v where p: "replaces_project ref p r s s'" "Proj_Spec r = (Proj_Spec p)\<lparr>Spec_StackVersion := v\<rparr>" "s_hosts s' = s_hosts s"
      using UpdateProjectStackVersion_eq [OF up] by blast
    show ?thesis by (rule replaces_same_reservation [OF inv p(1,3)]) (simp_all add: p(2) keep(1) [OF szd [OF p(1)]])
  qed
  show "capacity_inv s'" if up: "UpdateProjectServices c ref services s = Inr (s', r)"
  proof -
    obtain p v where p: "replaces_project ref p r s s'" "Proj_Spec r = (Proj_Spec p)\<lparr>Spec_Services := v\<rparr>" "s_hosts s' = s_hosts s"
      using UpdateProjectServices_eq [OF up] by blast
    show ?thesis by (rule replaces_same_reservation [OF inv p(1,3)])
        (simp_all add: p(2) keep(2) [OF szd [OF p(1)]] sized_services [OF szd [OF p(1)]])
  qed
  show "capacity_inv s'" if up: "UpdateProjectResourceTier c ref tier s = Inr (s', r)"
  proof -
    obtain p p' s1 where p: "replaces_project ref p p' s s'" "map_of resourceTierReservations tier \<noteq> None"
      "Proj_Spec p' = (Proj_Spec p)\<lparr>Spec_ResourceTier := tier, Spec_CPU := 0, Spec_RAMMB := 0, Spec_DiskGB := 0\<rparr>"
      "rebookHost (Spec_HostID (Proj_Spec p)) (resourceReservationForSpec (Proj_Spec p)) (resourceReservationForTier tier) s = Inr s1"
      "s_hosts s' = s_hosts s1"
      using UpdateProjectResourceTier_eq [OF up] by blast
    note t = tier_reservation [OF p(2), of "Proj_Spec p", folded p(3)]
    show ?thesis by (rule replaces_rebooked [OF inv p(1) t(2) _ p(5)]) (simp add: t(1) p(4))
  qed
  show "capacity_inv s'" if up: "UpdateProjectResources c ref sizing s = Inr (s', r)"
  proof -
    obtain p p' s1 where p: "replaces_project ref p p' s s'" "1 \<le> Res_CPU sizing" "minProjectRAMMB \<le> Res_RAMMB sizing" "1 \<le> Res_DiskGB sizing"
      "Proj_Spec p' = (Proj_Spec p)\<lparr>Spec_ResourceTier := ResourceTierCustom, Spec_CPU := Res_CPU sizing,
         Spec_RAMMB := Res_RAMMB sizing, Spec_DiskGB := Res_DiskGB sizing, Spec_EnforceLimits := Res_EnforceLimits sizing\<rparr>"
      "rebookHost (Spec_HostID (Proj_Spec p)) (resourceReservationForSpec (Proj_Spec p)) (resourceReservationForSpec (Proj_Spec p')) s = Inr s1"
      "s_hosts s' = s_hosts s1"
      using UpdateProjectResources_eq [OF up] by blast
    have "sized (Proj_Spec p')" using p(2-4) unfolding sized_def p(5) by (simp add: sizing_consts)
    then show ?thesis by (rule replaces_rebooked [OF inv p(1) _ p(6,7)])
  qed
qed

lemma replica_update_capacity:
  assumes inv: "capacity_inv s"
  shows "UpdateProjectReplicaStatus c ref i status message s = Inr (s', r) \<Longrightarrow> capacity_inv s'"
    and "PromoteProjectReplica c ref i reason s = Inr (s', r) \<or> FailoverProjectReplica c ref reason s = Inr (s', r) \<Longrightarrow> capacity_inv s'"
proof -
  show "capacity_inv s'" if up: "UpdateProjectReplicaStatus c ref i status message s = Inr (s', r)"
  proof -
    obtain rs rs' where "map_of (s_replicas s) (norm_key ref) = Some rs"
      "s' = s\<lparr>s_replicas := AList.update (norm_key ref) rs' (s_replicas s)\<rparr>" "map rep_booking rs' = map rep_booking rs"
      using up by (rule UpdateProjectReplicaStatus_eq)
    then show ?thesis by (intro replicas_same_booking [OF inv, of "norm_key ref" rs rs']) simp_all
  qed
  show "capacity_inv s'" if up: "PromoteProjectReplica c ref i reason s = Inr (s', r) \<or> FailoverProjectReplica c ref reason s = Inr (s', r)"
  proof -
    obtain rs rs' p p' where "map_of (s_replicas s) (norm_key ref) = Some rs" "map_of (s_projects s) (norm_key ref) = Some p"
      "map rep_booking rs' = map rep_booking rs" "Proj_Spec p' = Proj_Spec p"
      "s' = s\<lparr>s_projects := AList.update (norm_key ref) p' (s_projects s), s_replicas := AList.update (norm_key ref) rs' (s_replicas s)\<rparr>"
      using up by (rule promotion_eq)
    then show ?thesis by (intro replicas_same_booking [OF inv, of "norm_key ref" rs rs']) auto
  qed
qed

lemma step_capacity:
  assumes "store_step s s'" and "capacity_inv s"
  shows "capacity_inv s'"
  using assms(1)
proof cases
  case Step_DeleteProject
  then show ?thesis using delete_project_capacity [OF assms(2)] unfolding DeleteProject_def by blast
next
  case Step_DeleteBranch
  then show ?thesis using delete_project_capacity [OF assms(2)] DeleteProjectBranch_deletes by blast
next
  case Step_CreateBranch
  then show ?thesis using create_branch_capacity [OF assms(2)] by (metis surj_pair)
next
  case Step_UpsertRoutes
  from route_ops_frame(1) [OF this(1)] show ?thesis using capacity_frame [OF assms(2)] by (simp add: only_domains_def)
next
  case Step_DeleteRoutes
  from route_ops_frame(2) [OF this(1)] show ?thesis using capacity_frame [OF assms(2)] by (simp add: only_domains_def)
next
  case Step_AddDomain
  from domain_ops_frame(1) [OF this(1)] show ?thesis using capacity_frame [OF assms(2)] by (simp add: only_domains_def)
next
  case Step_CertStatus
  from domain_ops_frame(2) [OF this(1)] show ?thesis using capacity_frame [OF assms(2)] by (simp add: only_domains_def)
next
  case Step_Certificate
  from domain_ops_frame(3) [OF this(1)] show ?thesis using capacity_frame [OF assms(2)] by (simp add: only_domains_def)
next
  case Step_DeleteDomain
  from domain_ops_frame(4) [OF this(1)] show ?thesis using capacity_frame [OF assms(2)] by (simp add: only_domains_def)
next
  case Step_Other
  then show ?thesis using capacity_frame [OF assms(2)] by blast
qed (erule create_host_capacity [OF assms(2)] delete_host_capacity [OF assms(2)] create_project_capacity [OF assms(2)]
    project_update_capacity [OF assms(2)] create_replica_capacity [OF assms(2)] delete_replica_capacity [OF assms(2)]
    replica_update_capacity(1) [OF assms(2)]; assumption | rule replica_update_capacity(2) [OF assms(2)]; blast)+

lemma reachable_capacity: "reachable s \<Longrightarrow> capacity_inv s"
  by (induction rule: reachable.induct) (rule reachable_init, rule step_capacity)

section \<open>Properties\<close>

text \<open>A reachable store with one host that carries one project.\<close>

definition demo_org :: Org where
  "demo_org = \<lparr>Org_ID = ''o1'', Org_Name = ''Org'', Org_FeatureFlagOverrides = [], Org_FeatureFlags = [], Org_CreatedAt = 1\<rparr>"

definition demo_start :: MemoryStore where
  "demo_start = (NewMemoryStore demo_defaults)\<lparr>s_orgs := [(''o1'', demo_org)]\<rparr>"

definition demo_host_request :: CreateHostRequest where
  "demo_host_request = \<lparr>HostReq_Name = ''node'', HostReq_Address = ''10.0.0.1'',
     HostReq_Capacity = \<lparr>CPU = 32, RAMMB = 65536, DiskGB = 1000, Project = 10\<rparr>\<rparr>"

definition demo_request :: CreateProjectRequest where
  "demo_request = \<lparr>Req_OrgID = ''o1'', Req_Ref = ''acme'', Req_Name = ''Acme'', Req_HostID = [], Req_Domain = [],
     Req_StackVersion = [], Req_Profile = [], Req_ResourceTier = [], Req_CPU = 0, Req_RAMMB = 0, Req_DiskGB = 0,
     Req_EnforceLimits = True, Req_Services = [], Req_Environment = []\<rparr>"

definition demo_hosted :: MemoryStore where
  "demo_hosted = (case and_then (CreateHost demo_ctx demo_host_request demo_start) (\<lambda>(s, _).
       CreateProject demo_ctx demo_defaults demo_request s) of Inl _ \<Rightarrow> demo_start | Inr (s, _) \<Rightarrow> s)"

lemma reachable_demo_start: "reachable demo_start"
  by (rule Reach_step [OF Reach_init [of demo_defaults] Step_Other]) (simp_all add: demo_start_def)

lemma reachable_demo: "reachable demo_hosted"
proof (cases "and_then (CreateHost demo_ctx demo_host_request demo_start) (\<lambda>(s, _).
       CreateProject demo_ctx demo_defaults demo_request s)")
  case (Inl e)
  then show ?thesis by (simp add: demo_hosted_def reachable_demo_start)
next
  case (Inr x)
  then obtain s1 h s2 p where c: "CreateHost demo_ctx demo_host_request demo_start = Inr (s1, h)"
    "CreateProject demo_ctx demo_defaults demo_request s1 = Inr (s2, p)" "x = (s2, p)"
    by (cases x) (auto elim!: and_then_InrE)
  have "reachable s1"
    by (rule Reach_step [OF reachable_demo_start Step_CreateHost [OF c(1)]]) (simp_all add: demo_ctx_def demo_start_def NewMemoryStore_def)
  then have "reachable s2"
    by (rule Reach_step [OF _ Step_CreateProject [OF c(2)]]) (simp add: plain_urls_def demo_ctx_def)
  with Inr c(3) show ?thesis by (simp add: demo_hosted_def)
qed

lemma demo_hosted_host: "map_option Host_Used (map_of (s_hosts demo_hosted) ''id1'') = Some (resourceReservationForSpec (toSpec
    (createProjectRequestWithDefaults demo_defaults demo_request)))"
  by code_simp

lemma demo_hosted_project: "map_option (\<lambda>p. Spec_HostID (Proj_Spec p)) (map_of (s_projects demo_hosted) ''acme'') = Some ''id1''"
  by code_simp

text \<open>C1. In every store that can be reached, the used capacity kept with a host is exactly the sum of what
  the projects and the replicas placed on it reserve, however they were created, resized, branched, promoted
  and deleted, and it is within the capacity of the host.\<close>

theorem host_accounts_exact:
  assumes "reachable s" and "map_of (s_hosts s) k = Some h"
  shows "Host_Used h = booked s k \<and> usedWithinCapacity (Host_Used h) (Host_Capacity h)"
  using accountsD [OF capacity_invD(5) [OF reachable_capacity [OF assms(1)]] assms(2)] by simp_all

theorem host_accounts_exact_witness:
  "\<exists>h. map_of (s_hosts demo_hosted) ''id1'' = Some h \<and> 1 \<le> Project (Host_Used h) \<and> Host_Used h = booked demo_hosted ''id1'' \<and>
     usedWithinCapacity (Host_Used h) (Host_Capacity h)"
proof -
  obtain h where h: "map_of (s_hosts demo_hosted) ''id1'' = Some h"
      "Host_Used h = resourceReservationForSpec (toSpec (createProjectRequestWithDefaults demo_defaults demo_request))"
    using demo_hosted_host by auto
  have "1 \<le> Project (Host_Used h)" by (simp add: h(2) reservation_pos)
  with host_accounts_exact [OF reachable_demo h(1)] h(1) show ?thesis by blast
qed

text \<open>Deleting a host succeeds only when nothing is placed on it: afterwards no project and no replica
  names it, so no reference dangles, in every store that can be reached.\<close>

theorem deleted_host_unreferenced:
  assumes "reachable s" and "DeleteHost k s = Inr (s', u)"
  shows "map_of (s_hosts s') k = None \<and>
    (\<forall>ref p. map_of (s_projects s') ref = Some p \<longrightarrow> Spec_HostID (Proj_Spec p) \<noteq> k) \<and>
    (\<forall>ref rs r. map_of (s_replicas s') ref = Some rs \<longrightarrow> r \<in> set rs \<longrightarrow> Rep_HostID r \<noteq> k)"
proof -
  note inv = reachable_capacity [OF assms(1)]
  show ?thesis using delete_host_unused [OF inv assms(2)] capacity_invD(1) [OF inv] by (simp add: hosts_ok_def)
qed

theorem deleted_host_unreferenced_witness:
  "\<exists>s1 h s2. CreateHost demo_ctx demo_host_request demo_start = Inr (s1, h) \<and> DeleteHost ''id1'' s1 = Inr (s2, ()) \<and>
     map_of (s_hosts s2) ''id1'' = None"
proof -
  have "case CreateHost demo_ctx demo_host_request demo_start of Inl _ \<Rightarrow> False | Inr (s1, h) \<Rightarrow> is_ok (DeleteHost ''id1'' s1)"
    by code_simp
  then obtain s1 h s2 u where c: "CreateHost demo_ctx demo_host_request demo_start = Inr (s1, h)" "DeleteHost ''id1'' s1 = Inr (s2, u)"
    by (auto simp: is_ok_iff split: sum.splits)
  have "reachable s1"
    by (rule Reach_step [OF reachable_demo_start Step_CreateHost [OF c(1)]]) (simp_all add: demo_ctx_def demo_start_def NewMemoryStore_def)
  from deleted_host_unreferenced [OF this c(2)] c show ?thesis by (cases u) auto
qed

end
