(* ===== verification/Host_Ownership.thy ===== *)
theory Host_Ownership
  imports Capacity
begin

text \<open>
  Who owns which host name. Every project generates host names from its reference and its domain, and
  carries custom domains. The invariant says that no host name is claimed twice, and that replicas and
  custom domains belong to projects that exist. It holds in every store that can be reached.
\<close>

section \<open>What the domain operations do to the custom domains\<close>

abbreviation domains_of :: "MemoryStore \<Rightarrow> string \<Rightarrow> ProjectDomain list" where
  "domains_of s ref \<equiv> get_or [] (s_domains s) ref"

lemma updateDomain_names:
  "updateDomain fqdn f ds = Some (ds', d) \<Longrightarrow> (\<And>x. Dom_FQDN (f x) = Dom_FQDN x) \<Longrightarrow> map Dom_FQDN ds' = map Dom_FQDN ds"
  by (induction fqdn f ds arbitrary: ds' d rule: updateDomain.induct) (auto split: if_splits option.splits)

lemma removeDomain_split: "removeDomain fqdn ds = Some ds' \<Longrightarrow> \<exists>xs d ys. ds = xs @ d # ys \<and> ds' = xs @ ys \<and> Dom_FQDN d = fqdn"
proof (induction fqdn ds arbitrary: ds' rule: removeDomain.induct)
  case (2 fqdn d ds)
  show ?case
  proof (cases "Dom_FQDN d = fqdn")
    case True
    with 2(2) show ?thesis by (intro exI [of _ "[]"]) simp
  next
    case False
    with 2(2) obtain ds1 where r: "removeDomain fqdn ds = Some ds1" "ds' = d # ds1" by (auto split: option.splits)
    from 2(1) [OF False r(1)] obtain xs x ys where "ds = xs @ x # ys" "ds1 = xs @ ys" "Dom_FQDN x = fqdn" by blast
    with r(2) show ?thesis by (intro exI [of _ "d # xs"]) simp
  qed
qed simp

lemma removeDomain_names:
  "removeDomain fqdn ds = Some ds' \<Longrightarrow> set (map Dom_FQDN ds') \<subseteq> set (map Dom_FQDN ds) \<and>
     (distinct (map Dom_FQDN ds) \<longrightarrow> distinct (map Dom_FQDN ds'))"
  by (drule removeDomain_split) auto

text \<open>A domain operation changes the domains of one existing project: it keeps the names, drops some, or
  adds one that was free.\<close>

definition domains_change :: "string \<Rightarrow> ProjectDomain list \<Rightarrow> MemoryStore \<Rightarrow> MemoryStore \<Rightarrow> bool" where
  "domains_change ref ds s s' \<longleftrightarrow> map_of (s_projects s) ref \<noteq> None \<and> s' = s\<lparr>s_domains := AList.update ref ds (s_domains s)\<rparr> \<and>
     ((set (map Dom_FQDN ds) \<subseteq> set (map Dom_FQDN (domains_of s ref)) \<and>
         (distinct (map Dom_FQDN (domains_of s ref)) \<longrightarrow> distinct (map Dom_FQDN ds))) \<or>
      (\<exists>c fqdn d. plain_urls c \<and> ds = domains_of s ref @ [d] \<and> Dom_FQDN d = fqdn \<and> (\<exists>input. normalizeDomain input = Inr fqdn) \<and>
         reservedCustomDomainHostLocked c s fqdn = [] \<and> domainConflicts ref fqdn (s_domains s) = Inr ()))"

lemma domains_changeI:
  "AddProjectDomain c ref fqdn s = Inr (s', r) \<Longrightarrow> plain_urls c \<Longrightarrow> \<exists>ds. domains_change ref ds s s'"
  "UpdateProjectDomainCertStatus c ref fqdn status s = Inr (s', r) \<Longrightarrow> \<exists>ds. domains_change ref ds s s'"
  "UpdateProjectDomainCertificate c ref fqdn metadata s = Inr (s', r) \<Longrightarrow> \<exists>ds. domains_change ref ds s s'"
  "DeleteProjectDomain ref fqdn s = Inr (s', u) \<Longrightarrow> \<exists>ds. domains_change ref ds s s'"
proof -
  have change: "\<exists>ds. domains_change ref ds s s'" if "changeDomain ref n f s = Inr (s', r)" "\<And>x. Dom_FQDN (f x) = Dom_FQDN x" for n f
  proof -
    from that(1) obtain ds d where "updateDomain n f (domains_of s ref) = Some (ds, d)" "map_of (s_projects s) ref \<noteq> None"
      "s' = s\<lparr>s_domains := AList.update ref ds (s_domains s)\<rparr>"
      unfolding changeDomain_def by (elim and_then_InrE) (auto split: option.splits)
    with updateDomain_names [OF this(1) that(2)] show ?thesis
      unfolding domains_change_def by (intro exI [of _ ds]) (metis order_refl set_map)
  qed
  show "\<exists>ds. domains_change ref ds s s'" if add: "AddProjectDomain c ref fqdn s = Inr (s', r)" and c: "plain_urls c"
  proof -
    from add obtain n where "normalizeDomain fqdn = Inr n" "map_of (s_projects s) ref \<noteq> None"
      "reservedCustomDomainHostLocked c s n = []" "domainConflicts ref n (s_domains s) = Inr ()" "Dom_FQDN r = n"
      "s' = s\<lparr>s_domains := AList.update ref (domains_of s ref @ [r]) (s_domains s)\<rparr>"
      unfolding AddProjectDomain_def Let_def by (elim and_then_InrE) auto
    with c show ?thesis unfolding domains_change_def by (intro exI [of _ "domains_of s ref @ [r]"]) blast
  qed
  show "UpdateProjectDomainCertStatus c ref fqdn status s = Inr (s', r) \<Longrightarrow> \<exists>ds. domains_change ref ds s s'"
    unfolding UpdateProjectDomainCertStatus_def Let_def by (elim and_then_InrE) (erule change; simp)
  show "UpdateProjectDomainCertificate c ref fqdn metadata s = Inr (s', r) \<Longrightarrow> \<exists>ds. domains_change ref ds s s'"
    unfolding UpdateProjectDomainCertificate_def Let_def by (elim and_then_InrE) (erule change; simp)
  show "\<exists>ds. domains_change ref ds s s'" if del: "DeleteProjectDomain ref fqdn s = Inr (s', u)"
  proof -
    from del obtain n ds where "removeDomain n (domains_of s ref) = Some ds" "map_of (s_projects s) ref \<noteq> None"
      "s' = s\<lparr>s_domains := AList.update ref ds (s_domains s)\<rparr>"
      unfolding DeleteProjectDomain_def by (elim and_then_InrE) (auto split: option.splits)
    with removeDomain_names [OF this(1)] show ?thesis unfolding domains_change_def by blast
  qed
qed

section \<open>Replicas and domains have a project\<close>

definition children_ok :: "MemoryStore \<Rightarrow> bool" where
  "children_ok s \<longleftrightarrow>
     (\<forall>ref. map_of (s_replicas s) ref \<noteq> None \<longrightarrow> map_of (s_projects s) ref \<noteq> None) \<and>
     (\<forall>ref. map_of (s_domains s) ref \<noteq> None \<longrightarrow> map_of (s_projects s) ref \<noteq> None)"

text \<open>A step seen from the sites: what it does to the projects, the replicas and the domains.\<close>

inductive site_change :: "MemoryStore \<Rightarrow> MemoryStore \<Rightarrow> bool" where
  Site_same: "same_sites s s' \<Longrightarrow> site_change s s'"
| Site_new: "map_of (s_projects s) ref = None \<Longrightarrow> s_projects s' = AList.update ref p (s_projects s) \<Longrightarrow>
     s_replicas s' = s_replicas s \<Longrightarrow> s_domains s' = s_domains s \<Longrightarrow> plain_urls c \<Longrightarrow>
     normalizeDomain domain = Inr d \<Longrightarrow> Spec_Domain (Proj_Spec p) = d \<Longrightarrow> Proj_Ref p = ref \<Longrightarrow> projectRefPattern ref \<Longrightarrow>
     validateGeneratedProjectFQDNs ref d = Inr () \<Longrightarrow>
     validateGeneratedProjectHostReservationsLocked c s ref domain = Inr () \<Longrightarrow> site_change s s'"
| Site_replace: "replaces_project ref p p' s s' \<Longrightarrow> site_change s s'"
| Site_delete: "s_projects s' = AList.delete ref (s_projects s) \<Longrightarrow> s_replicas s' = AList.delete ref (s_replicas s) \<Longrightarrow>
     s_domains s' = AList.delete ref (s_domains s) \<Longrightarrow> site_change s s'"
| Site_replicas: "s_projects s' = s_projects s \<or> (\<exists>p p'. map_of (s_projects s) ref = Some p \<and> Proj_Ref p' = Proj_Ref p \<and>
       Proj_Spec p' = Proj_Spec p \<and> Proj_OrgID p' = Proj_OrgID p \<and> s_projects s' = AList.update ref p' (s_projects s)) \<Longrightarrow>
     map_of (s_projects s) ref \<noteq> None \<or> map_of (s_replicas s) ref \<noteq> None \<Longrightarrow>
     s_replicas s' = AList.update ref rs (s_replicas s) \<or> s_replicas s' = AList.delete ref (s_replicas s) \<and> rs = [] \<Longrightarrow>
     length (filter is_primary rs) \<le> max 1 (length (filter is_primary (get_or [] (s_replicas s) ref))) \<Longrightarrow>
     s_domains s' = s_domains s \<Longrightarrow> site_change s s'"
| Site_domains: "domains_change ref ds s s' \<Longrightarrow> site_change s s'"

lemma normalizeDomain_TrimDots:
  assumes "normalizeDomain input = Inr d"
  shows "TrimDots (ToLower (TrimSpace input)) = d" and "TrimSuffix (ToLower (TrimSpace input)) ''.'' = d"
proof -
  define x where "x = ToLower (TrimSpace input)"
  have d: "d = TrimSuffix x ''.''" and v: "valid_domain d"
    using assms normalizeDomain_valid [OF assms] by (auto simp: normalizeDomain_def x_def Let_def split: if_splits)
  consider "x = d" | "x = d @ ''.''"
  proof (cases "HasSuffix x ''.''")
    case True
    then obtain r where "rev x = CHR ''.'' # r" by (auto simp: HasSuffix_def HasPrefix_iff)
    then have "x = rev r @ ''.''" by (metis rev.simps(2) rev_rev_ident)
    with True d that(2) show ?thesis by (simp add: TrimSuffix_def)
  qed (use d that(1) in \<open>simp add: TrimSuffix_def\<close>)
  then show "TrimDots (ToLower (TrimSpace input)) = d"
  proof cases
    case 1
    then show ?thesis using valid_domain_norm(3) [OF v] by (simp add: x_def)
  next
    case 2
    then have "TrimDots x = TrimDots d"
      using valid_domain_norm(3) [OF v] v
      by (cases d) (auto dest: domain_no_dot_start simp: TrimDots_def TrimFunc_def valid_domain_def)
    then show ?thesis using valid_domain_norm(3) [OF v] by (simp add: x_def)
  qed
  show "TrimSuffix (ToLower (TrimSpace input)) ''.'' = d" using d by (simp add: x_def)
qed

lemma validated_site:
  assumes "validateCreateProject c req = Inr ()"
  obtains d where "normalizeDomain (Req_Domain req) = Inr d" and "Spec_Domain (toSpec req) = d" and "projectRefPattern (Req_Ref req)"
    and "validateGeneratedProjectFQDNs (Req_Ref req) d = Inr ()"
proof -
  from assms obtain d where d: "normalizeDomain (Req_Domain req) = Inr d" "projectRefPattern (Req_Ref req)"
    "validateGeneratedProjectFQDNs (Req_Ref req) d = Inr ()"
    unfolding validateCreateProject_def by (elim and_then_InrE) auto
  have "Spec_Domain (toSpec req) = d" unfolding toSpec_fields by (rule normalizeDomain_TrimDots(2) [OF d(1)])
  with d that show ?thesis by blast
qed

lemma create_site:
  assumes "plain_urls c"
  shows "CreateProject c defaults request s = Inr (s', p) \<Longrightarrow> site_change s s'"
    and "CreateProjectBranch c sourceRef input s = Inr (s', b, p) \<Longrightarrow> site_change s s'"
proof -
  show "site_change s s'" if cr: "CreateProject c defaults request s = Inr (s', p)"
  proof -
    obtain req hostID where v: "validateCreateProject c req = Inr ()" "map_of (s_projects s) (Req_Ref req) = None"
        "validateGeneratedProjectHostReservationsLocked c s (Req_Ref req) (Req_Domain req) = Inr ()"
      and p: "p = newProject c (ctx_newID c) ''project accepted for provisioning'' req ((toSpec req)\<lparr>Spec_HostID := hostID\<rparr>)"
      and s': "s_projects s' = AList.update (Req_Ref req) p (s_projects s)" "s_replicas s' = s_replicas s" "s_domains s' = s_domains s"
      using cr by (rule CreateProject_eq)
    obtain d where d: "normalizeDomain (Req_Domain req) = Inr d" "Spec_Domain (toSpec req) = d" "projectRefPattern (Req_Ref req)"
      "validateGeneratedProjectFQDNs (Req_Ref req) d = Inr ()" using v(1) by (rule validated_site)
    show ?thesis
      by (rule Site_new [OF v(2) s' assms d(1) _ _ d(3,4) v(3)]) (simp_all add: p newProject_def d(2))
  qed
  show "site_change s s'" if cr: "CreateProjectBranch c sourceRef input s = Inr (s', b, p)"
  proof -
    let ?r = "norm_key (BranchIn_Ref input)"
    obtain source name where v: "map_of (s_projects s) ?r = None" "validateCreateProject c (branchRequest source ?r name) = Inr ()"
        "validateGeneratedProjectHostReservationsLocked c s ?r (Spec_Domain (Proj_Spec source)) = Inr ()"
      and p: "p = newProject c (ctx_newID c) ''branch accepted for provisioning'' (branchRequest source ?r name) (toSpec (branchRequest source ?r name))"
      and s': "s_projects s' = AList.update ?r p (s_projects s)" "s_replicas s' = s_replicas s" "s_domains s' = s_domains s"
      using cr by (rule CreateProjectBranch_eq)
    have req: "Req_Ref (branchRequest source ?r name) = ?r" "Req_Domain (branchRequest source ?r name) = Spec_Domain (Proj_Spec source)"
      by (simp_all add: branchRequest_def Let_def)
    obtain d where d: "normalizeDomain (Spec_Domain (Proj_Spec source)) = Inr d" "Spec_Domain (toSpec (branchRequest source ?r name)) = d"
      "projectRefPattern ?r" "validateGeneratedProjectFQDNs ?r d = Inr ()" using validated_site [OF v(2)] unfolding req by metis
    show ?thesis
      by (rule Site_new [OF v(1) s' assms d(1) _ _ d(3,4) v(3)]) (simp_all add: p newProject_def d(2) req)
  qed
qed

lemma project_update_site:
  "UpdateProjectStatus c ref status message s = Inr (s', r) \<Longrightarrow> site_change s s'"
  "UpdateProjectStackVersion c ref version s = Inr (s', r) \<Longrightarrow> site_change s s'"
  "UpdateProjectServices c ref services s = Inr (s', r) \<Longrightarrow> site_change s s'"
  "UpdateProjectResourceTier c ref tier s = Inr (s', r) \<Longrightarrow> site_change s s'"
  "UpdateProjectResources c ref sizing s = Inr (s', r) \<Longrightarrow> site_change s s'"
  using UpdateProjectStatus_eq UpdateProjectStackVersion_eq UpdateProjectServices_eq UpdateProjectResourceTier_eq
    UpdateProjectResources_eq Site_replace by meson+

lemma delete_site: "deleteProjectLocked ref s = Inr (s', u) \<Longrightarrow> site_change s s'"
  by (erule deleteProjectLocked_eq) (rule Site_delete)

lemma filter_length_remove: "length (filter P (xs @ ys)) \<le> length (filter P (xs @ r # ys))"
  by simp

lemma replica_site:
  assumes "capacity_inv s"
  shows "CreateProjectReplica c ref input s = Inr (s', r) \<Longrightarrow> site_change s s'"
    and "DeleteProjectReplica ref i s = Inr (s', u) \<Longrightarrow> site_change s s'"
    and "UpdateProjectReplicaStatus c ref i status message s = Inr (s', r) \<Longrightarrow> site_change s s'"
    and "PromoteProjectReplica c ref i reason s = Inr (s', r) \<or> FailoverProjectReplica c ref reason s = Inr (s', r) \<Longrightarrow> site_change s s'"
proof -
  let ?rs = "get_or [] (s_replicas s) (norm_key ref)"
  show "site_change s s'" if op: "CreateProjectReplica c ref input s = Inr (s', r)"
  proof -
    obtain project where "map_of (s_projects s) (norm_key ref) = Some project" "s_projects s' = s_projects s" "s_domains s' = s_domains s"
      "s_replicas s' = AList.update (norm_key ref) (?rs @ [r]) (s_replicas s)" "Rep_Role r = ''read''"
      using op by (rule CreateProjectReplica_eq)
    then show ?thesis by (intro Site_replicas [of s' s "norm_key ref" "?rs @ [r]"]) simp_all
  qed
  show "site_change s s'" if op: "DeleteProjectReplica ref i s = Inr (s', u)"
  proof -
    obtain kept r where rm: "removeReplica (TrimSpace i) ?rs = Inr (kept, Some r)" and s': "s_projects s' = s_projects s" "s_domains s' = s_domains s"
      "s_replicas s' = (if kept = [] then AList.delete (norm_key ref) (s_replicas s) else AList.update (norm_key ref) kept (s_replicas s))"
      "\<exists>p. map_of (s_projects s) (norm_key ref) = Some p"
      using op by (rule DeleteProjectReplica_eq)
    obtain xs ys where "?rs = xs @ r # ys" "kept = xs @ ys"
      using removeReplica_eq [OF rm placed_get(1) [OF capacity_invD(4) [OF assms]]] by blast
    then have "length (filter is_primary kept) \<le> length (filter is_primary ?rs)" by simp
    with s' show ?thesis by (intro Site_replicas [of s' s "norm_key ref" kept]) auto
  qed
  show "site_change s s'" if op: "UpdateProjectReplicaStatus c ref i status message s = Inr (s', r)"
  proof -
    obtain rs rs' where rs: "map_of (s_replicas s) (norm_key ref) = Some rs" and s': "s' = s\<lparr>s_replicas := AList.update (norm_key ref) rs' (s_replicas s)\<rparr>"
      and pr: "map is_primary rs' = map is_primary rs"
      using op by (rule UpdateProjectReplicaStatus_eq)
    have "length (filter is_primary rs') = length (filter is_primary rs)"
      using arg_cong [OF pr, of "\<lambda>bs. length (filter (\<lambda>b. b) bs)"] by (simp add: filter_map comp_def)
    with rs s' show ?thesis by (intro Site_replicas [of s' s "norm_key ref" rs']) (simp_all add: get_or_def)
  qed
  show "site_change s s'" if op: "PromoteProjectReplica c ref i reason s = Inr (s', r) \<or> FailoverProjectReplica c ref reason s = Inr (s', r)"
  proof -
    obtain rs rs' p p' where "map_of (s_replicas s) (norm_key ref) = Some rs" "map_of (s_projects s) (norm_key ref) = Some p"
      "filter is_primary rs' = [r]" "Proj_Spec p' = Proj_Spec p" "Proj_Ref p' = Proj_Ref p" "Proj_OrgID p' = Proj_OrgID p"
      "s' = s\<lparr>s_projects := AList.update (norm_key ref) p' (s_projects s), s_replicas := AList.update (norm_key ref) rs' (s_replicas s)\<rparr>"
      using op by (rule promotion_eq)
    then show ?thesis by (intro Site_replicas [of s' s "norm_key ref" rs']) auto
  qed
qed

lemma step_site:
  assumes "store_step s s'" and inv: "capacity_inv s"
  shows "site_change s s'"
  using assms(1)
proof cases
  case Step_CreateHost
  then show ?thesis by (intro Site_same) (auto simp: same_sites_def CreateHost_def Let_def elim!: and_then_InrE)
next
  case Step_DeleteHost
  then show ?thesis by (intro Site_same) (auto simp: same_sites_def DeleteHost_def elim!: and_then_InrE)
next
  case Step_CreateProject
  then show ?thesis using create_site(1) by blast
next
  case Step_CreateBranch
  then show ?thesis using create_site(2) by (metis surj_pair)
next
  case Step_DeleteProject
  then show ?thesis using delete_site unfolding DeleteProject_def by blast
next
  case Step_DeleteBranch
  then show ?thesis using delete_site DeleteProjectBranch_deletes by blast
next
  case Step_UpsertRoutes
  from route_ops_frame(1) [OF this(1)] show ?thesis by (intro Site_same) (simp add: only_domains_def same_sites_def)
next
  case Step_DeleteRoutes
  from route_ops_frame(2) [OF this(1)] show ?thesis by (intro Site_same) (simp add: only_domains_def same_sites_def)
next
  case (Step_AddDomain c ref fqdn r)
  from domains_changeI(1) [OF this] show ?thesis using Site_domains by blast
next
  case (Step_CertStatus c ref fqdn status r)
  from domains_changeI(2) [OF this(1)] show ?thesis using Site_domains by blast
next
  case (Step_Certificate c ref fqdn metadata r)
  from domains_changeI(3) [OF this(1)] show ?thesis using Site_domains by blast
next
  case (Step_DeleteDomain ref fqdn r)
  from domains_changeI(4) [OF this(1)] show ?thesis using Site_domains by blast
next
  case Step_Promote
  then show ?thesis using replica_site(4) [OF inv] by blast
next
  case Step_Failover
  then show ?thesis using replica_site(4) [OF inv] by blast
next
  case Step_Other
  then show ?thesis by (intro Site_same) (simp add: same_sites_def)
qed (erule project_update_site replica_site(1-3) [OF inv])+

section \<open>The invariant\<close>

definition claimed_hosts :: "MemoryStore \<Rightarrow> string \<Rightarrow> string list" where
  "claimed_hosts s ref =
     (case map_of (s_projects s) ref of None \<Rightarrow> [] | Some p \<Rightarrow> project_hosts (Proj_Ref p) (Spec_Domain (Proj_Spec p))) @
     map Dom_FQDN (domains_of s ref)"

definition site_inv :: "MemoryStore \<Rightarrow> bool" where
  "site_inv s \<longleftrightarrow> children_ok s \<and>
     (\<forall>ref p. map_of (s_projects s) ref = Some p \<longrightarrow> Proj_Ref p = ref \<and> good_site ref (Spec_Domain (Proj_Spec p))) \<and>
     (\<forall>ref. \<forall>d \<in> set (domains_of s ref). valid_domain (Dom_FQDN d)) \<and>
     (\<forall>ref. length (filter is_primary (get_or [] (s_replicas s) ref)) \<le> 1) \<and>
     (\<forall>ref. distinct (claimed_hosts s ref)) \<and>
     (\<forall>ref ref'. ref \<noteq> ref' \<longrightarrow> set (claimed_hosts s ref) \<inter> set (claimed_hosts s ref') = {})"

lemma site_invD:
  assumes "site_inv s"
  shows "children_ok s" and "map_of (s_projects s) ref = Some p \<Longrightarrow> Proj_Ref p = ref \<and> good_site ref (Spec_Domain (Proj_Spec p))"
    and "d \<in> set (domains_of s ref) \<Longrightarrow> valid_domain (Dom_FQDN d)"
    and "length (filter is_primary (get_or [] (s_replicas s) ref)) \<le> 1"
    and "distinct (claimed_hosts s ref)" and "ref \<noteq> ref' \<Longrightarrow> set (claimed_hosts s ref) \<inter> set (claimed_hosts s ref') = {}"
  using assms unfolding site_inv_def by blast+

lemma claims_valid:
  assumes "site_inv s" and "h \<in> set (claimed_hosts s ref)"
  shows "valid_domain h"
proof (cases "map_of (s_projects s) ref")
  case None
  then show ?thesis using assms site_invD(3) [OF assms(1)] by (auto simp: claimed_hosts_def)
next
  case (Some p)
  then show ?thesis using assms site_invD(2) [OF assms(1) Some] site_invD(3) [OF assms(1)] project_hosts_valid
    by (auto simp: claimed_hosts_def)
qed

text \<open>Every claimed host name is in the table of reserved names.\<close>

lemma claims_reserved:
  assumes inv: "site_inv s" and h: "h \<in> set (claimed_hosts s ref)"
  shows "\<exists>w. (h, w) \<in> set (reservations c s)"
proof (cases "h \<in> set (map Dom_FQDN (domains_of s ref))")
  case True
  then obtain ds d where ds: "(ref, ds) \<in> set (s_domains s)" "d \<in> set ds" "h = Dom_FQDN d"
    by (cases "map_of (s_domains s) ref") (auto simp: get_or_def dest: map_of_SomeD)
  then have "(Dom_FQDN d, ''project custom domain '' @ ref) \<in>
      set (concat (map (\<lambda>(ref, ds). map (\<lambda>d. (Dom_FQDN d, ''project custom domain '' @ ref)) ds) (s_domains s)))"
    by (auto intro!: bexI [of _ "(ref, ds)"])
  then have "(h, ''project custom domain '' @ ref) \<in> set (reservations c s)"
    unfolding reservations_def set_append ds(3) by (rule UnI2 [OF UnI1])
  then show ?thesis by (rule exI)
next
  case False
  with h obtain p where p: "map_of (s_projects s) ref = Some p" "h \<in> set (project_hosts (Proj_Ref p) (Spec_Domain (Proj_Spec p)))"
    by (cases "map_of (s_projects s) ref") (auto simp: claimed_hosts_def)
  have good: "good_site (Proj_Ref p) (Spec_Domain (Proj_Spec p))" using site_invD(2) [OF inv p(1)] by simp
  have "projectReservations s p = (Spec_Domain (Proj_Spec p), ''project domain '' @ Spec_Domain (Proj_Spec p)) #
      zip (project_hosts (Proj_Ref p) (Spec_Domain (Proj_Spec p)))
        (map (\<lambda>l. l @ Proj_Ref p) [''project API '', ''project Studio '', ''project storage '', ''project database '', ''project pooler '']) @
      drop 6 (projectReservations s p)"
    unfolding projectReservations_def Let_def good_site_norm(3) [OF good] project_hosts_good [OF good] by simp
  moreover have "h \<in> fst ` set (zip (project_hosts (Proj_Ref p) (Spec_Domain (Proj_Spec p)))
        (map (\<lambda>l. l @ Proj_Ref p) [''project API '', ''project Studio '', ''project storage '', ''project database '', ''project pooler '']))"
    using p(2) unfolding project_hosts_good [OF good] by simp
  ultimately have "h \<in> fst ` set (projectReservations s p)"
    by (metis (no_types, lifting) UnCI image_Un insert_is_Un list.simps(15) set_append)
  then have "\<exists>w. (h, w) \<in> set (projectReservations s p)" by auto
  moreover have "p \<in> set (values_of (s_projects s))"
    using map_of_SomeD [OF p(1)] by (force simp: values_of_def)
  ultimately show ?thesis unfolding reservations_def by auto
qed

lemma unreserved_unclaimed:
  assumes "site_inv s" and "plain_urls c" and "reservedCustomDomainHostLocked c s h = []"
  shows "h \<notin> set (claimed_hosts s ref)"
proof
  assume h: "h \<in> set (claimed_hosts s ref)"
  from claims_reserved [OF assms(1) h] obtain w where "(h, w) \<in> set (reservations c s)" by blast
  from not_reservedD [OF assms(3) this] normalized_valid [OF assms(2) claims_valid [OF assms(1) h]] show False by simp
qed

lemma project_hosts_distinct:
  assumes "good_site ref domain"
  shows "distinct (project_hosts ref domain)"
  unfolding project_hosts_good [OF assms]
  by (auto simp: projectHost_def studioHost_def storageHost_def databaseHost_def poolerHost_def dest: arg_cong [of _ _ length])

text \<open>The generated hosts of a new project were all free.\<close>

lemma new_hosts_free:
  assumes "site_inv s" and "plain_urls c" and "normalizeDomain domain = Inr d"
    and "validateGeneratedProjectHostReservationsLocked c s ref domain = Inr ()" and "h \<in> set (project_hosts ref d)"
  shows "h \<notin> set (claimed_hosts s ref')"
proof -
  have "\<forall>(label, host) \<in> set (generatedProjectHosts ref d). reservedCustomDomainHostLocked c s host = []"
    using assms(4) unfolding validateGeneratedProjectHostReservationsLocked_def normalizeDomain_TrimDots(1) [OF assms(3)] Let_def
    by (auto split: if_splits)
  then have "reservedCustomDomainHostLocked c s h = []" using assms(5) by (auto simp: project_hosts_def)
  from unreserved_unclaimed [OF assms(1,2) this] show ?thesis .
qed

lemma claims_cong:
  assumes "map_of (s_projects s') ref = map_of (s_projects s) ref" and "domains_of s' ref = domains_of s ref"
  shows "claimed_hosts s' ref = claimed_hosts s ref"
  using assms by (simp add: claimed_hosts_def)

lemma children_absent: "children_ok s \<Longrightarrow> map_of (s_projects s) ref = None \<Longrightarrow> domains_of s ref = []"
  unfolding children_ok_def get_or_def by (metis option.simps(4))

lemma site_init: "site_inv (NewMemoryStore defaults)"
  by (simp add: site_inv_def children_ok_def NewMemoryStore_def claimed_hosts_def get_or_def)

lemma site_inv_same: "site_inv s \<Longrightarrow> same_sites s s' \<Longrightarrow> site_inv s'"
  unfolding site_inv_def children_ok_def same_sites_def claimed_hosts_def by simp

text \<open>When projects keep their reference and domain, the claims stay.\<close>

lemma site_inv_projects:
  assumes inv: "site_inv s" and p: "map_of (s_projects s) ref = Some p" "s_projects s' = AList.update ref p' (s_projects s)"
      "Proj_Ref p' = Proj_Ref p" "Spec_Domain (Proj_Spec p') = Spec_Domain (Proj_Spec p)"
    and same: "s_domains s' = s_domains s" "s_replicas s' = s_replicas s"
  shows "site_inv s'"
proof -
  have "claimed_hosts s' = claimed_hosts s" by (rule ext) (simp add: claimed_hosts_def p same)
  moreover have "children_ok s'" using site_invD(1) [OF inv] by (simp add: children_ok_def p same)
  moreover have "\<forall>r q. map_of (s_projects s') r = Some q \<longrightarrow> Proj_Ref q = r \<and> good_site r (Spec_Domain (Proj_Spec q))"
    using site_invD(2) [OF inv] p by (auto split: if_splits)
  ultimately show ?thesis using inv same unfolding site_inv_def by simp
qed

lemma site_inv_replicas:
  assumes inv: "site_inv s" and "map_of (s_projects s) ref \<noteq> None \<or> map_of (s_replicas s) ref \<noteq> None"
    and rs: "s_replicas s' = AList.update ref rs (s_replicas s) \<or> s_replicas s' = AList.delete ref (s_replicas s) \<and> rs = []"
    and "length (filter is_primary rs) \<le> max 1 (length (filter is_primary (get_or [] (s_replicas s) ref)))"
    and same: "s_projects s' = s_projects s" "s_domains s' = s_domains s"
  shows "site_inv s'"
proof -
  have one: "length (filter is_primary rs) \<le> 1" using assms(4) site_invD(4) [OF inv, of ref] by simp
  have "length (filter is_primary (get_or [] (s_replicas s') r)) \<le> 1" for r
    using rs one site_invD(4) [OF inv, of r] by (auto simp: get_or_def)
  moreover have "claimed_hosts s' = claimed_hosts s" by (rule ext) (simp add: claimed_hosts_def same)
  moreover have "children_ok s'" using site_invD(1) [OF inv] assms(2) rs by (auto simp: children_ok_def same split: if_splits)
  ultimately show ?thesis using inv same unfolding site_inv_def by simp
qed

lemma site_inv_delete:
  assumes inv: "site_inv s" and s': "s_projects s' = AList.delete ref (s_projects s)" "s_replicas s' = AList.delete ref (s_replicas s)"
    "s_domains s' = AList.delete ref (s_domains s)"
  shows "site_inv s'"
proof -
  have get: "get_or [] (AList.delete ref m) r = (if r = ref then [] else get_or [] m r)" for m r
    by (simp add: get_or_def)
  have claimed_hosts: "claimed_hosts s' r = (if r = ref then [] else claimed_hosts s r)" for r
    by (simp add: claimed_hosts_def s' get)
  have "children_ok s'" using site_invD(1) [OF inv] by (auto simp: children_ok_def s' split: if_splits)
  moreover have "\<forall>r q. map_of (s_projects s') r = Some q \<longrightarrow> Proj_Ref q = r \<and> good_site r (Spec_Domain (Proj_Spec q))"
    using site_invD(2) [OF inv] by (auto simp: s' split: if_splits)
  moreover have "\<forall>r. \<forall>d \<in> set (domains_of s' r). valid_domain (Dom_FQDN d)" using site_invD(3) [OF inv] by (simp add: s' get)
  moreover have "\<forall>r. length (filter is_primary (get_or [] (s_replicas s') r)) \<le> 1" using site_invD(4) [OF inv] by (simp add: s' get)
  ultimately show ?thesis using site_invD(5,6) [OF inv] unfolding site_inv_def claimed_hosts by simp
qed

lemma site_inv_new:
  assumes inv: "site_inv s" and new: "map_of (s_projects s) ref = None"
    and s': "s_projects s' = AList.update ref p (s_projects s)" "s_replicas s' = s_replicas s" "s_domains s' = s_domains s"
    and c: "plain_urls c" and d: "normalizeDomain domain = Inr d" and p: "Spec_Domain (Proj_Spec p) = d" "Proj_Ref p = ref"
    and ref: "projectRefPattern ref" and fq: "validateGeneratedProjectFQDNs ref d = Inr ()"
    and free: "validateGeneratedProjectHostReservationsLocked c s ref domain = Inr ()"
  shows "site_inv s'"
proof -
  have v: "valid_domain d" using normalizeDomain_valid [OF d] .
  note vn = valid_domain_norm [OF v]
  have "length h \<le> 253" if "h \<in> set (project_hosts ref d)" for h
  proof -
    have "\<not> (\<exists>(label, host) \<in> set (generatedProjectHosts (ToLower (TrimSpace ref)) d). length host > 253)"
      using fq by (auto simp: validateGeneratedProjectFQDNs_def vn Let_def split: if_splits)
    moreover have "generatedProjectHosts (ToLower (TrimSpace ref)) d = generatedProjectHosts ref d"
      using slug_plain [OF ref [unfolded projectRefPattern_def]] by (simp add: plain_TrimSpace plain_ToLower)
    ultimately show ?thesis using that by (auto simp: project_hosts_def not_less)
  qed
  then have good: "good_site ref d" using ref v by (simp add: good_site_def)
  have claimed_hosts: "claimed_hosts s' r = (if r = ref then project_hosts ref d else claimed_hosts s r)" for r
    using children_absent [OF site_invD(1) [OF inv] new] by (simp add: claimed_hosts_def s' p)
  have "set (project_hosts ref d) \<inter> set (claimed_hosts s r) = {}" for r
    using new_hosts_free [OF inv c d free] by blast
  then have disjoint: "\<forall>r r'. r \<noteq> r' \<longrightarrow> set (claimed_hosts s' r) \<inter> set (claimed_hosts s' r') = {}"
    using site_invD(6) [OF inv] unfolding claimed_hosts by auto
  have "\<forall>r. distinct (claimed_hosts s' r)" using site_invD(5) [OF inv] project_hosts_distinct [OF good] by (simp add: claimed_hosts)
  moreover have "\<forall>r q. map_of (s_projects s') r = Some q \<longrightarrow> Proj_Ref q = r \<and> good_site r (Spec_Domain (Proj_Spec q))"
    using site_invD(2) [OF inv] good p by (auto simp: s' split: if_splits)
  moreover have "children_ok s'" using site_invD(1) [OF inv] by (auto simp: children_ok_def s')
  ultimately show ?thesis using disjoint site_invD(3,4) [OF inv] unfolding site_inv_def s'(2,3) by blast
qed

lemma site_inv_domains:
  assumes inv: "site_inv s" and ch: "domains_change ref ds s s'"
  shows "site_inv s'"
proof -
  have s': "s' = s\<lparr>s_domains := AList.update ref ds (s_domains s)\<rparr>" and p: "map_of (s_projects s) ref \<noteq> None"
    using ch by (simp_all add: domains_change_def)
  have dom: "domains_of s' r = (if r = ref then ds else domains_of s r)" for r by (simp add: s' get_or_def)
  have names: "valid_domain (Dom_FQDN d) \<and> (Dom_FQDN d \<in> set (map Dom_FQDN (domains_of s ref)) \<or> (\<forall>r. Dom_FQDN d \<notin> set (claimed_hosts s r)))"
    if d: "d \<in> set ds" for d
  proof (cases "Dom_FQDN d \<in> set (map Dom_FQDN (domains_of s ref))")
    case True
    then show ?thesis using site_invD(3) [OF inv, of _ ref] by auto
  next
    case False
    with ch d obtain c input where "plain_urls c" "normalizeDomain input = Inr (Dom_FQDN d)"
      "reservedCustomDomainHostLocked c s (Dom_FQDN d) = []"
      unfolding domains_change_def by auto
    then show ?thesis using normalizeDomain_valid unreserved_unclaimed [OF inv] by blast
  qed
  have dist: "distinct (map Dom_FQDN ds)"
  proof -
    have old: "distinct (map Dom_FQDN (domains_of s ref))" using site_invD(5) [OF inv, of ref] by (simp add: claimed_hosts_def)
    have "\<forall>x \<in> set (domains_of s ref). Dom_FQDN x \<noteq> Dom_FQDN d"
      if "plain_urls c" "reservedCustomDomainHostLocked c s (Dom_FQDN d) = []" for c d
      using unreserved_unclaimed [OF inv that, of ref] unfolding claimed_hosts_def set_append set_map by (metis UnI2 imageI)
    then have "distinct (map Dom_FQDN (domains_of s ref @ [d]))"
      if "plain_urls c" "reservedCustomDomainHostLocked c s (Dom_FQDN d) = []" for c d
      using that old by fastforce
    with old ch show ?thesis unfolding domains_change_def by metis
  qed
  define own where "own r = (case map_of (s_projects s) r of None \<Rightarrow> [] | Some p \<Rightarrow> project_hosts (Proj_Ref p) (Spec_Domain (Proj_Spec p)))" for r
  have cl: "claimed_hosts s r = own r @ map Dom_FQDN (domains_of s r)" "claimed_hosts s' r = own r @ map Dom_FQDN (domains_of s' r)" for r
    by (simp_all add: claimed_hosts_def own_def s')
  have sub: "h \<in> set (claimed_hosts s ref) \<or> (\<forall>r. h \<notin> set (claimed_hosts s r))" if "h \<in> set (claimed_hosts s' ref)" for h
    using that names by (auto simp: cl dom)
  have "\<forall>r. distinct (claimed_hosts s' r)"
  proof
    fix r
    have "set (own ref) \<inter> set (map Dom_FQDN ds) = {}"
      using names site_invD(5) [OF inv, of ref] by (fastforce simp: cl)
    with dist site_invD(5) [OF inv, of r] show "distinct (claimed_hosts s' r)" by (auto simp: cl dom)
  qed
  moreover have "\<forall>r r'. r \<noteq> r' \<longrightarrow> set (claimed_hosts s' r) \<inter> set (claimed_hosts s' r') = {}"
  proof (intro allI impI)
    fix r r' :: string assume ne: "r \<noteq> r'"
    have other: "x \<noteq> ref \<Longrightarrow> claimed_hosts s' x = claimed_hosts s x" for x by (simp add: cl dom)
    show "set (claimed_hosts s' r) \<inter> set (claimed_hosts s' r') = {}"
      using site_invD(6) [OF inv ne] site_invD(6) [OF inv, of ref r'] site_invD(6) [OF inv, of r ref] sub other ne
      by (cases "r = ref"; cases "r' = ref") (auto simp: disjoint_iff)
  qed
  moreover have "children_ok s'" using site_invD(1) [OF inv] p by (auto simp: children_ok_def s')
  moreover have "\<forall>r. \<forall>d \<in> set (domains_of s' r). valid_domain (Dom_FQDN d)"
    using names site_invD(3) [OF inv] by (auto simp: dom)
  ultimately show ?thesis using site_invD(2,4) [OF inv] unfolding site_inv_def s' by simp
qed

lemma step_site_inv:
  assumes "store_step s s'" and "capacity_inv s" and inv: "site_inv s"
  shows "site_inv s'"
  using step_site [OF assms(1,2)]
proof cases
  case Site_same
  then show ?thesis by (rule site_inv_same [OF inv])
next
  case (Site_new ref p c domain d)
  then show ?thesis by (intro site_inv_new [OF inv])
next
  case (Site_replace ref p p')
  then show ?thesis by (intro site_inv_projects [OF inv, of ref p s' p']) (simp_all add: replaces_project_def)
next
  case (Site_delete ref)
  then show ?thesis by (rule site_inv_delete [OF inv])
next
  case (Site_replicas ref rs)
  define s1 where "s1 = s\<lparr>s_replicas := s_replicas s'\<rparr>"
  have s1: "site_inv s1" by (rule site_inv_replicas [OF inv Site_replicas(2), of s1 rs]) (use Site_replicas in \<open>simp_all add: s1_def\<close>)
  from Site_replicas(1) show ?thesis
  proof
    assume "s_projects s' = s_projects s"
    with Site_replicas(5) show ?thesis by (intro site_inv_same [OF s1]) (simp add: same_sites_def s1_def)
  next
    assume "\<exists>p p'. map_of (s_projects s) ref = Some p \<and> Proj_Ref p' = Proj_Ref p \<and> Proj_Spec p' = Proj_Spec p \<and>
        Proj_OrgID p' = Proj_OrgID p \<and> s_projects s' = AList.update ref p' (s_projects s)"
    then obtain p p' where "map_of (s_projects s) ref = Some p" "Proj_Ref p' = Proj_Ref p" "Proj_Spec p' = Proj_Spec p"
      "s_projects s' = AList.update ref p' (s_projects s)" by blast
    with Site_replicas(5) show ?thesis by (intro site_inv_projects [OF s1, of ref p s' p']) (simp_all add: s1_def)
  qed
next
  case (Site_domains ref ds)
  then show ?thesis by (rule site_inv_domains [OF inv])
qed

lemma reachable_site: "reachable s \<Longrightarrow> site_inv s"
proof (induction rule: reachable.induct)
  case (Reach_step s s')
  then show ?case using step_site_inv reachable_capacity by blast
qed (rule site_init)

section \<open>Properties\<close>

text \<open>C7. No host name is handed out twice. In every store that can be reached, the host names a project
  generates (API, Studio, storage, database, pooler) and its custom domains are pairwise different, no two
  projects share one of them, and each is a valid DNS name of at most 253 characters.\<close>

theorem host_names_owned_once:
  assumes "reachable s"
  shows "distinct (claimed_hosts s ref) \<and> (ref \<noteq> ref' \<longrightarrow> set (claimed_hosts s ref) \<inter> set (claimed_hosts s ref') = {}) \<and>
    (\<forall>h \<in> set (claimed_hosts s ref). valid_domain h)"
  using site_invD(5,6) [OF reachable_site [OF assms]] claims_valid [OF reachable_site [OF assms]] by blast

theorem host_names_owned_once_witness:
  "distinct (claimed_hosts demo_hosted ''acme'') \<and> length (claimed_hosts demo_hosted ''acme'') = 5 \<and>
    valid_domain (hd (claimed_hosts demo_hosted ''acme''))"
proof -
  obtain p where p: "map_of (s_projects demo_hosted) ''acme'' = Some p" using demo_hosted_project by auto
  have good: "good_site (Proj_Ref p) (Spec_Domain (Proj_Spec p))" using site_invD(2) [OF reachable_site [OF reachable_demo] p] by simp
  have "domains_of demo_hosted ''acme'' = []" by code_simp
  with p have "length (claimed_hosts demo_hosted ''acme'') = 5" by (simp add: claimed_hosts_def project_hosts_good [OF good])
  moreover from this have "hd (claimed_hosts demo_hosted ''acme'') \<in> set (claimed_hosts demo_hosted ''acme'')" by (intro hd_in_set) auto
  ultimately show ?thesis using host_names_owned_once [OF reachable_demo, of "''acme''" "[]"] by blast
qed

text \<open>C28. In every store that can be reached, no project has two primary replicas, and every replica and every
  custom domain belongs to a project that exists: deleting a project leaves none of them behind.\<close>

theorem one_primary_no_orphans:
  assumes "reachable s"
  shows "length (filter (\<lambda>r. Rep_Role r = ''primary'') (get_or [] (s_replicas s) ref)) \<le> 1 \<and>
    (map_of (s_projects s) ref = None \<longrightarrow> map_of (s_replicas s) ref = None \<and> map_of (s_domains s) ref = None)"
  using site_invD(4) [OF reachable_site [OF assms], of ref] site_invD(1) [OF reachable_site [OF assms]]
  unfolding children_ok_def by blast

theorem one_primary_no_orphans_witness:
  "length (filter (\<lambda>r. Rep_Role r = ''primary'') (get_or [] (s_replicas demo_hosted) ''acme'')) \<le> 1 \<and>
    map_of (s_replicas demo_hosted) ''other'' = None"
proof -
  have "map_of (s_projects demo_hosted) ''other'' = None" by code_simp
  with one_primary_no_orphans [OF reachable_demo, of "''other''"] one_primary_no_orphans [OF reachable_demo, of "''acme''"]
  show ?thesis by blast
qed

text \<open>Two projects and a replica of each.\<close>

definition demo_replica_input :: "string \<Rightarrow> ProjectReplicaInput" where
  "demo_replica_input name = \<lparr>RepIn_Name = name, RepIn_HostID = [], RepIn_Region = ''eu'', RepIn_Tier = [],
     RepIn_ReadWeight = 0, RepIn_FailoverPriority = 0\<rparr>"

definition demo_pair :: MemoryStore where
  "demo_pair = demo_start\<lparr>s_projects := map (\<lambda>ref. (ref, demo_project\<lparr>Proj_Ref := ref\<rparr>)) [''foo'', ''one-foo'']\<rparr>"

text \<open>Creating a replica checks only the length of its public name, not the names that are in use. (Adding a custom domain does
  look at the names of replicas, through \<open>reservedCustomDomainHostLocked\<close>.) With two projects \<open>foo\<close> and \<open>one-foo\<close> on one domain, the replica \<open>rep-one\<close> of the first and the
  replica \<open>rep\<close> of the second are both accepted and get the same public database address.\<close>

lemma replica_hosts_collide:
  "case CreateProjectReplica demo_ctx ''foo'' (demo_replica_input ''rep-one'') demo_pair of
     Inl e \<Rightarrow> False
   | Inr (s1, r1) \<Rightarrow>
      (case CreateProjectReplica demo_ctx ''one-foo'' (demo_replica_input ''rep'') s1 of
         Inl e \<Rightarrow> False
       | Inr (s2, r2) \<Rightarrow> Rep_ProjectRef r1 \<noteq> Rep_ProjectRef r2 \<and> Rep_PublicReadURI r1 = Rep_PublicReadURI r2)"
  by code_simp

end
