(* ===== verification/Quotas.thy ===== *)
theory Quotas
  imports Host_Ownership
begin

text \<open>
  The quotas of organisations. The use of an organisation is summed up afresh from the projects and
  replicas on every check (\<open>orgUsageLocked\<close>). Creating or resizing a project changes that sum by exactly
  the booked difference, and leaves it within every limit of the quota.
\<close>

section \<open>The use of an organisation as a sum\<close>

definition projectUse :: "string \<Rightarrow> (string, Project) gomap \<Rightarrow> HostCapacity" where
  "projectUse org = cap.total (\<lambda>ref p. if Proj_OrgID p = org then resourceReservationForSpec (Proj_Spec p) else zeroCapacity)"

definition replicaListUse :: "ProjectReplica list \<Rightarrow> HostCapacity" where
  "replicaListUse rs = foldr (\<lambda>r. addHostCapacity (replicaReservationForTier (Rep_Tier r))) rs zeroCapacity"

definition replicaUse :: "string \<Rightarrow> MemoryStore \<Rightarrow> HostCapacity" where
  "replicaUse org s = cap.total (\<lambda>ref rs. case map_of (s_projects s) ref of None \<Rightarrow> zeroCapacity
     | Some p \<Rightarrow> if Proj_OrgID p = org then replicaListUse rs else zeroCapacity) (s_replicas s)"

lemma replicasUsage_sum: "replicasUsage rs u = addHostCapacity u (replicaListUse rs)"
  unfolding replicasUsage_def replicaListUse_def by (induction rs arbitrary: u) (simp_all add: cap_ac)

lemma fold_projects: "fold (\<lambda>(ref, p) u. if Proj_OrgID p = org then addHostCapacity u (resourceReservationForSpec (Proj_Spec p)) else u) m u =
    addHostCapacity u (projectUse org m)"
  unfolding projectUse_def by (induction m arbitrary: u) (auto simp: cap.total_simps cap_ac)

lemma fold_replicas: "fold (\<lambda>(ref, rs) u. case map_of pm ref of None \<Rightarrow> u | Some p \<Rightarrow> if Proj_OrgID p \<noteq> org then u else replicasUsage rs u) m u =
    addHostCapacity u (cap.total (\<lambda>ref rs. case map_of pm ref of None \<Rightarrow> zeroCapacity
     | Some p \<Rightarrow> if Proj_OrgID p = org then replicaListUse rs else zeroCapacity) m)"
  by (induction m arbitrary: u) (auto simp: cap.total_simps replicasUsage_sum cap_ac split: option.splits)

lemma orgUsage_sum: "orgUsageLocked s org = addHostCapacity (projectUse org (s_projects s)) (replicaUse org s)"
  unfolding orgUsageLocked_def fold_projects fold_replicas replicaUse_def by simp

lemma nonneg_replicaListUse [simp]: "nonnegCapacity (replicaListUse rs)"
  by (induction rs) (simp_all add: replicaListUse_def cap.proper_zero cap.proper_add)

lemma nonneg_uses [simp]: "nonnegCapacity (projectUse org m)" "nonnegCapacity (replicaUse org s)"
  unfolding projectUse_def replicaUse_def by (rule cap.proper_total, simp add: cap.proper_zero split: option.split)+

section \<open>Within the quota\<close>

definition within_quota :: "OrgQuota \<Rightarrow> HostCapacity \<Rightarrow> bool" where
  "within_quota q u \<longleftrightarrow> quotaWithinLimit (Project u) (MaxProjects q) \<and> quotaWithinLimit (CPU u) (MaxCPU q) \<and>
     quotaWithinLimit (RAMMB u) (MaxRAMMB q) \<and> quotaWithinLimit (DiskGB u) (MaxDiskGB q)"

lemma checkQuota_ok: "checkQuota q u = Inr () \<longleftrightarrow> within_quota q u"
  by (auto simp: checkQuota_def checkResourceQuota_def within_quota_def and_then_eq_Inr_iff)

abbreviation quota_of :: "MemoryStore \<Rightarrow> string \<Rightarrow> OrgQuota" where
  "quota_of s org \<equiv> get_or zeroQuota (s_orgQuotas s) org"

lemma within_quota_locked: "within_quota (orgQuotaLocked c s org) u = within_quota (quota_of s org) u"
  by (simp add: orgQuotaLocked_def within_quota_def Let_def)

lemma used_locked: "Quota_Used (orgQuotaLocked c s org) = orgUsageLocked s org"
  by (simp add: orgQuotaLocked_def Let_def)

lemma validateOrgQuota_ok: "validateOrgQuotaLocked c s org r = Inr () \<longleftrightarrow> within_quota (quota_of s org) (addHostCapacity (orgUsageLocked s org) r)"
  by (simp add: validateOrgQuotaLocked_def Let_def checkQuota_ok within_quota_locked used_locked)

lemma validateScale_ok: "validateProjectScaleQuotaLocked c s org old new = Inr () \<longleftrightarrow>
    within_quota (quota_of s org) (addHostCapacity (subtractHostCapacity (orgUsageLocked s org) old) new)"
  by (simp add: validateProjectScaleQuotaLocked_def Let_def checkQuota_ok within_quota_locked used_locked)

section \<open>What a new and a changed project do to the sum\<close>

lemma usage_new:
  assumes "children_ok s" and new: "map_of (s_projects s) ref = None"
    and s': "s_projects s' = AList.update ref p (s_projects s)" "s_replicas s' = s_replicas s"
  shows "orgUsageLocked s' (Proj_OrgID p) = addHostCapacity (orgUsageLocked s (Proj_OrgID p)) (resourceReservationForSpec (Proj_Spec p))"
proof -
  have "map_of (s_replicas s) ref = None" using assms(1) new unfolding children_ok_def by blast
  then have "ref \<notin> fst ` set (s_replicas s)" by (simp add: map_of_eq_None_iff)
  then have "replicaUse org s' = replicaUse org s" for org
    unfolding replicaUse_def s' by (intro cap.total_cong) (auto simp: rev_image_eqI)
  moreover have "projectUse (Proj_OrgID p) (s_projects s') =
      addHostCapacity (projectUse (Proj_OrgID p) (s_projects s)) (resourceReservationForSpec (Proj_Spec p))"
    unfolding projectUse_def s' by (simp add: cap.total_update_new [OF new])
  ultimately show ?thesis by (simp add: orgUsage_sum cap_ac)
qed

lemma usage_replace:
  assumes "gomap_ok (s_projects s)" and rep: "replaces_project ref p p' s s'"
  shows "orgUsageLocked s' (Proj_OrgID p) = addHostCapacity
     (subtractHostCapacity (orgUsageLocked s (Proj_OrgID p)) (resourceReservationForSpec (Proj_Spec p))) (resourceReservationForSpec (Proj_Spec p'))"
proof -
  let ?o = "Proj_OrgID p"
  have r: "map_of (s_projects s) ref = Some p" "s_projects s' = AList.update ref p' (s_projects s)" "s_replicas s' = s_replicas s"
    "Proj_OrgID p' = ?o" using rep by (simp_all add: replaces_project_def)
  have "replicaUse ?o s' = replicaUse ?o s"
    unfolding replicaUse_def r(2,3) by (rule cap.total_cong) (use r(1,4) in \<open>auto split: option.split\<close>)
  moreover define rest where "rest = projectUse ?o (AList.delete ref (s_projects s))"
  have "projectUse ?o (s_projects s) = addHostCapacity rest (resourceReservationForSpec (Proj_Spec p))"
    unfolding rest_def projectUse_def by (simp add: cap.total_split [OF assms(1) r(1)])
  moreover have "projectUse ?o (s_projects s') = addHostCapacity rest (resourceReservationForSpec (Proj_Spec p'))"
    unfolding rest_def projectUse_def r(2) by (simp add: cap.total_update_old [OF assms(1) r(1)] r(4))
  moreover have "subtractHostCapacity (addHostCapacity (addHostCapacity rest (replicaUse ?o s)) (resourceReservationForSpec (Proj_Spec p)))
      (resourceReservationForSpec (Proj_Spec p)) = addHostCapacity rest (replicaUse ?o s)"
    by (rule cap.sub_add) (simp add: cap.proper_add rest_def)
  ultimately show ?thesis by (simp add: orgUsage_sum cap_ac)
qed

lemma bookHost_quotas: "bookHost h r s = Inr s1 \<Longrightarrow> s_orgQuotas s1 = s_orgQuotas s"
  by (auto simp: bookHost_def Let_def split: if_splits elim!: and_then_InrE)

lemma rebookHost_quotas: "rebookHost h r r' s = Inr s1 \<Longrightarrow> s_orgQuotas s1 = s_orgQuotas s"
  by (auto simp: rebookHost_def Let_def split: if_splits elim!: and_then_InrE)

lemma CreateProjectBranch_quotas: "CreateProjectBranch c src input s = Inr (s', b, p) \<Longrightarrow> s_orgQuotas s' = s_orgQuotas s"
  unfolding CreateProjectBranch_def Let_def by (elim and_then_InrE) (auto dest: bookHost_quotas)

lemma branch_project:
  "Proj_OrgID (newProject c i m (branchRequest source ref name) spec) = Proj_OrgID source"
  "Proj_Spec (newProject c i m req spec) = spec"
  by (simp_all add: newProject_def branchRequest_def Let_def)

lemma resize_quota:
  "UpdateProjectResources c ref sizing s = Inr (s', r) \<or> UpdateProjectResourceTier c ref tier s = Inr (s', r) \<Longrightarrow>
   \<exists>p. replaces_project ref p r s s' \<and> s_orgQuotas s' = s_orgQuotas s \<and>
     validateProjectScaleQuotaLocked c s (Proj_OrgID p) (resourceReservationForSpec (Proj_Spec p)) (resourceReservationForSpec (Proj_Spec r)) = Inr ()"
  (is "?res \<or> ?tier \<Longrightarrow> ?goal")
proof (elim disjE)
  have put: "replaces_project ref p q s (putProject ref q s1)"
    if "rebookHost h x y s = Inr s1" "map_of (s_projects s) ref = Some p" "Proj_Ref q = Proj_Ref p" "Proj_OrgID q = Proj_OrgID p"
      "Spec_Domain (Proj_Spec q) = Spec_Domain (Proj_Spec p)" "Spec_HostID (Proj_Spec q) = Spec_HostID (Proj_Spec p)" for p q s1 h x y
    using that rebookHost_same [OF that(1)] by (simp add: replaces_project_def putProject_def same_sites_def)
  show ?goal if ?res
  proof -
    from that obtain p s1 where p: "map_of (s_projects s) ref = Some p"
      and q: "validateProjectScaleQuotaLocked c s (Proj_OrgID p) (resourceReservationForSpec (Proj_Spec p)) (resourceReservationForSpec (Proj_Spec r)) = Inr ()"
      and b: "rebookHost (Spec_HostID (Proj_Spec p)) (resourceReservationForSpec (Proj_Spec p)) (resourceReservationForSpec (Proj_Spec r)) s = Inr s1"
      and r: "s' = putProject ref r s1" "Proj_Ref r = Proj_Ref p" "Proj_OrgID r = Proj_OrgID p"
        "Spec_Domain (Proj_Spec r) = Spec_Domain (Proj_Spec p)" "Spec_HostID (Proj_Spec r) = Spec_HostID (Proj_Spec p)"
      unfolding UpdateProjectResources_def Let_def by (elim and_then_InrE) auto
    show ?goal using put [OF b p r(2-5)] q rebookHost_quotas [OF b] by (intro exI [of _ p]) (simp add: r(1) putProject_def)
  qed
  show ?goal if ?tier
  proof -
    from that obtain p s1 spec where p: "map_of (s_projects s) ref = Some p" and known: "map_of resourceTierReservations tier \<noteq> None"
      and q: "validateProjectScaleQuotaLocked c s (Proj_OrgID p) (resourceReservationForSpec (Proj_Spec p)) (resourceReservationForTier tier) = Inr ()"
      and b: "rebookHost (Spec_HostID (Proj_Spec p)) (resourceReservationForSpec (Proj_Spec p)) (resourceReservationForTier tier) s = Inr s1"
      and r: "s' = putProject ref r s1" "Proj_Ref r = Proj_Ref p" "Proj_OrgID r = Proj_OrgID p"
        "Proj_Spec r = (Proj_Spec p)\<lparr>Spec_ResourceTier := tier, Spec_CPU := 0, Spec_RAMMB := 0, Spec_DiskGB := 0\<rparr>"
      unfolding UpdateProjectResourceTier_def Let_def by (elim and_then_InrE) auto
    have "resourceReservationForSpec (Proj_Spec r) = resourceReservationForTier tier" unfolding r(4) by (rule tier_reservation(1) [OF known])
    with put [OF b p r(2,3)] q rebookHost_quotas [OF b] show ?goal by (intro exI [of _ p]) (simp add: r(1,4) putProject_def)
  qed
qed

section \<open>Properties\<close>

text \<open>Creating a project or a branch raises the use of its organisation by exactly the reservation of the
  new project, and only succeeds when the organisation then is within every limit of its quota (projects, CPU,
  memory, disk; a limit of zero or less means none).\<close>

theorem created_within_quota:
  assumes "reachable s"
    and "CreateProject c defaults request s = Inr (s', p) \<or> CreateProjectBranch c src input s = Inr (s', b, p)"
  shows "orgUsageLocked s' (Proj_OrgID p) = addHostCapacity (orgUsageLocked s (Proj_OrgID p)) (resourceReservationForSpec (Proj_Spec p)) \<and>
    within_quota (quota_of s' (Proj_OrgID p)) (orgUsageLocked s' (Proj_OrgID p))"
  using assms(2)
proof
  note kids = site_invD(1) [OF reachable_site [OF assms(1)]]
  assume cr: "CreateProject c defaults request s = Inr (s', p)"
  obtain req hostID where "map_of (s_projects s) (Req_Ref req) = None"
    "validateOrgQuotaLocked c s (Req_OrgID req) (resourceReservationForSpec (toSpec req)) = Inr ()"
    "p = newProject c (ctx_newID c) ''project accepted for provisioning'' req ((toSpec req)\<lparr>Spec_HostID := hostID\<rparr>)"
    "s_projects s' = AList.update (Req_Ref req) p (s_projects s)" "s_replicas s' = s_replicas s" "s_orgQuotas s' = s_orgQuotas s"
    using cr by (rule CreateProject_eq)
  then show ?thesis using usage_new [OF kids, of "Req_Ref req" s' p]
    by (simp add: validateOrgQuota_ok newProject_def)
next
  note kids = site_invD(1) [OF reachable_site [OF assms(1)]]
  let ?r = "norm_key (BranchIn_Ref input)"
  assume cr: "CreateProjectBranch c src input s = Inr (s', b, p)"
  obtain source name where "map_of (s_projects s) ?r = None"
    "validateOrgQuotaLocked c s (Proj_OrgID source) (resourceReservationForSpec (toSpec (branchRequest source ?r name))) = Inr ()"
    "p = newProject c (ctx_newID c) ''branch accepted for provisioning'' (branchRequest source ?r name) (toSpec (branchRequest source ?r name))"
    "s_projects s' = AList.update ?r p (s_projects s)" "s_replicas s' = s_replicas s"
    using cr by (rule CreateProjectBranch_eq)
  then show ?thesis using usage_new [OF kids, of ?r s' p] CreateProjectBranch_quotas [OF cr]
    by (simp add: validateOrgQuota_ok branch_project)
qed

theorem created_within_quota_witness:
  "\<exists>s p. CreateProject demo_ctx demo_defaults demo_request demo_start = Inr (s, p) \<and>
     within_quota (quota_of s (Proj_OrgID p)) (orgUsageLocked s (Proj_OrgID p))"
proof -
  have "is_ok (CreateProject demo_ctx demo_defaults demo_request demo_start)" by code_simp
  then obtain s p where c: "CreateProject demo_ctx demo_defaults demo_request demo_start = Inr (s, p)" by (auto simp: is_ok_iff)
  from created_within_quota [OF reachable_demo_start disjI1 [OF c]] c show ?thesis by blast
qed

text \<open>Resizing a project, to a tier or to exact sizes, moves the use of its organisation by exactly the
  difference of the two reservations, and only succeeds when the organisation then is within its quota.\<close>

theorem resized_within_quota:
  assumes "reachable s" and "map_of (s_projects s) ref = Some p"
    and "UpdateProjectResources c ref sizing s = Inr (s', r) \<or> UpdateProjectResourceTier c ref tier s = Inr (s', r)"
  shows "orgUsageLocked s' (Proj_OrgID p) = addHostCapacity
      (subtractHostCapacity (orgUsageLocked s (Proj_OrgID p)) (resourceReservationForSpec (Proj_Spec p))) (resourceReservationForSpec (Proj_Spec r)) \<and>
    within_quota (quota_of s' (Proj_OrgID p)) (orgUsageLocked s' (Proj_OrgID p))"
proof -
  obtain q where q: "replaces_project ref q r s s'" "s_orgQuotas s' = s_orgQuotas s"
    "validateProjectScaleQuotaLocked c s (Proj_OrgID q) (resourceReservationForSpec (Proj_Spec q)) (resourceReservationForSpec (Proj_Spec r)) = Inr ()"
    using resize_quota [OF assms(3)] by blast
  have "q = p" using q(1) assms(2) by (simp add: replaces_project_def)
  with q usage_replace [OF capacity_invD(2) [OF reachable_capacity [OF assms(1)]] q(1)] show ?thesis
    by (simp add: validateScale_ok)
qed

theorem resized_within_quota_witness:
  "\<exists>p s r. map_of (s_projects demo_hosted) ''acme'' = Some p \<and> UpdateProjectResourceTier demo_ctx ''acme'' ResourceTierLarge demo_hosted = Inr (s, r) \<and>
     within_quota (quota_of s (Proj_OrgID p)) (orgUsageLocked s (Proj_OrgID p))"
proof -
  have "is_ok (UpdateProjectResourceTier demo_ctx ''acme'' ResourceTierLarge demo_hosted)" by code_simp
  then obtain s r where c: "UpdateProjectResourceTier demo_ctx ''acme'' ResourceTierLarge demo_hosted = Inr (s, r)" by (auto simp: is_ok_iff)
  obtain p where p: "map_of (s_projects demo_hosted) ''acme'' = Some p" using demo_hosted_project by auto
  from resized_within_quota [OF reachable_demo p disjI2 [OF c]] c p show ?thesis by blast
qed

end
