(* ===== verification/Encodings.thy ===== *)
theory Encodings
  imports Go_Prelude
begin

text \<open>
  The standard-library codings that tokens and one-time codes go through: base64 without padding in the URL
  alphabet (RFC 4648, \<open>base64.RawURLEncoding\<close>), base32 without padding, hexadecimal, and decimal numbers of a
  fixed width. Base64 and base32 regroup the bits of the bytes into groups of 6 and 5; decoding drops the bits
  left over, skips line breaks and refuses other characters and impossible lengths, as Go's decoders do.
\<close>

section \<open>Bits\<close>

fun bits_of :: "nat \<Rightarrow> nat \<Rightarrow> bool list" where
  "bits_of 0 n = []"
| "bits_of (Suc w) n = bits_of w (n div 2) @ [odd n]"

definition of_bits :: "bool list \<Rightarrow> nat" where
  "of_bits bs = foldl (\<lambda>a b. 2 * a + (if b then 1 else 0)) 0 bs"

lemma of_bits_snoc: "of_bits (bs @ [b]) = 2 * of_bits bs + (if b then 1 else 0)"
  by (simp add: of_bits_def)

lemma length_bits_of [simp]: "length (bits_of w n) = w"
  by (induction w n rule: bits_of.induct) auto

lemma of_bits_bits_of: "n < 2 ^ w \<Longrightarrow> of_bits (bits_of w n) = n"
proof (induction w n rule: bits_of.induct)
  case (2 w n)
  then have "of_bits (bits_of w (n div 2)) = n div 2" by simp
  then show ?case by (simp add: of_bits_snoc odd_iff_mod_2_eq_one) presburger
qed (simp add: of_bits_def)

lemma of_bits_less: "of_bits bs < 2 ^ length bs"
proof (induction bs rule: rev_induct)
  case (snoc b bs)
  then show ?case by (cases b) (simp_all add: of_bits_snoc)
qed (simp add: of_bits_def)

lemma bits_of_of_bits: "bits_of (length bs) (of_bits bs) = bs"
  by (induction bs rule: rev_induct) (simp_all add: of_bits_snoc)

section \<open>Groups\<close>

function chunks :: "nat \<Rightarrow> 'a list \<Rightarrow> 'a list list" where
  "chunks w xs = (if w = 0 \<or> xs = [] then [] else take w xs # chunks w (drop w xs))"
  by auto
termination by (relation "measure (\<lambda>(w, xs). length xs)") auto

declare chunks.simps [simp del]

lemma chunks_Nil [simp]: "chunks w [] = []"
  by (simp add: chunks.simps)

lemma chunks_append: "0 < w \<Longrightarrow> length xs = w \<Longrightarrow> chunks w (xs @ ys) = xs # chunks w ys"
  by (subst chunks.simps) auto

lemma chunks_concat: "0 < w \<Longrightarrow> \<forall>x \<in> set xss. length x = w \<Longrightarrow> chunks w (concat xss) = xss"
  by (induction xss) (simp_all add: chunks_append)

definition pad :: "nat \<Rightarrow> bool list \<Rightarrow> bool list" where
  "pad w bs = bs @ replicate (w - length bs) False"

lemma chunks_pad: "0 < w \<Longrightarrow> \<exists>p < w. concat (map (pad w) (chunks w xs)) = xs @ replicate p False \<and>
    (\<forall>c \<in> set (map (pad w) (chunks w xs)). length c = w)"
proof (induction w xs rule: chunks.induct)
  case (1 w xs)
  show ?case
  proof (cases "xs = []")
    case True
    with 1(2) show ?thesis by (intro exI [of _ 0]) simp
  next
    case False
    show ?thesis
    proof (cases "length xs \<le> w")
      case True
      then have "chunks w xs = [xs]" using False 1(2) by (subst chunks.simps) simp
      moreover have "0 < length xs" using False by simp
      ultimately show ?thesis using True 1(2) by (intro exI [of _ "w - length xs"]) (auto simp: pad_def)
    next
      case long: False
      obtain p where p: "p < w" "concat (map (pad w) (chunks w (drop w xs))) = drop w xs @ replicate p False"
        "\<forall>c \<in> set (map (pad w) (chunks w (drop w xs))). length c = w"
        using 1(1) [OF _ 1(2)] False 1(2) by blast
      have eq: "chunks w xs = take w xs # chunks w (drop w xs)" using False 1(2) by (subst chunks.simps) simp
      have full: "pad w (take w xs) = take w xs" "length (take w xs) = w" using long by (simp_all add: pad_def)
      have "concat (map (pad w) (chunks w xs)) = xs @ replicate p False"
        unfolding eq list.map concat.simps full p(2) append_assoc [symmetric] append_take_drop_id by (rule refl)
      moreover have "\<forall>c \<in> set (map (pad w) (chunks w xs)). length c = w"
        unfolding eq list.map list.set ball_simps full using full(2) p(3) by blast
      ultimately show ?thesis using p(1) by blast
    qed
  qed
qed

text \<open>Regrouping the bits of bytes into groups of \<open>w\<close> bits, and back.\<close>

definition groups_of_bytes :: "nat \<Rightarrow> nat list \<Rightarrow> nat list" where
  "groups_of_bytes w bs = map (\<lambda>c. of_bits (pad w c)) (chunks w (concat (map (bits_of 8) bs)))"

definition bytes_of_groups :: "nat \<Rightarrow> nat list \<Rightarrow> nat list" where
  "bytes_of_groups w gs =
     (let bits = concat (map (bits_of w) gs) in map of_bits (chunks 8 (take (8 * (length bits div 8)) bits)))"

lemma length_concat_bits: "length (concat (map (bits_of w) gs)) = w * length gs"
  by (induction gs) simp_all

lemma groups_small: "0 < w \<Longrightarrow> g \<in> set (groups_of_bytes w bs) \<Longrightarrow> g < 2 ^ w"
proof -
  assume w: "0 < w" and "g \<in> set (groups_of_bytes w bs)"
  then obtain c where c: "c \<in> set (map (pad w) (chunks w (concat (map (bits_of 8) bs))))" "g = of_bits c"
    by (auto simp: groups_of_bytes_def)
  obtain p where "\<forall>c \<in> set (map (pad w) (chunks w (concat (map (bits_of 8) bs)))). length c = w"
    using chunks_pad [OF w] by blast
  with c have "length c = w" by blast
  with c(2) of_bits_less [of c] show ?thesis by simp
qed

lemma bytes_of_groups_of_bytes:
  assumes "0 < w" and "w \<le> 8" and "\<forall>b \<in> set bs. b < 256"
  shows "bytes_of_groups w (groups_of_bytes w bs) = bs"
proof -
  let ?bits = "concat (map (bits_of 8) bs)"
  let ?cs = "map (pad w) (chunks w ?bits)"
  obtain p where p: "p < w" "concat ?cs = ?bits @ replicate p False" "\<forall>c \<in> set ?cs. length c = w"
    using chunks_pad [OF assms(1)] by blast
  have "map (bits_of w) (groups_of_bytes w bs) = map (\<lambda>c. bits_of w (of_bits c)) ?cs"
    by (simp add: groups_of_bytes_def comp_def)
  also have "\<dots> = ?cs"
    by (rule map_idI) (metis p(3) bits_of_of_bits)
  finally have all: "concat (map (bits_of w) (groups_of_bytes w bs)) = ?bits @ replicate p False"
    using p(2) by simp
  have len: "length ?bits = 8 * length bs" by (simp add: length_concat_bits)
  have "(8 * length bs + p) div 8 = length bs" using p(1) assms(2) by simp
  then have "take (8 * (length (?bits @ replicate p False) div 8)) (?bits @ replicate p False) = ?bits"
    using len by simp
  moreover have "chunks 8 ?bits = map (bits_of 8) bs" by (rule chunks_concat) auto
  moreover have "map of_bits (map (bits_of 8) bs) = bs"
    using assms(3) by (induction bs) (simp_all add: of_bits_bits_of)
  ultimately show ?thesis by (simp add: bytes_of_groups_def all Let_def)
qed

section \<open>Base64, base32 and hexadecimal\<close>

definition upper_case :: string where "upper_case = ''ABCDEFGHIJKLMNOPQRSTUVWXYZ''"
definition lower_case :: string where "lower_case = ''abcdefghijklmnopqrstuvwxyz''"
definition digits :: string where "digits = ''0123456789''"

definition base64_alphabet :: string where "base64_alphabet = upper_case @ lower_case @ digits @ ''-_''"
definition base32_alphabet :: string where "base32_alphabet = upper_case @ ''234567''"
definition hex_alphabet :: string where "hex_alphabet = digits @ ''abcdef''"

definition index_of :: "string \<Rightarrow> char \<Rightarrow> nat option" where
  "index_of alphabet c = map_of (zip alphabet [0..<length alphabet]) c"

lemma index_of_nth: "distinct alphabet \<Longrightarrow> i < length alphabet \<Longrightarrow> index_of alphabet (alphabet ! i) = Some i"
  by (simp add: index_of_def map_of_zip_nth)

definition encodeGroups :: "nat \<Rightarrow> string \<Rightarrow> string \<Rightarrow> string" where
  "encodeGroups w alphabet s = map (\<lambda>g. alphabet ! g) (groups_of_bytes w (map byte s))"

fun lookup_all :: "string \<Rightarrow> string \<Rightarrow> nat list option" where
  "lookup_all alphabet [] = Some []"
| "lookup_all alphabet (c # cs) =
     (case index_of alphabet c of None \<Rightarrow> None
      | Some i \<Rightarrow> (case lookup_all alphabet cs of None \<Rightarrow> None | Some is \<Rightarrow> Some (i # is)))"

definition is_line_break :: "char \<Rightarrow> bool" where
  "is_line_break c \<longleftrightarrow> byte c = 10 \<or> byte c = 13"

text \<open>A length is impossible when a whole group of characters would carry no bit of a byte.\<close>

definition decodeGroups :: "nat \<Rightarrow> string \<Rightarrow> string \<Rightarrow> string option" where
  "decodeGroups w alphabet s =
     (let s = filter (\<lambda>c. \<not> is_line_break c) s in
      case lookup_all alphabet s of
        None \<Rightarrow> None
      | Some gs \<Rightarrow> if w * length gs mod 8 \<ge> w then None else Some (map char_of (bytes_of_groups w gs)))"

definition RawURLEncode :: "string \<Rightarrow> string" where "RawURLEncode = encodeGroups 6 base64_alphabet"
definition RawURLDecode :: "string \<Rightarrow> string option" where "RawURLDecode = decodeGroups 6 base64_alphabet"
definition Base32Encode :: "string \<Rightarrow> string" where "Base32Encode = encodeGroups 5 base32_alphabet"
definition Base32Decode :: "string \<Rightarrow> string option" where "Base32Decode = decodeGroups 5 base32_alphabet"
definition HexEncode :: "string \<Rightarrow> string" where "HexEncode = encodeGroups 4 hex_alphabet"

lemma lookup_all_encoded: "distinct alphabet \<Longrightarrow> \<forall>g \<in> set gs. g < length alphabet \<Longrightarrow>
    lookup_all alphabet (map (\<lambda>g. alphabet ! g) gs) = Some gs"
  by (induction gs) (simp_all add: index_of_nth)

lemma chunks_total:
  fixes xs :: "bool list"
  assumes w: "0 < w"
  shows "length xs \<le> length (chunks w xs) * w" and "length (chunks w xs) * w < length xs + w"
proof -
  obtain p where p: "p < w" "concat (map (pad w) (chunks w xs)) = xs @ replicate p False"
    "\<forall>c \<in> set (map (pad w) (chunks w xs)). length c = w" using chunks_pad [OF w] by blast
  have sum: "(\<forall>c \<in> set css. length c = w) \<Longrightarrow> length (concat css) = length css * w" for css :: "bool list list"
    by (induction css) simp_all
  have "length (concat (map (pad w) (chunks w xs))) = length (chunks w xs) * w" using sum [OF p(3)] by simp
  then have "length (chunks w xs) * w = length xs + p" using p(2) by simp
  with p(1) show "length xs \<le> length (chunks w xs) * w" "length (chunks w xs) * w < length xs + w" by simp_all
qed

lemma groups_mod: "0 < w \<Longrightarrow> w \<le> 8 \<Longrightarrow> w * length (groups_of_bytes w bs) mod 8 < w"
proof -
  assume w: "0 < w" "w \<le> 8"
  let ?bits = "concat (map (bits_of 8) bs)"
  define n where "n = w * length (groups_of_bytes w bs)"
  have "8 * length bs \<le> n" "n < 8 * length bs + w"
    using chunks_total [OF w(1), of ?bits]
    by (simp_all add: n_def groups_of_bytes_def length_concat_bits mult.commute)
  then obtain p where "n = 8 * length bs + p" "p < w" by (metis add_less_cancel_left le_Suc_ex)
  with w(2) show ?thesis unfolding n_def [symmetric] by simp
qed

lemma decode_encode:
  assumes "0 < w" and "w \<le> 8" and "length alphabet = 2 ^ w" and "distinct alphabet" and "\<forall>c \<in> set alphabet. \<not> is_line_break c"
  shows "decodeGroups w alphabet (encodeGroups w alphabet s) = Some s"
proof -
  let ?gs = "groups_of_bytes w (map byte s)"
  have small: "\<forall>g \<in> set ?gs. g < length alphabet" using groups_small [OF assms(1)] assms(3) by simp
  then have "\<forall>c \<in> set (encodeGroups w alphabet s). \<not> is_line_break c"
    using assms(5) by (auto simp: encodeGroups_def)
  then have "filter (\<lambda>c. \<not> is_line_break c) (encodeGroups w alphabet s) = encodeGroups w alphabet s"
    by (rule filter_True)
  moreover have "\<forall>b \<in> set (map byte s). b < 256" by (auto simp: byte_def)
  then have "bytes_of_groups w ?gs = map byte s" by (rule bytes_of_groups_of_bytes [OF assms(1,2)])
  moreover have "map char_of (map byte s) = s" by (simp add: byte_def map_idI)
  ultimately show ?thesis
    using lookup_all_encoded [OF assms(4) small] groups_mod [OF assms(1,2), of "map byte s"]
    by (simp add: decodeGroups_def encodeGroups_def)
qed

lemma alphabet_ok:
  "length base64_alphabet = 64" "distinct base64_alphabet" "\<forall>c \<in> set base64_alphabet. \<not> is_line_break c \<and> c \<noteq> CHR ''.''"
  "length base32_alphabet = 32" "distinct base32_alphabet" "\<forall>c \<in> set base32_alphabet. \<not> is_line_break c"
  by (simp_all add: base64_alphabet_def base32_alphabet_def upper_case_def lower_case_def digits_def is_line_break_def byte_def)

lemma RawURL_roundtrip [simp]: "RawURLDecode (RawURLEncode s) = Some s"
  unfolding RawURLDecode_def RawURLEncode_def by (rule decode_encode) (use alphabet_ok in simp_all)

lemma Base32_roundtrip [simp]: "Base32Decode (Base32Encode s) = Some s"
  unfolding Base32Decode_def Base32Encode_def by (rule decode_encode) (use alphabet_ok in simp_all)

lemma RawURLEncode_chars: "c \<in> set (RawURLEncode s) \<Longrightarrow> c \<in> set base64_alphabet"
  using groups_small [of 6 _ "map byte s"] alphabet_ok(1) by (auto simp: RawURLEncode_def encodeGroups_def)

lemma RawURLEncode_no_dot: "CHR ''.'' \<notin> set (RawURLEncode s)"
  using RawURLEncode_chars [of "CHR ''.''" s] alphabet_ok(3) by blast

lemma RawURLEncode_Nil_iff [simp]: "RawURLEncode s = [] \<longleftrightarrow> s = []"
proof
  assume "RawURLEncode s = []"
  then have "RawURLDecode (RawURLEncode s) = RawURLDecode (RawURLEncode [])" by (simp add: RawURLEncode_def encodeGroups_def groups_of_bytes_def)
  then show "s = []" by simp
qed (simp add: RawURLEncode_def encodeGroups_def groups_of_bytes_def)

section \<open>Decimal numbers\<close>

text \<open>\<open>fmt.Sprintf("%06d", n)\<close> for \<open>n\<close> below a million.\<close>

fun decimal :: "nat \<Rightarrow> nat \<Rightarrow> string" where
  "decimal 0 n = []"
| "decimal (Suc w) n = decimal w (n div 10) @ [digits ! (n mod 10)]"

lemma length_decimal [simp]: "length (decimal w n) = w"
  by (induction w n rule: decimal.induct) auto

lemma digits_nth: "i < 10 \<Longrightarrow> is_digit (digits ! i)"
proof -
  assume "i < 10"
  then have "digits ! i \<in> set digits" by (intro nth_mem) (simp add: digits_def)
  moreover have "\<forall>c \<in> set digits. is_digit c" by (simp add: digits_def is_digit_def byte_def)
  ultimately show ?thesis by blast
qed

lemma decimal_digits: "c \<in> set (decimal w n) \<Longrightarrow> is_digit c"
  by (induction w n rule: decimal.induct) (auto simp: digits_nth)

text \<open>\<open>strconv.Atoi\<close> accepts an optional sign and at least one digit, when the number fits.\<close>

definition atoi_ok :: "string \<Rightarrow> bool" where
  "atoi_ok s \<longleftrightarrow> (let ds = (if s \<noteq> [] \<and> (hd s = CHR ''-'' \<or> hd s = CHR ''+'') then tl s else s)
     in ds \<noteq> [] \<and> list_all is_digit ds)"

lemma atoi_ok_decimal: "0 < w \<Longrightarrow> atoi_ok (decimal w n)"
proof -
  assume w: "0 < w"
  have d: "\<forall>c \<in> set (decimal w n). is_digit c" using decimal_digits by blast
  have "\<not> is_digit (CHR ''-'')" "\<not> is_digit (CHR ''+'')" by (simp_all add: is_digit_def byte_def)
  moreover from w obtain x xs where "decimal w n = x # xs" by (cases "decimal w n") (auto dest: arg_cong [of _ _ length])
  ultimately show ?thesis using d by (auto simp: atoi_ok_def list_all_iff)
qed

lemma decimal_plain: "TrimSpace (decimal w n) = decimal w n"
proof -
  have "\<forall>c \<in> set (decimal w n). \<not> is_space c" using decimal_digits by (fastforce simp: is_digit_def is_space_def)
  then have "dropWhile is_space (decimal w n) = decimal w n" "dropWhile is_space (rev (decimal w n)) = rev (decimal w n)"
    unfolding dropWhile_eq_self_iff by (metis hd_in_set set_rev)+
  then show ?thesis by (simp add: TrimSpace_def TrimFunc_def)
qed

end
