(* ===== verification/Auth_Tokens.thy ===== *)
theory Auth_Tokens
  imports Store_Types Encodings "HOL-Library.Signed_Division"
begin

text \<open>
  internal/control/auth.go: session tokens, password hashes and one-time codes. The hash functions, the JSON
  coding of the claims and the random salts are parameters (\<open>AuthLib\<close>); the theorems name the documented
  facts about them that they use. The signing key is the byte string of the secret.
\<close>

section \<open>The library functions\<close>

record TokenClaims =
  Claim_Subject :: string
  Claim_Email :: string
  Claim_Role :: string
  Claim_TokenVersion :: int
  Claim_Expires :: int
  Claim_Audience :: string
  Claim_ProjectRef :: string

record AuthLib =
  lib_sha256 :: "string \<Rightarrow> string"
  lib_hmac_sha256 :: "string \<Rightarrow> string \<Rightarrow> string"
  lib_hmac_sha1 :: "string \<Rightarrow> string \<Rightarrow> string"
  lib_bcrypt_hash :: "string \<Rightarrow> string option"
  lib_bcrypt_check :: "string \<Rightarrow> string \<Rightarrow> bool"
  lib_salt :: "string option"
  lib_marshal :: "TokenClaims \<Rightarrow> string"
  lib_unmarshal :: "string \<Rightarrow> TokenClaims option"

definition unix_seconds :: "time \<Rightarrow> int" where
  "unix_seconds t = t div second_ns - 62135596800"

section \<open>Tokens\<close>

record AuthService =
  Auth_secret :: string

definition NewAuthService :: "string \<Rightarrow> AuthService" where
  "NewAuthService secret = \<lparr>Auth_secret = (if secret = [] then ''dev-only-change-me'' else secret)\<rparr>"

definition AuthSecretFromEnv :: "(string \<Rightarrow> string) \<Rightarrow> string" where
  "AuthSecretFromEnv getenv =
     (let secret = TrimSpace (getenv ''SUPADUPA_AUTH_SECRET'') in
      if secret \<noteq> [] then secret else TrimSpace (getenv ''SUPADUPA_SECRET_KEY''))"

definition nextTokenVersion :: "int \<Rightarrow> int" where
  "nextTokenVersion current = (if current < 1 then 1 else current + 1)"

definition sign :: "AuthLib \<Rightarrow> AuthService \<Rightarrow> string \<Rightarrow> string" where
  "sign k a body = RawURLEncode (lib_hmac_sha256 k (Auth_secret a) body)"

definition issuedClaims :: "User \<Rightarrow> time \<Rightarrow> TokenClaims" where
  "issuedClaims user expires =
     \<lparr>Claim_Subject = User_ID user, Claim_Email = User_Email user, Claim_Role = User_Role user,
      Claim_TokenVersion = nextTokenVersion (User_TokenVersion user - 1), Claim_Expires = unix_seconds expires,
      Claim_Audience = [], Claim_ProjectRef = []\<rparr>"

definition Issue :: "AuthLib \<Rightarrow> AuthService \<Rightarrow> User \<Rightarrow> time \<Rightarrow> int \<Rightarrow> string" where
  "Issue k a user now ttl =
     (let body = RawURLEncode (lib_marshal k (issuedClaims user (now + ttl))) in body @ ''.'' @ sign k a body)"

definition Verify :: "AuthLib \<Rightarrow> AuthService \<Rightarrow> string \<Rightarrow> time \<Rightarrow> TokenClaims res" where
  "Verify k a token now =
     (case Cut (CHR ''.'') token of (body, signature, ok) \<Rightarrow>
      if \<not> ok \<or> body = [] \<or> signature = [] then Inl (ErrOther ''invalid token'')
      else if signature \<noteq> sign k a body then Inl (ErrOther ''invalid token signature'')
      else (case RawURLDecode body of
              None \<Rightarrow> Inl (ErrOther ''illegal base64 data'')
            | Some payload \<Rightarrow>
                (case lib_unmarshal k payload of
                   None \<Rightarrow> Inl (ErrOther ''invalid claims'')
                 | Some claims \<Rightarrow>
                     if unix_seconds now > Claim_Expires claims then Inl (ErrOther ''token expired'') else Inr claims)))"

section \<open>Passwords\<close>

definition minUserPasswordBytes :: nat where "minUserPasswordBytes = 12"

definition commonUserPasswords :: "string list" where
  "commonUserPasswords =
     [''adminadmin'', ''adminpassword'', ''changeme'', ''change-me'', ''dev-only-change-me'', ''password'', ''password1'',
      ''password12'', ''password123'', ''password1234'', ''password12345'', ''password123456'', ''supadupa'',
      ''supadupa-password'', ''supadupa123'', ''supadupa1234'', ''temporary-password'', ''test-password'',
      ''test-password-123'', ''welcome123'', ''welcome1234'', ''your-password-here'', ''yourpasswordhere'']"

definition validateUserPassword :: "string \<Rightarrow> bool \<Rightarrow> unit res" where
  "validateUserPassword password required =
     (if password = [] then (if required then Inl (ErrOther ''password is required'') else Inr ())
      else if TrimSpace password \<noteq> password then Inl (ErrOther ''password must not start or end with whitespace'')
      else if \<exists>c \<in> set password. byte c \<in> {13, 10, 9} then Inl (ErrOther ''password must not contain control whitespace'')
      else if length password < minUserPasswordBytes then Inl (ErrOther ''password must be at least 12 characters'')
      else if ToLower password \<in> set commonUserPasswords then Inl (ErrOther ''password is too common'')
      else Inr ())"

definition password_digest :: "AuthLib \<Rightarrow> string \<Rightarrow> string" where
  "password_digest k password = HexEncode (lib_sha256 k password)"

definition hashPassword :: "AuthLib \<Rightarrow> string \<Rightarrow> string" where
  "hashPassword k password =
     (case lib_bcrypt_hash k (password_digest k password) of
        Some hashed \<Rightarrow> ''bcrypt-sha256$'' @ hashed
      | None \<Rightarrow> (case lib_salt k of
            None \<Rightarrow> ''sha256$'' @ password_digest k password
          | Some salt \<Rightarrow> let saltHex = HexEncode salt in ''sha256$'' @ saltHex @ ''$'' @ password_digest k (saltHex @ password)))"

definition verifyPasswordWithRehash :: "AuthLib \<Rightarrow> string \<Rightarrow> string \<Rightarrow> bool \<times> bool" where
  "verifyPasswordWithRehash k password encoded =
     (let hash = TrimPrefix encoded ''bcrypt-sha256$'' in
      if hash \<noteq> encoded then (lib_bcrypt_check k hash (password_digest k password), False)
      else (case Split (CHR ''$'') encoded of
              [_, digest] \<Rightarrow> (digest = password_digest k password, True)
            | [_, salt, digest] \<Rightarrow> (digest = password_digest k (salt @ password), True)
            | _ \<Rightarrow> (False, False)))"

definition verifyPassword :: "AuthLib \<Rightarrow> string \<Rightarrow> string \<Rightarrow> bool" where
  "verifyPassword k password encoded = fst (verifyPasswordWithRehash k password encoded)"

section \<open>One-time codes\<close>

definition ToUpper :: "string \<Rightarrow> string" where
  "ToUpper s = map (\<lambda>c. if is_lower c then char_of (byte c - 32) else c) s"

text \<open>The eight bytes of the counter, most significant first.\<close>

fun big_endian :: "nat \<Rightarrow> nat \<Rightarrow> string" where
  "big_endian 0 n = []"
| "big_endian (Suc w) n = big_endian w (n div 256) @ [char_of (n mod 256)]"

definition truncated :: "string \<Rightarrow> nat" where
  "truncated mac =
     (let offset = byte (last mac) mod 16
      in (byte (mac ! offset) mod 128) * 2 ^ 24 + byte (mac ! (offset + 1)) * 2 ^ 16 +
         byte (mac ! (offset + 2)) * 2 ^ 8 + byte (mac ! (offset + 3)))"

definition TOTPCodeForCounter :: "AuthLib \<Rightarrow> string \<Rightarrow> nat \<Rightarrow> string option" where
  "TOTPCodeForCounter k secret counter =
     map_option (\<lambda>key. decimal 6 (truncated (lib_hmac_sha1 k key (big_endian 8 counter)) mod 1000000))
       (Base32Decode (ToUpper (TrimSpace secret)))"

text \<open>Go's division of a negative number rounds towards zero.\<close>

definition timeStep :: "time \<Rightarrow> int" where
  "timeStep t = unix_seconds t sdiv 30"

definition TOTPCode :: "AuthLib \<Rightarrow> string \<Rightarrow> time \<Rightarrow> string option" where
  "TOTPCode k secret t = TOTPCodeForCounter k secret (nat (timeStep t mod 2 ^ 64))"

fun tryCounters :: "AuthLib \<Rightarrow> string \<Rightarrow> string \<Rightarrow> int list \<Rightarrow> nat option" where
  "tryCounters k secret code [] = None"
| "tryCounters k secret code (counter # counters) =
     (if counter < 0 then tryCounters k secret code counters
      else if TOTPCodeForCounter k secret (nat counter) = Some code then Some (nat counter)
      else tryCounters k secret code counters)"

definition VerifyTOTPCodeCounter :: "AuthLib \<Rightarrow> string \<Rightarrow> string \<Rightarrow> time \<Rightarrow> nat option" where
  "VerifyTOTPCodeCounter k secret code t =
     (let code = TrimSpace code in
      if length code \<noteq> 6 \<or> \<not> atoi_ok code then None
      else let current = timeStep t in tryCounters k secret code (map (\<lambda>offset. current + offset) [-1, 0, 1]))"

definition VerifyTOTPCode :: "AuthLib \<Rightarrow> string \<Rightarrow> string \<Rightarrow> time \<Rightarrow> bool" where
  "VerifyTOTPCode k secret code t = (VerifyTOTPCodeCounter k secret code t \<noteq> None)"

section \<open>Lemmas\<close>

lemma Cut_not_ok: "Cut c s = (b, a, ok) \<Longrightarrow> c \<in> set s \<Longrightarrow> ok"
  by (induction s arbitrary: b) (auto split: if_splits prod.splits)

lemma Verify_Inr:
  assumes "Verify k a token now = Inr claims"
  obtains body payload where "token = body @ ''.'' @ sign k a body" and "CHR ''.'' \<notin> set body"
    and "RawURLDecode body = Some payload" and "lib_unmarshal k payload = Some claims"
    and "unix_seconds now \<le> Claim_Expires claims"
proof -
  obtain body signature ok where cut: "Cut (CHR ''.'') token = (body, signature, ok)" by (cases "Cut (CHR ''.'') token")
  with assms have ok: "ok" and sig: "signature = sign k a body" by (auto simp: Verify_def split: if_splits)
  from assms cut sig obtain payload where p: "RawURLDecode body = Some payload" "lib_unmarshal k payload = Some claims"
      "unix_seconds now \<le> Claim_Expires claims"
    by (auto simp: Verify_def split: if_splits option.splits)
  have "token = body @ CHR ''.'' # signature \<and> CHR ''.'' \<notin> set body" using Cut_ok cut ok by simp
  with p sig that show ?thesis by simp
qed

lemma Verify_signed:
  assumes "CHR ''.'' \<notin> set body" and "body \<noteq> []" and "sign k a body \<noteq> []"
    and "RawURLDecode body = Some payload" and "lib_unmarshal k payload = Some claims" and "unix_seconds now \<le> Claim_Expires claims"
  shows "Verify k a (body @ ''.'' @ sign k a body) now = Inr claims"
  using assms by (simp add: Verify_def Cut_sep)

lemma hex_no_dollar: "CHR ''$'' \<notin> set (HexEncode s)"
proof
  assume "CHR ''$'' \<in> set (HexEncode s)"
  then obtain g where g: "g \<in> set (groups_of_bytes 4 (map byte s))" "CHR ''$'' = hex_alphabet ! g"
    by (auto simp: HexEncode_def encodeGroups_def)
  moreover have "length hex_alphabet = 2 ^ 4" by (simp add: hex_alphabet_def digits_def)
  ultimately have "g < length hex_alphabet" using groups_small [of 4 g "map byte s"] by simp
  then have "CHR ''$'' \<in> set hex_alphabet" using g(2) nth_mem by metis
  then show False by (simp add: hex_alphabet_def digits_def)
qed

lemma tryCounters_Some:
  "tryCounters k secret code cs = Some n \<Longrightarrow> int n \<in> set cs \<and> TOTPCodeForCounter k secret n = Some code"
  by (induction cs) (auto split: if_splits)

lemma tryCounters_None: "tryCounters k secret code cs = None \<Longrightarrow> c \<in> set cs \<Longrightarrow> 0 \<le> c \<Longrightarrow> TOTPCodeForCounter k secret (nat c) \<noteq> Some code"
  by (induction cs) (auto split: if_splits)

section \<open>Properties\<close>

text \<open>C29. Nothing but a token signed with the secret is accepted: an accepted token is a body, a dot and exactly
  the HMAC of that body, the claims are what the body decodes to, and they have not expired. In particular two
  accepted tokens with the same body are the same token.\<close>

theorem accepted_token_is_signed:
  assumes "Verify k a token now = Inr claims"
  shows "\<exists>body payload. token = body @ ''.'' @ RawURLEncode (lib_hmac_sha256 k (Auth_secret a) body) \<and>
    CHR ''.'' \<notin> set body \<and> RawURLDecode body = Some payload \<and> lib_unmarshal k payload = Some claims \<and>
    unix_seconds now \<le> Claim_Expires claims"
  using Verify_Inr [OF assms] unfolding sign_def by metis

text \<open>C30. Issuing and verifying are inverse: with the same secret, a token verifies to exactly the claims it was
  issued with until its expiry second has passed, and is refused as expired afterwards.\<close>

theorem issued_token_verifies:
  assumes json: "lib_unmarshal k (lib_marshal k (issuedClaims user (now + ttl))) = Some (issuedClaims user (now + ttl))"
    and "lib_marshal k (issuedClaims user (now + ttl)) \<noteq> []" and mac: "\<And>msg. lib_hmac_sha256 k (Auth_secret a) msg \<noteq> []"
  shows "Verify k a (Issue k a user now ttl) later =
    (if unix_seconds later \<le> unix_seconds (now + ttl) then Inr (issuedClaims user (now + ttl)) else Inl (ErrOther ''token expired''))"
proof -
  let ?body = "RawURLEncode (lib_marshal k (issuedClaims user (now + ttl)))"
  have "sign k a ?body \<noteq> []" using mac by (simp add: sign_def)
  with assms(1,2) show ?thesis
    by (simp add: Issue_def Verify_def Let_def Cut_sep [OF RawURLEncode_no_dot] not_less) (simp add: issuedClaims_def)
qed

text \<open>A library that is enough for examples: the tag of a message is its length, JSON keeps two fields.\<close>

definition demo_user :: User where
  "demo_user = \<lparr>User_ID = ''u1'', User_Email = ''a@b.c'', User_PasswordHash = [], User_Role = ''member'', User_MFAEnabled = True,
     User_MFASecret = ''MFRGG'', User_MFAPendingSecret = [], User_MFAConfirmedAt = 0, User_MFAUpdatedAt = 0, User_MFALastCounter = 0,
     User_TokenVersion = 1, User_CreatedAt = 1, User_LastLoginAt = None\<rparr>"

definition demo_claims :: TokenClaims where
  "demo_claims = issuedClaims demo_user (62135596800 * second_ns + 10 * second_ns)"

definition demo_lib :: AuthLib where
  "demo_lib = \<lparr>lib_sha256 = (\<lambda>m. rev m), lib_hmac_sha256 = (\<lambda>key m. key @ [char_of (length m)]),
     lib_hmac_sha1 = (\<lambda>key m. take 20 (m @ m @ m)), lib_bcrypt_hash = (\<lambda>d. Some d), lib_bcrypt_check = (\<lambda>h d. h = d),
     lib_salt = Some ''salt'', lib_marshal = (\<lambda>c. Claim_Subject c), lib_unmarshal = (\<lambda>p. if p = ''u1'' then Some demo_claims else None)\<rparr>"

definition demo_auth :: AuthService where
  "demo_auth = NewAuthService ''secret''"

abbreviation demo_time :: time where
  "demo_time \<equiv> 62135596800 * second_ns"

lemma demo_issue: "later div second_ns \<le> 62135596810 \<Longrightarrow>
    Verify demo_lib demo_auth (Issue demo_lib demo_auth demo_user demo_time (10 * second_ns)) later = Inr demo_claims"
proof -
  assume "later div second_ns \<le> 62135596810"
  then have "unix_seconds later \<le> Claim_Expires demo_claims"
    by (simp add: demo_claims_def issuedClaims_def unix_seconds_def second_ns_def)
  moreover have "issuedClaims demo_user (demo_time + 10 * second_ns) = demo_claims" by (simp add: demo_claims_def)
  moreover have "lib_marshal demo_lib demo_claims = ''u1''" "lib_unmarshal demo_lib ''u1'' = Some demo_claims"
    by (simp_all add: demo_lib_def demo_claims_def issuedClaims_def demo_user_def)
  moreover have "sign demo_lib demo_auth b \<noteq> []" for b by (simp add: sign_def demo_lib_def)
  ultimately show ?thesis
    unfolding Issue_def Let_def by (intro Verify_signed [OF RawURLEncode_no_dot]) simp_all
qed

theorem accepted_token_is_signed_witness:
  "\<exists>token body. Verify demo_lib demo_auth token demo_time = Inr demo_claims \<and>
     token = body @ ''.'' @ RawURLEncode (lib_hmac_sha256 demo_lib (Auth_secret demo_auth) body)"
proof -
  have v: "Verify demo_lib demo_auth (Issue demo_lib demo_auth demo_user demo_time (10 * second_ns)) demo_time = Inr demo_claims"
    by (rule demo_issue) (simp add: second_ns_def)
  from accepted_token_is_signed [OF v] v show ?thesis by blast
qed

theorem issued_token_verifies_witness:
  "Verify demo_lib demo_auth (Issue demo_lib demo_auth demo_user demo_time (10 * second_ns)) (demo_time + 11 * second_ns) =
     Inl (ErrOther ''token expired'')"
proof -
  have c: "issuedClaims demo_user (demo_time + 10 * second_ns) = demo_claims" by (simp add: demo_claims_def)
  have "lib_marshal demo_lib demo_claims = ''u1''" "lib_unmarshal demo_lib ''u1'' = Some demo_claims"
    by (simp_all add: demo_lib_def demo_claims_def issuedClaims_def demo_user_def)
  moreover have "lib_hmac_sha256 demo_lib (Auth_secret demo_auth) msg \<noteq> []" for msg by (simp add: demo_lib_def)
  ultimately have "Verify demo_lib demo_auth (Issue demo_lib demo_auth demo_user demo_time (10 * second_ns)) (demo_time + 11 * second_ns) =
     (if unix_seconds (demo_time + 11 * second_ns) \<le> unix_seconds (demo_time + 10 * second_ns)
      then Inr (issuedClaims demo_user (demo_time + 10 * second_ns)) else Inl (ErrOther ''token expired''))"
    using c by (intro issued_token_verifies) simp_all
  then show ?thesis by (simp add: unix_seconds_def second_ns_def)
qed

text \<open>C31. A password verifies against the hash made of it, whichever of the three formats the hash has (bcrypt, the
  salted fallback, the unsalted fallback); only the fallback formats ask for a new hash.\<close>

theorem password_roundtrip:
  assumes "\<And>digest h. lib_bcrypt_hash k digest = Some h \<Longrightarrow> lib_bcrypt_check k h digest"
  shows "verifyPasswordWithRehash k password (hashPassword k password) =
    (True, lib_bcrypt_hash k (password_digest k password) = None)"
proof (cases "lib_bcrypt_hash k (password_digest k password)")
  case (Some h)
  then show ?thesis using assms by (simp add: hashPassword_def verifyPasswordWithRehash_def TrimPrefix_def HasPrefix_def Let_def)
next
  case None
  have pre: "TrimPrefix (''sha256$'' @ s) ''bcrypt-sha256$'' = ''sha256$'' @ s" for s
    by (simp add: TrimPrefix_def HasPrefix_def)
  have split: "Split (CHR ''$'') (''sha256$'' @ s) = ''sha256'' # Split (CHR ''$'') s" for s
    using Split_append_sep [of "CHR ''$''" "''sha256''" s] by simp
  have d: "Split (CHR ''$'') (password_digest k p) = [password_digest k p]" for p
    by (simp add: password_digest_def Split_id hex_no_dollar)
  show ?thesis
  proof (cases "lib_salt k")
    case None
    with \<open>lib_bcrypt_hash k _ = None\<close> show ?thesis
      by (simp only: hashPassword_def verifyPasswordWithRehash_def Let_def option.case pre split d) simp
  next
    case (Some salt)
    have "Split (CHR ''$'') (HexEncode salt @ ''$'' @ password_digest k p) = [HexEncode salt, password_digest k p]" for p
      using Split_append_sep [OF hex_no_dollar, of salt "password_digest k p"] d by simp
    with \<open>lib_bcrypt_hash k _ = None\<close> Some show ?thesis
      by (simp only: hashPassword_def verifyPasswordWithRehash_def Let_def option.case pre split) simp
  qed
qed

theorem password_roundtrip_witness:
  "verifyPasswordWithRehash demo_lib ''correct horse'' (hashPassword demo_lib ''correct horse'') = (True, False)"
  using password_roundtrip [of demo_lib "''correct horse''"] by (simp add: demo_lib_def)

text \<open>One-time codes: a code is accepted exactly when it is, up to surrounding spaces, the code of one of the
  three time steps around the current one; the step that is reported is one of these, and the code shown at a
  time within one step of the current one is accepted.\<close>

theorem totp_window:
  "(VerifyTOTPCodeCounter k secret code t = None \<longleftrightarrow>
      (\<nexists>n. \<bar>int n - timeStep t\<bar> \<le> 1 \<and> TOTPCodeForCounter k secret n = Some (TrimSpace code))) \<and>
   (case VerifyTOTPCodeCounter k secret code t of None \<Rightarrow> True
    | Some n \<Rightarrow> \<bar>int n - timeStep t\<bar> \<le> 1 \<and> TOTPCodeForCounter k secret n = Some (TrimSpace code))"
proof (cases "VerifyTOTPCodeCounter k secret code t")
  case (Some n)
  then have "tryCounters k secret (TrimSpace code) (map (\<lambda>offset. timeStep t + offset) [-1, 0, 1]) = Some n"
    by (auto simp: VerifyTOTPCodeCounter_def Let_def split: if_splits)
  from tryCounters_Some [OF this] have n: "\<bar>int n - timeStep t\<bar> \<le> 1" "TOTPCodeForCounter k secret n = Some (TrimSpace code)"
    by auto
  then have "\<exists>n. \<bar>int n - timeStep t\<bar> \<le> 1 \<and> TOTPCodeForCounter k secret n = Some (TrimSpace code)" by blast
  with n Some show ?thesis by simp
next
  case None
  have "TOTPCodeForCounter k secret n \<noteq> Some (TrimSpace code)" if n: "\<bar>int n - timeStep t\<bar> \<le> 1" for n
  proof
    assume c: "TOTPCodeForCounter k secret n = Some (TrimSpace code)"
    then obtain m where m: "decimal 6 m = TrimSpace code" by (auto simp: TOTPCodeForCounter_def)
    have "atoi_ok (TrimSpace code)" "length (TrimSpace code) = 6" unfolding m [symmetric] by (simp_all add: atoi_ok_decimal)
    with None have none: "tryCounters k secret (TrimSpace code) (map (\<lambda>offset. timeStep t + offset) [-1, 0, 1]) = None"
      by (simp add: VerifyTOTPCodeCounter_def Let_def)
    have "int n \<in> set (map (\<lambda>offset. timeStep t + offset) [-1, 0, 1])" using n by auto
    from tryCounters_None [OF none this] c show False by simp
  qed
  with None show ?thesis by auto
qed

end
