(* ===== verification/Users.thy ===== *)
theory Users
  imports Auth_Tokens
begin

text \<open>
  The user accounts of the store (internal/control/store.go): creating, changing and deleting users, logging
  in, and the second factor; and the check of internal/api/authz_helpers.go that a token still speaks for the
  current state of its user. A token carries the token version of its user, which every change of the
  security state must raise.
\<close>

section \<open>Users\<close>

record CreateUserRequest =
  NewUser_Email :: string
  NewUser_Password :: string
  NewUser_Role :: string

record UpdateUserRequest =
  UpdUser_Email :: string
  UpdUser_Password :: string
  UpdUser_Role :: string

record MFAStatus =
  MFA_UserID :: string
  MFA_Email :: string
  MFA_Enabled :: bool
  MFA_Pending :: bool
  MFA_ConfirmedAt :: "time option"
  MFA_UpdatedAt :: time

record MFAEnrollment =
  Enroll_Status :: MFAStatus
  Enroll_Secret :: string
  Enroll_OTPAuthURL :: string

definition userByIDLocked :: "string \<Rightarrow> MemoryStore \<Rightarrow> User option" where
  "userByIDLocked i s = find (\<lambda>u. User_ID u = i) (values_of (s_users s))"

definition putUser :: "User \<Rightarrow> MemoryStore \<Rightarrow> MemoryStore" where
  "putUser user s = s\<lparr>s_users := AList.update (User_Email user) user (s_users s)\<rparr>"

definition freshUser :: "OpCtx \<Rightarrow> string \<Rightarrow> string \<Rightarrow> string \<Rightarrow> int \<Rightarrow> User" where
  "freshUser c email hash role version =
     \<lparr>User_ID = ctx_newID c, User_Email = email, User_PasswordHash = hash, User_Role = role, User_MFAEnabled = False,
      User_MFASecret = [], User_MFAPendingSecret = [], User_MFAConfirmedAt = 0, User_MFAUpdatedAt = 0,
      User_MFALastCounter = 0, User_TokenVersion = version, User_CreatedAt = ctx_now c, User_LastLoginAt = None\<rparr>"

definition CreateUser :: "OpCtx \<Rightarrow> AuthLib \<Rightarrow> CreateUserRequest \<Rightarrow> MemoryStore \<Rightarrow> User op" where
  "CreateUser c k req s =
     (let email = ToLower (TrimSpace (NewUser_Email req)) in
      and_then (check (email \<noteq> []) (ErrOther ''email is required'')) (\<lambda>_.
      and_then (validateUserPassword (NewUser_Password req) True) (\<lambda>_.
      let role = (if NewUser_Role req = [] then ''admin'' else NewUser_Role req);
          user = freshUser c email (hashPassword k (NewUser_Password req)) role 1 in
      and_then (check (map_of (s_users s) email = None) (ErrConflict ''user already exists'')) (\<lambda>_.
      Inr (putUser user s, user)))))"

text \<open>Renaming a user in the maps that are keyed by email.\<close>

definition renameMember :: "string \<Rightarrow> string \<Rightarrow> (string, Membership) gomap \<Rightarrow> (string, Membership) gomap" where
  "renameMember old new members =
     (case map_of members old of
        None \<Rightarrow> members
      | Some m \<Rightarrow> AList.update new (m\<lparr>Member_Email := new\<rparr>) (AList.delete old members))"

definition renameTeamMember :: "string \<Rightarrow> string \<Rightarrow> (string, TeamMember) gomap \<Rightarrow> (string, TeamMember) gomap" where
  "renameTeamMember old new members =
     (case map_of members old of
        None \<Rightarrow> members
      | Some m \<Rightarrow> AList.update new (m\<lparr>TM_Email := new\<rparr>) (AList.delete old members))"

definition is_user_grant :: "string \<Rightarrow> ProjectAccessGrant \<Rightarrow> bool" where
  "is_user_grant i g \<longleftrightarrow> Grant_SubjectType g = ''user'' \<and> Grant_SubjectID g = i"

definition renameUser :: "User \<Rightarrow> string \<Rightarrow> string \<Rightarrow> MemoryStore \<Rightarrow> MemoryStore" where
  "renameUser user old new s =
     s\<lparr>s_users := AList.delete old (s_users s),
       s_memberships := AList.map_ran (\<lambda>_. renameMember old new) (s_memberships s),
       s_teamMembers := AList.map_ran (\<lambda>_. renameTeamMember old new) (s_teamMembers s),
       s_projectAccess := AList.map_ran (\<lambda>_. map (\<lambda>g. if is_user_grant (User_ID user) g then g\<lparr>Grant_SubjectName := new\<rparr> else g))
         (s_projectAccess s)\<rparr>"

definition nextRole :: "UpdateUserRequest \<Rightarrow> string" where
  "nextRole req = (if TrimSpace (UpdUser_Role req) = [] then ''member'' else TrimSpace (UpdUser_Role req))"

definition securityStateChanged :: "UpdateUserRequest \<Rightarrow> string \<Rightarrow> User \<Rightarrow> bool" where
  "securityStateChanged req currentEmail user \<longleftrightarrow> currentEmail \<noteq> ToLower (TrimSpace (UpdUser_Email req)) \<or>
     User_Role user \<noteq> nextRole req \<or> UpdUser_Password req \<noteq> []"

definition updatedUser :: "AuthLib \<Rightarrow> UpdateUserRequest \<Rightarrow> string \<Rightarrow> User \<Rightarrow> User" where
  "updatedUser k req currentEmail user =
     (let changed = securityStateChanged req currentEmail user;
          user = user\<lparr>User_Email := ToLower (TrimSpace (UpdUser_Email req)), User_Role := nextRole req\<rparr>;
          user = (if UpdUser_Password req \<noteq> [] then user\<lparr>User_PasswordHash := hashPassword k (UpdUser_Password req)\<rparr> else user)
      in (if changed then user\<lparr>User_TokenVersion := nextTokenVersion (User_TokenVersion user)\<rparr> else user))"

definition UpdateUser :: "AuthLib \<Rightarrow> string \<Rightarrow> UpdateUserRequest \<Rightarrow> MemoryStore \<Rightarrow> User op" where
  "UpdateUser k i req s =
     (let i = TrimSpace i in
      and_then (check (i \<noteq> []) (ErrOther ''user id is required'')) (\<lambda>_.
      let nextEmail = ToLower (TrimSpace (UpdUser_Email req)) in
      and_then (check (nextEmail \<noteq> []) (ErrOther ''email is required'')) (\<lambda>_.
      and_then (validateUserPassword (UpdUser_Password req) False) (\<lambda>_.
      case find (\<lambda>(email, u). User_ID u = i) (s_users s) of
        None \<Rightarrow> Inl (ErrNotFound ''user'')
      | Some (currentEmail, user) \<Rightarrow>
          and_then (check (currentEmail \<noteq> []) (ErrNotFound ''user'')) (\<lambda>_.
          and_then (check (\<not> (currentEmail \<noteq> nextEmail \<and> map_of (s_users s) nextEmail \<noteq> None)) (ErrConflict ''user already exists'')) (\<lambda>_.
          let s = (if currentEmail \<noteq> nextEmail then renameUser user currentEmail nextEmail s else s);
              user = updatedUser k req currentEmail user
          in Inr (putUser user s, user)))))))"

definition DeleteUser :: "string \<Rightarrow> MemoryStore \<Rightarrow> unit op" where
  "DeleteUser i s =
     (let i = TrimSpace i in
      and_then (check (i \<noteq> []) (ErrOther ''user id is required'')) (\<lambda>_.
      case find (\<lambda>(email, u). User_ID u = i) (s_users s) of
        None \<Rightarrow> Inl (ErrNotFound ''user'')
      | Some (email, _) \<Rightarrow>
          and_then (check (email \<noteq> []) (ErrNotFound ''user'')) (\<lambda>_.
          Inr (s\<lparr>s_users := AList.delete email (s_users s),
                 s_memberships := AList.map_ran (\<lambda>_. AList.delete email) (s_memberships s),
                 s_teamMembers := AList.map_ran (\<lambda>_. AList.delete email) (s_teamMembers s),
                 s_projectAccess := AList.map_ran (\<lambda>_. filter (\<lambda>g. \<not> is_user_grant i g)) (s_projectAccess s)\<rparr>, ()))))"

definition ListUsers :: "MemoryStore \<Rightarrow> User list" where
  "ListUsers s = sort_slice (\<lambda>a b. User_Email a < User_Email b) (values_of (s_users s))"

definition GetUserByID :: "string \<Rightarrow> MemoryStore \<Rightarrow> User res" where
  "GetUserByID i s = (case userByIDLocked i s of None \<Rightarrow> Inl (ErrNotFound ''user'') | Some user \<Rightarrow> Inr user)"

definition HasUsers :: "MemoryStore \<Rightarrow> bool" where
  "HasUsers s \<longleftrightarrow> length (s_users s) > 0"

definition withUser :: "string \<Rightarrow> MemoryStore \<Rightarrow> (User \<Rightarrow> 'a res) \<Rightarrow> 'a res" where
  "withUser i s f = (case userByIDLocked i s of None \<Rightarrow> Inl (ErrNotFound ''user'') | Some user \<Rightarrow> f user)"

definition RecordUserLogin :: "OpCtx \<Rightarrow> string \<Rightarrow> MemoryStore \<Rightarrow> time op" where
  "RecordUserLogin c i s = withUser i s (\<lambda>user. Inr (putUser (user\<lparr>User_LastLoginAt := Some (ctx_now c)\<rparr>) s, ctx_now c))"

text \<open>Authentication reads the user under the read lock; the store may have moved on (\<open>later\<close>) when a stale
  hash format is replaced under the write lock.\<close>

definition AuthenticateUser :: "AuthLib \<Rightarrow> string \<Rightarrow> string \<Rightarrow> MemoryStore \<Rightarrow> MemoryStore \<Rightarrow> User op" where
  "AuthenticateUser k email password s later =
     (let email = ToLower (TrimSpace email); found = map_of (s_users s) email;
          hash = (case found of None \<Rightarrow> [] | Some u \<Rightarrow> User_PasswordHash u) in
      case verifyPasswordWithRehash k password hash of (verified, needsRehash) \<Rightarrow>
      (case found of
         None \<Rightarrow> Inl (ErrNotFound ''invalid credentials'')
       | Some user \<Rightarrow>
           if \<not> verified then Inl (ErrNotFound ''invalid credentials'')
           else if needsRehash then
             (case map_of (s_users later) email of
                None \<Rightarrow> Inr (later, user)
              | Some current \<Rightarrow>
                  if User_PasswordHash current = User_PasswordHash user
                  then let hash = hashPassword k password
                       in Inr (later\<lparr>s_users := AList.update email (current\<lparr>User_PasswordHash := hash\<rparr>) (s_users later)\<rparr>,
                               user\<lparr>User_PasswordHash := hash\<rparr>)
                  else Inr (later, user))
           else Inr (later, user)))"

section \<open>The second factor\<close>

definition mfaStatusForUser :: "User \<Rightarrow> MFAStatus" where
  "mfaStatusForUser user =
     \<lparr>MFA_UserID = User_ID user, MFA_Email = User_Email user, MFA_Enabled = User_MFAEnabled user,
      MFA_Pending = (User_MFAPendingSecret user \<noteq> []),
      MFA_ConfirmedAt = (if \<not> IsZero (User_MFAConfirmedAt user) then Some (User_MFAConfirmedAt user) else None),
      MFA_UpdatedAt = (if IsZero (User_MFAUpdatedAt user) then User_CreatedAt user else User_MFAUpdatedAt user)\<rparr>"

definition GetUserMFAStatus :: "string \<Rightarrow> MemoryStore \<Rightarrow> MFAStatus res" where
  "GetUserMFAStatus i s = withUser i s (\<lambda>user. Inr (mfaStatusForUser user))"

definition verifiedUser :: "int \<Rightarrow> nat \<Rightarrow> User \<Rightarrow> User" where
  "verifiedUser now counter user = user\<lparr>User_MFALastCounter := int counter, User_MFAUpdatedAt := now\<rparr>"

definition VerifyUserMFA :: "OpCtx \<Rightarrow> AuthLib \<Rightarrow> string \<Rightarrow> string \<Rightarrow> MemoryStore \<Rightarrow> User op" where
  "VerifyUserMFA c k i code s = withUser i s (\<lambda>user.
     and_then (check (\<not> (\<not> User_MFAEnabled user \<or> User_MFASecret user = [])) (ErrOther ''mfa is not enabled'')) (\<lambda>_.
     case VerifyTOTPCodeCounter k (User_MFASecret user) code (ctx_now c) of
       None \<Rightarrow> Inl (ErrOther ''invalid mfa code'')
     | Some counter \<Rightarrow>
         and_then (check (\<not> int counter \<le> User_MFALastCounter user) (ErrOther ''mfa code has already been used'')) (\<lambda>_.
         let user = verifiedUser (ctx_now c) counter user
         in Inr (putUser user s, user))))"

text \<open>\<open>url.PathEscape\<close> and \<open>url.QueryEscape\<close>.\<close>

definition is_unreserved :: "char \<Rightarrow> bool" where
  "is_unreserved x \<longleftrightarrow> is_lower x \<or> is_upper x \<or> is_digit x \<or> x \<in> set ''-_.~''"

definition hex_upper :: "nat \<Rightarrow> char" where
  "hex_upper n = (digits @ ''ABCDEF'') ! n"

definition percent :: "char \<Rightarrow> string" where
  "percent x = [CHR ''%'', hex_upper (byte x div 16), hex_upper (byte x mod 16)]"

definition PathEscape :: "string \<Rightarrow> string" where
  "PathEscape s = concat (map (\<lambda>x. if is_unreserved x \<or> x \<in> set ''$&+=:@'' then [x] else percent x) s)"

definition QueryEscape :: "string \<Rightarrow> string" where
  "QueryEscape s = concat (map (\<lambda>x. if is_unreserved x then [x] else if x = CHR '' '' then ''+'' else percent x) s)"

definition TOTPAuthURL :: "string \<Rightarrow> string \<Rightarrow> string \<Rightarrow> string" where
  "TOTPAuthURL issuer account secret =
     ''otpauth://totp/'' @ PathEscape (issuer @ '':'' @ account) @ ''?'' @
     Join ''&'' (map (\<lambda>(key, v). key @ ''='' @ QueryEscape v)
       [(''algorithm'', ''SHA1''), (''digits'', ''6''), (''issuer'', issuer), (''period'', ''30''), (''secret'', secret)])"

text \<open>\<open>entropy\<close> is what the random source gives: twenty bytes, or an error.\<close>

definition GenerateTOTPSecret :: "string option \<Rightarrow> string res" where
  "GenerateTOTPSecret entropy = (case entropy of None \<Rightarrow> Inl (ErrOther ''random source'') | Some bytes \<Rightarrow> Inr (Base32Encode bytes))"

definition BeginUserMFAEnrollment :: "OpCtx \<Rightarrow> string option \<Rightarrow> string \<Rightarrow> MemoryStore \<Rightarrow> MFAEnrollment op" where
  "BeginUserMFAEnrollment c entropy i s =
     and_then (GenerateTOTPSecret entropy) (\<lambda>secret.
     withUser i s (\<lambda>user.
     let user = user\<lparr>User_MFAPendingSecret := secret, User_MFAUpdatedAt := ctx_now c\<rparr>
     in Inr (putUser user s, \<lparr>Enroll_Status = mfaStatusForUser user, Enroll_Secret = secret,
          Enroll_OTPAuthURL = TOTPAuthURL ''supadupa'' (User_Email user) secret\<rparr>)))"

definition confirmedUser :: "int \<Rightarrow> nat \<Rightarrow> User \<Rightarrow> User" where
  "confirmedUser now counter user =
     user\<lparr>User_MFASecret := User_MFAPendingSecret user, User_MFAPendingSecret := [], User_MFAEnabled := True,
       User_MFAConfirmedAt := now, User_MFAUpdatedAt := now, User_MFALastCounter := int counter,
       User_TokenVersion := nextTokenVersion (User_TokenVersion user)\<rparr>"

definition ConfirmUserMFA :: "OpCtx \<Rightarrow> AuthLib \<Rightarrow> string \<Rightarrow> string \<Rightarrow> MemoryStore \<Rightarrow> MFAStatus op" where
  "ConfirmUserMFA c k i code s = withUser i s (\<lambda>user.
     and_then (check (User_MFAPendingSecret user \<noteq> []) (ErrOther ''mfa enrollment is not pending'')) (\<lambda>_.
     case VerifyTOTPCodeCounter k (User_MFAPendingSecret user) code (ctx_now c) of
       None \<Rightarrow> Inl (ErrOther ''invalid mfa code'')
     | Some counter \<Rightarrow>
         let user = confirmedUser (ctx_now c) counter user
         in Inr (putUser user s, mfaStatusForUser user)))"

definition clearedPending :: "int \<Rightarrow> User \<Rightarrow> User" where
  "clearedPending now user = user\<lparr>User_MFAPendingSecret := [], User_MFAUpdatedAt := now,
     User_TokenVersion := nextTokenVersion (User_TokenVersion user)\<rparr>"

definition disabledUser :: "int \<Rightarrow> User \<Rightarrow> User" where
  "disabledUser now user = user\<lparr>User_MFAEnabled := False, User_MFASecret := [], User_MFAPendingSecret := [], User_MFAConfirmedAt := 0,
     User_MFAUpdatedAt := now, User_MFALastCounter := 0, User_TokenVersion := nextTokenVersion (User_TokenVersion user)\<rparr>"

definition DisableUserMFA :: "OpCtx \<Rightarrow> AuthLib \<Rightarrow> string \<Rightarrow> string \<Rightarrow> MemoryStore \<Rightarrow> MFAStatus op" where
  "DisableUserMFA c k i code s = withUser i s (\<lambda>user.
     if \<not> User_MFAEnabled user then
       let user = clearedPending (ctx_now c) user
       in Inr (putUser user s, mfaStatusForUser user)
     else (case VerifyTOTPCodeCounter k (User_MFASecret user) code (ctx_now c) of
       None \<Rightarrow> Inl (ErrOther ''invalid mfa code'')
     | Some counter \<Rightarrow>
         and_then (check (\<not> int counter \<le> User_MFALastCounter user) (ErrOther ''mfa code has already been used'')) (\<lambda>_.
         let user = disabledUser (ctx_now c) user
         in Inr (putUser user s, mfaStatusForUser user))))"

section \<open>Whether a token is current\<close>

definition tokenVersionMatches :: "int \<Rightarrow> int \<Rightarrow> bool" where
  "tokenVersionMatches userVersion claimVersion = ((if userVersion < 1 then 1 else userVersion) = claimVersion)"

datatype token_error = InvalidBearerToken | StaleBearerToken | StoreError err

definition currentUserForClaims :: "(string \<Rightarrow> User res) \<Rightarrow> TokenClaims \<Rightarrow> token_error + User" where
  "currentUserForClaims getUserByID claims =
     (if TrimSpace (Claim_Subject claims) = [] then Inl InvalidBearerToken
      else (case getUserByID (Claim_Subject claims) of
              Inl (ErrNotFound _) \<Rightarrow> Inl InvalidBearerToken
            | Inl e \<Rightarrow> Inl (StoreError e)
            | Inr user \<Rightarrow>
                if \<not> tokenVersionMatches (User_TokenVersion user) (Claim_TokenVersion claims) then Inl StaleBearerToken
                else Inr user))"

section \<open>The shape of the user table\<close>

definition users_ok :: "(string, User) gomap \<Rightarrow> bool" where
  "users_ok us \<longleftrightarrow> gomap_ok us \<and> (\<forall>e u. map_of us e = Some u \<longrightarrow> User_Email u = e \<and> e \<noteq> []) \<and>
     (\<forall>e u e' u'. map_of us e = Some u \<longrightarrow> map_of us e' = Some u' \<longrightarrow> User_ID u = User_ID u' \<longrightarrow> e = e')"

lemma users_okD:
  assumes "users_ok us"
  shows "gomap_ok us" and "map_of us e = Some u \<Longrightarrow> User_Email u = e" and "map_of us e = Some u \<Longrightarrow> e \<noteq> []"
    and "map_of us e = Some u \<Longrightarrow> map_of us e' = Some u' \<Longrightarrow> User_ID u = User_ID u' \<Longrightarrow> e = e'"
  using assms unfolding users_ok_def by blast+

lemma find_entry:
  assumes "gomap_ok m" and "find (\<lambda>(k, v). P v) m = Some (k, v)"
  shows "map_of m k = Some v" and "P v"
proof -
  obtain n where "n < length m" "m ! n = (k, v)" "P v" using assms(2) by (auto simp: find_Some_iff)
  then have "(k, v) \<in> set m" "P v" by (metis nth_mem)+
  with assms(1) show "map_of m k = Some v" "P v" by (simp_all add: gomap_mem_iff)
qed

lemma userByID_iff:
  assumes "users_ok (s_users s)"
  shows "userByIDLocked i s = Some u \<longleftrightarrow> User_ID u = i \<and> map_of (s_users s) (User_Email u) = Some u"
proof
  assume "userByIDLocked i s = Some u"
  then have "u \<in> set (values_of (s_users s))" "User_ID u = i"
    unfolding userByIDLocked_def by (auto simp: find_Some_iff)
  then obtain e where "map_of (s_users s) e = Some u"
    using users_okD(1) [OF assms] by (auto simp: values_of_def gomap_mem_iff)
  with users_okD(2) [OF assms] \<open>User_ID u = i\<close> show "User_ID u = i \<and> map_of (s_users s) (User_Email u) = Some u" by auto
next
  assume u: "User_ID u = i \<and> map_of (s_users s) (User_Email u) = Some u"
  show "userByIDLocked i s = Some u"
  proof (cases "userByIDLocked i s")
    case None
    have "(User_Email u, u) \<in> set (s_users s)" using u by (simp add: map_of_SomeD)
    then have "u \<in> set (values_of (s_users s))" by (force simp: values_of_def)
    with None u show ?thesis by (auto simp: userByIDLocked_def find_None_iff)
  next
    case (Some v)
    then have "v \<in> set (values_of (s_users s))" "User_ID v = i" unfolding userByIDLocked_def by (auto simp: find_Some_iff)
    then obtain e where "map_of (s_users s) e = Some v"
      using users_okD(1) [OF assms] by (auto simp: values_of_def gomap_mem_iff)
    with users_okD(4) [OF assms] u \<open>User_ID v = i\<close> Some show ?thesis by metis
  qed
qed

lemma withUser_InrE:
  assumes "withUser i s f = Inr x"
  obtains u where "userByIDLocked i s = Some u" and "f u = Inr x"
  using assms by (auto simp: withUser_def split: option.splits)

text \<open>Writing a user under his email, when nobody else has his identifier.\<close>

lemma users_ok_put:
  assumes ok: "users_ok us" and "User_Email u = e" and "e \<noteq> []"
    and own: "\<And>e' v. map_of us e' = Some v \<Longrightarrow> User_ID v = User_ID u \<Longrightarrow> e' = e"
  shows "users_ok (AList.update e u us)"
proof -
  have look: "map_of (AList.update e u us) x = (if x = e then Some u else map_of us x)" for x by simp
  have "x = y" if "map_of (AList.update e u us) x = Some v" "map_of (AList.update e u us) y = Some w" "User_ID v = User_ID w" for x y v w
  proof (cases "x = e")
    case True
    with that own [of y w] show ?thesis by (simp only: look split: if_splits) auto
  next
    case x: False
    show ?thesis
    proof (cases "y = e")
      case True
      with that own [of x v] x show ?thesis by (simp only: look split: if_splits) auto
    next
      case False
      with x that users_okD(4) [OF ok, of x v y w] show ?thesis by (simp only: look if_False)
    qed
  qed
  moreover have "User_Email v = x \<and> x \<noteq> []" if "map_of (AList.update e u us) x = Some v" for x v
    using that users_okD(2,3) [OF ok, of x v] assms(2,3) by (simp only: look split: if_splits) auto
  ultimately show ?thesis using users_okD(1) [OF ok] unfolding users_ok_def by (simp only: gomap_ok_update) blast
qed

lemma putUser_same:
  assumes ok: "users_ok (s_users s)" and u: "map_of (s_users s) (User_Email u) = Some u"
    and "User_Email u' = User_Email u" and "User_ID u' = User_ID u"
  shows "users_ok (s_users (putUser u' s))"
proof -
  have "users_ok (AList.update (User_Email u) u' (s_users s))"
    using users_okD(3) [OF ok u] users_okD(4) [OF ok _ u] assms(3,4) by (intro users_ok_put [OF ok]) auto
  then show ?thesis by (simp add: putUser_def assms(3))
qed

lemma userByID_putUser:
  assumes "users_ok (s_users s)" and "map_of (s_users s) (User_Email u) = Some u" and "User_Email u' = User_Email u" and "User_ID u' = User_ID u"
  shows "userByIDLocked (User_ID u) (putUser u' s) = Some u'"
  using putUser_same [OF assms] assms by (simp add: userByID_iff) (simp add: putUser_def)

lemma find_user:
  assumes ok: "users_ok (s_users s)"
  shows "find (\<lambda>(email, u). User_ID u = i) (s_users s) =
    (case userByIDLocked i s of None \<Rightarrow> None | Some u \<Rightarrow> Some (User_Email u, u))"
proof (cases "find (\<lambda>(email, u). User_ID u = i) (s_users s)")
  case None
  then have "find (\<lambda>u. User_ID u = i) (values_of (s_users s)) = None"
    by (auto simp: find_None_iff values_of_def) blast
  with None show ?thesis by (simp add: userByIDLocked_def)
next
  case (Some x)
  obtain e u where x: "x = (e, u)" by (cases x)
  note f = find_entry [OF users_okD(1) [OF ok] Some [unfolded x]]
  have "User_Email u = e" by (rule users_okD(2) [OF ok f(1)])
  with f have "userByIDLocked i s = Some u" by (simp add: userByID_iff [OF ok])
  with Some x \<open>User_Email u = e\<close> show ?thesis by simp
qed

lemma updatedUser_fields:
  "User_ID (updatedUser k req e u) = User_ID u" "User_Email (updatedUser k req e u) = ToLower (TrimSpace (UpdUser_Email req))"
  "User_MFALastCounter (updatedUser k req e u) = User_MFALastCounter u"
  "User_TokenVersion (updatedUser k req e u) =
     (if securityStateChanged req e u then nextTokenVersion (User_TokenVersion u) else User_TokenVersion u)"
  by (simp_all add: updatedUser_def Let_def)

lemma UpdateUser_InrE:
  assumes ok: "users_ok (s_users s)" and up: "UpdateUser k i req s = Inr (s', v)"
  obtains u where "userByIDLocked (TrimSpace i) s = Some u" and "v = updatedUser k req (User_Email u) u" and "User_Email v \<noteq> []"
    and "User_Email v \<noteq> User_Email u \<longrightarrow> map_of (s_users s) (User_Email v) = None"
    and "s' = putUser v (if User_Email u \<noteq> User_Email v then renameUser u (User_Email u) (User_Email v) s else s)"
proof -
  let ?next = "ToLower (TrimSpace (UpdUser_Email req))"
  from up have "find (\<lambda>(email, u). User_ID u = TrimSpace i) (s_users s) \<noteq> None"
    unfolding UpdateUser_def Let_def by (elim and_then_InrE) (auto split: option.splits)
  then obtain u where u: "userByIDLocked (TrimSpace i) s = Some u"
    by (auto simp: find_user [OF ok] split: option.splits)
  have f: "find (\<lambda>(email, u). User_ID u = TrimSpace i) (s_users s) = Some (User_Email u, u)"
    by (simp add: find_user [OF ok] u)
  from up obtain x y z w where st: "check (?next \<noteq> []) (ErrOther ''email is required'') = Inr x"
      "check (\<not> (User_Email u \<noteq> ?next \<and> map_of (s_users s) ?next \<noteq> None)) (ErrConflict ''user already exists'') = Inr y"
    and last: "Inr (putUser (updatedUser k req (User_Email u) u)
          (if User_Email u \<noteq> ?next then renameUser u (User_Email u) ?next s else s), updatedUser k req (User_Email u) u) =
        (Inr (s', v) :: (MemoryStore \<times> User) res)"
    unfolding UpdateUser_def Let_def f option.case prod.case by (elim and_then_InrE)
  have v: "v = updatedUser k req (User_Email u) u" using last by simp
  have e: "User_Email v = ?next" by (simp add: v updatedUser_fields)
  show ?thesis
    by (rule that [OF u v]) (use st last v e in \<open>simp_all add: check_def split: if_splits\<close>)
qed

lemma rename_users: "s_users (renameUser u old new s) = AList.delete old (s_users s)"
  by (simp add: renameUser_def)

lemma users_ok_delete:
  assumes ok: "users_ok us"
  shows "users_ok (AList.delete e us)"
proof -
  have sub: "map_of (AList.delete e us) x = Some w \<Longrightarrow> map_of us x = Some w" for x w by (simp split: if_splits)
  have "User_Email w = x \<and> x \<noteq> []" if "map_of (AList.delete e us) x = Some w" for x w
    using users_okD(2,3) [OF ok sub [OF that]] by blast
  moreover have "x = y" if "map_of (AList.delete e us) x = Some v" "map_of (AList.delete e us) y = Some w" "User_ID v = User_ID w" for x y v w
    using users_okD(4) [OF ok sub [OF that(1)] sub [OF that(2)] that(3)] .
  ultimately show ?thesis using users_okD(1) [OF ok] unfolding users_ok_def by (simp only: gomap_ok_delete) blast
qed

lemma UpdateUser_users:
  assumes ok: "users_ok (s_users s)" and up: "UpdateUser k i req s = Inr (s', v)"
  shows "users_ok (s_users s')" and "userByIDLocked (User_ID v) s' = Some v"
    and "map_of (s_users s') e = (if e = User_Email v then Some v else if \<exists>u. map_of (s_users s) e = Some u \<and> User_ID u = User_ID v then None
      else map_of (s_users s) e)"
proof -
  obtain u where u: "userByIDLocked (TrimSpace i) s = Some u" and vu: "v = updatedUser k req (User_Email u) u" and ne: "User_Email v \<noteq> []"
    and free: "User_Email v \<noteq> User_Email u \<longrightarrow> map_of (s_users s) (User_Email v) = None"
    and s': "s' = putUser v (if User_Email u \<noteq> User_Email v then renameUser u (User_Email u) (User_Email v) s else s)"
    using UpdateUser_InrE [OF ok up] .
  have v: "User_ID v = User_ID u" "User_Email v \<noteq> []" using ne by (simp_all add: vu updatedUser_fields)
  have mu: "map_of (s_users s) (User_Email u) = Some u" using u by (simp add: userByID_iff [OF ok])
  define us where "us = (if User_Email u \<noteq> User_Email v then AList.delete (User_Email u) (s_users s) else s_users s)"
  have us': "s_users s' = AList.update (User_Email v) v us" by (simp add: s' putUser_def us_def rename_users)
  have look: "map_of us x = (if x = User_Email u \<and> User_Email u \<noteq> User_Email v then None else map_of (s_users s) x)" for x
    by (simp add: us_def)
  have sub: "map_of us x = Some w \<Longrightarrow> map_of (s_users s) x = Some w" for x w by (simp add: look split: if_splits)
  have usok: "users_ok us" using ok users_ok_delete [OF ok] by (simp add: us_def)
  have own: "e' = User_Email v" if "map_of us e' = Some w" "User_ID w = User_ID v" for e' w
    using that v(1) users_okD(4) [OF ok sub [OF that(1)] mu] by (auto simp: look split: if_splits)
  show ok': "users_ok (s_users s')" unfolding us' by (rule users_ok_put [OF usok refl v(2)]) (rule own)
  show "userByIDLocked (User_ID v) s' = Some v" by (simp add: userByID_iff [OF ok'] us')
  have "(\<exists>w. map_of (s_users s) e = Some w \<and> User_ID w = User_ID v) \<longleftrightarrow> e = User_Email u"
    using mu v(1) users_okD(4) [OF ok, of e _ "User_Email u" u] by auto
  then show "map_of (s_users s') e = (if e = User_Email v then Some v else if \<exists>u. map_of (s_users s) e = Some u \<and> User_ID u = User_ID v then None
      else map_of (s_users s) e)" using free by (auto simp: us' look)
qed

lemma DeleteUser_InrE:
  assumes ok: "users_ok (s_users s)" and del: "DeleteUser i s = Inr (s', x)"
  obtains u where "userByIDLocked (TrimSpace i) s = Some u"
    and "s' = s\<lparr>s_users := AList.delete (User_Email u) (s_users s),
       s_memberships := AList.map_ran (\<lambda>_. AList.delete (User_Email u)) (s_memberships s),
       s_teamMembers := AList.map_ran (\<lambda>_. AList.delete (User_Email u)) (s_teamMembers s),
       s_projectAccess := AList.map_ran (\<lambda>_. filter (\<lambda>g. \<not> is_user_grant (TrimSpace i) g)) (s_projectAccess s)\<rparr>"
  using del unfolding DeleteUser_def Let_def find_user [OF ok]
  by (elim and_then_InrE) (auto split: option.splits elim!: and_then_InrE)

lemma deleted_user:
  assumes ok: "users_ok (s_users s)" and u: "userByIDLocked i s = Some u"
    and us: "s_users s' = AList.delete (User_Email u) (s_users s)"
  shows "userByIDLocked i s' = None"
proof (rule ccontr)
  assume "userByIDLocked i s' \<noteq> None"
  then obtain w where w: "userByIDLocked i s' = Some w" by blast
  have "users_ok (s_users s')" unfolding us by (rule users_ok_delete [OF ok])
  from w have "User_ID w = i" "map_of (s_users s) (User_Email w) = Some w" "User_Email w \<noteq> User_Email u"
    unfolding userByID_iff [OF \<open>users_ok (s_users s')\<close>] us by (auto split: if_splits)
  with u users_okD(4) [OF ok] show False unfolding userByID_iff [OF ok] by metis
qed

lemma mfa_fields:
  "User_Email (confirmedUser now n u) = User_Email u" "User_ID (confirmedUser now n u) = User_ID u"
  "User_TokenVersion (confirmedUser now n u) = nextTokenVersion (User_TokenVersion u)"
  "User_Email (clearedPending now u) = User_Email u" "User_ID (clearedPending now u) = User_ID u"
  "User_TokenVersion (clearedPending now u) = nextTokenVersion (User_TokenVersion u)"
  "User_Email (disabledUser now u) = User_Email u" "User_ID (disabledUser now u) = User_ID u"
  "User_TokenVersion (disabledUser now u) = nextTokenVersion (User_TokenVersion u)"
  "User_Email (verifiedUser now n u) = User_Email u" "User_ID (verifiedUser now n u) = User_ID u"
  "User_TokenVersion (verifiedUser now n u) = User_TokenVersion u" "User_MFALastCounter (verifiedUser now n u) = int n"
  "User_MFAEnabled (verifiedUser now n u) = User_MFAEnabled u" "User_MFASecret (verifiedUser now n u) = User_MFASecret u"
  by (simp_all add: confirmedUser_def clearedPending_def disabledUser_def verifiedUser_def)

lemma ConfirmUserMFA_InrE:
  assumes "ConfirmUserMFA c k i code s = Inr (s', st)"
  obtains u n where "userByIDLocked i s = Some u" and "s' = putUser (confirmedUser (ctx_now c) n u) s"
proof -
  obtain u where u: "userByIDLocked i s = Some u"
    using assms unfolding ConfirmUserMFA_def by (elim withUser_InrE)
  from assms have "\<exists>n. s' = putUser (confirmedUser (ctx_now c) n u) s"
    unfolding ConfirmUserMFA_def withUser_def u option.case Let_def
    by (elim and_then_InrE) (simp split: option.split_asm, blast)
  with u that show ?thesis by blast
qed

lemma DisableUserMFA_InrE:
  assumes "DisableUserMFA c k i code s = Inr (s', st)"
  obtains u where "userByIDLocked i s = Some u"
    and "s' = putUser (clearedPending (ctx_now c) u) s \<or> s' = putUser (disabledUser (ctx_now c) u) s"
proof -
  obtain u where u: "userByIDLocked i s = Some u"
    using assms unfolding DisableUserMFA_def by (elim withUser_InrE)
  from assms have "s' = putUser (clearedPending (ctx_now c) u) s \<or> s' = putUser (disabledUser (ctx_now c) u) s"
    unfolding DisableUserMFA_def withUser_def u option.case Let_def
    by (simp add: and_then_def split: option.split_asm if_split_asm sum.split_asm)
  with u that show ?thesis by blast
qed

lemma VerifyUserMFA_InrE:
  assumes "VerifyUserMFA c k i code s = Inr (s', v)"
  obtains u n where "userByIDLocked i s = Some u" and "User_MFAEnabled u" and "User_MFASecret u \<noteq> []"
    and "VerifyTOTPCodeCounter k (User_MFASecret u) code (ctx_now c) = Some n"
    and "v = verifiedUser (ctx_now c) n u" and "s' = putUser v s"
proof -
  obtain u where u: "userByIDLocked i s = Some u"
    using assms unfolding VerifyUserMFA_def by (elim withUser_InrE)
  from assms obtain n where "User_MFAEnabled u" "User_MFASecret u \<noteq> []"
    "VerifyTOTPCodeCounter k (User_MFASecret u) code (ctx_now c) = Some n"
    "v = verifiedUser (ctx_now c) n u" "s' = putUser v s"
    unfolding VerifyUserMFA_def withUser_def u option.case Let_def
    by (auto simp add: and_then_def check_def split: option.split_asm if_split_asm sum.split_asm)
  with u that show ?thesis by blast
qed

lemma mfa_change:
  assumes ok: "users_ok (s_users s)"
    and op: "ConfirmUserMFA c k i code s = Inr (s', st) \<or> DisableUserMFA c k i code s = Inr (s', st)"
  shows "\<exists>u v. userByIDLocked i s = Some u \<and> userByIDLocked i s' = Some v \<and> users_ok (s_users s') \<and>
    User_TokenVersion v = nextTokenVersion (User_TokenVersion u)"
proof -
  have "\<exists>u v. userByIDLocked i s = Some u \<and> s' = putUser v s \<and> User_Email v = User_Email u \<and> User_ID v = User_ID u \<and>
      User_TokenVersion v = nextTokenVersion (User_TokenVersion u)"
    using op mfa_fields by (elim disjE ConfirmUserMFA_InrE DisableUserMFA_InrE) metis+
  then obtain u v where u: "userByIDLocked i s = Some u" and v: "s' = putUser v s" "User_Email v = User_Email u" "User_ID v = User_ID u"
      "User_TokenVersion v = nextTokenVersion (User_TokenVersion u)" by blast
  have m: "User_ID u = i" "map_of (s_users s) (User_Email u) = Some u" using u by (simp_all add: userByID_iff [OF ok])
  show ?thesis
    using u v m putUser_same [OF ok m(2) v(2,3)] userByID_putUser [OF ok m(2) v(2,3)] by auto
qed

lemma stale_token:
  assumes "userByIDLocked i s' = Some v" and "User_ID u = i" and "1 \<le> User_TokenVersion u"
    and "User_TokenVersion v = nextTokenVersion (User_TokenVersion u)" and "Claim_Subject claims = i" and "Claim_TokenVersion claims \<le> User_TokenVersion u"
  shows "\<exists>e. currentUserForClaims (\<lambda>j. GetUserByID j s') claims = Inl e"
  using assms by (auto simp: currentUserForClaims_def GetUserByID_def nextTokenVersion_def tokenVersionMatches_def)

section \<open>Properties\<close>

text \<open>C9. A change of a user's security state ends his sessions, for an account whose stored token version is at least one (an invited
  account starts at zero): after a changed email, role or password, after confirming or switching off the second factor, and after
  deleting the account, no token for the account is accepted whose version is the one the account had before the change or a lower one.
  Tokens carry the version of the account at the time they are issued (\<open>issuedClaims\<close>).\<close>

theorem security_change_revokes:
  assumes "users_ok (s_users s)" and "userByIDLocked i s = Some u" and "1 \<le> User_TokenVersion u" and "TrimSpace i = i"
    and "(\<exists>v. UpdateUser k i req s = Inr (s', v) \<and> securityStateChanged req (User_Email u) u) \<or>
      (\<exists>st. ConfirmUserMFA c k i code s = Inr (s', st)) \<or> (\<exists>st. DisableUserMFA c k i code s = Inr (s', st)) \<or>
      (\<exists>x. DeleteUser i s = Inr (s', x))"
    and "Claim_Subject claims = i" and "Claim_TokenVersion claims \<le> User_TokenVersion u"
  shows "\<exists>e. currentUserForClaims (\<lambda>j. GetUserByID j s') claims = Inl e"
  using assms(5)
proof (elim disjE exE conjE)
  have id: "User_ID u = i" using assms(2) by (simp add: userByID_iff [OF assms(1)])
  show "\<exists>e. currentUserForClaims (\<lambda>j. GetUserByID j s') claims = Inl e"
    if up: "UpdateUser k i req s = Inr (s', v)" and ch: "securityStateChanged req (User_Email u) u" for v
  proof -
    have "v = updatedUser k req (User_Email u) u" by (rule UpdateUser_InrE [OF assms(1) up]) (simp add: assms(2,4))
    then have "User_ID v = i" "User_TokenVersion v = nextTokenVersion (User_TokenVersion u)" using ch id by (simp_all add: updatedUser_fields)
    with stale_token [of i s' v u claims] UpdateUser_users(2) [OF assms(1) up] id assms(3,6,7) show ?thesis by simp
  qed
  show "\<exists>e. currentUserForClaims (\<lambda>j. GetUserByID j s') claims = Inl e"
    if "ConfirmUserMFA c k i code s = Inr (s', st)" for st
    using mfa_change [OF assms(1) disjI1 [OF that]] stale_token [of i s' _ u claims] id assms(2,3,6,7) by auto
  show "\<exists>e. currentUserForClaims (\<lambda>j. GetUserByID j s') claims = Inl e"
    if "DisableUserMFA c k i code s = Inr (s', st)" for st
    using mfa_change [OF assms(1) disjI2 [OF that]] stale_token [of i s' _ u claims] id assms(2,3,6,7) by auto
  show "\<exists>e. currentUserForClaims (\<lambda>j. GetUserByID j s') claims = Inl e" if "DeleteUser i s = Inr (s', x)" for x
  proof -
    from that have "s_users s' = AList.delete (User_Email u) (s_users s)"
      by (rule DeleteUser_InrE [OF assms(1)]) (simp add: assms(2,4))
    then have "userByIDLocked i s' = None" by (rule deleted_user [OF assms(1,2)])
    then show ?thesis by (simp add: currentUserForClaims_def GetUserByID_def assms(6))
  qed
qed

definition demo_users :: MemoryStore where
  "demo_users = (NewMemoryStore \<lparr>Defaults_Domain = ''apps.example.com'', Defaults_StackVersion = ''15.8.1.085'', Defaults_Profile = StackProfileFull,
     Defaults_ResourceTier = ResourceTierCustom, Defaults_BackupSchedule = ''daily'', Defaults_FeatureFlags = [],
     Defaults_DatabaseIngressAllowedCIDRs = [], Defaults_UpdatedAt = 1\<rparr>)\<lparr>s_users := [(''a@b.c'', demo_user)]\<rparr>"

definition demo_update :: UpdateUserRequest where
  "demo_update = \<lparr>UpdUser_Email = ''a@b.c'', UpdUser_Password = ''correct horse'', UpdUser_Role = ''member''\<rparr>"

lemma demo_users_ok: "users_ok (s_users demo_users)"
  by (simp add: users_ok_def demo_users_def demo_user_def gomap_ok_def)

lemma demo_update_ok: "is_ok (UpdateUser demo_lib ''u1'' demo_update demo_users)"
  by code_simp

theorem security_change_revokes_witness:
  "\<exists>s' v e. UpdateUser demo_lib ''u1'' demo_update demo_users = Inr (s', v) \<and>
     currentUserForClaims (\<lambda>j. GetUserByID j demo_users) (issuedClaims demo_user 0) = Inr demo_user \<and>
     currentUserForClaims (\<lambda>j. GetUserByID j s') (issuedClaims demo_user 0) = Inl e"
proof -
  obtain s' v where up: "UpdateUser demo_lib ''u1'' demo_update demo_users = Inr (s', v)"
    using demo_update_ok by (auto simp: is_ok_iff)
  have u: "userByIDLocked ''u1'' demo_users = Some demo_user" by (simp add: userByIDLocked_def demo_users_def values_of_def demo_user_def)
  have t: "TrimSpace ''u1'' = ''u1''" by code_simp
  have "securityStateChanged demo_update (User_Email demo_user) demo_user" by (simp add: securityStateChanged_def demo_update_def)
  with up have "(\<exists>v. UpdateUser demo_lib ''u1'' demo_update demo_users = Inr (s', v) \<and> securityStateChanged demo_update (User_Email demo_user) demo_user)"
    by blast
  from security_change_revokes [OF demo_users_ok u _ t disjI1 [OF this], of "issuedClaims demo_user 0"]
  obtain e where "currentUserForClaims (\<lambda>j. GetUserByID j s') (issuedClaims demo_user 0) = Inl e" by (auto simp: demo_user_def issuedClaims_def nextTokenVersion_def)
  moreover have "currentUserForClaims (\<lambda>j. GetUserByID j demo_users) (issuedClaims demo_user 0) = Inr demo_user"
    using u t by (simp add: currentUserForClaims_def issuedClaims_def GetUserByID_def demo_user_def tokenVersionMatches_def nextTokenVersion_def)
  ultimately show ?thesis using up by blast
qed

text \<open>C32. A one-time code is good once: after a login with the code of time step \<open>n\<close>, every code that the check
  attributes to step \<open>n\<close> or an earlier one is refused, whenever it is tried and whatever it looks like.\<close>

theorem mfa_code_not_replayed:
  assumes "users_ok (s_users s)" and "VerifyUserMFA c k i code s = Inr (s', v)"
    and "VerifyTOTPCodeCounter k (User_MFASecret v) code' (ctx_now c') = Some m" and "int m \<le> User_MFALastCounter v"
  shows "VerifyUserMFA c' k i code' s' = Inl (ErrOther ''mfa code has already been used'') \<and>
    (\<exists>n. VerifyTOTPCodeCounter k (User_MFASecret v) code (ctx_now c) = Some n \<and> User_MFALastCounter v = int n)"
proof -
  obtain u n where u: "userByIDLocked i s = Some u" and en: "User_MFAEnabled u" "User_MFASecret u \<noteq> []"
    and n: "VerifyTOTPCodeCounter k (User_MFASecret u) code (ctx_now c) = Some n"
    and v: "v = verifiedUser (ctx_now c) n u" "s' = putUser v s"
    using VerifyUserMFA_InrE [OF assms(2)] .
  have m: "User_ID u = i" "map_of (s_users s) (User_Email u) = Some u" using u by (simp_all add: userByID_iff [OF assms(1)])
  have same: "User_Email v = User_Email u" "User_ID v = User_ID u" "User_MFAEnabled v" "User_MFASecret v = User_MFASecret u"
    "User_MFALastCounter v = int n" using en by (simp_all add: v(1) mfa_fields)
  have "userByIDLocked i s' = Some v" using userByID_putUser [OF assms(1) m(2) same(1,2)] m(1) v(2) by simp
  then show ?thesis using assms(3,4) same en n
    by (simp add: VerifyUserMFA_def withUser_def check_def)
qed

definition demo_mfa_ctx :: OpCtx where
  "demo_mfa_ctx = \<lparr>ctx_now = demo_time + 300 * second_ns, ctx_newID = ''id1'', ctx_newID2 = ''id2'', ctx_secrets = [], ctx_databaseConfig = [],
     ctx_supportedStackVersion = (\<lambda>v. True), ctx_urlHostname = (\<lambda>v. []), ctx_getenv = (\<lambda>v. [])\<rparr>"

lemma demo_key: "\<exists>key. Base32Decode (ToUpper (TrimSpace ''MFRGG'')) = Some key"
proof -
  have "Base32Decode (ToUpper (TrimSpace ''MFRGG'')) \<noteq> None" by code_simp
  then show ?thesis by simp
qed

lemma big_endian_numeral: "big_endian (numeral w) n = big_endian (pred_numeral w) (n div 256) @ [char_of (n mod 256)]"
  by (simp only: numeral_eq_Suc big_endian.simps)

lemma demo_hotp: "TOTPCodeForCounter demo_lib ''MFRGG'' 9 = Some ''000000''"
proof -
  have be: "big_endian 8 9 = map char_of [0::nat, 0, 0, 0, 0, 0, 0, 9]" by (simp add: big_endian_numeral)
  have b: "byte (char_of (0::nat)) = 0" by code_simp
  have "truncated (take 20 (big_endian 8 9 @ big_endian 8 9 @ big_endian 8 9)) = 0"
    by (simp add: be truncated_def Let_def b)
  moreover have "decimal 6 0 = ''000000''" by code_simp
  ultimately show ?thesis using demo_key by (auto simp: TOTPCodeForCounter_def demo_lib_def)
qed

lemma demo_verify_code: "VerifyTOTPCodeCounter demo_lib ''MFRGG'' ''000000'' (ctx_now demo_mfa_ctx) = Some 9"
proof -
  have "timeStep (ctx_now demo_mfa_ctx) = 10"
    by (simp add: timeStep_def demo_mfa_ctx_def unix_seconds_def second_ns_def signed_divide_int_def)
  moreover have "TrimSpace ''000000'' = ''000000''" "atoi_ok ''000000''" by code_simp+
  ultimately show ?thesis by (simp add: VerifyTOTPCodeCounter_def demo_hotp)
qed

lemma demo_mfa: "VerifyUserMFA demo_mfa_ctx demo_lib ''u1'' ''000000'' demo_users =
    Inr (putUser (verifiedUser (ctx_now demo_mfa_ctx) 9 demo_user) demo_users, verifiedUser (ctx_now demo_mfa_ctx) 9 demo_user)"
proof -
  have "userByIDLocked ''u1'' demo_users = Some demo_user" by (simp add: userByIDLocked_def demo_users_def values_of_def demo_user_def)
  moreover have "User_MFASecret demo_user = ''MFRGG''" "User_MFAEnabled demo_user" "User_MFALastCounter demo_user = 0" by (simp_all add: demo_user_def)
  ultimately show ?thesis by (simp add: VerifyUserMFA_def withUser_def check_def demo_verify_code Let_def)
qed

theorem mfa_code_not_replayed_witness:
  "\<exists>s' v. VerifyUserMFA demo_mfa_ctx demo_lib ''u1'' ''000000'' demo_users = Inr (s', v) \<and>
     VerifyUserMFA demo_mfa_ctx demo_lib ''u1'' ''000000'' s' = Inl (ErrOther ''mfa code has already been used'')"
proof -
  have "User_MFASecret (verifiedUser (ctx_now demo_mfa_ctx) 9 demo_user) = ''MFRGG''" by (simp add: mfa_fields demo_user_def)
  with mfa_code_not_replayed [OF demo_users_ok demo_mfa, of "''000000''" demo_mfa_ctx 9] demo_mfa demo_verify_code
  show ?thesis by (simp add: mfa_fields)
qed

end
