(* ===== verification/Orgs.thy ===== *)
theory Orgs
  imports Users Capacity
begin

text \<open>
  The organisations of the store (internal/control/store.go): creating, renaming and deleting them, their
  feature flags and their quotas. \<open>defaults\<close> is what \<open>normalizedPlatformDefaults\<close> makes of the platform
  defaults, as in \<open>CreateProject\<close>. Go iterates a map in any order; the order of the list is one of them, and
  it matters only when two keys of an input normalise to the same flag.
\<close>

section \<open>Feature flags\<close>

record OrgFeatureFlags =
  Flags_OrgID :: string
  Flags_Defaults :: "(string, bool) gomap"
  Flags_Overrides :: "(string, bool) gomap"
  Flags_Effective :: "(string, bool) gomap"

definition defaultPlatformFeatureFlags :: "(string, bool) gomap" where
  "defaultPlatformFeatureFlags =
     [(''single_org_mode'', True), (''multi_org'', False), (''resource_quotas'', False), (''team_rbac'', True),
      (''project_access_grants'', True), (''project_self_service'', True), (''service_toggles'', True),
      (''supabase_cli_compat'', True), (''custom_domains'', False), (''network_restrictions'', False),
      (''log_drains'', False), (''pitr'', False), (''preview_branches'', False), (''read_replicas'', False),
      (''edge_functions'', True), (''ai_integrations'', False), (''usage_metering'', False), (''billing'', False),
      (''platform_sso_scim'', False), (''kubernetes_operator'', False), (''database_external_access'', False),
      (''production_posture'', False)]"

fun putFlags :: "(string, bool) gomap \<Rightarrow> (string, bool) gomap \<Rightarrow> (string, bool) gomap res" where
  "putFlags out [] = Inr out"
| "putFlags out ((key, v) # input) =
     (let normalized = ToLower (TrimSpace key) in
      if normalized = [] then Inl (ErrOther ''feature flag key is required'')
      else if map_of defaultPlatformFeatureFlags normalized = None then Inl (ErrOther ''unsupported feature flag'')
      else putFlags (AList.update normalized v out) input)"

definition normalizePlatformFeatureFlags :: "(string, bool) gomap \<Rightarrow> (string, bool) gomap res" where
  "normalizePlatformFeatureFlags input = putFlags defaultPlatformFeatureFlags input"

definition normalizeOrgFeatureOverrides :: "(string, bool) gomap \<Rightarrow> (string, bool) gomap res" where
  "normalizeOrgFeatureOverrides input = putFlags [] input"

definition orgFeatureFlags :: "string \<Rightarrow> (string, bool) gomap \<Rightarrow> PlatformDefaults \<Rightarrow> OrgFeatureFlags" where
  "orgFeatureFlags orgID overrides defaults =
     (let defaultFlags = Defaults_FeatureFlags defaults;
          normalizedOverrides = (case normalizeOrgFeatureOverrides overrides of Inl _ \<Rightarrow> [] | Inr m \<Rightarrow> m);
          effective = fold (\<lambda>(key, v). AList.update key v) normalizedOverrides defaultFlags
      in \<lparr>Flags_OrgID = orgID, Flags_Defaults = defaultFlags, Flags_Overrides = normalizedOverrides, Flags_Effective = effective\<rparr>)"

definition orgWithFeatureFlags :: "Org \<Rightarrow> PlatformDefaults \<Rightarrow> Org" where
  "orgWithFeatureFlags org defaults =
     (let flags = orgFeatureFlags (Org_ID org) (Org_FeatureFlagOverrides org) defaults
      in org\<lparr>Org_FeatureFlagOverrides := Flags_Overrides flags, Org_FeatureFlags := Flags_Effective flags\<rparr>)"

section \<open>Organisations\<close>

definition getOrg :: "string \<Rightarrow> MemoryStore \<Rightarrow> Org res" where
  "getOrg i s = lookup_or (ErrNotFound ''org'') (s_orgs s) i"

definition CreateOrg :: "OpCtx \<Rightarrow> PlatformDefaults \<Rightarrow> string \<Rightarrow> MemoryStore \<Rightarrow> Org op" where
  "CreateOrg c defaults name s =
     (let name = TrimSpace name in
      and_then (check (name \<noteq> []) (ErrOther ''name is required'')) (\<lambda>_.
      let org = \<lparr>Org_ID = ctx_newID c, Org_Name = name, Org_FeatureFlagOverrides = [], Org_FeatureFlags = [], Org_CreatedAt = ctx_now c\<rparr>
      in Inr (s\<lparr>s_orgs := AList.update (Org_ID org) org (s_orgs s)\<rparr>, orgWithFeatureFlags org defaults)))"

definition UpdateOrg :: "PlatformDefaults \<Rightarrow> string \<Rightarrow> string \<Rightarrow> MemoryStore \<Rightarrow> Org op" where
  "UpdateOrg defaults i name s =
     (let name = TrimSpace name in
      and_then (check (name \<noteq> []) (ErrOther ''name is required'')) (\<lambda>_.
      and_then (getOrg i s) (\<lambda>org.
      let org = org\<lparr>Org_Name := name\<rparr>
      in Inr (s\<lparr>s_orgs := AList.update i org (s_orgs s)\<rparr>, orgWithFeatureFlags org defaults))))"

definition DeleteOrg :: "string \<Rightarrow> MemoryStore \<Rightarrow> unit op" where
  "DeleteOrg i s =
     and_then (getOrg i s) (\<lambda>_.
     and_then (check (\<forall>project \<in> set (values_of (s_projects s)). Proj_OrgID project \<noteq> i) (ErrConflict ''org still has projects'')) (\<lambda>_.
     Inr (s\<lparr>s_teamMembers := fold (\<lambda>team. AList.delete (Team_ID team)) (values_of (get_or [] (s_teams s) i)) (s_teamMembers s),
            s_orgs := AList.delete i (s_orgs s), s_orgQuotas := AList.delete i (s_orgQuotas s),
            s_memberships := AList.delete i (s_memberships s), s_teams := AList.delete i (s_teams s)\<rparr>, ())))"

definition GetOrg :: "PlatformDefaults \<Rightarrow> string \<Rightarrow> MemoryStore \<Rightarrow> Org res" where
  "GetOrg defaults i s = and_then (getOrg i s) (\<lambda>org. Inr (orgWithFeatureFlags org defaults))"

definition ListOrgs :: "PlatformDefaults \<Rightarrow> MemoryStore \<Rightarrow> Org list" where
  "ListOrgs defaults s =
     sort_slice (\<lambda>a b. Org_CreatedAt a < Org_CreatedAt b) (map (\<lambda>org. orgWithFeatureFlags org defaults) (values_of (s_orgs s)))"

definition GetOrgFeatureFlags :: "PlatformDefaults \<Rightarrow> string \<Rightarrow> MemoryStore \<Rightarrow> OrgFeatureFlags res" where
  "GetOrgFeatureFlags defaults orgID s =
     and_then (getOrg orgID s) (\<lambda>org. Inr (orgFeatureFlags orgID (Org_FeatureFlagOverrides org) defaults))"

definition UpdateOrgFeatureFlags :: "PlatformDefaults \<Rightarrow> string \<Rightarrow> (string, bool) gomap \<Rightarrow> MemoryStore \<Rightarrow> OrgFeatureFlags op" where
  "UpdateOrgFeatureFlags defaults orgID input s =
     and_then (normalizeOrgFeatureOverrides input) (\<lambda>overrides.
     and_then (getOrg orgID s) (\<lambda>org.
     Inr (s\<lparr>s_orgs := AList.update orgID (org\<lparr>Org_FeatureFlagOverrides := overrides\<rparr>) (s_orgs s)\<rparr>,
          orgFeatureFlags orgID overrides defaults)))"

definition GetOrgQuota :: "OpCtx \<Rightarrow> string \<Rightarrow> MemoryStore \<Rightarrow> OrgQuota res" where
  "GetOrgQuota c orgID s = and_then (getOrg orgID s) (\<lambda>_. Inr (orgQuotaLocked c s orgID))"

definition UpdateOrgQuota :: "OpCtx \<Rightarrow> string \<Rightarrow> OrgQuotaInput \<Rightarrow> MemoryStore \<Rightarrow> OrgQuota op" where
  "UpdateOrgQuota c orgID input s =
     and_then (check (\<not> (QuotaInput_MaxProjects input < 0 \<or> QuotaInput_MaxCPU input < 0 \<or> QuotaInput_MaxRAMMB input < 0 \<or>
         QuotaInput_MaxDiskGB input < 0)) (ErrOther ''quota limits cannot be negative'')) (\<lambda>_.
     and_then (getOrg orgID s) (\<lambda>_.
     let quota = \<lparr>Quota_OrgID = orgID, MaxProjects = QuotaInput_MaxProjects input, MaxCPU = QuotaInput_MaxCPU input,
           MaxRAMMB = QuotaInput_MaxRAMMB input, MaxDiskGB = QuotaInput_MaxDiskGB input, Quota_Used = zeroCapacity,
           Quota_UpdatedAt = ctx_now c\<rparr>;
         s = s\<lparr>s_orgQuotas := AList.update orgID quota (s_orgQuotas s)\<rparr>
     in Inr (s, orgQuotaLocked c s orgID)))"

section \<open>Flags that were normalised once\<close>

text \<open>\<open>putFlags\<close> keeps a table whose keys are flags, in normal form; such a table is copied unchanged.\<close>

definition flags_ok :: "(string, bool) gomap \<Rightarrow> bool" where
  "flags_ok m \<longleftrightarrow> gomap_ok m \<and> (\<forall>k. map_of m k \<noteq> None \<longrightarrow> map_of defaultPlatformFeatureFlags k \<noteq> None)"

lemma flag_normal: "map_of defaultPlatformFeatureFlags k \<noteq> None \<Longrightarrow> ToLower (TrimSpace k) = k \<and> k \<noteq> []"
proof -
  have all: "\<forall>x \<in> set (map fst defaultPlatformFeatureFlags). ToLower (TrimSpace x) = x \<and> x \<noteq> []" by code_simp
  assume "map_of defaultPlatformFeatureFlags k \<noteq> None"
  then have "k \<in> set (map fst defaultPlatformFeatureFlags)" by (simp add: map_of_eq_None_iff)
  with all show ?thesis by blast
qed

lemma flags_ok_update:
  assumes "flags_ok m" and "map_of defaultPlatformFeatureFlags k \<noteq> None"
  shows "flags_ok (AList.update k v m)"
  using assms unfolding flags_ok_def by (simp del: not_None_eq)

lemma putFlags_ok: "putFlags out input = Inr m \<Longrightarrow> flags_ok out \<Longrightarrow> flags_ok m"
proof (induction input arbitrary: out)
  case (Cons e input)
  obtain key v where e: "e = (key, v)" by (cases e)
  from Cons.prems(1) have "map_of defaultPlatformFeatureFlags (ToLower (TrimSpace key)) \<noteq> None"
    and "putFlags (AList.update (ToLower (TrimSpace key)) v out) input = Inr m"
    by (simp_all add: e Let_def split: if_split_asm)
  with Cons.IH flags_ok_update [OF Cons.prems(2)] show ?case by blast
qed simp

lemma flags_ok_Nil [simp]: "flags_ok []"
  by (simp add: flags_ok_def)

lemma overrides_ok: "normalizeOrgFeatureOverrides input = Inr m \<Longrightarrow> flags_ok m"
  unfolding normalizeOrgFeatureOverrides_def by (erule putFlags_ok) simp

lemma putFlags_lookup:
  "flags_ok m \<Longrightarrow> \<exists>m'. putFlags out m = Inr m' \<and> (\<forall>k. map_of m' k = (case map_of m k of None \<Rightarrow> map_of out k | Some v \<Rightarrow> Some v))"
proof (induction m arbitrary: out)
  case (Cons e m)
  obtain k v where e: "e = (k, v)" by (cases e)
  from Cons.prems have m: "map_of m k = None" "flags_ok m" and k: "map_of defaultPlatformFeatureFlags k \<noteq> None"
    by (auto simp: flags_ok_def gomap_ok_Cons e split: if_splits)
  note n = flag_normal [OF k]
  obtain m' where "putFlags (AList.update k v out) m = Inr m'"
    "\<forall>x. map_of m' x = (case map_of m x of None \<Rightarrow> map_of (AList.update k v out) x | Some y \<Rightarrow> Some y)"
    using Cons.IH [OF m(2)] by blast
  then show ?case using n k m(1) by (auto simp: e Let_def split: option.splits)
qed simp

lemma fold_update_lookup:
  "gomap_ok m \<Longrightarrow> map_of (fold (\<lambda>(key, v). AList.update key v) m d) k = (case map_of m k of None \<Rightarrow> map_of d k | Some v \<Rightarrow> Some v)"
  by (induction m arbitrary: d) (auto simp: gomap_ok_Cons split: option.splits)

lemma orgFeatureFlags_lookup:
  assumes "flags_ok overrides"
  shows "map_of (Flags_Overrides (orgFeatureFlags i overrides defaults)) k = map_of overrides k"
    and "map_of (Flags_Effective (orgFeatureFlags i overrides defaults)) k =
      (case map_of overrides k of None \<Rightarrow> map_of (Defaults_FeatureFlags defaults) k | Some v \<Rightarrow> Some v)"
proof -
  obtain m where m: "normalizeOrgFeatureOverrides overrides = Inr m" "\<forall>k. map_of m k = map_of overrides k"
    using putFlags_lookup [OF assms, of "[]"] by (fastforce simp: normalizeOrgFeatureOverrides_def split: option.splits)
  have "flags_ok m" by (rule overrides_ok [OF m(1)])
  then show "map_of (Flags_Overrides (orgFeatureFlags i overrides defaults)) k = map_of overrides k"
    and "map_of (Flags_Effective (orgFeatureFlags i overrides defaults)) k =
      (case map_of overrides k of None \<Rightarrow> map_of (Defaults_FeatureFlags defaults) k | Some v \<Rightarrow> Some v)"
    using m by (simp_all add: orgFeatureFlags_def Let_def fold_update_lookup flags_ok_def)
qed

section \<open>Properties\<close>

text \<open>What was written is what is read: after an update of an organisation's feature flags, reading them with any
  platform defaults gives for every flag the value of the update where the update names the flag, and the
  platform default elsewhere; a flag that does not exist is never switched on by an update.\<close>

theorem flags_read_back:
  assumes "UpdateOrgFeatureFlags defaults orgID input s = Inr (s', flags)" and "normalizeOrgFeatureOverrides input = Inr overrides"
  shows "\<exists>read. GetOrgFeatureFlags later orgID s' = Inr read \<and>
    (\<forall>flag. map_of (Flags_Effective read) flag =
       (case map_of overrides flag of None \<Rightarrow> map_of (Defaults_FeatureFlags later) flag | Some v \<Rightarrow> Some v)) \<and>
    (\<forall>flag. map_of overrides flag \<noteq> None \<longrightarrow> map_of defaultPlatformFeatureFlags flag \<noteq> None)"
proof -
  from assms obtain org where s': "s' = s\<lparr>s_orgs := AList.update orgID (org\<lparr>Org_FeatureFlagOverrides := overrides\<rparr>) (s_orgs s)\<rparr>"
    unfolding UpdateOrgFeatureFlags_def by (elim and_then_InrE) auto
  have "flags_ok overrides" by (rule overrides_ok [OF assms(2)])
  moreover have "GetOrgFeatureFlags later orgID s' = Inr (orgFeatureFlags orgID overrides later)"
    by (simp add: GetOrgFeatureFlags_def getOrg_def lookup_or_def s')
  ultimately show ?thesis by (simp add: orgFeatureFlags_lookup(2)) (auto simp: flags_ok_def)
qed

theorem flags_read_back_witness:
  "\<exists>s' flags read. UpdateOrgFeatureFlags demo_defaults ''o1'' [('' PITR'', True)] demo_start = Inr (s', flags) \<and>
     GetOrgFeatureFlags demo_defaults ''o1'' s' = Inr read \<and> map_of (Flags_Effective read) ''pitr'' = Some True"
proof -
  have n: "normalizeOrgFeatureOverrides [('' PITR'', True)] = Inr [(''pitr'', True)]" by code_simp
  then obtain s' flags where u: "UpdateOrgFeatureFlags demo_defaults ''o1'' [('' PITR'', True)] demo_start = Inr (s', flags)"
    by (simp add: UpdateOrgFeatureFlags_def getOrg_def lookup_or_def demo_start_def)
  from flags_read_back [OF u n, of demo_defaults] u show ?thesis by (auto split: option.splits)
qed

end
