(* ===== verification/Access.thy ===== *)
theory Access
  imports Orgs
begin

text \<open>
  Who may do what (internal/control/store.go): the members and teams of an organisation, the grants on a
  project, the project role that follows from them, and the access review. A person who is invited and has no
  account yet gets one; \<open>token\<close> is the random password it starts with.
\<close>

section \<open>Roles\<close>

record MembershipInput =
  MemberIn_Email :: string
  MemberIn_Role :: string

record TeamInput =
  TeamIn_Name :: string
  TeamIn_Slug :: string

record ProjectAccessInput =
  AccessIn_SubjectType :: string
  AccessIn_SubjectID :: string
  AccessIn_Role :: string

definition allowedMembershipRoles :: "string list" where
  "allowedMembershipRoles = [''owner'', ''admin'', ''developer'', ''viewer'']"

definition normalizeMembershipRole :: "string \<Rightarrow> string res" where
  "normalizeMembershipRole role =
     (let normalized = ToLower (TrimSpace role);
          normalized = (if normalized = [] then ''developer'' else normalized)
      in if normalized \<notin> set allowedMembershipRoles then Inl (ErrOther ''unsupported membership role'') else Inr normalized)"

definition membershipRoleRank :: "string \<Rightarrow> int" where
  "membershipRoleRank role =
     (let r = ToLower (TrimSpace role) in
      if r = ''owner'' then 4 else if r = ''admin'' then 3 else if r = ''developer'' then 2 else if r = ''viewer'' then 1 else 0)"

definition higherRole :: "string \<Rightarrow> string \<Rightarrow> string" where
  "higherRole left right = (if membershipRoleRank right > membershipRoleRank left then right else left)"

fun slugChars :: "bool \<Rightarrow> string \<Rightarrow> string" where
  "slugChars lastHyphen [] = []"
| "slugChars lastHyphen (r # rs) =
     (if is_lower_alnum r then r # slugChars False rs
      else if \<not> lastHyphen then CHR ''-'' # slugChars True rs
      else slugChars lastHyphen rs)"

definition normalizeTeamSlug :: "string \<Rightarrow> string" where
  "normalizeTeamSlug input = TrimFunc (\<lambda>c. c = CHR ''-'') (slugChars False (ToLower (TrimSpace input)))"

definition teamSlugPattern :: "string \<Rightarrow> bool" where
  "teamSlugPattern slug \<longleftrightarrow> 2 \<le> length slug \<and> length slug \<le> 64 \<and> (\<forall>c \<in> set slug. is_lower_alnum c \<or> c = CHR ''-'')"

section \<open>Members\<close>

text \<open>An entry of a map of maps.\<close>

definition get2 :: "(string, (string, 'v) gomap) gomap \<Rightarrow> string \<Rightarrow> string \<Rightarrow> 'v option" where
  "get2 m k l = map_of (get_or [] m k) l"

definition put2 :: "string \<Rightarrow> string \<Rightarrow> 'v \<Rightarrow> (string, (string, 'v) gomap) gomap \<Rightarrow> (string, (string, 'v) gomap) gomap" where
  "put2 k l v m = AList.update k (AList.update l v (get_or [] m k)) m"

definition delete2 :: "string \<Rightarrow> string \<Rightarrow> (string, (string, 'v) gomap) gomap \<Rightarrow> (string, (string, 'v) gomap) gomap" where
  "delete2 k l m = AList.update k (AList.delete l (get_or [] m k)) m"

definition ListOrgMembers :: "string \<Rightarrow> MemoryStore \<Rightarrow> Membership list res" where
  "ListOrgMembers orgID s =
     and_then (getOrg orgID s) (\<lambda>_.
     Inr (sort_slice (\<lambda>a b. Member_CreatedAt a < Member_CreatedAt b) (values_of (get_or [] (s_memberships s) orgID))))"

definition invitedUser :: "OpCtx \<Rightarrow> AuthLib \<Rightarrow> string \<Rightarrow> string \<Rightarrow> MemoryStore \<Rightarrow> MemoryStore \<times> User" where
  "invitedUser c k token email s =
     (case map_of (s_users s) email of
        Some user \<Rightarrow> (s, user)
      | None \<Rightarrow> let user = freshUser c email (hashPassword k token) ''member'' 0 in (putUser user s, user))"

definition createdAt :: "OpCtx \<Rightarrow> time \<Rightarrow> time" where
  "createdAt c t = (if IsZero t then ctx_now c else t)"

definition putMember :: "string \<Rightarrow> Membership \<Rightarrow> MemoryStore \<Rightarrow> MemoryStore" where
  "putMember orgID member s = s\<lparr>s_memberships := put2 orgID (Member_Email member) member (s_memberships s)\<rparr>"

definition UpsertOrgMember :: "OpCtx \<Rightarrow> AuthLib \<Rightarrow> string \<Rightarrow> string \<Rightarrow> MembershipInput \<Rightarrow> MemoryStore \<Rightarrow> Membership op" where
  "UpsertOrgMember c k token orgID input s =
     (let email = ToLower (TrimSpace (MemberIn_Email input)) in
      and_then (check (email \<noteq> []) (ErrOther ''member email is required'')) (\<lambda>_.
      and_then (normalizeMembershipRole (MemberIn_Role input)) (\<lambda>role.
      and_then (getOrg orgID s) (\<lambda>_.
      let (s, user) = invitedUser c k token email s;
          created = (case get2 (s_memberships s) orgID email of None \<Rightarrow> 0 | Some m \<Rightarrow> Member_CreatedAt m);
          member = \<lparr>Member_UserID = User_ID user, Member_OrgID = orgID, Member_Email = email, Member_Role = role,
            Member_CreatedAt = createdAt c created\<rparr>
      in Inr (putMember orgID member s, member)))))"

definition dropTeamMember :: "string \<Rightarrow> string \<Rightarrow> (string, TeamMember) gomap \<Rightarrow> (string, TeamMember) gomap" where
  "dropTeamMember orgID email members =
     (case map_of members email of
        Some member \<Rightarrow> if TM_OrgID member = orgID then AList.delete email members else members
      | None \<Rightarrow> members)"

definition dropGrants :: "string \<Rightarrow> (ProjectAccessGrant \<Rightarrow> bool) \<Rightarrow> MemoryStore \<Rightarrow> (string, ProjectAccessGrant list) gomap" where
  "dropGrants orgID gone s =
     AList.map_ran (\<lambda>ref grants. case map_of (s_projects s) ref of
         None \<Rightarrow> grants
       | Some project \<Rightarrow> if Proj_OrgID project \<noteq> orgID then grants else filter (\<lambda>g. \<not> gone g) grants)
       (s_projectAccess s)"

definition is_team_grant :: "string \<Rightarrow> ProjectAccessGrant \<Rightarrow> bool" where
  "is_team_grant i g \<longleftrightarrow> Grant_SubjectType g = ''team'' \<and> Grant_SubjectID g = i"

definition DeleteOrgMember :: "string \<Rightarrow> string \<Rightarrow> MemoryStore \<Rightarrow> unit op" where
  "DeleteOrgMember orgID email s =
     (let email = ToLower (TrimSpace email) in
      and_then (check (email \<noteq> []) (ErrOther ''member email is required'')) (\<lambda>_.
      and_then (getOrg orgID s) (\<lambda>_.
      case get2 (s_memberships s) orgID email of
        None \<Rightarrow> Inl (ErrNotFound ''member'')
      | Some member \<Rightarrow>
          Inr (s\<lparr>s_memberships := delete2 orgID email (s_memberships s),
                 s_teamMembers := AList.map_ran (\<lambda>_. dropTeamMember orgID email) (s_teamMembers s),
                 s_projectAccess := dropGrants orgID (is_user_grant (Member_UserID member)) s\<rparr>, ()))))"

section \<open>Teams\<close>

definition getTeam :: "string \<Rightarrow> string \<Rightarrow> MemoryStore \<Rightarrow> Team res" where
  "getTeam orgID slug s =
     (case get2 (s_teams s) orgID (normalizeTeamSlug slug) of None \<Rightarrow> Inl (ErrNotFound ''team'') | Some team \<Rightarrow> Inr team)"

definition ListOrgTeams :: "string \<Rightarrow> MemoryStore \<Rightarrow> Team list res" where
  "ListOrgTeams orgID s =
     and_then (getOrg orgID s) (\<lambda>_. Inr (sort_slice (\<lambda>a b. Team_Name a < Team_Name b) (values_of (get_or [] (s_teams s) orgID))))"

definition CreateOrgTeam :: "OpCtx \<Rightarrow> string \<Rightarrow> TeamInput \<Rightarrow> MemoryStore \<Rightarrow> Team op" where
  "CreateOrgTeam c orgID input s =
     (let name = TrimSpace (TeamIn_Name input) in
      and_then (check (name \<noteq> []) (ErrOther ''team name is required'')) (\<lambda>_.
      let slug = normalizeTeamSlug (TeamIn_Slug input);
          slug = (if slug = [] then normalizeTeamSlug name else slug) in
      and_then (check (teamSlugPattern slug) (ErrOther ''team slug must be 2-64 lowercase letters, numbers, or hyphens'')) (\<lambda>_.
      let team = \<lparr>Team_ID = ctx_newID c, Team_OrgID = orgID, Team_Name = name, Team_Slug = slug, Team_CreatedAt = ctx_now c\<rparr> in
      and_then (getOrg orgID s) (\<lambda>_.
      and_then (check (get2 (s_teams s) orgID slug = None) (ErrConflict ''team already exists'')) (\<lambda>_.
      Inr (s\<lparr>s_teams := put2 orgID slug team (s_teams s)\<rparr>, team))))))"

definition DeleteOrgTeam :: "string \<Rightarrow> string \<Rightarrow> MemoryStore \<Rightarrow> unit op" where
  "DeleteOrgTeam orgID slug s =
     and_then (getTeam orgID slug s) (\<lambda>team.
     Inr (s\<lparr>s_teams := delete2 orgID (normalizeTeamSlug slug) (s_teams s),
            s_teamMembers := AList.delete (Team_ID team) (s_teamMembers s),
            s_projectAccess := dropGrants orgID (is_team_grant (Team_ID team)) s\<rparr>, ()))"

definition ListTeamMembers :: "string \<Rightarrow> string \<Rightarrow> MemoryStore \<Rightarrow> TeamMember list res" where
  "ListTeamMembers orgID slug s =
     and_then (getTeam orgID slug s) (\<lambda>team.
     Inr (sort_slice (\<lambda>a b. TM_Email a < TM_Email b) (values_of (get_or [] (s_teamMembers s) (Team_ID team)))))"

definition ensureMember :: "OpCtx \<Rightarrow> string \<Rightarrow> User \<Rightarrow> string \<Rightarrow> MemoryStore \<Rightarrow> MemoryStore" where
  "ensureMember c orgID user email s =
     (if get2 (s_memberships s) orgID email = None
      then putMember orgID \<lparr>Member_UserID = User_ID user, Member_OrgID = orgID, Member_Email = email, Member_Role = ''viewer'',
          Member_CreatedAt = ctx_now c\<rparr> s
      else s)"

definition UpsertTeamMember :: "OpCtx \<Rightarrow> AuthLib \<Rightarrow> string \<Rightarrow> string \<Rightarrow> string \<Rightarrow> string \<Rightarrow> MemoryStore \<Rightarrow> TeamMember op" where
  "UpsertTeamMember c k token orgID slug inputEmail s =
     (let email = ToLower (TrimSpace inputEmail) in
      and_then (check (email \<noteq> []) (ErrOther ''team member email is required'')) (\<lambda>_.
      and_then (getTeam orgID slug s) (\<lambda>team.
      let (s, user) = invitedUser c k token email s;
          s = ensureMember c orgID user email s;
          created = (case get2 (s_teamMembers s) (Team_ID team) email of None \<Rightarrow> 0 | Some m \<Rightarrow> TM_CreatedAt m);
          member = \<lparr>TM_TeamID = Team_ID team, TM_OrgID = orgID, TM_TeamSlug = Team_Slug team, TM_UserID = User_ID user,
            TM_Email = email, TM_CreatedAt = createdAt c created\<rparr>
      in Inr (s\<lparr>s_teamMembers := put2 (Team_ID team) email member (s_teamMembers s)\<rparr>, member))))"

definition DeleteTeamMember :: "string \<Rightarrow> string \<Rightarrow> string \<Rightarrow> MemoryStore \<Rightarrow> unit op" where
  "DeleteTeamMember orgID slug email s =
     (let email = ToLower (TrimSpace email) in
      and_then (check (email \<noteq> []) (ErrOther ''team member email is required'')) (\<lambda>_.
      and_then (getTeam orgID slug s) (\<lambda>team.
      and_then (check (get2 (s_teamMembers s) (Team_ID team) email \<noteq> None) (ErrNotFound ''team member'')) (\<lambda>_.
      Inr (s\<lparr>s_teamMembers := delete2 (Team_ID team) email (s_teamMembers s)\<rparr>, ())))))"

section \<open>Grants on a project\<close>

definition ListProjectAccess :: "string \<Rightarrow> MemoryStore \<Rightarrow> ProjectAccessGrant list res" where
  "ListProjectAccess ref s =
     (let ref = ToLower (TrimSpace ref) in
      and_then (lookup_or (ErrNotFound ''project'') (s_projects s) ref) (\<lambda>_.
      Inr (sort_slice (\<lambda>a b. if Grant_SubjectType a = Grant_SubjectType b then Grant_SubjectName a < Grant_SubjectName b
             else Grant_SubjectType a < Grant_SubjectType b) (get_or [] (s_projectAccess s) ref))))"

text \<open>The identifier and the display name of the subject of a grant.\<close>

definition accessSubject :: "string \<Rightarrow> string \<Rightarrow> string \<Rightarrow> MemoryStore \<Rightarrow> (string \<times> string) res" where
  "accessSubject orgID subjectType subjectID s =
     (if subjectType = ''user'' then
        (let email = ToLower subjectID in
         and_then (lookup_or (ErrNotFound ''user'') (s_users s) email) (\<lambda>user.
         case get2 (s_memberships s) orgID email of
           None \<Rightarrow> Inl (ErrNotFound ''member'')
         | Some member \<Rightarrow> Inr (User_ID user, Member_Email member)))
      else if subjectType = ''team'' then
        and_then (getTeam orgID subjectID s) (\<lambda>team. Inr (Team_ID team, Team_Name team))
      else Inl (ErrOther ''subject type must be user or team''))"

definition same_subject :: "string \<Rightarrow> string \<Rightarrow> ProjectAccessGrant \<Rightarrow> bool" where
  "same_subject subjectType subjectID g \<longleftrightarrow> Grant_SubjectType g = subjectType \<and> Grant_SubjectID g = subjectID"

fun replaceGrant :: "string \<Rightarrow> string \<Rightarrow> string \<Rightarrow> string \<Rightarrow> ProjectAccessGrant list \<Rightarrow> (ProjectAccessGrant list \<times> ProjectAccessGrant) option" where
  "replaceGrant t i name role [] = None"
| "replaceGrant t i name role (grant # grants) =
     (if same_subject t i grant then
        (let grant = grant\<lparr>Grant_Role := role, Grant_SubjectName := name\<rparr> in Some (grant # grants, grant))
      else (case replaceGrant t i name role grants of None \<Rightarrow> None | Some (gs, g) \<Rightarrow> Some (grant # gs, g)))"

definition UpsertProjectAccess :: "OpCtx \<Rightarrow> string \<Rightarrow> ProjectAccessInput \<Rightarrow> MemoryStore \<Rightarrow> ProjectAccessGrant op" where
  "UpsertProjectAccess c ref input s =
     (let ref = ToLower (TrimSpace ref) in
      and_then (normalizeMembershipRole (AccessIn_Role input)) (\<lambda>role.
      let subjectType = ToLower (TrimSpace (AccessIn_SubjectType input)); subjectID = TrimSpace (AccessIn_SubjectID input) in
      and_then (check (subjectID \<noteq> []) (ErrOther ''subject id is required'')) (\<lambda>_.
      and_then (lookup_or (ErrNotFound ''project'') (s_projects s) ref) (\<lambda>project.
      and_then (accessSubject (Proj_OrgID project) subjectType subjectID s) (\<lambda>(subjectID, subjectName).
      let grants = get_or [] (s_projectAccess s) ref in
      case replaceGrant subjectType subjectID subjectName role grants of
        Some (grants, grant) \<Rightarrow> Inr (s\<lparr>s_projectAccess := AList.update ref grants (s_projectAccess s)\<rparr>, grant)
      | None \<Rightarrow>
          let grant = \<lparr>Grant_ID = ctx_newID c, Grant_ProjectRef = ref, Grant_OrgID = Proj_OrgID project,
                Grant_SubjectType = subjectType, Grant_SubjectID = subjectID, Grant_SubjectName = subjectName,
                Grant_Role = role, Grant_CreatedAt = ctx_now c\<rparr>
          in Inr (s\<lparr>s_projectAccess := AList.update ref (grants @ [grant]) (s_projectAccess s)\<rparr>, grant))))))"

definition resolveAccessSubjectIDLocked :: "string \<Rightarrow> string \<Rightarrow> string \<Rightarrow> MemoryStore \<Rightarrow> string res" where
  "resolveAccessSubjectIDLocked orgID subjectType subjectID s =
     (if subjectType = ''user'' then
        (case map_of (s_users s) (ToLower (TrimSpace subjectID)) of
           Some user \<Rightarrow> Inr (User_ID user)
         | None \<Rightarrow> (case find (\<lambda>user. User_ID user = subjectID) (values_of (s_users s)) of
                      Some user \<Rightarrow> Inr (User_ID user) | None \<Rightarrow> Inl (ErrNotFound ''user'')))
      else if subjectType = ''team'' then
        (case get2 (s_teams s) orgID (normalizeTeamSlug subjectID) of
           Some team \<Rightarrow> Inr (Team_ID team)
         | None \<Rightarrow> (case find (\<lambda>team. Team_ID team = subjectID) (values_of (get_or [] (s_teams s) orgID)) of
                      Some team \<Rightarrow> Inr (Team_ID team) | None \<Rightarrow> Inl (ErrNotFound ''team'')))
      else Inl (ErrOther ''subject type must be user or team''))"

definition DeleteProjectAccess :: "string \<Rightarrow> string \<Rightarrow> string \<Rightarrow> MemoryStore \<Rightarrow> unit op" where
  "DeleteProjectAccess ref subjectType subjectID s =
     (let ref = ToLower (TrimSpace ref); subjectType = ToLower (TrimSpace subjectType); subjectID = TrimSpace subjectID in
      and_then (lookup_or (ErrNotFound ''project'') (s_projects s) ref) (\<lambda>project.
      and_then (resolveAccessSubjectIDLocked (Proj_OrgID project) subjectType subjectID s) (\<lambda>normalizedSubjectID.
      let grants = get_or [] (s_projectAccess s) ref;
          filtered = filter (\<lambda>g. \<not> same_subject subjectType normalizedSubjectID g) grants;
          removed = (\<exists>g \<in> set grants. same_subject subjectType normalizedSubjectID g) in
      and_then (check removed (ErrNotFound ''project access grant'')) (\<lambda>_.
      Inr (s\<lparr>s_projectAccess := AList.update ref filtered (s_projectAccess s)\<rparr>, ())))))"

text \<open>A grant counts for a user directly, or through a team that has him as a member in the project's organisation.\<close>

definition grantApplies :: "MemoryStore \<Rightarrow> string \<Rightarrow> string \<Rightarrow> User \<Rightarrow> ProjectAccessGrant \<Rightarrow> bool" where
  "grantApplies s orgID email user grant =
     (if is_user_grant (User_ID user) grant then True
      else if Grant_SubjectType grant \<noteq> ''team'' then False
      else (\<exists>member \<in> set (values_of (get_or [] (s_teamMembers s) (Grant_SubjectID grant))).
              TM_OrgID member = orgID \<and> TM_Email member = email))"

definition ResolveProjectRole :: "string \<Rightarrow> string \<Rightarrow> MemoryStore \<Rightarrow> string res" where
  "ResolveProjectRole ref email s =
     (let ref = ToLower (TrimSpace ref); email = ToLower (TrimSpace email) in
      and_then (lookup_or (ErrNotFound ''project'') (s_projects s) ref) (\<lambda>project.
      and_then (lookup_or (ErrNotFound ''user'') (s_users s) email) (\<lambda>user.
      let best = fold (\<lambda>grant best. if grantApplies s (Proj_OrgID project) email user grant then higherRole best (Grant_Role grant) else best)
            (get_or [] (s_projectAccess s) ref) [] in
      and_then (check (best \<noteq> []) (ErrNotFound ''project access'')) (\<lambda>_. Inr best))))"

section \<open>The access review\<close>

record TeamAccessReview =
  TReview_Team :: Team
  TReview_Members :: "TeamMember list"

record EffectiveProjectRole =
  Eff_UserID :: string
  Eff_Email :: string
  Eff_Role :: string
  Eff_Sources :: "string list"

record ProjectAccessReview =
  PReview_ProjectRef :: string
  PReview_ProjectName :: string
  PReview_Grants :: "ProjectAccessGrant list"
  PReview_Effective :: "EffectiveProjectRole list"

record OrgAccessReview =
  OReview_OrgID :: string
  OReview_Members :: "Membership list"
  OReview_Teams :: "TeamAccessReview list"
  OReview_Projects :: "ProjectAccessReview list"
  OReview_GeneratedAt :: time

type_synonym effective_roles = "(string, EffectiveProjectRole) gomap"

definition mergeEffectiveRole :: "string \<Rightarrow> string \<Rightarrow> string \<Rightarrow> string \<Rightarrow> effective_roles \<Rightarrow> effective_roles" where
  "mergeEffectiveRole userID email role source roles =
     (let fresh = \<lparr>Eff_UserID = userID, Eff_Email = email, Eff_Role = role, Eff_Sources = []\<rparr>;
          current = (case map_of roles email of None \<Rightarrow> fresh | Some e \<Rightarrow> if Eff_Email e = [] then fresh else e);
          current = current\<lparr>Eff_Sources := Eff_Sources current @ [source], Eff_Role := higherRole (Eff_Role current) role\<rparr>
      in AList.update email current roles)"

definition orgRoles :: "Membership list \<Rightarrow> effective_roles" where
  "orgRoles members =
     fold (\<lambda>m. AList.update (Member_Email m) \<lparr>Eff_UserID = Member_UserID m, Eff_Email = Member_Email m, Eff_Role = Member_Role m,
       Eff_Sources = [''org:'' @ Member_Role m]\<rparr>) members []"

definition mergeTeamMember :: "string \<Rightarrow> ProjectAccessGrant \<Rightarrow> TeamMember \<Rightarrow> effective_roles \<Rightarrow> effective_roles" where
  "mergeTeamMember orgID grant m effective =
     (if TM_OrgID m = orgID
      then mergeEffectiveRole (TM_UserID m) (TM_Email m) (Grant_Role grant)
        (''project:team:'' @ Grant_SubjectName grant @ '':'' @ Grant_Role grant) effective
      else effective)"

definition mergeGrant :: "MemoryStore \<Rightarrow> string \<Rightarrow> Membership list \<Rightarrow> ProjectAccessGrant \<Rightarrow> effective_roles \<Rightarrow> effective_roles" where
  "mergeGrant s orgID members grant effective =
     (if Grant_SubjectType grant = ''user'' then
        (case find (\<lambda>m. Member_UserID m = Grant_SubjectID grant) members of
           None \<Rightarrow> effective
         | Some m \<Rightarrow> mergeEffectiveRole (Member_UserID m) (Member_Email m) (Grant_Role grant) (''project:user:'' @ Grant_Role grant) effective)
      else if Grant_SubjectType grant = ''team'' then
        fold (mergeTeamMember orgID grant) (values_of (get_or [] (s_teamMembers s) (Grant_SubjectID grant))) effective
      else effective)"

definition sortedGrants :: "ProjectAccessGrant list \<Rightarrow> ProjectAccessGrant list" where
  "sortedGrants = sort_slice (\<lambda>a b. if Grant_SubjectType a = Grant_SubjectType b then Grant_SubjectName a < Grant_SubjectName b
     else Grant_SubjectType a < Grant_SubjectType b)"

definition reviewProject :: "MemoryStore \<Rightarrow> string \<Rightarrow> Membership list \<Rightarrow> Project \<Rightarrow> ProjectAccessReview" where
  "reviewProject s orgID members project =
     (let grants = sortedGrants (get_or [] (s_projectAccess s) (Proj_Ref project));
          effective = fold (mergeGrant s orgID members) grants (orgRoles members)
      in \<lparr>PReview_ProjectRef = Proj_Ref project, PReview_ProjectName = Proj_Name project, PReview_Grants = grants,
          PReview_Effective = sort_slice (\<lambda>a b. Eff_Email a < Eff_Email b) (values_of effective)\<rparr>)"

definition GetOrgAccessReview :: "OpCtx \<Rightarrow> string \<Rightarrow> MemoryStore \<Rightarrow> OrgAccessReview res" where
  "GetOrgAccessReview c orgID s =
     and_then (getOrg orgID s) (\<lambda>_.
     let members = sort_slice (\<lambda>a b. Member_Email a < Member_Email b) (values_of (get_or [] (s_memberships s) orgID));
         teams = sort_slice (\<lambda>a b. Team_Name (TReview_Team a) < Team_Name (TReview_Team b))
           (map (\<lambda>team. \<lparr>TReview_Team = team, TReview_Members =
               sort_slice (\<lambda>a b. TM_Email a < TM_Email b) (values_of (get_or [] (s_teamMembers s) (Team_ID team)))\<rparr>)
             (values_of (get_or [] (s_teams s) orgID)));
         projects = sort_slice (\<lambda>a b. PReview_ProjectRef a < PReview_ProjectRef b)
           (map (reviewProject s orgID members) (filter (\<lambda>p. Proj_OrgID p = orgID) (values_of (s_projects s))))
     in Inr \<lparr>OReview_OrgID = orgID, OReview_Members = members, OReview_Teams = teams, OReview_Projects = projects,
         OReview_GeneratedAt = ctx_now c\<rparr>)"

end

