(* ===== verification/Access_Rights.thy ===== *)
theory Access_Rights
  imports Access
begin

text \<open>
  What backs a right. The invariant of the access tables: a membership belongs to the account with that email,
  a team member is a member of the team's organisation, and a grant is for a member or a team of the project's
  organisation. Every operation on users, organisations, members, teams, grants and projects keeps it, so a
  project role always goes to a current member of the project's organisation.
\<close>

section \<open>Reading the tables\<close>

lemma get2_put2 [simp]: "get2 (put2 k l v m) k' l' = (if k' = k \<and> l' = l then Some v else get2 m k' l')"
  by (simp add: get2_def put2_def)

lemma get2_delete2 [simp]: "get2 (delete2 k l m) k' l' = (if k' = k \<and> l' = l then None else get2 m k' l')"
  by (simp add: get2_def delete2_def)

lemma get2_delete [simp]: "get2 (AList.delete k m) k' l = (if k' = k then None else get2 m k' l)"
  by (simp add: get2_def)

lemma get2_Nil [simp]: "get2 [] k l = None"
  by (simp add: get2_def)

lemma get_or_map_ran: "f [] = [] \<Longrightarrow> get_or [] (AList.map_ran (\<lambda>_. f) m) k = f (get_or [] m k)"
  by (simp add: get_or_def split: option.split)

lemma get2_map_ran: "f [] = [] \<Longrightarrow> get2 (AList.map_ran (\<lambda>_. f) m) k l = map_of (f (get_or [] m k)) l"
  by (simp add: get2_def get_or_map_ran)

lemma get2_fold_delete: "get2 (fold (\<lambda>t. AList.delete (f t)) ts m) k l = (if k \<in> f ` set ts then None else get2 m k l)"
  by (induction ts arbitrary: m) auto

definition uid :: "MemoryStore \<Rightarrow> string \<Rightarrow> string option" where
  "uid s e = map_option User_ID (map_of (s_users s) e)"

definition org_of :: "MemoryStore \<Rightarrow> string \<Rightarrow> string option" where
  "org_of s ref = map_option Proj_OrgID (map_of (s_projects s) ref)"

definition grants_of :: "MemoryStore \<Rightarrow> string \<Rightarrow> ProjectAccessGrant list" where
  "grants_of s ref = get_or [] (s_projectAccess s) ref"

section \<open>The invariant\<close>

type_synonym 'v table = "string \<Rightarrow> string \<Rightarrow> 'v option"

definition members_ok :: "(string \<Rightarrow> string option) \<Rightarrow> Membership table \<Rightarrow> bool" where
  "members_ok U M \<longleftrightarrow> (\<forall>org e m. M org e = Some m \<longrightarrow> U e = Some (Member_UserID m) \<and> Member_Email m = e \<and>
     Member_Role m \<in> set allowedMembershipRoles)"

definition teams_ok :: "Team table \<Rightarrow> bool" where
  "teams_ok T \<longleftrightarrow> (\<forall>o1 s1 t1 o2 s2 t2. T o1 s1 = Some t1 \<longrightarrow> T o2 s2 = Some t2 \<longrightarrow> Team_ID t1 = Team_ID t2 \<longrightarrow> o1 = o2 \<and> s1 = s2)"

definition team_members_ok :: "Membership table \<Rightarrow> Team table \<Rightarrow> TeamMember table \<Rightarrow> bool" where
  "team_members_ok M T TM \<longleftrightarrow> (\<forall>i e m. TM i e = Some m \<longrightarrow> TM_Email m = e \<and> M (TM_OrgID m) e \<noteq> None \<and>
     (\<exists>slug t. T (TM_OrgID m) slug = Some t \<and> Team_ID t = i))"

definition backed :: "Membership table \<Rightarrow> Team table \<Rightarrow> string \<Rightarrow> ProjectAccessGrant \<Rightarrow> bool" where
  "backed M T org g \<longleftrightarrow>
     (Grant_SubjectType g = ''user'' \<and> (\<exists>e m. M org e = Some m \<and> Member_UserID m = Grant_SubjectID g)) \<or>
     (Grant_SubjectType g = ''team'' \<and> (\<exists>slug t. T org slug = Some t \<and> Team_ID t = Grant_SubjectID g))"

definition grants_ok :: "Membership table \<Rightarrow> Team table \<Rightarrow> (string \<Rightarrow> string option) \<Rightarrow> (string \<Rightarrow> ProjectAccessGrant list) \<Rightarrow> bool" where
  "grants_ok M T P G \<longleftrightarrow> (\<forall>ref. \<forall>g \<in> set (G ref). Grant_Role g \<in> set allowedMembershipRoles \<and>
     (\<exists>org. P ref = Some org \<and> backed M T org g))"

definition tables_ok :: "(string \<Rightarrow> string option) \<Rightarrow> Membership table \<Rightarrow> Team table \<Rightarrow> TeamMember table \<Rightarrow>
    (string \<Rightarrow> string option) \<Rightarrow> (string \<Rightarrow> ProjectAccessGrant list) \<Rightarrow> bool" where
  "tables_ok U M T TM P G \<longleftrightarrow> members_ok U M \<and> teams_ok T \<and> team_members_ok M T TM \<and> grants_ok M T P G"

definition nested_ok :: "(string, (string, 'v) gomap) gomap \<Rightarrow> bool" where
  "nested_ok m \<longleftrightarrow> (\<forall>k. gomap_ok (get_or [] m k))"

definition refs_ok :: "(string, Project) gomap \<Rightarrow> bool" where
  "refs_ok m \<longleftrightarrow> gomap_ok m \<and> (\<forall>ref p. map_of m ref = Some p \<longrightarrow> Proj_Ref p = ref \<and> norm_key ref = ref)"

definition access_inv :: "MemoryStore \<Rightarrow> bool" where
  "access_inv s \<longleftrightarrow> users_ok (s_users s) \<and> nested_ok (s_memberships s) \<and> nested_ok (s_teams s) \<and> nested_ok (s_teamMembers s) \<and>
     refs_ok (s_projects s) \<and> tables_ok (uid s) (get2 (s_memberships s)) (get2 (s_teams s)) (get2 (s_teamMembers s)) (org_of s) (grants_of s)"

lemma members_okD:
  "members_ok U M \<Longrightarrow> M org e = Some m \<Longrightarrow> U e = Some (Member_UserID m)"
  "members_ok U M \<Longrightarrow> M org e = Some m \<Longrightarrow> Member_Email m = e"
  "members_ok U M \<Longrightarrow> M org e = Some m \<Longrightarrow> Member_Role m \<in> set allowedMembershipRoles"
  unfolding members_ok_def by blast+

lemma teams_okD: "teams_ok T \<Longrightarrow> T o1 s1 = Some t1 \<Longrightarrow> T o2 s2 = Some t2 \<Longrightarrow> Team_ID t1 = Team_ID t2 \<Longrightarrow> o1 = o2 \<and> s1 = s2"
  unfolding teams_ok_def by blast

lemma team_members_okD:
  "team_members_ok M T TM \<Longrightarrow> TM i e = Some m \<Longrightarrow> TM_Email m = e"
  "team_members_ok M T TM \<Longrightarrow> TM i e = Some m \<Longrightarrow> M (TM_OrgID m) e \<noteq> None"
  "team_members_ok M T TM \<Longrightarrow> TM i e = Some m \<Longrightarrow> \<exists>slug t. T (TM_OrgID m) slug = Some t \<and> Team_ID t = i"
  unfolding team_members_ok_def by blast+

lemma grants_okD:
  "grants_ok M T P G \<Longrightarrow> g \<in> set (G ref) \<Longrightarrow> Grant_Role g \<in> set allowedMembershipRoles"
  "grants_ok M T P G \<Longrightarrow> g \<in> set (G ref) \<Longrightarrow> \<exists>org. P ref = Some org \<and> backed M T org g"
  unfolding grants_ok_def by blast+

lemma tables_okD:
  assumes "tables_ok U M T TM P G"
  shows "members_ok U M" "teams_ok T" "team_members_ok M T TM" "grants_ok M T P G"
  using assms unfolding tables_ok_def by simp_all

text \<open>Grants stay backed when no member and no team is lost, up to the email of the member.\<close>

definition keeps :: "Membership table \<Rightarrow> Membership table \<Rightarrow> bool" where
  "keeps M M' \<longleftrightarrow> (\<forall>org e m. M org e = Some m \<longrightarrow> (\<exists>e' m'. M' org e' = Some m' \<and> Member_UserID m' = Member_UserID m))"

lemma backed_mono:
  assumes "backed M T org g" and "keeps M M'" and "\<And>slug t. T org slug = Some t \<Longrightarrow> \<exists>slug t'. T' org slug = Some t' \<and> Team_ID t' = Team_ID t"
  shows "backed M' T' org g"
  using assms(1) unfolding backed_def
proof (elim disjE conjE exE)
  fix e m assume "Grant_SubjectType g = ''user''" "M org e = Some m" "Member_UserID m = Grant_SubjectID g"
  moreover from this(2) assms(2) obtain e' m' where "M' org e' = Some m'" "Member_UserID m' = Member_UserID m"
    unfolding keeps_def by blast
  ultimately show "Grant_SubjectType g = ''user'' \<and> (\<exists>e m. M' org e = Some m \<and> Member_UserID m = Grant_SubjectID g) \<or>
     Grant_SubjectType g = ''team'' \<and> (\<exists>slug t. T' org slug = Some t \<and> Team_ID t = Grant_SubjectID g)" by metis
next
  fix slug t assume "Grant_SubjectType g = ''team''" "T org slug = Some t" "Team_ID t = Grant_SubjectID g"
  moreover from assms(3) [OF this(2)] obtain slug' t' where "T' org slug' = Some t'" "Team_ID t' = Team_ID t" by blast
  ultimately show "Grant_SubjectType g = ''user'' \<and> (\<exists>e m. M' org e = Some m \<and> Member_UserID m = Grant_SubjectID g) \<or>
     Grant_SubjectType g = ''team'' \<and> (\<exists>slug t. T' org slug = Some t \<and> Team_ID t = Grant_SubjectID g)" by metis
qed

lemma grants_ok_mono:
  assumes "grants_ok M T P G" and "keeps M M'" and "\<And>org slug t. T org slug = Some t \<Longrightarrow> \<exists>slug t'. T' org slug = Some t' \<and> Team_ID t' = Team_ID t"
  shows "grants_ok M' T' P G"
  unfolding grants_ok_def
proof (intro allI ballI)
  fix ref g assume g: "g \<in> set (G ref)"
  from grants_okD(2) [OF assms(1) g] obtain org where "P ref = Some org" "backed M T org g" by blast
  with grants_okD(1) [OF assms(1) g] backed_mono [OF _ assms(2), of T org g T'] assms(3)
  show "Grant_Role g \<in> set allowedMembershipRoles \<and> (\<exists>org. P ref = Some org \<and> backed M' T' org g)" by blast
qed

section \<open>Changes of the tables\<close>

lemma tables_user:
  assumes "tables_ok U M T TM P G" and "\<And>e i. U e = Some i \<Longrightarrow> U' e = Some i"
  shows "tables_ok U' M T TM P G"
  using assms unfolding tables_ok_def members_ok_def by blast

lemma tables_member:
  assumes ok: "tables_ok U M T TM P G" and "U e = Some (Member_UserID m)" "Member_Email m = e" "Member_Role m \<in> set allowedMembershipRoles"
    and M': "\<And>k l. M' k l = (if k = org \<and> l = e then Some m else M k l)"
  shows "tables_ok U M' T TM P G"
proof -
  note ok' = tables_okD [OF ok]
  have "keeps M M'" unfolding keeps_def
  proof (intro allI impI)
    fix k l n assume n: "M k l = Some n"
    show "\<exists>l' n'. M' k l' = Some n' \<and> Member_UserID n' = Member_UserID n"
      using n M' members_okD(1) [OF ok'(1) n] assms(2) by (cases "k = org \<and> l = e") auto
  qed
  then have "grants_ok M' T P G" using grants_ok_mono [OF ok'(4)] by blast
  moreover have "members_ok U M'" using ok'(1) assms(2-4) by (simp add: members_ok_def M')
  moreover have "team_members_ok M' T TM" using ok'(3) by (simp add: team_members_ok_def M')
  ultimately show ?thesis using ok'(2) by (simp add: tables_ok_def)
qed

lemma tables_delete_member:
  assumes ok: "tables_ok U M T TM P G" and m: "M org e = Some m"
    and M': "\<And>k l. M' k l = (if k = org \<and> l = e then None else M k l)"
    and TM': "\<And>i l n. TM' i l = Some n \<Longrightarrow> TM i l = Some n \<and> \<not> (l = e \<and> TM_OrgID n = org)"
    and G': "\<And>ref g. g \<in> set (G' ref) \<Longrightarrow> g \<in> set (G ref) \<and> \<not> (P ref = Some org \<and> is_user_grant (Member_UserID m) g)"
  shows "tables_ok U M' T TM' P G'"
proof -
  note ok' = tables_okD [OF ok]
  have "members_ok U M'" using ok'(1) by (simp add: members_ok_def M')
  moreover have "team_members_ok M' T TM'" unfolding team_members_ok_def
  proof (intro allI impI)
    fix i l n assume "TM' i l = Some n"
    from TM' [OF this] have n: "TM i l = Some n" "\<not> (TM_OrgID n = org \<and> l = e)" by auto
    with team_members_okD [OF ok'(3) n(1)]
    show "TM_Email n = l \<and> M' (TM_OrgID n) l \<noteq> None \<and> (\<exists>slug t. T (TM_OrgID n) slug = Some t \<and> Team_ID t = i)"
      by (simp add: M')
  qed
  moreover have "grants_ok M' T P G'" unfolding grants_ok_def
  proof (intro allI ballI)
    fix ref g assume "g \<in> set (G' ref)"
    note g = G' [OF this]
    from grants_okD(2) [OF ok'(4)] g obtain k where k: "P ref = Some k" "backed M T k g" by blast
    have "\<exists>l n. M' k l = Some n \<and> Member_UserID n = Grant_SubjectID g"
      if "Grant_SubjectType g = ''user''" "M k l = Some n" "Member_UserID n = Grant_SubjectID g" for l n
    proof -
      have "\<not> (k = org \<and> l = e)" using that g k(1) m by (auto simp: is_user_grant_def)
      with that(2,3) have "M' k l = Some n \<and> Member_UserID n = Grant_SubjectID g" by (simp add: M')
      then show ?thesis by blast
    qed
    then have "backed M' T k g" using k(2) unfolding backed_def by blast
    with k(1) grants_okD(1) [OF ok'(4)] g show "Grant_Role g \<in> set allowedMembershipRoles \<and> (\<exists>org. P ref = Some org \<and> backed M' T org g)"
      by blast
  qed
  ultimately show ?thesis using ok'(2) by (simp add: tables_ok_def)
qed

lemma tables_team:
  assumes ok: "tables_ok U M T TM P G" and "T org slug = None" and fresh: "\<And>k l t'. T k l = Some t' \<Longrightarrow> Team_ID t' \<noteq> Team_ID t"
    and T': "\<And>k l. T' k l = (if k = org \<and> l = slug then Some t else T k l)"
  shows "tables_ok U M T' TM P G"
proof -
  note ok' = tables_okD [OF ok]
  have sub: "T k l = Some x \<Longrightarrow> T' k l = Some x" for k l x using T' assms(2) by auto
  have "teams_ok T'" unfolding teams_ok_def
  proof (intro allI impI)
    fix o1 s1 t1 o2 s2 t2
    assume "T' o1 s1 = Some t1" "T' o2 s2 = Some t2" "Team_ID t1 = Team_ID t2"
    then show "o1 = o2 \<and> s1 = s2"
      using fresh [of o1 s1 t1] fresh [of o2 s2 t2] teams_okD [OF ok'(2), of o1 s1 t1 o2 s2 t2]
      by (auto simp: T' split: if_splits)
  qed
  moreover have "team_members_ok M T' TM" using ok'(3) sub unfolding team_members_ok_def by blast
  moreover have "keeps M M" by (auto simp: keeps_def)
  then have "grants_ok M T' P G" using grants_ok_mono [OF ok'(4)] sub by blast
  ultimately show ?thesis using ok'(1) by (simp add: tables_ok_def)
qed

lemma tables_delete_team:
  assumes ok: "tables_ok U M T TM P G" and t: "T org slug = Some t"
    and T': "\<And>k l. T' k l = (if k = org \<and> l = slug then None else T k l)"
    and TM': "\<And>i l. TM' i l = (if i = Team_ID t then None else TM i l)"
    and G': "\<And>ref g. g \<in> set (G' ref) \<Longrightarrow> g \<in> set (G ref) \<and> \<not> (P ref = Some org \<and> is_team_grant (Team_ID t) g)"
  shows "tables_ok U M T' TM' P G'"
proof -
  note ok' = tables_okD [OF ok]
  have "teams_ok T'" using ok'(2) unfolding teams_ok_def T' by (metis option.distinct(1))
  moreover have "team_members_ok M T' TM'" unfolding team_members_ok_def
  proof (intro allI impI)
    fix i l n assume "TM' i l = Some n"
    then have n: "TM i l = Some n" "i \<noteq> Team_ID t" by (auto simp: TM' split: if_splits)
    from team_members_okD(3) [OF ok'(3) n(1)] obtain sl t' where t': "T (TM_OrgID n) sl = Some t'" "Team_ID t' = i" by blast
    with n(2) t have "T' (TM_OrgID n) sl = Some t'" by (auto simp: T')
    with t' team_members_okD(1,2) [OF ok'(3) n(1)]
    show "TM_Email n = l \<and> M (TM_OrgID n) l \<noteq> None \<and> (\<exists>slug t. T' (TM_OrgID n) slug = Some t \<and> Team_ID t = i)" by blast
  qed
  moreover have "grants_ok M T' P G'" unfolding grants_ok_def
  proof (intro allI ballI)
    fix ref g assume "g \<in> set (G' ref)"
    note g = G' [OF this]
    from grants_okD(2) [OF ok'(4)] g obtain k where k: "P ref = Some k" "backed M T k g" by blast
    have "\<exists>l x. T' k l = Some x \<and> Team_ID x = Grant_SubjectID g"
      if "Grant_SubjectType g = ''team''" "T k l = Some x" "Team_ID x = Grant_SubjectID g" for l x
    proof -
      have "\<not> (k = org \<and> l = slug)" using that g k(1) t by (auto simp: is_team_grant_def)
      with that(2,3) have "T' k l = Some x \<and> Team_ID x = Grant_SubjectID g" by (simp add: T')
      then show ?thesis by blast
    qed
    then have "backed M T' k g" using k(2) unfolding backed_def by blast
    with k(1) grants_okD(1) [OF ok'(4)] g show "Grant_Role g \<in> set allowedMembershipRoles \<and> (\<exists>org. P ref = Some org \<and> backed M T' org g)"
      by blast
  qed
  ultimately show ?thesis using ok'(1) by (simp add: tables_ok_def)
qed

lemma tables_team_members:
  assumes ok: "tables_ok U M T TM P G"
    and "\<And>i e m. TM' i e = Some m \<Longrightarrow> TM i e = Some m \<or>
      TM_Email m = e \<and> M (TM_OrgID m) e \<noteq> None \<and> (\<exists>slug t. T (TM_OrgID m) slug = Some t \<and> Team_ID t = i)"
  shows "tables_ok U M T TM' P G"
  using assms unfolding tables_ok_def team_members_ok_def by blast

lemma tables_grants:
  assumes ok: "tables_ok U M T TM P G"
    and "\<And>ref g. g \<in> set (G' ref) \<Longrightarrow> g \<in> set (G ref) \<or>
      Grant_Role g \<in> set allowedMembershipRoles \<and> (\<exists>org. P ref = Some org \<and> backed M T org g)"
  shows "tables_ok U M T TM P G'"
  using assms unfolding tables_ok_def grants_ok_def by blast

lemma tables_projects:
  assumes ok: "tables_ok U M T TM P G" and "\<And>ref g. g \<in> set (G' ref) \<Longrightarrow> g \<in> set (G ref) \<and> P' ref = P ref"
  shows "tables_ok U M T TM P' G'"
  using assms unfolding tables_ok_def grants_ok_def by metis

lemma tables_delete_org:
  assumes ok: "tables_ok U M T TM P G" and none: "\<And>ref. P ref \<noteq> Some org"
    and M': "\<And>k l. M' k l = (if k = org then None else M k l)" and T': "\<And>k l. T' k l = (if k = org then None else T k l)"
    and TM': "\<And>i l. TM' i l = (if \<exists>slug t. T org slug = Some t \<and> Team_ID t = i then None else TM i l)"
  shows "tables_ok U M' T' TM' P G"
proof -
  note ok' = tables_okD [OF ok]
  have "members_ok U M'" using ok'(1) by (simp add: members_ok_def M')
  moreover have "teams_ok T'" using ok'(2) unfolding teams_ok_def T' by (metis option.distinct(1))
  moreover have "team_members_ok M' T' TM'" unfolding team_members_ok_def
  proof (intro allI impI)
    fix i l n assume "TM' i l = Some n"
    then have n: "TM i l = Some n" "\<And>slug t. T org slug = Some t \<Longrightarrow> Team_ID t \<noteq> i" by (auto simp: TM' split: if_splits)
    from team_members_okD(3) [OF ok'(3) n(1)] n(2) have "TM_OrgID n \<noteq> org" by blast
    with team_members_okD [OF ok'(3) n(1)]
    show "TM_Email n = l \<and> M' (TM_OrgID n) l \<noteq> None \<and> (\<exists>slug t. T' (TM_OrgID n) slug = Some t \<and> Team_ID t = i)" by (simp add: M' T')
  qed
  moreover have "grants_ok M' T' P G" using ok'(4) none unfolding grants_ok_def backed_def M' T' by metis
  ultimately show ?thesis by (simp add: tables_ok_def)
qed

text \<open>A user whose email changes keeps what he has; a deleted user loses it.\<close>

definition moved :: "string \<Rightarrow> string \<Rightarrow> ('v \<Rightarrow> 'v) \<Rightarrow> 'v table \<Rightarrow> 'v table" where
  "moved old new f M k l =
     (case M k old of None \<Rightarrow> M k l | Some v \<Rightarrow> if l = new then Some (f v) else if l = old then None else M k l)"

lemma tables_rename:
  assumes ok: "tables_ok U M T TM P G" and old: "U old = Some i" and new: "U new = None"
    and U': "\<And>e. U' e = (if e = new then Some i else if e = old then None else U e)"
    and G': "\<And>ref. map (\<lambda>g. (Grant_Role g, Grant_SubjectType g, Grant_SubjectID g)) (G' ref) =
      map (\<lambda>g. (Grant_Role g, Grant_SubjectType g, Grant_SubjectID g)) (G ref)"
  shows "tables_ok U' (moved old new (\<lambda>m. m\<lparr>Member_Email := new\<rparr>) M) T (moved old new (\<lambda>m. m\<lparr>TM_Email := new\<rparr>) TM) P G'"
proof -
  let ?M = "moved old new (\<lambda>m. m\<lparr>Member_Email := new\<rparr>) M"
  note ok' = tables_okD [OF ok]
  have free: "M k new = None" for k using members_okD(1) [OF ok'(1), of k new] new by (cases "M k new") auto
  have tfree: "TM k new = None" for k using team_members_okD(2) [OF ok'(3), of k new] free by (cases "TM k new") auto
  have ne: "old \<noteq> new" using old new by auto
  have "members_ok U' ?M" unfolding members_ok_def
  proof (intro allI impI)
    fix org e m assume m: "?M org e = Some m"
    show "U' e = Some (Member_UserID m) \<and> Member_Email m = e \<and> Member_Role m \<in> set allowedMembershipRoles"
    proof (cases "M org old")
      case None
      with m have "M org e = Some m" by (simp add: moved_def)
      with None members_okD [OF ok'(1) this] free show ?thesis by (auto simp: U')
    next
      case (Some v)
      with m members_okD [OF ok'(1) Some] old members_okD [OF ok'(1), of org e m] show ?thesis
        by (auto simp: moved_def U' split: if_splits)
    qed
  qed
  moreover have "team_members_ok ?M T (moved old new (\<lambda>m. m\<lparr>TM_Email := new\<rparr>) TM)" unfolding team_members_ok_def
  proof (intro allI impI)
    fix i e m assume m: "moved old new (\<lambda>m. m\<lparr>TM_Email := new\<rparr>) TM i e = Some m"
    show "TM_Email m = e \<and> ?M (TM_OrgID m) e \<noteq> None \<and> (\<exists>slug t. T (TM_OrgID m) slug = Some t \<and> Team_ID t = i)"
    proof (cases "TM i old")
      case None
      with m have "TM i e = Some m" by (simp add: moved_def)
      with None tfree have "e \<noteq> new" "e \<noteq> old" by auto
      with team_members_okD [OF ok'(3) \<open>TM i e = Some m\<close>] show ?thesis by (auto simp: moved_def split: option.splits)
    next
      case (Some v)
      note v = team_members_okD [OF ok'(3) Some]
      show ?thesis
      proof (cases "e = new")
        case True
        with m Some have "m = v\<lparr>TM_Email := new\<rparr>" by (simp add: moved_def)
        with v True show ?thesis by (auto simp: moved_def split: option.splits)
      next
        case False
        with m Some have "TM i e = Some m" "e \<noteq> old" by (simp_all add: moved_def split: if_splits)
        with False team_members_okD [OF ok'(3) this(1)] show ?thesis by (auto simp: moved_def split: option.splits)
      qed
    qed
  qed
  moreover have "keeps M ?M" unfolding keeps_def
  proof (intro allI impI)
    fix org e m assume m: "M org e = Some m"
    show "\<exists>e' m'. ?M org e' = Some m' \<and> Member_UserID m' = Member_UserID m"
    proof (cases "e = old")
      case True
      with m have "?M org new = Some (m\<lparr>Member_Email := new\<rparr>)" by (simp add: moved_def)
      then show ?thesis by fastforce
    next
      case False
      with m free have "?M org e = Some m" by (auto simp: moved_def split: option.splits)
      then show ?thesis by blast
    qed
  qed
  then have "grants_ok ?M T P G" using grants_ok_mono [OF ok'(4)] by blast
  then have "grants_ok ?M T P G'" unfolding grants_ok_def
  proof (intro allI ballI)
    fix ref g assume all: "\<forall>ref. \<forall>g\<in>set (G ref). Grant_Role g \<in> set allowedMembershipRoles \<and> (\<exists>org. P ref = Some org \<and> backed ?M T org g)"
      and g: "g \<in> set (G' ref)"
    have "(Grant_Role g, Grant_SubjectType g, Grant_SubjectID g) \<in> (\<lambda>g. (Grant_Role g, Grant_SubjectType g, Grant_SubjectID g)) ` set (G ref)"
      using imageI [OF g, of "\<lambda>g. (Grant_Role g, Grant_SubjectType g, Grant_SubjectID g)"]
        arg_cong [OF G' [of ref], of set] by (simp only: set_map)
    then obtain g0 where g0: "g0 \<in> set (G ref)" "Grant_Role g0 = Grant_Role g" "Grant_SubjectType g0 = Grant_SubjectType g"
      "Grant_SubjectID g0 = Grant_SubjectID g" by auto
    from all g0(1) have "Grant_Role g0 \<in> set allowedMembershipRoles \<and> (\<exists>org. P ref = Some org \<and> backed ?M T org g0)" by blast
    then show "Grant_Role g \<in> set allowedMembershipRoles \<and> (\<exists>org. P ref = Some org \<and> backed ?M T org g)" by (simp only: backed_def g0)
  qed
  ultimately show ?thesis using ok'(2) by (simp add: tables_ok_def)
qed

lemma tables_delete_user:
  assumes ok: "tables_ok U M T TM P G" and e: "U e = Some i"
    and U': "\<And>l. U' l = (if l = e then None else U l)"
    and M': "\<And>k l. M' k l = (if l = e then None else M k l)" and TM': "\<And>k l. TM' k l = (if l = e then None else TM k l)"
    and G': "\<And>ref g. g \<in> set (G' ref) \<Longrightarrow> g \<in> set (G ref) \<and> \<not> is_user_grant i g"
  shows "tables_ok U' M' T TM' P G'"
proof -
  note ok' = tables_okD [OF ok]
  have "members_ok U' M'" using ok'(1) by (simp add: members_ok_def U' M')
  moreover have "team_members_ok M' T TM'" using ok'(3) by (simp add: team_members_ok_def M' TM')
  moreover have "grants_ok M' T P G'" unfolding grants_ok_def
  proof (intro allI ballI)
    fix ref g assume "g \<in> set (G' ref)"
    note g = G' [OF this]
    from grants_okD(2) [OF ok'(4)] g obtain k where k: "P ref = Some k" "backed M T k g" by blast
    have "\<exists>l n. M' k l = Some n \<and> Member_UserID n = Grant_SubjectID g"
      if "Grant_SubjectType g = ''user''" "M k l = Some n" "Member_UserID n = Grant_SubjectID g" for l n
    proof -
      have "l \<noteq> e" using that g e members_okD(1) [OF ok'(1) that(2)] by (auto simp: is_user_grant_def)
      with that(2,3) have "M' k l = Some n \<and> Member_UserID n = Grant_SubjectID g" by (simp add: M')
      then show ?thesis by blast
    qed
    then have "backed M' T k g" using k(2) unfolding backed_def by blast
    with k(1) grants_okD(1) [OF ok'(4)] g show "Grant_Role g \<in> set allowedMembershipRoles \<and> (\<exists>org. P ref = Some org \<and> backed M' T org g)"
      by blast
  qed
  ultimately show ?thesis using ok'(2) by (simp add: tables_ok_def)
qed

section \<open>The operations keep the invariant\<close>

text \<open>Operations that change only the users: the account of one person is replaced, or a new one is added.\<close>

lemma access_invI:
  assumes "users_ok (s_users s)" and "nested_ok (s_memberships s)" and "nested_ok (s_teams s)" and "nested_ok (s_teamMembers s)"
    and "refs_ok (s_projects s)" and "tables_ok (uid s) (get2 (s_memberships s)) (get2 (s_teams s)) (get2 (s_teamMembers s)) (org_of s) (grants_of s)"
  shows "access_inv s"
  using assms by (simp add: access_inv_def)

lemma access_invD:
  assumes "access_inv s"
  shows "users_ok (s_users s)" "nested_ok (s_memberships s)" "nested_ok (s_teams s)" "nested_ok (s_teamMembers s)"
    "tables_ok (uid s) (get2 (s_memberships s)) (get2 (s_teams s)) (get2 (s_teamMembers s)) (org_of s) (grants_of s)"
    "refs_ok (s_projects s)"
  using assms by (simp_all add: access_inv_def)

definition same_rights :: "MemoryStore \<Rightarrow> MemoryStore \<Rightarrow> bool" where
  "same_rights s s' \<longleftrightarrow> s_users s' = s_users s \<and> s_memberships s' = s_memberships s \<and> s_teams s' = s_teams s \<and>
     s_teamMembers s' = s_teamMembers s \<and> s_projectAccess s' = s_projectAccess s \<and> org_of s' = org_of s \<and>
     (\<forall>ref. map_option Proj_Ref (map_of (s_projects s') ref) = map_option Proj_Ref (map_of (s_projects s) ref)) \<and>
     (gomap_ok (s_projects s) \<longrightarrow> gomap_ok (s_projects s'))"

lemma refs_ok_alt: "refs_ok m \<longleftrightarrow> gomap_ok m \<and> (\<forall>ref i. map_option Proj_Ref (map_of m ref) = Some i \<longrightarrow> i = ref \<and> norm_key ref = ref)"
  by (auto simp: refs_ok_def)

lemma access_frame: "access_inv s \<Longrightarrow> same_rights s s' \<Longrightarrow> access_inv s'"
  by (simp add: access_inv_def same_rights_def uid_def [abs_def] grants_of_def [abs_def] refs_ok_alt)

lemma putUser_fields [simp]:
  "s_memberships (putUser u s) = s_memberships s" "s_teams (putUser u s) = s_teams s" "s_teamMembers (putUser u s) = s_teamMembers s"
  "org_of (putUser u s) = org_of s" "grants_of (putUser u s) = grants_of s" "s_orgs (putUser u s) = s_orgs s"
  "s_projects (putUser u s) = s_projects s"
  by (simp_all add: putUser_def org_of_def [abs_def] grants_of_def [abs_def])

lemma uid_putUser: "uid (putUser u s) e = (if e = User_Email u then Some (User_ID u) else uid s e)"
  by (simp add: uid_def putUser_def)

lemma access_putUser:
  assumes inv: "access_inv s" and u: "users_ok (s_users (putUser u s))"
    and own: "\<And>v. map_of (s_users s) (User_Email u) = Some v \<Longrightarrow> User_ID v = User_ID u"
  shows "access_inv (putUser u s)"
proof (rule access_invI)
  have "uid s e = Some i \<Longrightarrow> uid (putUser u s) e = Some i" for e i
    using own by (auto simp: uid_putUser) (auto simp: uid_def)
  then show "tables_ok (uid (putUser u s)) (get2 (s_memberships (putUser u s))) (get2 (s_teams (putUser u s))) (get2 (s_teamMembers (putUser u s)))
      (org_of (putUser u s)) (grants_of (putUser u s))"
    using tables_user [OF access_invD(5) [OF inv], of "uid (putUser u s)"] by simp
qed (use access_invD [OF inv] u in simp_all)

definition fresh_user :: "OpCtx \<Rightarrow> MemoryStore \<Rightarrow> bool" where
  "fresh_user c s \<longleftrightarrow> userByIDLocked (ctx_newID c) s = None"

lemma access_new_user:
  assumes inv: "access_inv s" and "fresh_user c s" and "map_of (s_users s) e = None" and "e \<noteq> []"
  shows "access_inv (putUser (freshUser c e hash role v) s)"
proof -
  note ok = access_invD(1) [OF inv]
  have f: "User_Email (freshUser c e hash role v) = e" "User_ID (freshUser c e hash role v) = ctx_newID c" by (simp_all add: freshUser_def)
  have "e' = e" if "map_of (s_users s) e' = Some w" "User_ID w = ctx_newID c" for e' w
    using that assms(2) users_okD(2) [OF ok that(1)] by (auto simp: fresh_user_def) (metis option.distinct(1) userByID_iff [OF ok])
  then have "users_ok (AList.update e (freshUser c e hash role v) (s_users s))"
    by (intro users_ok_put [OF ok]) (use f assms(4) in simp_all)
  then show ?thesis using assms(3) by (intro access_putUser [OF inv]) (simp_all add: putUser_def f)
qed

lemma access_same_user:
  assumes inv: "access_inv s" and u: "userByIDLocked i s = Some u" and v: "User_Email v = User_Email u" "User_ID v = User_ID u"
  shows "access_inv (putUser v s)"
proof -
  note ok = access_invD(1) [OF inv]
  have m: "map_of (s_users s) (User_Email u) = Some u" using u by (simp add: userByID_iff [OF ok])
  from putUser_same [OF ok m v] m v show ?thesis by (intro access_putUser [OF inv]) simp_all
qed

lemma access_CreateUser:
  assumes inv: "access_inv s" and "fresh_user c s" and "CreateUser c k req s = Inr (s', r)"
  shows "access_inv s'"
proof -
  from assms(3) obtain role where "ToLower (TrimSpace (NewUser_Email req)) \<noteq> []"
      "map_of (s_users s) (ToLower (TrimSpace (NewUser_Email req))) = None"
      "s' = putUser (freshUser c (ToLower (TrimSpace (NewUser_Email req))) (hashPassword k (NewUser_Password req)) role 1) s"
    unfolding CreateUser_def Let_def by (elim and_then_InrE) auto
  with access_new_user [OF inv assms(2)] show ?thesis by simp
qed

lemma access_login:
  assumes inv: "access_inv s" and "RecordUserLogin c i s = Inr (s', r)"
  shows "access_inv s'"
  using assms(2) unfolding RecordUserLogin_def
  by (elim withUser_InrE) (auto intro: access_same_user [OF inv])

lemma access_begin_mfa:
  assumes inv: "access_inv s" and "BeginUserMFAEnrollment c entropy i s = Inr (s', r)"
  shows "access_inv s'"
  using assms(2) unfolding BeginUserMFAEnrollment_def Let_def
  by (elim and_then_InrE withUser_InrE) (auto intro: access_same_user [OF inv])

lemma access_mfa:
  assumes inv: "access_inv s"
  shows "VerifyUserMFA c k i code s = Inr (s', v) \<Longrightarrow> access_inv s'"
    and "ConfirmUserMFA c k i code s = Inr (s', st) \<Longrightarrow> access_inv s'"
    and "DisableUserMFA c k i code s = Inr (s', st) \<Longrightarrow> access_inv s'"
  by (erule VerifyUserMFA_InrE ConfirmUserMFA_InrE DisableUserMFA_InrE;
      auto intro!: access_same_user [OF inv] simp: mfa_fields)+

lemma access_authenticate:
  assumes inv: "access_inv later" and a: "AuthenticateUser k email password s later = Inr (s', r)"
  shows "access_inv s'"
proof -
  have "s' = later \<or> (\<exists>current hash. map_of (s_users later) (ToLower (TrimSpace email)) = Some current \<and>
      s' = later\<lparr>s_users := AList.update (ToLower (TrimSpace email)) (current\<lparr>User_PasswordHash := hash\<rparr>) (s_users later)\<rparr>)"
    using a unfolding AuthenticateUser_def Let_def
    by (auto split: prod.split_asm option.split_asm if_split_asm)
  then show ?thesis
  proof (elim disjE exE conjE)
    fix current hash
    assume m: "map_of (s_users later) (ToLower (TrimSpace email)) = Some current"
      and s': "s' = later\<lparr>s_users := AList.update (ToLower (TrimSpace email)) (current\<lparr>User_PasswordHash := hash\<rparr>) (s_users later)\<rparr>"
    note ok = access_invD(1) [OF inv]
    have e: "User_Email current = ToLower (TrimSpace email)" by (rule users_okD(2) [OF ok m])
    then have "s' = putUser (current\<lparr>User_PasswordHash := hash\<rparr>) later" by (simp add: s' putUser_def)
    moreover have "userByIDLocked (User_ID current) later = Some current" by (simp add: userByID_iff [OF ok] e m)
    ultimately show ?thesis using access_same_user [OF inv] by simp
  qed (use inv in simp)
qed

text \<open>Renaming and deleting a user.\<close>

lemma nested_map_ran: "nested_ok m \<Longrightarrow> f [] = [] \<Longrightarrow> (\<And>x. gomap_ok x \<Longrightarrow> gomap_ok (f x)) \<Longrightarrow> nested_ok (AList.map_ran (\<lambda>_. f) m)"
  by (simp add: nested_ok_def get_or_map_ran)

lemma nested_put2: "nested_ok m \<Longrightarrow> nested_ok (put2 k l v m)"
  by (simp add: nested_ok_def put2_def)

lemma nested_delete2: "nested_ok m \<Longrightarrow> nested_ok (delete2 k l m)"
  by (simp add: nested_ok_def delete2_def)

lemma nested_delete: "nested_ok m \<Longrightarrow> nested_ok (AList.delete k m)"
  by (simp add: nested_ok_def)

lemma rename_Nil [simp]: "renameMember old new [] = []" "renameTeamMember old new [] = []" "dropTeamMember org e [] = []"
  by (simp_all add: renameMember_def renameTeamMember_def dropTeamMember_def)

lemma renamed_member: "get2 (AList.map_ran (\<lambda>_. renameMember old new) m) = moved old new (\<lambda>m. m\<lparr>Member_Email := new\<rparr>) (get2 m)"
  by (intro ext, simp add: get2_map_ran) (simp add: renameMember_def moved_def get2_def split: option.split)

lemma renamed_team_member: "get2 (AList.map_ran (\<lambda>_. renameTeamMember old new) m) = moved old new (\<lambda>m. m\<lparr>TM_Email := new\<rparr>) (get2 m)"
  by (intro ext, simp add: get2_map_ran) (simp add: renameTeamMember_def moved_def get2_def split: option.split)

lemma nested_rename: "nested_ok m \<Longrightarrow> nested_ok (AList.map_ran (\<lambda>_. renameMember old new) m)"
  by (rule nested_map_ran) (simp_all add: renameMember_def split: option.split)

lemma nested_rename_team: "nested_ok m \<Longrightarrow> nested_ok (AList.map_ran (\<lambda>_. renameTeamMember old new) m)"
  by (rule nested_map_ran) (simp_all add: renameTeamMember_def split: option.split)

lemma grants_of_map_ran: "f [] = [] \<Longrightarrow> get_or [] (AList.map_ran (\<lambda>_. f) m) ref = f (get_or [] m ref)"
  by (rule get_or_map_ran)

lemma access_UpdateUser:
  assumes inv: "access_inv s" and up: "UpdateUser k i req s = Inr (s', v)"
  shows "access_inv s'"
proof -
  note ok = access_invD(1) [OF inv]
  obtain u where u: "userByIDLocked (TrimSpace i) s = Some u" and vu: "v = updatedUser k req (User_Email u) u"
    and free: "User_Email v \<noteq> User_Email u \<longrightarrow> map_of (s_users s) (User_Email v) = None"
    and s': "s' = putUser v (if User_Email u \<noteq> User_Email v then renameUser u (User_Email u) (User_Email v) s else s)"
    using UpdateUser_InrE [OF ok up] .
  have id: "User_ID v = User_ID u" by (simp add: vu updatedUser_fields)
  show ?thesis
  proof (cases "User_Email u = User_Email v")
    case True
    then show ?thesis using access_same_user [OF inv u _ id] by (simp add: s')
  next
    case False
    define old new where "old = User_Email u" and "new = User_Email v"
    have old: "uid s old = Some (User_ID u)" using u by (simp add: userByID_iff [OF ok] uid_def old_def)
    have new: "uid s new = None" using free False by (simp add: uid_def new_def)
    have G: "map (\<lambda>g. (Grant_Role g, Grant_SubjectType g, Grant_SubjectID g)) (grants_of s' ref) =
        map (\<lambda>g. (Grant_Role g, Grant_SubjectType g, Grant_SubjectID g)) (grants_of s ref)" for ref
    proof -
      have "grants_of s' ref = map (\<lambda>g. if is_user_grant (User_ID u) g then g\<lparr>Grant_SubjectName := new\<rparr> else g) (grants_of s ref)"
        using False by (simp add: s' grants_of_def putUser_def renameUser_def get_or_map_ran new_def)
      then show ?thesis by (auto simp: is_user_grant_def)
    qed
    have U: "uid s' e = (if e = new then Some (User_ID u) else if e = old then None else uid s e)" for e
      using False by (simp add: s' uid_putUser id new_def old_def) (simp add: uid_def rename_users)
    have P: "org_of s' = org_of s" using False by (simp add: s' org_of_def [abs_def] renameUser_def putUser_def)
    have M: "s_memberships s' = AList.map_ran (\<lambda>_. renameMember old new) (s_memberships s)"
        "s_teamMembers s' = AList.map_ran (\<lambda>_. renameTeamMember old new) (s_teamMembers s)" "s_teams s' = s_teams s" "s_projects s' = s_projects s"
      using False by (simp_all add: s' renameUser_def old_def new_def)
    from tables_rename [OF access_invD(5) [OF inv] old new U G] show ?thesis
      using UpdateUser_users(1) [OF ok up] access_invD [OF inv] nested_rename nested_rename_team
      by (intro access_invI) (simp_all add: P M renamed_member renamed_team_member)
  qed
qed

lemma access_DeleteUser:
  assumes inv: "access_inv s" and del: "DeleteUser i s = Inr (s', x)"
  shows "access_inv s'"
proof -
  note ok = access_invD(1) [OF inv]
  obtain u where u: "userByIDLocked (TrimSpace i) s = Some u"
    and s': "s' = s\<lparr>s_users := AList.delete (User_Email u) (s_users s),
       s_memberships := AList.map_ran (\<lambda>_. AList.delete (User_Email u)) (s_memberships s),
       s_teamMembers := AList.map_ran (\<lambda>_. AList.delete (User_Email u)) (s_teamMembers s),
       s_projectAccess := AList.map_ran (\<lambda>_. filter (\<lambda>g. \<not> is_user_grant (TrimSpace i) g)) (s_projectAccess s)\<rparr>"
    using DeleteUser_InrE [OF ok del] .
  have e: "uid s (User_Email u) = Some (TrimSpace i)" using u by (auto simp: userByID_iff [OF ok] uid_def)
  have P: "org_of s' = org_of s" by (simp add: s' org_of_def [abs_def])
  have "tables_ok (uid s') (get2 (s_memberships s')) (get2 (s_teams s)) (get2 (s_teamMembers s')) (org_of s) (grants_of s')"
    by (rule tables_delete_user [OF access_invD(5) [OF inv] e])
      (simp_all add: s' uid_def get2_map_ran grants_of_def get_or_map_ran, simp_all add: get2_def)
  then show ?thesis
    using access_invD [OF inv] users_ok_delete [OF ok]
    by (intro access_invI) (simp_all add: P, simp_all add: s' nested_map_ran)
qed

text \<open>Organisations.\<close>

lemma set_values: "gomap_ok m \<Longrightarrow> v \<in> set (values_of m) \<longleftrightarrow> (\<exists>k. map_of m k = Some v)"
proof -
  have "v \<in> set (values_of m) \<longleftrightarrow> (\<exists>k. (k, v) \<in> set m)" by (force simp: values_of_def)
  then show "gomap_ok m \<Longrightarrow> v \<in> set (values_of m) \<longleftrightarrow> (\<exists>k. map_of m k = Some v)" by (simp add: gomap_mem_iff)
qed

lemma access_DeleteOrg:
  assumes inv: "access_inv s" and del: "DeleteOrg i s = Inr (s', x)"
  shows "access_inv s'"
proof -
  from del have none: "\<forall>project \<in> set (values_of (s_projects s)). Proj_OrgID project \<noteq> i"
    and s': "s' = s\<lparr>s_teamMembers := fold (\<lambda>team. AList.delete (Team_ID team)) (values_of (get_or [] (s_teams s) i)) (s_teamMembers s),
            s_orgs := AList.delete i (s_orgs s), s_orgQuotas := AList.delete i (s_orgQuotas s),
            s_memberships := AList.delete i (s_memberships s), s_teams := AList.delete i (s_teams s)\<rparr>"
    unfolding DeleteOrg_def by (elim and_then_InrE, simp)+
  have "org_of s ref \<noteq> Some i" for ref
    using none by (auto simp: org_of_def values_of_def dest!: map_of_SomeD)
  moreover have "gomap_ok (get_or [] (s_teams s) i)" using access_invD(3) [OF inv] by (simp add: nested_ok_def)
  then have "k \<in> Team_ID ` set (values_of (get_or [] (s_teams s) i)) \<longleftrightarrow> (\<exists>slug t. get2 (s_teams s) i slug = Some t \<and> Team_ID t = k)" for k
    unfolding image_iff Bex_def get2_def by (simp add: set_values) metis
  ultimately have "tables_ok (uid s) (get2 (s_memberships s')) (get2 (s_teams s')) (get2 (s_teamMembers s')) (org_of s) (grants_of s)"
    by (intro tables_delete_org [OF access_invD(5) [OF inv]]) (simp_all add: s' get2_fold_delete)
  moreover have "nested_ok (fold (\<lambda>team. AList.delete (Team_ID team)) ts m)" if "nested_ok m" for ts and m :: "(string, (string, TeamMember) gomap) gomap"
    using that by (induction ts arbitrary: m) (auto intro: nested_delete)
  moreover have "uid s' = uid s" "org_of s' = org_of s" "grants_of s' = grants_of s"
    by (simp_all add: s' uid_def [abs_def] org_of_def [abs_def] grants_of_def [abs_def])
  ultimately show ?thesis
    using access_invD [OF inv] by (intro access_invI) (simp_all, simp_all add: s' nested_delete)
qed

text \<open>Members.\<close>

lemma invitedUser_rights:
  assumes inv: "access_inv s" and "fresh_user c s" and "e \<noteq> []" and iu: "invitedUser c k token e s = (s', u)"
  shows "access_inv s'" and "uid s' e = Some (User_ID u)" and "s_memberships s' = s_memberships s" and "s_teams s' = s_teams s"
    and "s_teamMembers s' = s_teamMembers s" and "s_orgs s' = s_orgs s" and "s_projects s' = s_projects s" and "s_projectAccess s' = s_projectAccess s"
proof -
  have "access_inv s' \<and> uid s' e = Some (User_ID u) \<and> s_memberships s' = s_memberships s \<and> s_teams s' = s_teams s \<and>
    s_teamMembers s' = s_teamMembers s \<and> s_orgs s' = s_orgs s \<and> s_projects s' = s_projects s \<and> s_projectAccess s' = s_projectAccess s"
  proof (cases "map_of (s_users s) e")
    case None
    then have "s' = putUser u s" "u = freshUser c e (hashPassword k token) ''member'' 0"
      using iu by (auto simp: invitedUser_def Let_def)
    with access_new_user [OF inv assms(2) None assms(3)] show ?thesis
      by (simp add: uid_putUser) (simp add: freshUser_def putUser_def)
  next
    case (Some v)
    then show ?thesis using iu inv by (auto simp: invitedUser_def uid_def)
  qed
  then show "access_inv s'" and "uid s' e = Some (User_ID u)" and "s_memberships s' = s_memberships s" and "s_teams s' = s_teams s"
    and "s_teamMembers s' = s_teamMembers s" and "s_orgs s' = s_orgs s" and "s_projects s' = s_projects s" and "s_projectAccess s' = s_projectAccess s"
    by blast+
qed

lemma access_putMember:
  assumes inv: "access_inv s" and "uid s (Member_Email m) = Some (Member_UserID m)" and "Member_Role m \<in> set allowedMembershipRoles"
  shows "access_inv (putMember org m s)"
proof -
  have "uid (putMember org m s) = uid s" "org_of (putMember org m s) = org_of s" "grants_of (putMember org m s) = grants_of s"
    by (simp_all add: putMember_def uid_def [abs_def] org_of_def [abs_def] grants_of_def [abs_def])
  moreover have "tables_ok (uid s) (get2 (s_memberships (putMember org m s))) (get2 (s_teams s)) (get2 (s_teamMembers s)) (org_of s) (grants_of s)"
    by (rule tables_member [OF access_invD(5) [OF inv] assms(2) refl assms(3)]) (simp add: putMember_def)
  ultimately show ?thesis
    using access_invD [OF inv] by (intro access_invI) (simp_all, simp_all add: putMember_def nested_put2)
qed

lemma normalized_role_allowed: "normalizeMembershipRole r = Inr role \<Longrightarrow> role \<in> set allowedMembershipRoles"
  by (auto simp: normalizeMembershipRole_def Let_def split: if_splits)

lemma access_UpsertOrgMember:
  assumes inv: "access_inv s" and f: "fresh_user c s" and up: "UpsertOrgMember c k token orgID input s = Inr (s', r)"
  shows "access_inv s'"
proof -
  define email where "email = ToLower (TrimSpace (MemberIn_Email input))"
  obtain s1 u where iu: "invitedUser c k token email s = (s1, u)" by fastforce
  from up obtain role where e: "email \<noteq> []" and role: "normalizeMembershipRole (MemberIn_Role input) = Inr role"
    and s': "s' = putMember orgID r s1" and r: "Member_UserID r = User_ID u" "Member_Email r = email" "Member_Role r = role"
    unfolding UpsertOrgMember_def Let_def email_def [symmetric] iu prod.case by (elim and_then_InrE) auto
  note i = invitedUser_rights [OF inv f e iu]
  show ?thesis unfolding s' by (rule access_putMember [OF i(1)]) (use i(2) r normalized_role_allowed [OF role] in simp_all)
qed

lemma get2_dropTeamMember:
  "get2 (AList.map_ran (\<lambda>_. dropTeamMember orgID e) m) i l = Some n \<longleftrightarrow> get2 m i l = Some n \<and> \<not> (l = e \<and> TM_OrgID n = orgID)"
  by (simp add: get2_map_ran) (auto simp: dropTeamMember_def get2_def split: option.split)

lemma grants_of_dropGrants:
  "get_or [] (dropGrants orgID gone s) ref =
     (if org_of s ref = Some orgID then filter (\<lambda>g. \<not> gone g) (grants_of s ref) else grants_of s ref)"
  by (auto simp: dropGrants_def get_or_def grants_of_def org_of_def split: option.splits)

lemma access_DeleteOrgMember:
  assumes inv: "access_inv s" and del: "DeleteOrgMember orgID email s = Inr (s', x)"
  shows "access_inv s'"
proof -
  define e where "e = ToLower (TrimSpace email)"
  from del obtain m where m: "get2 (s_memberships s) orgID e = Some m"
    and s': "s' = s\<lparr>s_memberships := delete2 orgID e (s_memberships s),
        s_teamMembers := AList.map_ran (\<lambda>_. dropTeamMember orgID e) (s_teamMembers s),
        s_projectAccess := dropGrants orgID (is_user_grant (Member_UserID m)) s\<rparr>"
    unfolding DeleteOrgMember_def Let_def e_def [symmetric]
    by (elim and_then_InrE) (cases "get2 (s_memberships s) orgID e", auto)
  have "tables_ok (uid s) (get2 (s_memberships s')) (get2 (s_teams s)) (get2 (s_teamMembers s')) (org_of s) (grants_of s')"
    by (rule tables_delete_member [OF access_invD(5) [OF inv] m])
      (auto simp: s' get2_dropTeamMember grants_of_dropGrants grants_of_def [of "_\<lparr>s_projectAccess := _\<rparr>"] split: if_splits)
  moreover have "uid s' = uid s" "org_of s' = org_of s" by (simp_all add: s' uid_def [abs_def] org_of_def [abs_def])
  moreover have "nested_ok (AList.map_ran (\<lambda>_. dropTeamMember orgID e) (s_teamMembers s))"
    using access_invD(4) [OF inv] by (rule nested_map_ran) (auto simp: dropTeamMember_def split: option.split)
  ultimately show ?thesis
    using access_invD [OF inv] by (intro access_invI) (simp_all, simp_all add: s' nested_delete2)
qed

text \<open>Teams.\<close>

definition fresh_team :: "OpCtx \<Rightarrow> MemoryStore \<Rightarrow> bool" where
  "fresh_team c s \<longleftrightarrow> (\<forall>org slug t. get2 (s_teams s) org slug = Some t \<longrightarrow> Team_ID t \<noteq> ctx_newID c)"

lemma access_CreateOrgTeam:
  assumes inv: "access_inv s" and f: "fresh_team c s" and cr: "CreateOrgTeam c orgID input s = Inr (s', t)"
  shows "access_inv s'"
proof -
  from cr have t: "Team_ID t = ctx_newID c" "get2 (s_teams s) orgID (Team_Slug t) = None"
    and s': "s' = s\<lparr>s_teams := put2 orgID (Team_Slug t) t (s_teams s)\<rparr>"
    unfolding CreateOrgTeam_def Let_def by (elim and_then_InrE, auto)+
  have "tables_ok (uid s) (get2 (s_memberships s)) (get2 (s_teams s')) (get2 (s_teamMembers s)) (org_of s) (grants_of s)"
    using f by (intro tables_team [OF access_invD(5) [OF inv] t(2)]) (auto simp: fresh_team_def t(1) s')
  moreover have "uid s' = uid s" "org_of s' = org_of s" "grants_of s' = grants_of s"
    by (simp_all add: s' uid_def [abs_def] org_of_def [abs_def] grants_of_def [abs_def])
  ultimately show ?thesis
    using access_invD [OF inv] by (intro access_invI) (simp_all, simp_all add: s' nested_put2)
qed

lemma access_DeleteOrgTeam:
  assumes inv: "access_inv s" and del: "DeleteOrgTeam orgID slug s = Inr (s', x)"
  shows "access_inv s'"
proof -
  from del obtain t where t: "get2 (s_teams s) orgID (normalizeTeamSlug slug) = Some t"
    and s': "s' = s\<lparr>s_teams := delete2 orgID (normalizeTeamSlug slug) (s_teams s), s_teamMembers := AList.delete (Team_ID t) (s_teamMembers s),
        s_projectAccess := dropGrants orgID (is_team_grant (Team_ID t)) s\<rparr>"
    unfolding DeleteOrgTeam_def getTeam_def by (elim and_then_InrE) (auto split: option.split_asm)
  have "tables_ok (uid s) (get2 (s_memberships s)) (get2 (s_teams s')) (get2 (s_teamMembers s')) (org_of s) (grants_of s')"
    by (rule tables_delete_team [OF access_invD(5) [OF inv] t])
      (auto simp: s' grants_of_dropGrants grants_of_def [of "_\<lparr>s_projectAccess := _\<rparr>"] split: if_splits)
  moreover have "uid s' = uid s" "org_of s' = org_of s" by (simp_all add: s' uid_def [abs_def] org_of_def [abs_def])
  ultimately show ?thesis
    using access_invD [OF inv] by (intro access_invI) (simp_all, simp_all add: s' nested_delete2 nested_delete)
qed

end
