(* ===== verification/Access_Steps.thy ===== *)
theory Access_Steps
  imports Access_Rights Host_Ownership
begin

text \<open>
  The access tables as a state machine: the remaining operations keep the invariant, the step relation collects
  all of them, and the properties say what a project role and the access review mean in every reachable state.
\<close>

section \<open>Team members, grants and projects\<close>

lemma access_UpsertTeamMember:
  assumes inv: "access_inv s" and f: "fresh_user c s" and up: "UpsertTeamMember c k token orgID slug input s = Inr (s', r)"
  shows "access_inv s'"
proof -
  define email where "email = ToLower (TrimSpace input)"
  obtain s1 u where iu: "invitedUser c k token email s = (s1, u)" by fastforce
  define s2 where "s2 = ensureMember c orgID u email s1"
  from up obtain t where e: "email \<noteq> []" and t: "get2 (s_teams s) orgID (normalizeTeamSlug slug) = Some t"
    and s': "s' = s2\<lparr>s_teamMembers := put2 (Team_ID t) email r (s_teamMembers s2)\<rparr>"
    and r: "TM_OrgID r = orgID" "TM_Email r = email"
    unfolding UpsertTeamMember_def Let_def email_def [symmetric] iu prod.case s2_def [symmetric] getTeam_def
    by (elim and_then_InrE) (auto split: option.split_asm)
  note i = invitedUser_rights [OF inv f e iu]
  have inv2: "access_inv s2"
  proof (cases "get2 (s_memberships s1) orgID email = None")
    case True
    show ?thesis unfolding s2_def ensureMember_def if_P [OF True]
      by (rule access_putMember [OF i(1)]) (use i(2) in \<open>simp_all add: allowedMembershipRoles_def\<close>)
  next
    case False
    show ?thesis unfolding s2_def ensureMember_def if_not_P [OF False] by (rule i(1))
  qed
  have m: "get2 (s_memberships s2) orgID email \<noteq> None"
    by (simp add: s2_def ensureMember_def putMember_def)
  have "s_teams s2 = s_teams s" by (simp add: s2_def ensureMember_def putMember_def i(4))
  then have "\<exists>slug x. get2 (s_teams s2) orgID slug = Some x \<and> Team_ID x = Team_ID t" using t by auto
  then have "tables_ok (uid s2) (get2 (s_memberships s2)) (get2 (s_teams s2)) (get2 (s_teamMembers s')) (org_of s2) (grants_of s2)"
    by (intro tables_team_members [OF access_invD(5) [OF inv2]]) (use m r in \<open>auto simp: s' split: if_splits\<close>)
  moreover have "uid s' = uid s2" "org_of s' = org_of s2" "grants_of s' = grants_of s2"
    by (simp_all add: s' uid_def [abs_def] org_of_def [abs_def] grants_of_def [abs_def])
  ultimately show ?thesis
    using access_invD [OF inv2] by (intro access_invI) (simp_all, simp_all add: s' nested_put2)
qed

lemma access_DeleteTeamMember:
  assumes inv: "access_inv s" and del: "DeleteTeamMember orgID slug email s = Inr (s', x)"
  shows "access_inv s'"
proof -
  from del obtain i e where s': "s' = s\<lparr>s_teamMembers := delete2 i e (s_teamMembers s)\<rparr>"
    unfolding DeleteTeamMember_def Let_def by (elim and_then_InrE) auto
  have "tables_ok (uid s) (get2 (s_memberships s)) (get2 (s_teams s)) (get2 (s_teamMembers s')) (org_of s) (grants_of s)"
    by (intro tables_team_members [OF access_invD(5) [OF inv]]) (auto simp: s' split: if_splits)
  moreover have "uid s' = uid s" "org_of s' = org_of s" "grants_of s' = grants_of s"
    by (simp_all add: s' uid_def [abs_def] org_of_def [abs_def] grants_of_def [abs_def])
  ultimately show ?thesis
    using access_invD [OF inv] by (intro access_invI) (simp_all, simp_all add: s' nested_delete2)
qed

lemma access_set_grants:
  assumes inv: "access_inv s" and s': "s' = s\<lparr>s_projectAccess := AList.update ref gs (s_projectAccess s)\<rparr>"
    and gs: "\<And>g. g \<in> set gs \<Longrightarrow> g \<in> set (grants_of s ref) \<or> Grant_Role g \<in> set allowedMembershipRoles \<and>
      (\<exists>org. org_of s ref = Some org \<and> backed (get2 (s_memberships s)) (get2 (s_teams s)) org g)"
  shows "access_inv s'"
proof -
  have "tables_ok (uid s) (get2 (s_memberships s)) (get2 (s_teams s)) (get2 (s_teamMembers s)) (org_of s) (grants_of s')"
    by (rule tables_grants [OF access_invD(5) [OF inv]]) (use gs in \<open>auto simp: s' grants_of_def split: if_splits\<close>)
  moreover have "uid s' = uid s" "org_of s' = org_of s"
    by (simp_all add: s' uid_def [abs_def] org_of_def [abs_def])
  ultimately show ?thesis
    using access_invD [OF inv] by (intro access_invI) (simp_all, simp_all add: s')
qed

lemma accessSubject_backed:
  assumes inv: "access_inv s" and a: "accessSubject org t i s = Inr (j, name)"
    and g: "Grant_SubjectType g = t" "Grant_SubjectID g = j"
  shows "backed (get2 (s_memberships s)) (get2 (s_teams s)) org g"
proof (cases "t = ''user''")
  case True
  with a obtain u m where u: "map_of (s_users s) (ToLower i) = Some u" and m: "get2 (s_memberships s) org (ToLower i) = Some m" and j: "j = User_ID u"
    by (auto simp: accessSubject_def Let_def elim!: and_then_InrE split: option.split_asm)
  from members_okD(1) [OF tables_okD(1) [OF access_invD(5) [OF inv]] m] u j m g True
  show ?thesis by (auto simp: backed_def uid_def)
next
  case False
  with a obtain tm where "t = ''team''" "get2 (s_teams s) org (normalizeTeamSlug i) = Some tm" "j = Team_ID tm"
    by (auto simp: accessSubject_def getTeam_def elim!: and_then_InrE split: option.split_asm if_split_asm)
  with g show ?thesis by (auto simp: backed_def)
qed

lemma replaceGrant_set:
  "replaceGrant t i name role gs = Some (gs', g) \<Longrightarrow> x \<in> set gs' \<Longrightarrow>
     x \<in> set gs \<or> (Grant_SubjectType x = t \<and> Grant_SubjectID x = i \<and> Grant_Role x = role)"
proof (induction gs arbitrary: gs')
  case (Cons h gs)
  show ?case
  proof (cases "same_subject t i h")
    case True
    with Cons.prems show ?thesis by (auto simp: Let_def same_subject_def)
  next
    case False
    with Cons.prems(1) obtain gs1 where "replaceGrant t i name role gs = Some (gs1, g)" "gs' = h # gs1"
      by (auto split: option.split_asm)
    with Cons.IH [of gs1] Cons.prems(2) show ?thesis by auto
  qed
qed simp

lemma access_UpsertProjectAccess:
  assumes inv: "access_inv s" and up: "UpsertProjectAccess c ref input s = Inr (s', g)"
  shows "access_inv s'"
proof -
  define r where "r = ToLower (TrimSpace ref)"
  define t where "t = ToLower (TrimSpace (AccessIn_SubjectType input))"
  from up obtain role project j name where role: "normalizeMembershipRole (AccessIn_Role input) = Inr role"
    and p: "map_of (s_projects s) r = Some project"
    and a: "accessSubject (Proj_OrgID project) t (TrimSpace (AccessIn_SubjectID input)) s = Inr (j, name)"
    and last: "(case replaceGrant t j name role (get_or [] (s_projectAccess s) r) of
        Some (grants, grant) \<Rightarrow> Inr (s\<lparr>s_projectAccess := AList.update r grants (s_projectAccess s)\<rparr>, grant)
      | None \<Rightarrow>
          let grant = \<lparr>Grant_ID = ctx_newID c, Grant_ProjectRef = r, Grant_OrgID = Proj_OrgID project,
                Grant_SubjectType = t, Grant_SubjectID = j, Grant_SubjectName = name,
                Grant_Role = role, Grant_CreatedAt = ctx_now c\<rparr>
          in Inr (s\<lparr>s_projectAccess := AList.update r (get_or [] (s_projectAccess s) r @ [grant]) (s_projectAccess s)\<rparr>, grant)) =
      (Inr (s', g) :: (MemoryStore \<times> ProjectAccessGrant) res)"
    unfolding UpsertProjectAccess_def Let_def r_def [symmetric] t_def [symmetric]
    by (elim and_then_InrE) auto
  have new: "Grant_Role x \<in> set allowedMembershipRoles \<and> (\<exists>org. org_of s r = Some org \<and> backed (get2 (s_memberships s)) (get2 (s_teams s)) org x)"
    if "Grant_SubjectType x = t" "Grant_SubjectID x = j" "Grant_Role x = role" for x
    using accessSubject_backed [OF inv a that(1,2)] normalized_role_allowed [OF role] p that(3) by (simp add: org_of_def)
  show ?thesis
  proof (cases "replaceGrant t j name role (get_or [] (s_projectAccess s) r)")
    case None
    with last obtain grant where s': "s' = s\<lparr>s_projectAccess := AList.update r (get_or [] (s_projectAccess s) r @ [grant]) (s_projectAccess s)\<rparr>"
      and grant: "Grant_SubjectType grant = t" "Grant_SubjectID grant = j" "Grant_Role grant = role" by (auto simp: Let_def)
    show ?thesis by (rule access_set_grants [OF inv s']) (use new [OF grant] in \<open>auto simp: grants_of_def\<close>)
  next
    case (Some x)
    obtain gs h where x: "x = (gs, h)" by (cases x)
    with last Some have s': "s' = s\<lparr>s_projectAccess := AList.update r gs (s_projectAccess s)\<rparr>" by simp
    show ?thesis
      by (rule access_set_grants [OF inv s'])
        (use replaceGrant_set [OF Some [unfolded x]] new in \<open>auto simp: grants_of_def\<close>)
  qed
qed

lemma access_DeleteProjectAccess:
  assumes inv: "access_inv s" and del: "DeleteProjectAccess ref t i s = Inr (s', x)"
  shows "access_inv s'"
proof -
  from del obtain r f where "s' = s\<lparr>s_projectAccess := AList.update r (filter f (get_or [] (s_projectAccess s) r)) (s_projectAccess s)\<rparr>"
    unfolding DeleteProjectAccess_def Let_def by (elim and_then_InrE) auto
  then show ?thesis by (rule access_set_grants [OF inv]) (auto simp: grants_of_def)
qed

text \<open>A new project starts without grants, a deleted one takes its grants along.\<close>

lemma access_projects:
  assumes inv: "access_inv s" and "s_users s' = s_users s" "s_memberships s' = s_memberships s" "s_teams s' = s_teams s"
    "s_teamMembers s' = s_teamMembers s" and "\<And>r g. g \<in> set (grants_of s' r) \<Longrightarrow> g \<in> set (grants_of s r) \<and> org_of s' r = org_of s r"
    and "refs_ok (s_projects s')"
  shows "access_inv s'"
proof -
  have "tables_ok (uid s) (get2 (s_memberships s)) (get2 (s_teams s)) (get2 (s_teamMembers s)) (org_of s') (grants_of s')"
    by (rule tables_projects [OF access_invD(5) [OF inv] assms(6)])
  moreover have "uid s' = uid s" by (simp add: assms(2) uid_def [abs_def])
  ultimately show ?thesis
    using access_invD [OF inv] assms(2-5,7) by (intro access_invI) simp_all
qed

definition same_access :: "MemoryStore \<Rightarrow> MemoryStore \<Rightarrow> bool" where
  "same_access s s' \<longleftrightarrow> s_users s' = s_users s \<and> s_memberships s' = s_memberships s \<and> s_teams s' = s_teams s \<and>
     s_teamMembers s' = s_teamMembers s \<and> s_projectAccess s' = s_projectAccess s"

lemma bookHost_access: "bookHost h r s = Inr s' \<Longrightarrow> same_access s s'"
  by (auto simp: bookHost_def same_access_def and_then_eq_Inr_iff Let_def split: if_splits)

lemma releaseHost_access: "same_access s (releaseHost h r s)"
  by (auto simp: releaseHost_def same_access_def Let_def split: option.splits)

lemma releaseReplicas_access: "same_access s (releaseReplicas rs s)"
  unfolding releaseReplicas_def
proof (induction rs arbitrary: s)
  case (Cons r rs)
  then show ?case using releaseHost_access [of s "Rep_HostID r" "replicaReservationForTier (Rep_Tier r)"]
    by (auto simp: same_access_def)
qed (simp add: same_access_def)

lemma access_new_project:
  assumes inv: "access_inv s" and "same_access s s'" and "map_of (s_projects s) ref = None" and "s_projects s' = AList.update ref p (s_projects s)"
    and "Proj_Ref p = ref" and "projectRefPattern ref"
  shows "access_inv s'"
proof (rule access_projects [OF inv])
  have "norm_key ref = ref"
    using assms(6) by (simp add: norm_key_def projectRefPattern_def plain_TrimSpace plain_ToLower slug_plain)
  then show "refs_ok (s_projects s')" using access_invD(6) [OF inv] assms(5) by (simp add: refs_ok_def assms(4))
next
  fix r g assume "g \<in> set (grants_of s' r)"
  then have g: "g \<in> set (grants_of s r)" using assms(2) by (simp add: grants_of_def same_access_def)
  with grants_okD(2) [OF tables_okD(4) [OF access_invD(5) [OF inv]]] have "org_of s r \<noteq> None" by fastforce
  then have "r \<noteq> ref" using assms(3) by (auto simp: org_of_def)
  with g show "g \<in> set (grants_of s r) \<and> org_of s' r = org_of s r" by (simp add: org_of_def assms(4))
qed (use assms(2) in \<open>simp_all add: same_access_def\<close>)

lemma access_CreateProject:
  assumes inv: "access_inv s" and cr: "CreateProject c defaults request s = Inr (s', p)"
  shows "access_inv s'"
proof -
  obtain req hostID where new: "map_of (s_projects s) (Req_Ref req) = None" "s_projects s' = AList.update (Req_Ref req) p (s_projects s)"
    and v: "validateCreateProject c req = Inr ()"
    and p: "p = newProject c (ctx_newID c) ''project accepted for provisioning'' req ((toSpec req)\<lparr>Spec_HostID := hostID\<rparr>)"
    using cr by (rule CreateProject_eq)
  note new
  moreover have "Proj_Ref p = Req_Ref req" by (simp add: p newProject_def)
  moreover have "projectRefPattern (Req_Ref req)" using v by (rule validated_site)
  moreover from cr have "\<exists>h r s1 q. bookHost h r s = Inr s1 \<and> s' = storeProject c q s1"
    unfolding CreateProject_def Let_def by (elim and_then_InrE) blast
  then have "same_access s s'"
    using bookHost_access by (auto simp: same_access_def storeProject_def addOrioleConfig_def Let_def)
  ultimately show ?thesis by (intro access_new_project [OF inv])
qed

lemma access_CreateProjectBranch:
  assumes inv: "access_inv s" and cr: "CreateProjectBranch c sourceRef input s = Inr (s', b, p)"
  shows "access_inv s'"
proof -
  let ?r = "norm_key (BranchIn_Ref input)"
  obtain source name where new: "map_of (s_projects s) ?r = None" "s_projects s' = AList.update ?r p (s_projects s)"
    and v: "validateCreateProject c (branchRequest source ?r name) = Inr ()"
    and p: "p = newProject c (ctx_newID c) ''branch accepted for provisioning'' (branchRequest source ?r name) (toSpec (branchRequest source ?r name))"
    using cr by (rule CreateProjectBranch_eq)
  have req: "Req_Ref (branchRequest source ?r name) = ?r" by (simp add: branchRequest_def Let_def)
  note new
  moreover have "Proj_Ref p = ?r" by (simp add: p newProject_def req)
  moreover have "projectRefPattern ?r" using validated_site [OF v] unfolding req by blast
  moreover from cr have "\<exists>h r s1 ps bs se po pi. bookHost h r s = Inr s1 \<and>
      s' = s1\<lparr>s_projects := ps, s_branches := bs, s_secrets := se, s_policies := po, s_pitrPolicies := pi\<rparr>"
    unfolding CreateProjectBranch_def Let_def by (elim and_then_InrE) blast
  then have "same_access s s'" using bookHost_access by (auto simp: same_access_def)
  ultimately show ?thesis by (intro access_new_project [OF inv])
qed

lemma access_delete_project:
  assumes inv: "access_inv s" and del: "deleteProjectLocked ref s = Inr (s', u)"
  shows "access_inv s'"
proof -
  have ps: "s_projects s' = AList.delete ref (s_projects s)" by (rule deleteProjectLocked_eq [OF del])
  define s1 where "s1 p = releaseHost (Spec_HostID (Proj_Spec p)) (resourceReservationForSpec (Proj_Spec p)) s" for p :: Project
  define s2 where "s2 p = releaseReplicas (get_or [] (s_replicas s) ref)
      ((s1 p)\<lparr>s_projects := AList.delete ref (s_projects s), s_branches := AList.delete ref (s_branches s)\<rparr>)" for p :: Project
  have same: "same_access s (s2 p)" for p
    using releaseHost_access [of s "Spec_HostID (Proj_Spec p)" "resourceReservationForSpec (Proj_Spec p)"]
      releaseReplicas_access [of "(s1 p)\<lparr>s_projects := AList.delete ref (s_projects s), s_branches := AList.delete ref (s_branches s)\<rparr>"
        "get_or [] (s_replicas s) ref"]
    unfolding s2_def [symmetric] s1_def [symmetric] same_access_def by simp
  from del obtain p where p: "map_of (s_projects s) ref = Some p" by (rule deleteProjectLocked_eq)
  have r: "s_projects (s1 p) = s_projects s" "s_replicas (s1 p) = s_replicas s" "s_branches (s1 p) = s_branches s"
    by (auto simp: s1_def releaseHost_def Let_def split: option.splits)
  have "s' = cleanupRegisteredProjectChildrenLocked ref
      ((s2 p)\<lparr>s_replicas := AList.delete ref (s_replicas (s2 p)), s_branches := withoutBranch ref (s_branches (s2 p))\<rparr>)"
    using del p by (simp add: deleteProjectLocked_def lookup_or_def Let_def s1_def [symmetric] r s2_def [symmetric])
  then have s': "s_users s' = s_users s" "s_memberships s' = s_memberships s" "s_teams s' = s_teams s"
    "s_teamMembers s' = s_teamMembers s" "s_projectAccess s' = AList.delete ref (s_projectAccess s)"
    using same [of p] by (simp_all add: same_access_def cleanupRegisteredProjectChildrenLocked_def)
  show ?thesis
    by (rule access_projects [OF inv s'(1-4)])
      (use access_invD(6) [OF inv] in \<open>auto simp: grants_of_def s'(5) org_of_def ps refs_ok_def split: if_splits\<close>)
qed

section \<open>Reachable stores\<close>

text \<open>One successful call of a method. Fresh identifiers are unused; \<open>Access_frame\<close> is any method that does not
  touch users, members, teams and grants and keeps the projects in their organisations.\<close>

inductive access_step :: "MemoryStore \<Rightarrow> MemoryStore \<Rightarrow> bool" where
  Access_CreateUser: "CreateUser c k nreq s = Inr (s', r1) \<Longrightarrow> fresh_user c s \<Longrightarrow> access_step s s'"
| Access_UpdateUser: "UpdateUser k i ureq s = Inr (s', r2) \<Longrightarrow> access_step s s'"
| Access_DeleteUser: "DeleteUser i s = Inr (s', r3) \<Longrightarrow> access_step s s'"
| Access_Authenticate: "AuthenticateUser k email password earlier s = Inr (s', r4) \<Longrightarrow> access_step s s'"
| Access_Login: "RecordUserLogin c i s = Inr (s', r5) \<Longrightarrow> access_step s s'"
| Access_BeginMFA: "BeginUserMFAEnrollment c entropy i s = Inr (s', r6) \<Longrightarrow> access_step s s'"
| Access_ConfirmMFA: "ConfirmUserMFA c k i code s = Inr (s', r7) \<Longrightarrow> access_step s s'"
| Access_VerifyMFA: "VerifyUserMFA c k i code s = Inr (s', r8) \<Longrightarrow> access_step s s'"
| Access_DisableMFA: "DisableUserMFA c k i code s = Inr (s', r9) \<Longrightarrow> access_step s s'"
| Access_DeleteOrg: "DeleteOrg i s = Inr (s', r10) \<Longrightarrow> access_step s s'"
| Access_UpsertMember: "UpsertOrgMember c k token org minput s = Inr (s', r11) \<Longrightarrow> fresh_user c s \<Longrightarrow> access_step s s'"
| Access_DeleteMember: "DeleteOrgMember org email s = Inr (s', r12) \<Longrightarrow> access_step s s'"
| Access_CreateTeam: "CreateOrgTeam c org tinput s = Inr (s', r13) \<Longrightarrow> fresh_team c s \<Longrightarrow> access_step s s'"
| Access_DeleteTeam: "DeleteOrgTeam org slug s = Inr (s', r14) \<Longrightarrow> access_step s s'"
| Access_UpsertTeamMember: "UpsertTeamMember c k token org slug email s = Inr (s', r15) \<Longrightarrow> fresh_user c s \<Longrightarrow> access_step s s'"
| Access_DeleteTeamMember: "DeleteTeamMember org slug email s = Inr (s', r16) \<Longrightarrow> access_step s s'"
| Access_Grant: "UpsertProjectAccess c ref ainput s = Inr (s', r17) \<Longrightarrow> access_step s s'"
| Access_Revoke: "DeleteProjectAccess ref t i s = Inr (s', r18) \<Longrightarrow> access_step s s'"
| Access_CreateProject: "CreateProject c defaults preq s = Inr (s', r19) \<Longrightarrow> access_step s s'"
| Access_CreateBranch: "CreateProjectBranch c ref binput s = Inr (s', b, r20) \<Longrightarrow> access_step s s'"
| Access_DeleteProject: "DeleteProject ref s = Inr (s', r21) \<Longrightarrow> access_step s s'"
| Access_DeleteBranch: "DeleteProjectBranch src ref s = Inr (s', r22) \<Longrightarrow> access_step s s'"
| Access_frame: "same_rights s s' \<Longrightarrow> access_step s s'"

inductive access_reachable :: "MemoryStore \<Rightarrow> bool" where
  Access_init: "access_reachable (NewMemoryStore defaults)"
| Access_next: "access_reachable s \<Longrightarrow> access_step s s' \<Longrightarrow> access_reachable s'"

lemma access_inv_init: "access_inv (NewMemoryStore defaults)"
  by (auto simp: access_inv_def refs_ok_def NewMemoryStore_def users_ok_def nested_ok_def tables_ok_def members_ok_def teams_ok_def
      team_members_ok_def grants_ok_def grants_of_def)

lemma access_step_inv: "access_step s s' \<Longrightarrow> access_inv s \<Longrightarrow> access_inv s'"
  by (induction rule: access_step.induct)
    (blast intro: access_CreateUser access_UpdateUser access_DeleteUser access_authenticate access_login access_begin_mfa
      access_mfa access_DeleteOrg access_UpsertOrgMember access_DeleteOrgMember access_CreateOrgTeam access_DeleteOrgTeam
      access_UpsertTeamMember access_DeleteTeamMember access_UpsertProjectAccess access_DeleteProjectAccess access_CreateProject
      access_CreateProjectBranch access_delete_project [folded DeleteProject_def] access_delete_project [OF _ DeleteProjectBranch_deletes]
      access_frame)+

lemma access_reachable_inv: "access_reachable s \<Longrightarrow> access_inv s"
  by (induction rule: access_reachable.induct) (use access_inv_init access_step_inv in blast)+

section \<open>The resolved role\<close>

definition roleOf :: "MemoryStore \<Rightarrow> string \<Rightarrow> string \<Rightarrow> User \<Rightarrow> ProjectAccessGrant list \<Rightarrow> string \<Rightarrow> string" where
  "roleOf s org email user grants best =
     fold (\<lambda>grant best. if grantApplies s org email user grant then higherRole best (Grant_Role grant) else best) grants best"

lemma ResolveProjectRole_Inr:
  "ResolveProjectRole ref email s = Inr role \<longleftrightarrow>
     (\<exists>p u. map_of (s_projects s) (norm_key ref) = Some p \<and> map_of (s_users s) (norm_key email) = Some u \<and> role \<noteq> [] \<and>
        role = roleOf s (Proj_OrgID p) (norm_key email) u (grants_of s (norm_key ref)) [])"
  unfolding ResolveProjectRole_def Let_def norm_key_def [symmetric] roleOf_def grants_of_def
  by (auto simp: and_then_eq_Inr_iff)

lemma higherRole_rank: "membershipRoleRank (higherRole a b) = max (membershipRoleRank a) (membershipRoleRank b)"
  by (simp add: higherRole_def)

lemma Max_insert_max: "finite S \<Longrightarrow> Max (insert (max a b) S) = max a (Max (insert b S))" for a :: int
  by (cases "S = {}") (simp_all add: max.assoc)

lemma roleOf_rank:
  "membershipRoleRank (roleOf s org e u gs best) =
     Max (insert (membershipRoleRank best) ((\<lambda>g. membershipRoleRank (Grant_Role g)) ` {g \<in> set gs. grantApplies s org e u g}))"
proof (induction gs arbitrary: best)
  case (Cons g gs)
  show ?case
  proof (cases "grantApplies s org e u g")
    case True
    have "{h \<in> set (g # gs). grantApplies s org e u h} = insert g {h \<in> set gs. grantApplies s org e u h}" using True by auto
    then show ?thesis using True Cons.IH [of "higherRole best (Grant_Role g)"]
      by (simp add: roleOf_def higherRole_rank Max_insert_max insert_commute)
  next
    case False
    then have "{h \<in> set (g # gs). grantApplies s org e u h} = {h \<in> set gs. grantApplies s org e u h}" by auto
    then show ?thesis using False Cons.IH [of best] by (simp add: roleOf_def)
  qed
qed (simp add: roleOf_def)

lemma roleOf_cases: "roleOf s org e u gs best = best \<or>
    (\<exists>g \<in> set gs. grantApplies s org e u g \<and> roleOf s org e u gs best = Grant_Role g)"
proof (induction gs arbitrary: best)
  case (Cons g gs)
  have "roleOf s org e u (g # gs) best = roleOf s org e u gs (if grantApplies s org e u g then higherRole best (Grant_Role g) else best)"
    by (simp add: roleOf_def)
  with Cons.IH [of "if grantApplies s org e u g then higherRole best (Grant_Role g) else best"] show ?case
    by (auto simp: higherRole_def split: if_splits)
qed (simp add: roleOf_def)

lemma applying_member:
  assumes inv: "access_inv s" and p: "map_of (s_projects s) ref = Some p" and u: "map_of (s_users s) e = Some u"
    and g: "g \<in> set (grants_of s ref)" and app: "grantApplies s (Proj_OrgID p) e u g"
  shows "get2 (s_memberships s) (Proj_OrgID p) e \<noteq> None \<and> Grant_Role g \<in> set allowedMembershipRoles"
proof -
  note t = tables_okD [OF access_invD(5) [OF inv]]
  from grants_okD [OF t(4) g] p have b: "backed (get2 (s_memberships s)) (get2 (s_teams s)) (Proj_OrgID p) g"
    and r: "Grant_Role g \<in> set allowedMembershipRoles" by (auto simp: org_of_def)
  show ?thesis
  proof (cases "is_user_grant (User_ID u) g")
    case True
    then obtain e' m where m: "get2 (s_memberships s) (Proj_OrgID p) e' = Some m" "Member_UserID m = User_ID u"
      using b by (auto simp: backed_def is_user_grant_def)
    then obtain v where "map_of (s_users s) e' = Some v" "User_ID v = User_ID u"
      using members_okD(1) [OF t(1) m(1)] by (auto simp: uid_def)
    then have "e' = e" using users_okD(4) [OF access_invD(1) [OF inv]] u by blast
    with m r show ?thesis by simp
  next
    case False
    with app obtain x where x: "x \<in> set (values_of (get_or [] (s_teamMembers s) (Grant_SubjectID g)))" "TM_OrgID x = Proj_OrgID p" "TM_Email x = e"
      by (auto simp: grantApplies_def split: if_splits)
    moreover have "gomap_ok (get_or [] (s_teamMembers s) (Grant_SubjectID g))" using access_invD(4) [OF inv] by (simp add: nested_ok_def)
    ultimately obtain l where l: "get2 (s_teamMembers s) (Grant_SubjectID g) l = Some x" by (auto simp: set_values get2_def)
    from team_members_okD(1,2) [OF t(3) l] x r show ?thesis by simp
  qed
qed

lemma removed_membership: "DeleteOrgMember org email s = Inr (s', x) \<Longrightarrow> get2 (s_memberships s') org (norm_key email) = None"
  unfolding DeleteOrgMember_def Let_def norm_key_def [symmetric]
  by (elim and_then_InrE) (cases "get2 (s_memberships s) org (norm_key email)", auto)

lemma resolved_member:
  assumes "access_inv s" and "ResolveProjectRole ref email s = Inr role"
  shows "\<exists>p m. map_of (s_projects s) (norm_key ref) = Some p \<and> get2 (s_memberships s) (Proj_OrgID p) (norm_key email) = Some m \<and>
    role \<in> set allowedMembershipRoles"
proof -
  from assms(2) obtain p u where p: "map_of (s_projects s) (norm_key ref) = Some p" and u: "map_of (s_users s) (norm_key email) = Some u"
    and r: "role \<noteq> []" "role = roleOf s (Proj_OrgID p) (norm_key email) u (grants_of s (norm_key ref)) []"
    by (auto simp: ResolveProjectRole_Inr)
  with roleOf_cases [of s "Proj_OrgID p" "norm_key email" u "grants_of s (norm_key ref)" "[]"]
  obtain g where "g \<in> set (grants_of s (norm_key ref))" "grantApplies s (Proj_OrgID p) (norm_key email) u g" "role = Grant_Role g" by auto
  with applying_member [OF assms(1) p u] p show ?thesis by auto
qed

section \<open>Properties\<close>

text \<open>A reachable store: one project, one person invited as a viewer who then gets a role on the project.\<close>

definition demo_member :: MembershipInput where
  "demo_member = \<lparr>MemberIn_Email = ''A@b.c'', MemberIn_Role = ''viewer''\<rparr>"

definition demo_grant :: ProjectAccessInput where
  "demo_grant = \<lparr>AccessIn_SubjectType = ''user'', AccessIn_SubjectID = ''a@b.c'', AccessIn_Role = ''admin''\<rparr>"

definition demo_granted :: "MemoryStore res" where
  "demo_granted =
     and_then (UpsertOrgMember demo_ctx demo_lib ''token'' ''o1'' demo_member demo_hosted) (\<lambda>(s, _).
     and_then (UpsertProjectAccess demo_ctx ''acme'' demo_grant s) (\<lambda>(s, _). Inr s))"

lemma demo_granted_ok: "case demo_granted of Inl _ \<Rightarrow> False | Inr s \<Rightarrow> ResolveProjectRole ''acme'' ''a@b.c'' s = Inr ''admin'' \<and>
    is_ok (DeleteOrgMember ''o1'' ''a@b.c'' s)"
  by code_simp

lemma same_rights_hosts: "CreateHost c req s = Inr (s', r) \<Longrightarrow> same_rights s s'"
  by (auto simp: CreateHost_def same_rights_def org_of_def [abs_def] Let_def elim!: and_then_InrE)

lemma access_reachable_hosted: "access_reachable demo_hosted"
proof -
  have start: "access_reachable demo_start"
    by (rule Access_next [OF Access_init [of demo_defaults] Access_frame]) (simp add: demo_start_def same_rights_def org_of_def [abs_def])
  show ?thesis
  proof (cases "and_then (CreateHost demo_ctx demo_host_request demo_start) (\<lambda>(s, _). CreateProject demo_ctx demo_defaults demo_request s)")
    case (Inl e)
    then show ?thesis using start by (simp add: demo_hosted_def)
  next
    case (Inr x)
    then obtain s1 h s2 p where c: "CreateHost demo_ctx demo_host_request demo_start = Inr (s1, h)"
      "CreateProject demo_ctx demo_defaults demo_request s1 = Inr (s2, p)" "x = (s2, p)"
      by (cases x) (auto elim!: and_then_InrE)
    have "access_reachable s1" by (rule Access_next [OF start Access_frame [OF same_rights_hosts [OF c(1)]]])
    from Access_next [OF this Access_CreateProject [OF c(2)]] Inr c(3) show ?thesis by (simp add: demo_hosted_def)
  qed
qed

lemma demo_hosted_users: "s_users demo_hosted = []"
proof (cases "and_then (CreateHost demo_ctx demo_host_request demo_start) (\<lambda>(s, _). CreateProject demo_ctx demo_defaults demo_request s)")
  case (Inl e)
  then show ?thesis by (simp add: demo_hosted_def demo_start_def NewMemoryStore_def)
next
  case (Inr x)
  then obtain s1 h s2 p where c: "CreateHost demo_ctx demo_host_request demo_start = Inr (s1, h)"
    "CreateProject demo_ctx demo_defaults demo_request s1 = Inr (s2, p)" "x = (s2, p)"
    by (cases x) (auto elim!: and_then_InrE)
  from c(2) have "same_access s1 s2"
    unfolding CreateProject_def Let_def
    by (elim and_then_InrE) (use bookHost_access in \<open>auto simp: same_access_def storeProject_def addOrioleConfig_def Let_def\<close>)
  moreover have "s_users s1 = []" using same_rights_hosts [OF c(1)] by (simp add: same_rights_def demo_start_def NewMemoryStore_def)
  ultimately show ?thesis using Inr c(3) by (simp add: demo_hosted_def same_access_def)
qed

lemma demo_granted_reachable: "\<exists>s. demo_granted = Inr s \<and> access_reachable s \<and> ResolveProjectRole ''acme'' ''a@b.c'' s = Inr ''admin'' \<and>
    is_ok (DeleteOrgMember ''o1'' ''a@b.c'' s)"
proof -
  obtain s where s: "demo_granted = Inr s" "ResolveProjectRole ''acme'' ''a@b.c'' s = Inr ''admin''" "is_ok (DeleteOrgMember ''o1'' ''a@b.c'' s)"
    using demo_granted_ok by (auto split: sum.split_asm)
  then obtain s1 m g where c: "UpsertOrgMember demo_ctx demo_lib ''token'' ''o1'' demo_member demo_hosted = Inr (s1, m)"
      "UpsertProjectAccess demo_ctx ''acme'' demo_grant s1 = Inr (s, g)"
    unfolding demo_granted_def by (auto elim!: and_then_InrE)
  have "fresh_user demo_ctx demo_hosted" by (simp add: fresh_user_def userByIDLocked_def demo_hosted_users values_of_def)
  from Access_next [OF access_reachable_hosted Access_UpsertMember [OF c(1) this]] have "access_reachable s1" .
  from Access_next [OF this Access_Grant [OF c(2)]] s show ?thesis by blast
qed

text \<open>C8. A project role is only for current members: in every reachable store, whoever has a role on a project, by
  his own grant or through a team, is a member of the organisation that owns the project, and the role is one
  of the four roles. Deleting users, members, teams, projects and organisations and changing emails leave no
  grant behind that breaks this.\<close>

theorem role_only_for_members:
  assumes "access_reachable s" and "ResolveProjectRole ref email s = Inr role"
  shows "\<exists>p m. map_of (s_projects s) (norm_key ref) = Some p \<and> get2 (s_memberships s) (Proj_OrgID p) (norm_key email) = Some m \<and>
    role \<in> set allowedMembershipRoles"
  by (rule resolved_member [OF access_reachable_inv [OF assms(1)] assms(2)])

theorem role_only_for_members_witness:
  "\<exists>s p m. access_reachable s \<and> ResolveProjectRole ''acme'' ''a@b.c'' s = Inr ''admin'' \<and>
     map_of (s_projects s) (norm_key ''acme'') = Some p \<and> get2 (s_memberships s) (Proj_OrgID p) (norm_key ''a@b.c'') = Some m"
proof -
  obtain s where s: "access_reachable s" "ResolveProjectRole ''acme'' ''a@b.c'' s = Inr ''admin''" using demo_granted_reachable by blast
  from role_only_for_members [OF s] s show ?thesis by blast
qed



text \<open>C18. Removing a member takes away every project role he had in the organisation, those that came through its
  teams included.\<close>

theorem removed_member_has_no_role:
  assumes "access_reachable s" and "DeleteOrgMember org email s = Inr (s', x)" and "org_of s' (norm_key ref) = Some org"
  shows "\<exists>e. ResolveProjectRole ref email s' = Inl e"
proof (cases "ResolveProjectRole ref email s'")
  case (Inr role)
  from resolved_member [OF access_DeleteOrgMember [OF access_reachable_inv [OF assms(1)] assms(2)] Inr] assms(3)
    removed_membership [OF assms(2)] show ?thesis by (auto simp: org_of_def)
qed blast

theorem removed_member_has_no_role_witness:
  "\<exists>s s' e. ResolveProjectRole ''acme'' ''a@b.c'' s = Inr ''admin'' \<and> DeleteOrgMember ''o1'' ''a@b.c'' s = Inr (s', ()) \<and>
     ResolveProjectRole ''acme'' ''a@b.c'' s' = Inl e"
proof -
  obtain s where s: "demo_granted = Inr s" "access_reachable s" "ResolveProjectRole ''acme'' ''a@b.c'' s = Inr ''admin''"
    "is_ok (DeleteOrgMember ''o1'' ''a@b.c'' s)" using demo_granted_reachable by blast
  then obtain s' where d: "DeleteOrgMember ''o1'' ''a@b.c'' s = Inr (s', ())" by (auto simp: is_ok_iff)
  have "org_of s' (norm_key ''acme'') = Some ''o1''"
  proof -
    have all: "case demo_granted of Inl _ \<Rightarrow> False | Inr s \<Rightarrow>
        (case DeleteOrgMember ''o1'' ''a@b.c'' s of Inl _ \<Rightarrow> False | Inr (s', _) \<Rightarrow> org_of s' (norm_key ''acme'') = Some ''o1'')"
      by code_simp
    then show ?thesis by (simp only: s(1) d sum.case prod.case)
  qed
  from removed_member_has_no_role [OF s(2) d this] d s(3) show ?thesis by blast
qed

end
