(* ===== verification/Authz.thy ===== *)
theory Authz
  imports Access_Steps
begin

text \<open>
  The request pipeline of the API (internal/api/http_helpers.go, authz_helpers.go): the origin check, the bearer
  token, and the role checks the handlers start with. A handler either writes an error and stops (\<open>Denied\<close> with the
  HTTP status) or goes on (\<open>Granted\<close>). A request carries the headers the code reads and the context values that
  the middlewares set. The store is an interface: \<open>StoreOps\<close> has the methods these functions call, the locale
  \<open>access_store\<close> says what they must promise, and the in-memory store is shown to keep the promise.
\<close>

section \<open>Requests and outcomes\<close>

record Request =
  Rq_Method :: string
  Rq_Path :: string
  Rq_Authorization :: string
  Rq_Cookie :: "string option"
  Rq_Origin :: string
  Rq_Claims :: "TokenClaims option"
  Rq_AuthBypass :: bool
  Rq_AuditActor :: "string option"

datatype 'a outcome = Denied nat string | Granted 'a

definition outcome_then :: "'a outcome \<Rightarrow> ('a \<Rightarrow> 'b outcome) \<Rightarrow> 'b outcome" where
  "outcome_then r f = (case r of Denied n msg \<Rightarrow> Denied n msg | Granted x \<Rightarrow> f x)"

lemma outcome_then_Granted: "outcome_then r f = Granted y \<longleftrightarrow> (\<exists>x. r = Granted x \<and> f x = Granted y)"
  by (simp add: outcome_then_def split: outcome.split)

definition writeStoreError :: "err \<Rightarrow> 'a outcome" where
  "writeStoreError e = (case e of ErrNotFound msg \<Rightarrow> Denied 404 msg | ErrConflict msg \<Rightarrow> Denied 409 msg | ErrOther msg \<Rightarrow> Denied 400 msg)"

definition or_store_error :: "'a res \<Rightarrow> ('a \<Rightarrow> 'b outcome) \<Rightarrow> 'b outcome" where
  "or_store_error r f = (case r of Inl e \<Rightarrow> writeStoreError e | Inr x \<Rightarrow> f x)"

lemma or_store_error_Granted: "or_store_error r f = Granted y \<longleftrightarrow> (\<exists>x. r = Inr x \<and> f x = Granted y)"
  by (simp add: or_store_error_def writeStoreError_def split: sum.split err.split)

record StoreOps =
  so_GetUserByID :: "string \<Rightarrow> User res"
  so_ListOrgMembers :: "string \<Rightarrow> Membership list res"
  so_GetProject :: "string \<Rightarrow> Project res"
  so_ResolveProjectRole :: "string \<Rightarrow> string \<Rightarrow> string res"
  so_ListProjects :: "Project list res"
  so_ListOrgs :: "Org list res"
  so_GetOrgFeatureFlags :: "string \<Rightarrow> OrgFeatureFlags res"

section \<open>Origins\<close>

definition isCrossOriginCallbackPath :: "string \<Rightarrow> bool" where
  "isCrossOriginCallbackPath path \<longleftrightarrow> path = ''/v1/auth/sso/saml/callback''"

definition isMutatingMethod :: "string \<Rightarrow> bool" where
  "isMutatingMethod method \<longleftrightarrow> method \<in> {''POST'', ''PUT'', ''PATCH'', ''DELETE''}"

definition bearerTokenFromRequest :: "Request \<Rightarrow> string" where
  "bearerTokenFromRequest r =
     (case Cut (CHR '' '') (Rq_Authorization r) of (scheme, token, ok) \<Rightarrow>
        if ok \<and> EqualFold scheme ''Bearer'' then TrimSpace token else [])"

definition tokenFromRequest :: "Request \<Rightarrow> string" where
  "tokenFromRequest r =
     (case Cut (CHR '' '') (Rq_Authorization r) of (scheme, token, ok) \<Rightarrow>
        if ok \<and> EqualFold scheme ''Bearer'' \<and> token \<noteq> [] then token
        else (case Rq_Cookie r of None \<Rightarrow> [] | Some v \<Rightarrow> TrimSpace v))"

definition usesCookieAuth :: "Request \<Rightarrow> bool" where
  "usesCookieAuth r =
     (if bearerTokenFromRequest r \<noteq> [] then False
      else (case Rq_Cookie r of None \<Rightarrow> False | Some v \<Rightarrow> TrimSpace v \<noteq> []))"

definition is_slash :: "char \<Rightarrow> bool" where "is_slash c \<longleftrightarrow> c = CHR ''/''"

definition addDerivedCORSOrigin :: "string list \<Rightarrow> string \<Rightarrow> string list" where
  "addDerivedCORSOrigin out v =
     (let v = TrimSpace v in
      if v = [] then out
      else if HasPrefix v ''http://'' \<or> HasPrefix v ''https://'' then out @ [rev (dropWhile is_slash (rev v))]
      else out @ [''https://'' @ TrimFunc is_slash v])"

definition localOrigins :: "string list" where
  "localOrigins =
     [''http://localhost:3000'', ''http://127.0.0.1:3000'', ''http://localhost:3001'', ''http://127.0.0.1:3001'',
      ''http://localhost:5173'', ''http://127.0.0.1:5173'', ''http://localhost:5174'', ''http://127.0.0.1:5174'']"

text \<open>The set of allowed origins, as the list of its members.\<close>

definition allowedCORSOrigins :: "(string \<Rightarrow> string) \<Rightarrow> string list \<Rightarrow> string list" where
  "allowedCORSOrigins getenv configured =
     (let origins = (if configured = [] then Split (CHR '','') (getenv ''SUPADUPA_CORS_ORIGINS'') else configured);
          out = filter (\<lambda>v. v \<noteq> []) (map TrimSpace origins)
      in if out \<noteq> [] then out
         else let out = addDerivedCORSOrigin (addDerivedCORSOrigin [] (getenv ''SUPADUPA_ADMIN_URL'')) (getenv ''SUPADUPA_ADMIN_HOST'')
              in if out \<noteq> [] then out else localOrigins)"

text \<open>\<open>None\<close> is the answer to a preflight request: no content.\<close>

definition withCORS :: "(Request \<Rightarrow> 'a outcome) \<Rightarrow> string list \<Rightarrow> Request \<Rightarrow> 'a option outcome" where
  "withCORS handler allowedOrigins r =
     (let allowed = Rq_Origin r \<in> set allowedOrigins; origin = Rq_Origin r in
      if \<not> allowed \<and> origin \<noteq> [] \<and> (Rq_Method r = ''OPTIONS'' \<or> isMutatingMethod (Rq_Method r)) \<and> \<not> isCrossOriginCallbackPath (Rq_Path r)
      then Denied 403 ''origin is not allowed''
      else if origin = [] \<and> isMutatingMethod (Rq_Method r) \<and> \<not> isCrossOriginCallbackPath (Rq_Path r) \<and> usesCookieAuth r
      then Denied 403 ''origin is required for cookie-authenticated mutations''
      else if Rq_Method r = ''OPTIONS'' then Granted None
      else outcome_then (handler r) (\<lambda>x. Granted (Some x)))"

section \<open>Tokens\<close>

definition isPublicPath :: "string \<Rightarrow> bool" where
  "isPublicPath path \<longleftrightarrow>
     path \<in> {''/healthz'', ''/v1/health'', ''/v1/auth/state'', ''/v1/auth/bootstrap'', ''/v1/auth/login'', ''/v1/auth/logout'',
       ''/v1/auth/studio/verify'', ''/v1/auth/sso/saml/start'', ''/v1/auth/sso/saml/callback''} \<or> HasPrefix path ''/v1/scim/v2/''"

definition requireCurrentUserClaims :: "StoreOps \<Rightarrow> TokenClaims \<Rightarrow> User outcome" where
  "requireCurrentUserClaims ops claims =
     (case currentUserForClaims (so_GetUserByID ops) claims of
        Inr user \<Rightarrow> Granted user
      | Inl InvalidBearerToken \<Rightarrow> Denied 401 ''invalid bearer token''
      | Inl StaleBearerToken \<Rightarrow> Denied 401 ''stale bearer token''
      | Inl (StoreError e) \<Rightarrow> writeStoreError e)"

definition withAuth :: "bool \<Rightarrow> AuthLib \<Rightarrow> AuthService \<Rightarrow> StoreOps \<Rightarrow> time \<Rightarrow> (Request \<Rightarrow> 'a outcome) \<Rightarrow> Request \<Rightarrow> 'a outcome" where
  "withAuth required k auth ops now handler r =
     (if \<not> required then handler (r\<lparr>Rq_AuthBypass := True\<rparr>)
      else if Rq_Method r = ''OPTIONS'' \<or> isPublicPath (Rq_Path r) then handler r
      else let token = tokenFromRequest r in
        if token = [] then Denied 401 ''missing bearer token''
        else (case Verify k auth token now of
            Inl _ \<Rightarrow> Denied 401 ''invalid bearer token''
          | Inr claims \<Rightarrow> outcome_then (requireCurrentUserClaims ops claims) (\<lambda>_.
              handler (r\<lparr>Rq_Claims := Some claims, Rq_AuditActor := Some (Claim_Subject claims)\<rparr>))))"

section \<open>Role checks\<close>

type_synonym accessRole = int

definition roleViewer :: accessRole where "roleViewer = 1"
definition roleDeveloper :: accessRole where "roleDeveloper = 2"
definition roleAdmin :: accessRole where "roleAdmin = 3"
definition roleOwner :: accessRole where "roleOwner = 4"

definition roleName :: "accessRole \<Rightarrow> string" where
  "roleName role =
     (if role = roleViewer then ''viewer'' else if role = roleDeveloper then ''developer''
      else if role = roleAdmin then ''admin'' else if role = roleOwner then ''owner'' else ''unknown'')"

definition roleRank :: "string \<Rightarrow> accessRole" where
  "roleRank role =
     (let r = ToLower (TrimSpace role) in
      if r = ''owner'' then roleOwner else if r = ''admin'' then roleAdmin else if r = ''developer'' then roleDeveloper
      else if r = ''viewer'' then roleViewer else 0)"

definition orgRoleForEmail :: "StoreOps \<Rightarrow> string \<Rightarrow> string \<Rightarrow> string res" where
  "orgRoleForEmail ops orgID email =
     and_then (so_ListOrgMembers ops orgID) (\<lambda>members.
     case find (\<lambda>m. Member_Email m = ToLower (TrimSpace email)) members of
       None \<Rightarrow> Inr [] | Some m \<Rightarrow> Inr (Member_Role m))"

definition requireOrgFeature :: "StoreOps \<Rightarrow> string \<Rightarrow> string \<Rightarrow> unit outcome" where
  "requireOrgFeature ops orgID flag =
     or_store_error (so_GetOrgFeatureFlags ops orgID) (\<lambda>flags.
     if get_or False (Flags_Effective flags) flag then Granted ()
     else Denied 403 (''feature flag '' @ flag @ '' is disabled for org''))"

definition requireProjectFeature :: "StoreOps \<Rightarrow> Project \<Rightarrow> string \<Rightarrow> unit outcome" where
  "requireProjectFeature ops project flag = requireOrgFeature ops (Proj_OrgID project) flag"

definition requireCurrentPlatformAdminClaims :: "StoreOps \<Rightarrow> TokenClaims \<Rightarrow> unit outcome" where
  "requireCurrentPlatformAdminClaims ops claims =
     outcome_then (requireCurrentUserClaims ops claims) (\<lambda>user.
     if \<not> EqualFold (User_Role user) ''admin'' then Denied 403 ''forbidden: platform admin role required'' else Granted ())"

text \<open>A request without claims passes only when authentication is switched off.\<close>

definition withoutClaims :: "Request \<Rightarrow> 'a \<Rightarrow> 'a outcome" where
  "withoutClaims r x = (if Rq_AuthBypass r then Granted x else Denied 401 ''missing bearer token'')"

definition requirePlatformAdmin :: "StoreOps \<Rightarrow> Request \<Rightarrow> unit outcome" where
  "requirePlatformAdmin ops r =
     (case Rq_Claims r of
        None \<Rightarrow> withoutClaims r ()
      | Some claims \<Rightarrow>
          if EqualFold (Claim_Role claims) ''admin'' then requireCurrentPlatformAdminClaims ops claims
          else Denied 403 ''forbidden: platform admin role required'')"

definition requireOrgRole :: "StoreOps \<Rightarrow> Request \<Rightarrow> string \<Rightarrow> accessRole \<Rightarrow> unit outcome" where
  "requireOrgRole ops r orgID minimum =
     (case Rq_Claims r of
        None \<Rightarrow> withoutClaims r ()
      | Some claims \<Rightarrow>
          outcome_then (requireCurrentUserClaims ops claims) (\<lambda>user.
          or_store_error (orgRoleForEmail ops orgID (User_Email user)) (\<lambda>role.
          if roleRank role \<ge> minimum then Granted ()
          else Denied 403 (''forbidden: requires '' @ roleName minimum @ '' access to org''))))"

definition requireProjectRole :: "StoreOps \<Rightarrow> Request \<Rightarrow> string \<Rightarrow> accessRole \<Rightarrow> Project outcome" where
  "requireProjectRole ops r ref minimum =
     or_store_error (so_GetProject ops ref) (\<lambda>project.
     case Rq_Claims r of
       None \<Rightarrow> withoutClaims r project
     | Some claims \<Rightarrow>
         outcome_then (requireCurrentUserClaims ops claims) (\<lambda>user.
         or_store_error (orgRoleForEmail ops (Proj_OrgID project) (User_Email user)) (\<lambda>orgRole.
         if roleRank orgRole \<ge> minimum then Granted project
         else (case so_ResolveProjectRole ops (Proj_Ref project) (User_Email user) of
             Inr projectRole \<Rightarrow> if roleRank projectRole \<ge> minimum then Granted project
               else Denied 403 (''forbidden: requires '' @ roleName minimum @ '' access to project'')
           | Inl (ErrNotFound _) \<Rightarrow> Denied 403 (''forbidden: requires '' @ roleName minimum @ '' access to project'')
           | Inl e \<Rightarrow> writeStoreError e))))"

section \<open>Lists\<close>

fun visibleOrgIDs :: "StoreOps \<Rightarrow> string \<Rightarrow> Org list \<Rightarrow> Org list res" where
  "visibleOrgIDs ops email [] = Inr []"
| "visibleOrgIDs ops email (org # orgs) =
     and_then (orgRoleForEmail ops (Org_ID org) email) (\<lambda>role.
     and_then (visibleOrgIDs ops email orgs) (\<lambda>rest.
     Inr (if roleRank role \<ge> roleViewer then org # rest else rest)))"

fun visibleProjects :: "StoreOps \<Rightarrow> string \<Rightarrow> string list \<Rightarrow> Project list \<Rightarrow> Project list res" where
  "visibleProjects ops email visibleOrgs [] = Inr []"
| "visibleProjects ops email visibleOrgs (project # projects) =
     (if Proj_OrgID project \<in> set visibleOrgs
      then and_then (visibleProjects ops email visibleOrgs projects) (\<lambda>rest. Inr (project # rest))
      else (case so_ResolveProjectRole ops (Proj_Ref project) email of
          Inl (ErrNotFound _) \<Rightarrow> visibleProjects ops email visibleOrgs projects
        | Inl e \<Rightarrow> Inl e
        | Inr role \<Rightarrow> and_then (visibleProjects ops email visibleOrgs projects) (\<lambda>rest.
            Inr (if roleRank role \<ge> roleViewer then project # rest else rest))))"

definition projectsVisibleToRequest :: "StoreOps \<Rightarrow> Request \<Rightarrow> Project list res" where
  "projectsVisibleToRequest ops r =
     and_then (so_ListProjects ops) (\<lambda>projects.
     case Rq_Claims r of
       None \<Rightarrow> Inr (if Rq_AuthBypass r then projects else [])
     | Some claims \<Rightarrow>
         if EqualFold (Claim_Role claims) ''admin'' then Inr projects
         else let email = ToLower (TrimSpace (Claim_Email claims)) in
           and_then (so_ListOrgs ops) (\<lambda>orgs.
           and_then (visibleOrgIDs ops email orgs) (\<lambda>visible.
           visibleProjects ops email (map Org_ID visible) projects)))"

definition orgsVisibleToRequest :: "StoreOps \<Rightarrow> Request \<Rightarrow> Org list res" where
  "orgsVisibleToRequest ops r =
     and_then (so_ListOrgs ops) (\<lambda>orgs.
     case Rq_Claims r of
       None \<Rightarrow> Inr (if Rq_AuthBypass r then orgs else [])
     | Some claims \<Rightarrow>
         if EqualFold (Claim_Role claims) ''admin'' then Inr orgs
         else visibleOrgIDs ops (ToLower (TrimSpace (Claim_Email claims))) orgs)"

text \<open>The in-memory store as an implementation of the interface.\<close>

definition memory_ops :: "PlatformDefaults \<Rightarrow> MemoryStore \<Rightarrow> StoreOps" where
  "memory_ops defaults s =
     \<lparr>so_GetUserByID = (\<lambda>i. GetUserByID i s), so_ListOrgMembers = (\<lambda>i. ListOrgMembers i s), so_GetProject = (\<lambda>ref. GetProject ref s),
      so_ResolveProjectRole = (\<lambda>ref email. ResolveProjectRole ref email s), so_ListProjects = Inr (ListProjects s),
      so_ListOrgs = Inr (ListOrgs defaults s), so_GetOrgFeatureFlags = (\<lambda>i. GetOrgFeatureFlags defaults i s)\<rparr>"

section \<open>What the store must promise\<close>

text \<open>\<open>member_role s org e\<close> is the role of the person with the normalised email \<open>e\<close> in the organisation.\<close>

locale access_store =
  fixes ops :: "'s \<Rightarrow> StoreOps" and inv :: "'s \<Rightarrow> bool" and member_role :: "'s \<Rightarrow> string \<Rightarrow> string \<Rightarrow> string option"
  assumes members: "inv s \<Longrightarrow> so_ListOrgMembers (ops s) org = Inr ms \<Longrightarrow>
      map_option Member_Role (find (\<lambda>m. Member_Email m = e) ms) = member_role s org e"
    and role_of_member: "inv s \<Longrightarrow> so_GetProject (ops s) ref = Inr p \<Longrightarrow> so_ResolveProjectRole (ops s) (Proj_Ref p) e = Inr r \<Longrightarrow>
      member_role s (Proj_OrgID p) (norm_key e) \<noteq> None"
    and listed: "inv s \<Longrightarrow> so_ListProjects (ops s) = Inr ps \<Longrightarrow> p \<in> set ps \<Longrightarrow> so_GetProject (ops s) (Proj_Ref p) = Inr p"
begin

lemma orgRole:
  assumes "inv s" and "orgRoleForEmail (ops s) org e = Inr r"
  shows "r = (case member_role s org (norm_key e) of None \<Rightarrow> [] | Some x \<Rightarrow> x)"
proof -
  from assms(2) obtain ms where ms: "so_ListOrgMembers (ops s) org = Inr ms"
    and r: "(case find (\<lambda>m. Member_Email m = norm_key e) ms of None \<Rightarrow> Inr [] | Some m \<Rightarrow> Inr (Member_Role m)) = (Inr r :: string res)"
    unfolding orgRoleForEmail_def norm_key_def [symmetric] by (elim and_then_InrE)
  from members [OF assms(1) ms, of "norm_key e"] r show ?thesis by (auto split: option.splits)
qed

lemma ranked_member: "1 \<le> n \<Longrightarrow> n \<le> roleRank (case r of None \<Rightarrow> [] | Some x \<Rightarrow> x) \<Longrightarrow> r \<noteq> None"
  by (cases r) (simp_all add: roleRank_def)

text \<open>What lets a request with claims through the two role checks.\<close>

definition may :: "'s \<Rightarrow> TokenClaims \<Rightarrow> string \<Rightarrow> string option \<Rightarrow> int \<Rightarrow> bool" where
  "may s tc org ref n \<longleftrightarrow> (\<exists>u m. currentUserForClaims (so_GetUserByID (ops s)) tc = Inr u \<and>
     member_role s org (norm_key (User_Email u)) = Some m \<and>
     (n \<le> roleRank m \<or> (\<exists>i r. ref = Some i \<and> so_ResolveProjectRole (ops s) i (User_Email u) = Inr r \<and> n \<le> roleRank r)))"

lemma current_user: "requireCurrentUserClaims (ops s) tc = Granted u \<longleftrightarrow> currentUserForClaims (so_GetUserByID (ops s)) tc = Inr u"
  by (simp add: requireCurrentUserClaims_def writeStoreError_def split: sum.split token_error.split err.split)

lemma org_access:
  assumes "inv s" and "1 \<le> n" and "Rq_Claims r = Some tc" and "requireOrgRole (ops s) r org n = Granted ()"
  shows "may s tc org None n"
proof -
  from assms(3,4) obtain u role where u: "currentUserForClaims (so_GetUserByID (ops s)) tc = Inr u"
    and role: "orgRoleForEmail (ops s) org (User_Email u) = Inr role" "n \<le> roleRank role"
    by (auto simp: requireOrgRole_def outcome_then_Granted or_store_error_Granted current_user split: if_split_asm)
  from orgRole [OF assms(1) role(1)] role(2) have "n \<le> roleRank (case member_role s org (norm_key (User_Email u)) of None \<Rightarrow> [] | Some x \<Rightarrow> x)"
    by simp
  with ranked_member [OF assms(2) this] u show ?thesis by (auto simp: may_def)
qed

lemma project_access:
  assumes "inv s" and "1 \<le> n" and "Rq_Claims r = Some tc" and "requireProjectRole (ops s) r ref n = Granted p"
  shows "so_GetProject (ops s) ref = Inr p \<and> may s tc (Proj_OrgID p) (Some (Proj_Ref p)) n"
proof -
  from assms(3,4) obtain u role where p: "so_GetProject (ops s) ref = Inr p" and u: "currentUserForClaims (so_GetUserByID (ops s)) tc = Inr u"
    and role: "orgRoleForEmail (ops s) (Proj_OrgID p) (User_Email u) = Inr role"
    and cs: "n \<le> roleRank role \<or> (\<exists>r. so_ResolveProjectRole (ops s) (Proj_Ref p) (User_Email u) = Inr r \<and> n \<le> roleRank r)"
    by (auto simp: requireProjectRole_def outcome_then_Granted or_store_error_Granted current_user writeStoreError_def
        split: if_split_asm sum.split_asm err.split_asm)
  note r = orgRole [OF assms(1) role]
  show ?thesis
  proof (cases "n \<le> roleRank role")
    case True
    with ranked_member [OF assms(2), of "member_role s (Proj_OrgID p) (norm_key (User_Email u))"] r p u
    show ?thesis by (auto simp: may_def)
  next
    case False
    with cs obtain pr where pr: "so_ResolveProjectRole (ops s) (Proj_Ref p) (User_Email u) = Inr pr" "n \<le> roleRank pr" by blast
    with role_of_member [OF assms(1) p pr(1)] p u show ?thesis by (auto simp: may_def)
  qed
qed

lemma visibleOrg_member:
  assumes "inv s" and "visibleOrgIDs (ops s) e orgs = Inr out" and "org \<in> set out"
  shows "member_role s (Org_ID org) (norm_key e) \<noteq> None"
  using assms(2,3)
proof (induction orgs arbitrary: out)
  case (Cons o' orgs)
  from Cons.prems(1) obtain role rest where role: "orgRoleForEmail (ops s) (Org_ID o') e = Inr role"
    and rest: "visibleOrgIDs (ops s) e orgs = Inr rest" and out: "out = (if roleRank role \<ge> roleViewer then o' # rest else rest)"
    by (auto simp: and_then_eq_Inr_iff)
  show ?case
  proof (cases "org \<in> set rest")
    case True
    with Cons.IH rest show ?thesis by blast
  next
    case False
    with Cons.prems(2) out have "org = o'" "1 \<le> roleRank role" by (auto simp: roleViewer_def split: if_split_asm)
    with ranked_member [of 1] orgRole [OF assms(1) role] show ?thesis by simp
  qed
qed simp

lemma visibleProject_member:
  assumes "inv s" and vis: "\<And>org. org \<in> set orgs \<Longrightarrow> member_role s org (norm_key e) \<noteq> None"
    and "\<And>p. p \<in> set ps \<Longrightarrow> so_GetProject (ops s) (Proj_Ref p) = Inr p"
    and "visibleProjects (ops s) e orgs ps = Inr out" and "p \<in> set out"
  shows "p \<in> set ps \<and> member_role s (Proj_OrgID p) (norm_key e) \<noteq> None"
  using assms(3-5)
proof (induction ps arbitrary: out)
  case (Cons q ps)
  have own: "member_role s (Proj_OrgID q) (norm_key e) \<noteq> None" if "so_ResolveProjectRole (ops s) (Proj_Ref q) e = Inr r" for r
    using role_of_member [OF assms(1) _ that, of "Proj_Ref q"] Cons.prems(1) [of q] by simp
  from Cons.prems(2) obtain rest where rest: "visibleProjects (ops s) e orgs ps = Inr rest"
    and out: "set out \<subseteq> set rest \<or> set out \<subseteq> insert q (set rest) \<and> member_role s (Proj_OrgID q) (norm_key e) \<noteq> None"
    using vis own by (auto simp: and_then_eq_Inr_iff split: if_split_asm sum.split_asm err.split_asm)
  show ?case
  proof (cases "p \<in> set rest")
    case True
    with Cons.IH [OF _ rest] Cons.prems(1) show ?thesis by auto
  next
    case False
    with out Cons.prems(3) show ?thesis by auto
  qed
qed simp

lemma projects_visible:
  assumes "inv s" and "Rq_Claims r = Some tc" and "\<not> EqualFold (Claim_Role tc) ''admin''"
    and "projectsVisibleToRequest (ops s) r = Inr out" and "p \<in> set out"
  shows "member_role s (Proj_OrgID p) (norm_key (Claim_Email tc)) \<noteq> None"
proof -
  from assms(2-4) obtain ps orgs vis where ps: "so_ListProjects (ops s) = Inr ps"
    and v: "visibleOrgIDs (ops s) (norm_key (Claim_Email tc)) orgs = Inr vis"
    and out: "visibleProjects (ops s) (norm_key (Claim_Email tc)) (map Org_ID vis) ps = Inr out"
    by (auto simp: projectsVisibleToRequest_def and_then_eq_Inr_iff norm_key_def Let_def)
  have "member_role s org (norm_key (norm_key (Claim_Email tc))) \<noteq> None" if "org \<in> set (map Org_ID vis)" for org
    using that visibleOrg_member [OF assms(1) v] by auto
  from visibleProject_member [OF assms(1) this listed [OF assms(1) ps] out assms(5)] show ?thesis by simp
qed

end

section \<open>The in-memory store keeps the promise\<close>

definition memberRole :: "MemoryStore \<Rightarrow> string \<Rightarrow> string \<Rightarrow> string option" where
  "memberRole s org e = map_option Member_Role (get2 (s_memberships s) org e)"

lemma find_member:
  assumes inv: "access_inv s" and ms: "set ms = set (values_of (get_or [] (s_memberships s) org))"
  shows "find (\<lambda>m. Member_Email m = e) ms = get2 (s_memberships s) org e"
proof -
  have ok: "gomap_ok (get_or [] (s_memberships s) org)" using access_invD(2) [OF inv] by (simp add: nested_ok_def)
  have el: "m \<in> set ms \<longleftrightarrow> (\<exists>l. get2 (s_memberships s) org l = Some m)" for m
    by (simp add: ms set_values [OF ok] get2_def)
  have key: "get2 (s_memberships s) org l = Some m \<Longrightarrow> Member_Email m = l" for l m
    by (rule members_okD(2) [OF tables_okD(1) [OF access_invD(5) [OF inv]]])
  show ?thesis
  proof (cases "find (\<lambda>m. Member_Email m = e) ms")
    case None
    then have none: "\<forall>m \<in> set ms. Member_Email m \<noteq> e" by (auto simp: find_None_iff)
    show ?thesis
    proof (cases "get2 (s_memberships s) org e")
      case (Some m)
      with none el key show ?thesis by blast
    qed (simp add: None)
  next
    case (Some m)
    then have "m \<in> set ms" "Member_Email m = e" by (auto simp: find_Some_iff)
    with el key Some show ?thesis by auto
  qed
qed

interpretation mem: access_store "memory_ops defaults" access_inv memberRole for defaults
proof unfold_locales
  fix s org ms e
  assume inv: "access_inv s" and ms: "so_ListOrgMembers (memory_ops defaults s) org = Inr ms"
  then have "ms = sort_slice (\<lambda>a b. Member_CreatedAt a < Member_CreatedAt b) (values_of (get_or [] (s_memberships s) org))"
    by (auto simp: memory_ops_def ListOrgMembers_def elim!: and_then_InrE)
  then have "set ms = set (values_of (get_or [] (s_memberships s) org))" by (simp add: slice.set_srt)
  from find_member [OF inv this] show "map_option Member_Role (find (\<lambda>m. Member_Email m = e) ms) = memberRole s org e"
    by (simp add: memberRole_def)
next
  fix s ref p e r
  assume inv: "access_inv s" and p: "so_GetProject (memory_ops defaults s) ref = Inr p"
    and r: "so_ResolveProjectRole (memory_ops defaults s) (Proj_Ref p) e = Inr r"
  from p have "map_of (s_projects s) ref = Some p" by (simp add: memory_ops_def GetProject_def)
  moreover from this access_invD(6) [OF inv] have "Proj_Ref p = ref" "norm_key ref = ref" by (auto simp: refs_ok_def)
  ultimately show "memberRole s (Proj_OrgID p) (norm_key e) \<noteq> None"
    using resolved_member [OF inv] r by (fastforce simp: memory_ops_def memberRole_def)
next
  fix s ps p
  assume inv: "access_inv s" and ps: "so_ListProjects (memory_ops defaults s) = Inr ps" and p: "p \<in> set ps"
  note ok = access_invD(6) [OF inv]
  from ps p have "p \<in> set (values_of (s_projects s))" by (auto simp: memory_ops_def ListProjects_def slice.set_srt)
  with ok obtain k where "map_of (s_projects s) k = Some p" by (auto simp: set_values refs_ok_def)
  with ok show "so_GetProject (memory_ops defaults s) (Proj_Ref p) = Inr p"
    by (auto simp: memory_ops_def GetProject_def refs_ok_def)
qed

section \<open>Properties\<close>

lemma memory_ops_simps [simp]:
  "so_GetUserByID (memory_ops defaults s) i = GetUserByID i s" "so_GetProject (memory_ops defaults s) ref = GetProject ref s"
  "so_ResolveProjectRole (memory_ops defaults s) ref e = ResolveProjectRole ref e s"
  "so_ListOrgMembers (memory_ops defaults s) org = ListOrgMembers org s"
  by (simp_all add: memory_ops_def)

text \<open>A request as it comes from outside: no middleware has set anything yet.\<close>

definition incoming :: "Request \<Rightarrow> bool" where
  "incoming r \<longleftrightarrow> Rq_Claims r = None \<and> \<not> Rq_AuthBypass r"

lemma withAuth_claims:
  assumes "incoming r" and "withAuth True k auth ops now handler r = Granted x" and "\<And>r x. Rq_Claims r = None \<Longrightarrow> \<not> Rq_AuthBypass r \<Longrightarrow> handler r \<noteq> Granted x"
  shows "\<exists>tc. Verify k auth (tokenFromRequest r) now = Inr tc \<and>
    handler (r\<lparr>Rq_Claims := Some tc, Rq_AuditActor := Some (Claim_Subject tc)\<rparr>) = Granted x"
  using assms by (auto simp: withAuth_def incoming_def Let_def outcome_then_Granted split: if_split_asm sum.split_asm)

text \<open>C2. No request reads or changes a project without a right to it. Whatever the path and the method, a request
  that gets past the middlewares and the role check of a project handler carried a token that is signed with the
  server's secret and has not expired; the token speaks for the current state of its user; that user is a member
  of the organisation of the project; and his role there, or his role on the project, is at least the one the
  handler asks for.\<close>

theorem request_needs_right:
  assumes "access_reachable s" and "incoming r" and "1 \<le> minimum"
    and "withCORS (withAuth True k auth (memory_ops defaults s) now (\<lambda>r. requireProjectRole (memory_ops defaults s) r ref minimum)) origins r =
      Granted (Some p)"
  shows "\<exists>tc u m. Verify k auth (tokenFromRequest r) now = Inr tc \<and> userByIDLocked (Claim_Subject tc) s = Some u \<and>
    tokenVersionMatches (User_TokenVersion u) (Claim_TokenVersion tc) \<and> map_of (s_projects s) ref = Some p \<and>
    get2 (s_memberships s) (Proj_OrgID p) (norm_key (User_Email u)) = Some m \<and>
    (minimum \<le> roleRank (Member_Role m) \<or> (\<exists>role. ResolveProjectRole ref (User_Email u) s = Inr role \<and> minimum \<le> roleRank role))"
proof -
  note inv = access_reachable_inv [OF assms(1)]
  let ?ops = "memory_ops defaults s" and ?h = "\<lambda>r. requireProjectRole (memory_ops defaults s) r ref minimum"
  from assms(4) have "withAuth True k auth ?ops now ?h r = Granted p"
    by (auto simp: withCORS_def Let_def outcome_then_Granted split: if_split_asm)
  then obtain tc where tc: "Verify k auth (tokenFromRequest r) now = Inr tc"
    and g: "?h (r\<lparr>Rq_Claims := Some tc, Rq_AuditActor := Some (Claim_Subject tc)\<rparr>) = Granted p"
    using withAuth_claims [OF assms(2), of k auth ?ops now ?h p]
    by (auto simp: requireProjectRole_def or_store_error_Granted withoutClaims_def)
  from mem.project_access [OF inv assms(3) _ g] have p: "GetProject ref s = Inr p"
    and may: "mem.may defaults s tc (Proj_OrgID p) (Some (Proj_Ref p)) minimum" by simp_all
  from p have p': "map_of (s_projects s) ref = Some p" by (simp add: GetProject_def)
  with access_invD(6) [OF inv] have "Proj_Ref p = ref" by (auto simp: refs_ok_def)
  with may obtain u m where u: "currentUserForClaims (\<lambda>i. GetUserByID i s) tc = Inr u"
    and m: "memberRole s (Proj_OrgID p) (norm_key (User_Email u)) = Some m"
    and rank: "minimum \<le> roleRank m \<or> (\<exists>role. ResolveProjectRole ref (User_Email u) s = Inr role \<and> minimum \<le> roleRank role)"
    unfolding mem.may_def by (auto simp: memory_ops_def)
  from u have "userByIDLocked (Claim_Subject tc) s = Some u \<and> tokenVersionMatches (User_TokenVersion u) (Claim_TokenVersion tc)"
    by (auto simp: currentUserForClaims_def GetUserByID_def split: if_split_asm sum.split_asm err.split_asm option.split_asm)
  with tc p' m rank show ?thesis by (auto simp: memberRole_def)
qed

text \<open>A request with the token of a developer of the organisation.\<close>

definition demo_invited :: "(MemoryStore \<times> Membership) res" where
  "demo_invited = UpsertOrgMember (demo_ctx\<lparr>ctx_newID := ''u1''\<rparr>) demo_lib ''token'' ''o1''
     \<lparr>MemberIn_Email = ''a@b.c'', MemberIn_Role = ''developer''\<rparr> demo_hosted"

definition demo_incoming :: Request where
  "demo_incoming = \<lparr>Rq_Method = ''GET'', Rq_Path = ''/v1/projects/acme'',
     Rq_Authorization = ''Bearer '' @ Issue demo_lib demo_auth demo_user demo_time (10 * second_ns),
     Rq_Cookie = None, Rq_Origin = [], Rq_Claims = None, Rq_AuthBypass = False, Rq_AuditActor = None\<rparr>"

definition demo_authenticated :: Request where
  "demo_authenticated = demo_incoming\<lparr>Rq_Claims := Some demo_claims, Rq_AuditActor := Some (Claim_Subject demo_claims)\<rparr>"

definition granted :: "'a outcome \<Rightarrow> bool" where
  "granted r = (case r of Denied _ _ \<Rightarrow> False | Granted _ \<Rightarrow> True)"

lemma demo_invited_ok: "case demo_invited of Inl _ \<Rightarrow> False | Inr (s, _) \<Rightarrow>
    granted (requireProjectRole (memory_ops demo_defaults s) demo_authenticated ''acme'' 2) \<and>
    granted (requireCurrentUserClaims (memory_ops demo_defaults s) demo_claims)"
  by code_simp

theorem request_needs_right_witness:
  "\<exists>s p u m. withCORS (withAuth True demo_lib demo_auth (memory_ops demo_defaults s) demo_time
       (\<lambda>r. requireProjectRole (memory_ops demo_defaults s) r ''acme'' 2)) [] demo_incoming = Granted (Some p) \<and>
     userByIDLocked ''u1'' s = Some u \<and> get2 (s_memberships s) (Proj_OrgID p) (norm_key (User_Email u)) = Some m"
proof -
  obtain s m0 where s: "demo_invited = Inr (s, m0)"
    "granted (requireProjectRole (memory_ops demo_defaults s) demo_authenticated ''acme'' 2)"
    "granted (requireCurrentUserClaims (memory_ops demo_defaults s) demo_claims)"
    using demo_invited_ok by (auto split: sum.split_asm)
  then obtain p u where p: "requireProjectRole (memory_ops demo_defaults s) demo_authenticated ''acme'' 2 = Granted p"
    and u: "requireCurrentUserClaims (memory_ops demo_defaults s) demo_claims = Granted u"
    by (auto simp: granted_def split: outcome.split_asm)
  have "fresh_user (demo_ctx\<lparr>ctx_newID := ''u1''\<rparr>) demo_hosted" by (simp add: fresh_user_def userByIDLocked_def demo_hosted_users values_of_def)
  from Access_next [OF access_reachable_hosted Access_UpsertMember [OF s(1) [unfolded demo_invited_def] this]]
  have reach: "access_reachable s" .
  let ?token = "Issue demo_lib demo_auth demo_user demo_time (10 * second_ns)"
  have v: "Verify demo_lib demo_auth ?token demo_time = Inr demo_claims" by (rule demo_issue) (simp add: second_ns_def)
  then have ne: "?token \<noteq> []" by (auto simp: Verify_def)
  have "Cut (CHR '' '') (''Bearer '' @ ?token) = (''Bearer'', ?token, True)" using Cut_sep [of "CHR '' ''" "''Bearer''" ?token] by simp
  moreover have "EqualFold ''Bearer'' ''Bearer''" by (simp add: EqualFold_def)
  ultimately have t: "tokenFromRequest demo_incoming = ?token" using ne by (simp add: tokenFromRequest_def demo_incoming_def)
  have pub: "\<not> isPublicPath ''/v1/projects/acme''" by code_simp
  have "withCORS (withAuth True demo_lib demo_auth (memory_ops demo_defaults s) demo_time
       (\<lambda>r. requireProjectRole (memory_ops demo_defaults s) r ''acme'' 2)) [] demo_incoming = Granted (Some p)"
    using t ne v u p pub by (simp add: withCORS_def withAuth_def Let_def outcome_then_def isMutatingMethod_def demo_authenticated_def)
      (simp add: demo_incoming_def)
  moreover have "incoming demo_incoming" by (simp add: incoming_def demo_incoming_def)
  moreover have "Claim_Subject demo_claims = ''u1''" by (simp add: demo_claims_def issuedClaims_def demo_user_def)
  ultimately show ?thesis using request_needs_right [OF reach, of demo_incoming 2 demo_lib demo_auth demo_defaults demo_time "''acme''" "[]" p] t v
    by auto
qed

lemma no_empty_origin: "[] \<notin> set (allowedCORSOrigins getenv configured)"
proof -
  have trimmed: "rev (dropWhile is_slash (rev v)) \<noteq> []" if "HasPrefix v ''http://'' \<or> HasPrefix v ''https://''" for v
  proof -
    from that have "CHR ''h'' \<in> set (rev v)" by (auto simp: HasPrefix_iff)
    moreover have "\<not> is_slash (CHR ''h'')" by (simp add: is_slash_def)
    ultimately show ?thesis by (auto simp: dropWhile_eq_Nil_conv)
  qed
  have derived: "[] \<notin> set out \<Longrightarrow> [] \<notin> set (addDerivedCORSOrigin out v)" for out v
    using trimmed [of "TrimSpace v"] by (auto simp: addDerivedCORSOrigin_def Let_def)
  have "[] \<notin> set localOrigins" by (simp add: localOrigins_def)
  with derived [OF derived [of "[]"]] show ?thesis by (auto simp: allowedCORSOrigins_def Let_def)
qed

text \<open>C22. Cookies alone do not carry a mutation across origins: a request that changes something and is
  authenticated by the session cookie reaches the handler only when its origin is one of the configured ones or the
  path is the callback of the identity provider; from any other origin, and without one, it is answered 403.\<close>

theorem cookie_mutation_same_origin:
  assumes "isMutatingMethod (Rq_Method r)" and "usesCookieAuth r" and "\<not> isCrossOriginCallbackPath (Rq_Path r)"
  shows "withCORS handler (allowedCORSOrigins getenv configured) r =
    (if Rq_Origin r \<in> set (allowedCORSOrigins getenv configured) then outcome_then (handler r) (\<lambda>x. Granted (Some x))
     else if Rq_Origin r = [] then Denied 403 ''origin is required for cookie-authenticated mutations''
     else Denied 403 ''origin is not allowed'')"
proof -
  have "Rq_Method r \<noteq> ''OPTIONS''" using assms(1) by (auto simp: isMutatingMethod_def)
  with assms no_empty_origin [of getenv configured] show ?thesis by (auto simp: withCORS_def Let_def)
qed

theorem cookie_mutation_same_origin_witness:
  "withCORS (\<lambda>r. Granted ()) (allowedCORSOrigins (\<lambda>v. []) [])
     (demo_incoming\<lparr>Rq_Method := ''POST'', Rq_Authorization := [], Rq_Cookie := Some ''token'', Rq_Origin := ''https://evil.example''\<rparr>) =
   Denied 403 ''origin is not allowed''"
proof -
  let ?r = "demo_incoming\<lparr>Rq_Method := ''POST'', Rq_Authorization := [], Rq_Cookie := Some ''token'', Rq_Origin := ''https://evil.example''\<rparr>"
  have "isMutatingMethod (Rq_Method ?r)" by (simp add: isMutatingMethod_def)
  moreover have "TrimSpace ''token'' = ''token''" by code_simp
  then have "usesCookieAuth ?r" by (simp add: usesCookieAuth_def bearerTokenFromRequest_def)
  moreover have "\<not> isCrossOriginCallbackPath (Rq_Path ?r)" by (simp add: isCrossOriginCallbackPath_def demo_incoming_def)
  moreover have "''https://evil.example'' \<notin> set (allowedCORSOrigins (\<lambda>v. []) [])" by code_simp
  ultimately show ?thesis using cookie_mutation_same_origin [of ?r "\<lambda>r. Granted ()" "\<lambda>v. []" "[]"] by simp
qed

end
