(* ===== verification/Access_Review.thy ===== *)
theory Access_Review
  imports Authz
begin

text \<open>
  The access review against the authorisation: what \<open>GetOrgAccessReview\<close> (internal/control/store.go) reports as the
  effective role of a person on a project decides exactly the requests that \<open>requireProjectRole\<close>
  (internal/api/authz_helpers.go) lets through. And what an invitation leaves behind: an account whose first
  security change does not end its sessions.
\<close>

section \<open>The table of effective roles\<close>

definition eff_ok :: "effective_roles \<Rightarrow> bool" where
  "eff_ok E \<longleftrightarrow> (\<forall>e x. map_of E e = Some x \<longrightarrow> Eff_Email x = e \<and> e \<noteq> [])"

definition eff_rank :: "effective_roles \<Rightarrow> string \<Rightarrow> int" where
  "eff_rank E e = (case map_of E e of None \<Rightarrow> 0 | Some x \<Rightarrow> membershipRoleRank (Eff_Role x))"

lemma roleRank_eq: "roleRank r = membershipRoleRank r"
  by (simp add: roleRank_def membershipRoleRank_def Let_def roleOwner_def roleAdmin_def roleDeveloper_def roleViewer_def)

lemma mergeEffective:
  assumes "eff_ok E" and "map_of E a \<noteq> None"
  shows "eff_ok (mergeEffectiveRole i a role src E)"
    and "map_of (mergeEffectiveRole i a role src E) e = None \<longleftrightarrow> map_of E e = None"
    and "eff_rank (mergeEffectiveRole i a role src E) e = (if e = a then max (eff_rank E e) (membershipRoleRank role) else eff_rank E e)"
proof -
  from assms obtain x where x: "map_of E a = Some x" "Eff_Email x = a" "a \<noteq> []" by (auto simp: eff_ok_def)
  then have m: "mergeEffectiveRole i a role src E =
      AList.update a (x\<lparr>Eff_Sources := Eff_Sources x @ [src], Eff_Role := higherRole (Eff_Role x) role\<rparr>) E"
    by (simp add: mergeEffectiveRole_def)
  show "eff_ok (mergeEffectiveRole i a role src E)" using assms(1) x by (auto simp: m eff_ok_def)
  show "map_of (mergeEffectiveRole i a role src E) e = None \<longleftrightarrow> map_of E e = None" using x by (auto simp: m)
  show "eff_rank (mergeEffectiveRole i a role src E) e = (if e = a then max (eff_rank E e) (membershipRoleRank role) else eff_rank E e)"
    using x by (simp add: m eff_rank_def higherRole_rank)
qed

lemma merge_team:
  assumes "eff_ok E" and "\<And>m. m \<in> set ms \<Longrightarrow> TM_OrgID m = org \<Longrightarrow> map_of E (TM_Email m) \<noteq> None"
  shows "eff_ok (fold (mergeTeamMember org g) ms E)"
    and "map_of (fold (mergeTeamMember org g) ms E) e = None \<longleftrightarrow> map_of E e = None"
    and "eff_rank (fold (mergeTeamMember org g) ms E) e =
      (if \<exists>m \<in> set ms. TM_OrgID m = org \<and> TM_Email m = e then max (eff_rank E e) (membershipRoleRank (Grant_Role g)) else eff_rank E e)"
proof -
  have "eff_ok (fold (mergeTeamMember org g) ms E) \<and>
    (\<forall>e. map_of (fold (mergeTeamMember org g) ms E) e = None \<longleftrightarrow> map_of E e = None) \<and>
    eff_rank (fold (mergeTeamMember org g) ms E) e =
      (if \<exists>m \<in> set ms. TM_OrgID m = org \<and> TM_Email m = e then max (eff_rank E e) (membershipRoleRank (Grant_Role g)) else eff_rank E e)"
    using assms
  proof (induction ms arbitrary: E)
    case (Cons m ms)
    show ?case
    proof (cases "TM_OrgID m = org")
      case True
      let ?E = "mergeTeamMember org g m E"
      have m: "map_of E (TM_Email m) \<noteq> None" using Cons.prems(2) [of m] True by simp
      have E: "?E = mergeEffectiveRole (TM_UserID m) (TM_Email m) (Grant_Role g)
          (''project:team:'' @ Grant_SubjectName g @ '':'' @ Grant_Role g) E" using True by (simp add: mergeTeamMember_def)
      note me = mergeEffective [OF Cons.prems(1) m, where i = "TM_UserID m" and role = "Grant_Role g" and
          src = "''project:team:'' @ Grant_SubjectName g @ '':'' @ Grant_Role g", folded E]
      have "map_of ?E (TM_Email x) \<noteq> None" if "x \<in> set ms" "TM_OrgID x = org" for x
        using Cons.prems(2) [of x] that me(2) [of "TM_Email x"] by simp
      note ih = Cons.IH [OF me(1) this]
      show ?thesis using ih me(2) me(3) [of e] True by (auto simp: max.assoc)
    next
      case False
      have E: "mergeTeamMember org g m E = E" using False by (simp add: mergeTeamMember_def)
      have "map_of E (TM_Email x) \<noteq> None" if "x \<in> set ms" "TM_OrgID x = org" for x
        using Cons.prems(2) [of x] that by simp
      note ih = Cons.IH [OF Cons.prems(1) this]
      show ?thesis using ih False by (simp add: E)
    qed
  qed simp
  then show "eff_ok (fold (mergeTeamMember org g) ms E)"
    and "map_of (fold (mergeTeamMember org g) ms E) e = None \<longleftrightarrow> map_of E e = None"
    and "eff_rank (fold (mergeTeamMember org g) ms E) e =
      (if \<exists>m \<in> set ms. TM_OrgID m = org \<and> TM_Email m = e then max (eff_rank E e) (membershipRoleRank (Grant_Role g)) else eff_rank E e)"
    by blast+
qed

lemma orgRoles_lookup:
  assumes "\<And>e. find (\<lambda>m. Member_Email m = e) ms = M e" and "distinct (map Member_Email ms)"
  shows "map_option (\<lambda>x. (Eff_Email x, Eff_Role x)) (map_of (orgRoles ms) e) = map_option (\<lambda>m. (Member_Email m, Member_Role m)) (M e)"
proof -
  have "map_option (\<lambda>x. (Eff_Email x, Eff_Role x)) (map_of (fold (\<lambda>m. AList.update (Member_Email m) \<lparr>Eff_UserID = Member_UserID m,
      Eff_Email = Member_Email m, Eff_Role = Member_Role m, Eff_Sources = [''org:'' @ Member_Role m]\<rparr>) ms E) e) =
    (case find (\<lambda>m. Member_Email m = e) ms of None \<Rightarrow> map_option (\<lambda>x. (Eff_Email x, Eff_Role x)) (map_of E e)
     | Some m \<Rightarrow> Some (Member_Email m, Member_Role m))" for E
    using assms(2)
  proof (induction ms arbitrary: E)
    case (Cons m ms)
    have "find (\<lambda>x. Member_Email x = Member_Email m) ms = None" using Cons.prems by (auto simp: find_None_iff) (metis imageI)
    with Cons show ?case by (auto split: option.split)
  qed simp
  from this [of "[]"] show ?thesis by (simp add: orgRoles_def assms(1) split: option.split)
qed

section \<open>One project of the review\<close>

lemma member_of_user:
  assumes inv: "access_inv s" and ms: "set ms = set (values_of (get_or [] (s_memberships s) org))"
    and m: "get2 (s_memberships s) org e = Some m" and w: "map_of (s_users s) e = Some w"
  shows "find (\<lambda>x. Member_UserID x = i) ms = Some x \<Longrightarrow> get2 (s_memberships s) org (Member_Email x) = Some x \<and>
      Member_UserID x = i \<and> (Member_Email x = e \<longleftrightarrow> i = User_ID w)"
    and "find (\<lambda>x. Member_UserID x = i) ms = None \<Longrightarrow> i \<noteq> User_ID w"
proof -
  note t = tables_okD(1) [OF access_invD(5) [OF inv]]
  have ok: "gomap_ok (get_or [] (s_memberships s) org)" using access_invD(2) [OF inv] by (simp add: nested_ok_def)
  have el: "y \<in> set ms \<longleftrightarrow> (\<exists>l. get2 (s_memberships s) org l = Some y)" for y by (simp add: ms set_values [OF ok] get2_def)
  have mw: "Member_UserID m = User_ID w" using members_okD(1) [OF t m] w by (simp add: uid_def)
  show "find (\<lambda>x. Member_UserID x = i) ms = None \<Longrightarrow> i \<noteq> User_ID w"
    using el m mw by (auto simp: find_None_iff)
  assume "find (\<lambda>x. Member_UserID x = i) ms = Some x"
  then have x: "x \<in> set ms" "Member_UserID x = i" by (auto simp: find_Some_iff)
  with el obtain l where l: "get2 (s_memberships s) org l = Some x" by blast
  have "Member_Email x = l" by (rule members_okD(2) [OF t l])
  moreover obtain v where v: "map_of (s_users s) l = Some v" "User_ID v = i"
    using members_okD(1) [OF t l] x(2) by (auto simp: uid_def)
  moreover have "l = e \<longleftrightarrow> i = User_ID w"
  proof
    assume "l = e"
    with v w show "i = User_ID w" by simp
  next
    assume "i = User_ID w"
    then show "l = e" using users_okD(4) [OF access_invD(1) [OF inv] v(1) w] v(2) by simp
  qed
  ultimately show "get2 (s_memberships s) org (Member_Email x) = Some x \<and> Member_UserID x = i \<and> (Member_Email x = e \<longleftrightarrow> i = User_ID w)"
    using l x(2) by simp
qed

lemma merge_grant:
  assumes inv: "access_inv s" and ms: "set ms = set (values_of (get_or [] (s_memberships s) org))"
    and m: "get2 (s_memberships s) org e = Some m" and w: "map_of (s_users s) e = Some w"
    and E: "eff_ok E" and dom: "\<And>l. map_of E l = None \<longleftrightarrow> get2 (s_memberships s) org l = None"
  shows "eff_ok (mergeGrant s org ms g E)" and "map_of (mergeGrant s org ms g E) l = None \<longleftrightarrow> map_of E l = None"
    and "eff_rank (mergeGrant s org ms g E) e =
      (if grantApplies s org e w g then max (eff_rank E e) (membershipRoleRank (Grant_Role g)) else eff_rank E e)"
proof -
  let ?E = "mergeGrant s org ms g E"
  have "eff_ok ?E \<and> (\<forall>l. map_of ?E l = None \<longleftrightarrow> map_of E l = None) \<and>
      eff_rank ?E e = (if grantApplies s org e w g then max (eff_rank E e) (membershipRoleRank (Grant_Role g)) else eff_rank E e)"
  proof (cases "Grant_SubjectType g = ''user''")
    case user: True
    then have ap: "grantApplies s org e w g \<longleftrightarrow> Grant_SubjectID g = User_ID w" by (auto simp: grantApplies_def is_user_grant_def)
    show ?thesis
    proof (cases "find (\<lambda>x. Member_UserID x = Grant_SubjectID g) ms")
      case None
      with member_of_user(2) [OF inv ms m w None] user E ap show ?thesis by (simp add: mergeGrant_def)
    next
      case (Some x)
      note x = member_of_user(1) [OF inv ms m w Some]
      with dom have "map_of E (Member_Email x) \<noteq> None" by simp
      note me = mergeEffective [OF E this, where i = "Member_UserID x" and role = "Grant_Role g" and src = "''project:user:'' @ Grant_Role g"]
      have "?E = mergeEffectiveRole (Member_UserID x) (Member_Email x) (Grant_Role g) (''project:user:'' @ Grant_Role g) E"
        using user Some by (simp add: mergeGrant_def)
      with me x ap show ?thesis by auto
    qed
  next
    case nouser: False
    show ?thesis
    proof (cases "Grant_SubjectType g = ''team''")
      case team: True
      let ?ts = "values_of (get_or [] (s_teamMembers s) (Grant_SubjectID g))"
      have eq: "?E = fold (mergeTeamMember org g) ?ts E" using team by (simp add: mergeGrant_def)
      have "map_of E (TM_Email x) \<noteq> None" if "x \<in> set ?ts" "TM_OrgID x = org" for x
      proof -
        have "gomap_ok (get_or [] (s_teamMembers s) (Grant_SubjectID g))" using access_invD(4) [OF inv] by (simp add: nested_ok_def)
        with that(1) obtain l where "get2 (s_teamMembers s) (Grant_SubjectID g) l = Some x" by (auto simp: set_values get2_def)
        from team_members_okD(1,2) [OF tables_okD(3) [OF access_invD(5) [OF inv]] this] that(2) dom show ?thesis by auto
      qed
      note mt = merge_team [OF E this]
      have "grantApplies s org e w g \<longleftrightarrow> (\<exists>m \<in> set ?ts. TM_OrgID m = org \<and> TM_Email m = e)"
        using team by (auto simp: grantApplies_def is_user_grant_def)
      with mt show ?thesis by (simp add: eq)
    next
      case False
      with nouser E show ?thesis by (simp add: mergeGrant_def grantApplies_def is_user_grant_def)
    qed
  qed
  then show "eff_ok ?E" and "map_of ?E l = None \<longleftrightarrow> map_of E l = None"
    and "eff_rank ?E e = (if grantApplies s org e w g then max (eff_rank E e) (membershipRoleRank (Grant_Role g)) else eff_rank E e)"
    by blast+
qed

lemma max_Max_swap: "finite S \<Longrightarrow> max a (Max (insert b S)) = max b (Max (insert a S))" for a :: int
  by (cases "S = {}") (simp_all add: max.left_commute max.commute)

lemma gomap_ok_merge:
  "gomap_ok E \<Longrightarrow> gomap_ok (mergeEffectiveRole i a role src E)"
  "gomap_ok E \<Longrightarrow> gomap_ok (fold (mergeTeamMember org g) ts E)"
  "gomap_ok E \<Longrightarrow> gomap_ok (mergeGrant s org ms g E)"
  "gomap_ok E \<Longrightarrow> gomap_ok (fold (mergeGrant s org ms) gs E)"
  "gomap_ok (orgRoles ms)"
proof -
  show 1: "gomap_ok E \<Longrightarrow> gomap_ok (mergeEffectiveRole i a role src E)" for E i a role src
    by (simp add: mergeEffectiveRole_def Let_def)
  show 2: "gomap_ok E \<Longrightarrow> gomap_ok (fold (mergeTeamMember org g) ts E)" for E ts g
    by (induction ts arbitrary: E) (simp_all add: mergeTeamMember_def 1)
  show 3: "gomap_ok E \<Longrightarrow> gomap_ok (mergeGrant s org ms g E)" for E g
    by (simp add: mergeGrant_def 1 2 split: option.split)
  show "gomap_ok E \<Longrightarrow> gomap_ok (fold (mergeGrant s org ms) gs E)" for E gs
    by (induction gs arbitrary: E) (simp_all add: 3)
  have "gomap_ok E \<Longrightarrow> gomap_ok (fold (\<lambda>m. AList.update (Member_Email m) (f m)) ms E)" for E :: effective_roles and f
    by (induction ms arbitrary: E) simp_all
  then show "gomap_ok (orgRoles ms)" by (simp add: orgRoles_def)
qed

lemma merge_grants:
  assumes inv: "access_inv s" and ms: "set ms = set (values_of (get_or [] (s_memberships s) org))"
    and m: "get2 (s_memberships s) org e = Some m" and w: "map_of (s_users s) e = Some w"
    and E: "eff_ok E" and dom: "\<And>l. map_of E l = None \<longleftrightarrow> get2 (s_memberships s) org l = None"
  shows "eff_ok (fold (mergeGrant s org ms) gs E)"
    and "map_of (fold (mergeGrant s org ms) gs E) l = None \<longleftrightarrow> get2 (s_memberships s) org l = None"
    and "eff_rank (fold (mergeGrant s org ms) gs E) e =
      Max (insert (eff_rank E e) ((\<lambda>g. membershipRoleRank (Grant_Role g)) ` {g \<in> set gs. grantApplies s org e w g}))"
proof -
  have "eff_ok (fold (mergeGrant s org ms) gs E) \<and>
      (\<forall>l. map_of (fold (mergeGrant s org ms) gs E) l = None \<longleftrightarrow> get2 (s_memberships s) org l = None) \<and>
      eff_rank (fold (mergeGrant s org ms) gs E) e =
        Max (insert (eff_rank E e) ((\<lambda>g. membershipRoleRank (Grant_Role g)) ` {g \<in> set gs. grantApplies s org e w g}))"
    using E dom
  proof (induction gs arbitrary: E)
    case (Cons g gs)
    note mg = merge_grant [OF inv ms m w Cons.prems, of g]
    have "map_of (mergeGrant s org ms g E) l = None \<longleftrightarrow> get2 (s_memberships s) org l = None" for l
      using mg(2) Cons.prems(2) by simp
    note ih = Cons.IH [OF mg(1) this]
    have "{h \<in> set (g # gs). grantApplies s org e w h} =
        (if grantApplies s org e w g then insert g {h \<in> set gs. grantApplies s org e w h} else {h \<in> set gs. grantApplies s org e w h})" by auto
    with ih mg(3) show ?case by (simp add: Max_insert_max max_Max_swap)
  qed simp
  then show "eff_ok (fold (mergeGrant s org ms) gs E)"
    and "map_of (fold (mergeGrant s org ms) gs E) l = None \<longleftrightarrow> get2 (s_memberships s) org l = None"
    and "eff_rank (fold (mergeGrant s org ms) gs E) e =
        Max (insert (eff_rank E e) ((\<lambda>g. membershipRoleRank (Grant_Role g)) ` {g \<in> set gs. grantApplies s org e w g}))"
    by blast+
qed

lemma merge_nobody:
  assumes inv: "access_inv s" and no: "\<And>l. get2 (s_memberships s) org l = None"
  shows "fold (mergeGrant s org []) gs [] = []"
proof -
  have skip: "fold (mergeTeamMember org g) ts [] = []" if "\<And>x. x \<in> set ts \<Longrightarrow> TM_OrgID x \<noteq> org" for g ts
    using that by (induction ts) (simp_all add: mergeTeamMember_def)
  have one: "mergeGrant s org [] g [] = []" for g
  proof -
    have "TM_OrgID x \<noteq> org" if "x \<in> set (values_of (get_or [] (s_teamMembers s) (Grant_SubjectID g)))" for x
    proof -
      have "gomap_ok (get_or [] (s_teamMembers s) (Grant_SubjectID g))" using access_invD(4) [OF inv] by (simp add: nested_ok_def)
      with that obtain l where "get2 (s_teamMembers s) (Grant_SubjectID g) l = Some x" by (auto simp: set_values get2_def)
      from team_members_okD(1,2) [OF tables_okD(3) [OF access_invD(5) [OF inv]] this] no show ?thesis by auto
    qed
    then show ?thesis by (simp add: mergeGrant_def skip)
  qed
  show ?thesis by (induction gs) (simp_all add: one)
qed

text \<open>What the review says of the person with email \<open>e\<close> on the project: the better of his role in the organisation and
  his role on the project, and nothing of people who are not members.\<close>

lemma reviewed_role:
  assumes inv: "access_inv s" and ms: "set ms = set (values_of (get_or [] (s_memberships s) org))"
    and dist: "distinct (map Member_Email ms)" and p: "Proj_OrgID p = org"
  shows "1 \<le> n \<Longrightarrow> (\<exists>x \<in> set (PReview_Effective (reviewProject s org ms p)). Eff_Email x = e \<and> n \<le> membershipRoleRank (Eff_Role x)) \<longleftrightarrow>
    (\<exists>m w. get2 (s_memberships s) org e = Some m \<and> map_of (s_users s) e = Some w \<and>
      (n \<le> membershipRoleRank (Member_Role m) \<or> n \<le> membershipRoleRank (roleOf s org e w (grants_of s (Proj_Ref p)) [])))"
proof -
  assume n: "1 \<le> n"
  define E0 where "E0 = orgRoles ms"
  define E where "E = fold (mergeGrant s org ms) (sortedGrants (get_or [] (s_projectAccess s) (Proj_Ref p))) E0"
  note t = tables_okD(1) [OF access_invD(5) [OF inv]]
  have lk: "map_option (\<lambda>x. (Eff_Email x, Eff_Role x)) (map_of E0 l) =
      map_option (\<lambda>m. (Member_Email m, Member_Role m)) (get2 (s_memberships s) org l)" for l
    unfolding E0_def by (rule orgRoles_lookup [OF find_member [OF inv ms] dist])
  have "Eff_Email x = l \<and> l \<noteq> []" if "map_of E0 l = Some x" for l x
  proof -
    from that lk [of l] obtain m where m: "get2 (s_memberships s) org l = Some m" "Eff_Email x = Member_Email m"
      by (cases "get2 (s_memberships s) org l") auto
    then obtain u where "map_of (s_users s) l = Some u" using members_okD(1) [OF t m(1)] by (auto simp: uid_def)
    with users_okD(3) [OF access_invD(1) [OF inv]] m members_okD(2) [OF t m(1)] show ?thesis by auto
  qed
  then have ok: "eff_ok E0" by (simp add: eff_ok_def)
  have dom: "map_of E0 l = None \<longleftrightarrow> get2 (s_memberships s) org l = None" for l
    using lk [of l] by (cases "map_of E0 l"; cases "get2 (s_memberships s) org l") simp_all
  have gm: "gomap_ok E" unfolding E_def E0_def by (intro gomap_ok_merge)
  have eff: "set (PReview_Effective (reviewProject s org ms p)) = set (values_of E)"
    by (simp add: reviewProject_def Let_def E_def E0_def slice.set_srt)
  show "(\<exists>x \<in> set (PReview_Effective (reviewProject s org ms p)). Eff_Email x = e \<and> n \<le> membershipRoleRank (Eff_Role x)) \<longleftrightarrow>
    (\<exists>m w. get2 (s_memberships s) org e = Some m \<and> map_of (s_users s) e = Some w \<and>
      (n \<le> membershipRoleRank (Member_Role m) \<or> n \<le> membershipRoleRank (roleOf s org e w (grants_of s (Proj_Ref p)) [])))"
  proof (cases "get2 (s_memberships s) org e")
    case (Some m)
    then obtain w where w: "map_of (s_users s) e = Some w" using members_okD(1) [OF t Some] by (auto simp: uid_def)
    note mg = merge_grants [OF inv ms Some w ok dom, where gs = "sortedGrants (get_or [] (s_projectAccess s) (Proj_Ref p))", folded E_def]
    have rank: "eff_rank E e = max (membershipRoleRank (Member_Role m)) (membershipRoleRank (roleOf s org e w (grants_of s (Proj_Ref p)) []))"
    proof -
      have "eff_rank E0 e = membershipRoleRank (Member_Role m)" using lk [of e] Some
        by (cases "map_of E0 e") (simp_all add: eff_rank_def)
      moreover have "0 \<le> membershipRoleRank (Member_Role m)" "membershipRoleRank [] = 0" by (simp_all add: membershipRoleRank_def Let_def)
      moreover have "set (sortedGrants gs) = set gs" for gs by (simp add: sortedGrants_def slice.set_srt)
      ultimately show ?thesis
        using Max_insert_max [of "(\<lambda>g. membershipRoleRank (Grant_Role g)) ` {g \<in> set (grants_of s (Proj_Ref p)). grantApplies s org e w g}"
            "membershipRoleRank (Member_Role m)" 0]
        by (simp add: mg(3) roleOf_rank grants_of_def max.absorb1)
    qed
    have "(\<exists>x \<in> set (values_of E). Eff_Email x = e \<and> n \<le> membershipRoleRank (Eff_Role x)) \<longleftrightarrow> n \<le> eff_rank E e"
    proof
      assume "\<exists>x \<in> set (values_of E). Eff_Email x = e \<and> n \<le> membershipRoleRank (Eff_Role x)"
      then obtain x where x: "x \<in> set (values_of E)" "Eff_Email x = e" "n \<le> membershipRoleRank (Eff_Role x)" by blast
      then obtain l where l: "map_of E l = Some x" by (auto simp: set_values [OF gm])
      with mg(1) x(2) have "l = e" by (auto simp: eff_ok_def)
      with l x(3) show "n \<le> eff_rank E e" by (simp add: eff_rank_def)
    next
      assume "n \<le> eff_rank E e"
      with n obtain x where x: "map_of E e = Some x" "n \<le> membershipRoleRank (Eff_Role x)"
        by (cases "map_of E e") (simp_all add: eff_rank_def)
      moreover have "x \<in> set (values_of E)" using x(1) by (auto simp: set_values [OF gm])
      moreover have "Eff_Email x = e" using mg(1) x(1) by (simp add: eff_ok_def)
      ultimately show "\<exists>x \<in> set (values_of E). Eff_Email x = e \<and> n \<le> membershipRoleRank (Eff_Role x)" by blast
    qed
    then show ?thesis using Some w by (simp add: eff rank le_max_iff_disj)
  next
    case None
    have "\<not> (\<exists>x \<in> set (values_of E). Eff_Email x = e)"
    proof
      assume "\<exists>x \<in> set (values_of E). Eff_Email x = e"
      then obtain x l where l: "map_of E l = Some x" "Eff_Email x = e" by (auto simp: set_values [OF gm])
      show False
      proof (cases "\<exists>l m. get2 (s_memberships s) org l = Some m")
        case True
        then obtain l' m where m: "get2 (s_memberships s) org l' = Some m" by blast
        then obtain w where w: "map_of (s_users s) l' = Some w" using members_okD(1) [OF t m] by (auto simp: uid_def)
        note mg = merge_grants [OF inv ms m w ok dom, where gs = "sortedGrants (get_or [] (s_projectAccess s) (Proj_Ref p))", folded E_def]
        from mg(1) l have "l = e" by (auto simp: eff_ok_def)
        with mg(2) [of e] l(1) None show False by simp
      next
        case False
        then have no: "get2 (s_memberships s) org k = None" for k by auto
        have "gomap_ok (get_or [] (s_memberships s) org)" using access_invD(2) [OF inv] by (simp add: nested_ok_def)
        then have "x \<notin> set ms" for x using no by (simp only: ms set_values get2_def) simp
        then have "ms = []" by (cases ms) auto
        then have "E = []" by (simp add: E_def E0_def orgRoles_def merge_nobody [OF inv no])
        with l show False by simp
      qed
    qed
    then show ?thesis using None by (auto simp: eff)
  qed
qed

section \<open>The project in the review, and in the role check\<close>

lemma reviewed_project:
  assumes rv: "GetOrgAccessReview c org s = Inr rv" and ok: "refs_ok (s_projects s)"
    and p: "map_of (s_projects s) ref = Some p" and org: "Proj_OrgID p = org"
  obtains ms where "set ms = set (values_of (get_or [] (s_memberships s) org))"
    and "ms = sort_slice (\<lambda>a b. Member_Email a < Member_Email b) (values_of (get_or [] (s_memberships s) org))"
    and "\<And>pr. pr \<in> set (OReview_Projects rv) \<and> PReview_ProjectRef pr = ref \<longleftrightarrow> pr = reviewProject s org ms p"
proof -
  let ?ms = "sort_slice (\<lambda>a b. Member_Email a < Member_Email b) (values_of (get_or [] (s_memberships s) org))"
  have ref: "PReview_ProjectRef (reviewProject s org ?ms q) = Proj_Ref q" for q by (simp add: reviewProject_def Let_def)
  have uniq: "q = p" if "q \<in> set (values_of (s_projects s))" "Proj_Ref q = ref" for q
  proof -
    from that ok obtain l where "map_of (s_projects s) l = Some q" by (auto simp: refs_ok_def set_values)
    with ok p that(2) show ?thesis by (auto simp: refs_ok_def)
  qed
  have mem: "p \<in> set (values_of (s_projects s))" "Proj_Ref p = ref" using ok p by (auto simp: refs_ok_def set_values)
  have "set (OReview_Projects rv) = reviewProject s org ?ms ` {q \<in> set (values_of (s_projects s)). Proj_OrgID q = org}"
    using rv by (auto simp: GetOrgAccessReview_def Let_def slice.set_srt elim!: and_then_InrE)
  then have "pr \<in> set (OReview_Projects rv) \<longleftrightarrow> (\<exists>q. q \<in> set (values_of (s_projects s)) \<and> Proj_OrgID q = org \<and> pr = reviewProject s org ?ms q)" for pr
    by blast
  then have "pr \<in> set (OReview_Projects rv) \<and> PReview_ProjectRef pr = ref \<longleftrightarrow> pr = reviewProject s org ?ms p" for pr
    using ref uniq mem org by metis
  with that [of ?ms] show thesis by (simp add: slice.set_srt)
qed

lemma distinct_member_emails:
  assumes inv: "access_inv s"
  shows "distinct (map Member_Email (sort_slice lt (values_of (get_or [] (s_memberships s) org))))"
proof -
  have ok: "gomap_ok (get_or [] (s_memberships s) org)" using access_invD(2) [OF inv] by (simp add: nested_ok_def)
  have key: "Member_Email m = l" if "map_of (get_or [] (s_memberships s) org) l = Some m" for l m
    using members_okD(2) [OF tables_okD(1) [OF access_invD(5) [OF inv]]] that by (auto simp: get2_def)
  have "map Member_Email (values_of g) = map fst g" if "gomap_ok g" "\<And>l m. map_of g l = Some m \<Longrightarrow> Member_Email m = l" for g
  proof -
    have "Member_Email (snd x) = fst x" if "x \<in> set g" for x
      using that \<open>gomap_ok g\<close> \<open>\<And>l m. map_of g l = Some m \<Longrightarrow> Member_Email m = l\<close> [of "fst x" "snd x"] by (simp add: gomap_ok_def)
    then show ?thesis by (simp add: values_of_def)
  qed
  from this [OF ok key] ok have "distinct (map Member_Email (values_of (get_or [] (s_memberships s) org)))"
    by (simp add: gomap_ok_def)
  moreover have "mset (map Member_Email (sort_slice lt vs)) = mset (map Member_Email vs)" for vs
    by (simp only: mset_map slice.mset_srt)
  ultimately show ?thesis using mset_eq_imp_distinct_iff by blast
qed

text \<open>The role check of a project, in terms of the tables of the store.\<close>

lemma project_role_granted:
  assumes inv: "access_inv s" and org: "getOrg (Proj_OrgID p) s = Inr x" and p: "map_of (s_projects s) ref = Some p"
    and tc: "Rq_Claims r = Some tc" and u: "currentUserForClaims (\<lambda>i. GetUserByID i s) tc = Inr u" and n: "1 \<le> n"
    and e: "e = norm_key (User_Email u)"
  shows "requireProjectRole (memory_ops defaults s) r ref n = Granted p \<longleftrightarrow>
    (\<exists>m w. get2 (s_memberships s) (Proj_OrgID p) e = Some m \<and> map_of (s_users s) e = Some w \<and>
      (n \<le> roleRank (Member_Role m) \<or> n \<le> roleRank (roleOf s (Proj_OrgID p) e w (grants_of s ref) [])))"
proof -
  let ?ops = "memory_ops defaults s" and ?org = "Proj_OrgID p"
  have ref: "Proj_Ref p = ref" "norm_key ref = ref" using access_invD(6) [OF inv] p by (auto simp: refs_ok_def)
  have p': "lookup_or (ErrNotFound ''project'') (s_projects s) ref = Inr p" using p by simp
  have g: "requireCurrentUserClaims ?ops tc = Granted u" unfolding mem.current_user using u by (simp add: memory_ops_def)
  have ms: "ListOrgMembers ?org s = Inr (sort_slice (\<lambda>a b. Member_CreatedAt a < Member_CreatedAt b) (values_of (get_or [] (s_memberships s) ?org)))"
    using org by (simp add: ListOrgMembers_def)
  define role where "role = (case get2 (s_memberships s) ?org e of None \<Rightarrow> [] | Some m \<Rightarrow> Member_Role m)"
  have "find (\<lambda>m. Member_Email m = e) (sort_slice (\<lambda>a b. Member_CreatedAt a < Member_CreatedAt b) (values_of (get_or [] (s_memberships s) ?org)))
      = get2 (s_memberships s) ?org e" by (rule find_member [OF inv]) (simp add: slice.set_srt)
  then have role: "orgRoleForEmail ?ops ?org (User_Email u) = Inr role"
    by (simp add: orgRoleForEmail_def ms norm_key_def [symmetric] e role_def split: option.split)
  have "requireProjectRole ?ops r ref n = Granted p \<longleftrightarrow>
      n \<le> roleRank role \<or> (\<exists>q. ResolveProjectRole ref (User_Email u) s = Inr q \<and> n \<le> roleRank q)"
    by (auto simp: requireProjectRole_def GetProject_def p' or_store_error_def tc g outcome_then_def role ref writeStoreError_def
        split: sum.split err.split)
  moreover have "n \<le> roleRank role \<longleftrightarrow> (\<exists>m. get2 (s_memberships s) ?org e = Some m \<and> n \<le> roleRank (Member_Role m))"
    using n by (auto simp: role_def roleRank_def [of "[]"] split: option.split)
  moreover have "ResolveProjectRole ref (User_Email u) s = Inr q \<longleftrightarrow>
      (\<exists>w. map_of (s_users s) e = Some w \<and> q \<noteq> [] \<and> q = roleOf s ?org e w (grants_of s ref) [])" for q
    using p by (auto simp: ResolveProjectRole_Inr ref e)
  moreover have "\<exists>w. map_of (s_users s) e = Some w" if "get2 (s_memberships s) ?org e = Some m" for m
    using members_okD(1) [OF tables_okD(1) [OF access_invD(5) [OF inv]] that] by (auto simp: uid_def)
  moreover have "\<exists>m. get2 (s_memberships s) ?org e = Some m" if "ResolveProjectRole ref (User_Email u) s = Inr q" for q
    using resolved_member [OF inv that] p ref e by auto
  moreover have "q \<noteq> []" if "n \<le> roleRank q" for q using that n by (auto simp: roleRank_def)
  ultimately show ?thesis by metis
qed


section \<open>Properties\<close>

text \<open>C16. The access review tells the truth. For every reachable state, every project of the organisation and every
  signed-in person, the role check of the project handlers lets a request of that person through exactly when the review
  of the organisation lists the person on the project with an effective role of at least the rank the handler asks for.
  So what an auditor reads in the report, computed by merging organisation roles with the grants to people and teams, is
  what the authorisation code, which resolves roles in another way, enforces.\<close>

theorem review_is_authorization:
  assumes "access_reachable s" and "GetOrgAccessReview c (Proj_OrgID p) s = Inr rv" and "map_of (s_projects s) ref = Some p"
    and "Rq_Claims r = Some tc" and "currentUserForClaims (\<lambda>i. GetUserByID i s) tc = Inr u" and "1 \<le> n"
  shows "requireProjectRole (memory_ops defaults s) r ref n = Granted p \<longleftrightarrow>
    (\<exists>pr x. pr \<in> set (OReview_Projects rv) \<and> PReview_ProjectRef pr = ref \<and> x \<in> set (PReview_Effective pr) \<and>
      Eff_Email x = norm_key (User_Email u) \<and> n \<le> roleRank (Eff_Role x))"
proof -
  note inv = access_reachable_inv [OF assms(1)]
  from assms(2) obtain o' where org: "getOrg (Proj_OrgID p) s = Inr o'" unfolding GetOrgAccessReview_def by (elim and_then_InrE)
  obtain ms where ms: "set ms = set (values_of (get_or [] (s_memberships s) (Proj_OrgID p)))"
    and eq: "ms = sort_slice (\<lambda>a b. Member_Email a < Member_Email b) (values_of (get_or [] (s_memberships s) (Proj_OrgID p)))"
    and pr: "\<And>pr. pr \<in> set (OReview_Projects rv) \<and> PReview_ProjectRef pr = ref \<longleftrightarrow> pr = reviewProject s (Proj_OrgID p) ms p"
    using reviewed_project [OF assms(2) access_invD(6) [OF inv] assms(3) refl] by blast
  have dist: "distinct (map Member_Email ms)" unfolding eq by (rule distinct_member_emails [OF inv])
  have ref: "Proj_Ref p = ref" using access_invD(6) [OF inv] assms(3) by (auto simp: refs_ok_def)
  have "(\<exists>pr x. pr \<in> set (OReview_Projects rv) \<and> PReview_ProjectRef pr = ref \<and> x \<in> set (PReview_Effective pr) \<and>
      Eff_Email x = norm_key (User_Email u) \<and> n \<le> roleRank (Eff_Role x)) \<longleftrightarrow>
    (\<exists>x \<in> set (PReview_Effective (reviewProject s (Proj_OrgID p) ms p)). Eff_Email x = norm_key (User_Email u) \<and>
      n \<le> membershipRoleRank (Eff_Role x))" unfolding roleRank_eq using pr by metis
  then show ?thesis
    unfolding reviewed_role [OF inv ms dist refl assms(6)] ref
      project_role_granted [OF inv org assms(3-6) refl] roleRank_eq by (rule sym)
qed

lemma demo_review_ok: "case demo_invited of Inl _ \<Rightarrow> False | Inr (s, _) \<Rightarrow>
    (case requireProjectRole (memory_ops demo_defaults s) demo_authenticated ''acme'' 2 of Denied _ _ \<Rightarrow> False
     | Granted p \<Rightarrow> Proj_OrgID p = ''o1'' \<and> map_of (s_projects s) ''acme'' = Some p) \<and>
    (case GetOrgAccessReview demo_ctx ''o1'' s of Inl _ \<Rightarrow> False | Inr _ \<Rightarrow> True) \<and>
    (case currentUserForClaims (\<lambda>i. GetUserByID i s) demo_claims of Inl _ \<Rightarrow> False | Inr u \<Rightarrow> norm_key (User_Email u) = ''a@b.c'')"
  by code_simp

theorem review_is_authorization_witness:
  "\<exists>s rv p pr x. requireProjectRole (memory_ops demo_defaults s) demo_authenticated ''acme'' 2 = Granted p \<and>
     GetOrgAccessReview demo_ctx ''o1'' s = Inr rv \<and> pr \<in> set (OReview_Projects rv) \<and> PReview_ProjectRef pr = ''acme'' \<and>
     x \<in> set (PReview_Effective pr) \<and> Eff_Email x = ''a@b.c'' \<and> 2 \<le> roleRank (Eff_Role x)"
proof -
  obtain s m0 where s: "demo_invited = Inr (s, m0)" using demo_review_ok by (auto split: sum.split_asm)
  note ok = demo_review_ok [unfolded s sum.case prod.case]
  from ok obtain p where p: "requireProjectRole (memory_ops demo_defaults s) demo_authenticated ''acme'' 2 = Granted p"
      "Proj_OrgID p = ''o1''" "map_of (s_projects s) ''acme'' = Some p"
    by (cases "requireProjectRole (memory_ops demo_defaults s) demo_authenticated ''acme'' 2") simp_all
  from ok obtain rv where rv: "GetOrgAccessReview demo_ctx ''o1'' s = Inr rv"
    by (cases "GetOrgAccessReview demo_ctx ''o1'' s") simp_all
  from ok obtain u where u: "currentUserForClaims (\<lambda>i. GetUserByID i s) demo_claims = Inr u" "norm_key (User_Email u) = ''a@b.c''"
    by (cases "currentUserForClaims (\<lambda>i. GetUserByID i s) demo_claims") simp_all
  have "fresh_user (demo_ctx\<lparr>ctx_newID := ''u1''\<rparr>) demo_hosted" by (simp add: fresh_user_def userByIDLocked_def demo_hosted_users values_of_def)
  from Access_next [OF access_reachable_hosted Access_UpsertMember [OF s [unfolded demo_invited_def] this]]
  have reach: "access_reachable s" .
  have tc: "Rq_Claims demo_authenticated = Some demo_claims" by (simp add: demo_authenticated_def)
  from review_is_authorization [OF reach rv [folded p(2)] p(3) tc u(1), of 2 demo_defaults] p(1) u(2) rv show ?thesis by auto
qed

section \<open>What an invitation leaves behind\<close>

text \<open>An account made by an invitation starts at token version 0, and version 0 counts as version 1. The first
  change that is meant to end the sessions of the account moves it from 0 to 1, so a token from before the change, which
  carries version 1, is still accepted after it.\<close>

lemma invited_version:
  assumes "invitedUser c k token email s = (s', u)" and "map_of (s_users s) email = None"
  shows "User_TokenVersion u = 0"
  using assms by (auto simp: invitedUser_def Let_def freshUser_def)

lemma invited_user_keeps_tokens:
  assumes ok: "users_ok (s_users s)" and u: "userByIDLocked i s = Some u" and "User_TokenVersion u = 0"
    and i: "TrimSpace i = i" "i \<noteq> []" and up: "UpdateUser k i req s = Inr (s', v)"
  shows "currentUserForClaims (\<lambda>i. GetUserByID i s') (issuedClaims u expires) = Inr v"
proof -
  have id: "User_ID u = i" using u by (simp add: userByID_iff [OF ok])
  have "v = updatedUser k req (User_Email u) u" by (rule UpdateUser_InrE [OF ok up]) (simp add: u i)
  then have "User_ID v = i" "User_TokenVersion v = 0 \<or> User_TokenVersion v = 1"
    using id assms(3) by (simp_all add: updatedUser_fields nextTokenVersion_def)
  moreover from this UpdateUser_users(2) [OF ok up] i have "userByIDLocked i s' = Some v" by simp
  ultimately show ?thesis using id i assms(3)
    by (auto simp: currentUserForClaims_def issuedClaims_def GetUserByID_def nextTokenVersion_def tokenVersionMatches_def)
qed

end
