(* ===== verification/Audit_Log.thy ===== *)
theory Audit_Log
  imports Store_Types Encodings
begin

text \<open>
  The audit log of internal/control/store.go: recording an event, the hash chain that links each event to the one
  before it, its verification, and the filtered and paged listings. \<open>sha256\<close> is a parameter: the 32 bytes of
  \<open>sha256.Sum256\<close>. Besides that every digest has bytes nothing is assumed of it; where it matters that two texts have the
  same digest, the statement says so.
\<close>

section \<open>Instants as text\<close>

text \<open>\<open>t.UTC().Format(time.RFC3339Nano)\<close>. The date of day \<open>d\<close> after 0001-01-01 in the Gregorian calendar, by the division
  into cycles of 400, 100 and 4 years and single years that package \<open>time\<close> uses.\<close>

definition is_leap :: "nat \<Rightarrow> bool" where
  "is_leap y \<longleftrightarrow> y mod 4 = 0 \<and> (y mod 100 \<noteq> 0 \<or> y mod 400 = 0)"

definition year_of_day :: "nat \<Rightarrow> nat \<times> nat" where
  "year_of_day d =
     (let n400 = d div 146097; d = d mod 146097;
          n100 = min 3 (d div 36524); d = d - n100 * 36524;
          n4 = d div 1461; d = d mod 1461;
          n1 = min 3 (d div 365); d = d - n1 * 365
      in (400 * n400 + 100 * n100 + 4 * n4 + n1 + 1, d))"

fun month_of_day :: "nat list \<Rightarrow> nat \<Rightarrow> nat \<Rightarrow> nat \<times> nat" where
  "month_of_day [] m d = (m, d + 1)"
| "month_of_day (len # lens) m d = (if d < len then (m, d + 1) else month_of_day lens (m + 1) (d - len))"

definition month_lengths :: "bool \<Rightarrow> nat list" where
  "month_lengths leap = [31, if leap then 29 else 28, 31, 30, 31, 30, 31, 31, 30, 31, 30]"

definition fractionNano :: "nat \<Rightarrow> string" where
  "fractionNano n = (if n = 0 then [] else CHR ''.'' # rev (dropWhile (\<lambda>c. c = CHR ''0'') (rev (decimal 9 n))))"

definition RFC3339Nano :: "time \<Rightarrow> string" where
  "RFC3339Nano t =
     (let ns = nat t mod 1000000000; secs = nat t div 1000000000;
          (y, yday) = year_of_day (secs div 86400);
          (m, day) = month_of_day (month_lengths (is_leap y)) 1 yday;
          s = secs mod 86400
      in (if y < 10000 then decimal 4 y else itoa y) @ ''-'' @ decimal 2 m @ ''-'' @ decimal 2 day @ ''T'' @
         decimal 2 (s div 3600) @ '':'' @ decimal 2 (s mod 3600 div 60) @ '':'' @ decimal 2 (s mod 60) @ fractionNano ns @ ''Z'')"

section \<open>The hash of an event\<close>

definition sprint_int :: "int \<Rightarrow> string" where
  "sprint_int i = (if i < 0 then CHR ''-'' # itoa (nat (- i)) else itoa (nat i))"

definition newline :: char where "newline = char_of (10 :: nat)"

definition auditLines :: "AuditEvent \<Rightarrow> string list" where
  "auditLines event =
     (let keys = sort_slice (<) (map fst (Audit_Metadata event))
      in [sprint_int (Audit_ChainIndex event), Audit_PreviousHash event, Audit_ID event, Audit_ActorID event, Audit_Action event,
          Audit_Target event, RFC3339Nano (Audit_CreatedAt event)] @
         map (\<lambda>key. key @ ''='' @ (case map_of (Audit_Metadata event) key of None \<Rightarrow> [] | Some v \<Rightarrow> v)) keys)"

definition auditText :: "AuditEvent \<Rightarrow> string" where
  "auditText event = concat (map (\<lambda>line. line @ [newline]) (auditLines event))"

definition hashAuditEvent :: "(string \<Rightarrow> string) \<Rightarrow> AuditEvent \<Rightarrow> string" where
  "hashAuditEvent sha256 event = HexEncode (sha256 (auditText event))"

section \<open>Recording and verifying\<close>

record AuditEventInput =
  AuditIn_ActorID :: string
  AuditIn_Action :: string
  AuditIn_Target :: string
  AuditIn_Metadata :: "(string, string) gomap"

definition chainedEvent :: "(string \<Rightarrow> string) \<Rightarrow> OpCtx \<Rightarrow> AuditEventInput \<Rightarrow> AuditEvent list \<Rightarrow> AuditEvent" where
  "chainedEvent sha256 c input events =
     (let event = \<lparr>Audit_ID = ctx_newID c, Audit_ActorID = TrimSpace (AuditIn_ActorID input),
            Audit_ChainIndex = int (length events) + 1,
            Audit_PreviousHash = (if events = [] then [] else Audit_Hash (last events)), Audit_Hash = [],
            Audit_Action = TrimSpace (AuditIn_Action input), Audit_Target = TrimSpace (AuditIn_Target input),
            Audit_Metadata = AuditIn_Metadata input, Audit_CreatedAt = ctx_now c\<rparr>
      in event\<lparr>Audit_Hash := hashAuditEvent sha256 event\<rparr>)"

definition RecordAuditEvent :: "(string \<Rightarrow> string) \<Rightarrow> OpCtx \<Rightarrow> AuditEventInput \<Rightarrow> MemoryStore \<Rightarrow> AuditEvent op" where
  "RecordAuditEvent sha256 c input s =
     and_then (check (TrimSpace (AuditIn_Action input) \<noteq> []) (ErrOther ''audit action is required'')) (\<lambda>_.
     and_then (check (TrimSpace (AuditIn_Target input) \<noteq> []) (ErrOther ''audit target is required'')) (\<lambda>_.
     let event = chainedEvent sha256 c input (s_auditEvents s)
     in Inr (s\<lparr>s_auditEvents := s_auditEvents s @ [event]\<rparr>, event)))"

record AuditIntegrity =
  Integrity_Verified :: bool
  Integrity_Events :: nat
  Integrity_HeadHash :: string
  Integrity_BrokenAt :: nat
  Integrity_CheckedAt :: time

text \<open>The loop returns the position of the first event that does not fit, or the hash of the last one.\<close>

fun verifyChain :: "(string \<Rightarrow> string) \<Rightarrow> nat \<Rightarrow> string \<Rightarrow> AuditEvent list \<Rightarrow> nat + string" where
  "verifyChain sha256 index previousHash [] = Inr previousHash"
| "verifyChain sha256 index previousHash (event # events) =
     (if Audit_ChainIndex event \<noteq> int index + 1 \<or> Audit_PreviousHash event \<noteq> previousHash \<or>
         Audit_Hash event \<noteq> hashAuditEvent sha256 event then Inl (index + 1)
      else verifyChain sha256 (index + 1) (Audit_Hash event) events)"

definition VerifyAuditLog :: "(string \<Rightarrow> string) \<Rightarrow> OpCtx \<Rightarrow> MemoryStore \<Rightarrow> AuditIntegrity" where
  "VerifyAuditLog sha256 c s =
     (let integrity = \<lparr>Integrity_Verified = True, Integrity_Events = length (s_auditEvents s), Integrity_HeadHash = [],
            Integrity_BrokenAt = 0, Integrity_CheckedAt = ctx_now c\<rparr>
      in (case verifyChain sha256 0 [] (s_auditEvents s) of
            Inl i \<Rightarrow> integrity\<lparr>Integrity_Verified := False, Integrity_BrokenAt := i\<rparr>
          | Inr h \<Rightarrow> integrity\<lparr>Integrity_HeadHash := h\<rparr>))"

section \<open>Listings\<close>

definition newest_first :: "AuditEvent \<Rightarrow> AuditEvent \<Rightarrow> bool" where
  "newest_first a b \<longleftrightarrow> Audit_CreatedAt a > Audit_CreatedAt b"

definition ListAuditEvents :: "int \<Rightarrow> MemoryStore \<Rightarrow> AuditEvent list" where
  "ListAuditEvents limit s =
     (let limit = (if limit \<le> 0 \<or> limit > 200 then 100 else limit);
          start = max 0 (int (length (s_auditEvents s)) - limit)
      in sort_slice newest_first (drop (nat start) (s_auditEvents s)))"

record AuditEventQuery =
  AuditQuery_Limit :: int
  AuditQuery_Offset :: int
  AuditQuery_Action :: string
  AuditQuery_ActorID :: string
  AuditQuery_Since :: time
  AuditQuery_Until :: time

record AuditEventPage =
  AuditPage_Events :: "AuditEvent list"
  AuditPage_Total :: int
  AuditPage_Limit :: int
  AuditPage_Offset :: int

definition auditMatches :: "AuditEventQuery \<Rightarrow> AuditEvent \<Rightarrow> bool" where
  "auditMatches query event \<longleftrightarrow>
     (let action = TrimSpace (AuditQuery_Action query); actor = TrimSpace (AuditQuery_ActorID query) in
      \<not> (action \<noteq> [] \<and> Audit_Action event \<noteq> action) \<and> \<not> (actor \<noteq> [] \<and> Audit_ActorID event \<noteq> actor) \<and>
      \<not> (\<not> IsZero (AuditQuery_Since query) \<and> Audit_CreatedAt event < AuditQuery_Since query) \<and>
      \<not> (\<not> IsZero (AuditQuery_Until query) \<and> Audit_CreatedAt event > AuditQuery_Until query))"

definition ListAuditEventsPage :: "AuditEventQuery \<Rightarrow> MemoryStore \<Rightarrow> AuditEventPage" where
  "ListAuditEventsPage query s =
     (let limit = (if AuditQuery_Limit query \<le> 0 \<or> AuditQuery_Limit query > 500 then 100 else AuditQuery_Limit query);
          offset = (if AuditQuery_Offset query < 0 then 0 else AuditQuery_Offset query);
          filtered = sort_slice newest_first (filter (auditMatches query) (s_auditEvents s));
          total = int (length filtered);
          offset = (if offset > total then total else offset);
          upto = (if offset + limit > total then total else offset + limit)
      in \<lparr>AuditPage_Events = take (nat (upto - offset)) (drop (nat offset) filtered), AuditPage_Total = total,
          AuditPage_Limit = limit, AuditPage_Offset = offset\<rparr>)"

definition aboutProject :: "string \<Rightarrow> AuditEvent \<Rightarrow> bool" where
  "aboutProject ref event \<longleftrightarrow> Audit_Target event = ''project:'' @ ref \<or>
     get_or [] (Audit_Metadata event) ''project_ref'' = ref \<or> get_or [] (Audit_Metadata event) ''ref'' = ref"

definition ListProjectAuditEvents :: "string \<Rightarrow> int \<Rightarrow> MemoryStore \<Rightarrow> AuditEvent list res" where
  "ListProjectAuditEvents ref limit s =
     (let limit = (if limit \<le> 0 \<or> limit > 200 then 100 else limit); ref = TrimSpace ref in
      and_then (lookup_or (ErrNotFound ''project'') (s_projects s) ref) (\<lambda>_.
      let matched = sort_slice newest_first (filter (aboutProject ref) (s_auditEvents s))
      in Inr (if int (length matched) > limit then take (nat limit) matched else matched)))"

section \<open>The actor of an event\<close>

record auditContextValue =
  AuditCtx_actorID :: string
  AuditCtx_clientIP :: string

definition WithAuditContext :: "string \<Rightarrow> string \<Rightarrow> auditContextValue" where
  "WithAuditContext actorID clientIP = \<lparr>AuditCtx_actorID = TrimSpace actorID, AuditCtx_clientIP = TrimSpace clientIP\<rparr>"

definition auditInput :: "auditContextValue \<Rightarrow> string \<Rightarrow> string \<Rightarrow> (string, string) gomap \<Rightarrow> AuditEventInput" where
  "auditInput actor action target metadata =
     \<lparr>AuditIn_ActorID = AuditCtx_actorID actor, AuditIn_Action = action, AuditIn_Target = target,
      AuditIn_Metadata = (if AuditCtx_clientIP actor \<noteq> [] \<and> map_of metadata ''client_ip'' = None
        then AList.update ''client_ip'' (AuditCtx_clientIP actor) metadata else metadata)\<rparr>"

definition Audit :: "(string \<Rightarrow> string) \<Rightarrow> OpCtx \<Rightarrow> auditContextValue \<Rightarrow> string \<Rightarrow> string \<Rightarrow> (string, string) gomap \<Rightarrow> MemoryStore \<Rightarrow> MemoryStore" where
  "Audit sha256 c actor action target metadata s =
     (case RecordAuditEvent sha256 c (auditInput actor action target metadata) s of Inl _ \<Rightarrow> s | Inr (s', _) \<Rightarrow> s')"

section \<open>What the text of an event determines\<close>

lemma Split_lines:
  assumes "list_all (\<lambda>line. newline \<notin> set line) ls"
  shows "Split newline (concat (map (\<lambda>line. line @ [newline]) ls)) = ls @ [[]]"
  using assms by (induction ls) (simp_all add: Split_append_sep)

lemma lines_of_text:
  assumes "concat (map (\<lambda>line. line @ [newline]) ls) = concat (map (\<lambda>line. line @ [newline]) ls')"
    and "list_all (\<lambda>line. newline \<notin> set line) ls" and "list_all (\<lambda>line. newline \<notin> set line) ls'"
  shows "ls = ls'"
  using arg_cong [OF assms(1), of "Split newline"] by (simp add: Split_lines assms(2,3))

lemma itoa_digits: "c \<in> set (itoa n) \<Longrightarrow> is_digit c"
proof (induction n arbitrary: c rule: itoa.induct)
  case (1 n)
  have d: "is_digit (char_of (48 + i))" if "i < 10" for i :: nat using that by (auto simp: is_digit_def byte_def)
  from 1 show ?case by (subst (asm) (2) itoa.simps) (auto split: if_split_asm simp: d)
qed

lemma newline_byte: "byte newline = 10"
  by (simp add: newline_def byte_def)

lemma digit_no_newline: "is_digit c \<Longrightarrow> c \<noteq> newline"
  by (auto simp: is_digit_def newline_byte)

lemma RFC3339_no_newline: "newline \<notin> set (RFC3339Nano t)"
proof -
  have lit: "newline \<noteq> CHR ''-''" "newline \<noteq> CHR ''T''" "newline \<noteq> CHR '':''" "newline \<noteq> CHR ''.''" "newline \<noteq> CHR ''Z''" by code_simp+
  have num: "newline \<notin> set (decimal w n)" "newline \<notin> set (itoa n)" for w n
    using decimal_digits itoa_digits digit_no_newline by blast+
  have "newline \<notin> set (fractionNano n)" for n
    using num(1) [of 9 n] lit set_dropWhileD [of newline "\<lambda>c. c = CHR ''0''" "rev (decimal 9 n)"] by (auto simp: fractionNano_def)
  with num lit show ?thesis by (auto simp: RFC3339Nano_def Let_def split: prod.split)
qed

lemma sprint_int_no_newline: "newline \<notin> set (sprint_int i)"
proof -
  have "newline \<noteq> CHR ''-''" by code_simp
  then show ?thesis using itoa_digits digit_no_newline by (auto simp: sprint_int_def)
qed

text \<open>Rendering a natural number loses nothing.\<close>

fun value_of_digits :: "string \<Rightarrow> nat" where
  "value_of_digits s = foldl (\<lambda>n c. 10 * n + (byte c - 48)) 0 s"

lemma itoa_value: "value_of_digits (itoa n) = n"
proof (induction n rule: itoa.induct)
  case (1 n)
  have b: "byte (char_of (48 + i)) - 48 = i" if "i < 10" for i :: nat using that by (simp add: byte_def)
  show ?case
  proof (cases "n < 10")
    case True
    then show ?thesis by (subst itoa.simps) (simp add: b)
  next
    case False
    with 1 have "value_of_digits (itoa n) = 10 * (n div 10) + n mod 10"
      by (subst itoa.simps) (simp add: b)
    then show ?thesis by simp
  qed
qed

lemma sprint_int_inj: "0 \<le> i \<Longrightarrow> 0 \<le> j \<Longrightarrow> sprint_int i = sprint_int j \<Longrightarrow> i = j"
  using itoa_value [of "nat i"] itoa_value [of "nat j"] by (simp add: sprint_int_def)

lemma HexEncode_inj: "HexEncode s = HexEncode t \<longleftrightarrow> s = t"
proof
  have "decodeGroups 4 hex_alphabet (HexEncode s) = Some s" for s
    unfolding HexEncode_def by (rule decode_encode) (simp_all add: hex_alphabet_def digits_def is_line_break_def byte_def)
  then show "s = t" if "HexEncode s = HexEncode t" using that by (metis option.inject)
qed simp

lemma HexEncode_Nil: "HexEncode [] = []"
  by (simp add: HexEncode_def encodeGroups_def groups_of_bytes_def)

lemma length_hex: "length hex_alphabet = 16"
  by (simp add: hex_alphabet_def digits_def)

lemma HexEncode_no_newline: "newline \<notin> set (HexEncode s)"
proof
  assume "newline \<in> set (HexEncode s)"
  moreover have "set (HexEncode s) \<subseteq> set hex_alphabet"
    using groups_small [of 4 _ "map byte s"] by (auto simp: HexEncode_def encodeGroups_def length_hex intro!: nth_mem)
  moreover have "newline \<notin> set hex_alphabet" by code_simp
  ultimately show False by blast
qed

text \<open>An event whose texts have no line break and whose metadata keys have no equals sign.\<close>

definition plain_event :: "AuditEvent \<Rightarrow> bool" where
  "plain_event e \<longleftrightarrow> newline \<notin> set (Audit_ID e) \<and> newline \<notin> set (Audit_ActorID e) \<and> newline \<notin> set (Audit_Action e) \<and>
     newline \<notin> set (Audit_Target e) \<and> gomap_ok (Audit_Metadata e) \<and>
     list_all (\<lambda>(k, v). newline \<notin> set k \<and> newline \<notin> set v \<and> CHR ''='' \<notin> set k) (Audit_Metadata e)"

definition same_event :: "AuditEvent \<Rightarrow> AuditEvent \<Rightarrow> bool" where
  "same_event e e' \<longleftrightarrow> Audit_ID e = Audit_ID e' \<and> Audit_ActorID e = Audit_ActorID e' \<and> Audit_ChainIndex e = Audit_ChainIndex e' \<and>
     Audit_PreviousHash e = Audit_PreviousHash e' \<and> Audit_Hash e = Audit_Hash e' \<and> Audit_Action e = Audit_Action e' \<and>
     Audit_Target e = Audit_Target e' \<and> map_of (Audit_Metadata e) = map_of (Audit_Metadata e') \<and>
     RFC3339Nano (Audit_CreatedAt e) = RFC3339Nano (Audit_CreatedAt e')"

lemma metadata_line_inj:
  assumes "CHR ''='' \<notin> set k" and "CHR ''='' \<notin> set l" and "k @ ''='' @ v = l @ ''='' @ w"
  shows "k = l \<and> v = w"
proof -
  have "(k, v, True) = Cut (CHR ''='') (k @ ''='' @ v)" using Cut_sep [OF assms(1), of v] by simp
  also have "\<dots> = (l, w, True)" using Cut_sep [OF assms(2), of w] unfolding assms(3) by simp
  finally show ?thesis by simp
qed

lemma metadata_lines:
  assumes "list_all (\<lambda>k. CHR ''='' \<notin> set k) ks" and "list_all (\<lambda>k. CHR ''='' \<notin> set k) ls"
    and "map (\<lambda>k. k @ ''='' @ f k) ks = map (\<lambda>k. k @ ''='' @ g k) ls"
  shows "ks = ls \<and> map f ks = map g ls"
  using assms
proof (induction ks arbitrary: ls)
  case (Cons k ks)
  then obtain l ls' where ls: "ls = l # ls'" by (cases ls) auto
  have "k = l \<and> f k = g l" by (rule metadata_line_inj) (use Cons.prems in \<open>simp_all only: ls list_all_iff list.set list.map list.inject ball_simps insert_iff not_False_eq_True\<close>)
  moreover have "ks = ls' \<and> map f ks = map g ls'" using Cons.prems by (intro Cons.IH) (simp_all add: ls)
  ultimately show ?case by (auto simp: ls)
qed simp

lemma metadata_of_lines:
  assumes "gomap_ok m" and "gomap_ok n" and "list_all (\<lambda>(k, v). CHR ''='' \<notin> set k) m" and "list_all (\<lambda>(k, v). CHR ''='' \<notin> set k) n"
    and "map (\<lambda>k. k @ ''='' @ (case map_of m k of None \<Rightarrow> [] | Some v \<Rightarrow> v)) (sort_slice (<) (map fst m)) =
      map (\<lambda>k. k @ ''='' @ (case map_of n k of None \<Rightarrow> [] | Some v \<Rightarrow> v)) (sort_slice (<) (map fst n))"
  shows "map_of m = map_of n"
proof -
  have keys: "list_all (\<lambda>k. CHR ''='' \<notin> set k) (sort_slice (<) (map fst x))" if "list_all (\<lambda>(k, v). CHR ''='' \<notin> set k) x"
    for x :: "(string, string) gomap" using that by (auto simp: list_all_iff slice.set_srt)
  note eq = metadata_lines [OF keys [OF assms(3)] keys [OF assms(4)] assms(5)]
  then have "set (map fst m) = set (map fst n)" by (metis slice.set_srt)
  then have dom: "dom (map_of m) = dom (map_of n)" by (simp add: dom_map_of_conv_image_fst)
  show ?thesis
  proof
    fix k
    show "map_of m k = map_of n k"
    proof (cases "k \<in> dom (map_of m)")
      case True
      then have "k \<in> set (sort_slice (<) (map fst m))" by (auto simp: slice.set_srt dom_map_of_conv_image_fst)
      then have "(case map_of m k of None \<Rightarrow> [] | Some v \<Rightarrow> v) = (case map_of n k of None \<Rightarrow> [] | Some v \<Rightarrow> v)"
        using eq [THEN conjunct2] unfolding eq [THEN conjunct1, symmetric] map_eq_conv by (rule bspec [rotated])
      moreover from True dom obtain v w where "map_of m k = Some v" "map_of n k = Some w" by blast
      ultimately show ?thesis by simp
    next
      case False
      with dom show ?thesis by (metis domIff)
    qed
  qed
qed

lemma auditLines_plain:
  assumes "plain_event e" and "newline \<notin> set (Audit_PreviousHash e)"
  shows "list_all (\<lambda>line. newline \<notin> set line) (auditLines e)"
proof -
  have eq: "newline \<noteq> CHR ''=''" by code_simp
  have v: "newline \<notin> set k \<and> newline \<notin> set (case map_of (Audit_Metadata e) k of None \<Rightarrow> [] | Some v \<Rightarrow> v)"
    if "k \<in> set (map fst (Audit_Metadata e))" for k
  proof -
    from that obtain w where w: "map_of (Audit_Metadata e) k = Some w" using map_of_eq_None_iff [of "Audit_Metadata e" k] by auto
    then have "(k, w) \<in> set (Audit_Metadata e)" by (rule map_of_SomeD)
    with assms(1) w show ?thesis by (auto simp: plain_event_def list_all_iff)
  qed
  show ?thesis using assms eq v RFC3339_no_newline sprint_int_no_newline
    by (auto simp: auditLines_def plain_event_def Let_def list_all_iff slice.set_srt)
qed

lemma same_text:
  assumes "plain_event e" and "plain_event e'" and "newline \<notin> set (Audit_PreviousHash e)" and "newline \<notin> set (Audit_PreviousHash e')"
    and "0 \<le> Audit_ChainIndex e" and "0 \<le> Audit_ChainIndex e'" and "auditText e = auditText e'" and "Audit_Hash e = Audit_Hash e'"
  shows "same_event e e'"
proof -
  have lines: "auditLines e = auditLines e'"
    by (rule lines_of_text [OF assms(7) [unfolded auditText_def] auditLines_plain [OF assms(1,3)] auditLines_plain [OF assms(2,4)]])
  have noeq: "list_all (\<lambda>(k, v). CHR ''='' \<notin> set k) (Audit_Metadata x)" "gomap_ok (Audit_Metadata x)" if "plain_event x" for x
    using that by (auto simp: plain_event_def list_all_iff)
  have "map_of (Audit_Metadata e) = map_of (Audit_Metadata e')"
    by (rule metadata_of_lines [OF noeq(2) noeq(2) noeq(1) noeq(1)]) (use assms(1,2) lines in \<open>simp_all add: auditLines_def Let_def\<close>)
  moreover have "Audit_ChainIndex e = Audit_ChainIndex e'"
    by (rule sprint_int_inj [OF assms(5,6)]) (use lines in \<open>simp add: auditLines_def Let_def\<close>)
  ultimately show ?thesis using lines assms(8) by (simp add: same_event_def auditLines_def Let_def)
qed

section \<open>The chain\<close>

lemma verifyChain_snoc:
  "verifyChain sha256 i prev (es @ [e]) =
     (case verifyChain sha256 i prev es of Inl b \<Rightarrow> Inl b
      | Inr h \<Rightarrow> if Audit_ChainIndex e = int (i + length es) + 1 \<and> Audit_PreviousHash e = h \<and> Audit_Hash e = hashAuditEvent sha256 e
          then Inr (Audit_Hash e) else Inl (i + length es + 1))"
proof (induction es arbitrary: i prev)
  case (Cons a es)
  then show ?case by (cases "verifyChain sha256 (Suc i) (Audit_Hash a) es") (auto simp del: of_nat_Suc)
qed simp

lemma verifyChain_last:
  "verifyChain sha256 0 [] es = Inr h \<Longrightarrow> h = (if es = [] then [] else Audit_Hash (last es))"
  by (cases es rule: rev_cases) (auto simp: verifyChain_snoc split: sum.split_asm if_split_asm)

lemma hash_chained: "Audit_Hash (chainedEvent sha256 c input es) = hashAuditEvent sha256 (chainedEvent sha256 c input es)"
  by (simp add: chainedEvent_def Let_def hashAuditEvent_def auditText_def auditLines_def)

lemma verify_recorded:
  assumes "verifyChain sha256 0 [] es = Inr h"
  shows "verifyChain sha256 0 [] (es @ [chainedEvent sha256 c input es]) = Inr (Audit_Hash (chainedEvent sha256 c input es))"
  using assms verifyChain_last [OF assms] by (simp add: verifyChain_snoc hash_chained [symmetric]) (simp add: chainedEvent_def Let_def)

lemma VerifyAuditLog_Verified:
  "Integrity_Verified (VerifyAuditLog sha256 c s) \<longleftrightarrow>
     verifyChain sha256 0 [] (s_auditEvents s) = Inr (Integrity_HeadHash (VerifyAuditLog sha256 c s))"
  by (auto simp: VerifyAuditLog_def Let_def split: sum.split)

lemma hash_no_newline: "verifyChain sha256 0 [] es = Inr h \<Longrightarrow> newline \<notin> set h"
proof (cases es rule: rev_cases)
  case (snoc es' e)
  assume "verifyChain sha256 0 [] es = Inr h"
  with snoc have "h = HexEncode (sha256 (auditText e))"
    by (auto simp: verifyChain_snoc hashAuditEvent_def split: sum.split_asm if_split_asm)
  then show ?thesis by (simp add: HexEncode_no_newline)
qed simp

text \<open>Two verified logs with one head hash.\<close>

lemma same_head:
  assumes "verifyChain sha256 0 [] es = Inr h" and "verifyChain sha256 0 [] fs = Inr h"
    and "list_all plain_event es" and "list_all plain_event fs" and "\<And>x. sha256 x \<noteq> []"
  shows "list_all2 same_event es fs \<or>
    (\<exists>e \<in> set es. \<exists>f \<in> set fs. auditText e \<noteq> auditText f \<and> sha256 (auditText e) = sha256 (auditText f))"
  using assms(1-4)
proof (induction es arbitrary: fs h rule: rev_induct)
  case Nil
  then have "h = []" by simp
  have "fs = []"
  proof (cases fs rule: rev_cases)
    case (snoc fs' f)
    with Nil(2) \<open>h = []\<close> have "HexEncode (sha256 (auditText f)) = HexEncode []"
      by (auto simp: verifyChain_snoc hashAuditEvent_def HexEncode_Nil split: sum.split_asm if_split_asm)
    with assms(5) show ?thesis by (simp add: HexEncode_inj)
  qed
  then show ?case by simp
next
  case (snoc e es)
  from snoc.prems(1) obtain g where e: "verifyChain sha256 0 [] es = Inr g" "Audit_ChainIndex e = int (length es) + 1"
      "Audit_PreviousHash e = g" "Audit_Hash e = hashAuditEvent sha256 e" "h = Audit_Hash e"
    by (auto simp: verifyChain_snoc split: sum.split_asm if_split_asm)
  show ?case
  proof (cases fs rule: rev_cases)
    case Nil
    with snoc.prems(2) e(4,5) have "HexEncode (sha256 (auditText e)) = HexEncode []"
      by (simp add: hashAuditEvent_def HexEncode_Nil)
    with assms(5) show ?thesis by (simp add: HexEncode_inj)
  next
    case fs: (snoc fs' f)
    with snoc.prems(2) obtain g' where f: "verifyChain sha256 0 [] fs' = Inr g'" "Audit_ChainIndex f = int (length fs') + 1"
      "Audit_PreviousHash f = g'" "Audit_Hash f = hashAuditEvent sha256 f" "h = Audit_Hash f"
      by (auto simp: verifyChain_snoc split: sum.split_asm if_split_asm)
    from e(4,5) f(4,5) have sha: "sha256 (auditText e) = sha256 (auditText f)" by (simp add: hashAuditEvent_def HexEncode_inj)
    show ?thesis
    proof (cases "auditText e = auditText f")
      case True
      have plain: "plain_event e" "plain_event f" using snoc.prems(3,4) fs by simp_all
      have "same_event e f"
        by (rule same_text [OF plain _ _ _ _ True]) (use e f hash_no_newline [OF e(1)] hash_no_newline [OF f(1)] in simp_all)
      then have "g' = g" using e(3) f(3) by (simp add: same_event_def)
      with snoc.IH [OF e(1)] f(1) snoc.prems(3,4) fs
      have "list_all2 same_event es fs' \<or> (\<exists>e \<in> set es. \<exists>f \<in> set fs'. auditText e \<noteq> auditText f \<and> sha256 (auditText e) = sha256 (auditText f))"
        by simp
      with \<open>same_event e f\<close> show ?thesis unfolding fs by (auto intro: list_all2_appendI)
    next
      case False
      with sha show ?thesis unfolding fs by auto
    qed
  qed
qed

section \<open>Properties\<close>

text \<open>The logs a store can have: nothing but \<open>RecordAuditEvent\<close> writes the field, so every other operation leaves it as it is.\<close>

inductive audit_reachable :: "(string \<Rightarrow> string) \<Rightarrow> MemoryStore \<Rightarrow> bool" for sha256 where
  Audit_new: "audit_reachable sha256 (NewMemoryStore defaults)"
| Audit_record: "audit_reachable sha256 s \<Longrightarrow> RecordAuditEvent sha256 c input s = Inr (s', e) \<Longrightarrow> audit_reachable sha256 s'"
| Audit_other: "audit_reachable sha256 s \<Longrightarrow> s_auditEvents s' = s_auditEvents s \<Longrightarrow> audit_reachable sha256 s'"

lemma RecordAuditEvent_Inr:
  assumes "RecordAuditEvent sha256 c input s = Inr (s', e)"
  shows "s_auditEvents s' = s_auditEvents s @ [e]" and "e = chainedEvent sha256 c input (s_auditEvents s)"
  using assms by (auto simp: RecordAuditEvent_def Let_def and_then_eq_Inr_iff)

lemma audit_reachable_chain: "audit_reachable sha256 s \<Longrightarrow> \<exists>h. verifyChain sha256 0 [] (s_auditEvents s) = Inr h"
proof (induction rule: audit_reachable.induct)
  case (Audit_record s c input s' e)
  then show ?case using verify_recorded RecordAuditEvent_Inr [OF Audit_record.hyps(2)] by fastforce
qed (simp_all add: NewMemoryStore_def)

text \<open>C5. The log verifies after any history of the store: whatever was recorded, by whom and in between which other
  operations, \<open>VerifyAuditLog\<close> reports success, counts every event, and gives the hash of the last one as the head.\<close>

theorem audit_log_verifies:
  assumes "audit_reachable sha256 s"
  shows "VerifyAuditLog sha256 c s = \<lparr>Integrity_Verified = True, Integrity_Events = length (s_auditEvents s),
      Integrity_HeadHash = (if s_auditEvents s = [] then [] else Audit_Hash (last (s_auditEvents s))),
      Integrity_BrokenAt = 0, Integrity_CheckedAt = ctx_now c\<rparr>"
proof -
  obtain h where h: "verifyChain sha256 0 [] (s_auditEvents s) = Inr h" using audit_reachable_chain [OF assms] by blast
  with verifyChain_last [OF h] show ?thesis by (simp add: VerifyAuditLog_def)
qed

definition demo_audit_ctx :: OpCtx where
  "demo_audit_ctx = \<lparr>ctx_now = 5, ctx_newID = ''id1'', ctx_newID2 = ''id2'', ctx_secrets = [], ctx_databaseConfig = [],
     ctx_supportedStackVersion = (\<lambda>v. True), ctx_urlHostname = (\<lambda>v. []), ctx_getenv = (\<lambda>v. [])\<rparr>"

definition demo_audit_defaults :: PlatformDefaults where
  "demo_audit_defaults = \<lparr>Defaults_Domain = ''apps.example.com'', Defaults_StackVersion = ''15.8.1.085'', Defaults_Profile = StackProfileFull,
     Defaults_ResourceTier = ResourceTierCustom, Defaults_BackupSchedule = ''daily'', Defaults_FeatureFlags = [],
     Defaults_DatabaseIngressAllowedCIDRs = [], Defaults_UpdatedAt = 1\<rparr>"

definition demo_event :: AuditEventInput where
  "demo_event = \<lparr>AuditIn_ActorID = ''u1'', AuditIn_Action = ''login'', AuditIn_Target = ''auth'', AuditIn_Metadata = [(''ip'', ''10.0.0.1'')]\<rparr>"

definition demo_sha :: "string \<Rightarrow> string" where "demo_sha x = CHR ''#'' # x"

lemma demo_recorded: "\<exists>s e. RecordAuditEvent demo_sha demo_audit_ctx demo_event (NewMemoryStore demo_audit_defaults) = Inr (s, e) \<and>
    audit_reachable demo_sha s \<and> s_auditEvents s = [e] \<and> plain_event e"
proof -
  have trim: "TrimSpace ''login'' = ''login''" "TrimSpace ''auth'' = ''auth''" "TrimSpace ''u1'' = ''u1''" by code_simp+
  have plain: "newline \<notin> set ''id1'' \<and> newline \<notin> set ''u1'' \<and> newline \<notin> set ''login'' \<and> newline \<notin> set ''auth'' \<and>
      newline \<notin> set ''ip'' \<and> newline \<notin> set ''10.0.0.1''" by code_simp
  obtain s e where r: "RecordAuditEvent demo_sha demo_audit_ctx demo_event (NewMemoryStore demo_audit_defaults) = Inr (s, e)"
    using trim by (simp add: RecordAuditEvent_def check_def demo_event_def Let_def)
  note rec = RecordAuditEvent_Inr [OF r]
  have "s_auditEvents (NewMemoryStore demo_audit_defaults) = []" by (simp add: NewMemoryStore_def)
  with rec have "s_auditEvents s = [e]" "e = chainedEvent demo_sha demo_audit_ctx demo_event []" by simp_all
  moreover have "plain_event (chainedEvent demo_sha demo_audit_ctx demo_event [])"
    using plain trim by (simp add: plain_event_def chainedEvent_def demo_audit_ctx_def demo_event_def gomap_ok_def)
  ultimately show ?thesis using r Audit_record [OF Audit_new r] by blast
qed

theorem audit_log_verifies_witness:
  "\<exists>s e. RecordAuditEvent demo_sha demo_audit_ctx demo_event (NewMemoryStore demo_audit_defaults) = Inr (s, e) \<and>
     VerifyAuditLog demo_sha demo_audit_ctx s = \<lparr>Integrity_Verified = True, Integrity_Events = 1, Integrity_HeadHash = Audit_Hash e,
       Integrity_BrokenAt = 0, Integrity_CheckedAt = 5\<rparr>"
proof -
  obtain s e where s: "RecordAuditEvent demo_sha demo_audit_ctx demo_event (NewMemoryStore demo_audit_defaults) = Inr (s, e)"
    "audit_reachable demo_sha s" "s_auditEvents s = [e]" using demo_recorded by blast
  have "ctx_now demo_audit_ctx = 5" by (simp add: demo_audit_ctx_def)
  with audit_log_verifies [OF s(2), of demo_audit_ctx] s show ?thesis by auto
qed

text \<open>C17. The head hash pins the whole log: when two logs both verify and show the same head hash, they hold the same
  events in the same order, with the same actor, action, target, instant and metadata, unless somewhere in them two different
  texts have the same digest. This holds for logs in which no text has a line break and no metadata key has an equals
  sign; among such logs whoever keeps the head hash notices every edit, removal, insertion and reordering. The lemmas
  below show what the hash does not tell apart without that condition.\<close>

theorem audit_head_pins_log:
  assumes "Integrity_Verified (VerifyAuditLog sha256 c s)" and "Integrity_Verified (VerifyAuditLog sha256 c' s')"
    and "Integrity_HeadHash (VerifyAuditLog sha256 c s) = Integrity_HeadHash (VerifyAuditLog sha256 c' s')"
    and "list_all plain_event (s_auditEvents s)" and "list_all plain_event (s_auditEvents s')" and "\<And>x. sha256 x \<noteq> []"
  shows "list_all2 same_event (s_auditEvents s) (s_auditEvents s') \<or>
    (\<exists>e \<in> set (s_auditEvents s). \<exists>f \<in> set (s_auditEvents s'). auditText e \<noteq> auditText f \<and> sha256 (auditText e) = sha256 (auditText f))"
  using assms by (intro same_head) (simp_all add: VerifyAuditLog_Verified)

theorem audit_head_pins_log_witness:
  "\<exists>s e. RecordAuditEvent demo_sha demo_audit_ctx demo_event (NewMemoryStore demo_audit_defaults) = Inr (s, e) \<and>
     (Integrity_HeadHash (VerifyAuditLog demo_sha demo_audit_ctx s) = Audit_Hash e) \<and> list_all2 same_event (s_auditEvents s) [e]"
proof -
  obtain s e where s: "RecordAuditEvent demo_sha demo_audit_ctx demo_event (NewMemoryStore demo_audit_defaults) = Inr (s, e)"
    "audit_reachable demo_sha s" "s_auditEvents s = [e]" "plain_event e" using demo_recorded by blast
  obtain h where h: "verifyChain demo_sha 0 [] (s_auditEvents s) = Inr h" using audit_reachable_chain [OF s(2)] by blast
  then have v: "Integrity_Verified (VerifyAuditLog demo_sha demo_audit_ctx s)" "Integrity_HeadHash (VerifyAuditLog demo_sha demo_audit_ctx s) = h"
    by (simp_all add: VerifyAuditLog_def Let_def)
  have "h = Audit_Hash e" using verifyChain_last [OF h] s(3) by simp
  moreover have "\<not> (\<exists>e \<in> set (s_auditEvents s). \<exists>f \<in> set (s_auditEvents s). auditText e \<noteq> auditText f \<and> demo_sha (auditText e) = demo_sha (auditText f))"
    by (simp add: demo_sha_def)
  ultimately show ?thesis
    using audit_head_pins_log [OF v(1) v(1) refl, of ] s v by (auto simp: demo_sha_def)
qed

text \<open>Without that condition the hash does not cover the metadata: a line break inside one value gives the text, and
  so the hash, of an event with one more entry.\<close>

lemma metadata_line_break:
  assumes "Audit_Metadata e = [(''a'', ''1'' @ [newline] @ ''b=2'')]"
  shows "hashAuditEvent sha256 (e\<lparr>Audit_Metadata := [(''a'', ''1''), (''b'', ''2'')]\<rparr>) = hashAuditEvent sha256 e"
proof -
  have "''a'' < (''b'' :: string)" "\<not> ''b'' < (''a'' :: string)" by code_simp+
  then have "sort_slice (<) [''a'', ''b''] = [''a'', ''b'' :: string]" "sort_slice (<) [''a''] = [''a'' :: string]"
    by (simp_all add: sort_slice_def)
  with assms show ?thesis by (simp add: hashAuditEvent_def auditText_def auditLines_def Let_def)
qed

text \<open>Likewise an equals sign in a key: it may as well stand in the value.\<close>

lemma metadata_equals_sign:
  assumes "Audit_Metadata e = [(''a=b'', ''c'')]"
  shows "hashAuditEvent sha256 (e\<lparr>Audit_Metadata := [(''a'', ''b=c'')]\<rparr>) = hashAuditEvent sha256 e"
proof -
  have "sort_slice (<) [''a=b''] = [''a=b'' :: string]" "sort_slice (<) [''a''] = [''a'' :: string]" by (simp_all add: sort_slice_def)
  with assms show ?thesis by (simp add: hashAuditEvent_def auditText_def auditLines_def Let_def)
qed

text \<open>Reading the filtered log page by page, every match appears on exactly one page.\<close>

lemma page_slice:
  fixes f :: "'a list"
  assumes "0 \<le> offset" and "0 < limit"
  defines "off \<equiv> (if offset > int (length f) then int (length f) else offset)"
  shows "take (nat ((if off + limit > int (length f) then int (length f) else off + limit) - off)) (drop (nat off) f) =
    take (nat limit) (drop (nat offset) f)"
proof (cases "offset \<le> int (length f)")
  case True
  have "length (drop (nat offset) f) = nat (int (length f) - offset)" using True assms(1) by (simp add: nat_diff_distrib)
  then have "take (nat (int (length f) - offset)) (drop (nat offset) f) = take (nat limit) (drop (nat offset) f)"
    if "offset + limit > int (length f)" using that by simp
  with True show ?thesis by (simp add: off_def)
qed (simp add: off_def)

lemma ListAuditEventsPage_slice:
  assumes "0 < AuditQuery_Limit q" and "AuditQuery_Limit q \<le> 500" and "0 \<le> AuditQuery_Offset q"
  shows "AuditPage_Events (ListAuditEventsPage q s) =
    take (nat (AuditQuery_Limit q)) (drop (nat (AuditQuery_Offset q)) (sort_slice newest_first (filter (auditMatches q) (s_auditEvents s))))"
  using assms page_slice [OF assms(3,1), of "sort_slice newest_first (filter (auditMatches q) (s_auditEvents s))"]
  by (simp add: ListAuditEventsPage_def Let_def)

lemma audit_pages_cover:
  assumes "0 < l" and "l \<le> 500"
  shows "concat (map (\<lambda>k. AuditPage_Events (ListAuditEventsPage (q\<lparr>AuditQuery_Limit := l, AuditQuery_Offset := int k * l\<rparr>) s)) [0..<n]) =
    take (n * nat l) (sort_slice newest_first (filter (auditMatches q) (s_auditEvents s)))"
proof (induction n)
  case (Suc n)
  have "auditMatches (q\<lparr>AuditQuery_Limit := l, AuditQuery_Offset := i\<rparr>) = auditMatches q" for i by (simp add: auditMatches_def fun_eq_iff)
  moreover have "nat (int n * l) = n * nat l" "0 \<le> int n * l" using assms(1) by (simp_all add: nat_mult_distrib)
  moreover have "take (Suc n * nat l) f = take (n * nat l) f @ take (nat l) (drop (n * nat l) f)" for f :: "AuditEvent list"
    by (simp only: take_add mult_Suc add.commute [of "nat l"])
  ultimately show ?case using Suc assms by (simp add: ListAuditEventsPage_slice)
qed simp

end
