(* ===== verification/Child_Types.thy ===== *)
theory Child_Types
  imports Store_Types
begin

text \<open>
  The resources that belong to a project, as internal/control/store.go declares them: auth clients and hooks, edge
  functions with their regions and storage mounts, replication pipelines, embedding jobs, database extensions, cron jobs,
  queues, webhooks, schemas and roles, storage, vector and analytics buckets, the CDN policy and its invalidations, network
  connections and log drains. Each has the record that is stored and the record a client sends. A field \<open>F\<close>
  of a struct \<open>ProjectAuthClient\<close> is \<open>AC_F\<close>, and so on; a pointer is an option. Below them the sets of allowed
  values, which the source keeps as maps to the empty struct.
\<close>

section \<open>Resources and the requests for them\<close>

record ProjectAuthClient =
  AC_ID :: string
  AC_ProjectRef :: string
  AC_Name :: string
  AC_ClientID :: string
  AC_ClientSecretHandle :: string
  AC_RedirectURIs :: "string list"
  AC_GrantTypes :: "string list"
  AC_Scopes :: "string list"
  AC_Confidential :: bool
  AC_Status :: string
  AC_Message :: string
  AC_CreatedAt :: time
  AC_UpdatedAt :: time

record ProjectAuthClientInput =
  ACIn_Name :: string
  ACIn_ClientID :: string
  ACIn_ClientSecretHandle :: string
  ACIn_RedirectURIs :: "string list"
  ACIn_GrantTypes :: "string list"
  ACIn_Scopes :: "string list"
  ACIn_Confidential :: bool

record ProjectAuthHook =
  AH_ID :: string
  AH_ProjectRef :: string
  AH_HookType :: string
  AH_Enabled :: bool
  AH_TargetURI :: string
  AH_EdgeFunction :: string
  AH_SecretHandle :: string
  AH_Headers :: "(string, string) gomap"
  AH_RuntimeSecret :: string
  AH_RuntimeHeaders :: "(string, string) gomap"
  AH_TimeoutMS :: int
  AH_RetryAttempts :: int
  AH_Status :: string
  AH_Message :: string
  AH_CreatedAt :: time
  AH_UpdatedAt :: time

record ProjectAuthHookInput =
  AHIn_HookType :: string
  AHIn_Enabled :: bool
  AHIn_TargetURI :: string
  AHIn_EdgeFunction :: string
  AHIn_SecretHandle :: string
  AHIn_Headers :: "(string, string) gomap"
  AHIn_TimeoutMS :: int
  AHIn_RetryAttempts :: int

record ProjectFunction =
  Fn_ID :: string
  Fn_ProjectRef :: string
  Fn_Name :: string
  Fn_Version :: int
  Fn_Entrypoint :: string
  Fn_VerifyJWT :: bool
  Fn_Status :: string
  Fn_SourceHash :: string
  Fn_SourceBytes :: int
  Fn_Secrets :: "(string, string) gomap"
  Fn_CreatedAt :: time
  Fn_UpdatedAt :: time

record ProjectFunctionInput =
  FnIn_Name :: string
  FnIn_Entrypoint :: string
  FnIn_VerifyJWT :: bool
  FnIn_Source :: string
  FnIn_Secrets :: "(string, string) gomap"

record ProjectFunctionRegion =
  FR_ID :: string
  FR_ProjectRef :: string
  FR_FunctionName :: string
  FR_HostID :: string
  FR_Region :: string
  FR_RoutingPolicy :: string
  FR_InvocationURL :: string
  FR_Status :: string
  FR_Message :: string
  FR_CreatedAt :: time
  FR_UpdatedAt :: time

record ProjectFunctionRegionInput =
  FRIn_FunctionName :: string
  FRIn_HostID :: string
  FRIn_Region :: string
  FRIn_RoutingPolicy :: string

record ProjectFunctionStorageMount =
  FM_ID :: string
  FM_ProjectRef :: string
  FM_FunctionName :: string
  FM_BucketName :: string
  FM_MountPath :: string
  FM_ReadOnly :: bool
  FM_Prefix :: string
  FM_EnvAlias :: string
  FM_Status :: string
  FM_Message :: string
  FM_CreatedAt :: time
  FM_UpdatedAt :: time

record ProjectFunctionStorageMountInput =
  FMIn_FunctionName :: string
  FMIn_BucketName :: string
  FMIn_MountPath :: string
  FMIn_ReadOnly :: bool
  FMIn_Prefix :: string
  FMIn_EnvAlias :: string

record ProjectReplicationPipeline =
  RP_ID :: string
  RP_ProjectRef :: string
  RP_Name :: string
  RP_Type :: string
  RP_SourceSchema :: string
  RP_SourceTable :: string
  RP_Destination :: string
  RP_DestinationURI :: string
  RP_CredentialHandle :: string
  RP_Config :: "(string, string) gomap"
  RP_Status :: string
  RP_Message :: string
  RP_CreatedAt :: time
  RP_UpdatedAt :: time

record ProjectReplicationPipelineInput =
  RPIn_Name :: string
  RPIn_Type :: string
  RPIn_SourceSchema :: string
  RPIn_SourceTable :: string
  RPIn_Destination :: string
  RPIn_DestinationURI :: string
  RPIn_CredentialHandle :: string
  RPIn_Config :: "(string, string) gomap"

record ProjectEmbeddingJob =
  EJ_ID :: string
  EJ_ProjectRef :: string
  EJ_Name :: string
  EJ_SourceSchema :: string
  EJ_SourceTable :: string
  EJ_SourceColumn :: string
  EJ_PrimaryKeyColumn :: string
  EJ_DestinationTable :: string
  EJ_DestinationColumn :: string
  EJ_Provider :: string
  EJ_Model :: string
  EJ_Dimension :: int
  EJ_Schedule :: string
  EJ_BatchSize :: int
  EJ_Status :: string
  EJ_Message :: string
  EJ_CreatedAt :: time
  EJ_UpdatedAt :: time

record ProjectEmbeddingJobInput =
  EJIn_Name :: string
  EJIn_SourceSchema :: string
  EJIn_SourceTable :: string
  EJIn_SourceColumn :: string
  EJIn_PrimaryKeyColumn :: string
  EJIn_DestinationTable :: string
  EJIn_DestinationColumn :: string
  EJIn_Provider :: string
  EJIn_Model :: string
  EJIn_Dimension :: int
  EJIn_Schedule :: string
  EJIn_BatchSize :: int

record ProjectDatabaseExtension =
  DX_ID :: string
  DX_ProjectRef :: string
  DX_Name :: string
  DX_Schema :: string
  DX_Version :: string
  DX_Enabled :: bool
  DX_Status :: string
  DX_Message :: string
  DX_CreatedAt :: time
  DX_UpdatedAt :: time

record ProjectDatabaseExtensionInput =
  DXIn_Schema :: string
  DXIn_Version :: string
  DXIn_Enabled :: "bool option"

record ProjectDatabaseCronJob =
  CJ_ID :: string
  CJ_ProjectRef :: string
  CJ_Name :: string
  CJ_Schedule :: string
  CJ_Command :: string
  CJ_Database :: string
  CJ_Username :: string
  CJ_Active :: bool
  CJ_TimeoutSeconds :: int
  CJ_MaxRuntimeSeconds :: int
  CJ_Metadata :: "(string, string) gomap"
  CJ_Status :: string
  CJ_Message :: string
  CJ_CreatedAt :: time
  CJ_UpdatedAt :: time

record ProjectDatabaseCronJobInput =
  CJIn_Name :: string
  CJIn_Schedule :: string
  CJIn_Command :: string
  CJIn_Database :: string
  CJIn_Username :: string
  CJIn_Active :: bool
  CJIn_TimeoutSeconds :: int
  CJIn_MaxRuntimeSeconds :: int
  CJIn_Metadata :: "(string, string) gomap"

record ProjectDatabaseQueue =
  DQ_ID :: string
  DQ_ProjectRef :: string
  DQ_Name :: string
  DQ_Schema :: string
  DQ_RetentionMinutes :: int
  DQ_VisibilityTimeoutSeconds :: int
  DQ_MaxRetries :: int
  DQ_DeadLetterQueue :: string
  DQ_Active :: bool
  DQ_Metadata :: "(string, string) gomap"
  DQ_Status :: string
  DQ_Message :: string
  DQ_CreatedAt :: time
  DQ_UpdatedAt :: time

record ProjectDatabaseQueueInput =
  DQIn_Name :: string
  DQIn_Schema :: string
  DQIn_RetentionMinutes :: int
  DQIn_VisibilityTimeoutSeconds :: int
  DQIn_MaxRetries :: int
  DQIn_DeadLetterQueue :: string
  DQIn_Active :: bool
  DQIn_Metadata :: "(string, string) gomap"

record ProjectDatabaseWebhook =
  DW_ID :: string
  DW_ProjectRef :: string
  DW_Name :: string
  DW_Schema :: string
  DW_Table :: string
  DW_Events :: "string list"
  DW_Endpoint :: string
  DW_HTTPMethod :: string
  DW_Headers :: "(string, string) gomap"
  DW_TimeoutSeconds :: int
  DW_RetryCount :: int
  DW_Active :: bool
  DW_Metadata :: "(string, string) gomap"
  DW_Status :: string
  DW_Message :: string
  DW_CreatedAt :: time
  DW_UpdatedAt :: time

record ProjectDatabaseWebhookInput =
  DWIn_Name :: string
  DWIn_Schema :: string
  DWIn_Table :: string
  DWIn_Events :: "string list"
  DWIn_Endpoint :: string
  DWIn_HTTPMethod :: string
  DWIn_Headers :: "(string, string) gomap"
  DWIn_TimeoutSeconds :: int
  DWIn_RetryCount :: int
  DWIn_Active :: bool
  DWIn_Metadata :: "(string, string) gomap"

record ProjectDatabaseSchema =
  DS_ID :: string
  DS_ProjectRef :: string
  DS_Name :: string
  DS_Version :: string
  DS_Schema :: string
  DS_SQL :: string
  DS_Checksum :: string
  DS_ApplyOrder :: int
  DS_Active :: bool
  DS_Metadata :: "(string, string) gomap"
  DS_Status :: string
  DS_Message :: string
  DS_CreatedAt :: time
  DS_UpdatedAt :: time

record ProjectDatabaseSchemaInput =
  DSIn_Name :: string
  DSIn_Version :: string
  DSIn_Schema :: string
  DSIn_SQL :: string
  DSIn_ApplyOrder :: int
  DSIn_Active :: bool
  DSIn_Metadata :: "(string, string) gomap"

record ProjectDatabaseRole =
  DR_ID :: string
  DR_ProjectRef :: string
  DR_Name :: string
  DR_Login :: bool
  DR_Inherit :: bool
  DR_BypassRLS :: bool
  DR_ConnectionLimit :: int
  DR_PasswordSecretHandle :: string
  DR_MemberOf :: "string list"
  DR_SchemaGrants :: "(string, string) gomap"
  DR_Metadata :: "(string, string) gomap"
  DR_Status :: string
  DR_Message :: string
  DR_CreatedAt :: time
  DR_UpdatedAt :: time

record ProjectDatabaseRoleInput =
  DRIn_Name :: string
  DRIn_Login :: bool
  DRIn_Inherit :: "bool option"
  DRIn_BypassRLS :: bool
  DRIn_ConnectionLimit :: int
  DRIn_PasswordSecretHandle :: string
  DRIn_MemberOf :: "string list"
  DRIn_SchemaGrants :: "(string, string) gomap"
  DRIn_Metadata :: "(string, string) gomap"

record ProjectVectorBucket =
  VB_ID :: string
  VB_ProjectRef :: string
  VB_Name :: string
  VB_Dimension :: int
  VB_Distance :: string
  VB_IndexMethod :: string
  VB_StorageBackend :: string
  VB_StorageURI :: string
  VB_Metadata :: "(string, string) gomap"
  VB_Status :: string
  VB_Message :: string
  VB_CreatedAt :: time
  VB_UpdatedAt :: time

record ProjectVectorBucketInput =
  VBIn_Name :: string
  VBIn_Dimension :: int
  VBIn_Distance :: string
  VBIn_IndexMethod :: string
  VBIn_StorageBackend :: string
  VBIn_StorageURI :: string
  VBIn_Metadata :: "(string, string) gomap"

record ProjectAnalyticsBucket =
  AB_ID :: string
  AB_ProjectRef :: string
  AB_Name :: string
  AB_StorageURI :: string
  AB_CatalogURI :: string
  AB_Warehouse :: string
  AB_CredentialHandle :: string
  AB_FormatVersion :: int
  AB_Partitioning :: string
  AB_RetentionDays :: int
  AB_CompactionSchedule :: string
  AB_Metadata :: "(string, string) gomap"
  AB_Status :: string
  AB_Message :: string
  AB_CreatedAt :: time
  AB_UpdatedAt :: time

record ProjectAnalyticsBucketInput =
  ABIn_Name :: string
  ABIn_StorageURI :: string
  ABIn_CatalogURI :: string
  ABIn_Warehouse :: string
  ABIn_CredentialHandle :: string
  ABIn_FormatVersion :: int
  ABIn_Partitioning :: string
  ABIn_RetentionDays :: int
  ABIn_CompactionSchedule :: string
  ABIn_Metadata :: "(string, string) gomap"

record ProjectStorageBucket =
  SB_ID :: string
  SB_ProjectRef :: string
  SB_Name :: string
  SB_Public :: bool
  SB_FileSizeLimit :: int
  SB_AllowedMimeTypes :: "string list"
  SB_CacheControl :: string
  SB_AvifAutodetection :: bool
  SB_Metadata :: "(string, string) gomap"
  SB_Status :: string
  SB_Message :: string
  SB_CreatedAt :: time
  SB_UpdatedAt :: time

record ProjectStorageBucketInput =
  SBIn_Name :: string
  SBIn_Public :: bool
  SBIn_FileSizeLimit :: int
  SBIn_AllowedMimeTypes :: "string list"
  SBIn_CacheControl :: string
  SBIn_AvifAutodetection :: bool
  SBIn_Metadata :: "(string, string) gomap"

record ProjectCDNPolicy =
  CP_ProjectRef :: string
  CP_Enabled :: bool
  CP_BrowserTTLSeconds :: int
  CP_EdgeTTLSeconds :: int
  CP_StaleWhileRevalidateSeconds :: int
  CP_IncludedPaths :: "string list"
  CP_ExcludedPaths :: "string list"
  CP_SmartRevalidation :: bool
  CP_CacheControl :: string
  CP_UpdatedAt :: time

record ProjectCDNPolicyInput =
  CPIn_Enabled :: bool
  CPIn_BrowserTTLSeconds :: int
  CPIn_EdgeTTLSeconds :: int
  CPIn_StaleWhileRevalidateSeconds :: int
  CPIn_IncludedPaths :: "string list"
  CPIn_ExcludedPaths :: "string list"
  CPIn_SmartRevalidation :: bool
  CPIn_CacheControl :: string

record CDNInvalidation =
  CI_ID :: string
  CI_ProjectRef :: string
  CI_Paths :: "string list"
  CI_Source :: string
  CI_EventID :: string
  CI_Status :: string
  CI_Message :: string
  CI_CreatedAt :: time
  CI_CompletedAt :: "time option"

record CDNInvalidationInput =
  CIIn_Paths :: "string list"

record CDNObjectEventInput =
  CE_EventID :: string
  CE_Bucket :: string
  CE_ObjectPath :: string
  CE_EventType :: string

record ProjectNetworkConnection =
  NC_ID :: string
  NC_ProjectRef :: string
  NC_Name :: string
  NC_Type :: string
  NC_Provider :: string
  NC_Region :: string
  NC_CIDRs :: "string list"
  NC_EndpointID :: string
  NC_Config :: "(string, string) gomap"
  NC_Status :: string
  NC_Message :: string
  NC_CreatedAt :: time
  NC_UpdatedAt :: time

record ProjectNetworkConnectionInput =
  NCIn_Name :: string
  NCIn_Type :: string
  NCIn_Provider :: string
  NCIn_Region :: string
  NCIn_CIDRs :: "string list"
  NCIn_EndpointID :: string
  NCIn_Config :: "(string, string) gomap"

record LogDrain =
  LD_ID :: string
  LD_ProjectRef :: string
  LD_Target :: string
  LD_Config :: "(string, string) gomap"
  LD_CreatedAt :: time

record LogDrainInput =
  LDIn_Target :: string
  LDIn_Config :: "(string, string) gomap"

section \<open>Allowed values\<close>

definition allowedLogDrainTargets :: "string list" where
  "allowedLogDrainTargets =
    [''https'', ''loki'', ''datadog'', ''sentry'', ''axiom'', ''s3'']"

definition allowedReplicationPipelineTypes :: "string list" where
  "allowedReplicationPipelineTypes =
    [''logical'', ''etl'', ''analytics_bucket'']"

definition allowedReplicationDestinations :: "string list" where
  "allowedReplicationDestinations =
    [''postgres'', ''webhook'', ''s3'', ''iceberg'', ''bigquery'', ''snowflake'', ''redshift'']"

definition allowedEmbeddingProviders :: "string list" where
  "allowedEmbeddingProviders =
    [''openai'', ''huggingface'', ''local'']"

definition allowedVectorBucketBackends :: "string list" where
  "allowedVectorBucketBackends =
    [''postgres'', ''s3'']"

definition allowedVectorBucketDistances :: "string list" where
  "allowedVectorBucketDistances =
    [''cosine'', ''l2'', ''ip'']"

definition allowedVectorBucketIndexes :: "string list" where
  "allowedVectorBucketIndexes =
    [''none'', ''hnsw'', ''ivfflat'']"

definition reservedDatabaseRoles :: "string list" where
  "reservedDatabaseRoles =
    [''anon'', ''authenticated'', ''authenticator'', ''dashboard_user'', ''pgbouncer'', ''postgres'', ''service_role'',
     ''supabase_admin'', ''supabase_auth_admin'', ''supabase_functions_admin'', ''supabase_read_only_user'',
     ''supabase_replication_admin'', ''supabase_storage_admin'']"

definition allowedDatabaseRolePrivileges :: "string list" where
  "allowedDatabaseRolePrivileges =
    [''usage'', ''create'', ''select'', ''insert'', ''update'', ''delete'', ''all'']"

definition allowedOAuthClientGrantTypes :: "string list" where
  "allowedOAuthClientGrantTypes =
    [''authorization_code'', ''refresh_token'', ''client_credentials'']"

definition allowedOAuthClientScopes :: "string list" where
  "allowedOAuthClientScopes =
    [''openid'', ''profile'', ''email'', ''phone'', ''offline_access'']"

definition allowedAuthHookTypes :: "string list" where
  "allowedAuthHookTypes =
    [''before_user_created'', ''custom_access_token'', ''send_sms'', ''send_email'', ''mfa_verification_attempt'',
     ''password_verification_attempt'']"

definition defaultDatabaseExtensionOrder :: "string list" where
  "defaultDatabaseExtensionOrder =
    [''pgcrypto'', ''uuid-ossp'', ''pg_graphql'', ''pg_stat_statements'', ''pg_cron'', ''pgmq'', ''vector'',
     ''supabase_vault'']"

definition allowedNetworkConnectionTypes :: "string list" where
  "allowedNetworkConnectionTypes =
    [''privatelink'', ''vpc_peering'', ''private_endpoint'', ''wireguard'', ''operator_network'']"

definition allowedNetworkConnectionProviders :: "string list" where
  "allowedNetworkConnectionProviders =
    [''aws'', ''gcp'', ''azure'', ''custom'', ''operator'']"

end
