(* ===== verification/Child_Values.thy ===== *)
theory Child_Values
  imports Child_Types Auth_Tokens
begin

text \<open>
  The checks that the values of a project's resources go through before they are stored (internal/control/store.go and
  functions.go): identifiers, \<open>secret://\<close> handles, configuration maps, paths, cron schedules, OAuth and network
  lists. What the source takes from packages \<open>net/url\<close> and \<open>net/netip\<close> is a parameter in \<open>ChildCtx\<close>, together with the
  clock, fresh identifiers and \<open>sha256\<close>. The section at the end shows which values get through.
\<close>

record ChildCtx =
  cc_now :: time
  cc_newID :: string
  cc_newClientID :: string
  cc_urlParse :: "string \<Rightarrow> (string \<times> string) option"
  cc_parsePrefix :: "string \<Rightarrow> string option"
  cc_parseAddr :: "string \<Rightarrow> string option"
  cc_sha256 :: "string \<Rightarrow> string"

section \<open>Strings\<close>

definition chr_nul :: char where "chr_nul = char_of (0 :: nat)"
definition chr_tab :: char where "chr_tab = char_of (9 :: nat)"
definition chr_lf :: char where "chr_lf = char_of (10 :: nat)"
definition chr_cr :: char where "chr_cr = char_of (13 :: nat)"

definition ContainsAny :: "string \<Rightarrow> string \<Rightarrow> bool" where
  "ContainsAny s chars \<longleftrightarrow> list_ex (\<lambda>c. List.member chars c) s"

fun Contains :: "string \<Rightarrow> string \<Rightarrow> bool" where
  "Contains [] sub = (sub = [])"
| "Contains (c # s) sub = (HasPrefix (c # s) sub \<or> Contains s sub)"

definition slashes :: "string \<Rightarrow> string" where
  "slashes s = map (\<lambda>c. if c = CHR 0x5C then CHR ''/'' else c) s"

text \<open>\<open>path.Clean\<close>: the components on a stack, without empty and \<open>.\<close> components, and with \<open>..\<close> taking away the one before it.\<close>

fun cleanParts :: "bool \<Rightarrow> string list \<Rightarrow> string list \<Rightarrow> string list" where
  "cleanParts rooted stack [] = rev stack"
| "cleanParts rooted stack (part # parts) =
     (if part = [] \<or> part = ''.'' then cleanParts rooted stack parts
      else if part = ''..'' then
        (case stack of
           [] \<Rightarrow> cleanParts rooted (if rooted then [] else [''..'']) parts
         | t # rest \<Rightarrow> cleanParts rooted (if t = ''..'' then ''..'' # stack else rest) parts)
      else cleanParts rooted (part # stack) parts)"

definition Clean :: "string \<Rightarrow> string" where
  "Clean path =
     (let rooted = HasPrefix path ''/'';
          parts = cleanParts rooted [] (Split CHR ''/'' path)
      in if rooted then ''/'' @ Join ''/'' parts else if parts = [] then ''.'' else Join ''/'' parts)"

definition Fields :: "string \<Rightarrow> string list" where
  "Fields s = filter (\<lambda>w. w \<noteq> []) (Split CHR '' '' (map (\<lambda>c. if is_space c then CHR '' '' else c) s))"

definition refuse :: "bool \<Rightarrow> string \<Rightarrow> unit res" where
  "refuse b msg = check (\<not> b) (ErrOther msg)"

definition or_default :: "string \<Rightarrow> string \<Rightarrow> string" where
  "or_default d s = (if s = [] then d else s)"

definition or_default_int :: "int \<Rightarrow> int \<Rightarrow> int" where
  "or_default_int d i = (if i = 0 then d else i)"

section \<open>Identifiers\<close>

definition refPattern :: "string \<Rightarrow> bool" where
  "refPattern s \<longleftrightarrow> 3 \<le> length s \<and> length s \<le> 64 \<and> list_all (\<lambda>c. is_lower_alnum c \<or> c = CHR ''-'') s"

definition identifierPattern :: "string \<Rightarrow> bool" where
  "identifierPattern s \<longleftrightarrow> (case s of [] \<Rightarrow> False | c # cs \<Rightarrow> (is_lower c \<or> c = CHR ''_'') \<and> length cs \<le> 62 \<and>
     list_all (\<lambda>c. is_lower_alnum c \<or> c = CHR ''_'') cs)"

definition extensionNamePattern :: "string \<Rightarrow> bool" where
  "extensionNamePattern s \<longleftrightarrow> (case s of [] \<Rightarrow> False | c # cs \<Rightarrow> is_lower c \<and> length cs \<le> 62 \<and>
     list_all (\<lambda>c. is_lower_alnum c \<or> c = CHR ''_'' \<or> c = CHR ''-'') cs)"

definition envAliasPattern :: "string \<Rightarrow> bool" where
  "envAliasPattern s \<longleftrightarrow> (case s of [] \<Rightarrow> False | c # cs \<Rightarrow> (is_upper c \<or> c = CHR ''_'') \<and> length cs \<le> 62 \<and>
     list_all (\<lambda>c. is_upper c \<or> is_digit c \<or> c = CHR ''_'') cs)"

definition validateDatabaseIdentifier :: "string \<Rightarrow> string \<Rightarrow> unit res" where
  "validateDatabaseIdentifier label value = check (identifierPattern value) (ErrOther (label @ '' must be a valid PostgreSQL identifier''))"

definition normalizeFunctionName :: "string \<Rightarrow> string res" where
  "normalizeFunctionName name =
     (let normalized = ToLower (TrimSpace name) in
      and_then (refuse (normalized = []) ''function name is required'') (\<lambda>_.
      and_then (refuse (\<not> refPattern normalized) ''function name must be 3-64 lowercase letters, numbers, or dashes'') (\<lambda>_.
      Inr normalized)))"

section \<open>Configuration maps and secret handles\<close>

fun configLoop :: "(string, string) gomap \<Rightarrow> (string, string) gomap \<Rightarrow> (string, string) gomap res" where
  "configLoop out [] = Inr out"
| "configLoop out ((key, value) # values) =
     (let normalizedKey = ToLower (TrimSpace key) in
      if normalizedKey = [] then Inl (ErrOther ''config key is required'')
      else if ContainsAny normalizedKey [CHR '' '', CHR ''/'', CHR 0x5C] then Inl (ErrOther ''config key is invalid'')
      else configLoop (AList.update normalizedKey (TrimSpace value) out) values)"

definition normalizeConfigValues :: "(string, string) gomap \<Rightarrow> (string, string) gomap res" where
  "normalizeConfigValues values = configLoop [] values"

definition sensitiveConfigKeys :: "string list" where
  "sensitiveConfigKeys = [''api_key'', ''token'', ''secret'', ''password'', ''access_key'', ''secret_key'', ''access_token'',
     ''bearer_token'', ''authorization'', ''x-api-key'']"

definition isSensitiveProjectConfigKey :: "string \<Rightarrow> bool" where
  "isSensitiveProjectConfigKey key \<longleftrightarrow> ToLower (TrimSpace key) \<in> set sensitiveConfigKeys"

definition isSensitiveAuthHookHeaderKey :: "string \<Rightarrow> bool" where
  "isSensitiveAuthHookHeaderKey key \<longleftrightarrow>
     ToLower (TrimSpace key) \<in> {''authorization'', ''proxy-authorization'', ''x-api-key'', ''x-auth-token''} \<or> isSensitiveProjectConfigKey key"

definition secret_handle :: "string \<Rightarrow> bool" where
  "secret_handle value \<longleftrightarrow> HasPrefix value ''secret://''"

fun validateReplicationSecretHandles :: "(string, string) gomap \<Rightarrow> unit res" where
  "validateReplicationSecretHandles [] = Inr ()"
| "validateReplicationSecretHandles ((key, value) # config) =
     (let value = TrimSpace value in
      if value = [] \<or> \<not> isSensitiveProjectConfigKey key then validateReplicationSecretHandles config
      else if \<not> secret_handle value then Inl (ErrOther ''replication config must use a secret:// handle'')
      else validateReplicationSecretHandles config)"

fun validateHookHeaders :: "(string, string) gomap \<Rightarrow> unit res" where
  "validateHookHeaders [] = Inr ()"
| "validateHookHeaders ((key, value) # headers) =
     (if value = [] then validateHookHeaders headers
      else if isSensitiveAuthHookHeaderKey key \<and> \<not> secret_handle value then Inl (ErrOther ''auth hook header must use a secret:// handle'')
      else if length value > 512 \<or> ContainsAny value [chr_cr, chr_lf] then Inl (ErrOther ''auth hook header is invalid'')
      else validateHookHeaders headers)"

fun validFunctionSecretKey :: "bool \<Rightarrow> string \<Rightarrow> bool" where
  "validFunctionSecretKey first [] = True"
| "validFunctionSecretKey first (c # cs) =
     ((c = CHR ''_'' \<or> is_upper c \<or> is_lower c \<or> \<not> first \<and> is_digit c) \<and> validFunctionSecretKey False cs)"

fun functionSecretLoop :: "(string, string) gomap \<Rightarrow> (string, string) gomap \<Rightarrow> (string, string) gomap res" where
  "functionSecretLoop out [] = Inr out"
| "functionSecretLoop out ((key, value) # values) =
     (let normalizedKey = TrimSpace key; normalizedValue = TrimSpace value in
      if normalizedKey = [] then Inl (ErrOther ''function secret key is required'')
      else if \<not> validFunctionSecretKey True normalizedKey then Inl (ErrOther ''function secret key is invalid'')
      else if ContainsAny normalizedValue [chr_cr, chr_lf] then Inl (ErrOther ''function secret must be a single line'')
      else functionSecretLoop (AList.update normalizedKey normalizedValue out) values)"

definition normalizeFunctionSecretValues :: "(string, string) gomap \<Rightarrow> (string, string) gomap res" where
  "normalizeFunctionSecretValues values = functionSecretLoop [] values"

definition maskSecret :: "string \<Rightarrow> string" where
  "maskSecret value = (if length value \<le> 10 then ''********''
     else take 6 value @ replicate 12 CHR ''*'' @ drop (length value - 4) value)"

definition maskFunctionSecrets :: "(string, string) gomap \<Rightarrow> (string, string) gomap" where
  "maskFunctionSecrets secrets = map (\<lambda>(key, value). (key, maskSecret value)) (filter (\<lambda>(key, value). TrimSpace value \<noteq> []) secrets)"

section \<open>Replication and log drains\<close>

definition one_of :: "string list \<Rightarrow> string \<Rightarrow> string \<Rightarrow> string res" where
  "one_of allowed msg normalized = and_then (check (List.member allowed normalized) (ErrOther msg)) (\<lambda>_. Inr normalized)"

definition normalizeLogDrainTarget :: "string \<Rightarrow> string res" where
  "normalizeLogDrainTarget target =
     (let normalized = ToLower (TrimSpace target) in
      and_then (refuse (normalized = []) ''log drain target is required'') (\<lambda>_.
      one_of allowedLogDrainTargets ''unsupported log drain target'' normalized))"

definition normalizeReplicationPipelineType :: "string \<Rightarrow> string res" where
  "normalizeReplicationPipelineType pipelineType =
     one_of allowedReplicationPipelineTypes ''unsupported replication pipeline type'' (or_default ''logical'' (ToLower (TrimSpace pipelineType)))"

definition normalizeReplicationDestination :: "string \<Rightarrow> string res" where
  "normalizeReplicationDestination destination =
     (let normalized = ToLower (TrimSpace destination) in
      and_then (refuse (normalized = []) ''replication destination is required'') (\<lambda>_.
      one_of allowedReplicationDestinations ''unsupported replication destination'' normalized))"

definition blank :: "(string, string) gomap \<Rightarrow> string \<Rightarrow> bool" where
  "blank config key \<longleftrightarrow> TrimSpace (get_or [] config key) = []"

definition validateReplicationDestinationConfig :: "string \<Rightarrow> string \<Rightarrow> (string, string) gomap \<Rightarrow> unit res" where
  "validateReplicationDestinationConfig destination destinationURI config =
     (let noURI = (TrimSpace destinationURI = []) in
      if List.member [''postgres'', ''webhook''] destination then refuse noURI ''replication destination requires destination_uri''
      else if List.member [''s3'', ''iceberg''] destination
        then refuse (blank config ''bucket'' \<and> noURI) ''replication destination requires bucket or destination_uri''
      else if destination = ''bigquery'' then refuse (blank config ''dataset'') ''replication destination bigquery requires dataset''
      else if destination = ''snowflake''
        then refuse (blank config ''warehouse'' \<or> blank config ''database'') ''replication destination snowflake requires warehouse and database''
      else if destination = ''redshift''
        then refuse (blank config ''cluster'' \<and> noURI) ''replication destination redshift requires cluster or destination_uri''
      else Inr ())"

definition validateLogDrainConfig :: "string \<Rightarrow> (string, string) gomap \<Rightarrow> unit res" where
  "validateLogDrainConfig target config =
     (if List.member [''https'', ''loki'', ''sentry'', ''axiom''] target then refuse (blank config ''url'') ''log drain target requires url''
      else if target = ''datadog'' then refuse (blank config ''api_key'') ''log drain datadog target requires api_key''
      else if target = ''s3'' then refuse (blank config ''bucket'') ''log drain s3 target requires bucket''
      else Inr ())"

section \<open>Lists of values\<close>

text \<open>The loops with a \<open>seen\<close> map keep the first occurrence of every value; \<open>seen\<close> holds what is in \<open>out\<close>.\<close>

definition add_new :: "'a \<Rightarrow> 'a list \<Rightarrow> 'a list" where
  "add_new x out = (if List.member out x then out else out @ [x])"

definition httpURL :: "ChildCtx \<Rightarrow> string \<Rightarrow> string \<Rightarrow> unit res" where
  "httpURL c label uri =
     (case cc_urlParse c uri of
        None \<Rightarrow> Inl (ErrOther (label @ '' is invalid''))
      | Some (scheme, host) \<Rightarrow>
          and_then (refuse (scheme = [] \<or> host = []) (label @ '' is invalid'')) (\<lambda>_.
          and_then (refuse (scheme \<noteq> ''https'' \<and> scheme \<noteq> ''http'') (label @ '' must use http or https'')) (\<lambda>_.
          refuse (length uri > 512 \<or> ContainsAny uri [chr_cr, chr_lf, chr_tab, CHR '' '']) (label @ '' is invalid''))))"

fun redirectLoop :: "ChildCtx \<Rightarrow> string list \<Rightarrow> string list \<Rightarrow> string list res" where
  "redirectLoop c out [] = Inr out"
| "redirectLoop c out (value # values) =
     (let trimmed = TrimSpace value in
      if trimmed = [] then redirectLoop c out values
      else and_then (httpURL c ''redirect_uri'' trimmed) (\<lambda>_. redirectLoop c (add_new trimmed out) values))"

definition normalizeOAuthRedirectURIs :: "ChildCtx \<Rightarrow> string list \<Rightarrow> string list res" where
  "normalizeOAuthRedirectURIs c values =
     and_then (redirectLoop c [] values) (\<lambda>out.
     and_then (refuse (out = []) ''at least one redirect_uri is required'') (\<lambda>_. Inr (sort_slice (<) out)))"

fun allowedLoop :: "string list \<Rightarrow> string \<Rightarrow> string list \<Rightarrow> string list \<Rightarrow> string list res" where
  "allowedLoop allowed msg out [] = Inr out"
| "allowedLoop allowed msg out (part # parts) =
     (let normalized = ToLower (TrimSpace part) in
      if normalized = [] then allowedLoop allowed msg out parts
      else if \<not> List.member allowed normalized then Inl (ErrOther msg)
      else allowedLoop allowed msg (add_new normalized out) parts)"

definition normalizeOAuthValues :: "string \<Rightarrow> string list \<Rightarrow> string list \<Rightarrow> string list \<Rightarrow> string list res" where
  "normalizeOAuthValues label values allowed defaults =
     and_then (allowedLoop allowed (''unsupported OAuth '' @ label) [] (concat (map (Split CHR '','') (if values = [] then defaults else values))))
       (\<lambda>out. Inr (sort_slice (<) out))"

definition webhookEvents :: "string list" where
  "webhookEvents = [''insert'', ''update'', ''delete'']"

fun webhookEventLoop :: "string list \<Rightarrow> string list \<Rightarrow> string list res" where
  "webhookEventLoop out [] = Inr out"
| "webhookEventLoop out (event # events) =
     (let normalized = ToLower (TrimSpace event) in
      if \<not> List.member webhookEvents normalized then Inl (ErrOther ''webhook event is not supported'')
      else webhookEventLoop (add_new normalized out) events)"

definition normalizeDatabaseWebhookEvents :: "string list \<Rightarrow> string list res" where
  "normalizeDatabaseWebhookEvents input =
     and_then (webhookEventLoop [] (if input = [] then webhookEvents else input)) (\<lambda>out.
     and_then (refuse (out = []) ''webhook events are required'') (\<lambda>_. Inr (sort_slice (<) out)))"

fun memberLoop :: "string \<Rightarrow> string list \<Rightarrow> string list \<Rightarrow> string list res" where
  "memberLoop roleName out [] = Inr out"
| "memberLoop roleName out (value # values) =
     (let member = ToLower (TrimSpace value) in
      if member = [] then memberLoop roleName out values
      else and_then (validateDatabaseIdentifier ''member role'' member) (\<lambda>_.
           and_then (refuse (member = roleName) ''database role cannot be member of itself'') (\<lambda>_.
           memberLoop roleName (add_new member out) values)))"

definition normalizeDatabaseRoleMembers :: "string list \<Rightarrow> string \<Rightarrow> string list res" where
  "normalizeDatabaseRoleMembers values roleName = and_then (memberLoop roleName [] values) (\<lambda>members. Inr (sort_slice (<) members))"

fun schemaGrantLoop :: "(string, string) gomap \<Rightarrow> (string, string) gomap \<Rightarrow> (string, string) gomap res" where
  "schemaGrantLoop grants [] = Inr grants"
| "schemaGrantLoop grants ((schema, privilegeList) # values) =
     (let normalizedSchema = ToLower (TrimSpace schema) in
      if normalizedSchema = [] then schemaGrantLoop grants values
      else and_then (validateDatabaseIdentifier ''schema grant name'' normalizedSchema) (\<lambda>_.
           and_then (allowedLoop allowedDatabaseRolePrivileges ''unsupported database role privilege'' [] (Split CHR '','' privilegeList)) (\<lambda>privileges.
           schemaGrantLoop (if privileges = [] then grants
             else AList.update normalizedSchema (Join '','' (sort_slice (<) privileges)) grants) values)))"

definition normalizeDatabaseSchemaGrants :: "(string, string) gomap \<Rightarrow> (string, string) gomap res" where
  "normalizeDatabaseSchemaGrants values = schemaGrantLoop [] values"

fun cidrLoop :: "ChildCtx \<Rightarrow> string list \<Rightarrow> string list \<Rightarrow> string list res" where
  "cidrLoop c out [] = Inr out"
| "cidrLoop c out (part # parts) =
     (let normalized = TrimSpace part in
      if normalized = [] then cidrLoop c out parts
      else (case cc_parsePrefix c normalized of
          Some prefix \<Rightarrow> cidrLoop c (add_new prefix out) parts
        | None \<Rightarrow> (case cc_parseAddr c normalized of
              Some addr \<Rightarrow> cidrLoop c (add_new addr out) parts
            | None \<Rightarrow> Inl (ErrOther ''invalid network cidr''))))"

definition normalizeNetworkCIDRs :: "ChildCtx \<Rightarrow> string list \<Rightarrow> string list res" where
  "normalizeNetworkCIDRs c input =
     and_then (cidrLoop c [] (concat (map (Split CHR '','') input))) (\<lambda>out.
     and_then (refuse (out = []) ''at least one cidr is required'') (\<lambda>_. Inr out))"

fun mimeLoop :: "string list \<Rightarrow> string list \<Rightarrow> string list res" where
  "mimeLoop out [] = Inr out"
| "mimeLoop out (value # values) =
     (let mimeType = ToLower (TrimSpace value) in
      if mimeType = [] then mimeLoop out values
      else if length mimeType > 128 \<or> ContainsAny mimeType [chr_cr, chr_lf, chr_tab, CHR '' ''] \<or> \<not> Contains mimeType ''/''
        then Inl (ErrOther ''allowed_mime_types contains invalid value'')
      else mimeLoop (add_new mimeType out) values)"

section \<open>Cron schedules\<close>

definition cronShorthands :: "string list" where
  "cronShorthands = [''@hourly'', ''@daily'', ''@weekly'', ''@monthly'', ''@yearly'', ''@annually'', ''@reboot'']"

definition validateCronSchedule :: "string \<Rightarrow> unit res" where
  "validateCronSchedule schedule =
     and_then (refuse (schedule = []) ''cron schedule is required'') (\<lambda>_.
     and_then (refuse (length schedule > 128 \<or> ContainsAny schedule [chr_cr, chr_lf, chr_tab]) ''cron schedule is invalid'') (\<lambda>_.
     if List.member cronShorthands (ToLower schedule) then Inr ()
     else and_then (refuse (length (Fields schedule) \<noteq> 5) ''cron schedule must be a five-field expression or supported @schedule'') (\<lambda>_.
       refuse (list_ex (\<lambda>part. length part > 32 \<or> ContainsAny part [CHR '';'', CHR 0x27, CHR 0x22, CHR 0x60, CHR 0x5C]) (Fields schedule))
         ''cron schedule field is invalid'')))"

section \<open>CDN paths\<close>

fun cdnPathLoop :: "string list \<Rightarrow> string list \<Rightarrow> string list res" where
  "cdnPathLoop out [] = Inr out"
| "cdnPathLoop out (path # paths) =
     (let normalized = TrimSpace path in
      if normalized = [] then cdnPathLoop out paths
      else if \<not> HasPrefix normalized ''/'' then Inl (ErrOther ''path must start with /'')
      else if ContainsAny normalized [chr_cr, chr_lf, chr_tab] \<or> Contains normalized ''..'' then Inl (ErrOther ''path is invalid'')
      else if length normalized > 256 then Inl (ErrOther ''path is too long'')
      else cdnPathLoop (add_new normalized out) paths)"

definition normalizeCDNPaths :: "string list \<Rightarrow> bool \<Rightarrow> string list res" where
  "normalizeCDNPaths paths allowEmpty =
     and_then (cdnPathLoop [] paths) (\<lambda>out.
     and_then (refuse (out = [] \<and> \<not> allowEmpty) ''at least one path is required'') (\<lambda>_. Inr out))"

definition trim_slashes :: "string \<Rightarrow> string" where
  "trim_slashes = TrimFunc (\<lambda>c. c = CHR ''/'')"

definition storageObjectCDNPath :: "string \<Rightarrow> string \<Rightarrow> string" where
  "storageObjectCDNPath bucket objectPath =
     (let objectPath = trim_slashes (TrimSpace objectPath) in
      if bucket = [] then ''/storage/v1/object/public/'' @ objectPath
      else ''/storage/v1/object/public/'' @ bucket @ ''/'' @ objectPath)"

definition cdnPathPatternMatches :: "string \<Rightarrow> string \<Rightarrow> bool" where
  "cdnPathPatternMatches pattern path =
     (if pattern = path then True
      else if HasSuffix pattern ''*'' then HasPrefix path (TrimSuffix pattern ''*'')
      else False)"

definition cdnPathIncluded :: "string \<Rightarrow> string list \<Rightarrow> string list \<Rightarrow> bool" where
  "cdnPathIncluded path included excluded =
     (if list_ex (\<lambda>pattern. cdnPathPatternMatches pattern path) excluded then False
      else list_ex (\<lambda>pattern. cdnPathPatternMatches pattern path) included)"

definition validateCacheControl :: "string \<Rightarrow> unit res" where
  "validateCacheControl value =
     and_then (refuse (ContainsAny value [chr_cr, chr_lf]) ''cache_control cannot contain line breaks'') (\<lambda>_.
     and_then (refuse (length value > 256) ''cache_control is too long'') (\<lambda>_.
     refuse (Contains (ToLower value) ''private'' \<or> Contains (ToLower value) ''no-store'')
       ''cache_control must describe a public edge-cacheable response''))"

section \<open>Cleaned paths\<close>

lemma cleanParts_rooted:
  "''..'' \<notin> set stack \<Longrightarrow> ''..'' \<notin> set (cleanParts True stack parts)"
  by (induction True stack parts rule: cleanParts.induct) (auto split: list.splits)

lemma cleanParts_relative:
  assumes "stack = names @ replicate k ''..''" and "''..'' \<notin> set names"
  shows "\<exists>names' k'. cleanParts False stack parts = replicate k' ''..'' @ names' \<and> ''..'' \<notin> set names'"
  using assms
proof (induction parts arbitrary: stack names k)
  case Nil
  then have "cleanParts False stack [] = replicate k ''..'' @ rev names" by simp
  with Nil.prems(2) show ?case by (metis set_rev)
next
  case (Cons p parts)
  show ?case
  proof (cases "p = ''..''")
    case up: True
    show ?thesis
    proof (cases names)
      case Nil
      have "cleanParts False stack (p # parts) = cleanParts False (''..'' # stack) parts"
        using Nil Cons.prems(1) up by (cases k) simp_all
      moreover have "''..'' # stack = [] @ replicate (Suc k) ''..''" using Nil Cons.prems(1) by simp
      ultimately show ?thesis using Cons.IH [of "''..'' # stack" "[]" "Suc k"] by (simp del: cleanParts.simps)
    next
      case (Cons n names')
      with Cons.prems up have "cleanParts False stack (p # parts) = cleanParts False (names' @ replicate k ''..'') parts" by auto
      with Cons.IH [of "names' @ replicate k ''..''" names' k] Cons Cons.prems(2) show ?thesis by (simp del: cleanParts.simps)
    qed
  next
    case False
    show ?thesis
    proof (cases "p = [] \<or> p = ''.''")
      case True
      then have "cleanParts False stack (p # parts) = cleanParts False stack parts" by auto
      with Cons.IH [OF Cons.prems] show ?thesis by (simp del: cleanParts.simps)
    next
      case name: False
      then have "cleanParts False stack (p # parts) = cleanParts False (p # stack) parts" using False by simp
      moreover have "p # stack = (p # names) @ replicate k ''..''" "''..'' \<notin> set (p # names)" using Cons.prems False by simp_all
      ultimately show ?thesis using Cons.IH [of "p # stack" "p # names" k] by (simp del: cleanParts.simps)
    qed
  qed
qed

lemma cleanParts_plain:
  "list_all (\<lambda>p. CHR ''/'' \<notin> set p) stack \<Longrightarrow> list_all (\<lambda>p. CHR ''/'' \<notin> set p) parts \<Longrightarrow>
    list_all (\<lambda>p. CHR ''/'' \<notin> set p) (cleanParts rooted stack parts)"
  by (induction rooted stack parts rule: cleanParts.induct) (auto split: list.splits)

lemma cleanParts_nonempty:
  "list_all (\<lambda>p. p \<noteq> []) stack \<Longrightarrow> list_all (\<lambda>p. p \<noteq> []) (cleanParts rooted stack parts)"
  by (induction rooted stack parts rule: cleanParts.induct) (auto split: list.splits)

lemma Split_Join: "parts \<noteq> [] \<Longrightarrow> list_all (\<lambda>p. c \<notin> set p) parts \<Longrightarrow> Split c (Join [c] parts) = parts"
proof (induction parts)
  case (Cons p parts)
  show ?case
  proof (cases parts)
    case Nil
    with Cons.prems show ?thesis by (simp add: Split_id)
  next
    case (Cons q qs)
    with Cons.prems Cons.IH show ?thesis using Split_append_sep [of c p "Join [c] parts"] by simp
  qed
qed simp

text \<open>A path none of whose components is \<open>..\<close>.\<close>

definition confined :: "string \<Rightarrow> bool" where
  "confined path \<longleftrightarrow> ''..'' \<notin> set (Split CHR ''/'' path)"

lemma Split_slash_plain: "list_all (\<lambda>p. CHR ''/'' \<notin> set p) (Split CHR ''/'' s)"
  using notin_Split by (auto simp: list_all_iff)

lemma Clean_rooted:
  assumes "HasPrefix path ''/''"
  shows "confined (Clean path)"
proof -
  let ?parts = "cleanParts True [] (Split CHR ''/'' path)"
  have clean: "Clean path = ''/'' @ Join ''/'' ?parts" using assms by (simp add: Clean_def)
  have plain: "list_all (\<lambda>p. CHR ''/'' \<notin> set p) ?parts" by (rule cleanParts_plain) (simp_all add: Split_slash_plain)
  have none: "''..'' \<notin> set ?parts" by (rule cleanParts_rooted) simp
  show ?thesis
  proof (cases "?parts = []")
    case True
    then have "Clean path = ''/''" by (simp add: clean)
    moreover have "confined ''/''" by code_simp
    ultimately show ?thesis by simp
  next
    case False
    then have "Split CHR ''/'' (Clean path) = [] # ?parts"
      using Split_append_sep [of "CHR ''/''" "[]" "Join ''/'' ?parts"] Split_Join [OF False plain] by (simp add: clean)
    with none show ?thesis by (simp add: confined_def)
  qed
qed

lemma Clean_relative:
  assumes "\<not> HasPrefix path ''/''" and "\<not> HasPrefix (Clean path) ''../''"
  shows "Clean path = ''..'' \<or> confined (Clean path)"
proof -
  let ?parts = "cleanParts False [] (Split CHR ''/'' path)"
  have clean: "Clean path = (if ?parts = [] then ''.'' else Join ''/'' ?parts)" using assms by (simp add: Clean_def)
  have plain: "list_all (\<lambda>p. CHR ''/'' \<notin> set p) ?parts" by (rule cleanParts_plain) (simp_all add: Split_slash_plain)
  obtain names k where parts: "?parts = replicate k ''..'' @ names" "''..'' \<notin> set names"
    using cleanParts_relative [of "[]" "[]" 0] by fastforce
  show "Clean path = ''..'' \<or> confined (Clean path)"
  proof (cases "?parts = []")
    case True
    moreover have "confined ''.''" by code_simp
    ultimately show ?thesis by (simp add: clean)
  next
    case False
    then have split: "Split CHR ''/'' (Clean path) = ?parts" using Split_Join [OF False plain] by (simp add: clean)
    show ?thesis
    proof (cases k)
      case 0
      with parts split show ?thesis by (simp add: confined_def)
    next
      case (Suc j)
      show ?thesis
      proof (cases "replicate j ''..'' @ names")
        case Nil
        with parts Suc clean False show ?thesis by simp
      next
        case (Cons y ys)
        with parts Suc clean False have "Clean path = ''..'' @ ''/'' @ Join ''/'' (y # ys)" by simp
        then have "HasPrefix (Clean path) ''../''" by (simp add: HasPrefix_def)
        with assms(2) show ?thesis by simp
      qed
    qed
  qed
qed

section \<open>Configuration maps that hold no credentials\<close>

definition handles_ok :: "(string, string) gomap \<Rightarrow> bool" where
  "handles_ok m \<longleftrightarrow> list_all (\<lambda>(k, v). isSensitiveProjectConfigKey k \<longrightarrow> v = [] \<or> secret_handle v) m"

lemma set_AList_update: "(a, b) \<in> set (AList.update k v m) \<Longrightarrow> (a, b) = (k, v) \<or> (a, b) \<in> set m"
  by (induction m) (auto split: if_splits)

lemma configLoop_trimmed:
  "configLoop out values = Inr config \<Longrightarrow> \<forall>(k, v) \<in> set out. TrimSpace v = v \<Longrightarrow> \<forall>(k, v) \<in> set config. TrimSpace v = v"
proof (induction out "values" rule: configLoop.induct)
  case (2 out key v vs)
  let ?out = "AList.update (ToLower (TrimSpace key)) (TrimSpace v) out"
  have "\<forall>(k, v) \<in> set ?out. TrimSpace v = v" using 2(3) set_AList_update by fastforce
  moreover from 2(2) have "configLoop ?out vs = Inr config" by (simp add: Let_def split: if_split_asm)
  ultimately show ?case using 2(1) [OF refl] 2(2) by (auto simp: Let_def split: if_split_asm)
qed simp

lemma validated_handles:
  "validateReplicationSecretHandles config = Inr () \<Longrightarrow> (k, v) \<in> set config \<Longrightarrow> isSensitiveProjectConfigKey k \<Longrightarrow>
    TrimSpace v = [] \<or> secret_handle (TrimSpace v)"
  by (induction config rule: validateReplicationSecretHandles.induct) (auto simp: Let_def split: if_split_asm)

lemma validated_config:
  assumes "normalizeConfigValues values = Inr config" and "validateReplicationSecretHandles config = Inr ()"
  shows "handles_ok config"
proof -
  have "\<forall>(k, v) \<in> set config. TrimSpace v = v" using configLoop_trimmed assms(1) by (fastforce simp: normalizeConfigValues_def)
  with validated_handles [OF assms(2)] show ?thesis by (fastforce simp: handles_ok_def list_all_iff)
qed

lemma validated_headers:
  "validateHookHeaders headers = Inr () \<Longrightarrow> handles_ok headers \<and>
    list_all (\<lambda>(k, v). isSensitiveAuthHookHeaderKey k \<longrightarrow> v = [] \<or> secret_handle v) headers"
  by (induction headers rule: validateHookHeaders.induct)
    (auto simp: handles_ok_def isSensitiveAuthHookHeaderKey_def split: if_split_asm)

end
