(* ===== verification/Child_Normalize.thy ===== *)
theory Child_Normalize
  imports Child_Values
begin

text \<open>
  From the request for a resource to the record that is stored: the \<open>normalize...\<close> functions of internal/control/store.go,
  one per kind of resource, with their defaults and their checks in the order of the source. Below them what a
  request that gets through cannot contain.
\<close>

section \<open>Auth clients and hooks\<close>

definition normalizeProjectAuthClient :: "ChildCtx \<Rightarrow> string \<Rightarrow> ProjectAuthClientInput \<Rightarrow> ProjectAuthClient res" where
  "normalizeProjectAuthClient c ref input =
     (let name = TrimSpace (ACIn_Name input) in
      and_then (refuse (name = []) ''auth client name is required'') (\<lambda>_.
      and_then (refuse (length name > 96 \<or> ContainsAny name [chr_cr, chr_lf, chr_tab]) ''auth client name is invalid'') (\<lambda>_.
      let clientID = or_default (''oauth_'' @ cc_newClientID c) (TrimSpace (ACIn_ClientID input)) in
      and_then (refuse (length clientID > 128 \<or> ContainsAny clientID [chr_cr, chr_lf, chr_tab, CHR '' '']) ''client_id is invalid'') (\<lambda>_.
      let secretHandle = TrimSpace (ACIn_ClientSecretHandle input) in
      and_then (refuse (ACIn_Confidential input \<and> secretHandle = []) ''confidential auth clients require client_secret_handle'') (\<lambda>_.
      and_then (refuse (secretHandle \<noteq> [] \<and> \<not> secret_handle secretHandle) ''client_secret_handle must use a secret:// handle'') (\<lambda>_.
      and_then (normalizeOAuthRedirectURIs c (ACIn_RedirectURIs input)) (\<lambda>redirectURIs.
      and_then (normalizeOAuthValues ''grant_type'' (ACIn_GrantTypes input) allowedOAuthClientGrantTypes [''authorization_code'', ''refresh_token'']) (\<lambda>grantTypes.
      and_then (normalizeOAuthValues ''scope'' (ACIn_Scopes input) allowedOAuthClientScopes [''openid'', ''profile'', ''email'']) (\<lambda>scopes.
      Inr \<lparr>AC_ID = cc_newID c, AC_ProjectRef = ref, AC_Name = name, AC_ClientID = clientID, AC_ClientSecretHandle = secretHandle,
        AC_RedirectURIs = redirectURIs, AC_GrantTypes = grantTypes, AC_Scopes = scopes, AC_Confidential = ACIn_Confidential input,
        AC_Status = ''registered'', AC_Message = ''OAuth 2.1 client registration recorded'', AC_CreatedAt = cc_now c, AC_UpdatedAt = cc_now c\<rparr>)))))))))"

definition hookFunction :: "string \<Rightarrow> string res" where
  "hookFunction edgeFunction = (if edgeFunction = [] then Inr [] else normalizeFunctionName edgeFunction)"

definition normalizeProjectAuthHook :: "ChildCtx \<Rightarrow> string \<Rightarrow> ProjectAuthHookInput \<Rightarrow> ProjectAuthHook res" where
  "normalizeProjectAuthHook c ref input =
     (let hookType = ToLower (TrimSpace (AHIn_HookType input)) in
      and_then (refuse (hookType = []) ''hook_type is required'') (\<lambda>_.
      and_then (refuse (\<not> List.member allowedAuthHookTypes hookType) ''unsupported auth hook_type'') (\<lambda>_.
      let targetURI = TrimSpace (AHIn_TargetURI input) in
      and_then (hookFunction (TrimSpace (AHIn_EdgeFunction input))) (\<lambda>edgeFunction.
      and_then (refuse (AHIn_Enabled input \<and> targetURI = [] \<and> edgeFunction = []) ''enabled auth hooks require target_uri or edge_function'') (\<lambda>_.
      and_then (if targetURI = [] then Inr () else httpURL c ''target_uri'' targetURI) (\<lambda>_.
      let secretHandle = TrimSpace (AHIn_SecretHandle input) in
      and_then (refuse (secretHandle \<noteq> [] \<and> \<not> secret_handle secretHandle) ''secret_handle must use a secret:// handle'') (\<lambda>_.
      and_then (normalizeConfigValues (AHIn_Headers input)) (\<lambda>headers.
      and_then (validateHookHeaders headers) (\<lambda>_.
      let timeoutMS = or_default_int 5000 (AHIn_TimeoutMS input) in
      and_then (refuse (timeoutMS < 100 \<or> timeoutMS > 30000) ''timeout_ms must be between 100 and 30000'') (\<lambda>_.
      let retryAttempts = AHIn_RetryAttempts input in
      and_then (refuse (retryAttempts < 0 \<or> retryAttempts > 5) ''retry_attempts must be between 0 and 5'') (\<lambda>_.
      Inr \<lparr>AH_ID = cc_newID c, AH_ProjectRef = ref, AH_HookType = hookType, AH_Enabled = AHIn_Enabled input, AH_TargetURI = targetURI,
        AH_EdgeFunction = edgeFunction, AH_SecretHandle = secretHandle, AH_Headers = headers, AH_RuntimeSecret = [], AH_RuntimeHeaders = [], AH_TimeoutMS = timeoutMS,
        AH_RetryAttempts = retryAttempts, AH_Status = (if AHIn_Enabled input then ''configured'' else ''disabled''),
        AH_Message = (if AHIn_Enabled input then ''Auth hook declaration ready for runtime sync'' else ''Auth hook declaration recorded''),
        AH_CreatedAt = cc_now c, AH_UpdatedAt = cc_now c\<rparr>)))))))))))"

section \<open>Edge functions\<close>

definition normalizeFunctionEntrypoint :: "string \<Rightarrow> string res" where
  "normalizeFunctionEntrypoint entrypoint =
     (let cleaned = Clean (or_default ''index.ts'' (TrimSpace (slashes entrypoint))) in
      and_then (refuse (cleaned = ''.'' \<or> cleaned = ''..'' \<or> HasPrefix cleaned ''../'' \<or> HasPrefix cleaned ''/'' \<or> Contains cleaned ''/../'')
        ''function entrypoint must be a relative path inside the function directory'') (\<lambda>_. Inr cleaned))"

definition deployedFunction :: "ChildCtx \<Rightarrow> string \<Rightarrow> ProjectFunctionInput \<Rightarrow> ProjectFunction res" where
  "deployedFunction c ref input =
     and_then (normalizeFunctionName (FnIn_Name input)) (\<lambda>name.
     let source = TrimSpace (FnIn_Source input) in
     and_then (refuse (source = []) ''function source is required'') (\<lambda>_.
     and_then (normalizeFunctionEntrypoint (or_default ''index.ts'' (TrimSpace (FnIn_Entrypoint input)))) (\<lambda>entrypoint.
     and_then (normalizeFunctionSecretValues (FnIn_Secrets input)) (\<lambda>secrets.
     Inr \<lparr>Fn_ID = cc_newID c, Fn_ProjectRef = ref, Fn_Name = name, Fn_Version = 1, Fn_Entrypoint = entrypoint, Fn_VerifyJWT = FnIn_VerifyJWT input,
       Fn_Status = ''deployed'', Fn_SourceHash = HexEncode (cc_sha256 c source), Fn_SourceBytes = int (length source),
       Fn_Secrets = maskFunctionSecrets secrets, Fn_CreatedAt = cc_now c, Fn_UpdatedAt = cc_now c\<rparr>))))"

definition normalizeProjectFunctionRegion :: "ChildCtx \<Rightarrow> string \<Rightarrow> ProjectFunctionRegionInput \<Rightarrow> ProjectFunctionRegion res" where
  "normalizeProjectFunctionRegion c ref input =
     and_then (normalizeFunctionName (FRIn_FunctionName input)) (\<lambda>functionName.
     let region = or_default ''local'' (ToLower (TrimSpace (FRIn_Region input))) in
     and_then (refuse (length region > 64 \<or> ContainsAny region [CHR '' '', chr_cr, chr_lf, chr_tab, CHR ''/'', CHR 0x5C]) ''region is invalid'') (\<lambda>_.
     let routingPolicy = or_default ''nearest'' (ToLower (TrimSpace (FRIn_RoutingPolicy input))) in
     and_then (refuse (\<not> List.member [''nearest'', ''primary'', ''weighted''] routingPolicy)
       ''routing_policy must be nearest, primary, or weighted'') (\<lambda>_.
     let projectRef = ToLower (TrimSpace ref) in
     Inr \<lparr>FR_ID = cc_newID c, FR_ProjectRef = projectRef, FR_FunctionName = functionName, FR_HostID = TrimSpace (FRIn_HostID input),
       FR_Region = region, FR_RoutingPolicy = routingPolicy,
       FR_InvocationURL = ''https://'' @ functionName @ ''.'' @ region @ ''.'' @ projectRef @ ''.functions.internal'',
       FR_Status = ''configured'', FR_Message = ''regional invocation declaration recorded'', FR_CreatedAt = cc_now c, FR_UpdatedAt = cc_now c\<rparr>)))"

definition mountPrefix :: "string \<Rightarrow> string res" where
  "mountPrefix input =
     (let prefix = TrimSpace (slashes input) in
      if prefix = [] then Inr []
      else let prefix = Clean prefix; prefix = (if prefix = ''.'' then [] else prefix) in
        and_then (refuse (HasPrefix prefix ''../'' \<or> HasPrefix prefix ''/'' \<or> Contains prefix ''/../'') ''prefix must be relative to the bucket'')
          (\<lambda>_. Inr prefix))"

definition mountPathOf :: "string \<Rightarrow> string \<Rightarrow> string res" where
  "mountPathOf bucketName input =
     (let cleaned = Clean (or_default (''/mnt/'' @ bucketName) (TrimSpace (slashes input))) in
      and_then (refuse (\<not> HasPrefix cleaned ''/mnt/'' \<or> cleaned = ''/mnt'' \<or> Contains cleaned ''/../'')
        ''mount_path must be an absolute path under /mnt'') (\<lambda>_. Inr cleaned))"

definition normalizeProjectFunctionStorageMount :: "ChildCtx \<Rightarrow> string \<Rightarrow> ProjectFunctionStorageMountInput \<Rightarrow> ProjectFunctionStorageMount res" where
  "normalizeProjectFunctionStorageMount c ref input =
     and_then (normalizeFunctionName (FMIn_FunctionName input)) (\<lambda>functionName.
     let bucketName = ToLower (TrimSpace (FMIn_BucketName input)) in
     and_then (refuse (\<not> refPattern bucketName) ''bucket name must be 3-64 lowercase letters, numbers, or dashes'') (\<lambda>_.
     and_then (mountPathOf bucketName (FMIn_MountPath input)) (\<lambda>cleaned.
     and_then (mountPrefix (FMIn_Prefix input)) (\<lambda>prefix.
     let envAlias = or_default (ToUpper (map (\<lambda>c. if c = CHR ''-'' then CHR ''_'' else c) (functionName @ ''_'' @ bucketName @ ''_MOUNT'')))
           (ToUpper (TrimSpace (FMIn_EnvAlias input))) in
     and_then (refuse (\<not> envAliasPattern envAlias) ''env_alias must be an uppercase environment variable name'') (\<lambda>_.
     Inr \<lparr>FM_ID = cc_newID c, FM_ProjectRef = ToLower (TrimSpace ref), FM_FunctionName = functionName, FM_BucketName = bucketName,
       FM_MountPath = cleaned, FM_ReadOnly = FMIn_ReadOnly input, FM_Prefix = prefix, FM_EnvAlias = envAlias, FM_Status = ''configured'',
       FM_Message = ''function storage mount declaration recorded'', FM_CreatedAt = cc_now c, FM_UpdatedAt = cc_now c\<rparr>)))))"

section \<open>Replication pipelines and embedding jobs\<close>

definition normalizeReplicationPipeline :: "ChildCtx \<Rightarrow> string \<Rightarrow> ProjectReplicationPipelineInput \<Rightarrow> ProjectReplicationPipeline res" where
  "normalizeReplicationPipeline c ref input =
     and_then (normalizeReplicationPipelineType (RPIn_Type input)) (\<lambda>pipelineType.
     and_then (normalizeReplicationDestination (RPIn_Destination input)) (\<lambda>destination.
     and_then (normalizeConfigValues (RPIn_Config input)) (\<lambda>config.
     let sourceSchema = or_default ''public'' (ToLower (TrimSpace (RPIn_SourceSchema input)));
         sourceTable = ToLower (TrimSpace (RPIn_SourceTable input)) in
     and_then (refuse (sourceTable = []) ''source_table is required'') (\<lambda>_.
     and_then (refuse (\<not> identifierPattern sourceSchema \<or> \<not> identifierPattern sourceTable)
       ''source schema and table must be simple Postgres identifiers'') (\<lambda>_.
     let name = or_default (sourceTable @ ''-'' @ pipelineType) (ToLower (TrimSpace (RPIn_Name input))) in
     and_then (refuse (\<not> refPattern name) ''pipeline name must be 3-64 lowercase letters, numbers, or dashes'') (\<lambda>_.
     let destinationURI = TrimSpace (RPIn_DestinationURI input) in
     and_then (validateReplicationDestinationConfig destination destinationURI config) (\<lambda>_.
     and_then (validateReplicationSecretHandles config) (\<lambda>_.
     let credentialHandle = TrimSpace (RPIn_CredentialHandle input) in
     and_then (refuse (credentialHandle \<noteq> [] \<and> \<not> secret_handle credentialHandle) ''credential_handle must be a secret:// handle'') (\<lambda>_.
     Inr \<lparr>RP_ID = cc_newID c, RP_ProjectRef = ref, RP_Name = name, RP_Type = pipelineType, RP_SourceSchema = sourceSchema,
       RP_SourceTable = sourceTable, RP_Destination = destination, RP_DestinationURI = destinationURI, RP_CredentialHandle = credentialHandle,
       RP_Config = config, RP_Status = ''configured'', RP_Message = ''declarative replication pipeline recorded'',
       RP_CreatedAt = cc_now c, RP_UpdatedAt = cc_now c\<rparr>)))))))))"

definition normalizeProjectEmbeddingJob :: "ChildCtx \<Rightarrow> string \<Rightarrow> ProjectEmbeddingJobInput \<Rightarrow> ProjectEmbeddingJob res" where
  "normalizeProjectEmbeddingJob c ref input =
     (let provider = or_default ''openai'' (ToLower (TrimSpace (EJIn_Provider input))) in
      and_then (refuse (\<not> List.member allowedEmbeddingProviders provider) ''unsupported embedding provider'') (\<lambda>_.
      let sourceSchema = or_default ''public'' (ToLower (TrimSpace (EJIn_SourceSchema input)));
          sourceTable = ToLower (TrimSpace (EJIn_SourceTable input));
          sourceColumn = ToLower (TrimSpace (EJIn_SourceColumn input));
          primaryKeyColumn = or_default ''id'' (ToLower (TrimSpace (EJIn_PrimaryKeyColumn input)));
          destinationTable = or_default (sourceTable @ ''_embeddings'') (ToLower (TrimSpace (EJIn_DestinationTable input)));
          destinationColumn = or_default ''embedding'' (ToLower (TrimSpace (EJIn_DestinationColumn input))) in
      and_then (check (list_all identifierPattern [sourceSchema, sourceTable, sourceColumn, primaryKeyColumn, destinationTable, destinationColumn])
        (ErrOther ''must be a simple Postgres identifier'')) (\<lambda>_.
      let name = or_default (sourceTable @ ''-'' @ sourceColumn @ ''-embeddings'') (ToLower (TrimSpace (EJIn_Name input))) in
      and_then (refuse (\<not> refPattern name) ''embedding job name must be 3-64 lowercase letters, numbers, or dashes'') (\<lambda>_.
      let model = or_default (if provider = ''openai'' then ''text-embedding-3-small'' else ''default'') (TrimSpace (EJIn_Model input));
          dimension = or_default_int 1536 (EJIn_Dimension input) in
      and_then (refuse (dimension < 1 \<or> dimension > 65535) ''dimension must be between 1 and 65535'') (\<lambda>_.
      let batchSize = or_default_int 100 (EJIn_BatchSize input) in
      and_then (refuse (batchSize < 1 \<or> batchSize > 10000) ''batch_size must be between 1 and 10000'') (\<lambda>_.
      let schedule = or_default ''manual'' (TrimSpace (EJIn_Schedule input)) in
      and_then (refuse (length schedule > 120 \<or> ContainsAny schedule [chr_cr, chr_lf]) ''schedule is invalid'') (\<lambda>_.
      Inr \<lparr>EJ_ID = cc_newID c, EJ_ProjectRef = ref, EJ_Name = name, EJ_SourceSchema = sourceSchema, EJ_SourceTable = sourceTable,
        EJ_SourceColumn = sourceColumn, EJ_PrimaryKeyColumn = primaryKeyColumn, EJ_DestinationTable = destinationTable,
        EJ_DestinationColumn = destinationColumn, EJ_Provider = provider, EJ_Model = model, EJ_Dimension = dimension, EJ_Schedule = schedule,
        EJ_BatchSize = batchSize, EJ_Status = ''configured'', EJ_Message = ''automatic embedding pipeline recorded'',
        EJ_CreatedAt = cc_now c, EJ_UpdatedAt = cc_now c\<rparr>)))))))"

section \<open>The database of the project\<close>

definition handles_only :: "(string, string) gomap \<Rightarrow> (string, string) gomap res" where
  "handles_only values =
     and_then (normalizeConfigValues values) (\<lambda>config. and_then (validateReplicationSecretHandles config) (\<lambda>_. Inr config))"

definition defaultExtensionSchema :: "string \<Rightarrow> string" where
  "defaultExtensionSchema name = (if name = ''pg_graphql'' then ''graphql'' else if name = ''supabase_vault'' then ''vault'' else ''extensions'')"

definition defaultDatabaseExtension :: "ChildCtx \<Rightarrow> string \<Rightarrow> string \<Rightarrow> ProjectDatabaseExtension" where
  "defaultDatabaseExtension c ref name =
     \<lparr>DX_ID = ''default:'' @ name, DX_ProjectRef = ref, DX_Name = name, DX_Schema = defaultExtensionSchema name, DX_Version = [],
      DX_Enabled = True, DX_Status = ''enabled'', DX_Message = ''enabled by Compose init SQL'', DX_CreatedAt = cc_now c, DX_UpdatedAt = cc_now c\<rparr>"

definition normalizeProjectDatabaseExtension :: "ChildCtx \<Rightarrow> string \<Rightarrow> string \<Rightarrow> ProjectDatabaseExtensionInput \<Rightarrow> ProjectDatabaseExtension res" where
  "normalizeProjectDatabaseExtension c ref name input =
     (let normalizedName = ToLower (TrimSpace name) in
      and_then (refuse (\<not> extensionNamePattern normalizedName) ''database extension name must be a valid extension identifier'') (\<lambda>_.
      and_then (refuse (\<not> List.member defaultDatabaseExtensionOrder normalizedName) ''unsupported database extension'') (\<lambda>_.
      let schema = or_default (defaultExtensionSchema normalizedName) (ToLower (TrimSpace (DXIn_Schema input))) in
      and_then (validateDatabaseIdentifier ''extension schema'' schema) (\<lambda>_.
      let version = TrimSpace (DXIn_Version input) in
      and_then (refuse (ContainsAny version [chr_cr, chr_lf, chr_tab, CHR '' ''] \<or> length version > 64) ''extension version is invalid'') (\<lambda>_.
      let enabled = (case DXIn_Enabled input of None \<Rightarrow> True | Some b \<Rightarrow> b) in
      Inr \<lparr>DX_ID = cc_newID c, DX_ProjectRef = ref, DX_Name = normalizedName, DX_Schema = schema, DX_Version = version, DX_Enabled = enabled,
        DX_Status = (if enabled then ''enabled'' else ''disabled''),
        DX_Message = (if enabled then ''database extension enabled'' else ''database extension disabled''),
        DX_CreatedAt = cc_now c, DX_UpdatedAt = cc_now c\<rparr>)))))"

definition normalizeProjectDatabaseCronJob :: "ChildCtx \<Rightarrow> string \<Rightarrow> ProjectDatabaseCronJobInput \<Rightarrow> ProjectDatabaseCronJob res" where
  "normalizeProjectDatabaseCronJob c ref input =
     (let name = ToLower (TrimSpace (CJIn_Name input)) in
      and_then (refuse (\<not> refPattern name) ''database cron job name must be 3-64 lowercase letters, numbers, or dashes'') (\<lambda>_.
      let schedule = TrimSpace (CJIn_Schedule input) in
      and_then (validateCronSchedule schedule) (\<lambda>_.
      let command = TrimSpace (CJIn_Command input) in
      and_then (refuse (command = []) ''database cron command is required'') (\<lambda>_.
      and_then (refuse (length command > 8192 \<or> ContainsAny command [chr_nul]) ''database cron command is invalid'') (\<lambda>_.
      let database = or_default ''postgres'' (ToLower (TrimSpace (CJIn_Database input))) in
      and_then (validateDatabaseIdentifier ''cron database'' database) (\<lambda>_.
      let username = or_default ''postgres'' (ToLower (TrimSpace (CJIn_Username input))) in
      and_then (validateDatabaseIdentifier ''cron username'' username) (\<lambda>_.
      let timeoutSeconds = or_default_int 60 (CJIn_TimeoutSeconds input) in
      and_then (refuse (timeoutSeconds < 1 \<or> timeoutSeconds > 86400) ''timeout_seconds must be between 1 and 86400'') (\<lambda>_.
      let maxRuntimeSeconds = or_default_int timeoutSeconds (CJIn_MaxRuntimeSeconds input) in
      and_then (refuse (maxRuntimeSeconds < 1 \<or> maxRuntimeSeconds > 86400) ''max_runtime_seconds must be between 1 and 86400'') (\<lambda>_.
      and_then (handles_only (CJIn_Metadata input)) (\<lambda>metadata.
      Inr \<lparr>CJ_ID = cc_newID c, CJ_ProjectRef = ref, CJ_Name = name, CJ_Schedule = schedule, CJ_Command = command, CJ_Database = database,
        CJ_Username = username, CJ_Active = CJIn_Active input, CJ_TimeoutSeconds = timeoutSeconds, CJ_MaxRuntimeSeconds = maxRuntimeSeconds,
        CJ_Metadata = metadata, CJ_Status = (if CJIn_Active input then ''scheduled'' else ''paused''),
        CJ_Message = (if CJIn_Active input then ''pg_cron job declaration ready for runtime sync'' else ''pg_cron job declaration paused''),
        CJ_CreatedAt = cc_now c, CJ_UpdatedAt = cc_now c\<rparr>))))))))))"

definition normalizeProjectDatabaseQueue :: "ChildCtx \<Rightarrow> string \<Rightarrow> ProjectDatabaseQueueInput \<Rightarrow> ProjectDatabaseQueue res" where
  "normalizeProjectDatabaseQueue c ref input =
     (let name = ToLower (TrimSpace (DQIn_Name input)) in
      and_then (refuse (\<not> refPattern name) ''database queue name must be 3-64 lowercase letters, numbers, or dashes'') (\<lambda>_.
      let schema = or_default ''pgmq'' (ToLower (TrimSpace (DQIn_Schema input))) in
      and_then (validateDatabaseIdentifier ''queue schema'' schema) (\<lambda>_.
      let retentionMinutes = or_default_int 1440 (DQIn_RetentionMinutes input) in
      and_then (refuse (retentionMinutes < 1 \<or> retentionMinutes > 525600) ''retention_minutes must be between 1 and 525600'') (\<lambda>_.
      let visibilityTimeoutSeconds = or_default_int 30 (DQIn_VisibilityTimeoutSeconds input) in
      and_then (refuse (visibilityTimeoutSeconds < 1 \<or> visibilityTimeoutSeconds > 86400) ''visibility_timeout_seconds must be between 1 and 86400'') (\<lambda>_.
      let maxRetries = or_default_int 5 (DQIn_MaxRetries input) in
      and_then (refuse (maxRetries < 0 \<or> maxRetries > 1000) ''max_retries must be between 0 and 1000'') (\<lambda>_.
      let deadLetterQueue = ToLower (TrimSpace (DQIn_DeadLetterQueue input)) in
      and_then (refuse (deadLetterQueue \<noteq> [] \<and> \<not> refPattern deadLetterQueue) ''dead_letter_queue must be 3-64 lowercase letters, numbers, or dashes'') (\<lambda>_.
      and_then (refuse (deadLetterQueue \<noteq> [] \<and> deadLetterQueue = name) ''dead_letter_queue must be different from name'') (\<lambda>_.
      and_then (handles_only (DQIn_Metadata input)) (\<lambda>metadata.
      Inr \<lparr>DQ_ID = cc_newID c, DQ_ProjectRef = ref, DQ_Name = name, DQ_Schema = schema, DQ_RetentionMinutes = retentionMinutes,
        DQ_VisibilityTimeoutSeconds = visibilityTimeoutSeconds, DQ_MaxRetries = maxRetries, DQ_DeadLetterQueue = deadLetterQueue,
        DQ_Active = DQIn_Active input, DQ_Metadata = metadata, DQ_Status = (if DQIn_Active input then ''ready'' else ''paused''),
        DQ_Message = (if DQIn_Active input then ''pgmq queue declaration ready for runtime sync'' else ''pgmq queue declaration paused''),
        DQ_CreatedAt = cc_now c, DQ_UpdatedAt = cc_now c\<rparr>)))))))))"

definition normalizeProjectDatabaseWebhook :: "ChildCtx \<Rightarrow> string \<Rightarrow> ProjectDatabaseWebhookInput \<Rightarrow> ProjectDatabaseWebhook res" where
  "normalizeProjectDatabaseWebhook c ref input =
     (let name = ToLower (TrimSpace (DWIn_Name input)) in
      and_then (refuse (\<not> refPattern name) ''database webhook name must be 3-64 lowercase letters, numbers, or dashes'') (\<lambda>_.
      let schema = or_default ''public'' (ToLower (TrimSpace (DWIn_Schema input))) in
      and_then (validateDatabaseIdentifier ''webhook schema'' schema) (\<lambda>_.
      let table = ToLower (TrimSpace (DWIn_Table input)) in
      and_then (validateDatabaseIdentifier ''webhook table'' table) (\<lambda>_.
      and_then (normalizeDatabaseWebhookEvents (DWIn_Events input)) (\<lambda>events.
      let endpoint = TrimSpace (DWIn_Endpoint input) in
      and_then (refuse (case cc_urlParse c endpoint of None \<Rightarrow> True | Some (scheme, host) \<Rightarrow> scheme \<noteq> ''https'' \<or> host = [])
        ''webhook endpoint must be an https URL'') (\<lambda>_.
      and_then (refuse (length endpoint > 2048 \<or> ContainsAny endpoint [chr_cr, chr_lf, chr_tab]) ''webhook endpoint is invalid'') (\<lambda>_.
      let httpMethod = or_default ''POST'' (ToUpper (TrimSpace (DWIn_HTTPMethod input))) in
      and_then (refuse (\<not> List.member [''POST'', ''PUT'', ''PATCH''] httpMethod) ''webhook http_method must be POST, PUT, or PATCH'') (\<lambda>_.
      and_then (handles_only (DWIn_Headers input)) (\<lambda>headers.
      let timeoutSeconds = or_default_int 10 (DWIn_TimeoutSeconds input) in
      and_then (refuse (timeoutSeconds < 1 \<or> timeoutSeconds > 300) ''timeout_seconds must be between 1 and 300'') (\<lambda>_.
      let retryCount = or_default_int 3 (DWIn_RetryCount input) in
      and_then (refuse (retryCount < 0 \<or> retryCount > 25) ''retry_count must be between 0 and 25'') (\<lambda>_.
      and_then (handles_only (DWIn_Metadata input)) (\<lambda>metadata.
      Inr \<lparr>DW_ID = cc_newID c, DW_ProjectRef = ref, DW_Name = name, DW_Schema = schema, DW_Table = table, DW_Events = events,
        DW_Endpoint = endpoint, DW_HTTPMethod = httpMethod, DW_Headers = headers, DW_TimeoutSeconds = timeoutSeconds, DW_RetryCount = retryCount,
        DW_Active = DWIn_Active input, DW_Metadata = metadata, DW_Status = (if DWIn_Active input then ''ready'' else ''paused''),
        DW_Message = (if DWIn_Active input then ''database webhook declaration ready for runtime sync'' else ''database webhook declaration paused''),
        DW_CreatedAt = cc_now c, DW_UpdatedAt = cc_now c\<rparr>))))))))))))"

definition normalizeProjectDatabaseSchema :: "ChildCtx \<Rightarrow> string \<Rightarrow> ProjectDatabaseSchemaInput \<Rightarrow> ProjectDatabaseSchema res" where
  "normalizeProjectDatabaseSchema c ref input =
     (let name = ToLower (TrimSpace (DSIn_Name input)) in
      and_then (refuse (\<not> refPattern name) ''database schema name must be 3-64 lowercase letters, numbers, or dashes'') (\<lambda>_.
      let version = TrimSpace (DSIn_Version input) in
      and_then (refuse (version = []) ''database schema version is required'') (\<lambda>_.
      and_then (refuse (length version > 128 \<or> ContainsAny version [chr_cr, chr_lf, chr_tab, CHR '' '']) ''database schema version is invalid'') (\<lambda>_.
      let schemaName = or_default ''public'' (ToLower (TrimSpace (DSIn_Schema input))) in
      and_then (validateDatabaseIdentifier ''database schema'' schemaName) (\<lambda>_.
      let sql = TrimSpace (DSIn_SQL input) in
      and_then (refuse (sql = []) ''database schema sql is required'') (\<lambda>_.
      and_then (refuse (length sql > 262144 \<or> ContainsAny sql [chr_nul]) ''database schema sql is invalid'') (\<lambda>_.
      let applyOrder = DSIn_ApplyOrder input in
      and_then (refuse (applyOrder < 0 \<or> applyOrder > 1000000) ''apply_order must be between 0 and 1000000'') (\<lambda>_.
      and_then (handles_only (DSIn_Metadata input)) (\<lambda>metadata.
      Inr \<lparr>DS_ID = cc_newID c, DS_ProjectRef = ref, DS_Name = name, DS_Version = version, DS_Schema = schemaName, DS_SQL = sql,
        DS_Checksum = HexEncode (cc_sha256 c sql), DS_ApplyOrder = applyOrder, DS_Active = DSIn_Active input, DS_Metadata = metadata,
        DS_Status = (if DSIn_Active input then ''pending'' else ''paused''),
        DS_Message = (if DSIn_Active input then ''declarative schema migration ready for runtime sync'' else ''declarative schema migration paused''),
        DS_CreatedAt = cc_now c, DS_UpdatedAt = cc_now c\<rparr>)))))))))"

definition normalizeProjectDatabaseRole :: "ChildCtx \<Rightarrow> string \<Rightarrow> ProjectDatabaseRoleInput \<Rightarrow> ProjectDatabaseRole res" where
  "normalizeProjectDatabaseRole c ref input =
     (let name = ToLower (TrimSpace (DRIn_Name input)) in
      and_then (validateDatabaseIdentifier ''database role name'' name) (\<lambda>_.
      and_then (refuse (List.member reservedDatabaseRoles name \<or> HasPrefix name ''pg_'') ''database role is reserved by the upstream stack'') (\<lambda>_.
      let inherit = (case DRIn_Inherit input of None \<Rightarrow> True | Some b \<Rightarrow> b);
          connectionLimit = DRIn_ConnectionLimit input in
      and_then (refuse (connectionLimit < -1) ''connection_limit must be -1 or greater'') (\<lambda>_.
      let passwordHandle = TrimSpace (DRIn_PasswordSecretHandle input) in
      and_then (refuse (DRIn_Login input \<and> passwordHandle = []) ''login database roles require password_secret_handle'') (\<lambda>_.
      and_then (refuse (passwordHandle \<noteq> [] \<and> \<not> secret_handle passwordHandle) ''password_secret_handle must use a secret:// handle'') (\<lambda>_.
      and_then (normalizeDatabaseRoleMembers (DRIn_MemberOf input) name) (\<lambda>memberOf.
      and_then (normalizeDatabaseSchemaGrants (DRIn_SchemaGrants input)) (\<lambda>schemaGrants.
      and_then (handles_only (DRIn_Metadata input)) (\<lambda>metadata.
      Inr \<lparr>DR_ID = cc_newID c, DR_ProjectRef = ref, DR_Name = name, DR_Login = DRIn_Login input, DR_Inherit = inherit,
        DR_BypassRLS = DRIn_BypassRLS input, DR_ConnectionLimit = connectionLimit, DR_PasswordSecretHandle = passwordHandle, DR_MemberOf = memberOf,
        DR_SchemaGrants = schemaGrants, DR_Metadata = metadata, DR_Status = ''configured'', DR_Message = ''database role declaration recorded'',
        DR_CreatedAt = cc_now c, DR_UpdatedAt = cc_now c\<rparr>)))))))))"

section \<open>Buckets, networks and the CDN\<close>

definition normalizeProjectStorageBucket :: "ChildCtx \<Rightarrow> string \<Rightarrow> ProjectStorageBucketInput \<Rightarrow> ProjectStorageBucket res" where
  "normalizeProjectStorageBucket c ref input =
     (let name = ToLower (TrimSpace (SBIn_Name input)) in
      and_then (refuse (\<not> refPattern name) ''storage bucket name must be 3-64 lowercase letters, numbers, or dashes'') (\<lambda>_.
      and_then (refuse (SBIn_FileSizeLimit input < 0) ''file_size_limit cannot be negative'') (\<lambda>_.
      let fileSizeLimit = or_default_int (50 * 1024 * 1024) (SBIn_FileSizeLimit input) in
      and_then (mimeLoop [] (SBIn_AllowedMimeTypes input)) (\<lambda>mimeTypes.
      let cacheControl = or_default ''3600'' (TrimSpace (SBIn_CacheControl input)) in
      and_then (refuse (ContainsAny cacheControl [chr_cr, chr_lf] \<or> length cacheControl > 128) ''cache_control is invalid'') (\<lambda>_.
      and_then (handles_only (SBIn_Metadata input)) (\<lambda>metadata.
      Inr \<lparr>SB_ID = cc_newID c, SB_ProjectRef = ref, SB_Name = name, SB_Public = SBIn_Public input, SB_FileSizeLimit = fileSizeLimit,
        SB_AllowedMimeTypes = sort_slice (<) mimeTypes, SB_CacheControl = cacheControl, SB_AvifAutodetection = SBIn_AvifAutodetection input,
        SB_Metadata = metadata, SB_Status = ''configured'', SB_Message = ''storage bucket declaration recorded'',
        SB_CreatedAt = cc_now c, SB_UpdatedAt = cc_now c\<rparr>))))))"

definition normalizeProjectVectorBucket :: "ChildCtx \<Rightarrow> string \<Rightarrow> ProjectVectorBucketInput \<Rightarrow> ProjectVectorBucket res" where
  "normalizeProjectVectorBucket c ref input =
     (let name = ToLower (TrimSpace (VBIn_Name input)) in
      and_then (refuse (\<not> refPattern name) ''vector bucket name must be 3-64 lowercase letters, numbers, or dashes'') (\<lambda>_.
      let dimension = or_default_int 1536 (VBIn_Dimension input) in
      and_then (refuse (dimension < 1 \<or> dimension > 65535) ''dimension must be between 1 and 65535'') (\<lambda>_.
      let distance = or_default ''cosine'' (ToLower (TrimSpace (VBIn_Distance input))) in
      and_then (refuse (\<not> List.member allowedVectorBucketDistances distance) ''unsupported vector distance'') (\<lambda>_.
      let indexMethod = or_default ''hnsw'' (ToLower (TrimSpace (VBIn_IndexMethod input))) in
      and_then (refuse (\<not> List.member allowedVectorBucketIndexes indexMethod) ''unsupported vector index method'') (\<lambda>_.
      let backend = or_default ''postgres'' (ToLower (TrimSpace (VBIn_StorageBackend input))) in
      and_then (refuse (\<not> List.member allowedVectorBucketBackends backend) ''unsupported vector bucket backend'') (\<lambda>_.
      let storageURI = TrimSpace (VBIn_StorageURI input) in
      and_then (refuse (backend = ''s3'' \<and> storageURI = []) ''s3 vector bucket requires storage_uri'') (\<lambda>_.
      and_then (handles_only (VBIn_Metadata input)) (\<lambda>metadata.
      Inr \<lparr>VB_ID = cc_newID c, VB_ProjectRef = ref, VB_Name = name, VB_Dimension = dimension, VB_Distance = distance, VB_IndexMethod = indexMethod,
        VB_StorageBackend = backend, VB_StorageURI = storageURI, VB_Metadata = metadata, VB_Status = ''configured'',
        VB_Message = ''vector bucket declaration recorded'', VB_CreatedAt = cc_now c, VB_UpdatedAt = cc_now c\<rparr>))))))))"

definition validateAnalyticsStorageURI :: "ChildCtx \<Rightarrow> string \<Rightarrow> unit res" where
  "validateAnalyticsStorageURI c storageURI =
     (let invalid = ErrOther ''storage_uri is invalid'' in
      case cc_urlParse c storageURI of
        None \<Rightarrow> Inl invalid
      | Some (scheme, host) \<Rightarrow>
          if scheme = [] then Inl invalid
          else refuse (\<not> List.member [''s3'', ''gs'', ''az'', ''file''] (ToLower scheme)) ''storage_uri must use s3://, gs://, az://, or file://'')"

definition normalizeProjectAnalyticsBucket :: "ChildCtx \<Rightarrow> string \<Rightarrow> ProjectAnalyticsBucketInput \<Rightarrow> ProjectAnalyticsBucket res" where
  "normalizeProjectAnalyticsBucket c ref input =
     (let name = ToLower (TrimSpace (ABIn_Name input)) in
      and_then (refuse (\<not> refPattern name) ''analytics bucket name must be 3-64 lowercase letters, numbers, or dashes'') (\<lambda>_.
      let storageURI = TrimSpace (ABIn_StorageURI input) in
      and_then (refuse (storageURI = []) ''storage_uri is required'') (\<lambda>_.
      and_then (validateAnalyticsStorageURI c storageURI) (\<lambda>_.
      let catalogURI = TrimSpace (ABIn_CatalogURI input) in
      and_then (refuse (catalogURI \<noteq> [] \<and> (case cc_urlParse c catalogURI of None \<Rightarrow> True | Some (scheme, host) \<Rightarrow> scheme = []))
        ''catalog_uri is invalid'') (\<lambda>_.
      let warehouse = or_default name (TrimSpace (ABIn_Warehouse input)) in
      and_then (refuse (ContainsAny warehouse [chr_cr, chr_lf, chr_tab] \<or> length warehouse > 128) ''warehouse is invalid'') (\<lambda>_.
      let credentialHandle = TrimSpace (ABIn_CredentialHandle input) in
      and_then (refuse (credentialHandle \<noteq> [] \<and> \<not> secret_handle credentialHandle) ''credential_handle must be a secret:// handle'') (\<lambda>_.
      let formatVersion = or_default_int 2 (ABIn_FormatVersion input) in
      and_then (refuse (formatVersion \<noteq> 1 \<and> formatVersion \<noteq> 2) ''format_version must be 1 or 2'') (\<lambda>_.
      let partitioning = TrimSpace (ABIn_Partitioning input) in
      and_then (refuse (ContainsAny partitioning [chr_cr, chr_lf] \<or> length partitioning > 256) ''partitioning is invalid'') (\<lambda>_.
      let retentionDays = ABIn_RetentionDays input in
      and_then (refuse (retentionDays < 0 \<or> retentionDays > 3650) ''retention_days must be between 0 and 3650'') (\<lambda>_.
      let compactionSchedule = or_default ''manual'' (TrimSpace (ABIn_CompactionSchedule input)) in
      and_then (refuse (ContainsAny compactionSchedule [chr_cr, chr_lf, chr_tab] \<or> length compactionSchedule > 128) ''compaction_schedule is invalid'') (\<lambda>_.
      and_then (handles_only (ABIn_Metadata input)) (\<lambda>metadata.
      Inr \<lparr>AB_ID = cc_newID c, AB_ProjectRef = ref, AB_Name = name, AB_StorageURI = storageURI, AB_CatalogURI = catalogURI, AB_Warehouse = warehouse,
        AB_CredentialHandle = credentialHandle, AB_FormatVersion = formatVersion, AB_Partitioning = partitioning, AB_RetentionDays = retentionDays,
        AB_CompactionSchedule = compactionSchedule, AB_Metadata = metadata, AB_Status = ''configured'',
        AB_Message = ''Iceberg analytics bucket declaration recorded'', AB_CreatedAt = cc_now c, AB_UpdatedAt = cc_now c\<rparr>))))))))))))"

definition normalizeProjectNetworkConnection :: "ChildCtx \<Rightarrow> string \<Rightarrow> ProjectNetworkConnectionInput \<Rightarrow> ProjectNetworkConnection res" where
  "normalizeProjectNetworkConnection c ref input =
     (let name = or_default (ToLower (TrimSpace (NCIn_Provider input)) @ ''-'' @ ToLower (TrimSpace (NCIn_Type input))) (ToLower (TrimSpace (NCIn_Name input))) in
      and_then (refuse (\<not> refPattern name) ''network connection name must be 3-64 lowercase letters, numbers, or dashes'') (\<lambda>_.
      let connectionType = or_default ''operator_network'' (ToLower (TrimSpace (NCIn_Type input))) in
      and_then (refuse (\<not> List.member allowedNetworkConnectionTypes connectionType) ''unsupported network connection type'') (\<lambda>_.
      let provider = or_default ''operator'' (ToLower (TrimSpace (NCIn_Provider input))) in
      and_then (refuse (\<not> List.member allowedNetworkConnectionProviders provider) ''unsupported network connection provider'') (\<lambda>_.
      and_then (normalizeNetworkCIDRs c (NCIn_CIDRs input)) (\<lambda>cidrs.
      and_then (handles_only (NCIn_Config input)) (\<lambda>config.
      let region = ToLower (TrimSpace (NCIn_Region input)) in
      and_then (refuse (length region > 64 \<or> ContainsAny region [CHR '' '', chr_cr, chr_lf, chr_tab]) ''region is invalid'') (\<lambda>_.
      let endpointID = TrimSpace (NCIn_EndpointID input) in
      and_then (refuse (length endpointID > 160 \<or> ContainsAny endpointID [chr_cr, chr_lf, chr_tab]) ''endpoint_id is invalid'') (\<lambda>_.
      Inr \<lparr>NC_ID = cc_newID c, NC_ProjectRef = ref, NC_Name = name, NC_Type = connectionType, NC_Provider = provider, NC_Region = region,
        NC_CIDRs = cidrs, NC_EndpointID = endpointID, NC_Config = config, NC_Status = ''requested'',
        NC_Message = ''private network connection declaration recorded'', NC_CreatedAt = cc_now c, NC_UpdatedAt = cc_now c\<rparr>))))))))"

definition publicStoragePaths :: string where "publicStoragePaths = ''/storage/v1/object/public/*''"

definition defaultProjectCDNPolicy :: "ChildCtx \<Rightarrow> string \<Rightarrow> ProjectCDNPolicy" where
  "defaultProjectCDNPolicy c ref =
     \<lparr>CP_ProjectRef = ref, CP_Enabled = False, CP_BrowserTTLSeconds = 3600, CP_EdgeTTLSeconds = 3600, CP_StaleWhileRevalidateSeconds = 60,
      CP_IncludedPaths = [publicStoragePaths], CP_ExcludedPaths = [], CP_SmartRevalidation = False,
      CP_CacheControl = ''public, max-age=3600, s-maxage=3600, stale-while-revalidate=60'', CP_UpdatedAt = cc_now c\<rparr>"

definition cacheControlOf :: "int \<Rightarrow> int \<Rightarrow> int \<Rightarrow> string" where
  "cacheControlOf browserTTL edgeTTL staleTTL =
     ''public, max-age='' @ itoa (nat browserTTL) @ '', s-maxage='' @ itoa (nat edgeTTL) @
     (if staleTTL > 0 then '', stale-while-revalidate='' @ itoa (nat staleTTL) else [])"

definition normalizeProjectCDNPolicy :: "ChildCtx \<Rightarrow> string \<Rightarrow> ProjectCDNPolicyInput \<Rightarrow> ProjectCDNPolicy res" where
  "normalizeProjectCDNPolicy c ref input =
     (let ref = ToLower (TrimSpace ref);
          browserTTL = or_default_int 3600 (CPIn_BrowserTTLSeconds input);
          edgeTTL = or_default_int browserTTL (CPIn_EdgeTTLSeconds input);
          staleTTL = or_default_int 60 (CPIn_StaleWhileRevalidateSeconds input) in
      and_then (refuse (list_ex (\<lambda>value. value < 0 \<or> value > 31536000) [browserTTL, edgeTTL, staleTTL]) ''must be between 0 and 31536000'') (\<lambda>_.
      and_then (normalizeCDNPaths (CPIn_IncludedPaths input) True) (\<lambda>included.
      let included = (if included = [] then [publicStoragePaths] else included) in
      and_then (normalizeCDNPaths (CPIn_ExcludedPaths input) True) (\<lambda>excluded.
      let cacheControl = or_default (cacheControlOf browserTTL edgeTTL staleTTL) (TrimSpace (CPIn_CacheControl input)) in
      and_then (validateCacheControl cacheControl) (\<lambda>_.
      Inr \<lparr>CP_ProjectRef = ref, CP_Enabled = CPIn_Enabled input, CP_BrowserTTLSeconds = browserTTL, CP_EdgeTTLSeconds = edgeTTL,
        CP_StaleWhileRevalidateSeconds = staleTTL, CP_IncludedPaths = included, CP_ExcludedPaths = excluded,
        CP_SmartRevalidation = CPIn_SmartRevalidation input, CP_CacheControl = cacheControl, CP_UpdatedAt = cc_now c\<rparr>)))))"

definition storageEventTypes :: "string list" where
  "storageEventTypes = [''object_created'', ''object_updated'', ''object_deleted'', ''object_changed'']"

definition normalizeCDNObjectEvent :: "CDNObjectEventInput \<Rightarrow> CDNObjectEventInput res" where
  "normalizeCDNObjectEvent input =
     (let eventID = TrimSpace (CE_EventID input) in
      and_then (refuse (length eventID > 160 \<or> ContainsAny eventID [chr_cr, chr_lf, chr_tab]) ''event_id is invalid'') (\<lambda>_.
      let eventType = or_default ''object_changed'' (ToLower (TrimSpace (CE_EventType input))) in
      and_then (refuse (\<not> List.member storageEventTypes eventType) ''unsupported storage event_type'') (\<lambda>_.
      let bucket = ToLower (TrimSpace (CE_Bucket input)) in
      and_then (refuse (bucket \<noteq> [] \<and> \<not> refPattern bucket) ''bucket must be 3-64 lowercase letters, numbers, or dashes'') (\<lambda>_.
      let objectPath = trim_slashes (TrimSpace (CE_ObjectPath input)) in
      and_then (refuse (objectPath = []) ''object_path is required'') (\<lambda>_.
      and_then (refuse (ContainsAny objectPath [chr_cr, chr_lf, chr_tab] \<or> Contains objectPath ''..'') ''object_path is invalid'') (\<lambda>_.
      and_then (refuse (length objectPath > 512) ''object_path is too long'') (\<lambda>_.
      Inr (input\<lparr>CE_EventID := eventID, CE_Bucket := bucket, CE_ObjectPath := objectPath, CE_EventType := eventType\<rparr>))))))))"

section \<open>What gets through\<close>

text \<open>A check that passed, and a step of a chain of checks that passed.\<close>

lemma refuse_Inr [simp]: "refuse b msg = Inr u \<longleftrightarrow> \<not> b"
  by (simp add: refuse_def check_def)

lemma handles_only_Inr: "handles_only values = Inr config \<Longrightarrow> handles_ok config"
  unfolding handles_only_def by (elim and_then_InrE) (auto intro: validated_config)

lemma entrypoint_confined:
  assumes "normalizeFunctionEntrypoint entrypoint = Inr e"
  shows "confined e \<and> \<not> HasPrefix e ''/''"
proof -
  let ?p = "or_default ''index.ts'' (TrimSpace (slashes entrypoint))"
  from assms have e: "e = Clean ?p" "Clean ?p \<noteq> ''..''" "\<not> HasPrefix (Clean ?p) ''../''" "\<not> HasPrefix (Clean ?p) ''/''"
    by (auto simp: normalizeFunctionEntrypoint_def Let_def and_then_eq_Inr_iff)
  have "\<not> HasPrefix ?p ''/''"
  proof
    assume "HasPrefix ?p ''/''"
    then have "HasPrefix (Clean ?p) ''/''" by (simp add: Clean_def HasPrefix_def)
    with e(4) show False ..
  qed
  from Clean_relative [OF this e(3)] e show ?thesis by simp
qed

lemma mountPath_confined:
  assumes "mountPathOf bucketName input = Inr path"
  shows "confined path \<and> HasPrefix path ''/mnt/''"
proof -
  let ?p = "or_default (''/mnt/'' @ bucketName) (TrimSpace (slashes input))"
  from assms have p: "path = Clean ?p" "HasPrefix (Clean ?p) ''/mnt/''"
    by (auto simp: mountPathOf_def Let_def and_then_eq_Inr_iff)
  have "HasPrefix ?p ''/''"
  proof (rule ccontr)
    assume rel: "\<not> HasPrefix ?p ''/''"
    let ?parts = "cleanParts False [] (Split CHR ''/'' ?p)"
    have plain: "list_all (\<lambda>q. CHR ''/'' \<notin> set q) ?parts" by (rule cleanParts_plain) (simp_all add: Split_slash_plain)
    have nonempty: "list_all (\<lambda>q. q \<noteq> []) ?parts" by (rule cleanParts_nonempty) simp
    show False
    proof (cases ?parts)
      case Nil
      then have "Clean ?p = ''.''" using rel by (simp add: Clean_def)
      with p(2) show False by (simp add: HasPrefix_def)
    next
      case (Cons q qs)
      then have "Clean ?p = Join ''/'' (q # qs)" using rel by (simp add: Clean_def)
      moreover obtain x xs where "q = x # xs" using nonempty Cons by (cases q) simp_all
      moreover from this have "x \<noteq> CHR ''/''" using plain Cons by auto
      ultimately show False using p(2) by (cases qs) (auto simp: HasPrefix_def)
    qed
  qed
  from Clean_rooted [OF this] p show ?thesis by simp
qed

lemma mountPrefix_confined:
  assumes "mountPrefix input = Inr prefix"
  shows "prefix = ''..'' \<or> confined prefix \<and> \<not> HasPrefix prefix ''/''"
proof -
  let ?p = "TrimSpace (slashes input)"
  have "confined []" by code_simp
  moreover have "Clean ?p = ''..'' \<or> confined (Clean ?p)" if "\<not> HasPrefix (Clean ?p) ''../''" "\<not> HasPrefix (Clean ?p) ''/''"
  proof -
    have "\<not> HasPrefix ?p ''/''" using that(2) by (auto simp: Clean_def HasPrefix_def)
    from Clean_relative [OF this that(1)] show ?thesis .
  qed
  ultimately show ?thesis using assms
    by (auto simp: mountPrefix_def Let_def and_then_eq_Inr_iff HasPrefix_def split: if_split_asm)
qed

lemma add_new_set [simp]: "set (add_new x out) = insert x (set out)"
  by (auto simp: add_new_def)

lemma allowedLoop_allowed:
  "allowedLoop allowed msg out parts = Inr ys \<Longrightarrow> list_all (List.member allowed) out \<Longrightarrow> list_all (List.member allowed) ys"
  by (induction allowed msg out parts rule: allowedLoop.induct) (auto simp: Let_def list_all_iff split: if_split_asm)

lemma list_all_sort: "list_all P (sort_slice lt xs) \<longleftrightarrow> list_all P xs"
  by (simp add: list_all_iff slice.set_srt)

lemma normalizeOAuthValues_allowed:
  "normalizeOAuthValues label vs allowed ds = Inr ys \<Longrightarrow> list_all (List.member allowed) ys"
  unfolding normalizeOAuthValues_def
  by (elim and_then_InrE) (auto simp: list_all_sort dest: allowedLoop_allowed)

lemma sort_slice_is_Nil: "sort_slice lt xs = [] \<longleftrightarrow> xs = []"
  by (metis slice.set_srt set_empty)

lemma normalizeOAuthRedirectURIs_some: "normalizeOAuthRedirectURIs c vs = Inr ys \<Longrightarrow> ys \<noteq> []"
  unfolding normalizeOAuthRedirectURIs_def by (elim and_then_InrE) (auto simp: sort_slice_is_Nil)

lemma webhookEventLoop_known:
  "webhookEventLoop out evs = Inr ys \<Longrightarrow> list_all (List.member webhookEvents) out \<Longrightarrow> list_all (List.member webhookEvents) ys"
  by (induction out evs rule: webhookEventLoop.induct) (auto simp: Let_def list_all_iff split: if_split_asm)

lemma normalizeDatabaseWebhookEvents_known:
  "normalizeDatabaseWebhookEvents evs = Inr ys \<Longrightarrow> ys \<noteq> [] \<and> list_all (List.member webhookEvents) ys"
  unfolding normalizeDatabaseWebhookEvents_def
  by (elim and_then_InrE) (auto simp: list_all_sort sort_slice_is_Nil dest: webhookEventLoop_known)

lemma memberLoop_others:
  "memberLoop role out vs = Inr ys \<Longrightarrow> list_all (\<lambda>r. identifierPattern r \<and> r \<noteq> role) out \<Longrightarrow> list_all (\<lambda>r. identifierPattern r \<and> r \<noteq> role) ys"
  by (induction role out vs rule: memberLoop.induct)
    (auto simp: Let_def list_all_iff validateDatabaseIdentifier_def check_def and_then_eq_Inr_iff split: if_split_asm)

lemma normalizeDatabaseRoleMembers_others:
  "normalizeDatabaseRoleMembers vs role = Inr ys \<Longrightarrow> list_all (\<lambda>r. identifierPattern r \<and> r \<noteq> role) ys"
  unfolding normalizeDatabaseRoleMembers_def
  by (elim and_then_InrE) (auto simp: list_all_sort dest: memberLoop_others)

lemma mimeLoop_types:
  "mimeLoop out vs = Inr ys \<Longrightarrow> list_all (\<lambda>m. length m \<le> 128 \<and> Contains m ''/'') out \<Longrightarrow> list_all (\<lambda>m. length m \<le> 128 \<and> Contains m ''/'') ys"
  by (induction out vs rule: mimeLoop.induct) (auto simp: Let_def list_all_iff split: if_split_asm)

definition edge_path :: "string \<Rightarrow> bool" where
  "edge_path p \<longleftrightarrow> HasPrefix p ''/'' \<and> \<not> Contains p ''..'' \<and> length p \<le> 256"

lemma cdnPathLoop_paths: "cdnPathLoop out ps = Inr ys \<Longrightarrow> list_all edge_path out \<Longrightarrow> list_all edge_path ys"
  by (induction out ps rule: cdnPathLoop.induct) (auto simp: Let_def list_all_iff edge_path_def split: if_split_asm)

lemma normalizeCDNPaths_paths:
  "normalizeCDNPaths ps allow = Inr ys \<Longrightarrow> list_all edge_path ys \<and> (\<not> allow \<longrightarrow> ys \<noteq> [])"
  unfolding normalizeCDNPaths_def by (elim and_then_InrE) (auto dest: cdnPathLoop_paths)

lemma normalizeNetworkCIDRs_some: "normalizeNetworkCIDRs c input = Inr ys \<Longrightarrow> ys \<noteq> []"
  unfolding normalizeNetworkCIDRs_def by (elim and_then_InrE) auto

lemma one_of_Inr [simp]: "one_of allowed msg x = Inr y \<longleftrightarrow> List.member allowed x \<and> y = x"
  by (auto simp: one_of_def check_def and_then_eq_Inr_iff)

lemma validateDatabaseIdentifier_Inr [simp]: "validateDatabaseIdentifier label x = Inr u \<longleftrightarrow> identifierPattern x"
  by (simp add: validateDatabaseIdentifier_def check_def)

lemma Contains_middle: "Contains (p @ q @ r) q"
proof (induction p)
  case Nil
  have "HasPrefix (q @ r) q" by (simp add: HasPrefix_iff)
  then show ?case by (cases "q @ r") simp_all
qed simp

lemma maskSecret_stars: "Contains (maskSecret v) ''********''"
proof -
  have "replicate 12 CHR ''*'' = ''********'' @ ''****''" by (simp add: numeral_eq_Suc)
  then show ?thesis
    using Contains_middle [of "take 6 v" "''********''" "''****'' @ drop (length v - 4) v"] Contains_middle [of "[]" "''********''" "[]"]
    by (simp add: maskSecret_def)
qed

lemma function_secrets_masked: "list_all (\<lambda>(k, v). Contains v ''********'') (maskFunctionSecrets m)"
  by (auto simp: maskFunctionSecrets_def list_all_iff maskSecret_stars)

text \<open>The mask of a secret of eleven characters leaves out only one of them.\<close>

lemma mask_leaves_one: "maskSecret ''hunter2-abc'' = ''hunter************-abc''"
  by code_simp

end
