(* ===== verification/Project_Children.thy ===== *)
theory Project_Children
  imports Child_Normalize Projects
begin

text \<open>
  The part of the in-memory store of internal/control/store.go that keeps the resources of the projects. \<open>ControlStore\<close>
  adds the tables of these resources to the \<open>MemoryStore\<close> of the other theories (one Go struct holds both). The
  operations list, create, replace and delete resources of one project; \<open>DeleteProject\<close> at the
  end is the whole of \<open>deleteProjectLocked\<close>, with the cleanup of every registered child resource
  (project_child_resources.go). The source repeats the same loop per resource; here the three loops (append unless the key is
  taken, replace or append, remove the first match) are defined once and the operations name the table and the key.
\<close>

section \<open>The tables\<close>

record ControlStore =
  cs_main :: MemoryStore
  cs_authClients :: "(string, ProjectAuthClient list) gomap"
  cs_authHooks :: "(string, ProjectAuthHook list) gomap"
  cs_functions :: "(string, ProjectFunction list) gomap"
  cs_functionRegions :: "(string, ProjectFunctionRegion list) gomap"
  cs_functionStorageMounts :: "(string, ProjectFunctionStorageMount list) gomap"
  cs_replicationPipelines :: "(string, ProjectReplicationPipeline list) gomap"
  cs_embeddingJobs :: "(string, ProjectEmbeddingJob list) gomap"
  cs_databaseExtensions :: "(string, ProjectDatabaseExtension list) gomap"
  cs_databaseCronJobs :: "(string, ProjectDatabaseCronJob list) gomap"
  cs_databaseQueues :: "(string, ProjectDatabaseQueue list) gomap"
  cs_databaseWebhooks :: "(string, ProjectDatabaseWebhook list) gomap"
  cs_databaseSchemas :: "(string, ProjectDatabaseSchema list) gomap"
  cs_databaseRoles :: "(string, ProjectDatabaseRole list) gomap"
  cs_storageBuckets :: "(string, ProjectStorageBucket list) gomap"
  cs_vectorBuckets :: "(string, ProjectVectorBucket list) gomap"
  cs_analyticsBuckets :: "(string, ProjectAnalyticsBucket list) gomap"
  cs_cdnInvalidations :: "(string, CDNInvalidation list) gomap"
  cs_networkConnections :: "(string, ProjectNetworkConnection list) gomap"
  cs_logDrains :: "(string, LogDrain list) gomap"
  cs_cdnPolicies :: "(string, ProjectCDNPolicy) gomap"

definition NewControlStore :: "PlatformDefaults \<Rightarrow> ControlStore" where
  "NewControlStore defaults =
     \<lparr>cs_main = NewMemoryStore defaults, cs_authClients = [], cs_authHooks = [], cs_functions = [], cs_functionRegions =
      [], cs_functionStorageMounts = [], cs_replicationPipelines = [], cs_embeddingJobs = [], cs_databaseExtensions = [],
      cs_databaseCronJobs = [], cs_databaseQueues = [], cs_databaseWebhooks = [], cs_databaseSchemas = [], cs_databaseRoles = [],
      cs_storageBuckets = [], cs_vectorBuckets = [], cs_analyticsBuckets = [], cs_cdnInvalidations = [], cs_networkConnections =
      [], cs_logDrains = [], cs_cdnPolicies = []\<rparr>"

definition cleanupChildren :: "string \<Rightarrow> ControlStore \<Rightarrow> ControlStore" where
  "cleanupChildren ref s = s\<lparr>
     cs_authClients := AList.delete ref (cs_authClients s),
     cs_authHooks := AList.delete ref (cs_authHooks s),
     cs_functions := AList.delete ref (cs_functions s),
     cs_functionRegions := AList.delete ref (cs_functionRegions s),
     cs_functionStorageMounts := AList.delete ref (cs_functionStorageMounts s),
     cs_replicationPipelines := AList.delete ref (cs_replicationPipelines s),
     cs_embeddingJobs := AList.delete ref (cs_embeddingJobs s),
     cs_databaseExtensions := AList.delete ref (cs_databaseExtensions s),
     cs_databaseCronJobs := AList.delete ref (cs_databaseCronJobs s),
     cs_databaseQueues := AList.delete ref (cs_databaseQueues s),
     cs_databaseWebhooks := AList.delete ref (cs_databaseWebhooks s),
     cs_databaseSchemas := AList.delete ref (cs_databaseSchemas s),
     cs_databaseRoles := AList.delete ref (cs_databaseRoles s),
     cs_storageBuckets := AList.delete ref (cs_storageBuckets s),
     cs_vectorBuckets := AList.delete ref (cs_vectorBuckets s),
     cs_analyticsBuckets := AList.delete ref (cs_analyticsBuckets s),
     cs_cdnInvalidations := AList.delete ref (cs_cdnInvalidations s),
     cs_networkConnections := AList.delete ref (cs_networkConnections s),
     cs_logDrains := AList.delete ref (cs_logDrains s),
     cs_cdnPolicies := AList.delete ref (cs_cdnPolicies s)\<rparr>"

section \<open>The loops\<close>

definition hasProject :: "string \<Rightarrow> ControlStore \<Rightarrow> unit res" where
  "hasProject ref s = and_then (lookup_or (ErrNotFound ''project'') (s_projects (cs_main s)) ref) (\<lambda>_. Inr ())"

definition listChildren :: "(ControlStore \<Rightarrow> (string, 'a list) gomap) \<Rightarrow> ('a \<Rightarrow> 'a \<Rightarrow> bool) \<Rightarrow> string \<Rightarrow> ControlStore \<Rightarrow> 'a list res" where
  "listChildren sel lt ref s = and_then (hasProject ref s) (\<lambda>_. Inr (sort_slice lt (get_or [] (sel s) ref)))"

type_synonym 'a table_update = "((string, 'a list) gomap \<Rightarrow> (string, 'a list) gomap) \<Rightarrow> ControlStore \<Rightarrow> ControlStore"

definition addChild :: "(ControlStore \<Rightarrow> (string, 'a list) gomap) \<Rightarrow> 'a table_update \<Rightarrow> ('a \<Rightarrow> bool) \<Rightarrow> string \<Rightarrow> 'a \<Rightarrow> ControlStore \<Rightarrow>
    (ControlStore \<times> 'a) res" where
  "addChild sel upd clash ref x s =
     and_then (hasProject ref s) (\<lambda>_.
     and_then (check (\<not> list_ex clash (get_or [] (sel s) ref)) (ErrConflict ''already exists'')) (\<lambda>_.
     Inr (upd (AList.update ref (get_or [] (sel s) ref @ [x])) s, x)))"

fun replaceFirst :: "('a \<Rightarrow> bool) \<Rightarrow> ('a \<Rightarrow> 'a) \<Rightarrow> 'a list \<Rightarrow> ('a list \<times> 'a) option" where
  "replaceFirst p f [] = None"
| "replaceFirst p f (e # es) = (if p e then Some (f e # es, f e) else map_option (\<lambda>(es', y). (e # es', y)) (replaceFirst p f es))"

definition upsertChild :: "(ControlStore \<Rightarrow> (string, 'a list) gomap) \<Rightarrow> 'a table_update \<Rightarrow> ('a \<Rightarrow> bool) \<Rightarrow> ('a \<Rightarrow> 'a) \<Rightarrow> string \<Rightarrow> 'a \<Rightarrow>
    ControlStore \<Rightarrow> (ControlStore \<times> 'a) res" where
  "upsertChild sel upd same keep ref x s =
     and_then (hasProject ref s) (\<lambda>_.
     case replaceFirst same keep (get_or [] (sel s) ref) of
       Some (xs, y) \<Rightarrow> Inr (upd (AList.update ref xs) s, y)
     | None \<Rightarrow> Inr (upd (AList.update ref (get_or [] (sel s) ref @ [x])) s, x))"

fun removeFirst :: "('a \<Rightarrow> bool) \<Rightarrow> 'a list \<Rightarrow> 'a list option" where
  "removeFirst p [] = None"
| "removeFirst p (e # es) = (if p e then Some es else map_option ((#) e) (removeFirst p es))"

definition deleteChild :: "(ControlStore \<Rightarrow> (string, 'a list) gomap) \<Rightarrow> 'a table_update \<Rightarrow> ('a \<Rightarrow> bool) \<Rightarrow> string \<Rightarrow> ControlStore \<Rightarrow>
    ControlStore res" where
  "deleteChild sel upd p ref s =
     and_then (hasProject ref s) (\<lambda>_.
     case removeFirst p (get_or [] (sel s) ref) of
       None \<Rightarrow> Inl (ErrNotFound ''child resource'')
     | Some xs \<Rightarrow> Inr (upd (AList.update ref xs) s))"

section \<open>The operations\<close>

definition ListProjectAuthClients :: "string \<Rightarrow> ControlStore \<Rightarrow> ProjectAuthClient list res" where
  "ListProjectAuthClients ref s = listChildren cs_authClients (\<lambda>a b. AC_Name a < AC_Name b) (ToLower (TrimSpace ref)) s"

definition CreateProjectAuthClient :: "ChildCtx \<Rightarrow> string \<Rightarrow> ProjectAuthClientInput \<Rightarrow> ControlStore \<Rightarrow> (ControlStore \<times> ProjectAuthClient) res" where
  "CreateProjectAuthClient c ref input s =
     (let ref = ToLower (TrimSpace ref) in
      and_then (normalizeProjectAuthClient c ref input) (\<lambda>x.
      addChild cs_authClients cs_authClients_update (\<lambda>e. AC_ClientID e = AC_ClientID x) ref x s))"

definition DeleteProjectAuthClient :: "string \<Rightarrow> string \<Rightarrow> ControlStore \<Rightarrow> ControlStore res" where
  "DeleteProjectAuthClient ref name s =
     (let ref = ToLower (TrimSpace ref); name = TrimSpace name in
      and_then (refuse (name = []) ''client_id is required'') (\<lambda>_. deleteChild cs_authClients cs_authClients_update (\<lambda>x. AC_ClientID x = name) ref s))"

definition ListProjectAuthHooks :: "string \<Rightarrow> ControlStore \<Rightarrow> ProjectAuthHook list res" where
  "ListProjectAuthHooks ref s = listChildren cs_authHooks (\<lambda>a b. AH_HookType a < AH_HookType b) (ToLower (TrimSpace ref)) s"

definition CreateProjectAuthHook :: "ChildCtx \<Rightarrow> string \<Rightarrow> ProjectAuthHookInput \<Rightarrow> ControlStore \<Rightarrow> (ControlStore \<times> ProjectAuthHook) res" where
  "CreateProjectAuthHook c ref input s =
     (let ref = ToLower (TrimSpace ref) in
      and_then (normalizeProjectAuthHook c ref input) (\<lambda>hook.
      upsertChild cs_authHooks cs_authHooks_update (\<lambda>e. AH_HookType e = AH_HookType hook)
        (\<lambda>e. hook\<lparr>AH_ID := AH_ID e, AH_CreatedAt := AH_CreatedAt e\<rparr>) ref hook s))"

definition DeleteProjectAuthHook :: "string \<Rightarrow> string \<Rightarrow> ControlStore \<Rightarrow> ControlStore res" where
  "DeleteProjectAuthHook ref name s =
     (let ref = ToLower (TrimSpace ref); name = ToLower (TrimSpace name) in
      and_then (refuse (name = []) ''hook_type is required'') (\<lambda>_. deleteChild cs_authHooks cs_authHooks_update (\<lambda>x. AH_HookType x = name) ref s))"

definition ListProjectFunctions :: "string \<Rightarrow> ControlStore \<Rightarrow> ProjectFunction list res" where
  "ListProjectFunctions ref s = listChildren cs_functions (\<lambda>a b. Fn_Name a < Fn_Name b) ref s"

definition DeployProjectFunction :: "ChildCtx \<Rightarrow> string \<Rightarrow> ProjectFunctionInput \<Rightarrow> ControlStore \<Rightarrow> (ControlStore \<times> ProjectFunction) res" where
  "DeployProjectFunction c ref input s =
     and_then (deployedFunction c ref input) (\<lambda>next.
     upsertChild cs_functions cs_functions_update (\<lambda>e. Fn_Name e = Fn_Name next)
       (\<lambda>e. next\<lparr>Fn_ID := Fn_ID e, Fn_Version := Fn_Version e + 1, Fn_CreatedAt := Fn_CreatedAt e\<rparr>) ref next s)"

definition removeFunctionRegions :: "string \<Rightarrow> ProjectFunctionRegion list \<Rightarrow> ProjectFunctionRegion list" where
  "removeFunctionRegions functionName regions = filter (\<lambda>r. \<not> (functionName \<noteq> [] \<and> FR_FunctionName r = functionName)) regions"

definition removeFunctionStorageMounts :: "string \<Rightarrow> string \<Rightarrow> ProjectFunctionStorageMount list \<Rightarrow> ProjectFunctionStorageMount list" where
  "removeFunctionStorageMounts functionName bucketName mounts =
     filter (\<lambda>m. \<not> (functionName \<noteq> [] \<and> FM_FunctionName m = functionName) \<and> \<not> (bucketName \<noteq> [] \<and> FM_BucketName m = bucketName)) mounts"

definition dropFunctionChildren :: "string \<Rightarrow> string \<Rightarrow> ControlStore \<Rightarrow> ControlStore" where
  "dropFunctionChildren ref name s = s\<lparr>
     cs_functionRegions := AList.update ref (removeFunctionRegions name (get_or [] (cs_functionRegions s) ref)) (cs_functionRegions s),
     cs_functionStorageMounts :=
       AList.update ref (removeFunctionStorageMounts name [] (get_or [] (cs_functionStorageMounts s) ref)) (cs_functionStorageMounts s)\<rparr>"

definition DeleteProjectFunction :: "string \<Rightarrow> string \<Rightarrow> ControlStore \<Rightarrow> ControlStore res" where
  "DeleteProjectFunction ref name s =
     and_then (normalizeFunctionName name) (\<lambda>normalized.
     and_then (deleteChild cs_functions cs_functions_update (\<lambda>x. Fn_Name x = normalized) ref s) (\<lambda>s.
     Inr (dropFunctionChildren ref normalized s)))"

definition ListProjectFunctionRegions :: "string \<Rightarrow> ControlStore \<Rightarrow> ProjectFunctionRegion list res" where
  "ListProjectFunctionRegions ref s = listChildren cs_functionRegions (\<lambda>a b. if FR_FunctionName a \<noteq> FR_FunctionName b then FR_FunctionName a < FR_FunctionName b else FR_Region a < FR_Region b) (ToLower (TrimSpace ref)) s"

definition functionExists :: "string \<Rightarrow> ProjectFunction list \<Rightarrow> bool" where
  "functionExists name functions \<longleftrightarrow> list_ex (\<lambda>f. Fn_Name f = name) functions"

definition storageBucketExists :: "string \<Rightarrow> ProjectStorageBucket list \<Rightarrow> bool" where
  "storageBucketExists name buckets \<longleftrightarrow> list_ex (\<lambda>b. SB_Name b = name) buckets"

definition CreateProjectFunctionRegion :: "ChildCtx \<Rightarrow> string \<Rightarrow> ProjectFunctionRegionInput \<Rightarrow> ControlStore \<Rightarrow> (ControlStore \<times> ProjectFunctionRegion) res" where
  "CreateProjectFunctionRegion c ref input s =
     and_then (normalizeProjectFunctionRegion c ref input) (\<lambda>region.
     and_then (hasProject ref s) (\<lambda>_.
     and_then (check (functionExists (FR_FunctionName region) (get_or [] (cs_functions s) ref)) (ErrNotFound ''function'')) (\<lambda>_.
     and_then (check (FR_HostID region = [] \<or> map_of (s_hosts (cs_main s)) (FR_HostID region) \<noteq> None) (ErrNotFound ''host'')) (\<lambda>_.
     upsertChild cs_functionRegions cs_functionRegions_update
       (\<lambda>e. FR_FunctionName e = FR_FunctionName region \<and> FR_Region e = FR_Region region)
       (\<lambda>e. region\<lparr>FR_ID := FR_ID e, FR_CreatedAt := FR_CreatedAt e\<rparr>) ref region s))))"

definition DeleteProjectFunctionRegion :: "string \<Rightarrow> string \<Rightarrow> ControlStore \<Rightarrow> ControlStore res" where
  "DeleteProjectFunctionRegion ref name s =
     (let ref = ToLower (TrimSpace ref); name = TrimSpace name in
      and_then (refuse (name = []) ''function region id is required'') (\<lambda>_. deleteChild cs_functionRegions cs_functionRegions_update (\<lambda>x. FR_ID x = name) ref s))"

definition ListProjectFunctionStorageMounts :: "string \<Rightarrow> ControlStore \<Rightarrow> ProjectFunctionStorageMount list res" where
  "ListProjectFunctionStorageMounts ref s = listChildren cs_functionStorageMounts (\<lambda>a b. if FM_FunctionName a \<noteq> FM_FunctionName b then FM_FunctionName a < FM_FunctionName b else FM_MountPath a < FM_MountPath b) (ToLower (TrimSpace ref)) s"

definition CreateProjectFunctionStorageMount :: "ChildCtx \<Rightarrow> string \<Rightarrow> ProjectFunctionStorageMountInput \<Rightarrow> ControlStore \<Rightarrow> (ControlStore \<times> ProjectFunctionStorageMount) res" where
  "CreateProjectFunctionStorageMount c ref input s =
     and_then (normalizeProjectFunctionStorageMount c ref input) (\<lambda>mount.
     and_then (hasProject ref s) (\<lambda>_.
     and_then (check (functionExists (FM_FunctionName mount) (get_or [] (cs_functions s) ref)) (ErrNotFound ''function'')) (\<lambda>_.
     and_then (check (storageBucketExists (FM_BucketName mount) (get_or [] (cs_storageBuckets s) ref)) (ErrNotFound ''storage bucket'')) (\<lambda>_.
     addChild cs_functionStorageMounts cs_functionStorageMounts_update
       (\<lambda>e. FM_FunctionName e = FM_FunctionName mount \<and> FM_MountPath e = FM_MountPath mount) ref mount s))))"

definition DeleteProjectFunctionStorageMount :: "string \<Rightarrow> string \<Rightarrow> ControlStore \<Rightarrow> ControlStore res" where
  "DeleteProjectFunctionStorageMount ref name s =
     (let ref = ToLower (TrimSpace ref); name = TrimSpace name in
      and_then (refuse (name = []) ''function storage mount id is required'') (\<lambda>_. deleteChild cs_functionStorageMounts cs_functionStorageMounts_update (\<lambda>x. FM_ID x = name) ref s))"

definition ListProjectReplicationPipelines :: "string \<Rightarrow> ControlStore \<Rightarrow> ProjectReplicationPipeline list res" where
  "ListProjectReplicationPipelines ref s = listChildren cs_replicationPipelines (\<lambda>a b. RP_CreatedAt a < RP_CreatedAt b) (ToLower (TrimSpace ref)) s"

definition CreateProjectReplicationPipeline :: "ChildCtx \<Rightarrow> string \<Rightarrow> ProjectReplicationPipelineInput \<Rightarrow> ControlStore \<Rightarrow> (ControlStore \<times> ProjectReplicationPipeline) res" where
  "CreateProjectReplicationPipeline c ref input s =
     (let ref = ToLower (TrimSpace ref) in
      and_then (normalizeReplicationPipeline c ref input) (\<lambda>x.
      addChild cs_replicationPipelines cs_replicationPipelines_update (\<lambda>e. RP_Name e = RP_Name x) ref x s))"

definition DeleteProjectReplicationPipeline :: "string \<Rightarrow> string \<Rightarrow> ControlStore \<Rightarrow> ControlStore res" where
  "DeleteProjectReplicationPipeline ref name s =
     (let ref = ToLower (TrimSpace ref); name = TrimSpace name in
      and_then (refuse (name = []) ''replication pipeline id is required'') (\<lambda>_. deleteChild cs_replicationPipelines cs_replicationPipelines_update (\<lambda>x. RP_ID x = name) ref s))"

definition ListProjectEmbeddingJobs :: "string \<Rightarrow> ControlStore \<Rightarrow> ProjectEmbeddingJob list res" where
  "ListProjectEmbeddingJobs ref s = listChildren cs_embeddingJobs (\<lambda>a b. EJ_CreatedAt a < EJ_CreatedAt b) (ToLower (TrimSpace ref)) s"

definition CreateProjectEmbeddingJob :: "ChildCtx \<Rightarrow> string \<Rightarrow> ProjectEmbeddingJobInput \<Rightarrow> ControlStore \<Rightarrow> (ControlStore \<times> ProjectEmbeddingJob) res" where
  "CreateProjectEmbeddingJob c ref input s =
     (let ref = ToLower (TrimSpace ref) in
      and_then (normalizeProjectEmbeddingJob c ref input) (\<lambda>x.
      addChild cs_embeddingJobs cs_embeddingJobs_update (\<lambda>e. EJ_Name e = EJ_Name x) ref x s))"

definition DeleteProjectEmbeddingJob :: "string \<Rightarrow> string \<Rightarrow> ControlStore \<Rightarrow> ControlStore res" where
  "DeleteProjectEmbeddingJob ref name s =
     (let ref = ToLower (TrimSpace ref); name = TrimSpace name in
      and_then (refuse (name = []) ''embedding job id is required'') (\<lambda>_. deleteChild cs_embeddingJobs cs_embeddingJobs_update (\<lambda>x. EJ_ID x = name) ref s))"

definition UpdateProjectDatabaseExtension :: "ChildCtx \<Rightarrow> string \<Rightarrow> string \<Rightarrow> ProjectDatabaseExtensionInput \<Rightarrow> ControlStore \<Rightarrow> (ControlStore \<times> ProjectDatabaseExtension) res" where
  "UpdateProjectDatabaseExtension c ref name input s =
     (let ref = ToLower (TrimSpace ref) in
      and_then (normalizeProjectDatabaseExtension c ref name input) (\<lambda>extension.
      upsertChild cs_databaseExtensions cs_databaseExtensions_update (\<lambda>e. DX_Name e = DX_Name extension)
        (\<lambda>e. extension\<lparr>DX_ID := DX_ID e, DX_CreatedAt := DX_CreatedAt e\<rparr>) ref extension s))"

definition ListProjectDatabaseCronJobs :: "string \<Rightarrow> ControlStore \<Rightarrow> ProjectDatabaseCronJob list res" where
  "ListProjectDatabaseCronJobs ref s = listChildren cs_databaseCronJobs (\<lambda>a b. CJ_Name a < CJ_Name b) (ToLower (TrimSpace ref)) s"

definition CreateProjectDatabaseCronJob :: "ChildCtx \<Rightarrow> string \<Rightarrow> ProjectDatabaseCronJobInput \<Rightarrow> ControlStore \<Rightarrow> (ControlStore \<times> ProjectDatabaseCronJob) res" where
  "CreateProjectDatabaseCronJob c ref input s =
     (let ref = ToLower (TrimSpace ref) in
      and_then (normalizeProjectDatabaseCronJob c ref input) (\<lambda>x.
      addChild cs_databaseCronJobs cs_databaseCronJobs_update (\<lambda>e. CJ_Name e = CJ_Name x) ref x s))"

definition DeleteProjectDatabaseCronJob :: "string \<Rightarrow> string \<Rightarrow> ControlStore \<Rightarrow> ControlStore res" where
  "DeleteProjectDatabaseCronJob ref name s =
     (let ref = ToLower (TrimSpace ref); name = ToLower (TrimSpace name) in
      and_then (refuse (\<not> refPattern name) ''database cron job name must be 3-64 lowercase letters, numbers, or dashes'') (\<lambda>_. deleteChild cs_databaseCronJobs cs_databaseCronJobs_update (\<lambda>x. CJ_Name x = name) ref s))"

definition ListProjectDatabaseQueues :: "string \<Rightarrow> ControlStore \<Rightarrow> ProjectDatabaseQueue list res" where
  "ListProjectDatabaseQueues ref s = listChildren cs_databaseQueues (\<lambda>a b. DQ_Name a < DQ_Name b) (ToLower (TrimSpace ref)) s"

definition CreateProjectDatabaseQueue :: "ChildCtx \<Rightarrow> string \<Rightarrow> ProjectDatabaseQueueInput \<Rightarrow> ControlStore \<Rightarrow> (ControlStore \<times> ProjectDatabaseQueue) res" where
  "CreateProjectDatabaseQueue c ref input s =
     (let ref = ToLower (TrimSpace ref) in
      and_then (normalizeProjectDatabaseQueue c ref input) (\<lambda>x.
      addChild cs_databaseQueues cs_databaseQueues_update (\<lambda>e. DQ_Name e = DQ_Name x) ref x s))"

definition DeleteProjectDatabaseQueue :: "string \<Rightarrow> string \<Rightarrow> ControlStore \<Rightarrow> ControlStore res" where
  "DeleteProjectDatabaseQueue ref name s =
     (let ref = ToLower (TrimSpace ref); name = ToLower (TrimSpace name) in
      and_then (refuse (\<not> refPattern name) ''database queue name must be 3-64 lowercase letters, numbers, or dashes'') (\<lambda>_. deleteChild cs_databaseQueues cs_databaseQueues_update (\<lambda>x. DQ_Name x = name) ref s))"

definition ListProjectDatabaseWebhooks :: "string \<Rightarrow> ControlStore \<Rightarrow> ProjectDatabaseWebhook list res" where
  "ListProjectDatabaseWebhooks ref s = listChildren cs_databaseWebhooks (\<lambda>a b. DW_Name a < DW_Name b) (ToLower (TrimSpace ref)) s"

definition CreateProjectDatabaseWebhook :: "ChildCtx \<Rightarrow> string \<Rightarrow> ProjectDatabaseWebhookInput \<Rightarrow> ControlStore \<Rightarrow> (ControlStore \<times> ProjectDatabaseWebhook) res" where
  "CreateProjectDatabaseWebhook c ref input s =
     (let ref = ToLower (TrimSpace ref) in
      and_then (normalizeProjectDatabaseWebhook c ref input) (\<lambda>x.
      addChild cs_databaseWebhooks cs_databaseWebhooks_update (\<lambda>e. DW_Name e = DW_Name x) ref x s))"

definition DeleteProjectDatabaseWebhook :: "string \<Rightarrow> string \<Rightarrow> ControlStore \<Rightarrow> ControlStore res" where
  "DeleteProjectDatabaseWebhook ref name s =
     (let ref = ToLower (TrimSpace ref); name = ToLower (TrimSpace name) in
      and_then (refuse (\<not> refPattern name) ''database webhook name must be 3-64 lowercase letters, numbers, or dashes'') (\<lambda>_. deleteChild cs_databaseWebhooks cs_databaseWebhooks_update (\<lambda>x. DW_Name x = name) ref s))"

definition ListProjectDatabaseSchemas :: "string \<Rightarrow> ControlStore \<Rightarrow> ProjectDatabaseSchema list res" where
  "ListProjectDatabaseSchemas ref s = listChildren cs_databaseSchemas (\<lambda>a b. if DS_ApplyOrder a = DS_ApplyOrder b then (if DS_Name a = DS_Name b then DS_Version a < DS_Version b else DS_Name a < DS_Name b) else DS_ApplyOrder a < DS_ApplyOrder b) (ToLower (TrimSpace ref)) s"

definition CreateProjectDatabaseSchema :: "ChildCtx \<Rightarrow> string \<Rightarrow> ProjectDatabaseSchemaInput \<Rightarrow> ControlStore \<Rightarrow> (ControlStore \<times> ProjectDatabaseSchema) res" where
  "CreateProjectDatabaseSchema c ref input s =
     (let ref = ToLower (TrimSpace ref) in
      and_then (normalizeProjectDatabaseSchema c ref input) (\<lambda>x.
      addChild cs_databaseSchemas cs_databaseSchemas_update (\<lambda>e. DS_Name e = DS_Name x \<and> DS_Version e = DS_Version x) ref x s))"

definition DeleteProjectDatabaseSchema :: "string \<Rightarrow> string \<Rightarrow> string \<Rightarrow> ControlStore \<Rightarrow> ControlStore res" where
  "DeleteProjectDatabaseSchema ref name version s =
     (let ref = ToLower (TrimSpace ref); name = ToLower (TrimSpace name); version = TrimSpace version in
      and_then (refuse (\<not> refPattern name) ''database schema name must be 3-64 lowercase letters, numbers, or dashes'') (\<lambda>_.
      and_then (refuse (version = []) ''database schema version is required'') (\<lambda>_.
      deleteChild cs_databaseSchemas cs_databaseSchemas_update (\<lambda>x. DS_Name x = name \<and> DS_Version x = version) ref s)))"

definition ListProjectDatabaseRoles :: "string \<Rightarrow> ControlStore \<Rightarrow> ProjectDatabaseRole list res" where
  "ListProjectDatabaseRoles ref s = listChildren cs_databaseRoles (\<lambda>a b. DR_Name a < DR_Name b) (ToLower (TrimSpace ref)) s"

definition CreateProjectDatabaseRole :: "ChildCtx \<Rightarrow> string \<Rightarrow> ProjectDatabaseRoleInput \<Rightarrow> ControlStore \<Rightarrow> (ControlStore \<times> ProjectDatabaseRole) res" where
  "CreateProjectDatabaseRole c ref input s =
     (let ref = ToLower (TrimSpace ref) in
      and_then (normalizeProjectDatabaseRole c ref input) (\<lambda>x.
      addChild cs_databaseRoles cs_databaseRoles_update (\<lambda>e. DR_Name e = DR_Name x) ref x s))"

definition DeleteProjectDatabaseRole :: "string \<Rightarrow> string \<Rightarrow> ControlStore \<Rightarrow> ControlStore res" where
  "DeleteProjectDatabaseRole ref name s =
     (let ref = ToLower (TrimSpace ref); name = ToLower (TrimSpace name) in
      and_then (validateDatabaseIdentifier ''database role name'' name) (\<lambda>_. deleteChild cs_databaseRoles cs_databaseRoles_update (\<lambda>x. DR_Name x = name) ref s))"

definition ListProjectStorageBuckets :: "string \<Rightarrow> ControlStore \<Rightarrow> ProjectStorageBucket list res" where
  "ListProjectStorageBuckets ref s = listChildren cs_storageBuckets (\<lambda>a b. SB_Name a < SB_Name b) (ToLower (TrimSpace ref)) s"

definition CreateProjectStorageBucket :: "ChildCtx \<Rightarrow> string \<Rightarrow> ProjectStorageBucketInput \<Rightarrow> ControlStore \<Rightarrow> (ControlStore \<times> ProjectStorageBucket) res" where
  "CreateProjectStorageBucket c ref input s =
     (let ref = ToLower (TrimSpace ref) in
      and_then (normalizeProjectStorageBucket c ref input) (\<lambda>x.
      addChild cs_storageBuckets cs_storageBuckets_update (\<lambda>e. SB_Name e = SB_Name x) ref x s))"

definition dropBucketMounts :: "string \<Rightarrow> string \<Rightarrow> ControlStore \<Rightarrow> ControlStore" where
  "dropBucketMounts ref name s = s\<lparr>cs_functionStorageMounts :=
     AList.update ref (removeFunctionStorageMounts [] name (get_or [] (cs_functionStorageMounts s) ref)) (cs_functionStorageMounts s)\<rparr>"

definition DeleteProjectStorageBucket :: "string \<Rightarrow> string \<Rightarrow> ControlStore \<Rightarrow> ControlStore res" where
  "DeleteProjectStorageBucket ref name s =
     (let ref = ToLower (TrimSpace ref); name = ToLower (TrimSpace name) in
      and_then (refuse (\<not> refPattern name) ''storage bucket name must be 3-64 lowercase letters, numbers, or dashes'') (\<lambda>_.
      and_then (deleteChild cs_storageBuckets cs_storageBuckets_update (\<lambda>x. SB_Name x = name) ref s) (\<lambda>s.
      Inr (dropBucketMounts ref name s))))"

definition ListProjectVectorBuckets :: "string \<Rightarrow> ControlStore \<Rightarrow> ProjectVectorBucket list res" where
  "ListProjectVectorBuckets ref s = listChildren cs_vectorBuckets (\<lambda>a b. VB_Name a < VB_Name b) (ToLower (TrimSpace ref)) s"

definition CreateProjectVectorBucket :: "ChildCtx \<Rightarrow> string \<Rightarrow> ProjectVectorBucketInput \<Rightarrow> ControlStore \<Rightarrow> (ControlStore \<times> ProjectVectorBucket) res" where
  "CreateProjectVectorBucket c ref input s =
     (let ref = ToLower (TrimSpace ref) in
      and_then (normalizeProjectVectorBucket c ref input) (\<lambda>x.
      addChild cs_vectorBuckets cs_vectorBuckets_update (\<lambda>e. VB_Name e = VB_Name x) ref x s))"

definition DeleteProjectVectorBucket :: "string \<Rightarrow> string \<Rightarrow> ControlStore \<Rightarrow> ControlStore res" where
  "DeleteProjectVectorBucket ref name s =
     (let ref = ToLower (TrimSpace ref); name = ToLower (TrimSpace name) in
      and_then (refuse (\<not> refPattern name) ''vector bucket name must be 3-64 lowercase letters, numbers, or dashes'') (\<lambda>_. deleteChild cs_vectorBuckets cs_vectorBuckets_update (\<lambda>x. VB_Name x = name) ref s))"

definition ListProjectAnalyticsBuckets :: "string \<Rightarrow> ControlStore \<Rightarrow> ProjectAnalyticsBucket list res" where
  "ListProjectAnalyticsBuckets ref s = listChildren cs_analyticsBuckets (\<lambda>a b. AB_Name a < AB_Name b) (ToLower (TrimSpace ref)) s"

definition CreateProjectAnalyticsBucket :: "ChildCtx \<Rightarrow> string \<Rightarrow> ProjectAnalyticsBucketInput \<Rightarrow> ControlStore \<Rightarrow> (ControlStore \<times> ProjectAnalyticsBucket) res" where
  "CreateProjectAnalyticsBucket c ref input s =
     (let ref = ToLower (TrimSpace ref) in
      and_then (normalizeProjectAnalyticsBucket c ref input) (\<lambda>x.
      addChild cs_analyticsBuckets cs_analyticsBuckets_update (\<lambda>e. AB_Name e = AB_Name x) ref x s))"

definition DeleteProjectAnalyticsBucket :: "string \<Rightarrow> string \<Rightarrow> ControlStore \<Rightarrow> ControlStore res" where
  "DeleteProjectAnalyticsBucket ref name s =
     (let ref = ToLower (TrimSpace ref); name = ToLower (TrimSpace name) in
      and_then (refuse (\<not> refPattern name) ''analytics bucket name must be 3-64 lowercase letters, numbers, or dashes'') (\<lambda>_. deleteChild cs_analyticsBuckets cs_analyticsBuckets_update (\<lambda>x. AB_Name x = name) ref s))"

definition GetProjectCDNPolicy :: "ChildCtx \<Rightarrow> string \<Rightarrow> ControlStore \<Rightarrow> ProjectCDNPolicy res" where
  "GetProjectCDNPolicy c ref s =
     (let ref = ToLower (TrimSpace ref) in
      and_then (hasProject ref s) (\<lambda>_.
      Inr (case map_of (cs_cdnPolicies s) ref of Some policy \<Rightarrow> policy | None \<Rightarrow> defaultProjectCDNPolicy c ref)))"

definition UpdateProjectCDNPolicy :: "ChildCtx \<Rightarrow> string \<Rightarrow> ProjectCDNPolicyInput \<Rightarrow> ControlStore \<Rightarrow> (ControlStore \<times> ProjectCDNPolicy) res" where
  "UpdateProjectCDNPolicy c ref input s =
     (let ref = ToLower (TrimSpace ref) in
      and_then (normalizeProjectCDNPolicy c ref input) (\<lambda>policy.
      and_then (hasProject ref s) (\<lambda>_. Inr (s\<lparr>cs_cdnPolicies := AList.update ref policy (cs_cdnPolicies s)\<rparr>, policy))))"

definition ListProjectCDNInvalidations :: "string \<Rightarrow> ControlStore \<Rightarrow> CDNInvalidation list res" where
  "ListProjectCDNInvalidations ref s = listChildren cs_cdnInvalidations (\<lambda>a b. CI_CreatedAt a > CI_CreatedAt b) (ToLower (TrimSpace ref)) s"

definition cdnInvalidation :: "ChildCtx \<Rightarrow> string \<Rightarrow> string list \<Rightarrow> string \<Rightarrow> string \<Rightarrow> string \<Rightarrow> CDNInvalidation" where
  "cdnInvalidation c ref paths source eventID message =
     \<lparr>CI_ID = cc_newID c, CI_ProjectRef = ref, CI_Paths = paths, CI_Source = source, CI_EventID = eventID, CI_Status = ''completed'',
      CI_Message = message, CI_CreatedAt = cc_now c, CI_CompletedAt = Some (cc_now c)\<rparr>"

definition createProjectCDNInvalidationLocked :: "string \<Rightarrow> CDNInvalidation \<Rightarrow> ControlStore \<Rightarrow> (ControlStore \<times> CDNInvalidation) res" where
  "createProjectCDNInvalidationLocked ref invalidation s =
     addChild cs_cdnInvalidations cs_cdnInvalidations_update (\<lambda>e. False) ref invalidation s"

definition CreateProjectCDNInvalidation :: "ChildCtx \<Rightarrow> string \<Rightarrow> CDNInvalidationInput \<Rightarrow> ControlStore \<Rightarrow> (ControlStore \<times> CDNInvalidation) res" where
  "CreateProjectCDNInvalidation c ref input s =
     (let ref = ToLower (TrimSpace ref) in
      and_then (normalizeCDNPaths (CIIn_Paths input) False) (\<lambda>paths.
      createProjectCDNInvalidationLocked ref (cdnInvalidation c ref paths ''manual'' [] ''edge cache invalidation recorded'') s))"

definition CreateProjectCDNObjectEvent :: "ChildCtx \<Rightarrow> string \<Rightarrow> CDNObjectEventInput \<Rightarrow> ControlStore \<Rightarrow> (ControlStore \<times> CDNInvalidation) res" where
  "CreateProjectCDNObjectEvent c ref input s =
     (let ref = ToLower (TrimSpace ref) in
      and_then (normalizeCDNObjectEvent input) (\<lambda>event.
      and_then (hasProject ref s) (\<lambda>_.
      let policy = (case map_of (cs_cdnPolicies s) ref of Some policy \<Rightarrow> policy | None \<Rightarrow> defaultProjectCDNPolicy c ref) in
      and_then (check (CP_Enabled policy \<and> CP_SmartRevalidation policy) (ErrNotFound ''smart cdn revalidation is disabled for project'')) (\<lambda>_.
      and_then (check (CE_Bucket event = [] \<or> storageBucketExists (CE_Bucket event) (get_or [] (cs_storageBuckets s) ref))
        (ErrNotFound ''storage bucket'')) (\<lambda>_.
      let path = storageObjectCDNPath (CE_Bucket event) (CE_ObjectPath event) in
      and_then (check (cdnPathIncluded path (CP_IncludedPaths policy) (CP_ExcludedPaths policy))
        (ErrOther ''object path is outside cdn policy scope'')) (\<lambda>_.
      createProjectCDNInvalidationLocked ref (cdnInvalidation c ref [path] ''storage_object_event'' (CE_EventID event)
        (''smart cdn revalidation recorded for '' @ CE_EventType event)) s))))))"

definition ListProjectNetworkConnections :: "string \<Rightarrow> ControlStore \<Rightarrow> ProjectNetworkConnection list res" where
  "ListProjectNetworkConnections ref s = listChildren cs_networkConnections (\<lambda>a b. NC_CreatedAt a < NC_CreatedAt b) (ToLower (TrimSpace ref)) s"

definition CreateProjectNetworkConnection :: "ChildCtx \<Rightarrow> string \<Rightarrow> ProjectNetworkConnectionInput \<Rightarrow> ControlStore \<Rightarrow> (ControlStore \<times> ProjectNetworkConnection) res" where
  "CreateProjectNetworkConnection c ref input s =
     (let ref = ToLower (TrimSpace ref) in
      and_then (normalizeProjectNetworkConnection c ref input) (\<lambda>x.
      addChild cs_networkConnections cs_networkConnections_update (\<lambda>e. NC_Name e = NC_Name x) ref x s))"

definition DeleteProjectNetworkConnection :: "string \<Rightarrow> string \<Rightarrow> ControlStore \<Rightarrow> ControlStore res" where
  "DeleteProjectNetworkConnection ref name s =
     (let ref = ToLower (TrimSpace ref); name = TrimSpace name in
      and_then (refuse (name = []) ''network connection id is required'') (\<lambda>_. deleteChild cs_networkConnections cs_networkConnections_update (\<lambda>x. NC_ID x = name) ref s))"

definition ListProjectLogDrains :: "string \<Rightarrow> ControlStore \<Rightarrow> LogDrain list res" where
  "ListProjectLogDrains ref s = listChildren cs_logDrains (\<lambda>a b. LD_CreatedAt a < LD_CreatedAt b) ref s"

definition logDrainSettings :: "LogDrainInput \<Rightarrow> (string \<times> (string, string) gomap) res" where
  "logDrainSettings input =
     and_then (normalizeLogDrainTarget (LDIn_Target input)) (\<lambda>target.
     and_then (normalizeConfigValues (LDIn_Config input)) (\<lambda>config.
     and_then (validateLogDrainConfig target config) (\<lambda>_. Inr (target, config))))"

definition CreateProjectLogDrain :: "ChildCtx \<Rightarrow> string \<Rightarrow> LogDrainInput \<Rightarrow> ControlStore \<Rightarrow> (ControlStore \<times> LogDrain) res" where
  "CreateProjectLogDrain c ref input s =
     and_then (logDrainSettings input) (\<lambda>(target, config).
     addChild cs_logDrains cs_logDrains_update (\<lambda>e. False) ref
       \<lparr>LD_ID = cc_newID c, LD_ProjectRef = ref, LD_Target = target, LD_Config = config, LD_CreatedAt = cc_now c\<rparr> s)"

definition UpdateProjectLogDrain :: "string \<Rightarrow> string \<Rightarrow> LogDrainInput \<Rightarrow> ControlStore \<Rightarrow> (ControlStore \<times> LogDrain) res" where
  "UpdateProjectLogDrain ref i input s =
     (let i = TrimSpace i in
      and_then (refuse (i = []) ''log drain id is required'') (\<lambda>_.
      and_then (logDrainSettings input) (\<lambda>(target, config).
      and_then (hasProject ref s) (\<lambda>_.
      case replaceFirst (\<lambda>d. LD_ID d = i) (\<lambda>d. d\<lparr>LD_Target := target, LD_Config := config\<rparr>) (get_or [] (cs_logDrains s) ref) of
        None \<Rightarrow> Inl (ErrNotFound ''log drain'')
      | Some (drains, drain) \<Rightarrow> Inr (s\<lparr>cs_logDrains := AList.update ref drains (cs_logDrains s)\<rparr>, drain)))))"

definition DeleteProjectLogDrain :: "string \<Rightarrow> string \<Rightarrow> ControlStore \<Rightarrow> ControlStore res" where
  "DeleteProjectLogDrain ref i s =
     (let i = TrimSpace i in
      and_then (refuse (i = []) ''log drain id is required'') (\<lambda>_.
      deleteChild cs_logDrains cs_logDrains_update (\<lambda>x. LD_ID x = i) ref s))"

section \<open>Deleting a project\<close>

definition DeleteProjectWithChildren :: "string \<Rightarrow> ControlStore \<Rightarrow> ControlStore res" where
  "DeleteProjectWithChildren ref s =
     and_then (deleteProjectLocked ref (cs_main s)) (\<lambda>(main, _). Inr (cleanupChildren ref (s\<lparr>cs_main := main\<rparr>)))"

end
