(* ===== verification/Child_Invariant.thy ===== *)
theory Child_Invariant
  imports Project_Children Store_Steps
begin

text \<open>
  The resources of a project against the project: what holds of the tables of \<open>ControlStore\<close> after any sequence of
  operations. Every resource belongs to a project that exists, no two resources of a project share a key, the parts
  that refer to others (regions and mounts of a function) find them, and no credential is stored in the clear where the
  code asks for a \<open>secret://\<close> handle. The locale \<open>child_field\<close> is the interface between the three loops and the tables: one
  field of the store, read and replaced. It is interpreted on each of the tables.
\<close>

section \<open>One table\<close>

definition owned :: "(string, Project) gomap \<Rightarrow> ('a \<Rightarrow> string) \<Rightarrow> ('a \<Rightarrow> bool) \<Rightarrow> (string, 'a list) gomap \<Rightarrow> bool" where
  "owned ps refOf good m \<longleftrightarrow> (\<forall>ref x. x \<in> set (get_or [] m ref) \<longrightarrow> map_of ps ref \<noteq> None \<and> refOf x = ref \<and> good x)"

definition keyed :: "('a \<Rightarrow> 'k) \<Rightarrow> (string, 'a list) gomap \<Rightarrow> bool" where
  "keyed key m \<longleftrightarrow> (\<forall>ref. distinct (map key (get_or [] m ref)))"

definition table_ok :: "(string, Project) gomap \<Rightarrow> ('a \<Rightarrow> string) \<Rightarrow> ('a \<Rightarrow> 'k) \<Rightarrow> ('a \<Rightarrow> bool) \<Rightarrow> (string, 'a list) gomap \<Rightarrow> bool" where
  "table_ok ps refOf key good m \<longleftrightarrow> owned ps refOf good m \<and> keyed key m"

lemma hasProject_Inr [simp]: "hasProject ref s = Inr u \<longleftrightarrow> map_of (s_projects (cs_main s)) ref \<noteq> None"
  by (auto simp: hasProject_def and_then_eq_Inr_iff)

lemma replaceFirst_Some:
  "replaceFirst p f xs = Some (ys, y) \<Longrightarrow> \<exists>as e bs. xs = as @ e # bs \<and> p e \<and> ys = as @ f e # bs \<and> y = f e"
proof (induction xs arbitrary: ys)
  case (Cons x xs)
  show ?case
  proof (cases "p x")
    case True
    with Cons.prems show ?thesis by (intro exI [of _ "[]"]) auto
  next
    case False
    with Cons.prems obtain zs where "replaceFirst p f xs = Some (zs, y)" "ys = x # zs" by auto
    with Cons.IH obtain as e bs where "xs = as @ e # bs \<and> p e \<and> zs = as @ f e # bs \<and> y = f e" by blast
    with \<open>ys = x # zs\<close> show ?thesis by (intro exI [of _ "x # as"]) auto
  qed
qed simp

lemma replaceFirst_None: "replaceFirst p f xs = None \<longleftrightarrow> \<not> list_ex p xs"
  by (induction xs) auto

lemma removeFirst_Some: "removeFirst p xs = Some ys \<Longrightarrow> \<exists>as e bs. xs = as @ e # bs \<and> p e \<and> ys = as @ bs"
proof (induction xs arbitrary: ys)
  case (Cons x xs)
  show ?case
  proof (cases "p x")
    case True
    with Cons.prems show ?thesis by (intro exI [of _ "[]"]) auto
  next
    case False
    with Cons.prems obtain zs where "removeFirst p xs = Some zs" "ys = x # zs" by auto
    with Cons.IH obtain as e bs where "xs = as @ e # bs \<and> p e \<and> zs = as @ bs" by blast
    with \<open>ys = x # zs\<close> show ?thesis by (intro exI [of _ "x # as"]) auto
  qed
qed simp

lemma owned_set:
  assumes "owned ps refOf good m" and "map_of ps ref \<noteq> None" and "\<And>x. x \<in> set xs \<Longrightarrow> x \<in> set (get_or [] m ref) \<or> refOf x = ref \<and> good x"
  shows "owned ps refOf good (AList.update ref xs m)"
  using assms by (fastforce simp: owned_def)

lemma keyed_set: "keyed key m \<Longrightarrow> distinct (map key xs) \<Longrightarrow> keyed key (AList.update ref xs m)"
  by (simp add: keyed_def)

lemma owned_less: "owned ps refOf good m \<Longrightarrow> (\<And>ref. map_of ps ref \<noteq> None \<Longrightarrow> map_of qs ref \<noteq> None) \<Longrightarrow> owned qs refOf good m"
  unfolding owned_def by blast

lemma owned_delete: "owned ps refOf good m \<Longrightarrow> owned (AList.delete ref ps) refOf good (AList.delete ref m)"
  by (auto simp: owned_def split: if_splits)

lemma keyed_delete: "keyed key m \<Longrightarrow> keyed key (AList.delete ref m)"
  by (simp add: keyed_def)

lemma table_less: "table_ok ps refOf key good m \<Longrightarrow> (\<And>ref. map_of ps ref \<noteq> None \<Longrightarrow> map_of qs ref \<noteq> None) \<Longrightarrow> table_ok qs refOf key good m"
  unfolding table_ok_def using owned_less by blast

lemma table_delete: "table_ok ps refOf key good m \<Longrightarrow> table_ok (AList.delete ref ps) refOf key good (AList.delete ref m)"
  unfolding table_ok_def using owned_delete keyed_delete by blast

lemma table_filter:
  "table_ok ps refOf key good m \<Longrightarrow> map_of ps ref \<noteq> None \<Longrightarrow> table_ok ps refOf key good (AList.update ref (filter P (get_or [] m ref)) m)"
  unfolding table_ok_def by (intro conjI owned_set keyed_set) (auto simp: keyed_def distinct_map_filter)

section \<open>The loops on a table\<close>

locale child_field =
  fixes sel :: "ControlStore \<Rightarrow> (string, 'a list) gomap" and upd :: "'a table_update"
  assumes sel_upd: "sel (upd f s) = f (sel s)" and main_upd: "cs_main (upd f s) = cs_main s"
begin

lemma add:
  assumes "addChild sel upd clash ref x s = Inr (s', y)"
  shows "y = x" and "s' = upd (AList.update ref (get_or [] (sel s) ref @ [x])) s" and "map_of (s_projects (cs_main s)) ref \<noteq> None"
    and "\<And>e. e \<in> set (get_or [] (sel s) ref) \<Longrightarrow> \<not> clash e"
  using assms by (auto simp: addChild_def and_then_eq_Inr_iff check_def list_ex_iff split: if_split_asm)

lemma upsert:
  assumes "upsertChild sel upd same keep ref x s = Inr (s', y)"
  obtains xs where "s' = upd (AList.update ref xs) s" and "map_of (s_projects (cs_main s)) ref \<noteq> None"
    and "xs = get_or [] (sel s) ref @ [x] \<and> (\<forall>e \<in> set (get_or [] (sel s) ref). \<not> same e) \<or>
      (\<exists>as e bs. get_or [] (sel s) ref = as @ e # bs \<and> same e \<and> xs = as @ keep e # bs)"
proof -
  from assms have ref: "map_of (s_projects (cs_main s)) ref \<noteq> None"
    and res: "(case replaceFirst same keep (get_or [] (sel s) ref) of Some (xs, y) \<Rightarrow> Inr (upd (AList.update ref xs) s, y)
      | None \<Rightarrow> Inr (upd (AList.update ref (get_or [] (sel s) ref @ [x])) s, x)) = (Inr (s', y) :: (ControlStore \<times> 'a) res)"
    by (auto simp: upsertChild_def and_then_eq_Inr_iff)
  show thesis
  proof (cases "replaceFirst same keep (get_or [] (sel s) ref)")
    case None
    then have "\<forall>e \<in> set (get_or [] (sel s) ref). \<not> same e" by (auto simp: replaceFirst_None list_ex_iff)
    with None res ref show thesis by (intro that) auto
  next
    case (Some r)
    then obtain xs z where r: "replaceFirst same keep (get_or [] (sel s) ref) = Some (xs, z)" by (cases r) auto
    from replaceFirst_Some [OF r] r res ref show thesis by (intro that [of xs]) auto
  qed
qed

lemma delete:
  assumes "deleteChild sel upd p ref s = Inr s'"
  obtains as e bs where "get_or [] (sel s) ref = as @ e # bs" and "p e" and "s' = upd (AList.update ref (as @ bs)) s"
    and "map_of (s_projects (cs_main s)) ref \<noteq> None"
proof -
  from assms obtain xs where xs: "removeFirst p (get_or [] (sel s) ref) = Some xs" "s' = upd (AList.update ref xs) s"
    and ref: "map_of (s_projects (cs_main s)) ref \<noteq> None"
    by (auto simp: deleteChild_def and_then_eq_Inr_iff split: option.split_asm)
  from removeFirst_Some [OF xs(1)] xs(2) ref that show thesis by blast
qed

text \<open>Each loop keeps a table in order when the resource it writes is in order.\<close>

lemma owned_add:
  assumes "owned (s_projects (cs_main s)) refOf good (sel s)" and "addChild sel upd clash ref x s = Inr (s', y)"
    and "refOf x = ref" and "good x"
  shows "owned (s_projects (cs_main s')) refOf good (sel s')"
proof -
  note a = add [OF assms(2)]
  have "owned (s_projects (cs_main s)) refOf good (AList.update ref (get_or [] (sel s) ref @ [x]) (sel s))"
    by (rule owned_set [OF assms(1) a(3)]) (use assms(3,4) in auto)
  then show ?thesis unfolding a(2) sel_upd main_upd .
qed

lemma table_add:
  assumes "table_ok (s_projects (cs_main s)) refOf key good (sel s)" and "addChild sel upd clash ref x s = Inr (s', y)"
    and "refOf x = ref" and "good x" and "\<And>e. key e = key x \<Longrightarrow> clash e"
  shows "table_ok (s_projects (cs_main s')) refOf key good (sel s')"
proof -
  note a = add [OF assms(2)]
  have d: "distinct (map key (get_or [] (sel s) ref))" using assms(1) by (simp add: table_ok_def keyed_def)
  have "key e \<noteq> key x" if "e \<in> set (get_or [] (sel s) ref)" for e using a(4) [OF that] assms(5) by blast
  then have "key x \<notin> key ` set (get_or [] (sel s) ref)" by force
  with d have "distinct (map key (get_or [] (sel s) ref @ [x]))" by simp
  with keyed_set [of key "sel s"] assms(1) have "keyed key (sel s')" unfolding a(2) sel_upd by (simp add: table_ok_def)
  moreover have "owned (s_projects (cs_main s')) refOf good (sel s')"
    by (rule owned_add [where refOf = refOf and good = good, OF _ assms(2-4)]) (use assms(1) in \<open>simp add: table_ok_def\<close>)
  ultimately show ?thesis by (simp add: table_ok_def)
qed

lemma table_upsert:
  assumes ok: "table_ok (s_projects (cs_main s)) refOf key good (sel s)" and up: "upsertChild sel upd same keep ref x s = Inr (s', y)"
    and x: "refOf x = ref" "good x" and same: "\<And>e. same e \<longleftrightarrow> key e = key x"
    and keep: "\<And>e. refOf (keep e) = ref" "\<And>e. good (keep e)" "\<And>e. key (keep e) = key x"
  shows "table_ok (s_projects (cs_main s')) refOf key good (sel s')"
proof -
  obtain xs where xs: "s' = upd (AList.update ref xs) s" "map_of (s_projects (cs_main s)) ref \<noteq> None"
    and cases: "xs = get_or [] (sel s) ref @ [x] \<and> (\<forall>e \<in> set (get_or [] (sel s) ref). \<not> same e) \<or>
      (\<exists>as e bs. get_or [] (sel s) ref = as @ e # bs \<and> same e \<and> xs = as @ keep e # bs)" using upsert [OF up] .
  have d: "distinct (map key (get_or [] (sel s) ref))" using ok by (simp add: table_ok_def keyed_def)
  have "z \<in> set (get_or [] (sel s) ref) \<or> refOf z = ref \<and> good z" if "z \<in> set xs" for z
    using cases that x keep by auto
  with ok xs(2) have "owned (s_projects (cs_main s)) refOf good (AList.update ref xs (sel s))"
    by (intro owned_set) (auto simp: table_ok_def)
  moreover have "distinct (map key xs)" using cases
  proof
    assume "xs = get_or [] (sel s) ref @ [x] \<and> (\<forall>e \<in> set (get_or [] (sel s) ref). \<not> same e)"
    with d same show ?thesis by auto
  next
    assume "\<exists>as e bs. get_or [] (sel s) ref = as @ e # bs \<and> same e \<and> xs = as @ keep e # bs"
    then obtain as e bs where "get_or [] (sel s) ref = as @ e # bs" "same e" "xs = as @ keep e # bs" by blast
    with d same keep(3) show ?thesis by simp
  qed
  ultimately show ?thesis using ok keyed_set [of key "sel s" xs ref] unfolding xs(1) sel_upd main_upd by (simp add: table_ok_def)
qed

lemma table_remove:
  assumes ok: "table_ok (s_projects (cs_main s)) refOf key good (sel s)" and del: "deleteChild sel upd p ref s = Inr s'"
  shows "table_ok (s_projects (cs_main s')) refOf key good (sel s')"
proof -
  obtain as e bs where d: "get_or [] (sel s) ref = as @ e # bs" "s' = upd (AList.update ref (as @ bs)) s"
    "map_of (s_projects (cs_main s)) ref \<noteq> None" using delete [OF del] by metis
  have "distinct (map key (as @ e # bs))" using ok d(1) by (metis table_ok_def keyed_def)
  then have "distinct (map key (as @ bs))" by auto
  moreover have "owned (s_projects (cs_main s)) refOf good (AList.update ref (as @ bs) (sel s))"
    using ok d by (intro owned_set) (auto simp: table_ok_def)
  ultimately show ?thesis using ok keyed_set [of key "sel s"] unfolding d(2) sel_upd main_upd by (simp add: table_ok_def)
qed

lemma owned_remove:
  assumes ok: "owned (s_projects (cs_main s)) refOf good (sel s)" and del: "deleteChild sel upd p ref s = Inr s'"
  shows "owned (s_projects (cs_main s')) refOf good (sel s')"
proof -
  obtain as e bs where d: "get_or [] (sel s) ref = as @ e # bs" "s' = upd (AList.update ref (as @ bs)) s"
    "map_of (s_projects (cs_main s)) ref \<noteq> None" using delete [OF del] by metis
  have "owned (s_projects (cs_main s)) refOf good (AList.update ref (as @ bs) (sel s))"
    using ok d by (intro owned_set) auto
  then show ?thesis unfolding d(2) sel_upd main_upd .
qed

end

interpretation authClients_table: child_field cs_authClients cs_authClients_update
  by unfold_locales simp_all

interpretation authHooks_table: child_field cs_authHooks cs_authHooks_update
  by unfold_locales simp_all

interpretation functions_table: child_field cs_functions cs_functions_update
  by unfold_locales simp_all

interpretation functionRegions_table: child_field cs_functionRegions cs_functionRegions_update
  by unfold_locales simp_all

interpretation functionStorageMounts_table: child_field cs_functionStorageMounts cs_functionStorageMounts_update
  by unfold_locales simp_all

interpretation replicationPipelines_table: child_field cs_replicationPipelines cs_replicationPipelines_update
  by unfold_locales simp_all

interpretation embeddingJobs_table: child_field cs_embeddingJobs cs_embeddingJobs_update
  by unfold_locales simp_all

interpretation databaseExtensions_table: child_field cs_databaseExtensions cs_databaseExtensions_update
  by unfold_locales simp_all

interpretation databaseCronJobs_table: child_field cs_databaseCronJobs cs_databaseCronJobs_update
  by unfold_locales simp_all

interpretation databaseQueues_table: child_field cs_databaseQueues cs_databaseQueues_update
  by unfold_locales simp_all

interpretation databaseWebhooks_table: child_field cs_databaseWebhooks cs_databaseWebhooks_update
  by unfold_locales simp_all

interpretation databaseSchemas_table: child_field cs_databaseSchemas cs_databaseSchemas_update
  by unfold_locales simp_all

interpretation databaseRoles_table: child_field cs_databaseRoles cs_databaseRoles_update
  by unfold_locales simp_all

interpretation storageBuckets_table: child_field cs_storageBuckets cs_storageBuckets_update
  by unfold_locales simp_all

interpretation vectorBuckets_table: child_field cs_vectorBuckets cs_vectorBuckets_update
  by unfold_locales simp_all

interpretation analyticsBuckets_table: child_field cs_analyticsBuckets cs_analyticsBuckets_update
  by unfold_locales simp_all

interpretation cdnInvalidations_table: child_field cs_cdnInvalidations cs_cdnInvalidations_update
  by unfold_locales simp_all

interpretation networkConnections_table: child_field cs_networkConnections cs_networkConnections_update
  by unfold_locales simp_all

interpretation logDrains_table: child_field cs_logDrains cs_logDrains_update
  by unfold_locales simp_all

section \<open>All tables\<close>

definition handle_or_empty :: "string \<Rightarrow> bool" where
  "handle_or_empty h \<longleftrightarrow> h = [] \<or> secret_handle h"

text \<open>The rules of the tables: what every resource that is stored satisfies, with the bounds written out.\<close>

definition short :: "nat \<Rightarrow> string \<Rightarrow> bool" where
  "short n s \<longleftrightarrow> length s \<le> n \<and> \<not> ContainsAny s [chr_cr, chr_lf]"

definition within :: "int \<Rightarrow> int \<Rightarrow> int \<Rightarrow> bool" where
  "within lo hi i \<longleftrightarrow> lo \<le> i \<and> i \<le> hi"

definition client_ok :: "ProjectAuthClient \<Rightarrow> bool" where
  "client_ok x \<longleftrightarrow> AC_Name x \<noteq> [] \<and> short 96 (AC_Name x) \<and> short 128 (AC_ClientID x) \<and> AC_RedirectURIs x \<noteq> [] \<and>
     list_all (List.member allowedOAuthClientGrantTypes) (AC_GrantTypes x) \<and> list_all (List.member allowedOAuthClientScopes) (AC_Scopes x) \<and>
     handle_or_empty (AC_ClientSecretHandle x) \<and> (AC_Confidential x \<longrightarrow> AC_ClientSecretHandle x \<noteq> [])"

definition hook_ok :: "ProjectAuthHook \<Rightarrow> bool" where
  "hook_ok x \<longleftrightarrow> List.member allowedAuthHookTypes (AH_HookType x) \<and> (AH_Enabled x \<longrightarrow> AH_TargetURI x \<noteq> [] \<or> AH_EdgeFunction x \<noteq> []) \<and>
     within 100 30000 (AH_TimeoutMS x) \<and> within 0 5 (AH_RetryAttempts x) \<and> handle_or_empty (AH_SecretHandle x) \<and> handles_ok (AH_Headers x)"

definition function_ok :: "ProjectFunction \<Rightarrow> bool" where
  "function_ok x \<longleftrightarrow> Fn_Name x \<noteq> [] \<and> refPattern (Fn_Name x) \<and> confined (Fn_Entrypoint x) \<and> \<not> HasPrefix (Fn_Entrypoint x) ''/'' \<and>
     0 < Fn_SourceBytes x \<and> list_all (\<lambda>(k, v). Contains v ''********'') (Fn_Secrets x)"

definition region_ok :: "ProjectFunctionRegion \<Rightarrow> bool" where
  "region_ok x \<longleftrightarrow> refPattern (FR_FunctionName x) \<and> FR_Region x \<noteq> [] \<and> length (FR_Region x) \<le> 64 \<and>
     \<not> ContainsAny (FR_Region x) [CHR '' '', chr_cr, chr_lf, chr_tab, CHR ''/'', CHR 0x5C] \<and>
     List.member [''nearest'', ''primary'', ''weighted''] (FR_RoutingPolicy x)"

definition mount_ok :: "ProjectFunctionStorageMount \<Rightarrow> bool" where
  "mount_ok x \<longleftrightarrow> refPattern (FM_BucketName x) \<and> confined (FM_MountPath x) \<and> HasPrefix (FM_MountPath x) ''/mnt/'' \<and>
     envAliasPattern (FM_EnvAlias x) \<and> (FM_Prefix x = ''..'' \<or> confined (FM_Prefix x) \<and> \<not> HasPrefix (FM_Prefix x) ''/'')"

definition pipeline_ok :: "ProjectReplicationPipeline \<Rightarrow> bool" where
  "pipeline_ok x \<longleftrightarrow> List.member allowedReplicationPipelineTypes (RP_Type x) \<and> List.member allowedReplicationDestinations (RP_Destination x) \<and>
     identifierPattern (RP_SourceSchema x) \<and> identifierPattern (RP_SourceTable x) \<and> refPattern (RP_Name x) \<and>
     (List.member [''postgres'', ''webhook''] (RP_Destination x) \<longrightarrow> TrimSpace (RP_DestinationURI x) \<noteq> []) \<and>
     (List.member [''s3'', ''iceberg''] (RP_Destination x) \<longrightarrow> \<not> blank (RP_Config x) ''bucket'' \<or> TrimSpace (RP_DestinationURI x) \<noteq> []) \<and>
     (RP_Destination x = ''bigquery'' \<longrightarrow> \<not> blank (RP_Config x) ''dataset'') \<and>
     (RP_Destination x = ''snowflake'' \<longrightarrow> \<not> blank (RP_Config x) ''warehouse'' \<and> \<not> blank (RP_Config x) ''database'') \<and>
     (RP_Destination x = ''redshift'' \<longrightarrow> \<not> blank (RP_Config x) ''cluster'' \<or> TrimSpace (RP_DestinationURI x) \<noteq> []) \<and>
     handle_or_empty (RP_CredentialHandle x) \<and> handles_ok (RP_Config x)"

definition embedding_ok :: "ProjectEmbeddingJob \<Rightarrow> bool" where
  "embedding_ok x \<longleftrightarrow> List.member allowedEmbeddingProviders (EJ_Provider x) \<and>
     list_all identifierPattern [EJ_SourceSchema x, EJ_SourceTable x, EJ_SourceColumn x, EJ_PrimaryKeyColumn x,
       EJ_DestinationTable x, EJ_DestinationColumn x] \<and>
     refPattern (EJ_Name x) \<and> within 1 65535 (EJ_Dimension x) \<and> within 1 10000 (EJ_BatchSize x) \<and> short 120 (EJ_Schedule x)"

definition extension_ok :: "ProjectDatabaseExtension \<Rightarrow> bool" where
  "extension_ok x \<longleftrightarrow> List.member defaultDatabaseExtensionOrder (DX_Name x) \<and> identifierPattern (DX_Schema x) \<and> short 64 (DX_Version x)"

definition cron_ok :: "ProjectDatabaseCronJob \<Rightarrow> bool" where
  "cron_ok x \<longleftrightarrow> refPattern (CJ_Name x) \<and> CJ_Schedule x \<noteq> [] \<and> short 128 (CJ_Schedule x) \<and>
     (List.member cronShorthands (ToLower (CJ_Schedule x)) \<or> length (Fields (CJ_Schedule x)) = 5) \<and>
     CJ_Command x \<noteq> [] \<and> length (CJ_Command x) \<le> 8192 \<and> identifierPattern (CJ_Database x) \<and> identifierPattern (CJ_Username x) \<and>
     within 1 86400 (CJ_TimeoutSeconds x) \<and> within 1 86400 (CJ_MaxRuntimeSeconds x) \<and> handles_ok (CJ_Metadata x)"

definition queue_ok :: "ProjectDatabaseQueue \<Rightarrow> bool" where
  "queue_ok x \<longleftrightarrow> refPattern (DQ_Name x) \<and> identifierPattern (DQ_Schema x) \<and> within 1 525600 (DQ_RetentionMinutes x) \<and>
     within 1 86400 (DQ_VisibilityTimeoutSeconds x) \<and> within 0 1000 (DQ_MaxRetries x) \<and>
     (DQ_DeadLetterQueue x \<noteq> [] \<longrightarrow> refPattern (DQ_DeadLetterQueue x)) \<and> DQ_DeadLetterQueue x \<noteq> DQ_Name x \<and> handles_ok (DQ_Metadata x)"

definition webhook_ok :: "ProjectDatabaseWebhook \<Rightarrow> bool" where
  "webhook_ok x \<longleftrightarrow> refPattern (DW_Name x) \<and> identifierPattern (DW_Schema x) \<and> identifierPattern (DW_Table x) \<and>
     DW_Events x \<noteq> [] \<and> list_all (List.member [''insert'', ''update'', ''delete'']) (DW_Events x) \<and> short 2048 (DW_Endpoint x) \<and>
     List.member [''POST'', ''PUT'', ''PATCH''] (DW_HTTPMethod x) \<and> within 1 300 (DW_TimeoutSeconds x) \<and> within 0 25 (DW_RetryCount x) \<and>
     handles_ok (DW_Headers x) \<and> handles_ok (DW_Metadata x)"

definition schema_ok :: "ProjectDatabaseSchema \<Rightarrow> bool" where
  "schema_ok x \<longleftrightarrow> refPattern (DS_Name x) \<and> DS_Version x \<noteq> [] \<and> short 128 (DS_Version x) \<and> identifierPattern (DS_Schema x) \<and>
     DS_SQL x \<noteq> [] \<and> length (DS_SQL x) \<le> 262144 \<and> within 0 1000000 (DS_ApplyOrder x) \<and> handles_ok (DS_Metadata x)"

definition role_ok :: "ProjectDatabaseRole \<Rightarrow> bool" where
  "role_ok x \<longleftrightarrow> identifierPattern (DR_Name x) \<and> DR_Name x \<notin> set reservedDatabaseRoles \<and> \<not> HasPrefix (DR_Name x) ''pg_'' \<and>
     -1 \<le> DR_ConnectionLimit x \<and> list_all (\<lambda>r. identifierPattern r \<and> r \<noteq> DR_Name x) (DR_MemberOf x) \<and>
     (DR_Login x \<longrightarrow> DR_PasswordSecretHandle x \<noteq> []) \<and> handle_or_empty (DR_PasswordSecretHandle x) \<and> handles_ok (DR_Metadata x)"

definition bucket_ok :: "ProjectStorageBucket \<Rightarrow> bool" where
  "bucket_ok x \<longleftrightarrow> refPattern (SB_Name x) \<and> 0 < SB_FileSizeLimit x \<and>
     list_all (\<lambda>m. length m \<le> 128 \<and> Contains m ''/'') (SB_AllowedMimeTypes x) \<and> short 128 (SB_CacheControl x) \<and> handles_ok (SB_Metadata x)"

definition vector_ok :: "ProjectVectorBucket \<Rightarrow> bool" where
  "vector_ok x \<longleftrightarrow> refPattern (VB_Name x) \<and> within 1 65535 (VB_Dimension x) \<and> List.member allowedVectorBucketDistances (VB_Distance x) \<and>
     List.member allowedVectorBucketIndexes (VB_IndexMethod x) \<and> List.member allowedVectorBucketBackends (VB_StorageBackend x) \<and>
     (VB_StorageBackend x = ''s3'' \<longrightarrow> VB_StorageURI x \<noteq> []) \<and> handles_ok (VB_Metadata x)"

definition analytics_ok :: "ProjectAnalyticsBucket \<Rightarrow> bool" where
  "analytics_ok x \<longleftrightarrow> refPattern (AB_Name x) \<and> AB_StorageURI x \<noteq> [] \<and> short 128 (AB_Warehouse x) \<and>
     (AB_FormatVersion x = 1 \<or> AB_FormatVersion x = 2) \<and> short 256 (AB_Partitioning x) \<and> within 0 3650 (AB_RetentionDays x) \<and>
     short 128 (AB_CompactionSchedule x) \<and> handle_or_empty (AB_CredentialHandle x) \<and> handles_ok (AB_Metadata x)"

definition network_ok :: "ProjectNetworkConnection \<Rightarrow> bool" where
  "network_ok x \<longleftrightarrow> refPattern (NC_Name x) \<and> List.member allowedNetworkConnectionTypes (NC_Type x) \<and>
     List.member allowedNetworkConnectionProviders (NC_Provider x) \<and> NC_CIDRs x \<noteq> [] \<and> short 64 (NC_Region x) \<and>
     short 160 (NC_EndpointID x) \<and> handles_ok (NC_Config x)"

definition invalidation_ok :: "CDNInvalidation \<Rightarrow> bool" where
  "invalidation_ok x \<longleftrightarrow> CI_Paths x \<noteq> [] \<and> list_all (\<lambda>p. HasPrefix p ''/'') (CI_Paths x) \<and>
     (CI_Source x = ''manual'' \<or> CI_Source x = ''storage_object_event'') \<and> CI_Status x = ''completed''"

definition drain_ok :: "LogDrain \<Rightarrow> bool" where
  "drain_ok x \<longleftrightarrow> List.member allowedLogDrainTargets (LD_Target x) \<and>
     (List.member [''https'', ''loki'', ''sentry'', ''axiom''] (LD_Target x) \<longrightarrow> \<not> blank (LD_Config x) ''url'') \<and>
     (LD_Target x = ''datadog'' \<longrightarrow> \<not> blank (LD_Config x) ''api_key'') \<and> (LD_Target x = ''s3'' \<longrightarrow> \<not> blank (LD_Config x) ''bucket'')"

definition policy_ok :: "ProjectCDNPolicy \<Rightarrow> bool" where
  "policy_ok p \<longleftrightarrow> within 0 31536000 (CP_BrowserTTLSeconds p) \<and> within 0 31536000 (CP_EdgeTTLSeconds p) \<and>
     within 0 31536000 (CP_StaleWhileRevalidateSeconds p) \<and> CP_IncludedPaths p \<noteq> [] \<and>
     list_all edge_path (CP_IncludedPaths p) \<and> list_all edge_path (CP_ExcludedPaths p) \<and> short 256 (CP_CacheControl p)"

definition tables_in_order :: "ControlStore \<Rightarrow> bool" where
  "tables_in_order s \<longleftrightarrow>
     table_ok (s_projects (cs_main s)) AC_ProjectRef AC_ClientID client_ok (cs_authClients s) \<and>
     table_ok (s_projects (cs_main s)) AH_ProjectRef AH_HookType hook_ok (cs_authHooks s) \<and>
     table_ok (s_projects (cs_main s)) Fn_ProjectRef Fn_Name function_ok (cs_functions s) \<and>
     table_ok (s_projects (cs_main s)) FR_ProjectRef (\<lambda>r. (FR_FunctionName r, FR_Region r)) region_ok (cs_functionRegions s) \<and>
     table_ok (s_projects (cs_main s)) FM_ProjectRef (\<lambda>m. (FM_FunctionName m, FM_MountPath m)) mount_ok (cs_functionStorageMounts s) \<and>
     table_ok (s_projects (cs_main s)) RP_ProjectRef RP_Name pipeline_ok (cs_replicationPipelines s) \<and>
     table_ok (s_projects (cs_main s)) EJ_ProjectRef EJ_Name embedding_ok (cs_embeddingJobs s) \<and>
     table_ok (s_projects (cs_main s)) DX_ProjectRef DX_Name extension_ok (cs_databaseExtensions s) \<and>
     table_ok (s_projects (cs_main s)) CJ_ProjectRef CJ_Name cron_ok (cs_databaseCronJobs s) \<and>
     table_ok (s_projects (cs_main s)) DQ_ProjectRef DQ_Name queue_ok (cs_databaseQueues s) \<and>
     table_ok (s_projects (cs_main s)) DW_ProjectRef DW_Name webhook_ok (cs_databaseWebhooks s) \<and>
     table_ok (s_projects (cs_main s)) DS_ProjectRef (\<lambda>d. (DS_Name d, DS_Version d)) schema_ok (cs_databaseSchemas s) \<and>
     table_ok (s_projects (cs_main s)) DR_ProjectRef DR_Name role_ok (cs_databaseRoles s) \<and>
     table_ok (s_projects (cs_main s)) SB_ProjectRef SB_Name bucket_ok (cs_storageBuckets s) \<and>
     table_ok (s_projects (cs_main s)) VB_ProjectRef VB_Name vector_ok (cs_vectorBuckets s) \<and>
     table_ok (s_projects (cs_main s)) AB_ProjectRef AB_Name analytics_ok (cs_analyticsBuckets s) \<and>
     table_ok (s_projects (cs_main s)) NC_ProjectRef NC_Name network_ok (cs_networkConnections s) \<and>
     owned (s_projects (cs_main s)) CI_ProjectRef invalidation_ok (cs_cdnInvalidations s) \<and>
     owned (s_projects (cs_main s)) LD_ProjectRef drain_ok (cs_logDrains s)"

definition policies_ok :: "ControlStore \<Rightarrow> bool" where
  "policies_ok s \<longleftrightarrow> (\<forall>ref p. map_of (cs_cdnPolicies s) ref = Some p \<longrightarrow>
     CP_ProjectRef p = ref \<and> map_of (s_projects (cs_main s)) ref \<noteq> None \<and> policy_ok p)"

text \<open>What a region or a mount refers to is there.\<close>

definition references_ok :: "ControlStore \<Rightarrow> bool" where
  "references_ok s \<longleftrightarrow>
     (\<forall>ref r. r \<in> set (get_or [] (cs_functionRegions s) ref) \<longrightarrow> functionExists (FR_FunctionName r) (get_or [] (cs_functions s) ref)) \<and>
     (\<forall>ref m. m \<in> set (get_or [] (cs_functionStorageMounts s) ref) \<longrightarrow> functionExists (FM_FunctionName m) (get_or [] (cs_functions s) ref) \<and>
        storageBucketExists (FM_BucketName m) (get_or [] (cs_storageBuckets s) ref))"

definition keys_normal :: "(string, Project) gomap \<Rightarrow> bool" where
  "keys_normal ps \<longleftrightarrow> (\<forall>ref. map_of ps ref \<noteq> None \<longrightarrow> norm_key ref = ref)"

definition children_inv :: "ControlStore \<Rightarrow> bool" where
  "children_inv s \<longleftrightarrow> tables_in_order s \<and> policies_ok s \<and> references_ok s \<and> keys_normal (s_projects (cs_main s))"

end
