(* ===== verification/Child_Steps.thy ===== *)
theory Child_Steps
  imports Child_Invariant
begin

text \<open>
  Every operation on the resources of a project keeps the invariant of \<open>Child_Invariant\<close>, and so does the deletion of a
  project; what this says about the reachable stores.
\<close>

section \<open>What a normalised request looks like\<close>

named_theorems inv_intro \<open>operations that keep the invariant\<close>
named_theorems normalised \<open>the reference and the contents of a normalised resource\<close>

lemma ContainsAny_Cons: "ContainsAny s (c # cs) \<longleftrightarrow> c \<in> set s \<or> ContainsAny s cs"
  by (auto simp: ContainsAny_def list_ex_iff)

lemma ContainsAny_Nil [simp]: "\<not> ContainsAny s []"
  by (simp add: ContainsAny_def list_ex_iff)

lemma refPattern_Nil [simp]: "\<not> refPattern []"
  by (simp add: refPattern_def)

lemmas rule_defs = short_def within_def ContainsAny_Cons handle_or_empty_def

lemma normalizeProjectAuthClient_Inr [normalised]:
  "normalizeProjectAuthClient c ref input = Inr x \<Longrightarrow> AC_ProjectRef x = ref \<and> client_ok x"
  unfolding normalizeProjectAuthClient_def Let_def
  by (elim and_then_InrE) (auto simp: client_ok_def rule_defs dest: normalizeOAuthValues_allowed normalizeOAuthRedirectURIs_some)

lemma normalizeProjectAuthHook_Inr [normalised]:
  "normalizeProjectAuthHook c ref input = Inr x \<Longrightarrow> AH_ProjectRef x = ref \<and> hook_ok x"
  unfolding normalizeProjectAuthHook_def Let_def
  by (elim and_then_InrE) (auto simp: hook_ok_def rule_defs dest: validated_headers)

lemma normalizeReplicationPipeline_Inr [normalised]:
  "normalizeReplicationPipeline c ref input = Inr x \<Longrightarrow> RP_ProjectRef x = ref \<and> pipeline_ok x"
  unfolding normalizeReplicationPipeline_def normalizeReplicationPipelineType_def normalizeReplicationDestination_def Let_def
  by (elim and_then_InrE)
    (auto simp: pipeline_ok_def rule_defs validateReplicationDestinationConfig_def Let_def dest: validated_config split: if_split_asm)

lemma normalizeProjectEmbeddingJob_Inr [normalised]:
  "normalizeProjectEmbeddingJob c ref input = Inr x \<Longrightarrow> EJ_ProjectRef x = ref \<and> embedding_ok x"
  unfolding normalizeProjectEmbeddingJob_def Let_def
  by (elim and_then_InrE) (auto simp: embedding_ok_def rule_defs check_def split: if_split_asm)

lemma validateCronSchedule_Inr:
  "validateCronSchedule schedule = Inr u \<Longrightarrow> schedule \<noteq> [] \<and> short 128 schedule \<and>
     (List.member cronShorthands (ToLower schedule) \<or> length (Fields schedule) = 5)"
  unfolding validateCronSchedule_def by (elim and_then_InrE) (auto simp: rule_defs and_then_eq_Inr_iff split: if_split_asm)

lemma normalizeProjectDatabaseCronJob_Inr [normalised]:
  "normalizeProjectDatabaseCronJob c ref input = Inr x \<Longrightarrow> CJ_ProjectRef x = ref \<and> cron_ok x"
  unfolding normalizeProjectDatabaseCronJob_def Let_def
  by (elim and_then_InrE) (auto simp: cron_ok_def within_def dest: handles_only_Inr validateCronSchedule_Inr)

lemma normalizeProjectDatabaseQueue_Inr [normalised]:
  "normalizeProjectDatabaseQueue c ref input = Inr x \<Longrightarrow> DQ_ProjectRef x = ref \<and> queue_ok x"
  unfolding normalizeProjectDatabaseQueue_def Let_def
  by (elim and_then_InrE) (auto simp: queue_ok_def rule_defs dest: handles_only_Inr)

lemma normalizeProjectDatabaseWebhook_Inr [normalised]:
  "normalizeProjectDatabaseWebhook c ref input = Inr x \<Longrightarrow> DW_ProjectRef x = ref \<and> webhook_ok x"
  unfolding normalizeProjectDatabaseWebhook_def Let_def
  by (elim and_then_InrE)
    (auto simp: webhook_ok_def rule_defs webhookEvents_def [symmetric] dest: handles_only_Inr normalizeDatabaseWebhookEvents_known)

lemma normalizeProjectDatabaseSchema_Inr [normalised]:
  "normalizeProjectDatabaseSchema c ref input = Inr x \<Longrightarrow> DS_ProjectRef x = ref \<and> schema_ok x"
  unfolding normalizeProjectDatabaseSchema_def Let_def
  by (elim and_then_InrE) (auto simp: schema_ok_def rule_defs dest: handles_only_Inr)

lemma normalizeProjectDatabaseRole_Inr [normalised]:
  "normalizeProjectDatabaseRole c ref input = Inr x \<Longrightarrow> DR_ProjectRef x = ref \<and> role_ok x"
  unfolding normalizeProjectDatabaseRole_def Let_def
  by (elim and_then_InrE) (auto simp: role_ok_def rule_defs dest: handles_only_Inr normalizeDatabaseRoleMembers_others)

lemma normalizeProjectStorageBucket_Inr [normalised]:
  "normalizeProjectStorageBucket c ref input = Inr x \<Longrightarrow> SB_ProjectRef x = ref \<and> bucket_ok x"
  unfolding normalizeProjectStorageBucket_def Let_def
  by (elim and_then_InrE) (auto simp: bucket_ok_def rule_defs or_default_int_def list_all_sort dest: handles_only_Inr mimeLoop_types)

lemma normalizeProjectVectorBucket_Inr [normalised]:
  "normalizeProjectVectorBucket c ref input = Inr x \<Longrightarrow> VB_ProjectRef x = ref \<and> vector_ok x"
  unfolding normalizeProjectVectorBucket_def Let_def
  by (elim and_then_InrE) (auto simp: vector_ok_def rule_defs dest: handles_only_Inr)

lemma normalizeProjectAnalyticsBucket_Inr [normalised]:
  "normalizeProjectAnalyticsBucket c ref input = Inr x \<Longrightarrow> AB_ProjectRef x = ref \<and> analytics_ok x"
  unfolding normalizeProjectAnalyticsBucket_def Let_def
  by (elim and_then_InrE) (auto simp: analytics_ok_def rule_defs dest: handles_only_Inr)

lemma normalizeProjectNetworkConnection_Inr [normalised]:
  "normalizeProjectNetworkConnection c ref input = Inr x \<Longrightarrow> NC_ProjectRef x = ref \<and> network_ok x"
  unfolding normalizeProjectNetworkConnection_def Let_def
  by (elim and_then_InrE) (auto simp: network_ok_def rule_defs dest: handles_only_Inr normalizeNetworkCIDRs_some)

lemma normalizeProjectDatabaseExtension_Inr [normalised]:
  "normalizeProjectDatabaseExtension c ref name input = Inr x \<Longrightarrow> DX_ProjectRef x = ref \<and> extension_ok x"
  unfolding normalizeProjectDatabaseExtension_def Let_def by (elim and_then_InrE) (auto simp: extension_ok_def rule_defs)

lemma normalizeFunctionName_Inr: "normalizeFunctionName name = Inr n \<Longrightarrow> n \<noteq> [] \<and> refPattern n"
  unfolding normalizeFunctionName_def Let_def by (elim and_then_InrE) auto

lemma deployedFunction_Inr [normalised]: "deployedFunction c ref input = Inr x \<Longrightarrow> Fn_ProjectRef x = ref \<and> function_ok x"
  unfolding deployedFunction_def Let_def
  by (elim and_then_InrE) (auto simp: function_ok_def function_secrets_masked dest: normalizeFunctionName_Inr entrypoint_confined)

lemma normalizeProjectFunctionRegion_Inr [normalised]:
  "normalizeProjectFunctionRegion c ref input = Inr x \<Longrightarrow> FR_ProjectRef x = norm_key ref \<and> region_ok x"
  unfolding normalizeProjectFunctionRegion_def Let_def
  by (elim and_then_InrE) (auto simp: norm_key_def region_ok_def or_default_def dest: normalizeFunctionName_Inr split: if_split_asm)

lemma normalizeProjectFunctionStorageMount_Inr [normalised]:
  "normalizeProjectFunctionStorageMount c ref input = Inr x \<Longrightarrow> FM_ProjectRef x = norm_key ref \<and> mount_ok x"
  unfolding normalizeProjectFunctionStorageMount_def Let_def
  by (elim and_then_InrE) (auto simp: norm_key_def mount_ok_def dest: mountPath_confined mountPrefix_confined)

lemma normalizeProjectCDNPolicy_Inr:
  "normalizeProjectCDNPolicy c ref input = Inr p \<Longrightarrow> CP_ProjectRef p = norm_key ref \<and> policy_ok p"
proof -
  have public: "edge_path publicStoragePaths" by code_simp
  show "normalizeProjectCDNPolicy c ref input = Inr p \<Longrightarrow> CP_ProjectRef p = norm_key ref \<and> policy_ok p"
    unfolding normalizeProjectCDNPolicy_def Let_def
    by (elim and_then_InrE)
      (auto simp: norm_key_def policy_ok_def rule_defs public validateCacheControl_def and_then_eq_Inr_iff
        dest: normalizeCDNPaths_paths split: if_split_asm)
qed

lemma logDrainSettings_Inr:
  "logDrainSettings input = Inr (t, cfg) \<Longrightarrow> drain_ok (d\<lparr>LD_Target := t, LD_Config := cfg\<rparr>)"
  unfolding logDrainSettings_def normalizeLogDrainTarget_def Let_def
  by (elim and_then_InrE) (auto simp: drain_ok_def validateLogDrainConfig_def split: if_split_asm)

lemma storageObjectCDNPath_rooted: "HasPrefix (storageObjectCDNPath bucket p) ''/''"
  by (simp add: storageObjectCDNPath_def Let_def HasPrefix_def)

section \<open>The invariant and one table\<close>

lemmas inv_defs = children_inv_def tables_in_order_def policies_ok_def references_ok_def

context child_field begin

lemma delete_subset:
  assumes "deleteChild sel upd p ref s = Inr s'"
  obtains xs where "s' = upd (AList.update ref xs) s" and "set xs \<subseteq> set (get_or [] (sel s) ref)"
proof -
  obtain as e bs where d: "get_or [] (sel s) ref = as @ e # bs" "s' = upd (AList.update ref (as @ bs)) s" using delete [OF assms] by blast
  show thesis by (rule that [OF d(2)]) (auto simp: d(1))
qed

end

locale child_table = child_field sel upd
  for sel :: "ControlStore \<Rightarrow> (string, 'a list) gomap" and upd :: "'a table_update" +
  fixes refOf :: "'a \<Rightarrow> string" and key :: "'a \<Rightarrow> 'k" and good :: "'a \<Rightarrow> bool"
  assumes table: "children_inv s \<Longrightarrow> table_ok (s_projects (cs_main s)) refOf key good (sel s)"
    and replace: "children_inv s \<Longrightarrow> table_ok (s_projects (cs_main s)) refOf key good (f (sel s)) \<Longrightarrow> references_ok (upd f s) \<Longrightarrow>
      children_inv (upd f s)"
begin

lemma create_inv:
  assumes "children_inv s" and "addChild sel upd clash ref x s = Inr (s', y)" and "refOf x = ref \<and> good x"
    and "\<And>e. key e = key x \<Longrightarrow> clash e" and "references_ok s'"
  shows "children_inv s'"
proof -
  have "table_ok (s_projects (cs_main s')) refOf key good (sel s')"
    by (rule table_add [OF table [OF assms(1)] assms(2)]) (use assms(3,4) in auto)
  with replace [OF assms(1)] assms(5) show ?thesis unfolding add(2) [OF assms(2)] sel_upd main_upd by blast
qed

lemma upsert_inv:
  assumes "children_inv s" and "upsertChild sel upd same keep ref x s = Inr (s', y)" and "refOf x = ref \<and> good x"
    and "\<And>e. same e \<longleftrightarrow> key e = key x" and "\<And>e. refOf (keep e) = refOf x \<and> good (keep e) \<and> key (keep e) = key x" and "references_ok s'"
  shows "children_inv s'"
proof -
  obtain xs where s': "s' = upd (AList.update ref xs) s" using upsert [OF assms(2)] by blast
  have "table_ok (s_projects (cs_main s')) refOf key good (sel s')"
    by (rule table_upsert [OF table [OF assms(1)] assms(2)]) (use assms(3-5) in auto)
  with replace [OF assms(1)] assms(6) show ?thesis unfolding s' sel_upd main_upd by blast
qed

lemma remove_inv:
  assumes "children_inv s" and "deleteChild sel upd p ref s = Inr s'" and "references_ok s'"
  shows "children_inv s'"
proof -
  obtain xs where s': "s' = upd (AList.update ref xs) s" using delete [OF assms(2)] by blast
  have "table_ok (s_projects (cs_main s')) refOf key good (sel s')"
    by (rule table_remove [OF table [OF assms(1)] assms(2)])
  with replace [OF assms(1)] assms(3) show ?thesis unfolding s' sel_upd main_upd by blast
qed

end

text \<open>A table that no other one refers to, and that refers to no other.\<close>

locale independent_table = child_table +
  assumes unreferenced: "references_ok (upd f s) \<longleftrightarrow> references_ok s"
begin

lemma create:
  assumes "children_inv s" and "addChild sel upd clash ref x s = Inr (s', y)" and "refOf x = ref \<and> good x" and "\<And>e. key e = key x \<Longrightarrow> clash e"
  shows "children_inv s'"
proof (rule create_inv [OF assms])
  show "references_ok s'" using assms(1) by (simp add: add(2) [OF assms(2)] unreferenced children_inv_def)
qed

lemma replaced:
  assumes "children_inv s" and "upsertChild sel upd same keep ref x s = Inr (s', y)" and "refOf x = ref \<and> good x"
    and "\<And>e. same e \<longleftrightarrow> key e = key x" and "\<And>e. refOf (keep e) = refOf x \<and> good (keep e) \<and> key (keep e) = key x"
  shows "children_inv s'"
proof (rule upsert_inv [OF assms])
  obtain xs where "s' = upd (AList.update ref xs) s" using upsert [OF assms(2)] .
  with assms(1) show "references_ok s'" by (simp add: unreferenced children_inv_def)
qed

lemma removed:
  assumes "children_inv s" and "deleteChild sel upd p ref s = Inr s'"
  shows "children_inv s'"
proof (rule remove_inv [OF assms])
  obtain xs where "s' = upd (AList.update ref xs) s" using delete [OF assms(2)] .
  with assms(1) show "references_ok s'" by (simp add: unreferenced children_inv_def)
qed

end

interpretation authClients: independent_table cs_authClients cs_authClients_update AC_ProjectRef AC_ClientID client_ok
  by unfold_locales (simp_all add: inv_defs)

interpretation authHooks: independent_table cs_authHooks cs_authHooks_update AH_ProjectRef AH_HookType hook_ok
  by unfold_locales (simp_all add: inv_defs)

interpretation edge_functions: child_table cs_functions cs_functions_update Fn_ProjectRef Fn_Name function_ok
  by unfold_locales (simp_all add: inv_defs)

interpretation functionRegions: child_table cs_functionRegions cs_functionRegions_update FR_ProjectRef "(\<lambda>r. (FR_FunctionName r, FR_Region r))" region_ok
  by unfold_locales (simp_all add: inv_defs)

interpretation functionStorageMounts: child_table cs_functionStorageMounts cs_functionStorageMounts_update FM_ProjectRef "(\<lambda>m. (FM_FunctionName m, FM_MountPath m))" mount_ok
  by unfold_locales (simp_all add: inv_defs)

interpretation replicationPipelines: independent_table cs_replicationPipelines cs_replicationPipelines_update RP_ProjectRef RP_Name pipeline_ok
  by unfold_locales (simp_all add: inv_defs)

interpretation embeddingJobs: independent_table cs_embeddingJobs cs_embeddingJobs_update EJ_ProjectRef EJ_Name embedding_ok
  by unfold_locales (simp_all add: inv_defs)

interpretation databaseExtensions: independent_table cs_databaseExtensions cs_databaseExtensions_update DX_ProjectRef DX_Name extension_ok
  by unfold_locales (simp_all add: inv_defs)

interpretation databaseCronJobs: independent_table cs_databaseCronJobs cs_databaseCronJobs_update CJ_ProjectRef CJ_Name cron_ok
  by unfold_locales (simp_all add: inv_defs)

interpretation databaseQueues: independent_table cs_databaseQueues cs_databaseQueues_update DQ_ProjectRef DQ_Name queue_ok
  by unfold_locales (simp_all add: inv_defs)

interpretation databaseWebhooks: independent_table cs_databaseWebhooks cs_databaseWebhooks_update DW_ProjectRef DW_Name webhook_ok
  by unfold_locales (simp_all add: inv_defs)

interpretation databaseSchemas: independent_table cs_databaseSchemas cs_databaseSchemas_update DS_ProjectRef "(\<lambda>d. (DS_Name d, DS_Version d))" schema_ok
  by unfold_locales (simp_all add: inv_defs)

interpretation databaseRoles: independent_table cs_databaseRoles cs_databaseRoles_update DR_ProjectRef DR_Name role_ok
  by unfold_locales (simp_all add: inv_defs)

interpretation storageBuckets: child_table cs_storageBuckets cs_storageBuckets_update SB_ProjectRef SB_Name bucket_ok
  by unfold_locales (simp_all add: inv_defs)

interpretation vectorBuckets: independent_table cs_vectorBuckets cs_vectorBuckets_update VB_ProjectRef VB_Name vector_ok
  by unfold_locales (simp_all add: inv_defs)

interpretation analyticsBuckets: independent_table cs_analyticsBuckets cs_analyticsBuckets_update AB_ProjectRef AB_Name analytics_ok
  by unfold_locales (simp_all add: inv_defs)

interpretation networkConnections: independent_table cs_networkConnections cs_networkConnections_update NC_ProjectRef NC_Name network_ok
  by unfold_locales (simp_all add: inv_defs)

section \<open>Creating\<close>

lemma CreateProjectAuthClient_inv [inv_intro]: "children_inv s \<Longrightarrow> CreateProjectAuthClient c ref input s = Inr (s', y) \<Longrightarrow> children_inv s'"
  unfolding CreateProjectAuthClient_def Let_def by (elim and_then_InrE) (erule (1) authClients.create, auto dest: normalised)

lemma CreateProjectReplicationPipeline_inv [inv_intro]: "children_inv s \<Longrightarrow> CreateProjectReplicationPipeline c ref input s = Inr (s', y) \<Longrightarrow> children_inv s'"
  unfolding CreateProjectReplicationPipeline_def Let_def by (elim and_then_InrE) (erule (1) replicationPipelines.create, auto dest: normalised)

lemma CreateProjectEmbeddingJob_inv [inv_intro]: "children_inv s \<Longrightarrow> CreateProjectEmbeddingJob c ref input s = Inr (s', y) \<Longrightarrow> children_inv s'"
  unfolding CreateProjectEmbeddingJob_def Let_def by (elim and_then_InrE) (erule (1) embeddingJobs.create, auto dest: normalised)

lemma CreateProjectDatabaseCronJob_inv [inv_intro]: "children_inv s \<Longrightarrow> CreateProjectDatabaseCronJob c ref input s = Inr (s', y) \<Longrightarrow> children_inv s'"
  unfolding CreateProjectDatabaseCronJob_def Let_def by (elim and_then_InrE) (erule (1) databaseCronJobs.create, auto dest: normalised)

lemma CreateProjectDatabaseQueue_inv [inv_intro]: "children_inv s \<Longrightarrow> CreateProjectDatabaseQueue c ref input s = Inr (s', y) \<Longrightarrow> children_inv s'"
  unfolding CreateProjectDatabaseQueue_def Let_def by (elim and_then_InrE) (erule (1) databaseQueues.create, auto dest: normalised)

lemma CreateProjectDatabaseWebhook_inv [inv_intro]: "children_inv s \<Longrightarrow> CreateProjectDatabaseWebhook c ref input s = Inr (s', y) \<Longrightarrow> children_inv s'"
  unfolding CreateProjectDatabaseWebhook_def Let_def by (elim and_then_InrE) (erule (1) databaseWebhooks.create, auto dest: normalised)

lemma CreateProjectDatabaseSchema_inv [inv_intro]: "children_inv s \<Longrightarrow> CreateProjectDatabaseSchema c ref input s = Inr (s', y) \<Longrightarrow> children_inv s'"
  unfolding CreateProjectDatabaseSchema_def Let_def by (elim and_then_InrE) (erule (1) databaseSchemas.create, auto dest: normalised)

lemma CreateProjectDatabaseRole_inv [inv_intro]: "children_inv s \<Longrightarrow> CreateProjectDatabaseRole c ref input s = Inr (s', y) \<Longrightarrow> children_inv s'"
  unfolding CreateProjectDatabaseRole_def Let_def by (elim and_then_InrE) (erule (1) databaseRoles.create, auto dest: normalised)

lemma CreateProjectVectorBucket_inv [inv_intro]: "children_inv s \<Longrightarrow> CreateProjectVectorBucket c ref input s = Inr (s', y) \<Longrightarrow> children_inv s'"
  unfolding CreateProjectVectorBucket_def Let_def by (elim and_then_InrE) (erule (1) vectorBuckets.create, auto dest: normalised)

lemma CreateProjectAnalyticsBucket_inv [inv_intro]: "children_inv s \<Longrightarrow> CreateProjectAnalyticsBucket c ref input s = Inr (s', y) \<Longrightarrow> children_inv s'"
  unfolding CreateProjectAnalyticsBucket_def Let_def by (elim and_then_InrE) (erule (1) analyticsBuckets.create, auto dest: normalised)

lemma CreateProjectNetworkConnection_inv [inv_intro]: "children_inv s \<Longrightarrow> CreateProjectNetworkConnection c ref input s = Inr (s', y) \<Longrightarrow> children_inv s'"
  unfolding CreateProjectNetworkConnection_def Let_def by (elim and_then_InrE) (erule (1) networkConnections.create, auto dest: normalised)

lemma CreateProjectAuthHook_inv [inv_intro]: "children_inv s \<Longrightarrow> CreateProjectAuthHook c ref input s = Inr (s', y) \<Longrightarrow> children_inv s'"
  unfolding CreateProjectAuthHook_def Let_def
  by (elim and_then_InrE) (erule (1) authHooks.replaced, auto simp: hook_ok_def dest: normalised)

lemma UpdateProjectDatabaseExtension_inv [inv_intro]:
  "children_inv s \<Longrightarrow> UpdateProjectDatabaseExtension c ref name input s = Inr (s', y) \<Longrightarrow> children_inv s'"
  unfolding UpdateProjectDatabaseExtension_def Let_def
  by (elim and_then_InrE) (erule (1) databaseExtensions.replaced, auto simp: extension_ok_def dest: normalised)

section \<open>Deleting\<close>

lemma DeleteProjectAuthClient_inv [inv_intro]: "children_inv s \<Longrightarrow> DeleteProjectAuthClient ref name s = Inr s' \<Longrightarrow> children_inv s'"
  unfolding DeleteProjectAuthClient_def Let_def by (elim and_then_InrE) (erule (1) authClients.removed)

lemma DeleteProjectAuthHook_inv [inv_intro]: "children_inv s \<Longrightarrow> DeleteProjectAuthHook ref name s = Inr s' \<Longrightarrow> children_inv s'"
  unfolding DeleteProjectAuthHook_def Let_def by (elim and_then_InrE) (erule (1) authHooks.removed)

lemma DeleteProjectReplicationPipeline_inv [inv_intro]: "children_inv s \<Longrightarrow> DeleteProjectReplicationPipeline ref name s = Inr s' \<Longrightarrow> children_inv s'"
  unfolding DeleteProjectReplicationPipeline_def Let_def by (elim and_then_InrE) (erule (1) replicationPipelines.removed)

lemma DeleteProjectEmbeddingJob_inv [inv_intro]: "children_inv s \<Longrightarrow> DeleteProjectEmbeddingJob ref name s = Inr s' \<Longrightarrow> children_inv s'"
  unfolding DeleteProjectEmbeddingJob_def Let_def by (elim and_then_InrE) (erule (1) embeddingJobs.removed)

lemma DeleteProjectDatabaseCronJob_inv [inv_intro]: "children_inv s \<Longrightarrow> DeleteProjectDatabaseCronJob ref name s = Inr s' \<Longrightarrow> children_inv s'"
  unfolding DeleteProjectDatabaseCronJob_def Let_def by (elim and_then_InrE) (erule (1) databaseCronJobs.removed)

lemma DeleteProjectDatabaseQueue_inv [inv_intro]: "children_inv s \<Longrightarrow> DeleteProjectDatabaseQueue ref name s = Inr s' \<Longrightarrow> children_inv s'"
  unfolding DeleteProjectDatabaseQueue_def Let_def by (elim and_then_InrE) (erule (1) databaseQueues.removed)

lemma DeleteProjectDatabaseWebhook_inv [inv_intro]: "children_inv s \<Longrightarrow> DeleteProjectDatabaseWebhook ref name s = Inr s' \<Longrightarrow> children_inv s'"
  unfolding DeleteProjectDatabaseWebhook_def Let_def by (elim and_then_InrE) (erule (1) databaseWebhooks.removed)

lemma DeleteProjectDatabaseRole_inv [inv_intro]: "children_inv s \<Longrightarrow> DeleteProjectDatabaseRole ref name s = Inr s' \<Longrightarrow> children_inv s'"
  unfolding DeleteProjectDatabaseRole_def Let_def by (elim and_then_InrE) (erule (1) databaseRoles.removed)

lemma DeleteProjectVectorBucket_inv [inv_intro]: "children_inv s \<Longrightarrow> DeleteProjectVectorBucket ref name s = Inr s' \<Longrightarrow> children_inv s'"
  unfolding DeleteProjectVectorBucket_def Let_def by (elim and_then_InrE) (erule (1) vectorBuckets.removed)

lemma DeleteProjectAnalyticsBucket_inv [inv_intro]: "children_inv s \<Longrightarrow> DeleteProjectAnalyticsBucket ref name s = Inr s' \<Longrightarrow> children_inv s'"
  unfolding DeleteProjectAnalyticsBucket_def Let_def by (elim and_then_InrE) (erule (1) analyticsBuckets.removed)

lemma DeleteProjectNetworkConnection_inv [inv_intro]: "children_inv s \<Longrightarrow> DeleteProjectNetworkConnection ref name s = Inr s' \<Longrightarrow> children_inv s'"
  unfolding DeleteProjectNetworkConnection_def Let_def by (elim and_then_InrE) (erule (1) networkConnections.removed)

lemma DeleteProjectDatabaseSchema_inv [inv_intro]: "children_inv s \<Longrightarrow> DeleteProjectDatabaseSchema ref name version s = Inr s' \<Longrightarrow> children_inv s'"
  unfolding DeleteProjectDatabaseSchema_def Let_def by (elim and_then_InrE) (erule (1) databaseSchemas.removed)

section \<open>Functions, regions, mounts and buckets\<close>

lemma functionExists_iff: "functionExists n fs \<longleftrightarrow> n \<in> Fn_Name ` set fs"
  by (auto simp: functionExists_def list_ex_iff)

lemma storageBucketExists_iff: "storageBucketExists n bs \<longleftrightarrow> n \<in> SB_Name ` set bs"
  by (auto simp: storageBucketExists_def list_ex_iff)

lemmas exists_iff = functionExists_iff storageBucketExists_iff

lemma normal_ref: "children_inv s \<Longrightarrow> map_of (s_projects (cs_main s)) ref \<noteq> None \<Longrightarrow> norm_key ref = ref"
  by (simp add: children_inv_def keys_normal_def)

text \<open>References survive when there are more functions and buckets, or fewer regions and mounts.\<close>

lemma references_more:
  assumes "references_ok s"
    and "\<And>ref. set (get_or [] (cs_functionRegions s') ref) \<subseteq> set (get_or [] (cs_functionRegions s) ref)"
    and "\<And>ref. set (get_or [] (cs_functionStorageMounts s') ref) \<subseteq> set (get_or [] (cs_functionStorageMounts s) ref)"
    and "\<And>ref. Fn_Name ` set (get_or [] (cs_functions s) ref) \<subseteq> Fn_Name ` set (get_or [] (cs_functions s') ref)"
    and "\<And>ref. SB_Name ` set (get_or [] (cs_storageBuckets s) ref) \<subseteq> SB_Name ` set (get_or [] (cs_storageBuckets s') ref)"
  shows "references_ok s'"
  unfolding references_ok_def exists_iff
proof (intro conjI allI impI)
  note r = assms(1) [unfolded references_ok_def exists_iff]
  show "FR_FunctionName x \<in> Fn_Name ` set (get_or [] (cs_functions s') ref)" if "x \<in> set (get_or [] (cs_functionRegions s') ref)" for ref x
    using r assms(2,4) that by blast
  show "FM_FunctionName x \<in> Fn_Name ` set (get_or [] (cs_functions s') ref)" if "x \<in> set (get_or [] (cs_functionStorageMounts s') ref)" for ref x
    using r assms(3,4) that by blast
  show "FM_BucketName x \<in> SB_Name ` set (get_or [] (cs_storageBuckets s') ref)" if "x \<in> set (get_or [] (cs_functionStorageMounts s') ref)" for ref x
    using r assms(3,5) that by blast
qed

lemma region_function: "references_ok s \<Longrightarrow> r \<in> set (get_or [] (cs_functionRegions s) ref) \<Longrightarrow> FR_FunctionName r \<in> Fn_Name ` set (get_or [] (cs_functions s) ref)"
  unfolding references_ok_def exists_iff by blast

lemma mount_references:
  assumes "references_ok s" and "m \<in> set (get_or [] (cs_functionStorageMounts s) ref)"
  shows "FM_FunctionName m \<in> Fn_Name ` set (get_or [] (cs_functions s) ref)"
    and "FM_BucketName m \<in> SB_Name ` set (get_or [] (cs_storageBuckets s) ref)"
  using assms unfolding references_ok_def exists_iff by blast+

lemma DeployProjectFunction_inv [inv_intro]:
  assumes inv: "children_inv s" and op: "DeployProjectFunction c ref input s = Inr (s', y)"
  shows "children_inv s'"
proof -
  from op obtain x where x: "deployedFunction c ref input = Inr x"
    and up: "upsertChild cs_functions cs_functions_update (\<lambda>e. Fn_Name e = Fn_Name x)
      (\<lambda>e. x\<lparr>Fn_ID := Fn_ID e, Fn_Version := Fn_Version e + 1, Fn_CreatedAt := Fn_CreatedAt e\<rparr>) ref x s = Inr (s', y)"
    unfolding DeployProjectFunction_def by (elim and_then_InrE)
  obtain xs where s': "s' = cs_functions_update (AList.update ref xs) s"
    and xs: "xs = get_or [] (cs_functions s) ref @ [x] \<and> (\<forall>e \<in> set (get_or [] (cs_functions s) ref). \<not> Fn_Name e = Fn_Name x) \<or>
      (\<exists>as e bs. get_or [] (cs_functions s) ref = as @ e # bs \<and> Fn_Name e = Fn_Name x \<and>
        xs = as @ (x\<lparr>Fn_ID := Fn_ID e, Fn_Version := Fn_Version e + 1, Fn_CreatedAt := Fn_CreatedAt e\<rparr>) # bs)"
    using functions_table.upsert [OF up] .
  have names: "Fn_Name ` set (get_or [] (cs_functions s) ref) \<subseteq> Fn_Name ` set xs"
    using xs
  proof
    assume "\<exists>as e bs. get_or [] (cs_functions s) ref = as @ e # bs \<and> Fn_Name e = Fn_Name x \<and>
      xs = as @ (x\<lparr>Fn_ID := Fn_ID e, Fn_Version := Fn_Version e + 1, Fn_CreatedAt := Fn_CreatedAt e\<rparr>) # bs"
    then obtain as e bs where l: "get_or [] (cs_functions s) ref = as @ e # bs" "Fn_Name e = Fn_Name x"
      and xs: "xs = as @ (x\<lparr>Fn_ID := Fn_ID e, Fn_Version := Fn_Version e + 1, Fn_CreatedAt := Fn_CreatedAt e\<rparr>) # bs" by blast
    show ?thesis unfolding l(1) xs by (simp add: l(2))
  qed auto
  have "references_ok s'"
    by (rule references_more [of s]) (use inv names in \<open>simp_all add: s' children_inv_def\<close>)
  then show ?thesis
    using edge_functions.upsert_inv [OF inv up deployedFunction_Inr [OF x]] deployedFunction_Inr [OF x] by (simp add: function_ok_def)
qed

lemma CreateProjectFunctionRegion_inv [inv_intro]:
  assumes inv: "children_inv s" and op: "CreateProjectFunctionRegion c ref input s = Inr (s', y)"
  shows "children_inv s'"
proof -
  from op obtain x where x: "normalizeProjectFunctionRegion c ref input = Inr x" and ref: "map_of (s_projects (cs_main s)) ref \<noteq> None"
    and f: "FR_FunctionName x \<in> Fn_Name ` set (get_or [] (cs_functions s) ref)"
    and up: "upsertChild cs_functionRegions cs_functionRegions_update
      (\<lambda>e. FR_FunctionName e = FR_FunctionName x \<and> FR_Region e = FR_Region x)
      (\<lambda>e. x\<lparr>FR_ID := FR_ID e, FR_CreatedAt := FR_CreatedAt e\<rparr>) ref x s = Inr (s', y)"
    unfolding CreateProjectFunctionRegion_def by (auto elim!: and_then_InrE simp: check_def exists_iff split: if_split_asm)
  obtain xs where s': "s' = cs_functionRegions_update (AList.update ref xs) s"
    and xs: "xs = get_or [] (cs_functionRegions s) ref @ [x] \<and>
        (\<forall>e \<in> set (get_or [] (cs_functionRegions s) ref). \<not> (FR_FunctionName e = FR_FunctionName x \<and> FR_Region e = FR_Region x)) \<or>
      (\<exists>as e bs. get_or [] (cs_functionRegions s) ref = as @ e # bs \<and> (FR_FunctionName e = FR_FunctionName x \<and> FR_Region e = FR_Region x) \<and>
        xs = as @ (x\<lparr>FR_ID := FR_ID e, FR_CreatedAt := FR_CreatedAt e\<rparr>) # bs)"
    using functionRegions_table.upsert [OF up] .
  have refs: "references_ok s" using inv by (simp add: children_inv_def)
  have new: "FR_FunctionName r \<in> Fn_Name ` set (get_or [] (cs_functions s) ref)" if "r \<in> set xs" for r
  proof -
    from that xs have "r \<in> set (get_or [] (cs_functionRegions s) ref) \<or> FR_FunctionName r = FR_FunctionName x" by auto
    with f region_function [OF refs] show ?thesis by metis
  qed
  have "references_ok s'" using refs new unfolding references_ok_def exists_iff by (simp add: s')
  then show ?thesis
    using functionRegions.upsert_inv [OF inv up] normalizeProjectFunctionRegion_Inr [OF x] normal_ref [OF inv ref] by (simp add: region_ok_def)
qed

lemma CreateProjectFunctionStorageMount_inv [inv_intro]:
  assumes inv: "children_inv s" and op: "CreateProjectFunctionStorageMount c ref input s = Inr (s', y)"
  shows "children_inv s'"
proof -
  from op obtain x where x: "normalizeProjectFunctionStorageMount c ref input = Inr x" and ref: "map_of (s_projects (cs_main s)) ref \<noteq> None"
    and f: "FM_FunctionName x \<in> Fn_Name ` set (get_or [] (cs_functions s) ref)" "FM_BucketName x \<in> SB_Name ` set (get_or [] (cs_storageBuckets s) ref)"
    and a: "addChild cs_functionStorageMounts cs_functionStorageMounts_update
      (\<lambda>e. FM_FunctionName e = FM_FunctionName x \<and> FM_MountPath e = FM_MountPath x) ref x s = Inr (s', y)"
    unfolding CreateProjectFunctionStorageMount_def by (auto elim!: and_then_InrE simp: check_def exists_iff split: if_split_asm)
  have "references_ok s" using inv by (simp add: children_inv_def)
  then have "references_ok s'" using f unfolding references_ok_def exists_iff functionStorageMounts_table.add(2) [OF a] by simp
  then show ?thesis
    using functionStorageMounts.create_inv [OF inv a] normalizeProjectFunctionStorageMount_Inr [OF x] normal_ref [OF inv ref] by auto
qed

lemma DeleteProjectFunctionRegion_inv [inv_intro]:
  assumes inv: "children_inv s" and op: "DeleteProjectFunctionRegion ref name s = Inr s'"
  shows "children_inv s'"
proof -
  from op obtain p r where del: "deleteChild cs_functionRegions cs_functionRegions_update p r s = Inr s'"
    unfolding DeleteProjectFunctionRegion_def Let_def by (elim and_then_InrE)
  obtain xs where s': "s' = cs_functionRegions_update (AList.update r xs) s" and xs: "set xs \<subseteq> set (get_or [] (cs_functionRegions s) r)"
    using functionRegions_table.delete_subset [OF del] .
  have "references_ok s'"
    by (rule references_more [of s]) (use inv xs in \<open>simp_all add: s' children_inv_def\<close>)
  then show ?thesis by (rule functionRegions.remove_inv [OF inv del])
qed

lemma DeleteProjectFunctionStorageMount_inv [inv_intro]:
  assumes inv: "children_inv s" and op: "DeleteProjectFunctionStorageMount ref name s = Inr s'"
  shows "children_inv s'"
proof -
  from op obtain p r where del: "deleteChild cs_functionStorageMounts cs_functionStorageMounts_update p r s = Inr s'"
    unfolding DeleteProjectFunctionStorageMount_def Let_def by (elim and_then_InrE)
  obtain xs where s': "s' = cs_functionStorageMounts_update (AList.update r xs) s" and xs: "set xs \<subseteq> set (get_or [] (cs_functionStorageMounts s) r)"
    using functionStorageMounts_table.delete_subset [OF del] .
  have "references_ok s'"
    by (rule references_more [of s]) (use inv xs in \<open>simp_all add: s' children_inv_def\<close>)
  then show ?thesis by (rule functionStorageMounts.remove_inv [OF inv del])
qed

lemma CreateProjectStorageBucket_inv [inv_intro]:
  assumes inv: "children_inv s" and op: "CreateProjectStorageBucket c ref input s = Inr (s', y)"
  shows "children_inv s'"
proof -
  let ?ref = "ToLower (TrimSpace ref)"
  from op obtain x where x: "normalizeProjectStorageBucket c ?ref input = Inr x"
    and a: "addChild cs_storageBuckets cs_storageBuckets_update (\<lambda>e. SB_Name e = SB_Name x) ?ref x s = Inr (s', y)"
    unfolding CreateProjectStorageBucket_def Let_def by (elim and_then_InrE)
  have "references_ok s'"
    by (rule references_more [of s]) (use inv in \<open>auto simp: storageBuckets_table.add(2) [OF a] children_inv_def\<close>)
  then show ?thesis using storageBuckets.create_inv [OF inv a] normalizeProjectStorageBucket_Inr [OF x] by simp
qed

text \<open>Deleting a function or a bucket takes its regions and mounts along.\<close>

lemma DeleteProjectFunction_inv [inv_intro]:
  assumes inv: "children_inv s" and op: "DeleteProjectFunction ref name s = Inr s'"
  shows "children_inv s'"
proof -
  from op obtain n t where n: "normalizeFunctionName name = Inr n"
    and del: "deleteChild cs_functions cs_functions_update (\<lambda>x. Fn_Name x = n) ref s = Inr t" and s': "s' = dropFunctionChildren ref n t"
    unfolding DeleteProjectFunction_def by (auto elim!: and_then_InrE)
  obtain as e bs where d: "get_or [] (cs_functions s) ref = as @ e # bs" "Fn_Name e = n"
    "t = cs_functions_update (AList.update ref (as @ bs)) s" "map_of (s_projects (cs_main s)) ref \<noteq> None"
    using functions_table.delete [OF del] by metis
  have n: "n \<noteq> []" using normalizeFunctionName_Inr [OF n] by simp
  have tables: "table_ok (s_projects (cs_main t)) Fn_ProjectRef Fn_Name function_ok (cs_functions t)"
    by (rule functions_table.table_remove [OF _ del]) (use inv in \<open>simp add: inv_defs\<close>)
  have refs: "references_ok s" using inv by (simp add: children_inv_def)
  have region: "FR_FunctionName x = n \<or> FR_FunctionName x \<in> Fn_Name ` set (as @ bs)"
    if "x \<in> set (get_or [] (cs_functionRegions s) ref)" for x
    using region_function [OF refs that] d(2) unfolding d(1) by auto
  have mount: "FM_FunctionName m = n \<or> FM_FunctionName m \<in> Fn_Name ` set (as @ bs)"
    if "m \<in> set (get_or [] (cs_functionStorageMounts s) ref)" for m
    using mount_references(1) [OF refs that] d(2) unfolding d(1) by auto
  have "references_ok s'" unfolding references_ok_def exists_iff
  proof (intro conjI allI impI)
    fix r x assume "x \<in> set (get_or [] (cs_functionRegions s') r)"
    then show "FR_FunctionName x \<in> Fn_Name ` set (get_or [] (cs_functions s') r)"
      using region_function [OF refs, of x r] region [of x] n
      by (simp add: s' d(3) dropFunctionChildren_def removeFunctionRegions_def split: if_split_asm)
  next
    fix r x assume x: "x \<in> set (get_or [] (cs_functionStorageMounts s') r)"
    then show "FM_FunctionName x \<in> Fn_Name ` set (get_or [] (cs_functions s') r)"
      using mount_references(1) [OF refs, of x r] mount [of x] n
      by (simp add: s' d(3) dropFunctionChildren_def removeFunctionStorageMounts_def split: if_split_asm)
    from x show "FM_BucketName x \<in> SB_Name ` set (get_or [] (cs_storageBuckets s') r)"
      using mount_references(2) [OF refs, of x r]
      by (simp add: s' d(3) dropFunctionChildren_def removeFunctionStorageMounts_def split: if_split_asm)
  qed
  moreover have "tables_in_order s'" using inv d tables
    by (simp add: s' dropFunctionChildren_def inv_defs table_filter removeFunctionRegions_def removeFunctionStorageMounts_def)
  ultimately show ?thesis using inv by (simp add: children_inv_def policies_ok_def s' dropFunctionChildren_def d(3))
qed

lemma DeleteProjectStorageBucket_inv [inv_intro]:
  assumes inv: "children_inv s" and op: "DeleteProjectStorageBucket ref name s = Inr s'"
  shows "children_inv s'"
proof -
  let ?ref = "ToLower (TrimSpace ref)" and ?n = "ToLower (TrimSpace name)"
  from op obtain t where n: "refPattern ?n" and del: "deleteChild cs_storageBuckets cs_storageBuckets_update (\<lambda>x. SB_Name x = ?n) ?ref s = Inr t"
    and s': "s' = dropBucketMounts ?ref ?n t"
    unfolding DeleteProjectStorageBucket_def Let_def by (auto elim!: and_then_InrE)
  obtain as e bs where d: "get_or [] (cs_storageBuckets s) ?ref = as @ e # bs" "SB_Name e = ?n"
    "t = cs_storageBuckets_update (AList.update ?ref (as @ bs)) s" "map_of (s_projects (cs_main s)) ?ref \<noteq> None"
    using storageBuckets_table.delete [OF del] by metis
  have n: "?n \<noteq> []" using n by (auto simp: refPattern_def)
  have tables: "table_ok (s_projects (cs_main t)) SB_ProjectRef SB_Name bucket_ok (cs_storageBuckets t)"
    by (rule storageBuckets_table.table_remove [OF _ del]) (use inv in \<open>simp add: inv_defs\<close>)
  have refs: "references_ok s" using inv by (simp add: children_inv_def)
  have bucket: "FM_BucketName m = ?n \<or> FM_BucketName m \<in> SB_Name ` set (as @ bs)"
    if "m \<in> set (get_or [] (cs_functionStorageMounts s) ?ref)" for m
    using mount_references(2) [OF refs that] d(2) unfolding d(1) by auto
  have "references_ok s'" unfolding references_ok_def exists_iff
  proof (intro conjI allI impI)
    fix r x assume "x \<in> set (get_or [] (cs_functionRegions s') r)"
    then show "FR_FunctionName x \<in> Fn_Name ` set (get_or [] (cs_functions s') r)"
      using region_function [OF refs, of x r] by (simp add: s' d(3) dropBucketMounts_def)
  next
    fix r x assume x: "x \<in> set (get_or [] (cs_functionStorageMounts s') r)"
    then show "FM_FunctionName x \<in> Fn_Name ` set (get_or [] (cs_functions s') r)"
      using mount_references(1) [OF refs, of x r]
      by (simp add: s' d(3) dropBucketMounts_def removeFunctionStorageMounts_def split: if_split_asm)
    from x show "FM_BucketName x \<in> SB_Name ` set (get_or [] (cs_storageBuckets s') r)"
      using mount_references(2) [OF refs, of x r] bucket [of x] n
      by (simp add: s' d(3) dropBucketMounts_def removeFunctionStorageMounts_def split: if_split_asm)
  qed
  moreover have "tables_in_order s'" using inv d tables
    by (simp add: s' dropBucketMounts_def inv_defs table_filter removeFunctionStorageMounts_def)
  ultimately show ?thesis using inv by (simp add: children_inv_def policies_ok_def s' dropBucketMounts_def d(3))
qed

section \<open>CDN and log drains\<close>

lemma UpdateProjectCDNPolicy_inv [inv_intro]:
  assumes inv: "children_inv s" and op: "UpdateProjectCDNPolicy c ref input s = Inr (s', y)"
  shows "children_inv s'"
proof -
  from op obtain p where p: "normalizeProjectCDNPolicy c (norm_key ref) input = Inr p" and ref: "map_of (s_projects (cs_main s)) (norm_key ref) \<noteq> None"
    and s': "s' = s\<lparr>cs_cdnPolicies := AList.update (norm_key ref) p (cs_cdnPolicies s)\<rparr>"
    unfolding UpdateProjectCDNPolicy_def Let_def norm_key_def by (auto elim!: and_then_InrE)
  from normalizeProjectCDNPolicy_Inr [OF p] inv ref show ?thesis by (auto simp: s' inv_defs)
qed

lemma cdnInvalidation_inv:
  assumes inv: "children_inv s" and op: "createProjectCDNInvalidationLocked ref (cdnInvalidation c ref paths src i msg) s = Inr (s', y)"
    and ok: "invalidation_ok (cdnInvalidation c ref paths src i msg)"
  shows "children_inv s'"
proof -
  note a = op [unfolded createProjectCDNInvalidationLocked_def]
  have "owned (s_projects (cs_main s')) CI_ProjectRef invalidation_ok (cs_cdnInvalidations s')"
    by (rule cdnInvalidations_table.owned_add [OF _ a]) (use inv ok in \<open>simp_all add: inv_defs cdnInvalidation_def\<close>)
  with inv show ?thesis by (simp add: inv_defs cdnInvalidations_table.add(2) [OF a])
qed

lemma CreateProjectCDNInvalidation_inv [inv_intro]:
  assumes inv: "children_inv s" and op: "CreateProjectCDNInvalidation c ref input s = Inr (s', y)"
  shows "children_inv s'"
proof -
  from op obtain paths where p: "normalizeCDNPaths (CIIn_Paths input) False = Inr paths"
    and a: "createProjectCDNInvalidationLocked (ToLower (TrimSpace ref)) (cdnInvalidation c (ToLower (TrimSpace ref)) paths ''manual'' []
      ''edge cache invalidation recorded'') s = Inr (s', y)"
    unfolding CreateProjectCDNInvalidation_def Let_def by (elim and_then_InrE)
  show ?thesis
    by (rule cdnInvalidation_inv [OF inv a])
      (use normalizeCDNPaths_paths [OF p] in \<open>auto simp: invalidation_ok_def cdnInvalidation_def edge_path_def list_all_iff\<close>)
qed

lemma CreateProjectCDNObjectEvent_inv [inv_intro]:
  "children_inv s \<Longrightarrow> CreateProjectCDNObjectEvent c ref input s = Inr (s', y) \<Longrightarrow> children_inv s'"
  unfolding CreateProjectCDNObjectEvent_def Let_def
  by (elim and_then_InrE) (erule (1) cdnInvalidation_inv, simp add: invalidation_ok_def cdnInvalidation_def storageObjectCDNPath_rooted)

lemma CreateProjectLogDrain_inv [inv_intro]:
  assumes inv: "children_inv s" and op: "CreateProjectLogDrain c ref input s = Inr (s', y)"
  shows "children_inv s'"
proof -
  from op obtain t cfg where set: "logDrainSettings input = Inr (t, cfg)"
    and a: "addChild cs_logDrains cs_logDrains_update (\<lambda>e. False) ref
       \<lparr>LD_ID = cc_newID c, LD_ProjectRef = ref, LD_Target = t, LD_Config = cfg, LD_CreatedAt = cc_now c\<rparr> s = Inr (s', y)"
    unfolding CreateProjectLogDrain_def by (auto elim!: and_then_InrE)
  have "owned (s_projects (cs_main s')) LD_ProjectRef drain_ok (cs_logDrains s')"
    by (rule logDrains_table.owned_add [OF _ a])
      (use inv logDrainSettings_Inr [OF set, of "\<lparr>LD_ID = cc_newID c, LD_ProjectRef = ref, LD_Target = t, LD_Config = cfg, LD_CreatedAt = cc_now c\<rparr>"]
        in \<open>simp_all add: inv_defs\<close>)
  with inv show ?thesis by (simp add: inv_defs logDrains_table.add(2) [OF a])
qed

lemma UpdateProjectLogDrain_inv [inv_intro]:
  assumes inv: "children_inv s" and op: "UpdateProjectLogDrain ref i input s = Inr (s', y)"
  shows "children_inv s'"
proof -
  from op obtain t cfg ds where ref: "map_of (s_projects (cs_main s)) ref \<noteq> None" and set: "logDrainSettings input = Inr (t, cfg)"
    and r: "replaceFirst (\<lambda>d. LD_ID d = TrimSpace i) (\<lambda>d. d\<lparr>LD_Target := t, LD_Config := cfg\<rparr>) (get_or [] (cs_logDrains s) ref) = Some (ds, y)"
    and s': "s' = s\<lparr>cs_logDrains := AList.update ref ds (cs_logDrains s)\<rparr>"
    unfolding UpdateProjectLogDrain_def Let_def by (auto elim!: and_then_InrE split: option.split_asm prod.split_asm)
  have "owned (s_projects (cs_main s)) LD_ProjectRef drain_ok (AList.update ref ds (cs_logDrains s))"
  proof (rule owned_set [OF _ ref])
    show own: "owned (s_projects (cs_main s)) LD_ProjectRef drain_ok (cs_logDrains s)" using inv by (simp add: inv_defs)
    fix x assume "x \<in> set ds"
    with replaceFirst_Some [OF r] own logDrainSettings_Inr [OF set]
    show "x \<in> set (get_or [] (cs_logDrains s) ref) \<or> LD_ProjectRef x = ref \<and> drain_ok x"
      by (auto simp: owned_def)
  qed
  with inv show ?thesis by (simp add: inv_defs s')
qed

lemma DeleteProjectLogDrain_inv [inv_intro]:
  assumes inv: "children_inv s" and op: "DeleteProjectLogDrain ref i s = Inr s'"
  shows "children_inv s'"
proof -
  from op obtain p where del: "deleteChild cs_logDrains cs_logDrains_update p ref s = Inr s'"
    unfolding DeleteProjectLogDrain_def Let_def by (elim and_then_InrE)
  have "owned (s_projects (cs_main s')) LD_ProjectRef drain_ok (cs_logDrains s')"
    by (rule logDrains_table.owned_remove [OF _ del]) (use inv in \<open>simp add: inv_defs\<close>)
  moreover obtain xs where "s' = cs_logDrains_update (AList.update ref xs) s" using logDrains_table.delete [OF del] .
  ultimately show ?thesis using inv by (simp add: inv_defs)
qed

section \<open>Projects\<close>

lemma DeleteProjectWithChildren_inv [inv_intro]:
  assumes inv: "children_inv s" and op: "DeleteProjectWithChildren ref s = Inr s'"
  shows "children_inv s'"
proof -
  from op obtain main u where main: "deleteProjectLocked ref (cs_main s) = Inr (main, u)" and s': "s' = cleanupChildren ref (s\<lparr>cs_main := main\<rparr>)"
    unfolding DeleteProjectWithChildren_def by (auto elim!: and_then_InrE)
  have ps: "s_projects main = AList.delete ref (s_projects (cs_main s))" by (rule deleteProjectLocked_eq [OF main])
  show ?thesis using inv
    by (auto simp: s' cleanupChildren_def inv_defs ps table_delete owned_delete keys_normal_def split: if_splits)
qed

text \<open>Any operation of the other theories that removes no project and stores projects under their normalised reference.\<close>

lemma owned_grow: "owned ps refOf good m \<Longrightarrow> dom (map_of ps) \<subseteq> dom (map_of qs) \<Longrightarrow> owned qs refOf good m"
  unfolding owned_def dom_def by blast

lemma table_grow: "table_ok ps refOf key good m \<Longrightarrow> dom (map_of ps) \<subseteq> dom (map_of qs) \<Longrightarrow> table_ok qs refOf key good m"
  unfolding table_ok_def using owned_grow by blast

lemma main_inv:
  assumes inv: "children_inv s" and "\<And>ref. map_of (s_projects (cs_main s)) ref \<noteq> None \<Longrightarrow> map_of (s_projects main) ref \<noteq> None"
    and "keys_normal (s_projects main)"
  shows "children_inv (s\<lparr>cs_main := main\<rparr>)"
proof -
  have more: "dom (map_of (s_projects (cs_main s))) \<subseteq> dom (map_of (s_projects main))" using assms(2) unfolding dom_def by blast
  have "tables_in_order s" using inv by (simp add: children_inv_def)
  then have "tables_in_order (s\<lparr>cs_main := main\<rparr>)"
    using more by (simp add: tables_in_order_def table_grow [OF _ more] owned_grow [OF _ more])
  moreover have "policies_ok (s\<lparr>cs_main := main\<rparr>)" using inv assms(2) by (auto simp: children_inv_def policies_ok_def)
  moreover have "references_ok (s\<lparr>cs_main := main\<rparr>)" using inv by (simp add: children_inv_def references_ok_def)
  ultimately show ?thesis using assms(3) by (simp add: children_inv_def)
qed

end
