(* ===== verification/Child_Reach.thy ===== *)
theory Child_Reach
  imports Child_Steps Host_Ownership
begin

text \<open>
  The control store as a state machine: the resources of the projects together with the projects, hosts, replicas and
  domains of \<open>Store_Steps\<close>. A step is one method call that succeeded. What the invariant of \<open>Child_Invariant\<close> says of every store that
  can be reached, and two inputs that show where the validation of a mount prefix stops.
\<close>

section \<open>The steps\<close>

inductive resource_step :: "ControlStore \<Rightarrow> ControlStore \<Rightarrow> bool" where
  New_AuthClient: "CreateProjectAuthClient c ref x1 s = Inr (s', y1) \<Longrightarrow> resource_step s s'"
| Del_AuthClient: "DeleteProjectAuthClient ref name s = Inr s' \<Longrightarrow> resource_step s s'"
| New_AuthHook: "CreateProjectAuthHook c ref x2 s = Inr (s', y2) \<Longrightarrow> resource_step s s'"
| Del_AuthHook: "DeleteProjectAuthHook ref name s = Inr s' \<Longrightarrow> resource_step s s'"
| New_Function: "DeployProjectFunction c ref x3 s = Inr (s', y3) \<Longrightarrow> resource_step s s'"
| Del_Function: "DeleteProjectFunction ref name s = Inr s' \<Longrightarrow> resource_step s s'"
| New_FunctionRegion: "CreateProjectFunctionRegion c ref x4 s = Inr (s', y4) \<Longrightarrow> resource_step s s'"
| Del_FunctionRegion: "DeleteProjectFunctionRegion ref name s = Inr s' \<Longrightarrow> resource_step s s'"
| New_FunctionStorageMount: "CreateProjectFunctionStorageMount c ref x5 s = Inr (s', y5) \<Longrightarrow> resource_step s s'"
| Del_FunctionStorageMount: "DeleteProjectFunctionStorageMount ref name s = Inr s' \<Longrightarrow> resource_step s s'"
| New_ReplicationPipeline: "CreateProjectReplicationPipeline c ref x6 s = Inr (s', y6) \<Longrightarrow> resource_step s s'"
| Del_ReplicationPipeline: "DeleteProjectReplicationPipeline ref name s = Inr s' \<Longrightarrow> resource_step s s'"
| New_EmbeddingJob: "CreateProjectEmbeddingJob c ref x7 s = Inr (s', y7) \<Longrightarrow> resource_step s s'"
| Del_EmbeddingJob: "DeleteProjectEmbeddingJob ref name s = Inr s' \<Longrightarrow> resource_step s s'"
| Set_DatabaseExtension: "UpdateProjectDatabaseExtension c ref name x8 s = Inr (s', y8) \<Longrightarrow> resource_step s s'"
| New_DatabaseCronJob: "CreateProjectDatabaseCronJob c ref x9 s = Inr (s', y9) \<Longrightarrow> resource_step s s'"
| Del_DatabaseCronJob: "DeleteProjectDatabaseCronJob ref name s = Inr s' \<Longrightarrow> resource_step s s'"
| New_DatabaseQueue: "CreateProjectDatabaseQueue c ref x10 s = Inr (s', y10) \<Longrightarrow> resource_step s s'"
| Del_DatabaseQueue: "DeleteProjectDatabaseQueue ref name s = Inr s' \<Longrightarrow> resource_step s s'"
| New_DatabaseWebhook: "CreateProjectDatabaseWebhook c ref x11 s = Inr (s', y11) \<Longrightarrow> resource_step s s'"
| Del_DatabaseWebhook: "DeleteProjectDatabaseWebhook ref name s = Inr s' \<Longrightarrow> resource_step s s'"
| New_DatabaseSchema: "CreateProjectDatabaseSchema c ref x12 s = Inr (s', y12) \<Longrightarrow> resource_step s s'"
| Del_DatabaseSchema: "DeleteProjectDatabaseSchema ref name version s = Inr s' \<Longrightarrow> resource_step s s'"
| New_DatabaseRole: "CreateProjectDatabaseRole c ref x13 s = Inr (s', y13) \<Longrightarrow> resource_step s s'"
| Del_DatabaseRole: "DeleteProjectDatabaseRole ref name s = Inr s' \<Longrightarrow> resource_step s s'"
| New_StorageBucket: "CreateProjectStorageBucket c ref x14 s = Inr (s', y14) \<Longrightarrow> resource_step s s'"
| Del_StorageBucket: "DeleteProjectStorageBucket ref name s = Inr s' \<Longrightarrow> resource_step s s'"
| New_VectorBucket: "CreateProjectVectorBucket c ref x15 s = Inr (s', y15) \<Longrightarrow> resource_step s s'"
| Del_VectorBucket: "DeleteProjectVectorBucket ref name s = Inr s' \<Longrightarrow> resource_step s s'"
| New_AnalyticsBucket: "CreateProjectAnalyticsBucket c ref x16 s = Inr (s', y16) \<Longrightarrow> resource_step s s'"
| Del_AnalyticsBucket: "DeleteProjectAnalyticsBucket ref name s = Inr s' \<Longrightarrow> resource_step s s'"
| Set_CDNPolicy: "UpdateProjectCDNPolicy c ref x17 s = Inr (s', y17) \<Longrightarrow> resource_step s s'"
| New_CDNInvalidation: "CreateProjectCDNInvalidation c ref x18 s = Inr (s', y18) \<Longrightarrow> resource_step s s'"
| New_CDNObjectEvent: "CreateProjectCDNObjectEvent c ref x19 s = Inr (s', y19) \<Longrightarrow> resource_step s s'"
| New_NetworkConnection: "CreateProjectNetworkConnection c ref x20 s = Inr (s', y20) \<Longrightarrow> resource_step s s'"
| Del_NetworkConnection: "DeleteProjectNetworkConnection ref name s = Inr s' \<Longrightarrow> resource_step s s'"
| New_LogDrain: "CreateProjectLogDrain c ref x21 s = Inr (s', y21) \<Longrightarrow> resource_step s s'"
| Set_LogDrain: "UpdateProjectLogDrain ref name x22 s = Inr (s', y22) \<Longrightarrow> resource_step s s'"
| Del_LogDrain: "DeleteProjectLogDrain ref name s = Inr s' \<Longrightarrow> resource_step s s'"

text \<open>A deletion of a project or a branch removes its resources in the same call; every other step on the projects keeps them.\<close>

definition DeleteProjectBranchWithChildren :: "string \<Rightarrow> string \<Rightarrow> ControlStore \<Rightarrow> ControlStore res" where
  "DeleteProjectBranchWithChildren sourceRef branchRef s =
     and_then (DeleteProjectBranch sourceRef branchRef (cs_main s)) (\<lambda>(main, _).
       Inr (cleanupChildren (norm_key branchRef) (s\<lparr>cs_main := main\<rparr>)))"

inductive control_step :: "ControlStore \<Rightarrow> ControlStore \<Rightarrow> bool" where
  Control_main: "store_step (cs_main s) main \<Longrightarrow> dom (map_of (s_projects (cs_main s))) \<subseteq> dom (map_of (s_projects main)) \<Longrightarrow>
     control_step s (s\<lparr>cs_main := main\<rparr>)"
| Control_delete: "DeleteProjectWithChildren ref s = Inr s' \<Longrightarrow> control_step s s'"
| Control_delete_branch: "DeleteProjectBranchWithChildren src ref s = Inr s' \<Longrightarrow> control_step s s'"
| Control_resource: "resource_step s s' \<Longrightarrow> control_step s s'"

inductive control_reachable :: "ControlStore \<Rightarrow> bool" where
  Control_init: "control_reachable (NewControlStore defaults)"
| Control_step: "control_reachable s \<Longrightarrow> control_step s s' \<Longrightarrow> control_reachable s'"

section \<open>The invariant is kept\<close>

context child_field begin

lemma main_kept:
  "addChild sel upd clash ref x s = Inr (s', y) \<Longrightarrow> cs_main s' = cs_main s"
  "upsertChild sel upd same keep ref x s = Inr (s', y) \<Longrightarrow> cs_main s' = cs_main s"
  "deleteChild sel upd p ref s = Inr s' \<Longrightarrow> cs_main s' = cs_main s"
  by (auto dest: add(2) elim: upsert delete simp: main_upd)

end

lemmas main_kept =
  authClients_table.main_kept authHooks_table.main_kept functions_table.main_kept functionRegions_table.main_kept functionStorageMounts_table.main_kept
  replicationPipelines_table.main_kept embeddingJobs_table.main_kept databaseExtensions_table.main_kept databaseCronJobs_table.main_kept databaseQueues_table.main_kept
  databaseWebhooks_table.main_kept databaseSchemas_table.main_kept databaseRoles_table.main_kept storageBuckets_table.main_kept vectorBuckets_table.main_kept
  analyticsBuckets_table.main_kept cdnInvalidations_table.main_kept networkConnections_table.main_kept logDrains_table.main_kept

lemmas resource_defs =
  CreateProjectAuthClient_def DeleteProjectAuthClient_def CreateProjectAuthHook_def DeleteProjectAuthHook_def
  DeployProjectFunction_def DeleteProjectFunction_def CreateProjectFunctionRegion_def DeleteProjectFunctionRegion_def
  CreateProjectFunctionStorageMount_def DeleteProjectFunctionStorageMount_def CreateProjectReplicationPipeline_def DeleteProjectReplicationPipeline_def
  CreateProjectEmbeddingJob_def DeleteProjectEmbeddingJob_def UpdateProjectDatabaseExtension_def CreateProjectDatabaseCronJob_def
  DeleteProjectDatabaseCronJob_def CreateProjectDatabaseQueue_def DeleteProjectDatabaseQueue_def CreateProjectDatabaseWebhook_def
  DeleteProjectDatabaseWebhook_def CreateProjectDatabaseSchema_def DeleteProjectDatabaseSchema_def CreateProjectDatabaseRole_def
  DeleteProjectDatabaseRole_def CreateProjectStorageBucket_def DeleteProjectStorageBucket_def CreateProjectVectorBucket_def
  DeleteProjectVectorBucket_def CreateProjectAnalyticsBucket_def DeleteProjectAnalyticsBucket_def UpdateProjectCDNPolicy_def
  CreateProjectCDNInvalidation_def CreateProjectCDNObjectEvent_def CreateProjectNetworkConnection_def DeleteProjectNetworkConnection_def
  CreateProjectLogDrain_def UpdateProjectLogDrain_def DeleteProjectLogDrain_def

lemma resource_main: "resource_step s s' \<Longrightarrow> cs_main s' = cs_main s"
  by (induction rule: resource_step.induct)
    (auto simp: resource_defs Let_def dropFunctionChildren_def dropBucketMounts_def createProjectCDNInvalidationLocked_def
      elim!: and_then_InrE dest: main_kept split: option.split_asm)

lemma resource_inv: "resource_step s s' \<Longrightarrow> children_inv s \<Longrightarrow> children_inv s'"
  by (induction rule: resource_step.induct) (erule (1) inv_intro)+

lemma deleted_inv:
  assumes "deleteProjectLocked ref (cs_main s) = Inr (main, u)" and "children_inv s"
  shows "children_inv (cleanupChildren ref (s\<lparr>cs_main := main\<rparr>))"
  using DeleteProjectWithChildren_inv [OF assms(2), of ref] assms(1) by (simp add: DeleteProjectWithChildren_def)

lemma cleanup_main [simp]: "cs_main (cleanupChildren ref s) = cs_main s"
  by (simp add: cleanupChildren_def)

lemma reachable_keys_normal: "reachable m \<Longrightarrow> keys_normal (s_projects m)"
  using site_invD(2) [OF reachable_site] good_site_norm(1) by (fastforce simp: keys_normal_def norm_key_def)

lemma control_step_inv:
  assumes "control_step s s'" and "children_inv s" and "reachable (cs_main s)"
  shows "children_inv s' \<and> reachable (cs_main s')"
  using assms
proof (induction rule: control_step.induct)
  case (Control_main s main)
  then have main: "reachable main" using Reach_step by blast
  moreover have "children_inv (s\<lparr>cs_main := main\<rparr>)"
    by (rule main_inv) (use Control_main reachable_keys_normal [OF main] in \<open>auto simp: dom_def\<close>)
  ultimately show ?case by simp
next
  case (Control_delete ref s s')
  then obtain main u where d: "deleteProjectLocked ref (cs_main s) = Inr (main, u)" "s' = cleanupChildren ref (s\<lparr>cs_main := main\<rparr>)"
    by (auto simp: DeleteProjectWithChildren_def elim!: and_then_InrE)
  then have "reachable main" using Reach_step Step_DeleteProject Control_delete.prems(2) unfolding DeleteProject_def by blast
  with d deleted_inv [OF d(1)] Control_delete.prems show ?case by simp
next
  case (Control_delete_branch src ref s s')
  then obtain main u where d: "DeleteProjectBranch src ref (cs_main s) = Inr (main, u)"
    "s' = cleanupChildren (norm_key ref) (s\<lparr>cs_main := main\<rparr>)"
    by (auto simp: DeleteProjectBranchWithChildren_def elim!: and_then_InrE)
  then have "reachable main" using Reach_step Step_DeleteBranch Control_delete_branch.prems(2) by blast
  with d(2) deleted_inv [OF DeleteProjectBranch_deletes [OF d(1)]] Control_delete_branch.prems show ?case by simp
next
  case (Control_resource s s')
  then show ?case using resource_inv resource_main by simp
qed

lemma control_reachable_inv: "control_reachable s \<Longrightarrow> children_inv s \<and> reachable (cs_main s)"
proof (induction rule: control_reachable.induct)
  case (Control_init defaults)
  then show ?case using Reach_init [of defaults]
    by (simp add: NewControlStore_def NewMemoryStore_def inv_defs table_ok_def owned_def keyed_def keys_normal_def)
next
  case (Control_step s s')
  then show ?case using control_step_inv by blast
qed

section \<open>Reachable stores\<close>

text \<open>The fields of the resources of a project that hold a credential, and the values kept under a key that names one.\<close>

definition sensitive_values :: "(string, string) gomap \<Rightarrow> string list" where
  "sensitive_values m = map snd (filter (\<lambda>(k, v). isSensitiveProjectConfigKey k) m)"

definition stored_credentials :: "string \<Rightarrow> ControlStore \<Rightarrow> string list" where
  "stored_credentials ref s =
     concat (map (\<lambda>c. [AC_ClientSecretHandle c]) (get_or [] (cs_authClients s) ref)) @
     concat (map (\<lambda>h. AH_SecretHandle h # sensitive_values (AH_Headers h)) (get_or [] (cs_authHooks s) ref)) @
     concat (map (\<lambda>p. RP_CredentialHandle p # sensitive_values (RP_Config p)) (get_or [] (cs_replicationPipelines s) ref)) @
     concat (map (\<lambda>j. sensitive_values (CJ_Metadata j)) (get_or [] (cs_databaseCronJobs s) ref)) @
     concat (map (\<lambda>q. sensitive_values (DQ_Metadata q)) (get_or [] (cs_databaseQueues s) ref)) @
     concat (map (\<lambda>w. sensitive_values (DW_Headers w) @ sensitive_values (DW_Metadata w)) (get_or [] (cs_databaseWebhooks s) ref)) @
     concat (map (\<lambda>d. sensitive_values (DS_Metadata d)) (get_or [] (cs_databaseSchemas s) ref)) @
     concat (map (\<lambda>r. DR_PasswordSecretHandle r # sensitive_values (DR_Metadata r)) (get_or [] (cs_databaseRoles s) ref)) @
     concat (map (\<lambda>b. sensitive_values (SB_Metadata b)) (get_or [] (cs_storageBuckets s) ref)) @
     concat (map (\<lambda>b. sensitive_values (VB_Metadata b)) (get_or [] (cs_vectorBuckets s) ref)) @
     concat (map (\<lambda>b. AB_CredentialHandle b # sensitive_values (AB_Metadata b)) (get_or [] (cs_analyticsBuckets s) ref)) @
     concat (map (\<lambda>n. sensitive_values (NC_Config n)) (get_or [] (cs_networkConnections s) ref))"

lemma sensitive_handles: "handles_ok m \<Longrightarrow> list_all handle_or_empty (sensitive_values m)"
  by (auto simp: handles_ok_def list_all_iff sensitive_values_def handle_or_empty_def)

lemma table_good: "table_ok ps refOf key good m \<Longrightarrow> x \<in> set (get_or [] m ref) \<Longrightarrow> good x"
  by (auto simp: table_ok_def owned_def)

lemma table_credentials:
  "table_ok ps refOf key good m \<Longrightarrow> (\<And>x. good x \<Longrightarrow> list_all handle_or_empty (f x)) \<Longrightarrow>
     list_all handle_or_empty (concat (map f (get_or [] m ref)))"
  by (auto simp: table_ok_def owned_def list_all_iff)

lemma in_order_credentials: "tables_in_order s \<Longrightarrow> list_all handle_or_empty (stored_credentials ref s)"
  unfolding tables_in_order_def stored_credentials_def list_all_append
  by (elim conjE, intro conjI; erule table_credentials)
    (simp_all add: sensitive_handles client_ok_def hook_ok_def pipeline_ok_def cron_ok_def queue_ok_def webhook_ok_def schema_ok_def
      role_ok_def bucket_ok_def vector_ok_def analytics_ok_def network_ok_def)

section \<open>A concrete store\<close>

definition demo_child_ctx :: ChildCtx where
  "demo_child_ctx = \<lparr>cc_now = 7, cc_newID = ''c1'', cc_newClientID = ''client1'', cc_urlParse = (\<lambda>_. None), cc_parsePrefix = (\<lambda>_. None),
     cc_parseAddr = (\<lambda>_. None), cc_sha256 = (\<lambda>x. x)\<rparr>"

definition demo_function :: ProjectFunctionInput where
  "demo_function = \<lparr>FnIn_Name = ''hello'', FnIn_Entrypoint = ''src/index.ts'', FnIn_VerifyJWT = True, FnIn_Source = ''x'', FnIn_Secrets = []\<rparr>"

definition demo_bucket :: ProjectStorageBucketInput where
  "demo_bucket = \<lparr>SBIn_Name = ''media'', SBIn_Public = False, SBIn_FileSizeLimit = 1000, SBIn_AllowedMimeTypes = [], SBIn_CacheControl = [],
     SBIn_AvifAutodetection = False, SBIn_Metadata = [(''api_key'', ''secret://acme/key'')]\<rparr>"

definition demo_mount :: ProjectFunctionStorageMountInput where
  "demo_mount = \<lparr>FMIn_FunctionName = ''hello'', FMIn_BucketName = ''media'', FMIn_MountPath = ''/mnt/../mnt/data'', FMIn_ReadOnly = True,
     FMIn_Prefix = ''..'', FMIn_EnvAlias = []\<rparr>"

definition demo_control_start :: ControlStore where
  "demo_control_start = (NewControlStore demo_defaults)\<lparr>cs_main := demo_hosted\<rparr>"

definition demo_mounted :: ProjectFunctionStorageMount where
  "demo_mounted = \<lparr>FM_ID = ''c1'', FM_ProjectRef = ''acme'', FM_FunctionName = ''hello'', FM_BucketName = ''media'',
       FM_MountPath = ''/mnt/data'', FM_ReadOnly = True, FM_Prefix = ''..'', FM_EnvAlias = ''HELLO_MEDIA_MOUNT'', FM_Status = ''configured'',
       FM_Message = ''function storage mount declaration recorded'', FM_CreatedAt = 7, FM_UpdatedAt = 7\<rparr>"

lemma demo_mount_normalised: "normalizeProjectFunctionStorageMount demo_child_ctx ''acme'' demo_mount = Inr demo_mounted"
proof -
  have "normalizeFunctionName ''hello'' = Inr ''hello''" by code_simp
  moreover have "mountPathOf ''media'' ''/mnt/../mnt/data'' = Inr ''/mnt/data''" by code_simp
  moreover have "mountPrefix ''..'' = Inr ''..''" by code_simp
  moreover have "ToLower (TrimSpace ''media'') = ''media''" "ToLower (TrimSpace ''acme'') = ''acme''" "refPattern ''media''" by code_simp+
  moreover have "or_default (ToUpper (map (\<lambda>c. if c = CHR ''-'' then CHR ''_'' else c) (''hello'' @ ''_'' @ ''media'' @ ''_MOUNT'')))
    (ToUpper (TrimSpace [])) = ''HELLO_MEDIA_MOUNT''" "envAliasPattern ''HELLO_MEDIA_MOUNT''" by code_simp+
  ultimately show ?thesis
    unfolding normalizeProjectFunctionStorageMount_def demo_mount_def Let_def
    by (simp only: ProjectFunctionStorageMountInput.select_convs and_then_Inr refuse_def check_def if_True if_False simp_thms demo_mounted_def demo_child_ctx_def ChildCtx.select_convs)
qed

lemma demo_project: "\<exists>p. map_of (s_projects demo_hosted) ''acme'' = Some p"
  using demo_hosted_project by auto

lemma demo_parts:
  obtains f b where "deployedFunction demo_child_ctx ''acme'' demo_function = Inr f" and "Fn_Name f = ''hello''"
    and "normalizeProjectStorageBucket demo_child_ctx ''acme'' demo_bucket = Inr b" and "SB_Name b = ''media''"
    and "SB_Metadata b = [(''api_key'', ''secret://acme/key'')]"
proof -
  have "case deployedFunction demo_child_ctx ''acme'' demo_function of Inl _ \<Rightarrow> False | Inr f \<Rightarrow> Fn_Name f = ''hello''" by code_simp
  moreover have "case normalizeProjectStorageBucket demo_child_ctx ''acme'' demo_bucket of Inl _ \<Rightarrow> False
    | Inr b \<Rightarrow> SB_Name b = ''media'' \<and> SB_Metadata b = [(''api_key'', ''secret://acme/key'')]" by code_simp
  ultimately show thesis using that by (auto split: sum.split_asm)
qed

lemma demo_control_start_reachable: "control_reachable demo_control_start"
proof -
  have init: "cs_main (NewControlStore demo_defaults) = NewMemoryStore demo_defaults" by (simp add: NewControlStore_def)
  have none: "s_projects (NewMemoryStore demo_defaults) = []" "s_projects demo_start = []" by (simp_all add: NewMemoryStore_def demo_start_def)
  have "control_reachable ((NewControlStore demo_defaults)\<lparr>cs_main := demo_start\<rparr>)"
    by (rule Control_step [OF Control_init Control_main]) (simp_all add: init none demo_start_def Step_Other)
  note start = this
  have grow: "control_reachable (s\<lparr>cs_main := main\<rparr>)"
    if "control_reachable s" "store_step (cs_main s) main" "s_projects (cs_main s) = []" for s main
    using Control_step [OF that(1) Control_main [OF that(2)]] that(3) by simp
  show ?thesis
  proof (cases "and_then (CreateHost demo_ctx demo_host_request demo_start) (\<lambda>(s, _). CreateProject demo_ctx demo_defaults demo_request s)")
    case (Inl e)
    then show ?thesis using start by (simp add: demo_control_start_def demo_hosted_def)
  next
    case (Inr x)
    then obtain s1 h s2 p where c: "CreateHost demo_ctx demo_host_request demo_start = Inr (s1, h)"
      "CreateProject demo_ctx demo_defaults demo_request s1 = Inr (s2, p)" "x = (s2, p)"
      by (cases x) (auto elim!: and_then_InrE)
    have "s_projects s1 = []" using c(1) none by (auto simp: CreateHost_def Let_def elim!: and_then_InrE)
    moreover have "store_step demo_start s1"
      by (rule Step_CreateHost [OF c(1)]) (simp_all add: demo_ctx_def demo_start_def NewMemoryStore_def)
    moreover have "store_step s1 s2" by (rule Step_CreateProject [OF c(2)]) (simp add: plain_urls_def demo_ctx_def)
    ultimately have "control_reachable ((NewControlStore demo_defaults)\<lparr>cs_main := s2\<rparr>)"
      using grow [OF grow [OF start, of s1], of s2] none by simp
    then show ?thesis using Inr c(3) by (simp add: demo_control_start_def demo_hosted_def)
  qed
qed

lemma demo_control:
  obtains s b f where "control_reachable s" and "cs_main s = demo_hosted" and "get_or [] (cs_functionStorageMounts s) ''acme'' = [demo_mounted]"
    and "get_or [] (cs_storageBuckets s) ''acme'' = [b]" and "SB_Metadata b = [(''api_key'', ''secret://acme/key'')]"
    and "get_or [] (cs_functions s) ''acme'' = [f]"
proof -
  obtain f b where fb: "deployedFunction demo_child_ctx ''acme'' demo_function = Inr f" "Fn_Name f = ''hello''"
    "normalizeProjectStorageBucket demo_child_ctx ''acme'' demo_bucket = Inr b" "SB_Name b = ''media''"
    "SB_Metadata b = [(''api_key'', ''secret://acme/key'')]" using demo_parts .
  have ref: "ToLower (TrimSpace ''acme'') = ''acme''" by code_simp
  have start: "cs_functions demo_control_start = []" "cs_storageBuckets demo_control_start = []" "cs_functionStorageMounts demo_control_start = []"
    "cs_main demo_control_start = demo_hosted"
    by (simp_all add: demo_control_start_def NewControlStore_def)
  obtain p where p: "map_of (s_projects demo_hosted) ''acme'' = Some p" using demo_project by blast
  define s1 where "s1 = demo_control_start\<lparr>cs_functions := [(''acme'', [f])]\<rparr>"
  define s2 where "s2 = s1\<lparr>cs_storageBuckets := [(''acme'', [b])]\<rparr>"
  define s3 where "s3 = s2\<lparr>cs_functionStorageMounts := [(''acme'', [demo_mounted])]\<rparr>"
  have 1: "DeployProjectFunction demo_child_ctx ''acme'' demo_function demo_control_start = Inr (s1, f)"
    by (simp add: DeployProjectFunction_def fb upsertChild_def hasProject_def lookup_or_def p start s1_def)
  have 2: "CreateProjectStorageBucket demo_child_ctx ''acme'' demo_bucket s1 = Inr (s2, b)"
    by (simp add: CreateProjectStorageBucket_def ref Let_def fb addChild_def check_def hasProject_def lookup_or_def p start s1_def s2_def)
  have 3: "CreateProjectFunctionStorageMount demo_child_ctx ''acme'' demo_mount s2 = Inr (s3, demo_mounted)"
    by (simp add: CreateProjectFunctionStorageMount_def demo_mount_normalised fb addChild_def check_def hasProject_def lookup_or_def p start
        s1_def s2_def s3_def functionExists_def storageBucketExists_def demo_mounted_def get_or_def)
  have "control_reachable s3" using demo_control_start_reachable using 1 2 3 resource_step.intros Control_step Control_resource by meson
  then show thesis
    by (rule that [of s3 b f]) (simp_all add: s1_def s2_def s3_def start fb get_or_def)
qed

section \<open>Properties\<close>

text \<open>C24. Every store that can be reached keeps its tables of resources in order. Each resource in the nineteen tables, and each
  CDN policy, belongs to a project that exists, carries its reference and obeys the rules of its table: names and identifiers
  match their pattern, choices are among the allowed ones, numbers lie within their bounds, texts are no longer than
  allowed, secrets are handles, paths are confined (\<open>client_ok\<close> to \<open>drain_ok\<close>, and \<open>policy_ok\<close>). No two resources of a project
  have the same key; CDN invalidations and log drains are the two tables without a key.\<close>

theorem resources_in_order:
  assumes "control_reachable s"
  shows "tables_in_order s \<and> policies_ok s"
  using control_reachable_inv [OF assms] by (simp add: children_inv_def)

theorem resources_in_order_witness:
  "\<exists>s. control_reachable s \<and> length (get_or [] (cs_functionStorageMounts s) ''acme'') = 1 \<and> tables_in_order s \<and> policies_ok s"
proof -
  obtain s where "control_reachable s" "get_or [] (cs_functionStorageMounts s) ''acme'' = [demo_mounted]" using demo_control by metis
  with resources_in_order [of s] show ?thesis by (intro exI [of _ s]) simp
qed

text \<open>C6. In every store that can be reached, a storage mount of an edge function names a function and a bucket of the same
  project that are still there, whatever was deleted or deployed again in between, and mounts the bucket below
  \<open>/mnt/\<close> without a parent step.\<close>

theorem mounts_resolve:
  assumes "control_reachable s" and "m \<in> set (get_or [] (cs_functionStorageMounts s) ref)"
  shows "functionExists (FM_FunctionName m) (get_or [] (cs_functions s) ref) \<and>
    storageBucketExists (FM_BucketName m) (get_or [] (cs_storageBuckets s) ref) \<and>
    HasPrefix (FM_MountPath m) ''/mnt/'' \<and> confined (FM_MountPath m)"
proof -
  have inv: "children_inv s" using control_reachable_inv [OF assms(1)] by blast
  have "mount_ok m" using inv table_good [OF _ assms(2)] unfolding inv_defs by blast
  with mount_references [OF _ assms(2)] inv show ?thesis by (simp add: exists_iff mount_ok_def children_inv_def)
qed

theorem mounts_resolve_witness:
  "\<exists>s m. control_reachable s \<and> get_or [] (cs_functionStorageMounts s) ''acme'' = [m] \<and>
     functionExists (FM_FunctionName m) (get_or [] (cs_functions s) ''acme'') \<and> HasPrefix (FM_MountPath m) ''/mnt/''"
proof -
  obtain s where "control_reachable s" "get_or [] (cs_functionStorageMounts s) ''acme'' = [demo_mounted]" using demo_control by metis
  with mounts_resolve [of s demo_mounted "''acme''"] show ?thesis by (intro exI [of _ s] exI [of _ demo_mounted]) simp
qed

text \<open>C13. Credentials of auth clients, auth hooks, replication pipelines, cron jobs, queues, webhooks, schemas, database roles,
  storage, vector and analytics buckets and network connections are handles: in every store that can be reached, their
  credential fields and every value of their configuration, headers or metadata kept under one of the keys of
  \<open>sensitiveConfigKeys\<close> are empty or a \<open>secret://\<close> handle. Two kinds of resources are not covered. Log drains keep their
  configuration as it was sent, and \<open>drain_key_in_clear\<close> shows one that needs an API key in it; the secrets of an edge
  function are kept masked (\<open>function_ok\<close>).\<close>

theorem credentials_are_handles:
  assumes "control_reachable s" and "v \<in> set (stored_credentials ref s)"
  shows "v = [] \<or> secret_handle v"
  using in_order_credentials [of s ref] control_reachable_inv [OF assms(1)] assms(2)
  by (auto simp: children_inv_def list_all_iff handle_or_empty_def)

theorem credentials_are_handles_witness:
  "\<exists>s. control_reachable s \<and> ''secret://acme/key'' \<in> set (stored_credentials ''acme'' s) \<and> secret_handle ''secret://acme/key''"
proof -
  obtain s b where s: "control_reachable s" "get_or [] (cs_storageBuckets s) ''acme'' = [b]"
    "SB_Metadata b = [(''api_key'', ''secret://acme/key'')]" using demo_control by metis
  have "isSensitiveProjectConfigKey ''api_key''" by code_simp
  with s have "''secret://acme/key'' \<in> set (stored_credentials ''acme'' s)" by (simp add: stored_credentials_def sensitive_values_def)
  with credentials_are_handles [OF s(1) this] s(1) show ?thesis by (intro exI [of _ s]) simp
qed

text \<open>A log drain to Datadog is only accepted with an API key, and any text will do.\<close>

lemma drain_key_in_clear:
  "logDrainSettings \<lparr>LDIn_Target = ''datadog'', LDIn_Config = [(''api_key'', ''abc123'')]\<rparr> = Inr (''datadog'', [(''api_key'', ''abc123'')])"
  by code_simp

text \<open>A mount prefix of exactly two dots is accepted: \<open>normalizeProjectFunctionStorageMount\<close> refuses prefixes that start with
  \<open>../\<close>, but not the parent itself, which \<open>normalizeFunctionEntrypoint\<close> refuses.\<close>

lemma mount_prefix_parent:
  "normalizeProjectFunctionStorageMount demo_child_ctx ''acme'' demo_mount = Inr demo_mounted \<and> FM_Prefix demo_mounted = ''..''"
  using demo_mount_normalised by (simp add: demo_mounted_def)

end
