(* ===== verification/Docker_Requests.thy ===== *)
theory Docker_Requests
  imports Child_Values Host_Names
begin

text \<open>
  The proxy in front of the Docker socket (cmd/supadupa-docker-proxy/main.go). The control plane talks to Docker through it;
  a request is passed on when its route is on the list and its validation succeeds, and the three list answers are filtered. The
  request validation asks Docker for the labels of the object a request is about: \<open>daemon\<close> is what these inspections
  answer, per attempt. JSON decoding into the payload structs and the environment are parameters (\<open>ProxyLib\<close>).
\<close>

section \<open>Payloads and requests\<close>

record dockerMount =
  Mount_Type :: string
  Mount_Source :: string
  Mount_Target :: string

record dockerHostConfig =
  HC_Binds :: "string list"
  HC_Mounts :: "dockerMount list"
  HC_VolumesFrom :: "string list"
  HC_Privileged :: bool
  HC_CapAdd :: "string list"
  HC_Devices :: "string list"
  HC_NetworkMode :: string
  HC_PidMode :: string
  HC_IpcMode :: string

record dockerContainerCreatePayload =
  Create_Labels :: "(string, string) gomap"
  Create_ConfigLabels :: "(string, string) gomap"
  Create_HostConfig :: dockerHostConfig
  Create_Mounts :: "dockerMount list"

text \<open>A JSON value as \<open>encoding/json\<close> decodes it into \<open>any\<close>; a number is kept as its text.\<close>

datatype json_value = JNull | JBool bool | JNumber string | JText string | JArray "json_value list" | JObject "(string \<times> json_value) list"

text \<open>The decoded payloads: \<open>dockerLabeledCreatePayload\<close>, \<open>dockerExecCreatePayload\<close> and \<open>dockerNetworkContainerPayload\<close>
  have one field each, and a list is absent when it is \<open>null\<close>.\<close>

record ProxyLib =
  px_getenv :: "string \<Rightarrow> string"
  px_create :: "string \<Rightarrow> dockerContainerCreatePayload option"
  px_labels :: "string \<Rightarrow> (string, string) gomap option"
  px_privileged :: "string \<Rightarrow> bool option"
  px_container :: "string \<Rightarrow> string option"
  px_filters :: "string \<Rightarrow> (string, json_value) gomap option"
  px_objects :: "string \<Rightarrow> (string, json_value) gomap list option option"
  px_object :: "string \<Rightarrow> (string, json_value) gomap option"
  px_encode :: "json_value \<Rightarrow> string"

datatype request_body = NoBody | Unreadable string | Content string

record ProxyRequest =
  PR_Method :: string
  PR_Path :: string
  PR_Query :: "(string, string) gomap"
  PR_Body :: request_body

text \<open>What an inspection answers: the fields that the proxy decodes, a status outside 200 to 299, or a failure.\<close>

record Inspection =
  In_Labels :: "(string, string) gomap"
  In_ConfigLabels :: "(string, string) gomap"
  In_Name :: string
  In_ContainerID :: string

datatype inspect_reply = Inspected Inspection | HTTPStatus int | InspectFailed string

type_synonym daemon = "nat \<Rightarrow> string \<Rightarrow> inspect_reply"

datatype inspect_error = dockerInspectError int | InspectError string

section \<open>Patterns and paths\<close>

definition is_alnum :: "char \<Rightarrow> bool" where
  "is_alnum c \<longleftrightarrow> is_lower_alnum c \<or> is_upper c"

definition dockerName :: "string \<Rightarrow> bool" where
  "dockerName s \<longleftrightarrow> (case s of [] \<Rightarrow> False | c # cs \<Rightarrow> is_alnum c \<and> length cs \<le> 127 \<and>
     list_all (\<lambda>c. is_alnum c \<or> List.member ''_.-'' c) cs)"

definition dockerObjectIDPattern :: "string \<Rightarrow> bool" where
  "dockerObjectIDPattern = dockerName"

definition dockerVolumeNamePattern :: "string \<Rightarrow> bool" where
  "dockerVolumeNamePattern = dockerName"

definition dockerImageReferencePattern :: "string \<Rightarrow> bool" where
  "dockerImageReferencePattern s \<longleftrightarrow> (case s of [] \<Rightarrow> False | c # cs \<Rightarrow> is_alnum c \<and> length cs \<le> 254 \<and>
     list_all (\<lambda>c. is_alnum c \<or> List.member ''._:@/-'' c) cs)"

definition dockerImageTagPattern :: "string \<Rightarrow> bool" where
  "dockerImageTagPattern s \<longleftrightarrow> (case s of [] \<Rightarrow> False | c # cs \<Rightarrow> (is_alnum c \<or> c = CHR ''_'') \<and> length cs \<le> 127 \<and>
     list_all (\<lambda>c. is_alnum c \<or> List.member ''_.-'' c) cs)"

definition dockerComposeProjectRefPattern :: "string \<Rightarrow> bool" where
  "dockerComposeProjectRefPattern = slug_between 3 55"

text \<open>\<open>^/v[0-9]+(\.[0-9]+)?(/|$)\<close>, replaced by a slash.\<close>

definition afterVersion :: "string \<Rightarrow> string option" where
  "afterVersion rest = (case rest of [] \<Rightarrow> Some [] | c # cs \<Rightarrow> if c = CHR ''/'' then Some cs else None)"

definition stripVersion :: "string \<Rightarrow> string option" where
  "stripVersion path =
     (if \<not> HasPrefix path ''/v'' then None
      else let major = drop 2 path; rest = dropWhile is_digit major in
        if takeWhile is_digit major = [] then None
        else case afterVersion rest of
            Some r \<Rightarrow> Some r
          | None \<Rightarrow> if HasPrefix rest ''.'' \<and> takeWhile is_digit (drop 1 rest) \<noteq> []
              then afterVersion (dropWhile is_digit (drop 1 rest)) else None)"

definition normalizeDockerAPIPath :: "string \<Rightarrow> string" where
  "normalizeDockerAPIPath path =
     (if path = [] then ''/''
      else let normalized = (case stripVersion path of Some r \<Rightarrow> CHR ''/'' # r | None \<Rightarrow> path) in
        if HasPrefix normalized ''/'' then normalized else CHR ''/'' # normalized)"

definition hex_digit :: "char \<Rightarrow> nat option" where
  "hex_digit c = (if is_digit c then Some (byte c - 48)
     else if 97 \<le> byte c \<and> byte c \<le> 102 then Some (byte c - 87)
     else if 65 \<le> byte c \<and> byte c \<le> 70 then Some (byte c - 55) else None)"

fun PathUnescape :: "string \<Rightarrow> string option" where
  "PathUnescape [] = Some []"
| "PathUnescape (c # s) =
     (if c \<noteq> CHR ''%'' then map_option ((#) c) (PathUnescape s)
      else (case s of
          a # b # rest \<Rightarrow> (case (hex_digit a, hex_digit b) of
              (Some x, Some y) \<Rightarrow> map_option ((#) (char_of (16 * x + y))) (PathUnescape rest)
            | _ \<Rightarrow> None)
        | _ \<Rightarrow> None))"

definition dockerObjectIDAllowed :: "string \<Rightarrow> bool" where
  "dockerObjectIDAllowed value = dockerObjectIDPattern (TrimSpace value)"

definition dockerPathObjectID :: "string \<Rightarrow> string \<Rightarrow> string option" where
  "dockerPathObjectID path prefix =
     (case Cut (CHR ''/'') (TrimPrefix path prefix) of (value, rest, found) \<Rightarrow>
      let value = TrimSpace value in
      if value = [] then None
      else case PathUnescape value of
          None \<Rightarrow> None
        | Some decoded \<Rightarrow> let decoded = TrimSpace decoded in if dockerObjectIDAllowed decoded then Some decoded else None)"

definition dockerPathAction :: "string \<Rightarrow> string \<Rightarrow> string option" where
  "dockerPathAction path prefix =
     (case Cut (CHR ''/'') (TrimPrefix path prefix) of (i, action, ok) \<Rightarrow>
      if \<not> ok \<or> action = [] \<or> CHR ''/'' \<in> set action then None
      else case PathUnescape (TrimSpace i) of
          None \<Rightarrow> None
        | Some i \<Rightarrow> if dockerObjectIDAllowed i then Some action else None)"

definition dockerPathObjectOnly :: "string \<Rightarrow> string \<Rightarrow> bool" where
  "dockerPathObjectOnly path prefix =
     (let value = TrimPrefix path prefix in
      if value = [] \<or> CHR ''/'' \<in> set value then False else dockerPathObjectID path prefix \<noteq> None)"

definition action_in :: "string list \<Rightarrow> string option \<Rightarrow> bool" where
  "action_in allowed a \<longleftrightarrow> (case a of None \<Rightarrow> False | Some action \<Rightarrow> List.member allowed action)"

definition dockerContainerMutationAllowed :: "string \<Rightarrow> bool" where
  "dockerContainerMutationAllowed path =
     action_in [''start'', ''stop'', ''restart'', ''kill'', ''wait'', ''exec'', ''resize'', ''rename''] (dockerPathAction path ''/containers/'')"

definition dockerContainerReadAllowed :: "string \<Rightarrow> bool" where
  "dockerContainerReadAllowed path = action_in [''json'', ''logs'', ''stats'', ''top''] (dockerPathAction path ''/containers/'')"

definition dockerNetworkMutationAllowed :: "string \<Rightarrow> bool" where
  "dockerNetworkMutationAllowed path = action_in [''connect'', ''disconnect''] (dockerPathAction path ''/networks/'')"

definition dockerExecMutationAllowed :: "string \<Rightarrow> bool" where
  "dockerExecMutationAllowed path = action_in [''start'', ''resize''] (dockerPathAction path ''/exec/'')"

definition dockerExecReadAllowed :: "string \<Rightarrow> bool" where
  "dockerExecReadAllowed path = action_in [''json''] (dockerPathAction path ''/exec/'')"

definition dockerContainerExecCreatePath :: "string \<Rightarrow> bool" where
  "dockerContainerExecCreatePath path = action_in [''exec''] (dockerPathAction path ''/containers/'')"

definition dockerImageInspectReference :: "string \<Rightarrow> string option" where
  "dockerImageInspectReference path =
     (let value = TrimPrefix path ''/images/'' in
      if \<not> HasSuffix value ''/json'' then None
      else let img = TrimSpace (TrimSuffix value ''/json'') in
        if img = [] then None else map_option TrimSpace (PathUnescape img))"

definition dockerImageInspectReadAllowed :: "string \<Rightarrow> bool" where
  "dockerImageInspectReadAllowed path \<longleftrightarrow> dockerImageInspectReference path \<noteq> None"

definition proxyMethod :: "ProxyRequest \<Rightarrow> string" where
  "proxyMethod r = ToUpper (TrimSpace (PR_Method r))"

definition dockerProxyAllowed :: "string \<Rightarrow> string \<Rightarrow> bool" where
  "dockerProxyAllowed method rawPath =
     (let method = ToUpper (TrimSpace method); path = normalizeDockerAPIPath rawPath;
          isGet = (method = ''GET''); isPost = (method = ''POST''); isDelete = (method = ''DELETE'') in
      if isGet \<and> List.member [''/_ping'', ''/version'', ''/info'', ''/events''] path then True
      else if method = ''HEAD'' \<and> path = ''/_ping'' then True
      else if isGet \<and> (path = ''/containers/json'' \<or> dockerContainerReadAllowed path) then True
      else if isPost \<and> path = ''/containers/create'' then True
      else if isPost \<and> HasPrefix path ''/containers/'' then dockerContainerMutationAllowed path
      else if isDelete \<and> HasPrefix path ''/containers/'' then dockerPathObjectOnly path ''/containers/''
      else if isGet \<and> (path = ''/images/json'' \<or> dockerImageInspectReadAllowed path) then True
      else if isPost \<and> path = ''/images/create'' then True
      else if isGet \<and> (path = ''/networks'' \<or> dockerPathObjectOnly path ''/networks/'') then True
      else if isPost \<and> (path = ''/networks/create'' \<or> dockerNetworkMutationAllowed path) then True
      else if isDelete \<and> HasPrefix path ''/networks/'' then dockerPathObjectOnly path ''/networks/''
      else if isGet \<and> (path = ''/volumes'' \<or> dockerPathObjectOnly path ''/volumes/'') then True
      else if isPost \<and> path = ''/volumes/create'' then True
      else if isDelete \<and> HasPrefix path ''/volumes/'' then dockerPathObjectOnly path ''/volumes/''
      else if isGet \<and> HasPrefix path ''/exec/'' then dockerExecReadAllowed path
      else if isPost \<and> HasPrefix path ''/exec/'' then dockerExecMutationAllowed path
      else False)"

section \<open>Labels\<close>

definition composeProjectLabel :: string where "composeProjectLabel = ''com.docker.compose.project''"

fun composeProjectLabelValue :: "(string, string) gomap list \<Rightarrow> string option" where
  "composeProjectLabelValue [] = None"
| "composeProjectLabelValue (labels # labelSets) =
     (let project = TrimSpace (get_or [] labels composeProjectLabel) in
      if dockerComposeProjectRefPattern project \<and> project \<noteq> ''supadupa'' then Some project else composeProjectLabelValue labelSets)"

definition composeProjectLabelAllowed :: "(string, string) gomap list \<Rightarrow> bool" where
  "composeProjectLabelAllowed labelSets \<longleftrightarrow> composeProjectLabelValue labelSets \<noteq> None"

section \<open>Inspecting Docker objects\<close>

text \<open>Five attempts, as long as the object is not found.\<close>

fun inspectLoop :: "daemon \<Rightarrow> string \<Rightarrow> nat list \<Rightarrow> inspect_error + Inspection" where
  "inspectLoop d path [] = Inl (dockerInspectError 404)"
| "inspectLoop d path (attempt # attempts) =
     (case d attempt path of
        Inspected payload \<Rightarrow> Inr payload
      | HTTPStatus status \<Rightarrow> if status = 404 then inspectLoop d path attempts else Inl (dockerInspectError status)
      | InspectFailed msg \<Rightarrow> Inl (InspectError msg))"

definition attempts :: "nat list" where "attempts = [0, 1, 2, 3, 4]"

definition dockerObjectLabels :: "daemon \<Rightarrow> string \<Rightarrow> inspect_error + (string, string) gomap" where
  "dockerObjectLabels d path =
     (case inspectLoop d path attempts of
        Inl e \<Rightarrow> Inl e
      | Inr payload \<Rightarrow> Inr (if composeProjectLabelAllowed [In_Labels payload] then In_Labels payload else In_ConfigLabels payload))"

definition dockerNetworkObject :: "daemon \<Rightarrow> string \<Rightarrow> inspect_error + string \<times> (string, string) gomap" where
  "dockerNetworkObject d i =
     (case inspectLoop d (''/networks/'' @ i) attempts of
        Inl e \<Rightarrow> Inl e
      | Inr payload \<Rightarrow> Inr (TrimSpace (In_Name payload), In_Labels payload))"

definition inspect_err :: "inspect_error \<Rightarrow> err" where
  "inspect_err e = (case e of dockerInspectError status \<Rightarrow> ErrOther ''inspect docker object returned HTTP'' | InspectError msg \<Rightarrow> ErrOther msg)"

definition notFound :: "inspect_error \<Rightarrow> bool" where
  "notFound e \<longleftrightarrow> e = dockerInspectError 404"

definition validateDockerLabeledObject :: "daemon \<Rightarrow> string \<Rightarrow> string \<Rightarrow> unit res" where
  "validateDockerLabeledObject d path label =
     (case dockerObjectLabels d path of
        Inl e \<Rightarrow> Inl (inspect_err e)
      | Inr labels \<Rightarrow> check (composeProjectLabelAllowed [labels]) (ErrOther (label @ '' is not part of a Supadupa Compose project'')))"

definition validateDockerLabeledObjectIfPresent :: "daemon \<Rightarrow> string \<Rightarrow> string \<Rightarrow> unit res" where
  "validateDockerLabeledObjectIfPresent d path label =
     (case dockerObjectLabels d path of
        Inl e \<Rightarrow> if notFound e then Inr () else Inl (inspect_err e)
      | Inr labels \<Rightarrow> check (composeProjectLabelAllowed [labels]) (ErrOther (label @ '' is not part of a Supadupa Compose project'')))"

definition OrDefault :: "ProxyLib \<Rightarrow> string \<Rightarrow> string \<Rightarrow> string" where
  "OrDefault k key fallback = (let value = TrimSpace (px_getenv k key) in if value \<noteq> [] then value else fallback)"

definition edgeRouterContainerAllowed :: "ProxyLib \<Rightarrow> string \<Rightarrow> bool" where
  "edgeRouterContainerAllowed k container =
     (let name = TrimSpace (OrDefault k ''SUPADUPA_EDGE_ROUTER_CONTAINER'' ''supadupa-edge-router-1'') in
      name \<noteq> [] \<and> TrimSpace container = name)"

definition sharedIngressNetworkAllowed :: "ProxyLib \<Rightarrow> string \<Rightarrow> string \<Rightarrow> bool" where
  "sharedIngressNetworkAllowed k i name =
     (let ingressNetwork = TrimSpace (OrDefault k ''SUPADUPA_INGRESS_NETWORK'' ''supadupa-ingress'') in
      if ingressNetwork = [] then False else i = ingressNetwork \<or> name = ingressNetwork)"

definition networkAllowed :: "ProxyLib \<Rightarrow> string \<Rightarrow> string \<times> (string, string) gomap \<Rightarrow> unit res" where
  "networkAllowed k i nw =
     check (composeProjectLabelAllowed [snd nw] \<or> sharedIngressNetworkAllowed k i (fst nw))
       (ErrOther ''network is not part of a Supadupa Compose project'')"

definition validateDockerNetworkObject :: "ProxyLib \<Rightarrow> daemon \<Rightarrow> string \<Rightarrow> unit res" where
  "validateDockerNetworkObject k d i =
     (case dockerNetworkObject d i of Inl e \<Rightarrow> Inl (inspect_err e) | Inr nw \<Rightarrow> networkAllowed k i nw)"

definition validateDockerNetworkObjectIfPresent :: "ProxyLib \<Rightarrow> daemon \<Rightarrow> string \<Rightarrow> unit res" where
  "validateDockerNetworkObjectIfPresent k d i =
     (case dockerNetworkObject d i of
        Inl e \<Rightarrow> if notFound e then Inr () else Inl (inspect_err e)
      | Inr nw \<Rightarrow> networkAllowed k i nw)"

definition dockerExecContainerID :: "daemon \<Rightarrow> string \<Rightarrow> string res" where
  "dockerExecContainerID d execID =
     (case d 0 (''/exec/'' @ execID @ ''/json'') of
        Inspected payload \<Rightarrow> let containerID = TrimSpace (In_ContainerID payload) in
          and_then (refuse (containerID = []) ''exec container id is missing'') (\<lambda>_. Inr containerID)
      | HTTPStatus status \<Rightarrow> Inl (inspect_err (dockerInspectError status))
      | InspectFailed msg \<Rightarrow> Inl (ErrOther msg))"

section \<open>Bind mounts and volumes\<close>

definition splitDockerBind :: "string \<Rightarrow> string \<times> string" where
  "splitDockerBind bind =
     (case Cut (CHR '':'') bind of (source, rest, ok) \<Rightarrow>
      if \<not> ok then (TrimSpace bind, [])
      else (case Cut (CHR '':'') rest of (target, _, _) \<Rightarrow> (TrimSpace source, TrimSpace target)))"

definition projectRelativeBindSourceAllowed :: "string \<Rightarrow> bool" where
  "projectRelativeBindSourceAllowed source =
     (let source = TrimSpace source in
      if source \<noteq> ''.'' \<and> \<not> HasPrefix source ''./'' \<and> \<not> HasPrefix source [CHR ''.'', CHR 0x5C] then False
      else let cleaned = Clean source in cleaned = ''.'' \<or> cleaned \<noteq> ''..'' \<and> \<not> HasPrefix cleaned ''../'')"

definition projectVolumeSourceAllowed :: "string \<Rightarrow> string \<Rightarrow> bool" where
  "projectVolumeSourceAllowed projectRef source =
     (let projectRef = TrimSpace projectRef; source = TrimSpace source in
      if source = [] then True
      else dockerComposeProjectRefPattern projectRef \<and> projectRef \<noteq> ''supadupa'' \<and> dockerVolumeNamePattern source \<and>
        HasPrefix source (projectRef @ ''_''))"

text \<open>\<open>filepath.Join\<close> of two elements that are not empty.\<close>

definition pathJoin :: "string \<Rightarrow> string \<Rightarrow> string" where
  "pathJoin a b = Clean (a @ ''/'' @ b)"

definition allowedProjectBindMountPath :: "ProxyLib \<Rightarrow> string \<Rightarrow> string \<Rightarrow> bool" where
  "allowedProjectBindMountPath k projectRef path =
     (let projectRef = TrimSpace projectRef in
      if \<not> dockerComposeProjectRefPattern projectRef \<or> projectRef = ''supadupa'' then False
      else let root = TrimSpace (px_getenv k ''SUPADUPA_PROJECT_HOST_ROOT'') in
        if root = [] then False
        else let source = Clean (TrimSpace path); projectRoot = pathJoin (Clean root) projectRef in
          source = projectRoot \<or> HasPrefix source (projectRoot @ ''/''))"

definition projectBindSourceAllowed :: "ProxyLib \<Rightarrow> string \<Rightarrow> string \<Rightarrow> bool" where
  "projectBindSourceAllowed k projectRef source =
     (let source = TrimSpace source in
      if source = [] then False
      else if \<not> HasPrefix source ''/'' then
        (if projectRelativeBindSourceAllowed source then True else projectVolumeSourceAllowed projectRef source)
      else allowedProjectBindMountPath k projectRef source)"

definition projectRelativeOrAbsoluteBindSourceAllowed :: "ProxyLib \<Rightarrow> string \<Rightarrow> string \<Rightarrow> bool" where
  "projectRelativeOrAbsoluteBindSourceAllowed k projectRef source =
     (let source = TrimSpace source in
      if source = [] then False
      else if HasPrefix source ''/'' then allowedProjectBindMountPath k projectRef source
      else projectRelativeBindSourceAllowed source)"

definition mountAllowed :: "ProxyLib \<Rightarrow> string \<Rightarrow> dockerMount \<Rightarrow> unit res" where
  "mountAllowed k projectRef mount =
     (let kind = ToLower (TrimSpace (Mount_Type mount)) in
      if kind = ''bind'' then check (projectRelativeOrAbsoluteBindSourceAllowed k projectRef (Mount_Source mount))
        (ErrOther ''bind mount source is outside the project's allowed paths'')
      else if kind = ''volume'' then check (projectVolumeSourceAllowed projectRef (Mount_Source mount))
        (ErrOther ''volume mount source is outside the project's allowed volumes'')
      else check (kind = ''tmpfs'') (ErrOther ''mount type is not allowed through docker proxy''))"

fun checkAll :: "('a \<Rightarrow> unit res) \<Rightarrow> 'a list \<Rightarrow> unit res" where
  "checkAll f [] = Inr ()"
| "checkAll f (x # xs) = and_then (f x) (\<lambda>_. checkAll f xs)"

definition isHostMode :: "string \<Rightarrow> bool" where
  "isHostMode mode = EqualFold (TrimSpace mode) ''host''"

definition validateDockerHostConfig :: "ProxyLib \<Rightarrow> string \<Rightarrow> dockerHostConfig \<Rightarrow> dockerMount list \<Rightarrow> unit res" where
  "validateDockerHostConfig k projectRef config extraMounts =
     and_then (refuse (HC_Privileged config) ''privileged containers are not allowed through docker proxy'') (\<lambda>_.
     and_then (refuse (HC_CapAdd config \<noteq> []) ''additional container capabilities are not allowed through docker proxy'') (\<lambda>_.
     and_then (refuse (HC_Devices config \<noteq> []) ''container device mappings are not allowed through docker proxy'') (\<lambda>_.
     and_then (refuse (HC_VolumesFrom config \<noteq> []) ''volumes-from is not allowed through docker proxy'') (\<lambda>_.
     and_then (refuse (isHostMode (HC_NetworkMode config) \<or> isHostMode (HC_PidMode config) \<or> isHostMode (HC_IpcMode config))
       ''host namespace is not allowed through docker proxy'') (\<lambda>_.
     and_then (checkAll (\<lambda>bind. check (projectBindSourceAllowed k projectRef (fst (splitDockerBind bind)))
       (ErrOther ''bind mount source is outside the project's allowed paths'')) (HC_Binds config)) (\<lambda>_.
     checkAll (mountAllowed k projectRef) (HC_Mounts config @ extraMounts)))))))"

section \<open>Filters and image references\<close>

fun jsonTexts :: "json_value list \<Rightarrow> string list option" where
  "jsonTexts [] = Some []"
| "jsonTexts (v # vs) = (case v of JText value \<Rightarrow> map_option ((#) value) (jsonTexts vs) | _ \<Rightarrow> None)"

definition dockerQueryFilterValues :: "ProxyLib \<Rightarrow> (string, string) gomap \<Rightarrow> string \<Rightarrow> string list res" where
  "dockerQueryFilterValues k query name =
     (let raw = TrimSpace (get_or [] query ''filters'') in
      if raw = [] then Inr []
      else case px_filters k raw of
          None \<Rightarrow> Inl (ErrOther ''docker filter query must be valid JSON'')
        | Some filters \<Rightarrow> (case map_of filters name of
              None \<Rightarrow> Inr []
            | Some (JArray values) \<Rightarrow> (case jsonTexts values of
                  None \<Rightarrow> Inl (ErrOther ''docker filter values must be strings'')
                | Some filterValues \<Rightarrow> Inr filterValues)
            | Some _ \<Rightarrow> Inl (ErrOther ''docker filter must be an array'')))"

fun projectFilterLoop :: "nat \<Rightarrow> string list \<Rightarrow> bool" where
  "projectFilterLoop projectLabels [] = (projectLabels = 1)"
| "projectFilterLoop projectLabels (label # labels) =
     (case Cut (CHR ''='') (TrimSpace label) of (name, value, ok) \<Rightarrow>
      if \<not> ok \<or> TrimSpace name \<noteq> composeProjectLabel then projectFilterLoop projectLabels labels
      else if projectLabels + 1 > 1 \<or> \<not> composeProjectLabelAllowed [[(composeProjectLabel, value)]] then False
      else projectFilterLoop (projectLabels + 1) labels)"

definition dockerFiltersIncludeAllowedComposeProject :: "ProxyLib \<Rightarrow> (string, string) gomap \<Rightarrow> bool" where
  "dockerFiltersIncludeAllowedComposeProject k query =
     (case dockerQueryFilterValues k query ''label'' of Inl _ \<Rightarrow> False | Inr labels \<Rightarrow> projectFilterLoop 0 labels)"

definition dockerImageReferenceShapeAllowed :: "string \<Rightarrow> bool" where
  "dockerImageReferenceShapeAllowed value =
     (let value = TrimSpace value in
      if value = [] \<or> \<not> dockerImageReferencePattern value then False
      else if Contains value ''://'' \<or> Contains value ''//'' then False
      else if ContainsAny value ''?&#=%'' then False
      else if list_ex (\<lambda>c. byte c < 33 \<or> byte c = 127) value then False
      else list_all (\<lambda>part. part \<noteq> [] \<and> part \<noteq> ''.'' \<and> part \<noteq> ''..'') (Split CHR ''/'' value))"

fun replaceStar :: "string \<Rightarrow> string" where
  "replaceStar [] = []"
| "replaceStar (c # s) = (if c = CHR ''*'' then CHR ''x'' # s else c # replaceStar s)"

definition dockerImageFilterReferenceAllowed :: "string \<Rightarrow> bool" where
  "dockerImageFilterReferenceAllowed value =
     (let value = TrimSpace value; stars = length (filter (\<lambda>c. c = CHR ''*'') value) in
      if value = [] \<or> stars > 1 then False
      else if filter (\<lambda>c. c \<noteq> CHR ''*'') value = [] then False
      else if stars > 0 then
        (if \<not> HasSuffix value '':*'' \<or> HasPrefix value ''*'' then False
         else dockerImageReferenceShapeAllowed (replaceStar value))
      else dockerImageReferenceShapeAllowed value)"

definition dockerImagePullReferenceAllowed :: "string \<Rightarrow> bool" where
  "dockerImagePullReferenceAllowed value =
     (let value = TrimSpace value in if CHR ''*'' \<in> set value then False else dockerImageReferenceShapeAllowed value)"

section \<open>Validating a request\<close>

definition maxDockerCreateRequestBytes :: int where "maxDockerCreateRequestBytes = 1048576"

definition readAndRestoreDockerProxyBody :: "ProxyRequest \<Rightarrow> string \<Rightarrow> string res" where
  "readAndRestoreDockerProxyBody r label =
     (case PR_Body r of
        NoBody \<Rightarrow> Inl (ErrOther (label @ '' request body is required''))
      | Unreadable msg \<Rightarrow> Inl (ErrOther msg)
      | Content payload \<Rightarrow>
          and_then (refuse (int (length payload) > maxDockerCreateRequestBytes) (label @ '' request exceeds proxy limit'')) (\<lambda>_. Inr payload))"

definition unmarshal :: "(string \<Rightarrow> 'a option) \<Rightarrow> string \<Rightarrow> string \<Rightarrow> 'a res" where
  "unmarshal decode payload msg = (case decode payload of None \<Rightarrow> Inl (ErrOther msg) | Some x \<Rightarrow> Inr x)"

definition validateDockerEventsRequest :: "ProxyLib \<Rightarrow> ProxyRequest \<Rightarrow> unit res" where
  "validateDockerEventsRequest k r =
     check (dockerFiltersIncludeAllowedComposeProject k (PR_Query r))
       (ErrOther ''docker events request must include a Supadupa Compose project label filter'')"

definition validateDockerImageListRequest :: "ProxyLib \<Rightarrow> ProxyRequest \<Rightarrow> unit res" where
  "validateDockerImageListRequest k r =
     and_then (dockerQueryFilterValues k (PR_Query r) ''reference'') (\<lambda>references.
     check (list_ex dockerImageFilterReferenceAllowed references) (ErrOther ''docker image list request must include a reference filter''))"

definition validateDockerImageCreateRequest :: "ProxyRequest \<Rightarrow> unit res" where
  "validateDockerImageCreateRequest r =
     (let query = PR_Query r; fromImage = TrimSpace (get_or [] query ''fromImage''); tag = TrimSpace (get_or [] query ''tag'') in
      and_then (refuse (TrimSpace (get_or [] query ''fromSrc'') \<noteq> []) ''docker image imports are not allowed through docker proxy'') (\<lambda>_.
      and_then (check (dockerImagePullReferenceAllowed fromImage)
        (ErrOther ''docker image create request must include a valid fromImage pull reference'')) (\<lambda>_.
      and_then (refuse (tag \<noteq> [] \<and> \<not> dockerImageTagPattern tag) ''docker image create request tag is invalid'') (\<lambda>_.
      case PR_Body r of
        NoBody \<Rightarrow> Inr ()
      | Unreadable msg \<Rightarrow> Inl (ErrOther msg)
      | Content payload \<Rightarrow>
          and_then (refuse (int (length payload) > maxDockerCreateRequestBytes) ''image create request exceeds proxy limit'') (\<lambda>_.
          refuse (TrimSpace payload \<noteq> []) ''docker image create request bodies are not allowed through docker proxy'')))))"

definition validateDockerContainerCreateRequest :: "ProxyLib \<Rightarrow> ProxyRequest \<Rightarrow> unit res" where
  "validateDockerContainerCreateRequest k r =
     and_then (readAndRestoreDockerProxyBody r ''container create'') (\<lambda>payload.
     and_then (unmarshal (px_create k) payload ''container create request must be valid JSON'') (\<lambda>create.
     case composeProjectLabelValue [Create_Labels create, Create_ConfigLabels create] of
       None \<Rightarrow> Inl (ErrOther ''container create request must target a Supadupa Compose project'')
     | Some projectRef \<Rightarrow> validateDockerHostConfig k projectRef (Create_HostConfig create) (Create_Mounts create)))"

definition validateDockerExecCreateRequest :: "ProxyLib \<Rightarrow> ProxyRequest \<Rightarrow> unit res" where
  "validateDockerExecCreateRequest k r =
     and_then (readAndRestoreDockerProxyBody r ''container exec create'') (\<lambda>payload.
     and_then (unmarshal (px_privileged k) payload ''container exec create request must be valid JSON'') (\<lambda>privileged.
     refuse privileged ''privileged exec processes are not allowed through docker proxy''))"

definition containerJSON :: "string \<Rightarrow> string" where "containerJSON i = ''/containers/'' @ i @ ''/json''"

definition validateDockerNetworkMutationRequest :: "ProxyLib \<Rightarrow> daemon \<Rightarrow> ProxyRequest \<Rightarrow> unit res" where
  "validateDockerNetworkMutationRequest k d r =
     and_then (readAndRestoreDockerProxyBody r ''network mutation'') (\<lambda>payload.
     and_then (unmarshal (px_container k) payload ''network mutation request must be valid JSON'') (\<lambda>container.
     let containerID = TrimSpace container in
     and_then (check (dockerObjectIDAllowed containerID) (ErrOther ''network mutation request must include a valid container id'')) (\<lambda>_.
     if edgeRouterContainerAllowed k containerID then Inr ()
     else validateDockerLabeledObject d (containerJSON containerID) ''network mutation container'')))"

definition validateDockerLabeledCreateRequest :: "ProxyLib \<Rightarrow> ProxyRequest \<Rightarrow> string \<Rightarrow> unit res" where
  "validateDockerLabeledCreateRequest k r label =
     and_then (readAndRestoreDockerProxyBody r label) (\<lambda>payload.
     and_then (unmarshal (px_labels k) payload (label @ '' request must be valid JSON'')) (\<lambda>labels.
     check (composeProjectLabelAllowed [labels]) (ErrOther (label @ '' request must target a Supadupa Compose project''))))"

definition withObjectID :: "string \<Rightarrow> string \<Rightarrow> string \<Rightarrow> (string \<Rightarrow> unit res) \<Rightarrow> unit res" where
  "withObjectID path prefix msg f = (case dockerPathObjectID path prefix of None \<Rightarrow> Inl (ErrOther msg) | Some i \<Rightarrow> f i)"

definition validateDockerProxyRequest :: "ProxyLib \<Rightarrow> daemon \<Rightarrow> ProxyRequest \<Rightarrow> unit res" where
  "validateDockerProxyRequest k d r =
     (let method = proxyMethod r; path = normalizeDockerAPIPath (PR_Path r);
          isGet = (method = ''GET''); isPost = (method = ''POST''); isDelete = (method = ''DELETE'') in
      if isGet \<and> path = ''/events'' then validateDockerEventsRequest k r
      else if isGet \<and> path = ''/images/json'' then validateDockerImageListRequest k r
      else if isGet \<and> HasPrefix path ''/images/'' then
        check (case dockerImageInspectReference path of None \<Rightarrow> False | Some img \<Rightarrow> dockerImagePullReferenceAllowed img)
          (ErrOther ''docker image inspect request must use a valid image reference'')
      else if isPost \<and> path = ''/images/create'' then validateDockerImageCreateRequest r
      else if isPost \<and> path = ''/containers/create'' then validateDockerContainerCreateRequest k r
      else if HasPrefix path ''/containers/'' \<and> path \<noteq> ''/containers/json'' then
        withObjectID path ''/containers/'' ''container id is required'' (\<lambda>i.
          and_then ((if isGet then validateDockerLabeledObjectIfPresent else validateDockerLabeledObject) d (containerJSON i) ''container'')
            (\<lambda>_. if isPost \<and> dockerContainerExecCreatePath path then validateDockerExecCreateRequest k r else Inr ()))
      else if HasPrefix path ''/exec/'' then
        withObjectID path ''/exec/'' ''exec id is required'' (\<lambda>i.
          and_then (dockerExecContainerID d i) (\<lambda>containerID. validateDockerLabeledObject d (containerJSON containerID) ''exec container''))
      else if isPost \<and> path = ''/networks/create'' then validateDockerLabeledCreateRequest k r ''network create''
      else if isGet \<and> HasPrefix path ''/networks/'' then
        withObjectID path ''/networks/'' ''network id is required'' (validateDockerNetworkObjectIfPresent k d)
      else if isPost \<and> dockerNetworkMutationAllowed path then
        withObjectID path ''/networks/'' ''network id is required'' (\<lambda>i.
          and_then (validateDockerNetworkObject k d i) (\<lambda>_. validateDockerNetworkMutationRequest k d r))
      else if isDelete \<and> HasPrefix path ''/networks/'' then
        withObjectID path ''/networks/'' ''network id is required'' (\<lambda>i. validateDockerLabeledObject d (''/networks/'' @ i) ''network'')
      else if isPost \<and> path = ''/volumes/create'' then validateDockerLabeledCreateRequest k r ''volume create''
      else if isGet \<and> HasPrefix path ''/volumes/'' then
        withObjectID path ''/volumes/'' ''volume name is required'' (\<lambda>i. validateDockerLabeledObjectIfPresent d (''/volumes/'' @ i) ''volume'')
      else if isDelete \<and> HasPrefix path ''/volumes/'' then
        withObjectID path ''/volumes/'' ''volume name is required'' (\<lambda>i. validateDockerLabeledObject d (''/volumes/'' @ i) ''volume'')
      else Inr ())"

text \<open>The handler: \<open>Inr ()\<close> is a request that is passed on to Docker, \<open>Inl\<close> is the answer 403.\<close>

definition forwarded :: "ProxyLib \<Rightarrow> daemon \<Rightarrow> ProxyRequest \<Rightarrow> unit res" where
  "forwarded k d r =
     and_then (check (dockerProxyAllowed (PR_Method r) (PR_Path r)) (ErrOther ''docker API route is not allowed'')) (\<lambda>_.
     validateDockerProxyRequest k d r)"

section \<open>Filtering the lists\<close>

record ProxyResponse =
  Res_Status :: int
  Res_Body :: request_body

fun textLabels :: "(string \<times> json_value) list \<Rightarrow> (string, string) gomap" where
  "textLabels [] = []"
| "textLabels ((name, v) # rawLabels) = (case v of JText value \<Rightarrow> (name, value) # textLabels rawLabels | _ \<Rightarrow> textLabels rawLabels)"

definition dockerLabelsFromJSONValue :: "json_value option \<Rightarrow> (string, string) gomap" where
  "dockerLabelsFromJSONValue v = (case v of Some (JObject rawLabels) \<Rightarrow> textLabels rawLabels | _ \<Rightarrow> [])"

definition objectAllowed :: "(string, json_value) gomap \<Rightarrow> bool" where
  "objectAllowed ob = composeProjectLabelAllowed [dockerLabelsFromJSONValue (map_of ob ''Labels'')]"

definition readDockerListResponsePayload :: "ProxyResponse \<Rightarrow> string \<Rightarrow> string option res" where
  "readDockerListResponsePayload response label =
     (if Res_Body response = NoBody \<or> Res_Status response < 200 \<or> Res_Status response \<ge> 300 then Inr None
      else case Res_Body response of
          Unreadable msg \<Rightarrow> Inl (ErrOther msg)
        | Content payload \<Rightarrow>
            and_then (refuse (int (length payload) > maxDockerCreateRequestBytes) (''docker list response exceeds proxy limit''))
              (\<lambda>_. Inr (Some payload))
        | NoBody \<Rightarrow> Inr None)"

definition replaceBody :: "ProxyLib \<Rightarrow> ProxyResponse \<Rightarrow> json_value \<Rightarrow> ProxyResponse" where
  "replaceBody k response payload = response\<lparr>Res_Body := Content (px_encode k payload)\<rparr>"

definition filterDockerListResponse :: "ProxyLib \<Rightarrow> string \<Rightarrow> ProxyResponse \<Rightarrow> ProxyResponse res" where
  "filterDockerListResponse k label response =
     and_then (readDockerListResponsePayload response label) (\<lambda>payload.
     case payload of
       None \<Rightarrow> Inr response
     | Some payload \<Rightarrow>
         and_then (unmarshal (px_objects k) payload ''docker list response must be valid JSON'') (\<lambda>obs.
         Inr (replaceBody k response (case obs of None \<Rightarrow> JNull | Some obs \<Rightarrow> JArray (map JObject (filter objectAllowed obs))))))"

fun filterVolumes :: "json_value list \<Rightarrow> json_value list res" where
  "filterVolumes [] = Inr []"
| "filterVolumes (v # vs) =
     (case v of
        JObject volume \<Rightarrow> and_then (filterVolumes vs) (\<lambda>filtered. Inr (if objectAllowed volume then v # filtered else filtered))
      | _ \<Rightarrow> Inl (ErrOther ''docker volume list response must contain volume objects''))"

definition filterDockerVolumeListResponse :: "ProxyLib \<Rightarrow> ProxyResponse \<Rightarrow> ProxyResponse res" where
  "filterDockerVolumeListResponse k response =
     and_then (readDockerListResponsePayload response ''volume'') (\<lambda>payload.
     case payload of
       None \<Rightarrow> Inr response
     | Some payload \<Rightarrow>
         and_then (unmarshal (px_object k) payload ''docker volume list response must be valid JSON'') (\<lambda>volumes.
         case (case map_of volumes ''Volumes'' of None \<Rightarrow> JNull | Some v \<Rightarrow> v) of
           JNull \<Rightarrow> Inr (replaceBody k response (JObject (AList.update ''Volumes'' JNull volumes)))
         | JArray rawList \<Rightarrow> and_then (filterVolumes rawList) (\<lambda>filtered.
             Inr (replaceBody k response (JObject (AList.update ''Volumes'' (JArray filtered) volumes))))
         | _ \<Rightarrow> Inl (ErrOther ''docker volume list response must contain a volume array'')))"

definition modifyResponse :: "ProxyLib \<Rightarrow> ProxyRequest \<Rightarrow> ProxyResponse \<Rightarrow> ProxyResponse res" where
  "modifyResponse k r response =
     (if PR_Method r \<noteq> ''GET'' then Inr response
      else let path = normalizeDockerAPIPath (PR_Path r) in
        if path = ''/containers/json'' then filterDockerListResponse k ''container'' response
        else if path = ''/networks'' then filterDockerListResponse k ''network'' response
        else if path = ''/volumes'' then filterDockerVolumeListResponse k response
        else Inr response)"

end
