(* ===== verification/Docker_Confinement.thy ===== *)
theory Docker_Confinement
  imports Docker_Requests
begin

text \<open>
  What the Docker socket proxy guarantees: what it lets a created container mount belongs to the project its labels name, no path
  or volume is open to two projects, an object that is changed carries a project label, and a list shows objects of projects
  only; and, at the end, what it lets through that it does not mean to.
\<close>

section \<open>Project references and labels\<close>

text \<open>What the proxy promises is stated with the reference pattern written out: 3 to 55 lower case letters, digits and hyphens,
  with no hyphen at either end, other than the name of the platform's own Compose project.\<close>

definition project_ref :: "string \<Rightarrow> bool" where
  "project_ref ref \<longleftrightarrow> 3 \<le> length ref \<and> length ref \<le> 55 \<and>
     list_all (\<lambda>c. is_lower c \<or> is_digit c \<or> c = CHR ''-'') ref \<and>
     hd ref \<noteq> CHR ''-'' \<and> last ref \<noteq> CHR ''-'' \<and> ref \<noteq> ''supadupa''"

definition project_labels :: "(string, string) gomap \<Rightarrow> bool" where
  "project_labels labels \<longleftrightarrow> (case map_of labels ''com.docker.compose.project'' of None \<Rightarrow> False | Some v \<Rightarrow> project_ref (TrimSpace v))"

lemma slug_chars:
  "is_slug_char c \<longleftrightarrow> is_lower c \<or> is_digit c \<or> c = CHR ''-''"
  "is_lower_alnum c \<longleftrightarrow> is_slug_char c \<and> c \<noteq> CHR ''-''"
proof -
  have "\<not> is_lower CHR ''-''" "\<not> is_digit CHR ''-''" by code_simp+
  then show "is_slug_char c \<longleftrightarrow> is_lower c \<or> is_digit c \<or> c = CHR ''-''"
    "is_lower_alnum c \<longleftrightarrow> is_slug_char c \<and> c \<noteq> CHR ''-''"
    by (auto simp: is_slug_char_def is_lower_alnum_def)
qed

lemma project_ref_pattern: "project_ref ref \<longleftrightarrow> dockerComposeProjectRefPattern ref \<and> ref \<noteq> ''supadupa''"
proof (cases "ref = []")
  case False
  then have "hd ref \<in> set ref" "last ref \<in> set ref" by simp_all
  with False show ?thesis
    by (auto simp: project_ref_def dockerComposeProjectRefPattern_def slug_between_def slug_chars list_all_iff)
qed (simp add: project_ref_def dockerComposeProjectRefPattern_def slug_between_def)

lemma project_labels_allowed: "composeProjectLabelAllowed [labels] \<longleftrightarrow> project_labels labels"
proof -
  have "\<not> dockerComposeProjectRefPattern (TrimSpace [])" by code_simp
  then show ?thesis
    by (auto simp: composeProjectLabelAllowed_def project_labels_def project_ref_pattern composeProjectLabel_def get_or_def Let_def
        split: option.splits)
qed

section \<open>Paths below the directory of a project\<close>

lemma cleanParts_snoc:
  "p \<noteq> [] \<Longrightarrow> p \<noteq> ''.'' \<Longrightarrow> p \<noteq> ''..'' \<Longrightarrow> cleanParts rooted stack (parts @ [p]) = cleanParts rooted stack parts @ [p]"
  by (induction rooted stack parts rule: cleanParts.induct) (auto split: list.splits)

lemma Split_slash_snoc: "CHR ''/'' \<notin> set p \<Longrightarrow> Split CHR ''/'' (s @ ''/'' @ p) = Split CHR ''/'' s @ [p]"
proof (induction s)
  case Nil
  then show ?case using Split_append_sep [of "CHR ''/''" "[]" p] by (simp add: Split_id)
next
  case (Cons c s)
  then show ?case by (cases "Split CHR ''/'' s") (auto split: list.splits)
qed

lemma Split_slash_append: "Split CHR ''/'' (s @ ''/'' @ t) = Split CHR ''/'' s @ Split CHR ''/'' t"
proof (induction s)
  case Nil
  then show ?case using Split_append_sep [of "CHR ''/''" "[]" t] by simp
next
  case (Cons c s)
  then show ?case by (cases "Split CHR ''/'' s") (auto split: list.splits)
qed

definition rootComponents :: "string \<Rightarrow> string list" where
  "rootComponents root =
     (let rooted = HasPrefix (Clean root @ ''/'') ''/'' in
      (if rooted then [[]] else []) @ cleanParts rooted [] (Split CHR ''/'' (Clean root)))"

lemma slug_component:
  assumes "dockerComposeProjectRefPattern p"
  shows "CHR ''/'' \<notin> set p" "CHR ''_'' \<notin> set p" "p \<noteq> []" "p \<noteq> ''.''" "p \<noteq> ''..''" "TrimSpace p = p"
proof -
  have char: "\<And>c. c \<in> set p \<Longrightarrow> is_slug_char c"
    using slug_between_plain assms unfolding dockerComposeProjectRefPattern_def by blast
  have "\<not> is_slug_char CHR ''/''" "\<not> is_slug_char CHR ''_''" "\<not> is_slug_char CHR ''.''" by code_simp+
  with char show "CHR ''/'' \<notin> set p" "CHR ''_'' \<notin> set p" "p \<noteq> ''.''" "p \<noteq> ''..''" by auto
  show "p \<noteq> []" using assms by (auto simp: dockerComposeProjectRefPattern_def slug_between_def)
  show "TrimSpace p = p" using assms slug_plain plain_TrimSpace unfolding dockerComposeProjectRefPattern_def by blast
qed

lemma projectRoot_components:
  assumes "dockerComposeProjectRefPattern p"
  shows "Split CHR ''/'' (pathJoin (Clean root) p) = rootComponents root @ [p]"
proof -
  note slug = slug_component [OF assms]
  let ?path = "Clean root @ ''/'' @ p"
  define rooted where "rooted = HasPrefix (Clean root @ ''/'') ''/''"
  have r: "HasPrefix ?path ''/'' = rooted" unfolding rooted_def HasPrefix_def by (cases "Clean root") auto
  let ?x = "cleanParts rooted [] (Split CHR ''/'' (Clean root))"
  have parts: "cleanParts rooted [] (Split CHR ''/'' ?path) = ?x @ [p]"
    using Split_slash_snoc [OF slug(1)] cleanParts_snoc [OF slug(3,4,5)] by metis
  have plain: "list_all (\<lambda>q. CHR ''/'' \<notin> set q) (?x @ [p])"
    using cleanParts_plain [of "[]" "Split CHR ''/'' ?path" rooted] Split_slash_plain [of ?path] unfolding parts by simp
  have join: "Split CHR ''/'' (Join ''/'' (?x @ [p])) = ?x @ [p]" by (rule Split_Join [OF _ plain]) simp
  have clean: "pathJoin (Clean root) p = (if rooted then ''/'' @ Join ''/'' (?x @ [p]) else Join ''/'' (?x @ [p]))"
    unfolding pathJoin_def Clean_def [of ?path] Let_def r parts by simp
  show ?thesis
    using join Split_append_sep [of "CHR ''/''" "[]" "Join ''/'' (?x @ [p])"]
    unfolding clean rootComponents_def Let_def rooted_def [symmetric] by (cases rooted) simp_all
qed

text \<open>An allowed absolute path starts with the components of the projects' directory, and the next one is the reference.\<close>

lemma allowed_path_components:
  assumes "allowedProjectBindMountPath k p path"
  shows "dockerComposeProjectRefPattern (TrimSpace p) \<and> TrimSpace p \<noteq> ''supadupa'' \<and>
    (\<exists>rest. Split CHR ''/'' (Clean (TrimSpace path)) =
       rootComponents (TrimSpace (px_getenv k ''SUPADUPA_PROJECT_HOST_ROOT'')) @ TrimSpace p # rest)"
proof -
  let ?root = "TrimSpace (px_getenv k ''SUPADUPA_PROJECT_HOST_ROOT'')"
  let ?source = "Clean (TrimSpace path)" and ?projectRoot = "pathJoin (Clean ?root) (TrimSpace p)"
  have pat: "dockerComposeProjectRefPattern (TrimSpace p)" "TrimSpace p \<noteq> ''supadupa''"
    and or: "?source = ?projectRoot \<or> HasPrefix ?source (?projectRoot @ ''/'')"
    using assms by (auto simp: allowedProjectBindMountPath_def Let_def split: if_splits)
  note root = projectRoot_components [OF pat(1), of ?root]
  from or have "\<exists>rest. Split CHR ''/'' ?source = rootComponents ?root @ TrimSpace p # rest"
  proof
    assume "?source = ?projectRoot"
    with root show ?thesis by simp
  next
    assume "HasPrefix ?source (?projectRoot @ ''/'')"
    then obtain t where "?source = ?projectRoot @ ''/'' @ t" by (auto simp: HasPrefix_iff)
    with root Split_slash_append [of ?projectRoot t] show ?thesis by simp
  qed
  with pat show ?thesis by simp
qed

lemma allowed_path_one_project:
  assumes "allowedProjectBindMountPath k p path" and "allowedProjectBindMountPath k q path"
  shows "TrimSpace p = TrimSpace q"
  using allowed_path_components [OF assms(1)] allowed_path_components [OF assms(2)] by auto

lemma allowed_volume_prefix:
  assumes "projectVolumeSourceAllowed p source" and "TrimSpace source \<noteq> []"
  shows "dockerComposeProjectRefPattern (TrimSpace p) \<and> (\<exists>rest. TrimSpace source = TrimSpace p @ CHR ''_'' # rest)"
  using assms by (auto simp: projectVolumeSourceAllowed_def Let_def HasPrefix_iff)

lemma allowed_volume_one_project:
  assumes "projectVolumeSourceAllowed p source" and "projectVolumeSourceAllowed q source" and "TrimSpace source \<noteq> []"
  shows "TrimSpace p = TrimSpace q"
proof -
  from allowed_volume_prefix [OF assms(1,3)] obtain a where
    p: "dockerComposeProjectRefPattern (TrimSpace p)" "TrimSpace source = TrimSpace p @ CHR ''_'' # a" by blast
  from allowed_volume_prefix [OF assms(2,3)] obtain b where
    q: "dockerComposeProjectRefPattern (TrimSpace q)" "TrimSpace source = TrimSpace q @ CHR ''_'' # b" by blast
  have "Cut CHR ''_'' (TrimSpace source) = (TrimSpace p, a, True)" "Cut CHR ''_'' (TrimSpace source) = (TrimSpace q, b, True)"
    using Cut_sep slug_component(2) p q by metis+
  then show ?thesis by simp
qed

lemma relative_not_volume: "projectRelativeBindSourceAllowed source \<Longrightarrow> \<not> HasPrefix (TrimSpace source) ''/''"
  by (auto simp: projectRelativeBindSourceAllowed_def HasPrefix_iff Let_def split: if_splits)


text \<open>Two projects below the same directory.\<close>

definition sampleLib :: "string \<Rightarrow> dockerContainerCreatePayload option \<Rightarrow> ProxyLib" where
  "sampleLib root create = \<lparr>px_getenv = (\<lambda>key. if key = ''SUPADUPA_PROJECT_HOST_ROOT'' then root else []), px_create = (\<lambda>_. create),
     px_labels = (\<lambda>_. None), px_privileged = (\<lambda>_. Some False), px_container = (\<lambda>_. None), px_filters = (\<lambda>_. None),
     px_objects = (\<lambda>_. None), px_object = (\<lambda>_. None), px_encode = (\<lambda>_. [])\<rparr>"


section \<open>Created containers\<close>

definition belowProject :: "ProxyLib \<Rightarrow> string \<Rightarrow> string \<Rightarrow> bool" where
  "belowProject k ref path \<longleftrightarrow>
     (let own = rootComponents (TrimSpace (px_getenv k ''SUPADUPA_PROJECT_HOST_ROOT'')) @ [ref] in
      take (length own) (Split CHR ''/'' (Clean path)) = own)"

definition ownSource :: "ProxyLib \<Rightarrow> string \<Rightarrow> string \<Rightarrow> bool" where
  "ownSource k ref source \<longleftrightarrow>
     (if HasPrefix source ''/'' then confined (Clean source) \<and> belowProject k ref source
      else HasPrefix source ''.'' \<and> confined (Clean source) \<or> HasPrefix source (ref @ ''_''))"

definition ownMount :: "ProxyLib \<Rightarrow> string \<Rightarrow> dockerMount \<Rightarrow> bool" where
  "ownMount k ref mount \<longleftrightarrow>
     (let kind = ToLower (TrimSpace (Mount_Type mount)); source = TrimSpace (Mount_Source mount) in
      kind = ''tmpfs'' \<or> kind = ''volume'' \<and> source = [] \<or> List.member [''bind'', ''volume''] kind \<and> ownSource k ref source)"

definition ownContainer :: "ProxyLib \<Rightarrow> string \<Rightarrow> dockerContainerCreatePayload \<Rightarrow> bool" where
  "ownContainer k ref create \<longleftrightarrow>
     (let config = Create_HostConfig create in
      \<not> HC_Privileged config \<and> HC_CapAdd config = [] \<and> HC_Devices config = [] \<and> HC_VolumesFrom config = [] \<and>
      list_all (\<lambda>mode. ToLower (TrimSpace mode) \<noteq> ''host'') [HC_NetworkMode config, HC_PidMode config, HC_IpcMode config] \<and>
      list_all (\<lambda>bind. ownSource k ref (TrimSpace (fst (splitDockerBind bind)))) (HC_Binds config) \<and>
      list_all (ownMount k ref) (HC_Mounts config @ Create_Mounts create))"

lemma isHostMode_fold: "isHostMode mode \<longleftrightarrow> ToLower (TrimSpace mode) = ''host''"
proof -
  have "ToLower ''host'' = ''host''" by code_simp
  then show ?thesis by (simp add: isHostMode_def EqualFold_def)
qed

lemma checkAll_ok: "checkAll f xs = Inr () \<longleftrightarrow> list_all (\<lambda>x. f x = Inr ()) xs"
  by (induction xs) (auto simp: and_then_eq_Inr_iff)

lemma refuse_ok: "refuse b msg = Inr () \<longleftrightarrow> \<not> b"
  by (simp add: refuse_def check_def)

lemma check_ok: "check b e = Inr () \<longleftrightarrow> b"
  by (simp add: check_def)

lemma relative_source_own:
  assumes "projectRelativeBindSourceAllowed source"
  shows "ownSource k ref (TrimSpace source)"
proof -
  let ?s = "TrimSpace source"
  have rel: "\<not> HasPrefix ?s ''/''" and dot: "HasPrefix ?s ''.''"
    and up: "\<not> HasPrefix (Clean ?s) ''../''" "Clean ?s \<noteq> ''..''"
    using assms by (auto simp: projectRelativeBindSourceAllowed_def HasPrefix_iff Let_def split: if_splits)
  from Clean_relative [OF rel up(1)] up(2) have "confined (Clean ?s)" by simp
  with rel dot show ?thesis by (simp add: ownSource_def)
qed

lemma absolute_source_own:
  assumes "allowedProjectBindMountPath k ref source" and "HasPrefix (TrimSpace source) ''/''" and "TrimSpace ref = ref"
  shows "ownSource k ref (TrimSpace source)"
  using allowed_path_components [OF assms(1)] Clean_rooted [OF assms(2)] assms(2,3)
  by (auto simp: ownSource_def belowProject_def Let_def)

lemma volume_source_own:
  assumes "projectVolumeSourceAllowed ref source" and "TrimSpace ref = ref" and "TrimSpace source \<noteq> []"
  shows "ownSource k ref (TrimSpace source)"
proof -
  from allowed_volume_prefix [OF assms(1,3)] assms(2) obtain rest where
    pat: "dockerComposeProjectRefPattern ref" and rest: "TrimSpace source = ref @ CHR ''_'' # rest" by auto
  from slug_component [OF pat] have "\<not> HasPrefix (TrimSpace source) ''/''"
    by (cases ref) (auto simp: rest HasPrefix_def)
  with rest show ?thesis by (simp add: ownSource_def HasPrefix_iff)
qed

lemma bind_source_own:
  assumes "projectBindSourceAllowed k ref source" and "TrimSpace ref = ref"
  shows "ownSource k ref (TrimSpace source)"
proof -
  let ?s = "TrimSpace source"
  have "?s \<noteq> []" and "projectRelativeBindSourceAllowed ?s \<or> \<not> HasPrefix ?s ''/'' \<and> projectVolumeSourceAllowed ref ?s \<or>
      HasPrefix ?s ''/'' \<and> allowedProjectBindMountPath k ref ?s"
    using assms(1) by (auto simp: projectBindSourceAllowed_def Let_def split: if_splits)
  then show ?thesis
    using relative_source_own [of ?s k ref] volume_source_own [of ref ?s k] absolute_source_own [of k ref ?s] assms(2) by auto
qed

lemma mount_own:
  assumes "mountAllowed k ref mount = Inr ()" and "TrimSpace ref = ref"
  shows "ownMount k ref mount"
proof -
  let ?kind = "ToLower (TrimSpace (Mount_Type mount))" and ?s = "TrimSpace (Mount_Source mount)"
  have "?kind = ''bind'' \<and> projectRelativeOrAbsoluteBindSourceAllowed k ref (Mount_Source mount) \<or>
      ?kind = ''volume'' \<and> projectVolumeSourceAllowed ref (Mount_Source mount) \<or> ?kind = ''tmpfs''"
    using assms(1) by (auto simp: mountAllowed_def Let_def check_ok split: if_splits)
  then show ?thesis
  proof (elim disjE conjE)
    assume kind: "?kind = ''bind''" and "projectRelativeOrAbsoluteBindSourceAllowed k ref (Mount_Source mount)"
    then have "projectRelativeBindSourceAllowed ?s \<or> HasPrefix ?s ''/'' \<and> allowedProjectBindMountPath k ref ?s"
      by (auto simp: projectRelativeOrAbsoluteBindSourceAllowed_def Let_def split: if_splits)
    then have "ownSource k ref ?s"
      using relative_source_own [of ?s k ref] absolute_source_own [of k ref ?s] assms(2) by auto
    with kind show ?thesis by (simp add: ownMount_def)
  next
    assume kind: "?kind = ''volume''" and "projectVolumeSourceAllowed ref (Mount_Source mount)"
    then show ?thesis using volume_source_own [of ref "Mount_Source mount" k] assms(2) by (auto simp: ownMount_def Let_def)
  qed (simp add: ownMount_def)
qed

lemma validated_own:
  assumes "validateDockerHostConfig k ref (Create_HostConfig create) (Create_Mounts create) = Inr ()" and "TrimSpace ref = ref"
  shows "ownContainer k ref create"
  using assms bind_source_own mount_own
  by (fastforce simp: validateDockerHostConfig_def ownContainer_def isHostMode_fold and_then_eq_Inr_iff refuse_ok check_ok checkAll_ok list_all_iff Let_def)

lemma composeProjectLabelValue_ref:
  "composeProjectLabelValue ls = Some ref \<Longrightarrow> dockerComposeProjectRefPattern ref \<and> ref \<noteq> ''supadupa'' \<and> TrimSpace ref = ref"
  by (induction ls rule: composeProjectLabelValue.induct) (auto simp: Let_def split: if_splits)

lemmas forwarded_ok = forwarded_def and_then_eq_Inr_iff check_ok

text \<open>C4. The payload of a request to create a container that is passed on names a project other than the platform's own in its
  labels or, when these name none, in those of its \<open>Config\<close>; its flag \<open>Privileged\<close> is off; its lists \<open>CapAdd\<close>, \<open>Devices\<close> and
  \<open>VolumesFrom\<close> are empty; its network, pid and ipc modes are not the word \<open>host\<close>; and the source of each of its binds and
  mounts lies below the directory of that project, starts with the project's name and an underscore, or is relative without
  leading outside. These are the fields the proxy looks at. It does not look at the others (\<open>SecurityOpt\<close>, \<open>UsernsMode\<close>,
  \<open>DeviceRequests\<close>, options of a volume driver), and a mode that joins the namespace of any other container is let
  through (\<open>foreign_namespace_accepted\<close>).\<close>

theorem created_container_confined:
  assumes "forwarded k d r = Inr ()" and "proxyMethod r = ''POST''"
    and "normalizeDockerAPIPath (PR_Path r) = ''/containers/create''"
  shows "\<exists>payload create ref. PR_Body r = Content payload \<and> px_create k payload = Some create \<and>
    composeProjectLabelValue [Create_Labels create, Create_ConfigLabels create] = Some ref \<and>
    project_ref ref \<and> ownContainer k ref create"
proof -
  have "validateDockerContainerCreateRequest k r = Inr ()"
    using assms by (simp add: forwarded_ok validateDockerProxyRequest_def)
  then obtain payload create where body: "readAndRestoreDockerProxyBody r ''container create'' = Inr payload"
    and create: "px_create k payload = Some create"
    and valid: "(case composeProjectLabelValue [Create_Labels create, Create_ConfigLabels create] of
       None \<Rightarrow> Inl (ErrOther ''container create request must target a Supadupa Compose project'')
     | Some projectRef \<Rightarrow> validateDockerHostConfig k projectRef (Create_HostConfig create) (Create_Mounts create)) = Inr ()"
    by (auto simp: validateDockerContainerCreateRequest_def and_then_eq_Inr_iff unmarshal_def split: option.splits)
  from valid obtain ref where ref: "composeProjectLabelValue [Create_Labels create, Create_ConfigLabels create] = Some ref"
    and config: "validateDockerHostConfig k ref (Create_HostConfig create) (Create_Mounts create) = Inr ()"
    by (cases "composeProjectLabelValue [Create_Labels create, Create_ConfigLabels create]") auto
  note pat = composeProjectLabelValue_ref [OF ref]
  have "PR_Body r = Content payload"
    using body by (auto simp: readAndRestoreDockerProxyBody_def and_then_eq_Inr_iff split: request_body.splits)
  with create ref pat validated_own [OF config] project_ref_pattern show ?thesis by blast
qed

definition sampleCreate :: "string list \<Rightarrow> dockerMount list \<Rightarrow> dockerContainerCreatePayload" where
  "sampleCreate binds mounts = \<lparr>Create_Labels = [(composeProjectLabel, ''acme-prod'')], Create_ConfigLabels = [],
     Create_HostConfig = \<lparr>HC_Binds = binds, HC_Mounts = [], HC_VolumesFrom = [], HC_Privileged = False, HC_CapAdd = [],
       HC_Devices = [], HC_NetworkMode = ''bridge'', HC_PidMode = [], HC_IpcMode = []\<rparr>, Create_Mounts = mounts\<rparr>"

definition sampleRequest :: "string \<Rightarrow> string \<Rightarrow> ProxyRequest" where
  "sampleRequest method path = \<lparr>PR_Method = method, PR_Path = path, PR_Query = [], PR_Body = Content ''{}''\<rparr>"

definition sampleMount :: "string \<Rightarrow> dockerMount" where
  "sampleMount source = \<lparr>Mount_Type = ''volume'', Mount_Source = source, Mount_Target = ''/data''\<rparr>"

lemma created_container_confined_witness:
  "\<exists>payload create ref. PR_Body (sampleRequest ''POST'' ''/v1.43/containers/create'') = Content payload \<and>
    px_create (sampleLib ''/srv'' (Some (sampleCreate [''/srv/acme-prod/db:/db''] [sampleMount ''acme-prod_data'']))) payload = Some create \<and>
    composeProjectLabelValue [Create_Labels create, Create_ConfigLabels create] = Some ref \<and>
    project_ref ref \<and>
    ownContainer (sampleLib ''/srv'' (Some (sampleCreate [''/srv/acme-prod/db:/db''] [sampleMount ''acme-prod_data'']))) ref create"
  by (rule created_container_confined [where d = "\<lambda>_ _. HTTPStatus 404"]) code_simp+

section \<open>Objects that are changed\<close>

lemma labeled_ok: "validateDockerLabeledObject d path label = Inr () \<longleftrightarrow>
    (\<exists>labels. dockerObjectLabels d path = Inr labels \<and> project_labels labels)"
  by (auto simp: validateDockerLabeledObject_def check_ok project_labels_allowed split: sum.splits)

lemma withObjectID_ok: "withObjectID path prefix msg f = Inr () \<longleftrightarrow> (\<exists>i. dockerPathObjectID path prefix = Some i \<and> f i = Inr ())"
  by (auto simp: withObjectID_def split: option.splits)

definition projectObject :: "daemon \<Rightarrow> string \<Rightarrow> bool" where
  "projectObject d path \<longleftrightarrow> (case dockerObjectLabels d path of Inl _ \<Rightarrow> False | Inr labels \<Rightarrow> project_labels labels)"

lemma labeled_projectObject: "validateDockerLabeledObject d path label = Inr () \<longleftrightarrow> projectObject d path"
  by (auto simp: labeled_ok projectObject_def split: sum.splits)

text \<open>The object of a request that deletes: the route and the path of its inspection.\<close>

definition deletedObject :: "string \<Rightarrow> string option" where
  "deletedObject path =
     (if HasPrefix path ''/containers/'' then map_option containerJSON (dockerPathObjectID path ''/containers/'')
      else if HasPrefix path ''/networks/'' then map_option ((@) ''/networks/'') (dockerPathObjectID path ''/networks/'')
      else if HasPrefix path ''/volumes/'' then map_option ((@) ''/volumes/'') (dockerPathObjectID path ''/volumes/'')
      else None)"

text \<open>C15. What is deleted through the proxy carries a project label: every request with the method DELETE that is passed on,
  other than one for the path \<open>/containers/json\<close>, names a container, a network or a volume, and Docker has just reported
  a project label on that very object. The path left out is read as that of the list, and \<open>container_named_json_forwarded\<close>
  shows that the deletion of a container of that name is passed on unchecked.\<close>

theorem deleted_object_labelled:
  assumes "forwarded k d r = Inr ()" and "proxyMethod r = ''DELETE''"
    and "normalizeDockerAPIPath (PR_Path r) \<noteq> ''/containers/json''"
  shows "\<exists>inspectPath. deletedObject (normalizeDockerAPIPath (PR_Path r)) = Some inspectPath \<and> projectObject d inspectPath"
proof -
  let ?path = "normalizeDockerAPIPath (PR_Path r)"
  have route: "HasPrefix ?path ''/containers/'' \<or> HasPrefix ?path ''/networks/'' \<or> HasPrefix ?path ''/volumes/''"
    using assms by (auto simp: forwarded_ok dockerProxyAllowed_def proxyMethod_def Let_def split: if_splits)
  have valid: "validateDockerProxyRequest k d r = Inr ()" using assms by (simp add: forwarded_ok)
  have no_exec: "\<not> HasPrefix ?path ''/exec/''" if "HasPrefix ?path ''/networks/'' \<or> HasPrefix ?path ''/volumes/''"
    using that by (auto simp: HasPrefix_iff)
  have apart: "\<not> HasPrefix ?path ''/networks/''" if "HasPrefix ?path ''/volumes/''"
    using that by (auto simp: HasPrefix_iff)
  from route show ?thesis
  proof (cases "HasPrefix ?path ''/containers/''")
    case True
    with valid assms(2,3) show ?thesis
      by (auto simp: validateDockerProxyRequest_def Let_def withObjectID_ok and_then_eq_Inr_iff labeled_projectObject deletedObject_def)
  next
    case False
    with valid assms(2) route no_exec apart show ?thesis
      by (auto simp: validateDockerProxyRequest_def Let_def withObjectID_ok labeled_projectObject deletedObject_def split: if_splits)
  qed
qed

definition sampleDaemon :: "string \<Rightarrow> daemon" where
  "sampleDaemon path = (\<lambda>attempt p. if p = path \<and> attempt \<ge> 1 then
     Inspected \<lparr>In_Labels = [(composeProjectLabel, ''acme-prod'')], In_ConfigLabels = [], In_Name = [], In_ContainerID = ''c1''\<rparr>
     else HTTPStatus 404)"

lemma deleted_object_labelled_witness:
  "\<exists>inspectPath. deletedObject (normalizeDockerAPIPath (PR_Path (sampleRequest ''DELETE'' ''/v1.43/networks/n1''))) = Some inspectPath \<and>
     projectObject (sampleDaemon ''/networks/n1'') inspectPath"
  by (rule deleted_object_labelled [where k = "sampleLib [] None"]) code_simp+

text \<open>C34. A container is started, stopped or entered only when it belongs to a project: a POST request on a container that is
  passed on names it, Docker reports a project label on it, and a process that is created in it is not privileged.\<close>

theorem changed_container_labelled:
  assumes "forwarded k d r = Inr ()" and "proxyMethod r = ''POST''"
    and "HasPrefix (normalizeDockerAPIPath (PR_Path r)) ''/containers/''"
    and "normalizeDockerAPIPath (PR_Path r) \<noteq> ''/containers/create''"
  shows "\<exists>i. dockerPathObjectID (normalizeDockerAPIPath (PR_Path r)) ''/containers/'' = Some i \<and> projectObject d (containerJSON i) \<and>
    (dockerContainerExecCreatePath (normalizeDockerAPIPath (PR_Path r)) \<longrightarrow>
       (\<exists>payload. PR_Body r = Content payload \<and> px_privileged k payload = Some False))"
proof -
  let ?path = "normalizeDockerAPIPath (PR_Path r)"
  have mutation: "dockerContainerMutationAllowed ?path" and valid: "validateDockerProxyRequest k d r = Inr ()"
    using assms by (auto simp: forwarded_ok dockerProxyAllowed_def proxyMethod_def Let_def split: if_splits)
  have "\<not> dockerContainerMutationAllowed ''/containers/json''" by code_simp
  with mutation have not_list: "?path \<noteq> ''/containers/json''" by metis
  have not_create: "?path \<noteq> ''/images/create''" using assms(3) by (auto simp: HasPrefix_iff)
  have "\<exists>i. dockerPathObjectID ?path ''/containers/'' = Some i \<and>
      validateDockerLabeledObject d (containerJSON i) ''container'' = Inr () \<and>
      (if dockerContainerExecCreatePath ?path then validateDockerExecCreateRequest k r else Inr ()) = Inr ()"
    using valid assms not_list not_create
    by (auto simp: validateDockerProxyRequest_def Let_def withObjectID_ok and_then_eq_Inr_iff)
  then obtain i where i: "dockerPathObjectID ?path ''/containers/'' = Some i"
      "validateDockerLabeledObject d (containerJSON i) ''container'' = Inr ()"
    and exec: "(if dockerContainerExecCreatePath ?path then validateDockerExecCreateRequest k r else Inr ()) = Inr ()"
    by blast
  have "\<exists>payload. PR_Body r = Content payload \<and> px_privileged k payload = Some False" if "dockerContainerExecCreatePath ?path"
    using exec that
    by (auto simp: validateDockerExecCreateRequest_def and_then_eq_Inr_iff unmarshal_def refuse_ok readAndRestoreDockerProxyBody_def
        split: option.splits request_body.splits)
  with i show ?thesis by (auto simp: labeled_projectObject)
qed

lemma changed_container_labelled_witness:
  "\<exists>i. dockerPathObjectID (normalizeDockerAPIPath (PR_Path (sampleRequest ''post'' ''/containers/c1/exec''))) ''/containers/'' = Some i \<and>
    projectObject (sampleDaemon ''/containers/c1/json'') (containerJSON i)"
proof -
  have "forwarded (sampleLib [] None) (sampleDaemon ''/containers/c1/json'') (sampleRequest ''post'' ''/containers/c1/exec'') = Inr ()"
    "proxyMethod (sampleRequest ''post'' ''/containers/c1/exec'') = ''POST''"
    "HasPrefix (normalizeDockerAPIPath (PR_Path (sampleRequest ''post'' ''/containers/c1/exec''))) ''/containers/''"
    "normalizeDockerAPIPath (PR_Path (sampleRequest ''post'' ''/containers/c1/exec'')) \<noteq> ''/containers/create''"
    by code_simp+
  from changed_container_labelled [OF this] show ?thesis by blast
qed

section \<open>Lists\<close>

text \<open>The entries of a list as Docker sends it: an array, or for volumes the member \<open>Volumes\<close> of an object.\<close>

definition listPaths :: "string list" where
  "listPaths = [''/containers/json'', ''/networks'', ''/volumes'']"

definition decodedList :: "ProxyLib \<Rightarrow> string \<Rightarrow> string \<Rightarrow> json_value option" where
  "decodedList k path payload =
     (if path = ''/volumes'' then map_option JObject (px_object k payload)
      else map_option (\<lambda>obs. case obs of None \<Rightarrow> JNull | Some obs \<Rightarrow> JArray (map JObject obs)) (px_objects k payload))"

definition arrayEntries :: "json_value \<Rightarrow> json_value list" where
  "arrayEntries v = (case v of JArray vs \<Rightarrow> vs | _ \<Rightarrow> [])"

definition listEntries :: "string \<Rightarrow> json_value \<Rightarrow> json_value list" where
  "listEntries path v =
     (if path = ''/volumes''
      then (case v of JObject ob \<Rightarrow> (case map_of ob ''Volumes'' of Some vs \<Rightarrow> arrayEntries vs | None \<Rightarrow> []) | _ \<Rightarrow> [])
      else arrayEntries v)"

text \<open>An entry with the label of a project, and the maps of labels, which hold each key once.\<close>

definition projectEntry :: "json_value \<Rightarrow> bool" where
  "projectEntry v \<longleftrightarrow>
     (case v of
        JObject ob \<Rightarrow> (case map_of ob ''Labels'' of
            Some (JObject ls) \<Rightarrow> (case map_of ls ''com.docker.compose.project'' of Some (JText ref) \<Rightarrow> project_ref (TrimSpace ref) | _ \<Rightarrow> False)
          | _ \<Rightarrow> False)
      | _ \<Rightarrow> False)"

definition labelKeysOnce :: "json_value \<Rightarrow> bool" where
  "labelKeysOnce v \<longleftrightarrow>
     (case v of JObject ob \<Rightarrow> (case map_of ob ''Labels'' of Some (JObject ls) \<Rightarrow> distinct (map fst ls) | _ \<Rightarrow> True) | _ \<Rightarrow> True)"

lemma textLabels_map_of:
  "distinct (map fst ls) \<Longrightarrow>
   map_of (textLabels ls) key = (case map_of ls key of Some (JText x) \<Rightarrow> Some x | _ \<Rightarrow> None)"
proof (induction ls rule: textLabels.induct)
  case (2 name v ls)
  then have "map_of ls name = None" by (force simp: map_of_eq_None_iff)
  with 2 show ?case by (cases v) auto
qed simp

lemma objectAllowed_projectEntry: "labelKeysOnce (JObject ob) \<Longrightarrow> objectAllowed ob \<longleftrightarrow> projectEntry (JObject ob)"
  unfolding objectAllowed_def project_labels_allowed
  by (auto simp: labelKeysOnce_def projectEntry_def project_labels_def dockerLabelsFromJSONValue_def textLabels_map_of
      split: option.splits json_value.splits)

lemma filter_objectAllowed:
  "list_all labelKeysOnce (map JObject obs) \<Longrightarrow> map JObject (filter objectAllowed obs) = filter projectEntry (map JObject obs)"
  by (induction obs) (auto simp: objectAllowed_projectEntry)

lemma filterVolumes_filter:
  "filterVolumes vs = Inr shown \<Longrightarrow> list_all labelKeysOnce vs \<Longrightarrow> shown = filter projectEntry vs"
  by (induction vs arbitrary: shown)
    (auto simp: and_then_eq_Inr_iff objectAllowed_projectEntry split: json_value.splits if_splits)

lemma listed_volumes:
  assumes "filterDockerVolumeListResponse k response = Inr answer" and "Res_Body response = Content payload"
    and "200 \<le> Res_Status response" and "Res_Status response < 300"
    and "decodedList k ''/volumes'' payload = Some document" and "list_all labelKeysOnce (listEntries ''/volumes'' document)"
  shows "\<exists>shown. Res_Body answer = Content (px_encode k shown) \<and>
    listEntries ''/volumes'' shown = filter projectEntry (listEntries ''/volumes'' document)"
proof -
  obtain volumes where vol: "px_object k payload = Some volumes" "document = JObject volumes"
    using assms(5) by (auto simp: decodedList_def)
  define old where "old = (case map_of volumes ''Volumes'' of None \<Rightarrow> JNull | Some v \<Rightarrow> v)"
  have entries: "listEntries ''/volumes'' document = arrayEntries old"
    by (simp add: listEntries_def vol(2) old_def arrayEntries_def split: option.split)
  have shown: "listEntries ''/volumes'' (JObject (AList.update ''Volumes'' v volumes)) = arrayEntries v" for v
    by (simp add: listEntries_def update_conv)
  have ans: "(case old of JNull \<Rightarrow> Inr (replaceBody k response (JObject (AList.update ''Volumes'' JNull volumes)))
         | JArray rawList \<Rightarrow> and_then (filterVolumes rawList) (\<lambda>filtered.
             Inr (replaceBody k response (JObject (AList.update ''Volumes'' (JArray filtered) volumes))))
         | _ \<Rightarrow> Inl (ErrOther ''docker volume list response must contain a volume array'')) = Inr answer"
    using assms(1-4) vol(1)
    by (auto simp: filterDockerVolumeListResponse_def readDockerListResponsePayload_def and_then_eq_Inr_iff unmarshal_def old_def)
  show ?thesis
  proof (cases old)
    case JNull
    with ans entries shown [of JNull] show ?thesis by (auto simp: replaceBody_def arrayEntries_def)
  next
    case (JArray rawList)
    with ans obtain filtered where f: "filterVolumes rawList = Inr filtered"
      and a: "answer = replaceBody k response (JObject (AList.update ''Volumes'' (JArray filtered) volumes))"
      by (auto simp: and_then_eq_Inr_iff)
    have "filtered = filter projectEntry rawList"
      by (rule filterVolumes_filter [OF f]) (use assms(6) entries JArray in \<open>simp add: arrayEntries_def\<close>)
    with a entries JArray shown [of "JArray filtered"] show ?thesis by (auto simp: replaceBody_def arrayEntries_def)
  qed (use ans in simp_all)
qed

lemma listed_objects:
  assumes "filterDockerListResponse k label response = Inr answer" and "Res_Body response = Content payload"
    and "200 \<le> Res_Status response" and "Res_Status response < 300" and "path \<noteq> ''/volumes''"
    and "decodedList k path payload = Some document" and "list_all labelKeysOnce (listEntries path document)"
  shows "\<exists>shown. Res_Body answer = Content (px_encode k shown) \<and>
    listEntries path shown = filter projectEntry (listEntries path document)"
proof -
  obtain obs where obs: "px_objects k payload = Some obs"
      "document = (case obs of None \<Rightarrow> JNull | Some obs \<Rightarrow> JArray (map JObject obs))"
    using assms(5,6) by (auto simp: decodedList_def)
  have ans: "answer = replaceBody k response (case obs of None \<Rightarrow> JNull | Some obs \<Rightarrow> JArray (map JObject (filter objectAllowed obs)))"
    using assms(1-4) obs(1)
    by (auto simp: filterDockerListResponse_def readDockerListResponsePayload_def and_then_eq_Inr_iff unmarshal_def)
  show ?thesis
  proof (cases obs)
    case None
    with ans obs(2) assms(5) show ?thesis by (auto simp: replaceBody_def listEntries_def arrayEntries_def)
  next
    case (Some l)
    have "list_all labelKeysOnce (map JObject l)"
      using assms(5,7) obs(2) Some by (simp add: listEntries_def arrayEntries_def)
    with ans obs(2) Some assms(5) show ?thesis
      by (auto simp: replaceBody_def listEntries_def arrayEntries_def filter_objectAllowed)
  qed
qed

text \<open>C35. A list of containers, networks or volumes shows the objects of projects and no others: the entries of the answer are
  exactly those entries of Docker's list whose map of labels has a text under \<open>com.docker.compose.project\<close> that is the
  reference of a project other than the platform's own, in Docker's order.\<close>

theorem list_reveals_projects_only:
  assumes "modifyResponse k r response = Inr answer" and "PR_Method r = ''GET''"
    and "List.member listPaths (normalizeDockerAPIPath (PR_Path r))"
    and "Res_Body response = Content payload" and "200 \<le> Res_Status response" and "Res_Status response < 300"
    and "decodedList k (normalizeDockerAPIPath (PR_Path r)) payload = Some document"
    and "list_all labelKeysOnce (listEntries (normalizeDockerAPIPath (PR_Path r)) document)"
  shows "\<exists>shown. Res_Body answer = Content (px_encode k shown) \<and>
    listEntries (normalizeDockerAPIPath (PR_Path r)) shown =
      filter projectEntry (listEntries (normalizeDockerAPIPath (PR_Path r)) document)"
proof -
  let ?path = "normalizeDockerAPIPath (PR_Path r)"
  from assms(3) consider "?path = ''/containers/json''" | "?path = ''/networks''" | "?path = ''/volumes''"
    by (auto simp: listPaths_def)
  then show ?thesis
  proof cases
    case 1
    with assms(1,2) have "filterDockerListResponse k ''container'' response = Inr answer" by (simp add: modifyResponse_def)
    from listed_objects [OF this assms(4-6) _ assms(7,8)] 1 show ?thesis by simp
  next
    case 2
    with assms(1,2) have "filterDockerListResponse k ''network'' response = Inr answer" by (simp add: modifyResponse_def)
    from listed_objects [OF this assms(4-6) _ assms(7,8)] 2 show ?thesis by simp
  next
    case 3
    with assms(1,2) have "filterDockerVolumeListResponse k response = Inr answer" by (simp add: modifyResponse_def)
    from listed_volumes [OF this assms(4-6)] assms(7,8) 3 show ?thesis by simp
  qed
qed

text \<open>A list of three volumes: of a project, of the platform, and without labels. The sample encoder writes one character per entry.\<close>

definition sampleObject :: "string \<Rightarrow> json_value \<Rightarrow> json_value" where
  "sampleObject name labels = JObject [(''Name'', JText name), (''Labels'', labels)]"

definition sampleVolumes :: "json_value list" where
  "sampleVolumes =
     [sampleObject ''acme-prod_data'' (JObject [(composeProjectLabel, JText ''acme-prod'')]),
      sampleObject ''supadupa_data'' (JObject [(composeProjectLabel, JText ''supadupa'')]), sampleObject ''other'' JNull]"

definition sampleListLib :: ProxyLib where
  "sampleListLib = (sampleLib [] None)\<lparr>
     px_object := (\<lambda>payload. Some [(''Volumes'', JArray sampleVolumes)]),
     px_encode := (\<lambda>v. map (\<lambda>_. CHR ''x'') (listEntries ''/volumes'' v))\<rparr>"

definition sampleAnswer :: "ProxyResponse res" where
  "sampleAnswer = modifyResponse sampleListLib (sampleRequest ''GET'' ''/v1.43/volumes'') \<lparr>Res_Status = 200, Res_Body = Content ''{}''\<rparr>"

lemma list_reveals_projects_only_witness: "map_sum id Res_Body sampleAnswer = Inr (Content ''x'')"
proof -
  obtain answer where answer: "modifyResponse sampleListLib (sampleRequest ''GET'' ''/v1.43/volumes'')
      \<lparr>Res_Status = 200, Res_Body = Content ''{}''\<rparr> = Inr answer"
    by (rule that [of "\<lparr>Res_Status = 200, Res_Body = Content ''x''\<rparr>"]) code_simp
  have path: "normalizeDockerAPIPath (PR_Path (sampleRequest ''GET'' ''/v1.43/volumes'')) = ''/volumes''" by code_simp
  have "\<exists>shown. Res_Body answer = Content (px_encode sampleListLib shown) \<and>
      listEntries (normalizeDockerAPIPath (PR_Path (sampleRequest ''GET'' ''/v1.43/volumes''))) shown =
      filter projectEntry (listEntries (normalizeDockerAPIPath (PR_Path (sampleRequest ''GET'' ''/v1.43/volumes'')))
        (JObject [(''Volumes'', JArray sampleVolumes)]))"
    by (rule list_reveals_projects_only [OF answer, where payload = "''{}''"]) code_simp+
  moreover have "filter projectEntry (listEntries ''/volumes'' (JObject [(''Volumes'', JArray sampleVolumes)])) =
      [sampleObject ''acme-prod_data'' (JObject [(composeProjectLabel, JText ''acme-prod'')])]" by code_simp
  ultimately have "Res_Body answer = Content ''x''" by (auto simp: path sampleListLib_def)
  with answer show ?thesis by (simp add: sampleAnswer_def)
qed

section \<open>Routes that the list does not mean to allow\<close>

text \<open>\<open>dockerImageInspectReference\<close> cuts the prefix \<open>/images/\<close> without requiring it, so that every path ending in \<open>/json\<close> may
  be read, and for a path outside \<open>/images/\<close> nothing is validated.\<close>

lemma plugin_route_forwarded:
  "forwarded (sampleLib [] None) (\<lambda>_ _. HTTPStatus 404) (sampleRequest ''GET'' ''/plugins/x/json'') = Inr ()"
  by code_simp

text \<open>A container whose name is \<open>json\<close> is deleted without a look at its labels: its path is that of the list.\<close>

lemma container_named_json_forwarded:
  "forwarded (sampleLib [] None) (\<lambda>_ _. HTTPStatus 404) (sampleRequest ''DELETE'' ''/containers/json'') = Inr ()"
  by code_simp

text \<open>The namespaces of a container outside the project may be joined: only the word \<open>host\<close> is refused.\<close>

lemma foreign_namespace_accepted:
  "validateDockerHostConfig (sampleLib [] None) ''acme-prod''
     ((Create_HostConfig (sampleCreate [] []))\<lparr>HC_PidMode := ''container:supadupa-control-1''\<rparr>) [] = Inr ()"
  by code_simp

text \<open>The project is that of the labels of \<open>Config\<close> when the top level labels, which Docker applies, name the platform's own.\<close>

lemma platform_label_accepted:
  "forwarded (sampleLib [] (Some ((sampleCreate [] [])
      \<lparr>Create_Labels := [(composeProjectLabel, ''supadupa'')], Create_ConfigLabels := [(composeProjectLabel, ''acme-prod'')]\<rparr>)))
     (\<lambda>_ _. HTTPStatus 404) (sampleRequest ''POST'' ''/containers/create'') = Inr ()"
  by code_simp

text \<open>A volume is created on its label alone: its name may be that of any other project's volume.\<close>

lemma create_needs_one_label_only:
  "forwarded ((sampleLib [] None)\<lparr>px_labels := (\<lambda>_. Some [(composeProjectLabel, ''acme-prod'')])\<rparr>) d
     (sampleRequest ''POST'' ''/volumes/create'') = Inr ()"
  by code_simp

end
