(* ===== verification/Backup_Targets.thy ===== *)
theory Backup_Targets
  imports Child_Values
begin

text \<open>
  The places that backups are copied to: the structs of backups, WAL archives and S3 storage targets (internal/control/store.go),
  the network checks on the endpoint of a target and its readiness for recovery (backup.go), and the check of a target that a
  client sends. What packages \<open>net/url\<close> and \<open>net\<close> find out, and the environment, are parameters (\<open>BackupLib\<close>).
\<close>

section \<open>Records\<close>

record Backup =
  Bk_ID :: string
  Bk_ProjectRef :: string
  Bk_Kind :: string
  Bk_Location :: string
  Bk_RemoteLocation :: string
  Bk_StorageTargetID :: string
  Bk_SizeBytes :: int
  Bk_ChecksumSHA256 :: string
  Bk_Status :: string
  Bk_StartedAt :: time
  Bk_FinishedAt :: "time option"
  Bk_CreatedAt :: time
  Bk_VerifiedAt :: "time option"

record BackupInput =
  BkIn_ProjectRef :: string
  BkIn_Kind :: string
  BkIn_Location :: string
  BkIn_RemoteLocation :: string
  BkIn_StorageTargetID :: string
  BkIn_SizeBytes :: int
  BkIn_ChecksumSHA256 :: string
  BkIn_Status :: string
  BkIn_StartedAt :: time
  BkIn_FinishedAt :: "time option"
  BkIn_VerifiedAt :: "time option"

record PlatformBackup =
  PB_ID :: string
  PB_Kind :: string
  PB_Location :: string
  PB_RemoteLocation :: string
  PB_StorageTargetID :: string
  PB_SizeBytes :: int
  PB_ChecksumSHA256 :: string
  PB_Status :: string
  PB_StartedAt :: time
  PB_FinishedAt :: "time option"
  PB_CreatedAt :: time
  PB_VerifiedAt :: "time option"

record PlatformBackupInput =
  PBIn_Kind :: string
  PBIn_Location :: string
  PBIn_RemoteLocation :: string
  PBIn_StorageTargetID :: string
  PBIn_SizeBytes :: int
  PBIn_ChecksumSHA256 :: string
  PBIn_Status :: string
  PBIn_StartedAt :: time
  PBIn_FinishedAt :: "time option"
  PBIn_VerifiedAt :: "time option"

record BackupStorageTarget =
  ST_ID :: string
  ST_Name :: string
  ST_Type :: string
  ST_Endpoint :: string
  ST_Region :: string
  ST_Bucket :: string
  ST_Prefix :: string
  ST_AccessKeyID :: string
  ST_SecretAccessKey :: string
  ST_SecretConfigured :: bool
  ST_ForcePathStyle :: bool
  ST_Default :: bool
  ST_DurableOffHost :: bool
  ST_RecoveryReady :: bool
  ST_ReadinessStatus :: string
  ST_ReadinessMessage :: string
  ST_Warnings :: "string list"
  ST_LastTestedAt :: "time option"
  ST_LastTestStatus :: string
  ST_LastTestError :: string
  ST_CreatedAt :: time
  ST_UpdatedAt :: time

record BackupStorageTargetInput =
  STIn_Name :: string
  STIn_Type :: string
  STIn_Endpoint :: string
  STIn_Region :: string
  STIn_Bucket :: string
  STIn_Prefix :: string
  STIn_AccessKeyID :: string
  STIn_SecretAccessKey :: string
  STIn_ForcePathStyle :: bool
  STIn_Default :: bool

record BackupPolicyInput =
  BPIn_Enabled :: bool
  BPIn_Schedule :: string
  BPIn_Kind :: string
  BPIn_StorageTargetID :: string

record PITRPolicyInput =
  PITRIn_Enabled :: bool
  PITRIn_ArchiveBucket :: string
  PITRIn_RetentionDays :: int

record WALArchive =
  WAL_ID :: string
  WAL_ProjectRef :: string
  WAL_Segment :: string
  WAL_SegmentSource :: string
  WAL_Location :: string
  WAL_RemoteLocation :: string
  WAL_StorageTargetID :: string
  WAL_SizeBytes :: int
  WAL_ChecksumSHA256 :: string
  WAL_Status :: string
  WAL_CreatedAt :: time
  WAL_VerifiedAt :: "time option"

record WALArchiveInput =
  WALIn_ProjectRef :: string
  WALIn_Segment :: string
  WALIn_SegmentSource :: string
  WALIn_Location :: string
  WALIn_RemoteLocation :: string
  WALIn_StorageTargetID :: string
  WALIn_SizeBytes :: int
  WALIn_ChecksumSHA256 :: string
  WALIn_Status :: string
  WALIn_VerifiedAt :: "time option"

section \<open>Addresses\<close>

text \<open>An address of package \<open>net\<close>: four bytes, or the sixteen of an address that is not a mapped IPv4 address.\<close>

datatype IP = IPv4 nat nat nat nat | IPv6 "nat list"

definition IsLoopback :: "IP \<Rightarrow> bool" where
  "IsLoopback ip = (case ip of IPv4 a _ _ _ \<Rightarrow> a = 127 | IPv6 bs \<Rightarrow> bs = replicate 15 0 @ [1])"

definition IsUnspecified :: "IP \<Rightarrow> bool" where
  "IsUnspecified ip = (case ip of IPv4 a b c d \<Rightarrow> a = 0 \<and> b = 0 \<and> c = 0 \<and> d = 0 | IPv6 bs \<Rightarrow> bs = replicate 16 0)"

definition IsLinkLocalUnicast :: "IP \<Rightarrow> bool" where
  "IsLinkLocalUnicast ip =
     (case ip of IPv4 a b _ _ \<Rightarrow> a = 169 \<and> b = 254 | IPv6 bs \<Rightarrow> length bs = 16 \<and> bs ! 0 = 254 \<and> bs ! 1 div 64 = 2)"

definition IsLinkLocalMulticast :: "IP \<Rightarrow> bool" where
  "IsLinkLocalMulticast ip =
     (case ip of IPv4 a b c _ \<Rightarrow> a = 224 \<and> b = 0 \<and> c = 0 | IPv6 bs \<Rightarrow> length bs = 16 \<and> bs ! 0 = 255 \<and> bs ! 1 mod 16 = 2)"

definition IsPrivate :: "IP \<Rightarrow> bool" where
  "IsPrivate ip =
     (case ip of IPv4 a b _ _ \<Rightarrow> a = 10 \<or> a = 172 \<and> b div 16 = 1 \<or> a = 192 \<and> b = 168
      | IPv6 bs \<Rightarrow> length bs = 16 \<and> bs ! 0 div 2 = 126)"

text \<open>The parts of a parsed URL that the program reads.\<close>

record ParsedURL =
  URL_Scheme :: string
  URL_Host :: string
  URL_Hostname :: string
  URL_Path :: string
  URL_HasUser :: bool

record BackupLib =
  bl_parseURL :: "string \<Rightarrow> ParsedURL option"
  bl_parseIP :: "string \<Rightarrow> IP option"
  bl_lookupIPs :: "string \<Rightarrow> IP list"
  bl_interfaceIPs :: "IP list"
  bl_getenv :: "string \<Rightarrow> string"

definition BoolValue :: "string \<Rightarrow> bool" where
  "BoolValue value = List.member [''1'', ''true'', ''yes'', ''y'', ''on''] (ToLower (TrimSpace value))"

definition EnvBool :: "BackupLib \<Rightarrow> string \<Rightarrow> bool" where
  "EnvBool k key = BoolValue (bl_getenv k key)"

definition ipAssignedToLocalInterface :: "BackupLib \<Rightarrow> IP \<Rightarrow> bool" where
  "ipAssignedToLocalInterface k ip = List.member (bl_interfaceIPs k) ip"

definition targetHost :: "ParsedURL \<Rightarrow> string" where
  "targetHost parsed = TrimFunc (\<lambda>c. c = CHR ''['' \<or> c = CHR '']'') (ToLower (URL_Hostname parsed))"

definition localHostNames :: "string list" where
  "localHostNames = [''localhost'', ''localhost.localdomain'', ''host.docker.internal'', ''host.containers.internal'']"

definition thisHost :: "BackupLib \<Rightarrow> IP \<Rightarrow> bool" where
  "thisHost k ip \<longleftrightarrow> IsLoopback ip \<or> IsUnspecified ip \<or> ipAssignedToLocalInterface k ip"

section \<open>Readiness for recovery\<close>

definition backupStorageTargetIsDurableOffHost :: "BackupLib \<Rightarrow> BackupStorageTarget \<Rightarrow> bool" where
  "backupStorageTargetIsDurableOffHost k target =
     (let endpoint = TrimSpace (ST_Endpoint target) in
      if endpoint = [] then True
      else case bl_parseURL k endpoint of
          None \<Rightarrow> False
        | Some parsed \<Rightarrow> let host = targetHost parsed in
            if host = [] then False
            else if List.member localHostNames host then False
            else case bl_parseIP k host of
                Some ip \<Rightarrow> \<not> thisHost k ip
              | None \<Rightarrow> \<not> list_ex (thisHost k) (bl_lookupIPs k host))"

definition backupStorageTargetIsReadyOffHost :: "BackupLib \<Rightarrow> BackupStorageTarget \<Rightarrow> bool" where
  "backupStorageTargetIsReadyOffHost k target \<longleftrightarrow>
     ST_SecretConfigured target \<and> EqualFold (TrimSpace (ST_LastTestStatus target)) ''passed'' \<and>
     backupStorageTargetIsDurableOffHost k target"

definition requireRecoveryReadyBackupTargets :: "BackupLib \<Rightarrow> bool" where
  "requireRecoveryReadyBackupTargets k = EnvBool k ''SUPADUPA_REQUIRE_RECOVERY_READY_TARGETS''"

definition backupStorageTargetReadiness :: "BackupLib \<Rightarrow> BackupStorageTarget \<Rightarrow> bool \<times> bool \<times> string \<times> string" where
  "backupStorageTargetReadiness k target =
     (let durableOffHost = backupStorageTargetIsDurableOffHost k target; tested = ToLower (TrimSpace (ST_LastTestStatus target)) in
      if \<not> ST_SecretConfigured target then (durableOffHost, False, ''missing-secret'', ''secret access key is not configured'')
      else if \<not> durableOffHost then
        (False, False, ''local-or-loopback'', ''endpoint resolves to this host or a loopback target and cannot satisfy off-host recovery'')
      else if tested = ''passed'' then
        (True, True, ''off-host-ready'', ''target passed validation and is eligible for off-host recovery artifacts'')
      else if tested = ''failed'' then
        (True, False, ''validation-failed'', or_default ''target validation failed'' (TrimSpace (ST_LastTestError target)))
      else (True, False, ''validation-pending'', ''target must pass validation before it can satisfy off-host recovery''))"

fun uniqueLoop :: "string list \<Rightarrow> string list \<Rightarrow> string list" where
  "uniqueLoop seen [] = []"
| "uniqueLoop seen (value # values) =
     (if value \<in> set seen then uniqueLoop seen values else value # uniqueLoop (value # seen) values)"

definition uniqueStrings :: "string list \<Rightarrow> string list" where
  "uniqueStrings values = (if length values < 2 then values else uniqueLoop [] values)"

definition addressWarning :: "BackupLib \<Rightarrow> IP \<Rightarrow> string list" where
  "addressWarning k ip =
     (if ip = IPv4 169 254 169 254 then [''endpoint resolves to the cloud instance metadata address'']
      else if thisHost k ip then [''endpoint resolves to this host or a loopback address'']
      else if IsLinkLocalUnicast ip \<or> IsLinkLocalMulticast ip then [''endpoint resolves to a link-local network address'']
      else if IsPrivate ip then [''endpoint resolves to a private network address''] else [])"

definition backupStorageTargetNetworkWarnings :: "BackupLib \<Rightarrow> string \<Rightarrow> string list" where
  "backupStorageTargetNetworkWarnings k endpoint =
     (let endpoint = TrimSpace endpoint in
      if endpoint = [] then []
      else case bl_parseURL k endpoint of
          None \<Rightarrow> [''endpoint URL could not be parsed for private-network risk analysis'']
        | Some parsed \<Rightarrow> let host = targetHost parsed in
            if host = [] then [''endpoint host is empty'']
            else let ips = (case bl_parseIP k host of Some ip \<Rightarrow> [ip] | None \<Rightarrow> bl_lookupIPs k host) in
              uniqueStrings
                ((if EqualFold (URL_Scheme parsed) ''http'' then [''endpoint uses unencrypted HTTP''] else []) @
                 (if List.member localHostNames host then [''endpoint host targets local container or host networking''] else []) @
                 concat (map (addressWarning k) ips)))"

definition validateBackupStorageTargetEndpointForSignedEgress :: "BackupLib \<Rightarrow> string \<Rightarrow> unit res" where
  "validateBackupStorageTargetEndpointForSignedEgress k endpoint =
     (if TrimSpace endpoint = [] \<or> EnvBool k ''SUPADUPA_ALLOW_UNSAFE_BACKUP_ENDPOINTS'' then Inr ()
      else let warnings = backupStorageTargetNetworkWarnings k endpoint in
        if warnings = [] then Inr ()
        else Inl (ErrOther (''backup storage target endpoint is not allowed for signed egress: '' @ Join ''; '' warnings)))"

definition ensureRecoveryReadyBackupTarget :: "BackupLib \<Rightarrow> BackupStorageTarget option \<Rightarrow> string \<Rightarrow> unit res" where
  "ensureRecoveryReadyBackupTarget k target purpose =
     (if \<not> requireRecoveryReadyBackupTargets k then Inr ()
      else case target of
          None \<Rightarrow> Inl (ErrOther (''backup storage target is required for '' @ purpose @ '' when SUPADUPA_REQUIRE_RECOVERY_READY_TARGETS=true''))
        | Some target \<Rightarrow>
            if backupStorageTargetIsReadyOffHost k target then Inr ()
            else (case backupStorageTargetReadiness k target of (_, _, status, message) \<Rightarrow>
              let message = (if TrimSpace message = [] then ''target must pass validation and be durable off-host'' else message) in
              Inl (ErrOther (''backup storage target '' @ ST_ID target @ '' is not recovery-ready for '' @ purpose @ '': '' @ status @
                '' ('' @ message @ '')''))))"

section \<open>A target that is sent\<close>

definition backupStorageTargetConnectionChanged :: "BackupStorageTarget \<Rightarrow> BackupStorageTarget \<Rightarrow> bool" where
  "backupStorageTargetConnectionChanged a b \<longleftrightarrow>
     ST_Endpoint a \<noteq> ST_Endpoint b \<or> ST_Region a \<noteq> ST_Region b \<or> ST_Bucket a \<noteq> ST_Bucket b \<or> ST_Prefix a \<noteq> ST_Prefix b \<or>
     ST_AccessKeyID a \<noteq> ST_AccessKeyID b \<or> ST_SecretAccessKey a \<noteq> ST_SecretAccessKey b \<or>
     ST_ForcePathStyle a \<noteq> ST_ForcePathStyle b"

definition TrimRightSlash :: "string \<Rightarrow> string" where
  "TrimRightSlash s = rev (dropWhile (\<lambda>c. c = CHR ''/'') (rev s))"

definition breaks :: string where "breaks = [chr_cr, chr_lf]"
definition breaks_tab :: string where "breaks_tab = [chr_cr, chr_lf, chr_tab]"

definition targetEndpoint :: "BackupLib \<Rightarrow> string \<Rightarrow> string res" where
  "targetEndpoint k endpoint =
     (if endpoint = [] then Inr []
      else case bl_parseURL k endpoint of
          None \<Rightarrow> Inl (ErrOther ''backup storage target endpoint must be an absolute URL'')
        | Some parsed \<Rightarrow>
            and_then (refuse (URL_Scheme parsed = [] \<or> URL_Host parsed = []) ''backup storage target endpoint must be an absolute URL'') (\<lambda>_.
            and_then (refuse (URL_HasUser parsed) ''backup storage target endpoint must not include credentials'') (\<lambda>_.
            and_then (refuse (URL_Scheme parsed \<noteq> ''https'' \<and> URL_Scheme parsed \<noteq> ''http'')
              ''backup storage target endpoint scheme must be http or https'') (\<lambda>_.
            let endpoint = TrimRightSlash endpoint in
            and_then (validateBackupStorageTargetEndpointForSignedEgress k endpoint) (\<lambda>_. Inr endpoint)))))"

definition normalizeBackupStorageTargetInput ::
    "BackupLib \<Rightarrow> time \<Rightarrow> string \<Rightarrow> BackupStorageTarget option \<Rightarrow> BackupStorageTargetInput \<Rightarrow> BackupStorageTarget res" where
  "normalizeBackupStorageTargetInput k now i existing input =
     (let targetType = or_default ''s3'' (ToLower (TrimSpace (STIn_Type input))); name = TrimSpace (STIn_Name input);
          region = or_default ''auto'' (TrimSpace (STIn_Region input)); bucket = TrimSpace (STIn_Bucket input);
          prefix = trim_slashes (TrimSpace (STIn_Prefix input));
          accessKeyID = TrimSpace (STIn_AccessKeyID input); secretAccessKey = TrimSpace (STIn_SecretAccessKey input);
          accessKeyID = (case existing of Some e \<Rightarrow> or_default (ST_AccessKeyID e) accessKeyID | None \<Rightarrow> accessKeyID);
          secretAccessKey = (case existing of Some e \<Rightarrow> or_default (ST_SecretAccessKey e) secretAccessKey | None \<Rightarrow> secretAccessKey)
      in
      and_then (refuse (targetType \<noteq> ''s3'') (''unsupported backup storage target type '' @ targetType)) (\<lambda>_.
      and_then (refuse (name = []) ''backup storage target name is required'') (\<lambda>_.
      and_then (refuse (length name > 120 \<or> ContainsAny name breaks_tab) ''backup storage target name is invalid'') (\<lambda>_.
      and_then (targetEndpoint k (TrimSpace (STIn_Endpoint input))) (\<lambda>endpoint.
      and_then (refuse (length region > 80 \<or> ContainsAny region (breaks_tab @ '' /'')) ''backup storage target region is invalid'') (\<lambda>_.
      and_then (refuse (bucket = []) ''backup storage target bucket is required'') (\<lambda>_.
      and_then (refuse (length bucket > 255 \<or> ContainsAny bucket (breaks_tab @ [CHR ''/'', CHR 0x5C]))
        ''backup storage target bucket is invalid'') (\<lambda>_.
      and_then (refuse (ContainsAny prefix (breaks_tab @ [CHR 0x5C]) \<or> Contains prefix ''..'') ''backup storage target prefix is invalid'') (\<lambda>_.
      and_then (refuse (accessKeyID = []) ''backup storage target access key id is required'') (\<lambda>_.
      and_then (refuse (secretAccessKey = []) ''backup storage target secret access key is required'') (\<lambda>_.
      and_then (refuse (ContainsAny accessKeyID breaks_tab \<or> ContainsAny secretAccessKey breaks)
        ''backup storage target credentials are invalid'') (\<lambda>_.
      let target = \<lparr>ST_ID = i, ST_Name = name, ST_Type = targetType, ST_Endpoint = endpoint, ST_Region = region, ST_Bucket = bucket,
            ST_Prefix = prefix, ST_AccessKeyID = accessKeyID, ST_SecretAccessKey = secretAccessKey,
            ST_SecretConfigured = (secretAccessKey \<noteq> []), ST_ForcePathStyle = STIn_ForcePathStyle input,
            ST_Default = STIn_Default input, ST_DurableOffHost = False, ST_RecoveryReady = False, ST_ReadinessStatus = [],
            ST_ReadinessMessage = [], ST_Warnings = [],
            ST_LastTestedAt = (case existing of Some e \<Rightarrow> ST_LastTestedAt e | None \<Rightarrow> None),
            ST_LastTestStatus = (case existing of Some e \<Rightarrow> ST_LastTestStatus e | None \<Rightarrow> []),
            ST_LastTestError = (case existing of Some e \<Rightarrow> ST_LastTestError e | None \<Rightarrow> []),
            ST_CreatedAt = (case existing of Some e \<Rightarrow> if IsZero (ST_CreatedAt e) then now else ST_CreatedAt e | None \<Rightarrow> now),
            ST_UpdatedAt = now\<rparr>
      in Inr (case existing of
          Some e \<Rightarrow> if backupStorageTargetConnectionChanged e target
            then target\<lparr>ST_LastTestedAt := None, ST_LastTestStatus := [], ST_LastTestError := []\<rparr> else target
        | None \<Rightarrow> target)))))))))))))"

definition redactBackupStorageTarget :: "BackupLib \<Rightarrow> BackupStorageTarget \<Rightarrow> BackupStorageTarget" where
  "redactBackupStorageTarget k target =
     (let target = target\<lparr>ST_SecretConfigured := (TrimSpace (ST_SecretAccessKey target) \<noteq> []), ST_SecretAccessKey := []\<rparr> in
      case backupStorageTargetReadiness k target of (durableOffHost, recoveryReady, status, message) \<Rightarrow>
        target\<lparr>ST_DurableOffHost := durableOffHost, ST_RecoveryReady := recoveryReady, ST_ReadinessStatus := status,
          ST_ReadinessMessage := message, ST_Warnings := backupStorageTargetNetworkWarnings k (ST_Endpoint target)\<rparr>)"

text \<open>What a listing shows as recovery-ready is what the guards of a restore accept.\<close>

lemma readiness_iff: "fst (snd (backupStorageTargetReadiness k target)) \<longleftrightarrow> backupStorageTargetIsReadyOffHost k target"
proof -
  have fold: "EqualFold (TrimSpace x) ''passed'' \<longleftrightarrow> ToLower (TrimSpace x) = ''passed''" for x
  proof -
    have "ToLower ''passed'' = ''passed''" by code_simp
    then show ?thesis by (simp add: EqualFold_def)
  qed
  show ?thesis unfolding backupStorageTargetReadiness_def backupStorageTargetIsReadyOffHost_def Let_def fold by auto
qed

lemma normalize_target:
  assumes "normalizeBackupStorageTargetInput k now i existing input = Inr target"
  shows "ST_ID target = i" and "ST_SecretAccessKey target \<noteq> []" and "ST_SecretConfigured target" and "ST_Default target = STIn_Default input"
  using assms by (auto simp: normalizeBackupStorageTargetInput_def Let_def and_then_eq_Inr_iff refuse_def split: option.splits if_splits)

end
