(* ===== verification/Backups.thy ===== *)
theory Backups
  imports Backup_Targets Store_Steps Audit_Log
begin

text \<open>
  Backups in the control-plane store (internal/control/store.go): the lists of project and platform backups, the storage
  targets, the policies for backups and for point-in-time recovery, and the archived WAL segments. \<open>BackupStore\<close> has the
  fields of \<open>MemoryStore\<close> that are not in the record of the main part, beside that part.
\<close>

record BackupStore =
  bs_main :: MemoryStore
  bs_targets :: "(string, BackupStorageTarget) gomap"
  bs_backups :: "Backup list"
  bs_platformBackups :: "PlatformBackup list"
  bs_walArchives :: "WALArchive list"

definition NewBackupStore :: "PlatformDefaults \<Rightarrow> BackupStore" where
  "NewBackupStore defaults =
     \<lparr>bs_main = NewMemoryStore defaults, bs_targets = [], bs_backups = [], bs_platformBackups = [], bs_walArchives = []\<rparr>"

type_synonym 'a bop = "(BackupStore \<times> 'a) res"

definition projectKnown :: "string \<Rightarrow> BackupStore \<Rightarrow> unit res" where
  "projectKnown ref s = and_then (lookup_or (ErrNotFound (''project '' @ ref)) (s_projects (bs_main s)) ref) (\<lambda>_. Inr ())"

definition targetKnown :: "string \<Rightarrow> BackupStore \<Rightarrow> unit res" where
  "targetKnown i s =
     (if i = [] then Inr ()
      else and_then (lookup_or (ErrNotFound (''backup storage target '' @ i)) (bs_targets s) i) (\<lambda>_. Inr ()))"

section \<open>Backups of projects and of the platform\<close>

definition finishedOr :: "time \<Rightarrow> string \<Rightarrow> time option \<Rightarrow> time option \<Rightarrow> time option" where
  "finishedOr now status finishedAt verifiedAt =
     (case finishedAt of Some t \<Rightarrow> Some t
      | None \<Rightarrow> (case verifiedAt of Some t \<Rightarrow> Some t | None \<Rightarrow> if status = ''completed'' then Some now else None))"

definition newBackup :: "OpCtx \<Rightarrow> BackupInput \<Rightarrow> Backup" where
  "newBackup c input =
     (let status = or_default ''completed'' (BkIn_Status input) in
      \<lparr>Bk_ID = ctx_newID c, Bk_ProjectRef = BkIn_ProjectRef input, Bk_Kind = or_default ''logical'' (ToLower (TrimSpace (BkIn_Kind input))),
       Bk_Location = BkIn_Location input, Bk_RemoteLocation = TrimSpace (BkIn_RemoteLocation input),
       Bk_StorageTargetID = TrimSpace (BkIn_StorageTargetID input), Bk_SizeBytes = BkIn_SizeBytes input,
       Bk_ChecksumSHA256 = TrimSpace (BkIn_ChecksumSHA256 input), Bk_Status = status,
       Bk_StartedAt = (if IsZero (BkIn_StartedAt input) then ctx_now c else BkIn_StartedAt input),
       Bk_FinishedAt = finishedOr (ctx_now c) status (BkIn_FinishedAt input) (BkIn_VerifiedAt input),
       Bk_CreatedAt = ctx_now c, Bk_VerifiedAt = BkIn_VerifiedAt input\<rparr>)"

definition CreateBackup :: "OpCtx \<Rightarrow> BackupInput \<Rightarrow> BackupStore \<Rightarrow> Backup bop" where
  "CreateBackup c input s =
     and_then (refuse (TrimSpace (BkIn_ProjectRef input) = []) ''project ref is required'') (\<lambda>_.
     and_then (refuse (TrimSpace (BkIn_Location input) = []) ''backup location is required'') (\<lambda>_.
     let backup = newBackup c input in
     and_then (projectKnown (BkIn_ProjectRef input) s) (\<lambda>_.
     and_then (targetKnown (Bk_StorageTargetID backup) s) (\<lambda>_.
     Inr (s\<lparr>bs_backups := bs_backups s @ [backup]\<rparr>, backup)))))"

definition newer_backup :: "Backup \<Rightarrow> Backup \<Rightarrow> bool" where
  "newer_backup a b \<longleftrightarrow> Bk_CreatedAt a > Bk_CreatedAt b"

definition ListBackups :: "string \<Rightarrow> BackupStore \<Rightarrow> Backup list res" where
  "ListBackups ref s =
     and_then (projectKnown ref s) (\<lambda>_. Inr (sort_slice newer_backup (filter (\<lambda>b. Bk_ProjectRef b = ref) (bs_backups s))))"

definition GetBackup :: "string \<Rightarrow> string \<Rightarrow> BackupStore \<Rightarrow> Backup res" where
  "GetBackup ref backupID s =
     (let backupID = TrimSpace backupID in
      and_then (refuse (backupID = []) ''backup id is required'') (\<lambda>_.
      and_then (projectKnown ref s) (\<lambda>_.
      case find (\<lambda>b. Bk_ProjectRef b = ref \<and> Bk_ID b = backupID) (bs_backups s) of
        Some b \<Rightarrow> Inr b
      | None \<Rightarrow> Inl (ErrNotFound (''backup '' @ backupID @ '' for project '' @ ref)))))"

definition newPlatformBackup :: "OpCtx \<Rightarrow> PlatformBackupInput \<Rightarrow> PlatformBackup" where
  "newPlatformBackup c input =
     (let status = or_default ''completed'' (TrimSpace (PBIn_Status input)) in
      \<lparr>PB_ID = ctx_newID c, PB_Kind = or_default ''control-plane'' (TrimSpace (PBIn_Kind input)), PB_Location = TrimSpace (PBIn_Location input),
       PB_RemoteLocation = TrimSpace (PBIn_RemoteLocation input), PB_StorageTargetID = TrimSpace (PBIn_StorageTargetID input),
       PB_SizeBytes = PBIn_SizeBytes input, PB_ChecksumSHA256 = TrimSpace (PBIn_ChecksumSHA256 input), PB_Status = status,
       PB_StartedAt = (if IsZero (PBIn_StartedAt input) then ctx_now c else PBIn_StartedAt input),
       PB_FinishedAt = finishedOr (ctx_now c) status (PBIn_FinishedAt input) (PBIn_VerifiedAt input),
       PB_CreatedAt = ctx_now c, PB_VerifiedAt = PBIn_VerifiedAt input\<rparr>)"

definition CreatePlatformBackup :: "OpCtx \<Rightarrow> PlatformBackupInput \<Rightarrow> BackupStore \<Rightarrow> PlatformBackup bop" where
  "CreatePlatformBackup c input s =
     and_then (refuse (TrimSpace (PBIn_Location input) = []) ''platform backup location is required'') (\<lambda>_.
     let backup = newPlatformBackup c input in
     and_then (targetKnown (PB_StorageTargetID backup) s) (\<lambda>_.
     Inr (s\<lparr>bs_platformBackups := bs_platformBackups s @ [backup]\<rparr>, backup)))"

definition newer_platform_backup :: "PlatformBackup \<Rightarrow> PlatformBackup \<Rightarrow> bool" where
  "newer_platform_backup a b \<longleftrightarrow> PB_CreatedAt a > PB_CreatedAt b"

definition ListPlatformBackups :: "BackupStore \<Rightarrow> PlatformBackup list" where
  "ListPlatformBackups s = sort_slice newer_platform_backup (bs_platformBackups s)"

definition GetPlatformBackup :: "string \<Rightarrow> BackupStore \<Rightarrow> PlatformBackup res" where
  "GetPlatformBackup backupID s =
     (let backupID = TrimSpace backupID in
      and_then (refuse (backupID = []) ''platform backup id is required'') (\<lambda>_.
      case find (\<lambda>b. PB_ID b = backupID) (bs_platformBackups s) of
        Some b \<Rightarrow> Inr b | None \<Rightarrow> Inl (ErrNotFound (''platform backup '' @ backupID))))"

section \<open>Storage targets\<close>

definition target_less :: "BackupStorageTarget \<Rightarrow> BackupStorageTarget \<Rightarrow> bool" where
  "target_less a b =
     (if ST_Default a \<noteq> ST_Default b then ST_Default a
      else if ST_Name a \<noteq> ST_Name b then ST_Name a < ST_Name b
      else ST_ID a < ST_ID b)"

definition ListBackupStorageTargets :: "BackupLib \<Rightarrow> BackupStore \<Rightarrow> BackupStorageTarget list" where
  "ListBackupStorageTargets k s = sort_slice target_less (map (\<lambda>(_, target). redactBackupStorageTarget k target) (bs_targets s))"

definition storageTargetAt :: "string \<Rightarrow> BackupStore \<Rightarrow> BackupStorageTarget res" where
  "storageTargetAt i s = lookup_or (ErrNotFound (''backup storage target '' @ i)) (bs_targets s) i"

definition cleanTargetID :: "string \<Rightarrow> string res" where
  "cleanTargetID i = (let i = TrimSpace i in and_then (refuse (i = []) ''backup storage target id is required'') (\<lambda>_. Inr i))"

definition GetBackupStorageTarget :: "string \<Rightarrow> BackupStore \<Rightarrow> BackupStorageTarget res" where
  "GetBackupStorageTarget i s = and_then (cleanTargetID i) (\<lambda>i. storageTargetAt i s)"

definition clearDefaultBackupStorageTargetLocked :: "OpCtx \<Rightarrow> string \<Rightarrow> BackupStore \<Rightarrow> BackupStore" where
  "clearDefaultBackupStorageTargetLocked c exceptID s =
     s\<lparr>bs_targets := AList.map_ran (\<lambda>i target. if i = exceptID \<or> \<not> ST_Default target then target
        else target\<lparr>ST_Default := False, ST_UpdatedAt := ctx_now c\<rparr>) (bs_targets s)\<rparr>"

definition storeTarget :: "OpCtx \<Rightarrow> string \<Rightarrow> string \<Rightarrow> BackupStorageTarget \<Rightarrow> BackupStore \<Rightarrow> BackupStore" where
  "storeTarget c exceptID i target s =
     (let s = (if ST_Default target then clearDefaultBackupStorageTargetLocked c exceptID s else s) in
      s\<lparr>bs_targets := AList.update i target (bs_targets s)\<rparr>)"

definition CreateBackupStorageTarget :: "BackupLib \<Rightarrow> OpCtx \<Rightarrow> BackupStorageTargetInput \<Rightarrow> BackupStore \<Rightarrow> BackupStorageTarget bop" where
  "CreateBackupStorageTarget k c input s =
     and_then (normalizeBackupStorageTargetInput k (ctx_now c) [] None input) (\<lambda>target.
     let target = target\<lparr>ST_ID := ctx_newID c, ST_CreatedAt := ctx_now c, ST_UpdatedAt := ctx_now c\<rparr> in
     Inr (storeTarget c [] (ST_ID target) target s, redactBackupStorageTarget k target))"

definition UpdateBackupStorageTarget ::
    "BackupLib \<Rightarrow> OpCtx \<Rightarrow> string \<Rightarrow> BackupStorageTargetInput \<Rightarrow> BackupStore \<Rightarrow> BackupStorageTarget bop" where
  "UpdateBackupStorageTarget k c i input s =
     and_then (cleanTargetID i) (\<lambda>i.
     and_then (storageTargetAt i s) (\<lambda>existing.
     and_then (normalizeBackupStorageTargetInput k (ctx_now c) i (Some existing) input) (\<lambda>target.
     Inr (storeTarget c i i target s, redactBackupStorageTarget k target))))"

definition UpdateBackupStorageTargetTestResult ::
    "BackupLib \<Rightarrow> OpCtx \<Rightarrow> string \<Rightarrow> time \<Rightarrow> string \<Rightarrow> string \<Rightarrow> BackupStore \<Rightarrow> BackupStorageTarget bop" where
  "UpdateBackupStorageTargetTestResult k c i testedAt status message s =
     and_then (cleanTargetID i) (\<lambda>i.
     let status = TrimSpace status; message = take 500 (TrimSpace message);
         testedAt = (if IsZero testedAt then ctx_now c else testedAt) in
     and_then (refuse (status \<noteq> ''passed'' \<and> status \<noteq> ''failed'') ''backup storage target test status is invalid'') (\<lambda>_.
     and_then (storageTargetAt i s) (\<lambda>target.
     let target = target\<lparr>ST_LastTestedAt := Some testedAt, ST_LastTestStatus := status, ST_LastTestError := message,
           ST_UpdatedAt := ctx_now c\<rparr> in
     Inr (s\<lparr>bs_targets := AList.update i target (bs_targets s)\<rparr>, redactBackupStorageTarget k target))))"

definition DeleteBackupStorageTarget :: "OpCtx \<Rightarrow> string \<Rightarrow> BackupStore \<Rightarrow> BackupStore res" where
  "DeleteBackupStorageTarget c i s =
     and_then (cleanTargetID i) (\<lambda>i.
     and_then (storageTargetAt i s) (\<lambda>_.
     Inr (s\<lparr>bs_main := (bs_main s)\<lparr>s_policies := AList.map_ran (\<lambda>ref policy. if BP_StorageTargetID policy = i
              then policy\<lparr>BP_StorageTargetID := [], BP_UpdatedAt := ctx_now c\<rparr> else policy) (s_policies (bs_main s))\<rparr>,
            bs_targets := AList.delete i (bs_targets s)\<rparr>)))"

section \<open>Policies\<close>

definition GetBackupPolicy :: "OpCtx \<Rightarrow> string \<Rightarrow> BackupStore \<Rightarrow> BackupPolicy res" where
  "GetBackupPolicy c ref s =
     and_then (projectKnown ref s) (\<lambda>_. Inr (case map_of (s_policies (bs_main s)) ref of
        Some policy \<Rightarrow> policy | None \<Rightarrow> defaultBackupPolicy c ref))"

definition setPolicy :: "string \<Rightarrow> BackupPolicy \<Rightarrow> BackupStore \<Rightarrow> BackupStore" where
  "setPolicy ref policy s = s\<lparr>bs_main := (bs_main s)\<lparr>s_policies := AList.update ref policy (s_policies (bs_main s))\<rparr>\<rparr>"

definition setPITRPolicy :: "string \<Rightarrow> PITRPolicy \<Rightarrow> BackupStore \<Rightarrow> BackupStore" where
  "setPITRPolicy ref policy s = s\<lparr>bs_main := (bs_main s)\<lparr>s_pitrPolicies := AList.update ref policy (s_pitrPolicies (bs_main s))\<rparr>\<rparr>"

definition UpdateBackupPolicy :: "OpCtx \<Rightarrow> string \<Rightarrow> BackupPolicyInput \<Rightarrow> BackupStore \<Rightarrow> BackupPolicy bop" where
  "UpdateBackupPolicy c ref input s =
     (let schedule = or_default ''daily'' (TrimSpace (BPIn_Schedule input)); kind = or_default ''logical'' (ToLower (TrimSpace (BPIn_Kind input)));
          targetID = TrimSpace (BPIn_StorageTargetID input) in
      and_then (validateBackupSchedule schedule) (\<lambda>_.
      and_then (refuse (kind \<noteq> ''logical'' \<and> kind \<noteq> ''physical'') (''unsupported backup kind '' @ kind)) (\<lambda>_.
      and_then (projectKnown ref s) (\<lambda>_.
      and_then (targetKnown targetID s) (\<lambda>_.
      let policy = \<lparr>BP_ProjectRef = ref, BP_Enabled = BPIn_Enabled input, BP_Schedule = schedule, BP_Kind = kind,
            BP_StorageTargetID = targetID,
            BP_LastRunAt = (case map_of (s_policies (bs_main s)) ref of Some policy \<Rightarrow> BP_LastRunAt policy | None \<Rightarrow> None),
            BP_NextRunAt = (if BPIn_Enabled input then Some (nextBackupRun (ctx_now c) schedule) else None),
            BP_UpdatedAt = ctx_now c\<rparr>
      in Inr (setPolicy ref policy s, policy))))))"

text \<open>The zero policy stands for a missing one, so the test is for an empty reference.\<close>

definition MarkBackupPolicyRun :: "OpCtx \<Rightarrow> string \<Rightarrow> time \<Rightarrow> BackupStore \<Rightarrow> BackupPolicy bop" where
  "MarkBackupPolicyRun c ref runAt s =
     and_then (projectKnown ref s) (\<lambda>_.
     let policy = (case map_of (s_policies (bs_main s)) ref of
           None \<Rightarrow> defaultBackupPolicy c ref
         | Some policy \<Rightarrow> if BP_ProjectRef policy = [] then defaultBackupPolicy c ref else policy);
         policy = policy\<lparr>BP_LastRunAt := Some runAt, BP_NextRunAt := Some (nextBackupRun runAt (BP_Schedule policy)), BP_UpdatedAt := ctx_now c\<rparr>
     in Inr (setPolicy ref policy s, policy))"

definition GetPITRPolicy :: "OpCtx \<Rightarrow> string \<Rightarrow> BackupStore \<Rightarrow> PITRPolicy res" where
  "GetPITRPolicy c ref s =
     and_then (projectKnown ref s) (\<lambda>_. Inr (case map_of (s_pitrPolicies (bs_main s)) ref of
        Some policy \<Rightarrow> policy | None \<Rightarrow> defaultPITRPolicy c ref))"

definition walArchiveBucketForTarget :: "BackupStorageTarget \<Rightarrow> string \<Rightarrow> string" where
  "walArchiveBucketForTarget target ref =
     (let prefix = trim_slashes (TrimSpace (ST_Prefix target)) in
      ''s3://'' @ ST_Bucket target @ ''/'' @ Join ''/'' ((if prefix = [] then [] else [prefix]) @ [''projects'', ref, ''wal'']))"

definition walTargetUsable :: "BackupLib \<Rightarrow> string \<Rightarrow> BackupStorageTarget \<Rightarrow> bool" where
  "walTargetUsable k targetID target \<longleftrightarrow>
     (if targetID \<noteq> [] then ST_ID target = targetID else ST_Default target) \<and> ST_SecretConfigured target \<and>
     (requireRecoveryReadyBackupTargets k \<longrightarrow> backupStorageTargetIsReadyOffHost k target)"

definition defaultWALArchiveBucketLocked :: "BackupLib \<Rightarrow> string \<Rightarrow> BackupStore \<Rightarrow> string option" where
  "defaultWALArchiveBucketLocked k ref s =
     (let targetID = (case map_of (s_policies (bs_main s)) ref of Some policy \<Rightarrow> TrimSpace (BP_StorageTargetID policy) | None \<Rightarrow> []) in
      map_option (\<lambda>target. walArchiveBucketForTarget target ref) (find (walTargetUsable k targetID) (map snd (bs_targets s))))"

definition UpdatePITRPolicy :: "BackupLib \<Rightarrow> OpCtx \<Rightarrow> string \<Rightarrow> PITRPolicyInput \<Rightarrow> BackupStore \<Rightarrow> PITRPolicy bop" where
  "UpdatePITRPolicy k c ref input s =
     (let bucket = TrimSpace (PITRIn_ArchiveBucket input); retentionDays = or_default_int 7 (PITRIn_RetentionDays input) in
      and_then (refuse (retentionDays < 1 \<or> retentionDays > 35) ''retention_days must be between 1 and 35'') (\<lambda>_.
      and_then (projectKnown ref s) (\<lambda>_.
      and_then (if PITRIn_Enabled input \<and> bucket = [] then
          (case defaultWALArchiveBucketLocked k ref s of
             None \<Rightarrow> Inl (ErrOther ''archive_bucket is required when PITR is enabled and no backup storage target is selected or configured as platform default'')
           | Some bucket \<Rightarrow> Inr bucket)
        else Inr bucket) (\<lambda>bucket.
      let policy = \<lparr>PITR_ProjectRef = ref, PITR_Enabled = PITRIn_Enabled input, PITR_ArchiveBucket = bucket, PITR_RetentionDays = retentionDays,
            PITR_LastArchiveAt = (case map_of (s_pitrPolicies (bs_main s)) ref of Some policy \<Rightarrow> PITR_LastArchiveAt policy | None \<Rightarrow> None),
            PITR_UpdatedAt = ctx_now c\<rparr>
      in Inr (setPITRPolicy ref policy s, policy)))))"

section \<open>Archived WAL segments\<close>

definition is_hex :: "char \<Rightarrow> bool" where
  "is_hex x \<longleftrightarrow> is_digit x \<or> 65 \<le> byte x \<and> byte x \<le> 70 \<or> 97 \<le> byte x \<and> byte x \<le> 102"

definition isPostgresWALSegment :: "string \<Rightarrow> bool" where
  "isPostgresWALSegment segment = (let segment = TrimSpace segment in length segment = 24 \<and> list_all is_hex segment)"

definition newWALArchive :: "OpCtx \<Rightarrow> WALArchiveInput \<Rightarrow> WALArchive" where
  "newWALArchive c input =
     \<lparr>WAL_ID = ctx_newID c, WAL_ProjectRef = WALIn_ProjectRef input, WAL_Segment = ToUpper (TrimSpace (WALIn_Segment input)),
      WAL_SegmentSource = or_default ''unknown'' (TrimSpace (WALIn_SegmentSource input)), WAL_Location = WALIn_Location input,
      WAL_RemoteLocation = TrimSpace (WALIn_RemoteLocation input), WAL_StorageTargetID = TrimSpace (WALIn_StorageTargetID input),
      WAL_SizeBytes = WALIn_SizeBytes input, WAL_ChecksumSHA256 = TrimSpace (WALIn_ChecksumSHA256 input),
      WAL_Status = or_default ''archived'' (TrimSpace (WALIn_Status input)), WAL_CreatedAt = ctx_now c, WAL_VerifiedAt = WALIn_VerifiedAt input\<rparr>"

definition CreateWALArchive :: "OpCtx \<Rightarrow> WALArchiveInput \<Rightarrow> BackupStore \<Rightarrow> WALArchive bop" where
  "CreateWALArchive c input s =
     (let ref = WALIn_ProjectRef input in
      and_then (refuse (TrimSpace ref = []) ''project ref is required'') (\<lambda>_.
      and_then (refuse (TrimSpace (WALIn_Segment input) = []) ''wal segment is required'') (\<lambda>_.
      and_then (refuse (\<not> isPostgresWALSegment (WALIn_Segment input)) ''wal segment must be a 24-character Postgres WAL filename'') (\<lambda>_.
      and_then (refuse (TrimSpace (WALIn_Location input) = []) ''wal archive location is required'') (\<lambda>_.
      let archive = newWALArchive c input in
      and_then (projectKnown ref s) (\<lambda>_.
      and_then (targetKnown (WAL_StorageTargetID archive) s) (\<lambda>_.
      let policy = (case map_of (s_pitrPolicies (bs_main s)) ref of
            None \<Rightarrow> defaultPITRPolicy c ref
          | Some policy \<Rightarrow> if PITR_ProjectRef policy = [] then defaultPITRPolicy c ref else policy);
          policy = policy\<lparr>PITR_LastArchiveAt := Some (WAL_CreatedAt archive), PITR_UpdatedAt := ctx_now c\<rparr>
      in Inr (setPITRPolicy ref policy (s\<lparr>bs_walArchives := bs_walArchives s @ [archive]\<rparr>), archive))))))))"

definition newer_archive :: "WALArchive \<Rightarrow> WALArchive \<Rightarrow> bool" where
  "newer_archive a b \<longleftrightarrow> WAL_CreatedAt a > WAL_CreatedAt b"

definition ListWALArchives :: "string \<Rightarrow> BackupStore \<Rightarrow> WALArchive list res" where
  "ListWALArchives ref s =
     and_then (projectKnown ref s) (\<lambda>_. Inr (sort_slice newer_archive (filter (\<lambda>a. WAL_ProjectRef a = ref) (bs_walArchives s))))"

end
