(* ===== verification/Backup_Runs.thy ===== *)
theory Backup_Runs
  imports Backups
begin

text \<open>
  Taking backups (internal/control/backup.go): dumping a project or the control plane into a file, copying the file to the
  storage target that applies and recording it, archiving WAL segments, and the scheduled passes over all projects. The file system
  and the commands run are part of the state (\<open>BackupWorld\<close>); what a command does to the files, the S3 service, SHA-256 and
  failures of the file system are parameters (\<open>BackupOps\<close>). \<open>bw_ran\<close> records every command run with the files it was run on.
\<close>

section \<open>The world of the backup service\<close>

record BackupService =
  sv_rootDir :: string
  sv_projectRoot :: string
  sv_command :: string
  sv_physicalCommand :: string
  sv_restoreCommand :: string
  sv_walCommand :: string
  sv_pitrRestoreCommand :: string
  sv_dryRun :: bool
  sv_restoreDryRun :: bool
  sv_walDryRun :: bool

text \<open>A command gives its output, an error if it failed, and the files as it leaves them. \<open>bo_order\<close> is the order in which a Go
  map is visited.\<close>

record BackupOps =
  bo_exec :: "string \<Rightarrow> (string, string) gomap \<Rightarrow> (string, string) gomap \<times> string \<times> string option"
  bo_sha256 :: "string \<Rightarrow> string"
  bo_put :: "BackupStorageTarget \<Rightarrow> string \<Rightarrow> string \<Rightarrow> string option"
  bo_get :: "BackupStorageTarget \<Rightarrow> string \<Rightarrow> string res"
  bo_fileError :: "string \<Rightarrow> string option"
  bo_order :: "(string \<times> string) list \<Rightarrow> (string \<times> string) list"
  bo_exportCheckpoint :: "string res option"
  bo_platformArtifact :: "string option \<Rightarrow> time \<Rightarrow> string"

record BackupWorld =
  bw_store :: BackupStore
  bw_files :: "(string, string) gomap"
  bw_ran :: "(string \<times> (string, string) gomap) list"

type_synonym 'a act = "BackupWorld \<Rightarrow> 'a res \<times> BackupWorld"

definition act_then :: "'a act \<Rightarrow> ('a \<Rightarrow> 'b act) \<Rightarrow> 'b act" where
  "act_then m f w = (case m w of (Inl e, w') \<Rightarrow> (Inl e, w') | (Inr x, w') \<Rightarrow> f x w')"

definition act_res :: "'a res \<Rightarrow> 'a act" where
  "act_res r w = (r, w)"

definition act_read :: "(BackupStore \<Rightarrow> 'a res) \<Rightarrow> 'a act" where
  "act_read f w = (f (bw_store w), w)"

definition act_store :: "(BackupStore \<Rightarrow> 'a bop) \<Rightarrow> 'a act" where
  "act_store f w = (case f (bw_store w) of Inl e \<Rightarrow> (Inl e, w) | Inr (s, x) \<Rightarrow> (Inr x, w\<lparr>bw_store := s\<rparr>))"

definition act_file :: "BackupOps \<Rightarrow> string \<Rightarrow> unit act" where
  "act_file os path = act_res (case bo_fileError os path of None \<Rightarrow> Inr () | Some msg \<Rightarrow> Inl (ErrOther msg))"

definition writeFile :: "BackupOps \<Rightarrow> string \<Rightarrow> string \<Rightarrow> unit act" where
  "writeFile os path content =
     act_then (act_file os path) (\<lambda>_ w. (Inr (), w\<lparr>bw_files := AList.update path content (bw_files w)\<rparr>))"

definition readFile :: "BackupOps \<Rightarrow> string \<Rightarrow> string act" where
  "readFile os path =
     act_then (act_file os path) (\<lambda>_ w. (lookup_or (ErrOther (path @ '': no such file or directory'')) (bw_files w) path, w))"

definition renameFile :: "BackupOps \<Rightarrow> string \<Rightarrow> string \<Rightarrow> unit act" where
  "renameFile os from path =
     act_then (readFile os from) (\<lambda>content.
     act_then (act_file os path) (\<lambda>_ w. (Inr (), w\<lparr>bw_files := AList.update path content (AList.delete from (bw_files w))\<rparr>)))"

definition runCommand :: "BackupOps \<Rightarrow> string \<Rightarrow> (string \<times> string option) act" where
  "runCommand os command w =
     (case bo_exec os command (bw_files w) of
        (files, out, failure) \<Rightarrow> (Inr (out, failure), w\<lparr>bw_files := files, bw_ran := bw_ran w @ [(command, bw_files w)]\<rparr>))"

section \<open>Names\<close>

definition compactTime :: "time \<Rightarrow> string" where
  "compactTime t =
     (let secs = nat t div 1000000000; (y, yday) = year_of_day (secs div 86400);
          (m, day) = month_of_day (month_lengths (is_leap y)) 1 yday; s = secs mod 86400
      in decimal 4 y @ decimal 2 m @ decimal 2 day @ ''T'' @ decimal 2 (s div 3600) @ decimal 2 (s mod 3600 div 60) @ decimal 2 (s mod 60) @ ''Z'')"

fun hexUpper :: "nat \<Rightarrow> nat \<Rightarrow> string" where
  "hexUpper 0 n = []"
| "hexUpper (Suc w) n = hexUpper w (n div 16) @ [''0123456789ABCDEF'' ! (n mod 16)]"

text \<open>\<open>%024X\<close> of the nanoseconds since 1970, which are fewer than \<open>2 ^ 63\<close>.\<close>

definition fallbackWALSegment :: "time \<Rightarrow> string" where
  "fallbackWALSegment now = hexUpper 24 (nat (now - 62135596800 * second_ns))"

definition objectKey :: "BackupStorageTarget \<Rightarrow> string list \<Rightarrow> string" where
  "objectKey target parts =
     (let prefix = trim_slashes (TrimSpace (ST_Prefix target)) in Join ''/'' ((if prefix = [] then [] else [prefix]) @ parts))"

definition backupObjectKey :: "BackupStorageTarget \<Rightarrow> Project \<Rightarrow> string \<Rightarrow> string" where
  "backupObjectKey target project filename = objectKey target [''projects'', Proj_Ref project, ''backups'', filename]"

definition walArchiveObjectKey :: "BackupStorageTarget \<Rightarrow> Project \<Rightarrow> string \<Rightarrow> string" where
  "walArchiveObjectKey target project filename = objectKey target [''projects'', Proj_Ref project, ''wal'', filename]"

definition platformBackupObjectKey :: "BackupStorageTarget \<Rightarrow> string \<Rightarrow> string" where
  "platformBackupObjectKey target filename = objectKey target [''platform'', ''backups'', filename]"

definition TrimLeftSlash :: "string \<Rightarrow> string" where
  "TrimLeftSlash = dropWhile (\<lambda>x. x = CHR ''/'')"

definition backupRemoteLocation :: "BackupStorageTarget \<Rightarrow> string \<Rightarrow> string" where
  "backupRemoteLocation target key = ''s3://'' @ ST_Bucket target @ ''/'' @ TrimLeftSlash key"

definition parseS3RemoteLocation :: "BackupLib \<Rightarrow> string \<Rightarrow> (string \<times> string) res" where
  "parseS3RemoteLocation k remoteLocation =
     (case bl_parseURL k (TrimSpace remoteLocation) of
        None \<Rightarrow> Inl (ErrOther ''invalid backup remote location'')
      | Some parsed \<Rightarrow>
          and_then (refuse (URL_Scheme parsed \<noteq> ''s3'' \<or> URL_Host parsed = []) ''backup remote location must be an s3:// URI'') (\<lambda>_.
          let key = TrimLeftSlash (URL_Path parsed) in
          and_then (refuse (key = []) ''backup remote location does not include an object key'') (\<lambda>_. Inr (URL_Host parsed, key))))"

text \<open>\<open>filepath.Base\<close>: the last component, without trailing slashes.\<close>

definition pathBase :: "string \<Rightarrow> string" where
  "pathBase path =
     (if path = [] then ''.''
      else let path = TrimRightSlash path in
        if path = [] then ''/'' else last (Split CHR ''/'' path))"

definition filenameFromS3RemoteLocation :: "BackupLib \<Rightarrow> string \<Rightarrow> string" where
  "filenameFromS3RemoteLocation k remoteLocation =
     (case parseS3RemoteLocation k remoteLocation of
        Inl _ \<Rightarrow> ''remote-backup.sql''
      | Inr (_, key) \<Rightarrow> let filename = pathBase key in
          if filename = ''.'' \<or> filename = ''/'' \<or> filename = [] then ''remote-backup.sql'' else filename)"

text \<open>\<open>filepath.Join\<close> skips empty elements.\<close>

definition joinPath :: "string list \<Rightarrow> string" where
  "joinPath elems = (let elems = filter (\<lambda>e. e \<noteq> []) elems in if elems = [] then [] else Clean (Join ''/'' elems))"

text \<open>\<open>filepath.Dir\<close>: everything before the last slash, cleaned.\<close>

definition pathDir :: "string \<Rightarrow> string" where
  "pathDir path = Clean (rev (dropWhile (\<lambda>x. x \<noteq> CHR ''/'') (rev path)))"

section \<open>Shell commands\<close>

fun ReplaceAll :: "string \<Rightarrow> string \<Rightarrow> nat \<Rightarrow> string \<Rightarrow> string" where
  "ReplaceAll old new skip [] = []"
| "ReplaceAll old new (Suc skip) (x # s) = ReplaceAll old new skip s"
| "ReplaceAll old new 0 (x # s) =
     (if HasPrefix (x # s) old then new @ ReplaceAll old new (length old - 1) s else x # ReplaceAll old new 0 s)"

definition quote_char :: char where "quote_char = char_of (39 :: nat)"
definition double_quote :: char where "double_quote = char_of (34 :: nat)"

definition shellQuote :: "string \<Rightarrow> string" where
  "shellQuote value =
     (if value = [] then [quote_char, quote_char]
      else quote_char # ReplaceAll [quote_char] [quote_char, double_quote, quote_char, double_quote, quote_char] 0 value @ [quote_char])"

definition substitute :: "BackupOps \<Rightarrow> (string \<times> string) list \<Rightarrow> string \<Rightarrow> string" where
  "substitute os replacements template =
     foldl (\<lambda>out (token, value). ReplaceAll token value 0 out) template (bo_order os replacements)"

definition quoted :: "(string \<times> string) list \<Rightarrow> (string \<times> string) list" where
  "quoted replacements = map (\<lambda>(token, value). (token, shellQuote value)) replacements"

definition projectTokens :: "string \<Rightarrow> Project \<Rightarrow> string \<Rightarrow> (string \<times> string) list" where
  "projectTokens projectDir project backupRoot =
     [(''{{backup_root}}'', backupRoot), (''{{compose_file}}'', joinPath [projectDir, ''compose.yaml'']),
      (''{{domain}}'', Spec_Domain (Proj_Spec project)), (''{{project_dir}}'', projectDir), (''{{project_id}}'', Proj_ID project),
      (''{{project_ref}}'', Proj_Ref project), (''{{ref}}'', Proj_Ref project)]"

definition renderBackupCommand :: "BackupOps \<Rightarrow> BackupService \<Rightarrow> string \<Rightarrow> Project \<Rightarrow> string \<Rightarrow> string" where
  "renderBackupCommand os sv template project backupPath =
     (let projectDir = joinPath [sv_projectRoot sv, Proj_Ref project] in
      substitute os (quoted ((''{{backup_path}}'', backupPath) # (''{{stack_version}}'', Spec_StackVersion (Proj_Spec project)) #
        projectTokens projectDir project (sv_rootDir sv))) template)"

definition renderWALArchiveCommand :: "BackupOps \<Rightarrow> BackupService \<Rightarrow> Project \<Rightarrow> PITRPolicy \<Rightarrow> string \<Rightarrow> string \<Rightarrow> string" where
  "renderWALArchiveCommand os sv project policy segment archivePath =
     (let projectDir = joinPath [sv_projectRoot sv, Proj_Ref project] in
      substitute os (quoted ([(''{{archive_bucket}}'', PITR_ArchiveBucket policy), (''{{retention_days}}'', sprint_int (PITR_RetentionDays policy)),
        (''{{segment}}'', segment), (''{{wal_path}}'', archivePath), (''{{wal_root}}'', pathDir archivePath)] @
        projectTokens projectDir project (sv_rootDir sv))) (sv_walCommand sv))"

section \<open>Storage target of a project\<close>

definition resolveDefaultBackupTarget :: "BackupLib \<Rightarrow> BackupStore \<Rightarrow> BackupStorageTarget option res" where
  "resolveDefaultBackupTarget k s =
     (case find ST_Default (ListBackupStorageTargets k s) of
        None \<Rightarrow> Inr None
      | Some target \<Rightarrow> and_then (GetBackupStorageTarget (ST_ID target) s) (\<lambda>fullTarget. Inr (Some fullTarget)))"

definition resolveBackupTarget :: "BackupLib \<Rightarrow> OpCtx \<Rightarrow> string \<Rightarrow> BackupStore \<Rightarrow> BackupStorageTarget option res" where
  "resolveBackupTarget k c ref s =
     and_then (GetBackupPolicy c ref s) (\<lambda>policy.
     if TrimSpace (BP_StorageTargetID policy) \<noteq> []
     then and_then (GetBackupStorageTarget (BP_StorageTargetID policy) s) (\<lambda>target. Inr (Some target))
     else resolveDefaultBackupTarget k s)"

text \<open>Copying a file to a target, if there is one, gives its remote location and the identifier of the target.\<close>

definition uploadTo :: "BackupOps \<Rightarrow> BackupStorageTarget option \<Rightarrow> (BackupStorageTarget \<Rightarrow> string) \<Rightarrow> string \<Rightarrow> (string \<times> string) act" where
  "uploadTo os target keyOf path =
     (case target of
        None \<Rightarrow> act_res (Inr ([], []))
      | Some target \<Rightarrow> let key = keyOf target in
          act_then (readFile os path) (\<lambda>content.
          act_res (case bo_put os target key content of
            Some msg \<Rightarrow> Inl (ErrOther (''upload backup artifact to '' @ backupRemoteLocation target key @ '': '' @ msg))
          | None \<Rightarrow> Inr (backupRemoteLocation target key, ST_ID target))))"

section \<open>Backups of a project\<close>

definition dryRunBackup :: "Project \<Rightarrow> time \<Rightarrow> string" where
  "dryRunBackup project now =
     Join [newline] [''-- supadupa logical backup'', ''-- mode: dry-run'', ''-- project_ref: '' @ Proj_Ref project,
       ''-- project_id: '' @ Proj_ID project, ''-- stack_version: '' @ Spec_StackVersion (Proj_Spec project),
       ''-- created_at: '' @ RFC3339Nano now, ''--'',
       ''-- Configure SUPADUPA_LOGICAL_BACKUP_COMMAND to execute pg_dump for live data-plane backups.'',
       ''-- The command stdout is written to this .sql artifact.'', [], ''BEGIN;'',
       ''-- no-op dry-run backup marker for '' @ Proj_Ref project, ''ROLLBACK;'', []]"

definition dumpTo :: "BackupOps \<Rightarrow> string \<Rightarrow> string \<Rightarrow> string \<Rightarrow> unit act" where
  "dumpTo os kind command path =
     act_then (runCommand os command) (\<lambda>(out, failure).
     case failure of
       Some msg \<Rightarrow> act_res (Inl (ErrOther (kind @ '' backup command failed: '' @ msg)))
     | None \<Rightarrow> if out = [] then act_res (Inl (ErrOther (kind @ '' backup command produced no output''))) else writeFile os path out)"

definition recordBackup ::
    "BackupOps \<Rightarrow> OpCtx \<Rightarrow> OpCtx \<Rightarrow> Project \<Rightarrow> string \<Rightarrow> string \<Rightarrow> string \<Rightarrow> string \<times> string \<Rightarrow> Backup act" where
  "recordBackup os c c' project kind path content remote =
     act_store (CreateBackup c' \<lparr>BkIn_ProjectRef = Proj_Ref project, BkIn_Kind = kind, BkIn_Location = path, BkIn_RemoteLocation = fst remote,
       BkIn_StorageTargetID = snd remote, BkIn_SizeBytes = int (length content), BkIn_ChecksumSHA256 = bo_sha256 os content,
       BkIn_Status = ''completed'', BkIn_StartedAt = ctx_now c, BkIn_FinishedAt = Some (ctx_now c'), BkIn_VerifiedAt = Some (ctx_now c')\<rparr>)"

definition TriggerLogicalBackup :: "BackupLib \<Rightarrow> BackupOps \<Rightarrow> BackupService \<Rightarrow> OpCtx \<Rightarrow> OpCtx \<Rightarrow> Project \<Rightarrow> Backup act" where
  "TriggerLogicalBackup k os sv c c' project =
     (let dir = joinPath [sv_rootDir sv, Proj_Ref project]; filename = compactTime (ctx_now c) @ ''-logical.sql''; path = joinPath [dir, filename] in
      act_then (act_file os dir) (\<lambda>_.
      act_then (if sv_dryRun sv then writeFile os path (dryRunBackup project (ctx_now c))
        else dumpTo os ''logical'' (renderBackupCommand os sv (sv_command sv) project path) path) (\<lambda>_.
      act_then (readFile os path) (\<lambda>content.
      act_then (act_read (resolveBackupTarget k c (Proj_Ref project))) (\<lambda>target.
      act_then (uploadTo os target (\<lambda>t. backupObjectKey t project filename) path) (\<lambda>remote.
      recordBackup os c c' project ''logical'' path content remote))))))"

definition TriggerPhysicalBackup :: "BackupLib \<Rightarrow> BackupOps \<Rightarrow> BackupService \<Rightarrow> OpCtx \<Rightarrow> OpCtx \<Rightarrow> Project \<Rightarrow> Backup act" where
  "TriggerPhysicalBackup k os sv c c' project =
     (let dir = joinPath [sv_rootDir sv, Proj_Ref project]; filename = compactTime (ctx_now c) @ ''-physical.base''; path = joinPath [dir, filename] in
      act_then (act_res (refuse (TrimSpace (sv_physicalCommand sv) = []) ''physical backup command is not configured'')) (\<lambda>_.
      act_then (act_read (resolveBackupTarget k c (Proj_Ref project))) (\<lambda>target.
      act_then (act_res (ensureRecoveryReadyBackupTarget k target ''physical backup upload'')) (\<lambda>_.
      act_then (act_file os dir) (\<lambda>_.
      act_then (dumpTo os ''physical'' (renderBackupCommand os sv (sv_physicalCommand sv) project path) path) (\<lambda>_.
      act_then (readFile os path) (\<lambda>content.
      act_then (uploadTo os target (\<lambda>t. backupObjectKey t project filename) path) (\<lambda>remote.
      recordBackup os c c' project ''physical'' path content remote))))))))"

definition TriggerBackupForKind :: "BackupLib \<Rightarrow> BackupOps \<Rightarrow> BackupService \<Rightarrow> OpCtx \<Rightarrow> OpCtx \<Rightarrow> Project \<Rightarrow> string \<Rightarrow> Backup act" where
  "TriggerBackupForKind k os sv c c' project kind =
     (let kind' = ToLower (TrimSpace kind) in
      if kind' = [] \<or> kind' = ''logical'' then TriggerLogicalBackup k os sv c c' project
      else if kind' = ''physical'' then TriggerPhysicalBackup k os sv c c' project
      else act_res (Inl (ErrOther (''unsupported backup kind '' @ kind))))"

section \<open>Backups of the control plane\<close>

text \<open>The artifact is a JSON text around the encrypted checkpoint, when the store can export one; \<open>bo_platformArtifact\<close> encodes it.\<close>

definition TriggerPlatformBackup :: "BackupLib \<Rightarrow> BackupOps \<Rightarrow> BackupService \<Rightarrow> OpCtx \<Rightarrow> OpCtx \<Rightarrow> PlatformBackup act" where
  "TriggerPlatformBackup k os sv c c' =
     (let dir = joinPath [sv_rootDir sv, ''_platform'']; filename = compactTime (ctx_now c) @ ''-control-plane.json''; path = joinPath [dir, filename] in
      act_then (act_file os dir) (\<lambda>_.
      act_then (act_res (case bo_exportCheckpoint os of None \<Rightarrow> Inr None | Some r \<Rightarrow> and_then r (\<lambda>checkpoint. Inr (Some checkpoint)))) (\<lambda>checkpoint.
      act_then (writeFile os path (bo_platformArtifact os checkpoint (ctx_now c))) (\<lambda>_.
      act_then (readFile os path) (\<lambda>content.
      act_then (act_read (resolveDefaultBackupTarget k)) (\<lambda>target.
      act_then (uploadTo os target (\<lambda>t. platformBackupObjectKey t filename) path) (\<lambda>remote.
      act_store (CreatePlatformBackup c' \<lparr>PBIn_Kind = ''control-plane'', PBIn_Location = path, PBIn_RemoteLocation = fst remote,
        PBIn_StorageTargetID = snd remote, PBIn_SizeBytes = int (length content), PBIn_ChecksumSHA256 = bo_sha256 os content,
        PBIn_Status = ''completed'', PBIn_StartedAt = ctx_now c, PBIn_FinishedAt = Some (ctx_now c'), PBIn_VerifiedAt = Some (ctx_now c')\<rparr>))))))))"

section \<open>Archiving WAL segments\<close>

definition dryRunArchive :: "Project \<Rightarrow> PITRPolicy \<Rightarrow> string \<Rightarrow> time \<Rightarrow> string" where
  "dryRunArchive project policy segment now =
     Join [newline] [''-- supadupa WAL archive'', ''-- mode: dry-run'', ''-- project_ref: '' @ Proj_Ref project,
       ''-- project_id: '' @ Proj_ID project, ''-- segment: '' @ segment, ''-- archive_bucket: '' @ PITR_ArchiveBucket policy,
       ''-- retention_days: '' @ sprint_int (PITR_RetentionDays policy), ''-- created_at: '' @ RFC3339Nano now, ''--'',
       ''-- Configure SUPADUPA_WAL_ARCHIVE_COMMAND to execute WAL-G, pgBackRest, or an operator wrapper.'',
       ''-- The command stdout is written to this WAL archive artifact.'', [], ''WAL-SEGMENT '' @ segment, []]"

definition runWALArchiveCommand :: "BackupOps \<Rightarrow> BackupService \<Rightarrow> string \<Rightarrow> Project \<Rightarrow> PITRPolicy \<Rightarrow> string \<Rightarrow> (string \<times> string) act" where
  "runWALArchiveCommand os sv path project policy segment =
     act_then (runCommand os (renderWALArchiveCommand os sv project policy segment path)) (\<lambda>(out, failure).
     case failure of
       Some msg \<Rightarrow> act_res (Inl (ErrOther (''WAL archive command failed: '' @ msg)))
     | None \<Rightarrow>
         if out = [] then act_res (Inl (ErrOther ''WAL archive command produced no output''))
         else let outputText = TrimSpace out in
           if isPostgresWALSegment outputText then
             (\<lambda>w. if bo_fileError os path = None \<and> get_or [] (bw_files w) path \<noteq> [] then (Inr (ToUpper outputText, ''postgres''), w)
               else (Inl (ErrOther (''WAL archive command returned segment '' @ outputText @ '' but did not write {{wal_path}}'')), w))
           else act_then (writeFile os path out) (\<lambda>_. act_res (Inr (segment, ''legacy-command''))))"

definition ArchiveWALSegment :: "BackupLib \<Rightarrow> BackupOps \<Rightarrow> BackupService \<Rightarrow> OpCtx \<Rightarrow> OpCtx \<Rightarrow> Project \<Rightarrow> WALArchive act" where
  "ArchiveWALSegment k os sv c c' project =
     (let ref = Proj_Ref project; now = ctx_now c; fallback = fallbackWALSegment now; dir = joinPath [sv_rootDir sv, ref, ''wal''];
          pending = joinPath [dir, compactTime now @ ''-pending.wal''] in
      act_then (act_read (GetPITRPolicy c ref)) (\<lambda>policy.
      act_then (act_res (refuse (\<not> PITR_Enabled policy) (''PITR is disabled for project '' @ ref))) (\<lambda>_.
      act_then (act_read (resolveBackupTarget k c ref)) (\<lambda>target.
      act_then (act_res (ensureRecoveryReadyBackupTarget k target ''WAL archive upload'')) (\<lambda>_.
      act_then (act_file os dir) (\<lambda>_.
      act_then (if sv_walDryRun sv
          then act_then (writeFile os pending (dryRunArchive project policy fallback now)) (\<lambda>_. act_res (Inr (fallback, ''dry-run'')))
          else act_then (act_res (refuse (TrimSpace (sv_walCommand sv) = []) ''WAL archive command is not configured''))
            (\<lambda>_. runWALArchiveCommand os sv pending project policy fallback)) (\<lambda>(segment, source).
      act_then (act_res (refuse (\<not> isPostgresWALSegment segment) (''WAL archive command returned invalid segment '' @ segment))) (\<lambda>_.
      let filename = compactTime now @ ''-'' @ segment @ ''.wal''; path = joinPath [dir, filename] in
      act_then (if pending \<noteq> path then renameFile os pending path else act_res (Inr ())) (\<lambda>_.
      act_then (readFile os path) (\<lambda>content.
      act_then (uploadTo os target (\<lambda>t. walArchiveObjectKey t project filename) path) (\<lambda>remote.
      act_store (CreateWALArchive c' \<lparr>WALIn_ProjectRef = ref, WALIn_Segment = segment, WALIn_SegmentSource = source, WALIn_Location = path,
        WALIn_RemoteLocation = fst remote, WALIn_StorageTargetID = snd remote, WALIn_SizeBytes = int (length content),
        WALIn_ChecksumSHA256 = bo_sha256 os content, WALIn_Status = ''archived'', WALIn_VerifiedAt = Some now\<rparr>))))))))))))"

section \<open>The scheduled passes\<close>

definition backupDue :: "time \<Rightarrow> BackupPolicy \<Rightarrow> bool" where
  "backupDue now policy \<longleftrightarrow>
     BP_Enabled policy \<and> (case BP_NextRunAt policy of None \<Rightarrow> False | Some next_run \<Rightarrow> \<not> next_run > now)"

text \<open>Each project has clocks and identifiers of its own; log entries and audit events are left out. A pass that fails to mark the run
  goes on. A pass that ends with an error gives the backups it has completed together with the error.\<close>

fun runDueLoop :: "BackupLib \<Rightarrow> BackupOps \<Rightarrow> BackupService \<Rightarrow> (string \<Rightarrow> OpCtx \<times> OpCtx) \<Rightarrow> time \<Rightarrow> Project list \<Rightarrow> Backup list \<Rightarrow>
    BackupWorld \<Rightarrow> (Backup list \<times> err option) \<times> BackupWorld" where
  "runDueLoop k os sv cs now [] completed w = ((completed, None), w)"
| "runDueLoop k os sv cs now (project # projects) completed w =
     (let c = fst (cs (Proj_Ref project)); c' = snd (cs (Proj_Ref project)) in
      case GetBackupPolicy c (Proj_Ref project) (bw_store w) of
        Inl e \<Rightarrow> ((completed, Some e), w)
      | Inr policy \<Rightarrow>
          if \<not> backupDue now policy then runDueLoop k os sv cs now projects completed w
          else case TriggerBackupForKind k os sv c c' project (BP_Kind policy) w of
              (Inl _, w') \<Rightarrow> runDueLoop k os sv cs now projects completed w'
            | (Inr backup, w') \<Rightarrow>
                let s = (case MarkBackupPolicyRun c' (Proj_Ref project) now (bw_store w') of Inl _ \<Rightarrow> bw_store w' | Inr (s, _) \<Rightarrow> s)
                in runDueLoop k os sv cs now projects (completed @ [backup]) (w'\<lparr>bw_store := s\<rparr>))"

definition RunDueBackups :: "BackupLib \<Rightarrow> BackupOps \<Rightarrow> BackupService \<Rightarrow> (string \<Rightarrow> OpCtx \<times> OpCtx) \<Rightarrow> time \<Rightarrow>
    BackupWorld \<Rightarrow> (Backup list \<times> err option) \<times> BackupWorld" where
  "RunDueBackups k os sv cs now w = runDueLoop k os sv cs now (ListProjects (bs_main (bw_store w))) [] w"

definition ProjectDegraded :: ProjectPhase where "ProjectDegraded = ''degraded''"

definition pitrArchiveEligible :: "ProjectPhase \<Rightarrow> bool" where
  "pitrArchiveEligible status \<longleftrightarrow> status = ProjectHealthy \<or> status = ProjectDegraded"

definition pitrArchiveDue :: "PITRPolicy \<Rightarrow> time \<Rightarrow> int \<Rightarrow> bool" where
  "pitrArchiveDue policy now interval \<longleftrightarrow>
     PITR_Enabled policy \<and> (case PITR_LastArchiveAt policy of None \<Rightarrow> True | Some t \<Rightarrow> \<not> t + interval > now)"

fun runDueWALLoop :: "BackupLib \<Rightarrow> BackupOps \<Rightarrow> BackupService \<Rightarrow> (string \<Rightarrow> OpCtx \<times> OpCtx) \<Rightarrow> time \<Rightarrow> int \<Rightarrow> Project list \<Rightarrow>
    WALArchive list \<Rightarrow> BackupWorld \<Rightarrow> (WALArchive list \<times> err option) \<times> BackupWorld" where
  "runDueWALLoop k os sv cs now interval [] completed w = ((completed, None), w)"
| "runDueWALLoop k os sv cs now interval (project # projects) completed w =
     (let c = fst (cs (Proj_Ref project)); c' = snd (cs (Proj_Ref project)) in
      if \<not> pitrArchiveEligible (Proj_Status project) then runDueWALLoop k os sv cs now interval projects completed w
      else case GetPITRPolicy c (Proj_Ref project) (bw_store w) of
          Inl e \<Rightarrow> ((completed, Some e), w)
        | Inr policy \<Rightarrow>
            if \<not> pitrArchiveDue policy now interval then runDueWALLoop k os sv cs now interval projects completed w
            else case ArchiveWALSegment k os sv c c' project w of
                (Inl _, w') \<Rightarrow> runDueWALLoop k os sv cs now interval projects completed w'
              | (Inr archive, w') \<Rightarrow> runDueWALLoop k os sv cs now interval projects (completed @ [archive]) w')"

definition RunDueWALArchives :: "BackupLib \<Rightarrow> BackupOps \<Rightarrow> BackupService \<Rightarrow> (string \<Rightarrow> OpCtx \<times> OpCtx) \<Rightarrow> time \<Rightarrow> int \<Rightarrow>
    BackupWorld \<Rightarrow> (WALArchive list \<times> err option) \<times> BackupWorld" where
  "RunDueWALArchives k os sv cs now interval w =
     runDueWALLoop k os sv cs now (if interval \<le> 0 then 5 * minute_ns else interval) (ListProjects (bs_main (bw_store w))) [] w"

end
