(* ===== verification/Recovery.thy ===== *)
theory Recovery
  imports Backup_Runs
begin

text \<open>
  Recovering from backups (internal/control/backup.go): what the report on a project's recoverability says, which base backup and
  WAL archives a restore to a point in time takes, and the checks on an artifact before a restore command runs.
\<close>

section \<open>Choosing backups and archives\<close>

definition targetReady :: "BackupLib \<Rightarrow> BackupStorageTarget list \<Rightarrow> string \<Rightarrow> bool" where
  "targetReady k targets i =
     (case map_of (map (\<lambda>t. (ST_ID t, t)) (rev targets)) i of None \<Rightarrow> False | Some target \<Rightarrow> backupStorageTargetIsReadyOffHost k target)"

definition verifiedBackup :: "string \<Rightarrow> Backup \<Rightarrow> bool" where
  "verifiedBackup kind b \<longleftrightarrow> Bk_Status b = ''completed'' \<and> Bk_VerifiedAt b \<noteq> None \<and> (TrimSpace kind \<noteq> [] \<longrightarrow> Bk_Kind b = TrimSpace kind)"

definition offHostBackup :: "BackupLib \<Rightarrow> BackupStorageTarget list \<Rightarrow> string \<Rightarrow> Backup \<Rightarrow> bool" where
  "offHostBackup k targets kind b \<longleftrightarrow>
     verifiedBackup kind b \<and> TrimSpace (Bk_RemoteLocation b) \<noteq> [] \<and> TrimSpace (Bk_StorageTargetID b) \<noteq> [] \<and>
     targetReady k targets (Bk_StorageTargetID b)"

definition latestVerifiedBackup :: "Backup list \<Rightarrow> string \<Rightarrow> Backup option" where
  "latestVerifiedBackup backups kind = find (verifiedBackup kind) backups"

definition latestVerifiedOffHostBackup :: "BackupLib \<Rightarrow> Backup list \<Rightarrow> BackupStorageTarget list \<Rightarrow> string \<Rightarrow> Backup option" where
  "latestVerifiedOffHostBackup k backups targets kind = find (offHostBackup k targets kind) backups"

text \<open>A target time of whole seconds is compared in seconds.\<close>

definition timestampAfterRecoveryTarget :: "time \<Rightarrow> time \<Rightarrow> bool" where
  "timestampAfterRecoveryTarget createdAt target =
     (if target mod second_ns = 0 then unix_seconds createdAt > unix_seconds target else createdAt > target)"

definition latestVerifiedOffHostBackupAtOrBefore ::
    "BackupLib \<Rightarrow> Backup list \<Rightarrow> BackupStorageTarget list \<Rightarrow> time \<Rightarrow> string \<Rightarrow> Backup option" where
  "latestVerifiedOffHostBackupAtOrBefore k backups targets latest kind =
     find (\<lambda>b. \<not> timestampAfterRecoveryTarget (Bk_CreatedAt b) latest \<and> offHostBackup k targets kind b) backups"

definition walArchiveHasPostgresSegment :: "WALArchive \<Rightarrow> bool" where
  "walArchiveHasPostgresSegment a \<longleftrightarrow> TrimSpace (WAL_SegmentSource a) = ''postgres'' \<and> isPostgresWALSegment (WAL_Segment a)"

definition verifiedArchive :: "WALArchive \<Rightarrow> bool" where
  "verifiedArchive a \<longleftrightarrow> WAL_Status a = ''archived'' \<and> WAL_VerifiedAt a \<noteq> None"

definition offHostArchive :: "BackupLib \<Rightarrow> BackupStorageTarget list \<Rightarrow> WALArchive \<Rightarrow> bool" where
  "offHostArchive k targets a \<longleftrightarrow>
     verifiedArchive a \<and> walArchiveHasPostgresSegment a \<and> TrimSpace (WAL_RemoteLocation a) \<noteq> [] \<and>
     TrimSpace (WAL_StorageTargetID a) \<noteq> [] \<and> targetReady k targets (WAL_StorageTargetID a)"

definition latestVerifiedWALArchive :: "WALArchive list \<Rightarrow> WALArchive option" where
  "latestVerifiedWALArchive archives = find verifiedArchive archives"

definition latestVerifiedOffHostWALArchive :: "BackupLib \<Rightarrow> WALArchive list \<Rightarrow> BackupStorageTarget list \<Rightarrow> WALArchive option" where
  "latestVerifiedOffHostWALArchive k archives targets = find (offHostArchive k targets) archives"

definition older_archive :: "WALArchive \<Rightarrow> WALArchive \<Rightarrow> bool" where
  "older_archive a b \<longleftrightarrow> WAL_CreatedAt a < WAL_CreatedAt b"

definition verifiedOffHostWALArchivesInRange ::
    "BackupLib \<Rightarrow> WALArchive list \<Rightarrow> BackupStorageTarget list \<Rightarrow> time \<Rightarrow> time \<Rightarrow> WALArchive list" where
  "verifiedOffHostWALArchivesInRange k archives targets start end_time =
     sort_slice older_archive (filter (\<lambda>a. offHostArchive k targets a \<and>
       \<not> (WAL_CreatedAt a < start \<or> timestampAfterRecoveryTarget (WAL_CreatedAt a) end_time)) archives)"

section \<open>The target a policy selects\<close>

definition selects :: "string \<Rightarrow> BackupStorageTarget \<Rightarrow> bool" where
  "selects policyTargetID target = (if policyTargetID \<noteq> [] then ST_ID target = policyTargetID else ST_Default target)"

definition backupPolicyHasOffHostTarget :: "BackupLib \<Rightarrow> BackupPolicy \<Rightarrow> BackupStorageTarget list \<Rightarrow> bool" where
  "backupPolicyHasOffHostTarget k policy targets =
     list_ex (\<lambda>t. (if TrimSpace (BP_StorageTargetID policy) \<noteq> [] then ST_ID t = BP_StorageTargetID policy else ST_Default t) \<and>
       backupStorageTargetIsReadyOffHost k t) targets"

definition backupPolicyHasAnyTarget :: "BackupPolicy \<Rightarrow> BackupStorageTarget list \<Rightarrow> bool" where
  "backupPolicyHasAnyTarget policy targets =
     list_ex (\<lambda>t. selects (TrimSpace (BP_StorageTargetID policy)) t \<and> ST_SecretConfigured t) targets"

definition backupPolicySelectedTarget :: "BackupPolicy \<Rightarrow> BackupStorageTarget list \<Rightarrow> BackupStorageTarget option" where
  "backupPolicySelectedTarget policy targets = find (selects (TrimSpace (BP_StorageTargetID policy))) targets"

datatype readiness_issue = NoIssue | MissingSecret | LocalTarget | NotValidated

definition issueText :: "readiness_issue \<Rightarrow> string" where
  "issueText issue = (case issue of
     NoIssue \<Rightarrow> []
   | MissingSecret \<Rightarrow> ''configured backup target is missing secret credentials''
   | LocalTarget \<Rightarrow> ''configured backup target is local or loopback and does not satisfy off-host recovery''
   | NotValidated \<Rightarrow> ''configured backup target has not passed validation'')"

definition backupPolicyTargetReadinessIssue :: "BackupLib \<Rightarrow> BackupPolicy \<Rightarrow> BackupStorageTarget list \<Rightarrow> readiness_issue" where
  "backupPolicyTargetReadinessIssue k policy targets =
     (case backupPolicySelectedTarget policy targets of
        None \<Rightarrow> NoIssue
      | Some target \<Rightarrow>
          if \<not> ST_SecretConfigured target then MissingSecret
          else if \<not> backupStorageTargetIsDurableOffHost k target then LocalTarget
          else if \<not> EqualFold (TrimSpace (ST_LastTestStatus target)) ''passed'' then NotValidated else NoIssue)"

section \<open>The report\<close>

record ProjectRecoverabilityStatus =
  RS_ProjectRef :: string
  RS_Status :: string
  RS_BackupPolicyEnabled :: bool
  RS_OffHostBackupConfigured :: bool
  RS_OffHostBackupVerified :: bool
  RS_LatestBackup :: "Backup option"
  RS_LatestVerifiedBackup :: "Backup option"
  RS_PITREnabled :: bool
  RS_LatestWALArchive :: "WALArchive option"
  RS_WALArchiveOffHostVerified :: bool
  RS_RecoveryWindow :: "(time \<times> time) option"
  RS_PhysicalBackupAvailable :: bool
  RS_RestoreToTimeConfigured :: bool
  RS_RestoreToTimeAvailable :: bool
  RS_RestoreToTimeUnavailable :: string
  RS_Warnings :: "string list"
  RS_Recommendations :: "string list"

text \<open>The window ends with the latest archive and starts with the retention or with the base backup, whichever is later.\<close>

definition recoveryWindow :: "BackupLib \<Rightarrow> PITRPolicy \<Rightarrow> Backup list \<Rightarrow> BackupStorageTarget list \<Rightarrow> WALArchive \<Rightarrow> (time \<times> time) option" where
  "recoveryWindow k policy backups targets archive =
     (case latestVerifiedOffHostBackupAtOrBefore k backups targets (WAL_CreatedAt archive) ''physical'' of
        None \<Rightarrow> None
      | Some base \<Rightarrow>
          let windowEnd = WAL_CreatedAt archive; windowStart = windowEnd - PITR_RetentionDays policy * day_ns;
              windowStart = (if Bk_CreatedAt base > windowStart then Bk_CreatedAt base else windowStart)
          in if windowStart > windowEnd then None else Some (windowStart, windowEnd))"

definition offHostAdvice :: "BackupLib \<Rightarrow> BackupPolicy \<Rightarrow> BackupStorageTarget list \<Rightarrow> string \<times> string" where
  "offHostAdvice k policy targets =
     (let durable = ''configure a durable S3-compatible target on another host or provider so backups survive host loss'';
          target = ''configure a default or project backup target so backups survive host loss'';
          issue = backupPolicyTargetReadinessIssue k policy targets in
      if issue \<noteq> NoIssue then
        (issueText issue,
         case issue of LocalTarget \<Rightarrow> durable
         | NotValidated \<Rightarrow> ''test the selected backup target from Settings > Backups or the CLI before relying on off-host recovery''
         | _ \<Rightarrow> target)
      else if backupPolicyHasAnyTarget policy targets
      then (''configured backup target is local or loopback and does not satisfy off-host recovery'', durable)
      else (''no S3-compatible backup target is selected or configured as platform default'', target))"

definition recoveryAdvice :: "BackupLib \<Rightarrow> BackupPolicy \<Rightarrow> BackupStorageTarget list \<Rightarrow> ProjectRecoverabilityStatus \<Rightarrow> (string \<times> string) list" where
  "recoveryAdvice k policy targets st =
     (let pitr = RS_PITREnabled st; archive = RS_LatestWALArchive st;
          ready = (pitr \<and> RS_PhysicalBackupAvailable st \<and> RS_WALArchiveOffHostVerified st) in
      (if \<not> RS_BackupPolicyEnabled st
       then [(''scheduled logical backups are disabled'', ''enable scheduled backups for baseline recovery'')] else []) @
      (if \<not> RS_OffHostBackupConfigured st then [offHostAdvice k policy targets] else []) @
      (if RS_OffHostBackupConfigured st \<and> \<not> RS_OffHostBackupVerified st
       then [(''no completed verified backup has been copied off-host yet'',
         ''run a backup after configuring the off-host target and verify remote_location is present'')] else []) @
      (if \<not> pitr then [(''PITR is disabled'', ''enable PITR and configure WAL archival for restore-to-time workflows'')] else []) @
      (if pitr \<and> archive = None then [(''PITR is enabled but no verified WAL archive exists yet'',
         ''wait for the WAL scheduler or archive a segment manually'')] else []) @
      (if pitr \<and> (case archive of None \<Rightarrow> False | Some a \<Rightarrow> \<not> walArchiveHasPostgresSegment a)
       then [(''latest WAL archive does not include a verified Postgres WAL segment identity'',
         ''archive WAL with a command that writes {{wal_path}} and returns the Postgres WAL filename on stdout'')] else []) @
      (if pitr \<and> archive \<noteq> None \<and> \<not> RS_WALArchiveOffHostVerified st then [(''verified WAL archives exist only on local disk'',
         ''configure an S3-compatible target and archive WAL again so PITR survives host loss'')] else []) @
      (if \<not> RS_PhysicalBackupAvailable st then [(''no verified physical base backup is available for PITR restore'',
         ''configure physical base backups with WAL-G or pgBackRest before relying on restore-to-time'')] else []) @
      (if ready \<and> \<not> RS_RestoreToTimeConfigured st then [(''no PITR restore command is configured'',
         ''configure SUPADUPA_PITR_RESTORE_COMMAND to replay the selected physical backup and WAL range'')] else []) @
      (if ready \<and> RS_RecoveryWindow st = None then [(''no verified physical base backup is available at or before the latest WAL archive'',
         ''run a WAL archive after the latest physical base backup before relying on restore-to-time'')] else []))"

definition recoverabilityStatus :: "ProjectRecoverabilityStatus \<Rightarrow> string" where
  "recoverabilityStatus st =
     (if RS_RestoreToTimeAvailable st then ''restore-to-time-ready''
      else if RS_OffHostBackupVerified st then ''off-host-backup-ready''
      else if RS_LatestVerifiedBackup st \<noteq> None then ''local-backup-only''
      else if RS_BackupPolicyEnabled st then ''scheduled-pending'' else ''unprotected'')"

definition recoverability ::
    "BackupLib \<Rightarrow> bool \<Rightarrow> string \<Rightarrow> BackupPolicy \<Rightarrow> Backup list \<Rightarrow> BackupStorageTarget list \<Rightarrow> PITRPolicy \<Rightarrow> WALArchive list \<Rightarrow> ProjectRecoverabilityStatus" where
  "recoverability k configured ref policy backups targets pitrPolicy archives =
     (let offHost = latestVerifiedOffHostBackup k backups targets [];
          physical = (latestVerifiedOffHostBackup k backups targets ''physical'' \<noteq> None);
          latest = latestVerifiedBackup backups []; archive = latestVerifiedOffHostWALArchive k archives targets;
          window = (case archive of None \<Rightarrow> None | Some a \<Rightarrow> recoveryWindow k pitrPolicy backups targets a);
          available = (PITR_Enabled pitrPolicy \<and> physical \<and> archive \<noteq> None \<and> configured \<and> window \<noteq> None);
          st = \<lparr>RS_ProjectRef = ref, RS_Status = ''unprotected'', RS_BackupPolicyEnabled = BP_Enabled policy,
            RS_OffHostBackupConfigured = backupPolicyHasOffHostTarget k policy targets, RS_OffHostBackupVerified = (offHost \<noteq> None),
            RS_LatestBackup = (case backups of [] \<Rightarrow> None | b # _ \<Rightarrow> Some b),
            RS_LatestVerifiedBackup = (if latest = None then offHost else latest), RS_PITREnabled = PITR_Enabled pitrPolicy,
            RS_LatestWALArchive = (if archive \<noteq> None then archive else latestVerifiedWALArchive archives),
            RS_WALArchiveOffHostVerified = (archive \<noteq> None), RS_RecoveryWindow = window, RS_PhysicalBackupAvailable = physical,
            RS_RestoreToTimeConfigured = configured, RS_RestoreToTimeAvailable = available,
            RS_RestoreToTimeUnavailable = (if available then [] else ''physical base backup plus WAL replay is not configured''),
            RS_Warnings = [], RS_Recommendations = []\<rparr>;
          advice = recoveryAdvice k policy targets st
      in st\<lparr>RS_Warnings := map fst advice, RS_Recommendations := map snd advice, RS_Status := recoverabilityStatus st\<rparr>)"

definition ProjectRecoverabilityWithOptions :: "BackupLib \<Rightarrow> OpCtx \<Rightarrow> string \<Rightarrow> bool \<Rightarrow> BackupStore \<Rightarrow> ProjectRecoverabilityStatus res" where
  "ProjectRecoverabilityWithOptions k c ref configured s =
     and_then (GetBackupPolicy c ref s) (\<lambda>policy.
     and_then (ListBackups ref s) (\<lambda>backups.
     and_then (GetPITRPolicy c ref s) (\<lambda>pitrPolicy.
     and_then (ListWALArchives ref s) (\<lambda>archives.
     Inr (recoverability k configured ref policy backups (ListBackupStorageTargets k s) pitrPolicy archives)))))"

section \<open>Artifacts\<close>

text \<open>What the three kinds of artifact have in common: where it lies, where its copy is, its size and checksum.\<close>

record Artifact =
  Art_Noun :: string
  Art_Location :: string
  Art_RemoteLocation :: string
  Art_StorageTargetID :: string
  Art_SizeBytes :: int
  Art_Checksum :: string

definition backupArtifact :: "Backup \<Rightarrow> Artifact" where
  "backupArtifact b = \<lparr>Art_Noun = ''backup '' @ Bk_ID b, Art_Location = Bk_Location b, Art_RemoteLocation = Bk_RemoteLocation b,
     Art_StorageTargetID = Bk_StorageTargetID b, Art_SizeBytes = Bk_SizeBytes b, Art_Checksum = Bk_ChecksumSHA256 b\<rparr>"

definition walArtifact :: "WALArchive \<Rightarrow> Artifact" where
  "walArtifact a = \<lparr>Art_Noun = ''WAL archive '' @ WAL_ID a, Art_Location = WAL_Location a, Art_RemoteLocation = WAL_RemoteLocation a,
     Art_StorageTargetID = WAL_StorageTargetID a, Art_SizeBytes = WAL_SizeBytes a, Art_Checksum = WAL_ChecksumSHA256 a\<rparr>"

definition platformArtifact :: "PlatformBackup \<Rightarrow> Artifact" where
  "platformArtifact b = \<lparr>Art_Noun = ''platform backup '' @ PB_ID b, Art_Location = PB_Location b, Art_RemoteLocation = PB_RemoteLocation b,
     Art_StorageTargetID = PB_StorageTargetID b, Art_SizeBytes = PB_SizeBytes b, Art_Checksum = PB_ChecksumSHA256 b\<rparr>"

definition DownloadBackupArtifact :: "BackupLib \<Rightarrow> BackupOps \<Rightarrow> BackupStorageTarget \<Rightarrow> string \<Rightarrow> string \<Rightarrow> unit act" where
  "DownloadBackupArtifact k os target remoteLocation localPath =
     act_then (act_res (parseS3RemoteLocation k remoteLocation)) (\<lambda>(bucket, key).
     act_then (act_res (refuse (bucket \<noteq> ST_Bucket target)
       (''backup remote bucket '' @ bucket @ '' does not match storage target bucket '' @ ST_Bucket target))) (\<lambda>_.
     act_then (act_res (bo_get os target key)) (\<lambda>content. writeFile os localPath content)))"

definition downloadArtifact :: "BackupLib \<Rightarrow> BackupOps \<Rightarrow> Artifact \<Rightarrow> unit act" where
  "downloadArtifact k os a =
     act_then (act_res (refuse (TrimSpace (Art_RemoteLocation a) = []) (''local file is missing and '' @ Art_Noun a @ '' has no remote location''))) (\<lambda>_.
     act_then (act_res (refuse (TrimSpace (Art_StorageTargetID a) = []) (Art_Noun a @ '' has no storage target for remote location''))) (\<lambda>_.
     act_then (act_read (GetBackupStorageTarget (Art_StorageTargetID a))) (\<lambda>target.
     DownloadBackupArtifact k os target (Art_RemoteLocation a) (Art_Location a))))"

definition ensureArtifact :: "BackupLib \<Rightarrow> BackupOps \<Rightarrow> string \<Rightarrow> Artifact \<Rightarrow> Artifact act" where
  "ensureArtifact k os dir a =
     act_then (act_res (refuse (TrimSpace (Art_Location a) = [] \<and> TrimSpace (Art_RemoteLocation a) = [])
       (Art_Noun a @ '' does not include an artifact location''))) (\<lambda>_.
     let a = (if TrimSpace (Art_Location a) = [] then a\<lparr>Art_Location := joinPath [dir, filenameFromS3RemoteLocation k (Art_RemoteLocation a)]\<rparr> else a) in
     act_then (act_file os (Art_Location a)) (\<lambda>_.
     act_then (\<lambda>w. if map_of (bw_files w) (Art_Location a) = None then downloadArtifact k os a w else (Inr (), w)) (\<lambda>_.
     act_then (readFile os (Art_Location a)) (\<lambda>content.
     act_then (act_res (refuse (Art_SizeBytes a > 0 \<and> int (length content) \<noteq> Art_SizeBytes a) (Art_Noun a @ '' size mismatch''))) (\<lambda>_.
     act_then (act_res (refuse (TrimSpace (Art_Checksum a) = []) (Art_Noun a @ '' does not include a checksum''))) (\<lambda>_.
     act_then (act_res (refuse (\<not> EqualFold (bo_sha256 os content) (TrimSpace (Art_Checksum a))) (Art_Noun a @ '' checksum mismatch''))) (\<lambda>_.
     act_res (Inr a))))))))"

definition EnsureBackupArtifact :: "BackupLib \<Rightarrow> BackupOps \<Rightarrow> BackupService \<Rightarrow> string \<Rightarrow> Backup \<Rightarrow> Backup act" where
  "EnsureBackupArtifact k os sv ref b =
     act_then (ensureArtifact k os (joinPath [sv_rootDir sv, ref]) (backupArtifact b)) (\<lambda>a. act_res (Inr (b\<lparr>Bk_Location := Art_Location a\<rparr>)))"

definition EnsureLogicalBackupArtifact :: "BackupLib \<Rightarrow> BackupOps \<Rightarrow> BackupService \<Rightarrow> string \<Rightarrow> Backup \<Rightarrow> Backup act" where
  "EnsureLogicalBackupArtifact k os sv ref b =
     act_then (act_res (refuse (Bk_Kind b \<noteq> ''logical'')
       (''backup '' @ Bk_ID b @ '' kind '' @ Bk_Kind b @ '' cannot be used as a logical backup artifact''))) (\<lambda>_.
     EnsureBackupArtifact k os sv ref b)"

definition EnsureWALArchiveArtifact :: "BackupLib \<Rightarrow> BackupOps \<Rightarrow> BackupService \<Rightarrow> WALArchive \<Rightarrow> WALArchive act" where
  "EnsureWALArchiveArtifact k os sv x =
     act_then (ensureArtifact k os (joinPath [sv_rootDir sv, WAL_ProjectRef x, ''wal'']) (walArtifact x))
       (\<lambda>a. act_res (Inr (x\<lparr>WAL_Location := Art_Location a\<rparr>)))"

definition ensurePlatformBackupArtifact :: "BackupLib \<Rightarrow> BackupOps \<Rightarrow> BackupService \<Rightarrow> PlatformBackup \<Rightarrow> PlatformBackup act" where
  "ensurePlatformBackupArtifact k os sv b =
     act_then (ensureArtifact k os (joinPath [sv_rootDir sv, ''_platform'']) (platformArtifact b))
       (\<lambda>a. act_res (Inr (b\<lparr>PB_Location := Art_Location a\<rparr>)))"

section \<open>Restoring\<close>

definition composeFileArgs :: "string list \<Rightarrow> string" where
  "composeFileArgs files = Join '' '' (concat (map (\<lambda>file. [''-f'', shellQuote file]) files))"

definition projectComposeFiles :: "(string, string) gomap \<Rightarrow> string \<Rightarrow> string list" where
  "projectComposeFiles files projectDir =
     (let replicaOverlay = joinPath [projectDir, ''replicas'', ''compose.yaml''] in
      joinPath [projectDir, ''compose.yaml''] # (if map_of files replicaOverlay \<noteq> None then [replicaOverlay] else []))"

definition restoreTokens :: "BackupService \<Rightarrow> string list \<Rightarrow> string \<Rightarrow> string \<Rightarrow> Backup \<Rightarrow> string \<Rightarrow> (string \<times> string) list" where
  "restoreTokens sv composeFiles projectDir ref backup restorePath =
     (''{{compose_file_args}}'', composeFileArgs composeFiles) #
     quoted [(''{{backup_id}}'', Bk_ID backup), (''{{backup_kind}}'', Bk_Kind backup), (''{{backup_path}}'', Bk_Location backup),
       (''{{backup_root}}'', sv_rootDir sv), (''{{compose_file}}'', joinPath [projectDir, ''compose.yaml'']),
       (''{{compose_files}}'', Join [newline] composeFiles), (''{{project_dir}}'', projectDir), (''{{project_ref}}'', ref),
       (''{{ref}}'', ref), (''{{restore_path}}'', restorePath), (''{{restore_root}}'', pathDir restorePath)]"

definition renderRestoreCommand :: "BackupOps \<Rightarrow> BackupService \<Rightarrow> (string, string) gomap \<Rightarrow> string \<Rightarrow> Backup \<Rightarrow> string \<Rightarrow> string" where
  "renderRestoreCommand os sv files ref backup restorePath =
     (let projectDir = joinPath [sv_projectRoot sv, ref] in
      substitute os (restoreTokens sv (projectComposeFiles files projectDir) projectDir ref backup restorePath) (sv_restoreCommand sv))"

text \<open>\<open>time.RFC3339\<close> has whole seconds.\<close>

definition RFC3339 :: "time \<Rightarrow> string" where
  "RFC3339 t = RFC3339Nano (t div second_ns * second_ns)"

definition renderPITRRestoreCommand ::
    "BackupOps \<Rightarrow> BackupService \<Rightarrow> (string, string) gomap \<Rightarrow> Project \<Rightarrow> Backup \<Rightarrow> WALArchive list \<Rightarrow> time \<Rightarrow> string \<Rightarrow> string" where
  "renderPITRRestoreCommand os sv files project backup archives target restorePath =
     (let projectDir = joinPath [sv_projectRoot sv, Proj_Ref project]; latest = last archives in
      substitute os
        ((''{{wal_path_args}}'', Join '' '' (map (\<lambda>a. shellQuote (WAL_Location a)) archives)) #
         restoreTokens sv (projectComposeFiles files projectDir) projectDir (Proj_Ref project) backup restorePath @
         quoted [(''{{backup_remote_location}}'', Bk_RemoteLocation backup), (''{{domain}}'', Spec_Domain (Proj_Spec project)),
           (''{{project_id}}'', Proj_ID project), (''{{recovery_time_target}}'', RFC3339 target),
           (''{{recovery_time_target_unix}}'', sprint_int (unix_seconds target)), (''{{wal_archive_id}}'', WAL_ID latest),
           (''{{wal_archive_ids}}'', Join '','' (map WAL_ID archives)), (''{{wal_path}}'', WAL_Location latest),
           (''{{wal_paths}}'', Join [newline] (map WAL_Location archives)), (''{{wal_segment}}'', WAL_Segment latest),
           (''{{wal_segments}}'', Join '','' (map WAL_Segment archives))])
        (sv_pitrRestoreCommand sv))"

text \<open>The transcript is written even when the command fails.\<close>

definition runRestoreCommand :: "BackupOps \<Rightarrow> string \<Rightarrow> string \<Rightarrow> string \<Rightarrow> unit act" where
  "runRestoreCommand os kind path command =
     act_then (runCommand os command) (\<lambda>(out, failure).
     act_then (if out \<noteq> [] then writeFile os path out else act_res (Inr ())) (\<lambda>_.
     act_res (case failure of
        Some msg \<Rightarrow> Inl (ErrOther (kind @ '' restore command failed: '' @ msg))
      | None \<Rightarrow> refuse (out = []) (kind @ '' restore command produced no transcript''))))"

definition dryRunRestore :: "string \<Rightarrow> Backup \<Rightarrow> time \<Rightarrow> string" where
  "dryRunRestore ref backup now =
     Join [newline] [''-- supadupa logical restore'', ''-- mode: dry-run'', ''-- project_ref: '' @ ref, ''-- backup_id: '' @ Bk_ID backup,
       ''-- backup_kind: '' @ Bk_Kind backup, ''-- backup_location: '' @ Bk_Location backup, ''-- created_at: '' @ RFC3339Nano now, ''--'',
       ''-- Configure SUPADUPA_LOGICAL_RESTORE_COMMAND to execute psql/pg_restore against the target data plane.'',
       ''-- The command output is written to a restore transcript.'', [], ''BEGIN;'',
       ''-- dry-run restore marker for '' @ ref @ '' from '' @ Bk_Location backup, ''ROLLBACK;'', []]"

definition RestoreBackup :: "BackupLib \<Rightarrow> BackupOps \<Rightarrow> BackupService \<Rightarrow> OpCtx \<Rightarrow> string \<Rightarrow> string \<Rightarrow> (Backup \<times> string \<times> string) act" where
  "RestoreBackup k os sv c ref backupID =
     act_then (act_read (GetBackup ref backupID)) (\<lambda>backup.
     act_then (act_res (refuse (Bk_Status backup \<noteq> ''completed'') (''backup '' @ Bk_ID backup @ '' is not completed''))) (\<lambda>_.
     act_then (act_res (refuse (Bk_Kind backup \<noteq> ''logical'')
       (''backup '' @ Bk_ID backup @ '' kind '' @ Bk_Kind backup @ '' cannot be restored by logical restore''))) (\<lambda>_.
     act_then (EnsureLogicalBackupArtifact k os sv ref backup) (\<lambda>backup.
     let dir = joinPath [sv_rootDir sv, ref, ''restores'']; stem = compactTime (ctx_now c) @ ''-restore-'' @ Bk_ID backup in
     act_then (act_file os dir) (\<lambda>_ w.
     if sv_restoreDryRun sv then
       (let path = joinPath [dir, stem @ ''.sql''] in
        act_then (writeFile os path (dryRunRestore ref backup (ctx_now c))) (\<lambda>_. act_res (Inr (backup, path, ''dry-run''))) w)
     else
       (let path = joinPath [dir, stem @ ''.log''] in
        act_then (runRestoreCommand os ''logical'' path (renderRestoreCommand os sv (bw_files w) ref backup path))
          (\<lambda>_. act_res (Inr (backup, path, ''completed''))) w))))))"

fun ensureArchives :: "BackupLib \<Rightarrow> BackupOps \<Rightarrow> BackupService \<Rightarrow> WALArchive list \<Rightarrow> WALArchive list act" where
  "ensureArchives k os sv [] = act_res (Inr [])"
| "ensureArchives k os sv (a # archives) =
     act_then (EnsureWALArchiveArtifact k os sv a) (\<lambda>a.
     act_then (ensureArchives k os sv archives) (\<lambda>archives. act_res (Inr (a # archives))))"

text \<open>What a restore to a point in time is run on: the base backup and the archives, as they are recorded.\<close>

definition selectRestore :: "BackupLib \<Rightarrow> string \<Rightarrow> time \<Rightarrow> BackupStore \<Rightarrow> (Backup \<times> (Backup \<Rightarrow> WALArchive list)) res" where
  "selectRestore k ref target s =
     and_then (ListBackups ref s) (\<lambda>backups.
     and_then (ListWALArchives ref s) (\<lambda>archives.
     let targets = ListBackupStorageTargets k s in
     case latestVerifiedOffHostBackupAtOrBefore k backups targets target ''physical'' of
       None \<Rightarrow> Inl (ErrOther ''no verified physical base backup is available at or before the recovery target'')
     | Some backup \<Rightarrow> Inr (backup, \<lambda>backup. verifiedOffHostWALArchivesInRange k archives targets (Bk_CreatedAt backup) target)))"

definition inWindow :: "time \<Rightarrow> (time \<times> time) option \<Rightarrow> unit res" where
  "inWindow target window =
     (case window of
        None \<Rightarrow> Inl (ErrOther ''restore-to-time recovery window is unavailable'')
      | Some (windowStart, windowEnd) \<Rightarrow>
          refuse (unix_seconds target < unix_seconds windowStart \<or> unix_seconds target > unix_seconds windowEnd)
            ''recovery_time_target_unix is outside the available recovery window'')"

definition RestoreToTime :: "BackupLib \<Rightarrow> BackupOps \<Rightarrow> BackupService \<Rightarrow> OpCtx \<Rightarrow> string \<Rightarrow> time \<Rightarrow> (string \<times> Backup \<times> WALArchive list) act" where
  "RestoreToTime k os sv c ref target =
     act_then (act_res (refuse (IsZero target) ''recovery_time_target_unix is required'')) (\<lambda>_.
     act_then (act_read (ProjectRecoverabilityWithOptions k c ref (TrimSpace (sv_pitrRestoreCommand sv) \<noteq> []))) (\<lambda>st.
     act_then (act_res (refuse (\<not> RS_RestoreToTimeAvailable st) (''restore-to-time is unavailable: '' @ RS_RestoreToTimeUnavailable st))) (\<lambda>_.
     act_then (act_res (inWindow target (RS_RecoveryWindow st))) (\<lambda>_.
     act_then (act_read (\<lambda>s. lookup_or (ErrNotFound (''project '' @ ref)) (s_projects (bs_main s)) ref)) (\<lambda>project.
     act_then (act_read (selectRestore k ref target)) (\<lambda>(backup, archivesFrom).
     act_then (EnsureBackupArtifact k os sv ref backup) (\<lambda>backup.
     let walRange = archivesFrom backup in
     act_then (act_res (refuse (walRange = []) ''no verified WAL archive range is available for PITR restore'')) (\<lambda>_.
     act_then (ensureArchives k os sv walRange) (\<lambda>walRange.
     let dir = joinPath [sv_rootDir sv, ref, ''restores''];
         path = joinPath [dir, compactTime (ctx_now c) @ ''-pitr-restore-'' @ sprint_int (unix_seconds target) @ ''.log''] in
     act_then (act_file os dir) (\<lambda>_ w.
     act_then (runRestoreCommand os ''PITR'' path (renderPITRRestoreCommand os sv (bw_files w) project backup walRange target path))
       (\<lambda>_. act_res (Inr (path, backup, walRange))) w))))))))))"

end
