(* ===== verification/Backup_Steps.thy ===== *)
theory Backup_Steps
  imports Recovery
begin

text \<open>
  The backup part of the store as a state machine. A step is a successful call: of an operation on backups, targets, policies and
  archives, of one that creates or deletes a project, or of any other operation on the main part, which leaves the backup policies
  alone. In every store that can be reached the storage target of a policy exists and at most one target is the default.
\<close>

inductive backup_step :: "BackupStore \<Rightarrow> BackupStore \<Rightarrow> bool" where
  Bstep_backup: "CreateBackup c input s = Inr (s', r1) \<Longrightarrow> backup_step s s'"
| Bstep_platform: "CreatePlatformBackup c pinput s = Inr (s', r2) \<Longrightarrow> backup_step s s'"
| Bstep_create_target: "CreateBackupStorageTarget k c tinput s = Inr (s', r3) \<Longrightarrow> ctx_newID c \<noteq> [] \<Longrightarrow> TrimSpace (ctx_newID c) = ctx_newID c \<Longrightarrow>
     map_of (bs_targets s) (ctx_newID c) = None \<Longrightarrow> backup_step s s'"
| Bstep_update_target: "UpdateBackupStorageTarget k c i tinput s = Inr (s', r4) \<Longrightarrow> backup_step s s'"
| Bstep_test: "UpdateBackupStorageTargetTestResult k c i t status message s = Inr (s', r5) \<Longrightarrow> backup_step s s'"
| Bstep_delete_target: "DeleteBackupStorageTarget c i s = Inr s' \<Longrightarrow> backup_step s s'"
| Bstep_policy: "UpdateBackupPolicy c ref bpinput s = Inr (s', r6) \<Longrightarrow> backup_step s s'"
| Bstep_run: "MarkBackupPolicyRun c ref t s = Inr (s', r7) \<Longrightarrow> backup_step s s'"
| Bstep_pitr: "UpdatePITRPolicy k c ref pitrinput s = Inr (s', r8) \<Longrightarrow> backup_step s s'"
| Bstep_archive: "CreateWALArchive c winput s = Inr (s', r9) \<Longrightarrow> backup_step s s'"
| Bstep_project: "CreateProject c defaults req (bs_main s) = Inr (m, r10) \<Longrightarrow> backup_step s (s\<lparr>bs_main := m\<rparr>)"
| Bstep_branch: "CreateProjectBranch c ref branchinput (bs_main s) = Inr (m, r11) \<Longrightarrow> backup_step s (s\<lparr>bs_main := m\<rparr>)"
| Bstep_delete_project: "DeleteProject ref (bs_main s) = Inr (m, r12) \<Longrightarrow> backup_step s (s\<lparr>bs_main := m\<rparr>)"
| Bstep_delete_branch: "DeleteProjectBranch src ref (bs_main s) = Inr (m, r13) \<Longrightarrow> backup_step s (s\<lparr>bs_main := m\<rparr>)"
| Bstep_other: "s_policies m = s_policies (bs_main s) \<Longrightarrow> backup_step s (s\<lparr>bs_main := m\<rparr>)"

inductive backup_reachable :: "BackupStore \<Rightarrow> bool" where
  Breach_init: "backup_reachable (NewBackupStore defaults)"
| Breach_step: "backup_reachable s \<Longrightarrow> backup_step s s' \<Longrightarrow> backup_reachable s'"

section \<open>The invariant\<close>

definition target_ok :: "string \<Rightarrow> BackupStorageTarget \<Rightarrow> bool" where
  "target_ok i t \<longleftrightarrow> ST_ID t = i \<and> i \<noteq> [] \<and> TrimSpace i = i \<and> ST_SecretConfigured t \<and> ST_SecretAccessKey t \<noteq> []"

definition targets_ok :: "(string, BackupStorageTarget) gomap \<Rightarrow> bool" where
  "targets_ok ts \<longleftrightarrow> gomap_ok ts \<and> (\<forall>i t. map_of ts i = Some t \<longrightarrow> target_ok i t) \<and>
     (\<forall>i t j u. map_of ts i = Some t \<longrightarrow> map_of ts j = Some u \<longrightarrow> ST_Default t \<longrightarrow> ST_Default u \<longrightarrow> i = j)"

definition policies_ok :: "(string, BackupPolicy) gomap \<Rightarrow> (string, BackupStorageTarget) gomap \<Rightarrow> bool" where
  "policies_ok ps ts \<longleftrightarrow> (\<forall>ref p. map_of ps ref = Some p \<longrightarrow> BP_StorageTargetID p \<noteq> [] \<longrightarrow> map_of ts (BP_StorageTargetID p) \<noteq> None)"

definition backups_ok :: "BackupStore \<Rightarrow> bool" where
  "backups_ok s \<longleftrightarrow> targets_ok (bs_targets s) \<and> policies_ok (s_policies (bs_main s)) (bs_targets s)"

named_theorems backup_intros \<open>what the kinds of steps keep\<close>

lemma policies_ok_update [backup_intros]:
  "policies_ok ps ts \<Longrightarrow> BP_StorageTargetID p = [] \<or> map_of ts (BP_StorageTargetID p) \<noteq> None \<Longrightarrow> policies_ok (AList.update ref p ps) ts"
  by (auto simp: policies_ok_def)

lemma policies_ok_delete [backup_intros]: "policies_ok ps ts \<Longrightarrow> policies_ok (AList.delete ref ps) ts"
  by (auto simp: policies_ok_def)

lemma policies_ok_targets: "policies_ok ps ts \<Longrightarrow> (\<And>i. map_of ts i \<noteq> None \<Longrightarrow> map_of ts' i \<noteq> None) \<Longrightarrow> policies_ok ps ts'"
  by (auto simp: policies_ok_def)

lemma targets_ok_replace:
  assumes "targets_ok ts" and "map_of ts i = Some t" and "target_ok i u" and "ST_Default u = ST_Default t"
  shows "targets_ok (AList.update i u ts)"
  using assms by (auto simp: targets_ok_def split: if_splits)

lemma storeTarget_ok:
  assumes ok: "targets_ok (bs_targets s)" and new: "target_ok i t" and except: "exceptID = i \<or> exceptID = [] \<and> map_of (bs_targets s) i = None"
  shows "targets_ok (bs_targets (storeTarget c exceptID i t s))"
proof -
  define clear where "clear = (\<lambda>j (x :: BackupStorageTarget). if j = exceptID \<or> \<not> ST_Default x then x
    else x\<lparr>ST_Default := False, ST_UpdatedAt := ctx_now c\<rparr>)"
  have keep: "target_ok j x \<Longrightarrow> target_ok j (clear j x)" for j x by (simp add: clear_def target_ok_def)
  have off: "j \<noteq> i \<Longrightarrow> target_ok j x \<Longrightarrow> \<not> ST_Default (clear j x)" for j x
    using except by (auto simp: clear_def target_ok_def)
  show ?thesis
  proof (cases "ST_Default t")
    case True
    then have ts: "bs_targets (storeTarget c exceptID i t s) = AList.update i t (AList.map_ran clear (bs_targets s))"
      by (simp add: storeTarget_def clearDefaultBackupStorageTargetLocked_def clear_def [abs_def])
    show ?thesis
      using ok new keep off unfolding ts targets_ok_def by (auto split: if_splits)
  next
    case False
    then have ts: "bs_targets (storeTarget c exceptID i t s) = AList.update i t (bs_targets s)" by (simp add: storeTarget_def)
    show ?thesis using ok new False unfolding ts targets_ok_def by (auto split: if_splits)
  qed
qed

lemma storeTarget_dom: "map_of (bs_targets s) j \<noteq> None \<Longrightarrow> map_of (bs_targets (storeTarget c exceptID i t s)) j \<noteq> None"
  by (auto simp: storeTarget_def clearDefaultBackupStorageTargetLocked_def)

lemma storeTarget_main [simp]: "bs_main (storeTarget c exceptID i t s) = bs_main s"
  by (simp add: storeTarget_def clearDefaultBackupStorageTargetLocked_def)

lemma storeTarget_backups_ok:
  assumes "backups_ok s" and "target_ok i t" and "exceptID = i \<or> exceptID = [] \<and> map_of (bs_targets s) i = None"
  shows "backups_ok (storeTarget c exceptID i t s)"
  using assms storeTarget_ok [of s i t exceptID c] policies_ok_targets storeTarget_dom unfolding backups_ok_def by simp blast

lemma setPolicy_backups_ok:
  "backups_ok s \<Longrightarrow> BP_StorageTargetID p = [] \<or> map_of (bs_targets s) (BP_StorageTargetID p) \<noteq> None \<Longrightarrow> backups_ok (setPolicy ref p s)"
  by (simp add: backups_ok_def setPolicy_def policies_ok_update)

lemma targetKnown_ok: "targetKnown i s = Inr u \<longleftrightarrow> i = [] \<or> map_of (bs_targets s) i \<noteq> None"
  by (auto simp: targetKnown_def and_then_eq_Inr_iff)

lemma cleanTargetID_ok: "cleanTargetID i = Inr j \<longleftrightarrow> j = TrimSpace i \<and> j \<noteq> []"
  by (auto simp: cleanTargetID_def Let_def and_then_eq_Inr_iff refuse_def)

section \<open>The steps keep it\<close>

lemma create_target_ok:
  assumes "CreateBackupStorageTarget k c input s = Inr (s', r)" and "backups_ok s" and "ctx_newID c \<noteq> []" and "TrimSpace (ctx_newID c) = ctx_newID c"
    and "map_of (bs_targets s) (ctx_newID c) = None"
  shows "backups_ok s'"
proof -
  from assms(1) obtain t where t: "normalizeBackupStorageTargetInput k (ctx_now c) [] None input = Inr t"
    and s': "s' = storeTarget c [] (ctx_newID c) (t\<lparr>ST_ID := ctx_newID c, ST_CreatedAt := ctx_now c, ST_UpdatedAt := ctx_now c\<rparr>) s"
    by (auto simp: CreateBackupStorageTarget_def and_then_eq_Inr_iff Let_def)
  show ?thesis unfolding s'
    by (rule storeTarget_backups_ok [OF assms(2)]) (use normalize_target [OF t] assms in \<open>simp_all add: target_ok_def\<close>)
qed

lemma update_target_ok:
  assumes "UpdateBackupStorageTarget k c i input s = Inr (s', r)" and "backups_ok s"
  shows "backups_ok s'"
proof -
  from assms(1) obtain j e t where j: "j = TrimSpace i" "j \<noteq> []" and e: "map_of (bs_targets s) j = Some e"
    and t: "normalizeBackupStorageTargetInput k (ctx_now c) j (Some e) input = Inr t" and s': "s' = storeTarget c j j t s"
    by (auto simp: UpdateBackupStorageTarget_def and_then_eq_Inr_iff cleanTargetID_ok storageTargetAt_def)
  show ?thesis unfolding s'
    by (rule storeTarget_backups_ok [OF assms(2)]) (use normalize_target [OF t] j in \<open>simp_all add: target_ok_def\<close>)
qed

lemma test_result_ok:
  assumes "UpdateBackupStorageTargetTestResult k c i t status message s = Inr (s', r)" and "backups_ok s"
  shows "backups_ok s'"
proof -
  from assms(1) obtain j e u where e: "map_of (bs_targets s) j = Some e" and s': "s' = s\<lparr>bs_targets := AList.update j u (bs_targets s)\<rparr>"
    and u: "ST_ID u = ST_ID e" "ST_Default u = ST_Default e" "ST_SecretConfigured u = ST_SecretConfigured e" "ST_SecretAccessKey u = ST_SecretAccessKey e"
    by (auto simp: UpdateBackupStorageTargetTestResult_def and_then_eq_Inr_iff cleanTargetID_ok storageTargetAt_def Let_def)
  have "target_ok j e" using assms(2) e by (auto simp: backups_ok_def targets_ok_def)
  with u have "target_ok j u" by (simp add: target_ok_def)
  with assms(2) targets_ok_replace [OF _ e _ u(2)] show ?thesis
    by (auto simp: backups_ok_def s' intro: policies_ok_targets)
qed

lemma delete_target_ok:
  assumes "DeleteBackupStorageTarget c i s = Inr s'" and "backups_ok s"
  shows "backups_ok s'"
proof -
  define free where "free = (\<lambda>(ref :: string) (policy :: BackupPolicy). if BP_StorageTargetID policy = TrimSpace i
    then policy\<lparr>BP_StorageTargetID := [], BP_UpdatedAt := ctx_now c\<rparr> else policy)"
  have s': "bs_targets s' = AList.delete (TrimSpace i) (bs_targets s)" "s_policies (bs_main s') = AList.map_ran free (s_policies (bs_main s))"
    using assms(1) by (auto simp: DeleteBackupStorageTarget_def and_then_eq_Inr_iff cleanTargetID_ok free_def [abs_def])
  have "policies_ok (s_policies (bs_main s')) (bs_targets s')"
    unfolding policies_ok_def s'
  proof (intro allI impI)
    fix ref p
    assume "map_of (AList.map_ran free (s_policies (bs_main s))) ref = Some p" and some: "BP_StorageTargetID p \<noteq> []"
    then obtain q where q: "map_of (s_policies (bs_main s)) ref = Some q" "p = free ref q" by auto
    with some have "p = q" "BP_StorageTargetID q \<noteq> TrimSpace i" by (auto simp: free_def split: if_splits)
    with q some assms(2) show "map_of (AList.delete (TrimSpace i) (bs_targets s)) (BP_StorageTargetID p) \<noteq> None"
      by (auto simp: backups_ok_def policies_ok_def)
  qed
  moreover have "targets_ok (bs_targets s')" using assms(2) by (auto simp: s' backups_ok_def targets_ok_def split: if_splits)
  ultimately show ?thesis by (simp add: backups_ok_def)
qed

lemma mark_run_ok:
  assumes "MarkBackupPolicyRun c ref t s = Inr (s', p)" and "backups_ok s"
  shows "backups_ok s'"
proof -
  have s': "s' = setPolicy ref p s" and "BP_StorageTargetID p = [] \<or>
      (\<exists>q. map_of (s_policies (bs_main s)) ref = Some q \<and> BP_StorageTargetID p = BP_StorageTargetID q)"
    using assms(1) by (auto simp: MarkBackupPolicyRun_def and_then_eq_Inr_iff Let_def defaultBackupPolicy_def
        defaultBackupPolicyForSchedule_def split: option.splits if_splits)
  then have "BP_StorageTargetID p = [] \<or> map_of (bs_targets s) (BP_StorageTargetID p) \<noteq> None"
    using assms(2) unfolding backups_ok_def policies_ok_def by metis
  then show ?thesis unfolding s' by (rule setPolicy_backups_ok [OF assms(2)])
qed

lemma update_policy_ok:
  assumes "UpdateBackupPolicy c ref input s = Inr (s', p)" and "backups_ok s"
  shows "backups_ok s'"
proof -
  have "s' = setPolicy ref p s" and "BP_StorageTargetID p = [] \<or> map_of (bs_targets s) (BP_StorageTargetID p) \<noteq> None"
    using assms(1) by (auto simp: UpdateBackupPolicy_def and_then_eq_Inr_iff Let_def targetKnown_ok)
  then show ?thesis using setPolicy_backups_ok [OF assms(2)] by simp
qed

text \<open>Operations that create or delete a project put in a policy without a target, or take one out.\<close>

definition policies_shrink :: "MemoryStore \<Rightarrow> MemoryStore \<Rightarrow> bool" where
  "policies_shrink s s' \<longleftrightarrow> (\<forall>ref p. map_of (s_policies s') ref = Some p \<longrightarrow> BP_StorageTargetID p = [] \<or> map_of (s_policies s) ref = Some p)"

lemma policies_shrink_ok: "policies_shrink (bs_main s) m \<Longrightarrow> backups_ok s \<Longrightarrow> backups_ok (s\<lparr>bs_main := m\<rparr>)"
  by (fastforce simp: policies_shrink_def backups_ok_def policies_ok_def)

lemma new_policy_target [simp]: "BP_StorageTargetID (defaultBackupPolicyForSchedule c ref schedule) = []" "BP_StorageTargetID (defaultBackupPolicy c ref) = []"
  by (simp_all add: defaultBackupPolicyForSchedule_def defaultBackupPolicy_def Let_def)

lemma bookHost_policies: "bookHost h r s = Inr s' \<Longrightarrow> s_policies s' = s_policies s"
  by (auto simp: bookHost_def and_then_eq_Inr_iff Let_def split: if_splits)

lemma CreateProject_policies:
  assumes "CreateProject c defaults request s = Inr (s', p)"
  shows "policies_shrink s s'"
proof -
  from assms have "\<exists>h r s1. bookHost h r s = Inr s1 \<and> s' = storeProject c p s1"
    unfolding CreateProject_def Let_def by (elim and_then_InrE) blast
  then obtain h r s1 where s1: "bookHost h r s = Inr s1" and s': "s' = storeProject c p s1" by blast
  have "\<exists>schedule. s_policies s' = AList.update (Proj_Ref p) (defaultBackupPolicyForSchedule c (Proj_Ref p) schedule) (s_policies s1)"
    unfolding s' storeProject_def addOrioleConfig_def Let_def by auto
  with bookHost_policies [OF s1] show ?thesis by (auto simp: policies_shrink_def split: if_splits)
qed

lemma CreateProjectBranch_policies:
  assumes "CreateProjectBranch c sourceRef input s = Inr (s', b, p)"
  shows "policies_shrink s s'"
proof -
  from assms have "\<exists>h r s1 ps bs se pi ref. bookHost h r s = Inr s1 \<and> s' = s1\<lparr>s_projects := ps, s_branches := bs, s_secrets := se,
      s_policies := AList.update ref (defaultBackupPolicy c ref) (s_policies s1), s_pitrPolicies := pi\<rparr>"
    unfolding CreateProjectBranch_def Let_def by (elim and_then_InrE) blast
  then obtain h r s1 ref where "bookHost h r s = Inr s1" "s_policies s' = AList.update ref (defaultBackupPolicy c ref) (s_policies s1)" by auto
  with bookHost_policies [of h r s s1] show ?thesis by (auto simp: policies_shrink_def split: if_splits)
qed

lemma releaseHost_policies [simp]: "s_policies (releaseHost h r s) = s_policies s"
  by (auto simp: releaseHost_def Let_def split: option.splits)

lemma releaseReplicas_policies [simp]: "s_policies (releaseReplicas rs s) = s_policies s"
  unfolding releaseReplicas_def by (induction rs arbitrary: s) simp_all

lemma deleteProjectLocked_policies:
  assumes "deleteProjectLocked ref s = Inr (s', u)"
  shows "policies_shrink s s'"
  using assms by (auto simp: deleteProjectLocked_def and_then_eq_Inr_iff Let_def cleanupRegisteredProjectChildrenLocked_def policies_shrink_def split: if_splits)

lemma backup_step_ok:
  assumes "backup_step s s'" and "backups_ok s"
  shows "backups_ok s'"
  using assms
proof (induction rule: backup_step.induct)
  case (Bstep_backup c input s s' r1)
  then show ?case by (auto simp: CreateBackup_def and_then_eq_Inr_iff Let_def backups_ok_def)
next
  case (Bstep_platform c pinput s s' r2)
  then show ?case by (auto simp: CreatePlatformBackup_def and_then_eq_Inr_iff Let_def backups_ok_def)
next
  case (Bstep_create_target k c tinput s s' r3)
  then show ?case by - (rule create_target_ok, assumption+)
next
  case (Bstep_update_target k c i tinput s s' r4)
  then show ?case by - (rule update_target_ok, assumption+)
next
  case (Bstep_test k c i t status message s s' r5)
  then show ?case by - (rule test_result_ok, assumption+)
next
  case (Bstep_delete_target c i s s')
  then show ?case by - (rule delete_target_ok, assumption+)
next
  case (Bstep_policy c ref bpinput s s' r6)
  then show ?case by - (rule update_policy_ok, assumption+)
next
  case (Bstep_run c ref t s s' r7)
  then show ?case by - (rule mark_run_ok, assumption+)
next
  case (Bstep_pitr k c ref pitrinput s s' r8)
  then show ?case by (auto simp: UpdatePITRPolicy_def and_then_eq_Inr_iff Let_def backups_ok_def setPITRPolicy_def)
next
  case (Bstep_archive c winput s s' r9)
  then show ?case by (auto simp: CreateWALArchive_def and_then_eq_Inr_iff Let_def backups_ok_def setPITRPolicy_def)
next
  case (Bstep_project c defaults req s m r10)
  then show ?case using CreateProject_policies policies_shrink_ok by blast
next
  case (Bstep_branch c ref branchinput s m r11)
  then show ?case using CreateProjectBranch_policies policies_shrink_ok by (cases r11) blast
next
  case (Bstep_delete_project ref s m r12)
  then show ?case using deleteProjectLocked_policies policies_shrink_ok unfolding DeleteProject_def by blast
next
  case (Bstep_delete_branch src ref s m r13)
  then have "\<exists>ref'. deleteProjectLocked ref' (bs_main s) = Inr (m, r13)"
    unfolding DeleteProjectBranch_def Let_def by (elim and_then_InrE) blast
  with Bstep_delete_branch.prems show ?case using deleteProjectLocked_policies policies_shrink_ok by blast
next
  case (Bstep_other m s)
  then show ?case by (simp add: backups_ok_def)
qed

lemma backup_reachable_ok: "backup_reachable s \<Longrightarrow> backups_ok s"
proof (induction rule: backup_reachable.induct)
  case (Breach_init defaults)
  then show ?case by (simp add: backups_ok_def targets_ok_def policies_ok_def NewBackupStore_def NewMemoryStore_def)
next
  case (Breach_step s s')
  then show ?case by - (rule backup_step_ok, assumption+)
qed

section \<open>Where the backups of a project go\<close>

lemma redact_fields [simp]: "ST_ID (redactBackupStorageTarget k t) = ST_ID t" "ST_Default (redactBackupStorageTarget k t) = ST_Default t"
  "ST_SecretAccessKey (redactBackupStorageTarget k t) = []"
  by (simp_all add: redactBackupStorageTarget_def Let_def split: prod.splits)

lemma listed_targets: "set (ListBackupStorageTargets k s) = redactBackupStorageTarget k ` snd ` set (bs_targets s)"
  by (force simp: ListBackupStorageTargets_def slice.set_srt image_iff)

lemma default_target_found:
  assumes "backups_ok s"
  shows "\<exists>r. resolveDefaultBackupTarget k s = Inr r \<and> (\<forall>t. r = Some t \<longleftrightarrow> (\<exists>i. map_of (bs_targets s) i = Some t \<and> ST_Default t))"
proof (cases "find ST_Default (ListBackupStorageTargets k s)")
  case None
  have ok: "gomap_ok (bs_targets s)" using assms by (simp add: backups_ok_def targets_ok_def)
  from None have none: "\<not> (\<exists>x \<in> set (ListBackupStorageTargets k s). ST_Default x)" by (auto simp: find_None_iff)
  have "\<not> (\<exists>i t. map_of (bs_targets s) i = Some t \<and> ST_Default t)"
    using none unfolding listed_targets by (force simp: gomap_mem_iff [OF ok, symmetric])
  with None show ?thesis by (auto simp: resolveDefaultBackupTarget_def)
next
  case (Some x)
  have ok: "gomap_ok (bs_targets s)" and ts: "targets_ok (bs_targets s)" using assms by (simp_all add: backups_ok_def targets_ok_def)
  from Some have "x \<in> set (ListBackupStorageTargets k s)" "ST_Default x" by (auto simp: find_Some_iff)
  then obtain i t where t: "map_of (bs_targets s) i = Some t" "x = redactBackupStorageTarget k t" "ST_Default t"
    unfolding listed_targets by (auto simp: gomap_mem_iff [OF ok])
  then have id: "target_ok i t" using ts by (auto simp: targets_ok_def)
  have only: "(\<exists>j. map_of (bs_targets s) j = Some u \<and> ST_Default u) \<longleftrightarrow> u = t" for u
    using t ts unfolding targets_ok_def by (metis option.inject)
  have "GetBackupStorageTarget (ST_ID x) s = Inr t"
    using t id by (auto simp: GetBackupStorageTarget_def target_ok_def and_then_eq_Inr_iff cleanTargetID_ok storageTargetAt_def)
  with Some show ?thesis unfolding only by (auto simp: resolveDefaultBackupTarget_def)
qed

text \<open>C36. In every store that can be reached the backups of a project have one place to go: looking up the storage target never
  fails, a target that the policy of the project names is found, and otherwise it is the only default target, if there is one.\<close>

theorem backup_target_resolves:
  assumes "backup_reachable s" and "GetBackupPolicy c ref s = Inr policy"
  shows "\<exists>r. resolveBackupTarget k c ref s = Inr r \<and>
    (if TrimSpace (BP_StorageTargetID policy) = [] then \<forall>t. r = Some t \<longleftrightarrow> (\<exists>i. map_of (bs_targets s) i = Some t \<and> ST_Default t)
     else \<exists>t. r = Some t \<and> ST_ID t = TrimSpace (BP_StorageTargetID policy) \<and> ST_SecretConfigured t)"
proof (cases "TrimSpace (BP_StorageTargetID policy) = []")
  case True
  then show ?thesis
    using default_target_found [OF backup_reachable_ok [OF assms(1)], of k] assms(2) by (simp add: resolveBackupTarget_def)
next
  case False
  have ok: "backups_ok s" by (rule backup_reachable_ok [OF assms(1)])
  from False have "BP_StorageTargetID policy \<noteq> []" by auto
  then have "\<exists>ref. map_of (s_policies (bs_main s)) ref = Some policy"
    using assms(2) by (auto simp: GetBackupPolicy_def and_then_eq_Inr_iff split: option.splits)
  with ok \<open>BP_StorageTargetID policy \<noteq> []\<close> obtain t where t: "map_of (bs_targets s) (BP_StorageTargetID policy) = Some t"
    unfolding backups_ok_def policies_ok_def by blast
  with ok have "target_ok (BP_StorageTargetID policy) t" by (auto simp: backups_ok_def targets_ok_def)
  with False t assms(2) show ?thesis
    by (auto simp: resolveBackupTarget_def GetBackupStorageTarget_def cleanTargetID_def storageTargetAt_def refuse_def check_def target_ok_def
        lookup_or_def Let_def)
qed

end
