(* ===== verification/Recovery_Guarantees.thy ===== *)
theory Recovery_Guarantees
  imports Backup_Steps
begin

text \<open>
  What the backup service guarantees: schedules move forward, a pass takes each due backup once, the advertised recovery window
  can be served, a restore runs on intact artifacts that fit the target time, and values reach the shell unchanged.
\<close>

section \<open>Schedules\<close>

text \<open>The next run of a backup lies in the future, at most an hour ahead for an hourly schedule and at most a day ahead
  otherwise, at the full hour or at two o'clock UTC.\<close>

theorem next_run_in_time:
  "t < nextBackupRun t schedule \<and> nextBackupRun t schedule \<le> t + (if schedule = ''hourly'' then hour_ns else day_ns) \<and>
   nextBackupRun t schedule mod (if schedule = ''hourly'' then hour_ns else day_ns) = (if schedule = ''hourly'' then 0 else 2 * hour_ns)"
proof -
  have hour: "hour_ns = 3600000000000" and day: "day_ns = 86400000000000"
    by (simp_all add: day_ns_def hour_ns_def minute_ns_def second_ns_def)
  have mod_h: "x mod hour_ns = x - hour_ns * (x div hour_ns)" "0 \<le> x mod hour_ns" "x mod hour_ns < hour_ns" for x
    by (simp_all add: minus_mult_div_eq_mod hour)
  have mod_d: "x mod day_ns = x - day_ns * (x div day_ns)" "0 \<le> x mod day_ns" "x mod day_ns < day_ns" for x
    by (simp_all add: minus_mult_div_eq_mod day)
  show ?thesis
  proof (cases "schedule = ''hourly''")
    case True
    have "(t + hour_ns) div hour_ns = t div hour_ns + 1" by (simp add: hour)
    then have "nextBackupRun t schedule = hour_ns * (t div hour_ns) + hour_ns" using True by (simp add: nextBackupRun_def algebra_simps)
    with True mod_h [of t] show ?thesis by (simp add: hour)
  next
    case False
    have at: "(day_ns * d + 2 * hour_ns) mod day_ns = 2 * hour_ns" for d by (simp add: day hour)
    have "nextBackupRun t schedule = day_ns * (t div day_ns) + 2 * hour_ns \<and> t < nextBackupRun t schedule \<or>
        nextBackupRun t schedule = day_ns * (t div day_ns + 1) + 2 * hour_ns \<and> day_ns * (t div day_ns) + 2 * hour_ns \<le> t"
      using False by (auto simp: nextBackupRun_def Let_def algebra_simps)
    with False mod_d [of t] at [of "t div day_ns"] at [of "t div day_ns + 1"] show ?thesis by (auto simp: algebra_simps) (simp_all add: day hour)
  qed
qed

lemma next_run_later: "t < nextBackupRun t schedule"
  by (cases "schedule = ''hourly''") (auto simp: nextBackupRun_def Let_def hour_ns_def day_ns_def minute_ns_def second_ns_def)

section \<open>Actions that leave the main part of the store alone\<close>

definition keeps_main :: "'a act \<Rightarrow> bool" where
  "keeps_main m \<longleftrightarrow> (\<forall>w. bs_main (bw_store (snd (m w))) = bs_main (bw_store w))"

named_theorems keeps \<open>actions that leave the main part alone\<close>

lemma keeps_then [keeps]: "keeps_main m \<Longrightarrow> (\<And>x. keeps_main (f x)) \<Longrightarrow> keeps_main (act_then m f)"
  unfolding keeps_main_def act_then_def by (auto split: prod.split sum.split) (metis snd_conv)+

lemma keeps_basic [keeps]:
  "keeps_main (act_res r)" "keeps_main (act_read g)" "keeps_main (act_file os path)" "keeps_main (runCommand os command)"
  "keeps_main (\<lambda>w. (h w, w\<lparr>bw_files := fs w\<rparr>))" "keeps_main (\<lambda>w. (h w, w))"
  by (simp_all add: keeps_main_def act_res_def act_read_def act_file_def runCommand_def split: prod.split)

lemma keeps_files [keeps]: "keeps_main (writeFile os path content)" "keeps_main (readFile os path)" "keeps_main (renameFile os path path')"
  unfolding writeFile_def readFile_def renameFile_def by (intro keeps)+

lemma keeps_if [keeps]: "keeps_main m \<Longrightarrow> keeps_main m' \<Longrightarrow> keeps_main (if b then m else m')"
  by simp

lemma keeps_upload [keeps]: "keeps_main (uploadTo os target keyOf path)"
  unfolding uploadTo_def Let_def by (cases target) (auto intro!: keeps)

lemma keeps_dump [keeps]: "keeps_main (dumpTo os kind command path)"
  unfolding dumpTo_def by (rule keeps) (auto intro!: keeps split: prod.split option.split)

lemma keeps_record [keeps]: "keeps_main (recordBackup os c c' project kind path content remote)"
  unfolding recordBackup_def keeps_main_def act_store_def
  by (auto simp: CreateBackup_def Let_def and_then_eq_Inr_iff split: sum.split)

lemma keeps_trigger [keeps]: "keeps_main (TriggerBackupForKind k os sv c c' project kind)"
  unfolding TriggerBackupForKind_def TriggerLogicalBackup_def TriggerPhysicalBackup_def Let_def by (intro keeps)

lemma act_thenE:
  assumes "act_then m f w = (Inr y, w')"
  obtains x w1 where "m w = (Inr x, w1)" and "f x w1 = (Inr y, w')"
  using assms by (auto simp: act_then_def split: prod.splits sum.splits)

section \<open>A pass over the due backups\<close>

definition marked :: "time \<Rightarrow> BackupStore \<Rightarrow> string \<Rightarrow> bool" where
  "marked now s ref \<longleftrightarrow>
     (\<exists>p. map_of (s_policies (bs_main s)) ref = Some p \<and> BP_LastRunAt p = Some now \<and> \<not> backupDue now p)"

lemma MarkBackupPolicyRun_marked:
  assumes "MarkBackupPolicyRun c ref now s = Inr (s', p)"
  shows "marked now s' ref" and "marked now s r \<Longrightarrow> marked now s' r"
  using assms next_run_later by (auto simp: MarkBackupPolicyRun_def and_then_eq_Inr_iff Let_def marked_def setPolicy_def backupDue_def)

lemma trigger_ref:
  assumes "TriggerBackupForKind k os sv c c' project kind w = (Inr b, w')"
  shows "Bk_ProjectRef b = Proj_Ref project"
proof -
  have recorded: "Bk_ProjectRef b = Proj_Ref project" if "recordBackup os c c' project kind path content remote w1 = (Inr b, w')" for kind path content remote w1
    using that by (auto simp: recordBackup_def act_store_def CreateBackup_def Let_def and_then_eq_Inr_iff newBackup_def split: sum.splits)
  show ?thesis
    using assms unfolding TriggerBackupForKind_def TriggerLogicalBackup_def TriggerPhysicalBackup_def Let_def
    by (auto split: if_splits elim!: act_thenE dest!: recorded simp: act_res_def)
qed

lemma runDueLoop_marked:
  assumes "runDueLoop k os sv cs now projects completed w = ((backups, e), w')"
  shows "(\<forall>b \<in> set backups. b \<in> set completed \<or> marked now (bw_store w') (Bk_ProjectRef b)) \<and>
    (\<forall>r. marked now (bw_store w) r \<longrightarrow> marked now (bw_store w') r)"
  using assms
proof (induction projects arbitrary: w completed)
  case Nil
  then show ?case by simp
next
  case (Cons project projects)
  define ref where "ref = Proj_Ref project"
  define c c' where "c = fst (cs ref)" and "c' = snd (cs ref)"
  note loop = Cons.prems [unfolded runDueLoop.simps Let_def, folded ref_def, folded c_def c'_def]
  show ?case
  proof (cases "GetBackupPolicy c ref (bw_store w)")
    case (Inl x)
    with loop show ?thesis by simp
  next
    case policy: (Inr policy)
    show ?thesis
    proof (cases "backupDue now policy")
      case False
      with loop policy Cons.IH [of completed w] show ?thesis by simp
    next
      case due: True
      obtain r w1 where trigger: "TriggerBackupForKind k os sv c c' project (BP_Kind policy) w = (r, w1)" by fastforce
      have main: "bs_main (bw_store w1) = bs_main (bw_store w)"
        using keeps_trigger [of k os sv c c' project "BP_Kind policy"] trigger unfolding keeps_main_def by (metis snd_conv)
      then have same: "marked now (bw_store w1) = marked now (bw_store w)" by (simp add: marked_def fun_eq_iff)
      show ?thesis
      proof (cases r)
        case (Inl x)
        with loop policy due trigger Cons.IH [of completed w1] show ?thesis by (simp add: same)
      next
        case (Inr backup)
        have "\<exists>p. map_of (s_projects (bs_main (bw_store w))) ref = Some p"
          using policy by (auto simp: GetBackupPolicy_def and_then_eq_Inr_iff projectKnown_def)
        then obtain s p where mark: "MarkBackupPolicyRun c' ref now (bw_store w1) = Inr (s, p)"
          by (auto simp: MarkBackupPolicyRun_def projectKnown_def main lookup_or_def Let_def)
        from loop policy due trigger Inr mark
        have "runDueLoop k os sv cs now projects (completed @ [backup]) (w1\<lparr>bw_store := s\<rparr>) = ((backups, e), w')" by simp
        note IH = Cons.IH [OF this]
        have "Bk_ProjectRef backup = ref" using trigger_ref trigger Inr unfolding ref_def by blast
        with IH MarkBackupPolicyRun_marked [OF mark] show ?thesis by (auto simp: same)
      qed
    qed
  qed
qed

text \<open>C38. A scheduled backup is taken once per slot: when a pass at some time has backed up a project, the project's policy
  names that time as its last run and is no longer due at that time, whatever the rest of the pass did and however it ended.\<close>

theorem due_backup_runs_once:
  assumes "RunDueBackups k os sv cs now w = ((backups, e), w')" and "b \<in> set backups"
  shows "\<exists>p. map_of (s_policies (bs_main (bw_store w'))) (Bk_ProjectRef b) = Some p \<and> BP_LastRunAt p = Some now \<and> \<not> backupDue now p"
  using runDueLoop_marked [OF assms(1) [unfolded RunDueBackups_def]] assms(2) unfolding marked_def by auto

section \<open>Quoting for the shell\<close>

text \<open>How a POSIX shell reads a word that consists of quoted parts only: within single quotes every character stands for itself, within
  double quotes every character but the four that are special there.\<close>

datatype sh_mode = Bare | Single | Double

fun sh_word :: "sh_mode \<Rightarrow> string \<Rightarrow> string option" where
  "sh_word m [] = (if m = Bare then Some [] else None)"
| "sh_word Bare (x # s) = (if x = quote_char then sh_word Single s else if x = double_quote then sh_word Double s else None)"
| "sh_word Single (x # s) = (if x = quote_char then sh_word Bare s else map_option ((#) x) (sh_word Single s))"
| "sh_word Double (x # s) =
     (if x = double_quote then sh_word Bare s
      else if List.member [CHR ''$'', CHR 0x60, CHR 0x5C, newline] x then None
      else map_option ((#) x) (sh_word Double s))"

lemma ReplaceAll_char: "ReplaceAll [x] new 0 s = concat (map (\<lambda>y. if y = x then new else [y]) s)"
  by (induction s) (auto simp: HasPrefix_def)

lemma sh_word_single:
  "sh_word Single (concat (map (\<lambda>y. if y = quote_char then [quote_char, double_quote, quote_char, double_quote, quote_char] else [y]) s) @ [quote_char]) = Some s"
proof -
  have "quote_char \<noteq> double_quote" "\<not> List.member [CHR ''$'', CHR 0x60, CHR 0x5C, newline] quote_char" by code_simp+
  then show ?thesis by (induction s) simp_all
qed

text \<open>C39. A value that is put into a backup or restore command reaches the program unchanged: the shell reads the quoted text back
  as exactly the value, whatever characters it contains.\<close>

theorem shell_quote_roundtrip: "sh_word Bare (shellQuote value) = Some value"
proof (cases "value")
  case Nil
  then show ?thesis by (simp add: shellQuote_def)
next
  case (Cons x xs)
  then have "shellQuote value = quote_char # (ReplaceAll [quote_char] [quote_char, double_quote, quote_char, double_quote, quote_char] 0 value @ [quote_char])"
    by (simp add: shellQuote_def del: ReplaceAll.simps)
  then show ?thesis using sh_word_single [of "value"] by (simp add: ReplaceAll_char del: ReplaceAll.simps)
qed

section \<open>Intact artifacts\<close>

definition intact :: "BackupOps \<Rightarrow> (string, string) gomap \<Rightarrow> Artifact \<Rightarrow> bool" where
  "intact os files a \<longleftrightarrow> (case map_of files (Art_Location a) of None \<Rightarrow> False
     | Some content \<Rightarrow> (Art_SizeBytes a > 0 \<longrightarrow> int (length content) = Art_SizeBytes a) \<and> TrimSpace (Art_Checksum a) \<noteq> [] \<and>
         EqualFold (bo_sha256 os content) (TrimSpace (Art_Checksum a)))"

definition grows :: "BackupWorld \<Rightarrow> BackupWorld \<Rightarrow> bool" where
  "grows w w' \<longleftrightarrow> bw_store w' = bw_store w \<and> bw_ran w' = bw_ran w \<and> (\<forall>p x. map_of (bw_files w) p = Some x \<longrightarrow> map_of (bw_files w') p = Some x)"

lemma grows_refl: "grows w w"
  by (simp add: grows_def)

lemma grows_trans: "grows w w1 \<Longrightarrow> grows w1 w2 \<Longrightarrow> grows w w2"
  by (simp add: grows_def)

lemma intact_grows: "intact os (bw_files w) a \<Longrightarrow> grows w w' \<Longrightarrow> intact os (bw_files w') a"
  by (auto simp: intact_def grows_def split: option.splits)

lemma download_grows:
  assumes "downloadArtifact k os a w = (r, w')" and "map_of (bw_files w) (Art_Location a) = None"
  shows "grows w w'"
  using assms by (auto simp: downloadArtifact_def DownloadBackupArtifact_def act_then_def act_res_def act_read_def writeFile_def act_file_def
      grows_def split: prod.splits sum.splits option.splits)

lemma act_file_same [simp]: "snd (act_file os path w) = w"
  by (simp add: act_file_def act_res_def)

lemma readFile_same: "readFile os path w = (r, w') \<Longrightarrow> w' = w"
  by (auto simp: readFile_def act_then_def act_file_def act_res_def split: option.splits)

lemma readFile_ok: "readFile os path w = (Inr content, w') \<Longrightarrow> w' = w \<and> map_of (bw_files w) path = Some content"
  by (auto simp: readFile_def act_then_def act_file_def act_res_def split: option.splits)

lemma ensureArtifact_grows:
  assumes "ensureArtifact k os dir a w = (r, w')"
  shows "grows w w'"
proof -
  define a' where "a' = (if TrimSpace (Art_Location a) = [] then a\<lparr>Art_Location := joinPath [dir, filenameFromS3RemoteLocation k (Art_RemoteLocation a)]\<rparr> else a)"
  define fetch where "fetch = (\<lambda>w. if map_of (bw_files w) (Art_Location a') = None then downloadArtifact k os a' w else (Inr (), w))"
  have g: "grows w (snd (fetch w))" using download_grows [of k os a' w] grows_refl by (cases "downloadArtifact k os a' w") (auto simp: fetch_def)
  have "w' = w \<or> w' = snd (fetch w)"
    using assms unfolding ensureArtifact_def Let_def a'_def [symmetric] fetch_def [symmetric]
    by (auto simp: act_then_def act_res_def act_file_def split: prod.splits sum.splits dest!: readFile_same)
  with g show ?thesis using grows_refl by auto
qed

lemma ensureArtifact_intact:
  assumes "ensureArtifact k os dir a w = (Inr a', w')"
  shows "intact os (bw_files w') a' \<and> (\<exists>l. a' = a\<lparr>Art_Location := l\<rparr>)"
proof -
  define b where "b = (if TrimSpace (Art_Location a) = [] then a\<lparr>Art_Location := joinPath [dir, filenameFromS3RemoteLocation k (Art_RemoteLocation a)]\<rparr> else a)"
  have loc: "\<exists>l. b = a\<lparr>Art_Location := l\<rparr>" unfolding b_def by (cases "TrimSpace (Art_Location a) = []") (auto intro: exI [of _ "Art_Location a"])
  from assms obtain content w1 where a': "a' = b" and w': "w' = w1" and content: "readFile os (Art_Location b) w1 = (Inr content, w1)"
    and size: "\<not> (Art_SizeBytes b > 0 \<and> int (length content) \<noteq> Art_SizeBytes b)" and sum: "TrimSpace (Art_Checksum b) \<noteq> []"
    "EqualFold (bo_sha256 os content) (TrimSpace (Art_Checksum b))"
    unfolding ensureArtifact_def Let_def b_def [symmetric]
    by (elim act_thenE) (auto simp: act_res_def refuse_def dest: readFile_same)
  with loc readFile_ok [OF content] show ?thesis by (auto simp: intact_def)
qed

lemma EnsureBackupArtifact_ok:
  assumes "EnsureBackupArtifact k os sv ref b w = (Inr b', w')"
  shows "grows w w' \<and> intact os (bw_files w') (backupArtifact b') \<and> (\<exists>l. b' = b\<lparr>Bk_Location := l\<rparr>)"
proof -
  from assms obtain a where a: "ensureArtifact k os (joinPath [sv_rootDir sv, ref]) (backupArtifact b) w = (Inr a, w')" and b': "b' = b\<lparr>Bk_Location := Art_Location a\<rparr>"
    unfolding EnsureBackupArtifact_def by (elim act_thenE) (auto simp: act_res_def)
  from ensureArtifact_intact [OF a] have i: "intact os (bw_files w') a" and "\<exists>l. a = (backupArtifact b)\<lparr>Art_Location := l\<rparr>" by auto
  then have "backupArtifact b' = a" by (auto simp: backupArtifact_def b')
  with i ensureArtifact_grows [OF a] b' show ?thesis by auto
qed

lemma EnsureWALArchiveArtifact_ok:
  assumes "EnsureWALArchiveArtifact k os sv x w = (Inr y, w')"
  shows "grows w w' \<and> intact os (bw_files w') (walArtifact y) \<and> (\<exists>l. y = x\<lparr>WAL_Location := l\<rparr>)"
proof -
  from assms obtain a where a: "ensureArtifact k os (joinPath [sv_rootDir sv, WAL_ProjectRef x, ''wal'']) (walArtifact x) w = (Inr a, w')"
    and y: "y = x\<lparr>WAL_Location := Art_Location a\<rparr>"
    unfolding EnsureWALArchiveArtifact_def by (elim act_thenE) (auto simp: act_res_def)
  from ensureArtifact_intact [OF a] have i: "intact os (bw_files w') a" and "\<exists>l. a = (walArtifact x)\<lparr>Art_Location := l\<rparr>" by auto
  then have "walArtifact y = a" by (auto simp: walArtifact_def y)
  with i ensureArtifact_grows [OF a] y show ?thesis by auto
qed

definition placed :: "WALArchive \<Rightarrow> WALArchive \<Rightarrow> bool" where
  "placed x y \<longleftrightarrow> y = x\<lparr>WAL_Location := WAL_Location y\<rparr>"

lemma ensureArchives_ok:
  assumes "ensureArchives k os sv xs w = (Inr ys, w')"
  shows "grows w w' \<and> list_all (\<lambda>y. intact os (bw_files w') (walArtifact y)) ys \<and> list_all2 placed xs ys"
  using assms
proof (induction xs arbitrary: w ys)
  case Nil
  then show ?case by (simp add: act_res_def grows_refl)
next
  case (Cons x xs)
  from Cons.prems obtain y w1 zs where y: "EnsureWALArchiveArtifact k os sv x w = (Inr y, w1)" and zs: "ensureArchives k os sv xs w1 = (Inr zs, w')"
    and ys: "ys = y # zs"
    unfolding ensureArchives.simps by (elim act_thenE) (auto simp: act_res_def)
  note EnsureWALArchiveArtifact_ok [OF y] and Cons.IH [OF zs]
  then show ?case using intact_grows grows_trans unfolding ys by (auto simp: placed_def)
qed

section \<open>Restoring to a point in time\<close>

text \<open>An action is silent when it runs no command.\<close>

definition silent :: "'a act \<Rightarrow> bool" where
  "silent m \<longleftrightarrow> (\<forall>w. bw_ran (snd (m w)) = bw_ran w)"

lemma silent_basic: "silent (act_res r)" "silent (act_read g)" "silent (act_file os path)"
  by (simp_all add: silent_def act_res_def act_read_def)

lemma silent_ensure: "silent (EnsureBackupArtifact k os sv ref b)" "silent (EnsureWALArchiveArtifact k os sv x)"
  using ensureArtifact_grows
  by (fastforce simp: silent_def EnsureBackupArtifact_def EnsureWALArchiveArtifact_def act_then_def act_res_def grows_def split: prod.splits sum.splits)+

lemma silent_then: "silent m \<Longrightarrow> (\<And>x. silent (f x)) \<Longrightarrow> silent (act_then m f)"
  unfolding silent_def act_then_def by (auto split: prod.split sum.split) (metis snd_conv)+

lemma silent_archives: "silent (ensureArchives k os sv xs)"
proof (induction xs)
  case Nil
  then show ?case by (simp add: silent_basic)
next
  case (Cons x xs)
  show ?case unfolding ensureArchives.simps by (intro silent_then silent_ensure Cons silent_basic)
qed

lemma ranE:
  assumes "act_then m f w = (r, w')" and "bw_ran w' \<noteq> bw_ran w" and "silent m"
  obtains x w1 where "m w = (Inr x, w1)" and "f x w1 = (r, w')" and "bw_ran w1 = bw_ran w" and "bw_ran w' \<noteq> bw_ran w1"
proof -
  have "bw_ran (snd (m w)) = bw_ran w" using assms(3) by (simp add: silent_def)
  with assms(1,2) that show thesis by (auto simp: act_then_def split: prod.splits sum.splits)
qed

lemma runRestoreCommand_ran: "runRestoreCommand os kind path command w = (r, w') \<Longrightarrow> bw_ran w' = bw_ran w @ [(command, bw_files w)]"
  by (auto simp: runRestoreCommand_def runCommand_def act_then_def act_res_def writeFile_def act_file_def split: prod.splits sum.splits option.splits if_splits)

definition restoreFits :: "BackupLib \<Rightarrow> BackupOps \<Rightarrow> BackupStorageTarget list \<Rightarrow> (string, string) gomap \<Rightarrow> time \<Rightarrow> Backup \<Rightarrow> WALArchive list \<Rightarrow> bool" where
  "restoreFits k os targets files target base archives \<longleftrightarrow>
     offHostBackup k targets ''physical'' base \<and> \<not> timestampAfterRecoveryTarget (Bk_CreatedAt base) target \<and> intact os files (backupArtifact base) \<and>
     archives \<noteq> [] \<and> sorted_wrt (\<lambda>a b. WAL_CreatedAt a \<le> WAL_CreatedAt b) archives \<and>
     list_all (\<lambda>a. offHostArchive k targets a \<and> Bk_CreatedAt base \<le> WAL_CreatedAt a \<and>
       \<not> timestampAfterRecoveryTarget (WAL_CreatedAt a) target \<and> intact os files (walArtifact a)) archives"

lemma older_archive_order: "weak_order older_archive"
  by (simp add: weak_order_def older_archive_def)

lemma range_ok:
  fixes k targets archives start end_time
  defines "xs \<equiv> verifiedOffHostWALArchivesInRange k archives targets start end_time"
  shows "sorted_wrt (\<lambda>a b. WAL_CreatedAt a \<le> WAL_CreatedAt b) xs"
    and "a \<in> set xs \<Longrightarrow> offHostArchive k targets a \<and> start \<le> WAL_CreatedAt a \<and> \<not> timestampAfterRecoveryTarget (WAL_CreatedAt a) end_time"
proof -
  have less: "(\<lambda>x y. \<not> older_archive y x) = (\<lambda>a b. WAL_CreatedAt a \<le> WAL_CreatedAt b)" by (auto simp: fun_eq_iff older_archive_def)
  show "sorted_wrt (\<lambda>a b. WAL_CreatedAt a \<le> WAL_CreatedAt b) xs"
    using slice.ordered_srt [OF older_archive_order] unfolding less xs_def verifiedOffHostWALArchivesInRange_def .
  show "a \<in> set xs \<Longrightarrow> offHostArchive k targets a \<and> start \<le> WAL_CreatedAt a \<and> \<not> timestampAfterRecoveryTarget (WAL_CreatedAt a) end_time"
    by (auto simp: xs_def verifiedOffHostWALArchivesInRange_def slice.set_srt)
qed

lemma placed_fields:
  assumes "placed x y"
  shows "WAL_CreatedAt y = WAL_CreatedAt x" and "offHostArchive k targets y = offHostArchive k targets x"
proof -
  from assms obtain l where "y = x\<lparr>WAL_Location := l\<rparr>" unfolding placed_def by blast
  then show "WAL_CreatedAt y = WAL_CreatedAt x" "offHostArchive k targets y = offHostArchive k targets x"
    by (simp_all add: offHostArchive_def verifiedArchive_def walArchiveHasPostgresSegment_def)
qed

lemma placed_sorted:
  assumes "list_all2 placed xs ys" and "sorted_wrt (\<lambda>a b. WAL_CreatedAt a \<le> WAL_CreatedAt b) xs"
  shows "sorted_wrt (\<lambda>a b. WAL_CreatedAt a \<le> WAL_CreatedAt b) ys"
proof -
  have same: "map WAL_CreatedAt ys = map WAL_CreatedAt xs"
    using assms(1) by (induction rule: list_all2_induct) (simp_all add: placed_fields(1))
  from assms(2) have "sorted_wrt (\<le>) (map WAL_CreatedAt ys)" unfolding same sorted_wrt_map .
  then show ?thesis unfolding sorted_wrt_map .
qed

lemma selectRestore_base:
  assumes "selectRestore k ref target s = Inr (base, archivesFrom)"
  shows "\<not> timestampAfterRecoveryTarget (Bk_CreatedAt base) target \<and> offHostBackup k (ListBackupStorageTargets k s) ''physical'' base \<and>
    (\<exists>archives. archivesFrom = (\<lambda>b. verifiedOffHostWALArchivesInRange k archives (ListBackupStorageTargets k s) (Bk_CreatedAt b) target))"
  using assms by (auto simp: selectRestore_def and_then_eq_Inr_iff Let_def latestVerifiedOffHostBackupAtOrBefore_def find_Some_iff split: option.splits)

lemma RestoreToTime_parts:
  assumes "RestoreToTime k os sv c ref target w = (r, w')" and "bw_ran w' \<noteq> bw_ran w"
  shows "\<exists>project base0 archivesFrom base w1 archives w2 path. selectRestore k ref target (bw_store w) = Inr (base0, archivesFrom) \<and>
    EnsureBackupArtifact k os sv ref base0 w = (Inr base, w1) \<and> archivesFrom base \<noteq> [] \<and>
    ensureArchives k os sv (archivesFrom base) w1 = (Inr archives, w2) \<and>
    bw_ran w' = bw_ran w @ [(renderPITRRestoreCommand os sv (bw_files w2) project base archives target path, bw_files w2)]"
proof -
  note silents = silent_basic silent_ensure silent_archives
  have dir: "act_file os dir v = (Inr x, v1) \<Longrightarrow> v1 = v" for dir v x v1 using act_file_same [of os dir v] by simp
  have res: "act_res a v = (Inr x, v1) \<Longrightarrow> v1 = v \<and> a = Inr x" for a :: "'x res" and v x v1 by (simp add: act_res_def)
  have rd: "act_read g v = (Inr x, v1) \<Longrightarrow> v1 = v \<and> g (bw_store v) = Inr x" for g :: "BackupStore \<Rightarrow> 'x res" and v x v1 by (auto simp: act_read_def)
  have ran: "act_then (runRestoreCommand os kind path command) (\<lambda>_. act_res y) v = (z, v1) \<Longrightarrow> bw_ran v1 = bw_ran v @ [(command, bw_files v)]"
    for kind path command v v1 z and y :: "'y res"
    using runRestoreCommand_ran [of os kind path command v] by (auto simp: act_then_def act_res_def split: prod.splits sum.splits)
  show ?thesis
    using assms unfolding RestoreToTime_def Let_def case_prod_beta
    apply -
    apply (erule ranE, assumption, rule silents)+
    apply (drule ran)
    apply (drule dir res rd)+
    apply (clarsimp simp: refuse_def simp del: append_Cons append_Nil)
    apply blast
    done
qed


section \<open>The advertised window\<close>

lemma recovery_window_base:
  assumes "recoveryWindow k policy backups targets archive = Some (windowStart, windowEnd)"
  shows "\<exists>b \<in> set backups. offHostBackup k targets ''physical'' b \<and> Bk_CreatedAt b \<le> windowStart"
proof -
  from assms obtain base where base: "latestVerifiedOffHostBackupAtOrBefore k backups targets (WAL_CreatedAt archive) ''physical'' = Some base"
    and "Bk_CreatedAt base \<le> windowStart"
    by (auto simp: recoveryWindow_def Let_def split: option.splits if_splits)
  moreover from base have "base \<in> set backups" "offHostBackup k targets ''physical'' base"
    by (auto simp: latestVerifiedOffHostBackupAtOrBefore_def find_Some_iff)
  ultimately show ?thesis by blast
qed

lemma unix_seconds_mono: "t \<le> u \<Longrightarrow> unix_seconds t \<le> unix_seconds u"
  by (simp add: unix_seconds_def second_ns_def zdiv_mono1)

text \<open>C37. The recovery window in the report of a project can be served: for every target time of whole seconds within it, as the API
  takes them, there is a verified physical base backup with an off-host copy that is not younger.\<close>

theorem window_is_served:
  assumes "ProjectRecoverabilityWithOptions k c ref configured s = Inr st" and "inWindow target (RS_RecoveryWindow st) = Inr ()"
    and "target mod second_ns = 0"
  shows "\<exists>base archivesFrom. selectRestore k ref target s = Inr (base, archivesFrom)"
proof -
  let ?targets = "ListBackupStorageTargets k s"
  from assms(1) obtain backups pitr archives where backups: "ListBackups ref s = Inr backups" and archives: "ListWALArchives ref s = Inr archives"
    and window: "RS_RecoveryWindow st = (case latestVerifiedOffHostWALArchive k archives ?targets of None \<Rightarrow> None
      | Some a \<Rightarrow> recoveryWindow k pitr backups ?targets a)"
    unfolding ProjectRecoverabilityWithOptions_def recoverability_def Let_def by (elim and_then_InrE) auto
  from assms(2) obtain a windowStart windowEnd where w: "recoveryWindow k pitr backups ?targets a = Some (windowStart, windowEnd)"
    and at: "unix_seconds windowStart \<le> unix_seconds target"
    unfolding window inWindow_def by (auto simp: refuse_def check_def split: option.splits prod.splits if_splits)
  from recovery_window_base [OF w] obtain b where b: "b \<in> set backups" "offHostBackup k ?targets ''physical'' b" "Bk_CreatedAt b \<le> windowStart" by blast
  have "\<not> timestampAfterRecoveryTarget (Bk_CreatedAt b) target"
    using unix_seconds_mono [OF b(3)] at assms(3) by (simp add: timestampAfterRecoveryTarget_def)
  with b have "latestVerifiedOffHostBackupAtOrBefore k backups ?targets target ''physical'' \<noteq> None"
    by (auto simp: latestVerifiedOffHostBackupAtOrBefore_def find_None_iff)
  with backups archives show ?thesis by (auto simp: selectRestore_def Let_def)
qed

section \<open>A project with a base backup and two archives\<close>

definition demo_backup_lib :: BackupLib where
  "demo_backup_lib = \<lparr>bl_parseURL = (\<lambda>_. None), bl_parseIP = (\<lambda>_. None), bl_lookupIPs = (\<lambda>_. []), bl_interfaceIPs = [], bl_getenv = (\<lambda>_. [])\<rparr>"

definition demo_backup_ops :: BackupOps where
  "demo_backup_ops = \<lparr>bo_exec = (\<lambda>_ files. (files, ''done'', None)), bo_sha256 = (\<lambda>x. x), bo_put = (\<lambda>_ _ _. None),
     bo_get = (\<lambda>_ _. Inl (ErrOther ''gone'')), bo_fileError = (\<lambda>_. None), bo_order = (\<lambda>xs. xs), bo_exportCheckpoint = None,
     bo_platformArtifact = (\<lambda>_ _. ''{}'')\<rparr>"

definition demo_service :: BackupService where
  "demo_service = \<lparr>sv_rootDir = ''backups'', sv_projectRoot = ''projects'', sv_command = ''dump'', sv_physicalCommand = ''base'',
     sv_restoreCommand = ''restore'', sv_walCommand = ''wal'', sv_pitrRestoreCommand = ''pitr'', sv_dryRun = False, sv_restoreDryRun = False,
     sv_walDryRun = False\<rparr>"

definition demo_target :: BackupStorageTarget where
  "demo_target = \<lparr>ST_ID = ''t1'', ST_Name = ''offsite'', ST_Type = ''s3'', ST_Endpoint = [], ST_Region = ''auto'', ST_Bucket = ''bucket'',
     ST_Prefix = [], ST_AccessKeyID = ''key'', ST_SecretAccessKey = ''secret'', ST_SecretConfigured = True, ST_ForcePathStyle = False,
     ST_Default = True, ST_DurableOffHost = False, ST_RecoveryReady = False, ST_ReadinessStatus = [], ST_ReadinessMessage = [],
     ST_Warnings = [], ST_LastTestedAt = Some 1, ST_LastTestStatus = ''passed'', ST_LastTestError = [], ST_CreatedAt = 1, ST_UpdatedAt = 1\<rparr>"

definition demo_base :: Backup where
  "demo_base = \<lparr>Bk_ID = ''b1'', Bk_ProjectRef = ''acme'', Bk_Kind = ''physical'', Bk_Location = ''base.tar'', Bk_RemoteLocation = ''s3://bucket/base'',
     Bk_StorageTargetID = ''t1'', Bk_SizeBytes = 4, Bk_ChecksumSHA256 = ''base'', Bk_Status = ''completed'', Bk_StartedAt = 1,
     Bk_FinishedAt = Some 2, Bk_CreatedAt = 10000000000, Bk_VerifiedAt = Some 2\<rparr>"

definition demo_wal :: "string \<Rightarrow> time \<Rightarrow> WALArchive" where
  "demo_wal i t = \<lparr>WAL_ID = i, WAL_ProjectRef = ''acme'', WAL_Segment = ''000000010000000000000001'', WAL_SegmentSource = ''postgres'',
     WAL_Location = i, WAL_RemoteLocation = ''s3://bucket/wal'', WAL_StorageTargetID = ''t1'', WAL_SizeBytes = 0, WAL_ChecksumSHA256 = i,
     WAL_Status = ''archived'', WAL_CreatedAt = t, WAL_VerifiedAt = Some t\<rparr>"

definition demo_pitr :: PITRPolicy where
  "demo_pitr = \<lparr>PITR_ProjectRef = ''acme'', PITR_Enabled = True, PITR_ArchiveBucket = ''s3://bucket'', PITR_RetentionDays = 7,
     PITR_LastArchiveAt = None, PITR_UpdatedAt = 1\<rparr>"

definition demo_backup_store :: BackupStore where
  "demo_backup_store = \<lparr>bs_main = (NewMemoryStore demo_audit_defaults)\<lparr>s_projects := [(''acme'', demo_project)], s_pitrPolicies := [(''acme'', demo_pitr)]\<rparr>,
     bs_targets = [(''t1'', demo_target)], bs_backups = [demo_base], bs_platformBackups = [],
     bs_walArchives = [demo_wal ''w1'' 20000000000, demo_wal ''w2'' 40000000000]\<rparr>"

definition demo_backup_world :: BackupWorld where
  "demo_backup_world = \<lparr>bw_store = demo_backup_store, bw_files = [(''base.tar'', ''base''), (''w1'', ''w1''), (''w2'', ''w2'')], bw_ran = []\<rparr>"

definition demo_backup_ctx :: OpCtx where
  "demo_backup_ctx = demo_audit_ctx\<lparr>ctx_now := 50\<rparr>"

lemma demo_lists:
  "ListBackups ''acme'' demo_backup_store = Inr [demo_base]"
  "ListWALArchives ''acme'' demo_backup_store = Inr [demo_wal ''w2'' 40000000000, demo_wal ''w1'' 20000000000]"
  "GetPITRPolicy demo_backup_ctx ''acme'' demo_backup_store = Inr demo_pitr"
  by code_simp+

lemma demo_report:
  "\<exists>st. ProjectRecoverabilityWithOptions demo_backup_lib demo_backup_ctx ''acme'' True demo_backup_store = Inr st \<and>
    RS_RestoreToTimeAvailable st \<and> RS_RecoveryWindow st = Some (10000000000, 40000000000)"
proof -
  let ?targets = "ListBackupStorageTargets demo_backup_lib demo_backup_store"
  have "latestVerifiedOffHostWALArchive demo_backup_lib [demo_wal ''w2'' 40000000000, demo_wal ''w1'' 20000000000] ?targets = Some (demo_wal ''w2'' 40000000000)"
    "latestVerifiedOffHostBackup demo_backup_lib [demo_base] ?targets ''physical'' = Some demo_base" "PITR_Enabled demo_pitr"
    "recoveryWindow demo_backup_lib demo_pitr [demo_base] ?targets (demo_wal ''w2'' 40000000000) = Some (10000000000, 40000000000)"
    by code_simp+
  moreover have "\<exists>policy. GetBackupPolicy demo_backup_ctx ''acme'' demo_backup_store = Inr policy"
    by (simp add: GetBackupPolicy_def projectKnown_def lookup_or_def demo_backup_store_def)
  ultimately show ?thesis using demo_lists by (auto simp: ProjectRecoverabilityWithOptions_def recoverability_def Let_def)
qed

theorem window_is_served_witness:
  "\<exists>base archivesFrom. selectRestore demo_backup_lib ''acme'' 30000000000 demo_backup_store = Inr (base, archivesFrom)"
proof -
  obtain st where st: "ProjectRecoverabilityWithOptions demo_backup_lib demo_backup_ctx ''acme'' True demo_backup_store = Inr st"
    "RS_RecoveryWindow st = Some (10000000000, 40000000000)" using demo_report by blast
  have "inWindow 30000000000 (Some (10000000000, 40000000000)) = Inr ()" "30000000000 mod second_ns = 0" by code_simp+
  then show ?thesis by (intro window_is_served [OF st(1)]) (simp_all add: st(2))
qed

text \<open>The report offers every second up to the latest archive. For a target between two archives the restore leaves out the later one,
  which holds the changes from the earlier archive up to the target, so these changes are not replayed.\<close>

lemma covering_archive_left_out:
  "case selectRestore demo_backup_lib ''acme'' 30000000000 demo_backup_store of Inl _ \<Rightarrow> False
   | Inr (base, archivesFrom) \<Rightarrow> base = demo_base \<and> archivesFrom demo_base = [demo_wal ''w1'' 20000000000]"
  by code_simp

lemma demo_restore: "bw_ran (snd (RestoreToTime demo_backup_lib demo_backup_ops demo_service demo_backup_ctx ''acme'' 30000000000 demo_backup_world)) \<noteq> []"
proof -
  obtain st where st: "ProjectRecoverabilityWithOptions demo_backup_lib demo_backup_ctx ''acme'' True demo_backup_store = Inr st"
    "RS_RestoreToTimeAvailable st" "RS_RecoveryWindow st = Some (10000000000, 40000000000)" using demo_report by blast
  have window: "inWindow 30000000000 (Some (10000000000, 40000000000)) = Inr ()" by code_simp
  have configured: "TrimSpace (sv_pitrRestoreCommand demo_service) \<noteq> []" by code_simp
  obtain archivesFrom where sel: "selectRestore demo_backup_lib ''acme'' 30000000000 demo_backup_store = Inr (demo_base, archivesFrom)"
    "archivesFrom demo_base = [demo_wal ''w1'' 20000000000]"
    using covering_archive_left_out by (auto split: sum.split_asm)
  have base: "EnsureBackupArtifact demo_backup_lib demo_backup_ops demo_service ''acme'' demo_base demo_backup_world = (Inr demo_base, demo_backup_world)"
    by code_simp
  have archives: "ensureArchives demo_backup_lib demo_backup_ops demo_service [demo_wal ''w1'' 20000000000] demo_backup_world =
      (Inr [demo_wal ''w1'' 20000000000], demo_backup_world)"
    by code_simp
  have project: "lookup_or e (s_projects (bs_main demo_backup_store)) ''acme'' = Inr demo_project" for e by (simp add: demo_backup_store_def)
  have store: "bw_store demo_backup_world = demo_backup_store" by (simp add: demo_backup_world_def)
  have dir: "act_file demo_backup_ops d w = (Inr (), w)" for d w by (simp add: act_file_def act_res_def demo_backup_ops_def)
  have run: "bw_ran (snd (case runRestoreCommand demo_backup_ops kind path command w of (Inl e, w1) \<Rightarrow> (Inl e, w1) | (Inr u, w1) \<Rightarrow> (Inr y, w1))) \<noteq> []"
    for kind path command w and y :: "string \<times> Backup \<times> WALArchive list"
    using runRestoreCommand_ran [of demo_backup_ops kind path command w] by (auto split: prod.split sum.split)
  show ?thesis
    unfolding RestoreToTime_def Let_def act_then_def act_res_def act_read_def
    by (simp add: store st configured window sel base archives project dir refuse_def check_def run del: ensureArchives.simps)
qed


theorem backup_target_resolves_witness:
  "\<exists>s r. backup_reachable s \<and> resolveBackupTarget demo_backup_lib demo_backup_ctx ''acme'' s = Inr r \<and> r \<noteq> None"
proof -
  define main where "main = (NewMemoryStore demo_audit_defaults)\<lparr>s_projects := [(''acme'', demo_project)]\<rparr>"
  define s0 where "s0 = (NewBackupStore demo_audit_defaults)\<lparr>bs_main := main\<rparr>"
  define input where "input = \<lparr>STIn_Name = ''offsite'', STIn_Type = [], STIn_Endpoint = [], STIn_Region = [], STIn_Bucket = ''bucket'', STIn_Prefix = [],
    STIn_AccessKeyID = ''key'', STIn_SecretAccessKey = ''secret'', STIn_ForcePathStyle = False, STIn_Default = True\<rparr>"
  have "backup_reachable s0" unfolding s0_def
    by (rule Breach_step [OF Breach_init Bstep_other]) (simp add: main_def NewBackupStore_def NewMemoryStore_def)
  moreover have "case CreateBackupStorageTarget demo_backup_lib demo_backup_ctx input s0 of Inl _ \<Rightarrow> False
    | Inr (s, t) \<Rightarrow> map_option ST_Default (map_of (bs_targets s) ''id1'') = Some True \<and> s_projects (bs_main s) = [(''acme'', demo_project)] \<and> s_policies (bs_main s) = []"
    unfolding input_def s0_def main_def by code_simp
  then obtain s t where s: "CreateBackupStorageTarget demo_backup_lib demo_backup_ctx input s0 = Inr (s, t)"
    "map_option ST_Default (map_of (bs_targets s) ''id1'') = Some True" "s_projects (bs_main s) = [(''acme'', demo_project)]" "s_policies (bs_main s) = []"
    by (auto split: sum.split_asm)
  moreover have "ctx_newID demo_backup_ctx = ''id1''" "TrimSpace ''id1'' = ''id1''" "map_of (bs_targets s0) ''id1'' = None"
    by (simp_all add: s0_def NewBackupStore_def) code_simp+
  ultimately have reach: "backup_reachable s" by (auto intro!: Breach_step [OF _ Bstep_create_target [OF s(1)]])
  have policy: "GetBackupPolicy demo_backup_ctx ''acme'' s = Inr (defaultBackupPolicy demo_backup_ctx ''acme'')"
    by (simp add: GetBackupPolicy_def projectKnown_def lookup_or_def s)
  have "TrimSpace (BP_StorageTargetID (defaultBackupPolicy demo_backup_ctx ''acme'')) = []" by simp
  with backup_target_resolves [OF reach policy, of demo_backup_lib] obtain r where
    "resolveBackupTarget demo_backup_lib demo_backup_ctx ''acme'' s = Inr r" and "\<forall>t. r = Some t \<longleftrightarrow> (\<exists>i. map_of (bs_targets s) i = Some t \<and> ST_Default t)"
    by auto
  with reach s(2) show ?thesis by (intro exI [of _ s] exI [of _ r]) auto
qed

lemma demo_dump_path: "joinPath [joinPath [''backups'', ''acme''], compactTime 50 @ ''-logical.sql''] = ''backups/acme/00010101T000000Z-logical.sql''"
proof -
  have "compactTime 50 = decimal 4 1 @ decimal 2 1 @ decimal 2 1 @ ''T'' @ decimal 2 0 @ decimal 2 0 @ decimal 2 0 @ ''Z''"
    by (simp add: compactTime_def year_of_day_def month_lengths_def is_leap_def Let_def del: decimal.simps)
  also have "\<dots> = ''00010101T000000Z''" by code_simp
  finally have "compactTime 50 = ''00010101T000000Z''" .
  moreover have "joinPath [joinPath [''backups'', ''acme''], ''00010101T000000Z'' @ ''-logical.sql''] = ''backups/acme/00010101T000000Z-logical.sql''"
    by code_simp
  ultimately show ?thesis by simp
qed

lemma dry_run_backup:
  assumes "sv_dryRun sv" and "\<And>path. bo_fileError os path = None" and "\<And>t key content. bo_put os t key content = None"
    and "resolveBackupTarget k c (Proj_Ref project) (bw_store w) = Inr (Some target)" and "targetKnown (TrimSpace (ST_ID target)) (bw_store w) = Inr ()"
    and "projectKnown (Proj_Ref project) (bw_store w) = Inr ()" and "TrimSpace (Proj_Ref project) \<noteq> []"
    and "TrimSpace (joinPath [joinPath [sv_rootDir sv, Proj_Ref project], compactTime (ctx_now c) @ ''-logical.sql'']) \<noteq> []"
  shows "\<exists>b w1. TriggerLogicalBackup k os sv c c' project w = (Inr b, w1)"
proof -
  define path where "path = joinPath [joinPath [sv_rootDir sv, Proj_Ref project], compactTime (ctx_now c) @ ''-logical.sql'']"
  have writable: "act_file os d x = (Inr (), x)" for d x by (simp add: act_file_def act_res_def assms(2))
  have create: "\<exists>s b. CreateBackup c' input (bw_store w) = Inr (s, b)"
    if "BkIn_ProjectRef input = Proj_Ref project" "BkIn_Location input = path" "BkIn_StorageTargetID input = ST_ID target" for input
    using that assms(5-8) by (simp add: CreateBackup_def refuse_def check_def newBackup_def Let_def path_def)
  have recorded: "\<exists>b w1. recordBackup os c c' project kind path content (remote, ST_ID target) (w\<lparr>bw_files := files\<rparr>) = (Inr b, w1)" for kind content remote files
  proof -
    obtain s b where "CreateBackup c' \<lparr>BkIn_ProjectRef = Proj_Ref project, BkIn_Kind = kind, BkIn_Location = path, BkIn_RemoteLocation = remote,
       BkIn_StorageTargetID = ST_ID target, BkIn_SizeBytes = int (length content), BkIn_ChecksumSHA256 = bo_sha256 os content,
       BkIn_Status = ''completed'', BkIn_StartedAt = ctx_now c, BkIn_FinishedAt = Some (ctx_now c'), BkIn_VerifiedAt = Some (ctx_now c')\<rparr> (bw_store w) = Inr (s, b)"
      using create by fastforce
    then show ?thesis by (simp add: recordBackup_def act_store_def)
  qed
  show ?thesis
    unfolding TriggerLogicalBackup_def Let_def path_def [symmetric]
    by (simp add: act_then_def writable assms(1,3,4) writeFile_def readFile_def act_read_def uploadTo_def act_res_def recorded Let_def lookup_or_def)
qed

definition demo_due_policy :: BackupPolicy where
  "demo_due_policy = (defaultBackupPolicy demo_backup_ctx ''acme'')\<lparr>BP_NextRunAt := Some 90\<rparr>"

definition demo_due_world :: BackupWorld where
  "demo_due_world = demo_backup_world\<lparr>bw_store := demo_backup_store\<lparr>bs_main := (bs_main demo_backup_store)\<lparr>s_policies := [(''acme'', demo_due_policy)]\<rparr>\<rparr>\<rparr>"

theorem due_backup_runs_once_witness:
  "\<exists>backups e w' b p.
    RunDueBackups demo_backup_lib demo_backup_ops (demo_service\<lparr>sv_dryRun := True\<rparr>) (\<lambda>_. (demo_backup_ctx, demo_backup_ctx)) 100 demo_due_world
      = ((backups, e), w') \<and> b \<in> set backups \<and>
    map_of (s_policies (bs_main (bw_store w'))) (Bk_ProjectRef b) = Some p \<and> BP_LastRunAt p = Some 100 \<and> \<not> backupDue 100 p"
proof -
  define store where "store = bw_store demo_due_world"
  define w where "w = demo_due_world"
  define sv where "sv = demo_service\<lparr>sv_dryRun := True\<rparr>"
  note store_eq = store_def [unfolded demo_due_world_def, simplified]
  have ref: "Proj_Ref demo_project = ''acme''" by (simp add: demo_project_def)
  have projects: "ListProjects (bs_main store) = [demo_project]"
    by (simp add: ListProjects_def store_eq demo_backup_store_def values_of_def sort_slice_def)
  have known: "projectKnown ''acme'' store = Inr ()" "targetKnown ''t1'' store = Inr ()"
    by (simp_all add: projectKnown_def targetKnown_def lookup_or_def store_eq demo_backup_store_def)
  have policy: "GetBackupPolicy demo_backup_ctx ''acme'' store = Inr demo_due_policy"
    by (simp add: GetBackupPolicy_def known) (simp add: store_eq)
  have due: "backupDue 100 demo_due_policy" "BP_Kind demo_due_policy = ''logical''"
    by (simp_all add: backupDue_def demo_due_policy_def defaultBackupPolicy_def defaultBackupPolicyForSchedule_def Let_def)
  have target: "resolveBackupTarget demo_backup_lib demo_backup_ctx ''acme'' store = Inr (Some demo_target)"
    unfolding store_eq demo_due_policy_def by code_simp
  have kind: "ToLower (TrimSpace ''logical'') = ''logical''" by code_simp
  have blank: "TrimSpace ''acme'' \<noteq> []" "TrimSpace ''backups/acme/00010101T000000Z-logical.sql'' \<noteq> []" "TrimSpace (ST_ID demo_target) = ''t1''" by code_simp+
  have known_target: "targetKnown (TrimSpace (ST_ID demo_target)) store = Inr ()" unfolding blank(3) by (rule known(2))
  have w: "bw_store w = store" by (simp add: w_def store_def)
  have "\<exists>b w1. TriggerLogicalBackup demo_backup_lib demo_backup_ops sv demo_backup_ctx demo_backup_ctx demo_project w = (Inr b, w1)"
    by (rule dry_run_backup) (use target known(1) known_target blank(1,2) demo_dump_path in \<open>simp_all add: sv_def demo_service_def demo_backup_ops_def ref w demo_backup_ctx_def\<close>)
  then obtain b w1 where trigger: "TriggerBackupForKind demo_backup_lib demo_backup_ops sv demo_backup_ctx demo_backup_ctx demo_project ''logical'' w = (Inr b, w1)"
    by (auto simp: TriggerBackupForKind_def kind)
  have "\<exists>e w'. RunDueBackups demo_backup_lib demo_backup_ops sv (\<lambda>_. (demo_backup_ctx, demo_backup_ctx)) 100 w = (([b], e), w')"
    using trigger policy due by (simp add: RunDueBackups_def w projects ref Let_def)
  then obtain e w' where run: "RunDueBackups demo_backup_lib demo_backup_ops sv (\<lambda>_. (demo_backup_ctx, demo_backup_ctx)) 100 w = (([b], e), w')" by blast
  from due_backup_runs_once [OF run, of b] run show ?thesis unfolding w_def sv_def by fastforce
qed

end
