(* ===== verification/Project_Secrets.thy ===== *)
theory Project_Secrets
  imports Backup_Runs
begin

text \<open>
  The secrets of a project (store.go): how they are generated, the API keys signed with the JWT secret, the custom secrets, and the
  rotation of keys. Random bytes, the PEM texts of a fresh Ed25519 key pair, \<open>json.Marshal\<close> and \<open>json.Unmarshal\<close> of claims and of key material, and HMAC are parameters
  (\<open>SecretLib\<close>, \<open>SecretCtx\<close>). What the invariant says: the API keys of a project verify under its JWT secret at any time.
\<close>

section \<open>Generating values\<close>

record JWTSigningKeyMaterial =
  JK_KID :: string
  JK_Alg :: string
  JK_PublicKey :: string
  JK_PrivateKey :: string
  JK_Status :: string

record SecretLib =
  sl_hmac :: "string \<Rightarrow> string \<Rightarrow> string"
  sl_claims :: "string \<Rightarrow> string \<Rightarrow> int \<Rightarrow> string \<Rightarrow> string"
  sl_parse :: "string \<Rightarrow> (string option \<times> string option) option"
  sl_decodeKey :: "string \<Rightarrow> JWTSigningKeyMaterial option"
  sl_encodeKey :: "JWTSigningKeyMaterial \<Rightarrow> string option"

text \<open>What one call draws: the instant, an identifier and random bytes for a kind of secret, the PEM texts of the key pair for a status,
  and the identifier of a token for a role (the second component of the argument tells the two tokens apart that a rotation makes).\<close>

record SecretCtx =
  sc_now :: time
  sc_newID :: "string \<Rightarrow> string"
  sc_random :: "string \<Rightarrow> nat \<Rightarrow> string option"
  sc_signingKey :: "string \<Rightarrow> (string \<times> string) option"
  sc_jti :: "string \<Rightarrow> bool \<Rightarrow> string"

definition secretPrefixes :: "(string, string) gomap" where
  "secretPrefixes =
     [(''jwt_secret'', ''jwt''), (''jwt_signing_key_current'', ''jwkcur''), (''jwt_signing_key_next'', ''jwknxt''),
      (''publishable_key'', ''pub''), (''secret_key'', ''sec''), (''anon_key'', ''anon''), (''service_role'', ''svc''),
      (''db_password'', ''db''), (''s3_access_key'', ''s3ak''), (''s3_secret_key'', ''s3sk'')]"

definition secretByteLengths :: "(string, nat) gomap" where
  "secretByteLengths =
     [(''jwt_secret'', 32), (''jwt_signing_key_current'', 32), (''jwt_signing_key_next'', 32), (''publishable_key'', 24), (''secret_key'', 32),
      (''anon_key'', 32), (''service_role'', 32), (''db_password'', 24), (''s3_access_key'', 16), (''s3_secret_key'', 32)]"

definition randomHex :: "SecretCtx \<Rightarrow> string \<Rightarrow> nat \<Rightarrow> string" where
  "randomHex c kind n =
     (case sc_random c kind n of Some bytes \<Rightarrow> HexEncode bytes | None \<Rightarrow> itoa (nat (sc_now c - 62135596800 * second_ns)))"

definition randomToken :: "SecretCtx \<Rightarrow> string \<Rightarrow> string \<Rightarrow> nat \<Rightarrow> string" where
  "randomToken c kind prefix n = prefix @ ''_'' @ randomHex c kind n"

definition randomJWTSigningKeyValue :: "SecretLib \<Rightarrow> SecretCtx \<Rightarrow> string \<Rightarrow> string \<Rightarrow> string" where
  "randomJWTSigningKeyValue k c ref status =
     (case sc_signingKey c status of
        None \<Rightarrow> randomToken c status ''jwk'' 32
      | Some (publicPEM, privatePEM) \<Rightarrow>
          (case sl_encodeKey k \<lparr>JK_KID = ref @ ''-'' @ status @ ''-'' @ randomHex c (''kid '' @ status) 4, JK_Alg = ''EdDSA'',
              JK_PublicKey = TrimSpace publicPEM, JK_PrivateKey = TrimSpace privatePEM, JK_Status = status\<rparr> of
             None \<Rightarrow> randomToken c status ''jwk'' 32
           | Some payload \<Rightarrow> payload))"

definition randomSecretValue :: "SecretLib \<Rightarrow> SecretCtx \<Rightarrow> string \<Rightarrow> string \<Rightarrow> string" where
  "randomSecretValue k c ref kind =
     (if HasPrefix kind ''jwt_signing_key_'' then
        randomJWTSigningKeyValue k c ref
          (if kind = ''jwt_signing_key_current'' then ''current'' else if kind = ''jwt_signing_key_next'' then ''next'' else ''previous'')
      else if kind = ''db_password'' then randomHex c kind (get_or 0 secretByteLengths kind)
      else randomToken c kind (get_or [] secretPrefixes kind) (get_or 0 secretByteLengths kind))"

definition newProjectSecret :: "SecretLib \<Rightarrow> SecretCtx \<Rightarrow> string \<Rightarrow> string \<Rightarrow> time \<Rightarrow> ProjectSecret" where
  "newProjectSecret k c ref kind now =
     (let value = randomSecretValue k c ref kind in
      \<lparr>Secret_ID = sc_newID c kind, Secret_ProjectRef = ref, Secret_Kind = kind, Secret_Value = value, Secret_Masked = maskSecret value,
       Secret_CreatedAt = now, Secret_RotatedAt = None\<rparr>)"

definition zeroSecret :: ProjectSecret where
  "zeroSecret = \<lparr>Secret_ID = [], Secret_ProjectRef = [], Secret_Kind = [], Secret_Value = [], Secret_Masked = [], Secret_CreatedAt = 0,
     Secret_RotatedAt = None\<rparr>"

section \<open>API keys\<close>

definition jwtHeader :: string where
  "jwtHeader = (let q = char_of (34 :: nat) in
     ''{'' @ [q] @ ''alg'' @ [q] @ '':'' @ [q] @ ''HS256'' @ [q] @ '','' @ [q] @ ''typ'' @ [q] @ '':'' @ [q] @ ''JWT'' @ [q] @ ''}'')"

definition supabaseRoleJWT :: "SecretLib \<Rightarrow> SecretCtx \<Rightarrow> bool \<Rightarrow> string \<Rightarrow> string \<Rightarrow> string \<Rightarrow> string" where
  "supabaseRoleJWT k c again ref role jwtSecret =
     (let unsigned = RawURLEncode jwtHeader @ ''.'' @ RawURLEncode (sl_claims k ref role (unix_seconds (sc_now c)) (sc_jti c role again))
      in unsigned @ ''.'' @ RawURLEncode (sl_hmac k jwtSecret unsigned))"

definition looksLikeJWT :: "string \<Rightarrow> bool" where
  "looksLikeJWT value \<longleftrightarrow> length (Split CHR ''.'' (TrimSpace value)) = 3"

definition verifySupabaseRoleJWT :: "SecretLib \<Rightarrow> string \<Rightarrow> string \<Rightarrow> string \<Rightarrow> bool" where
  "verifySupabaseRoleJWT k token role jwtSecret =
     (case Split CHR ''.'' (TrimSpace token) of
        [header, body, mac] \<Rightarrow>
          RawURLDecode mac = Some (sl_hmac k jwtSecret (header @ ''.'' @ body)) \<and>
          (case RawURLDecode body of
             None \<Rightarrow> False
           | Some payload \<Rightarrow>
               (case sl_parse k payload of
                  None \<Rightarrow> False
                | Some (claimedRole, aud) \<Rightarrow> claimedRole = Some role \<and> aud = Some ''authenticated''))
      | _ \<Rightarrow> False)"

definition roleKind :: "string \<Rightarrow> string" where
  "roleKind role = (if role = ''service_role'' then ''service_role'' else ''anon_key'')"

definition ensureRoleKey ::
    "SecretLib \<Rightarrow> SecretCtx \<Rightarrow> string \<Rightarrow> time \<Rightarrow> string \<Rightarrow> string \<Rightarrow> (string, ProjectSecret) gomap \<Rightarrow> (string, ProjectSecret) gomap" where
  "ensureRoleKey k c ref now jwtSecret role secrets =
     (let kind = roleKind role; token = supabaseRoleJWT k c False ref role jwtSecret;
          secret = (case map_of secrets kind of Some secret \<Rightarrow> secret
            | None \<Rightarrow> zeroSecret\<lparr>Secret_ID := sc_newID c kind, Secret_ProjectRef := ref, Secret_Kind := kind, Secret_CreatedAt := now\<rparr>)
      in if \<not> looksLikeJWT (Secret_Value secret) \<or> \<not> verifySupabaseRoleJWT k (Secret_Value secret) role jwtSecret
         then AList.update kind (secret\<lparr>Secret_Value := token, Secret_Masked := maskSecret token\<rparr>) secrets else secrets)"

definition ensureSupabaseAPIKeys :: "SecretLib \<Rightarrow> SecretCtx \<Rightarrow> string \<Rightarrow> time \<Rightarrow> (string, ProjectSecret) gomap \<Rightarrow> (string, ProjectSecret) gomap" where
  "ensureSupabaseAPIKeys k c ref now secrets =
     (let trimmed = TrimSpace (Secret_Value (get_or zeroSecret secrets ''jwt_secret''));
          secrets = (if trimmed = [] then AList.update ''jwt_secret'' (newProjectSecret k c ref ''jwt_secret'' now) secrets else secrets);
          jwtSecret = (if trimmed = [] then Secret_Value (get_or zeroSecret secrets ''jwt_secret'') else trimmed)
      in ensureRoleKey k c ref now jwtSecret ''service_role'' (ensureRoleKey k c ref now jwtSecret ''anon'' secrets))"

definition ensureProjectSigningKeys :: "SecretLib \<Rightarrow> SecretCtx \<Rightarrow> string \<Rightarrow> (string, ProjectSecret) gomap \<Rightarrow> (string, ProjectSecret) gomap" where
  "ensureProjectSigningKeys k c ref secrets =
     foldl (\<lambda>secrets kind. if map_of secrets kind = None then AList.update kind (newProjectSecret k c ref kind (sc_now c)) secrets else secrets)
       secrets [''jwt_signing_key_current'', ''jwt_signing_key_next'']"

definition generateProjectSecrets :: "SecretLib \<Rightarrow> SecretCtx \<Rightarrow> string \<Rightarrow> (string, ProjectSecret) gomap" where
  "generateProjectSecrets k c ref =
     ensureSupabaseAPIKeys k c ref (sc_now c)
       (map (\<lambda>kind. (kind, newProjectSecret k c ref kind (sc_now c)))
         (filter (\<lambda>kind. kind \<noteq> ''anon_key'' \<and> kind \<noteq> ''service_role'') (map fst secretPrefixes)))"

section \<open>Kinds\<close>

text \<open>\<open>^[a-z0-9][a-z0-9_-]{0,62}$\<close>, which has no slash.\<close>

definition secretKindPattern :: "string \<Rightarrow> bool" where
  "secretKindPattern s \<longleftrightarrow> 1 \<le> length s \<and> length s \<le> 63 \<and> is_lower_alnum (hd s) \<and>
     list_all (\<lambda>c. is_lower_alnum c \<or> c = CHR ''_'' \<or> c = CHR ''-'') (tl s)"

definition normalizeProjectSecretKind :: "string \<Rightarrow> string res" where
  "normalizeProjectSecretKind kind =
     (let normalized = ToLower (TrimSpace kind) in
      and_then (refuse (normalized = []) ''secret kind is required'') (\<lambda>_.
      and_then (refuse (CHR ''/'' \<in> set normalized \<or> \<not> secretKindPattern normalized) (''secret kind '' @ normalized @ '' is invalid'')) (\<lambda>_.
      Inr normalized)))"

definition normalizeManagedProjectSecretKind :: "string \<Rightarrow> string res" where
  "normalizeManagedProjectSecretKind kind =
     (let normalized = ToLower (TrimSpace kind) in
      and_then (refuse (normalized = []) ''secret kind is required'') (\<lambda>_.
      and_then (refuse (map_of secretPrefixes normalized = None \<and> \<not> HasPrefix normalized ''jwt_signing_key_previous_'')
        (''unsupported secret kind '' @ normalized)) (\<lambda>_. Inr normalized)))"

definition normalizeCustomProjectSecretKind :: "string \<Rightarrow> string res" where
  "normalizeCustomProjectSecretKind kind =
     and_then (normalizeProjectSecretKind kind) (\<lambda>normalized.
     and_then (refuse (map_of secretPrefixes normalized \<noteq> None \<or> HasPrefix normalized ''jwt_signing_key_'')
       (''secret kind '' @ normalized @ '' is managed by the control plane'')) (\<lambda>_. Inr normalized))"

section \<open>Operations\<close>

definition secretProject :: "string \<Rightarrow> MemoryStore \<Rightarrow> unit res" where
  "secretProject ref s = and_then (lookup_or (ErrNotFound (''project '' @ ref)) (s_projects s) ref) (\<lambda>_. Inr ())"

definition secretsOf :: "string \<Rightarrow> MemoryStore \<Rightarrow> (string, ProjectSecret) gomap" where
  "secretsOf ref s = get_or [] (s_secrets s) ref"

definition putSecrets :: "string \<Rightarrow> (string, ProjectSecret) gomap \<Rightarrow> MemoryStore \<Rightarrow> MemoryStore" where
  "putSecrets ref secrets s = s\<lparr>s_secrets := AList.update ref secrets (s_secrets s)\<rparr>"

definition secret_less :: "ProjectSecret \<Rightarrow> ProjectSecret \<Rightarrow> bool" where
  "secret_less a b \<longleftrightarrow> Secret_Kind a < Secret_Kind b"

definition secretsToSlice :: "(string, ProjectSecret) gomap \<Rightarrow> ProjectSecret list" where
  "secretsToSlice secrets = sort_slice secret_less (values_of secrets)"

definition EnsureProjectSecrets :: "SecretLib \<Rightarrow> SecretCtx \<Rightarrow> string \<Rightarrow> MemoryStore \<Rightarrow> ProjectSecret list op" where
  "EnsureProjectSecrets k c ref s =
     and_then (secretProject ref s) (\<lambda>_.
     let secrets = (if secretsOf ref s = [] then generateProjectSecrets k c ref
           else ensureSupabaseAPIKeys k c ref (sc_now c) (ensureProjectSigningKeys k c ref (secretsOf ref s)))
     in Inr (putSecrets ref secrets s, secretsToSlice secrets))"

definition ListProjectSecrets :: "string \<Rightarrow> MemoryStore \<Rightarrow> ProjectSecret list res" where
  "ListProjectSecrets ref s = and_then (secretProject ref s) (\<lambda>_. Inr (secretsToSlice (secretsOf ref s)))"

definition secretAt :: "string \<Rightarrow> string \<Rightarrow> MemoryStore \<Rightarrow> ProjectSecret res" where
  "secretAt ref kind s = lookup_or (ErrNotFound (''secret '' @ kind @ '' for project '' @ ref)) (secretsOf ref s) kind"

definition RevealProjectSecret :: "string \<Rightarrow> string \<Rightarrow> MemoryStore \<Rightarrow> ProjectSecret res" where
  "RevealProjectSecret ref kind s =
     and_then (normalizeProjectSecretKind kind) (\<lambda>normalizedKind.
     and_then (secretProject ref s) (\<lambda>_. secretAt ref normalizedKind s))"

definition UpsertProjectSecret :: "SecretCtx \<Rightarrow> string \<Rightarrow> string \<Rightarrow> string \<Rightarrow> MemoryStore \<Rightarrow> ProjectSecret op" where
  "UpsertProjectSecret c ref kind inputValue s =
     and_then (normalizeCustomProjectSecretKind kind) (\<lambda>normalizedKind.
     let value = TrimSpace inputValue in
     and_then (refuse (value = []) ''secret value is required'') (\<lambda>_.
     and_then (secretProject ref s) (\<lambda>_.
     let secret = (case map_of (secretsOf ref s) normalizedKind of
             None \<Rightarrow> zeroSecret\<lparr>Secret_ID := sc_newID c normalizedKind, Secret_ProjectRef := ref, Secret_Kind := normalizedKind,
               Secret_CreatedAt := sc_now c\<rparr>
           | Some secret \<Rightarrow> secret\<lparr>Secret_RotatedAt := Some (sc_now c)\<rparr>);
         secret = secret\<lparr>Secret_Value := value, Secret_Masked := maskSecret value\<rparr>
     in Inr (putSecrets ref (AList.update normalizedKind secret (secretsOf ref s)) s, secret))))"

definition DeleteProjectSecret :: "string \<Rightarrow> string \<Rightarrow> MemoryStore \<Rightarrow> MemoryStore res" where
  "DeleteProjectSecret ref kind s =
     and_then (normalizeCustomProjectSecretKind kind) (\<lambda>normalizedKind.
     and_then (secretProject ref s) (\<lambda>_.
     and_then (secretAt ref normalizedKind s) (\<lambda>_.
     Inr (putSecrets ref (AList.delete normalizedKind (secretsOf ref s)) s))))"

definition updateJWTSigningKeyMaterialStatus :: "SecretLib \<Rightarrow> string \<Rightarrow> string \<Rightarrow> string" where
  "updateJWTSigningKeyMaterialStatus k value status = 
     (case sl_decodeKey k value of
        None \<Rightarrow> value
      | Some material \<Rightarrow> (case sl_encodeKey k (material\<lparr>JK_Status := status\<rparr>) of None \<Rightarrow> value | Some payload \<Rightarrow> payload))"

definition archiveKind :: "time \<Rightarrow> string" where
  "archiveKind now = ''jwt_signing_key_previous_'' @ ToLower (compactTime now)"

definition withStatus :: "SecretLib \<Rightarrow> time \<Rightarrow> string \<Rightarrow> string \<Rightarrow> ProjectSecret \<Rightarrow> ProjectSecret" where
  "withStatus k now kind status secret =
     (let value = updateJWTSigningKeyMaterialStatus k (Secret_Value secret) status in
      secret\<lparr>Secret_Kind := kind, Secret_Value := value, Secret_Masked := maskSecret value, Secret_RotatedAt := Some now\<rparr>)"

definition rotateCurrentJWTSigningKeyLocked ::
    "SecretLib \<Rightarrow> SecretCtx \<Rightarrow> string \<Rightarrow> ProjectSecret \<Rightarrow> (string, ProjectSecret) gomap \<Rightarrow> (string, ProjectSecret) gomap \<times> ProjectSecret" where
  "rotateCurrentJWTSigningKeyLocked k c ref current secrets =
     (let now = sc_now c;
          secrets = AList.update (archiveKind now) (withStatus k now (archiveKind now) ''previous'' current) secrets;
          following = (case map_of secrets ''jwt_signing_key_next'' of Some following \<Rightarrow> following
            | None \<Rightarrow> newProjectSecret k c ref ''jwt_signing_key_next'' now);
          following = withStatus k now ''jwt_signing_key_current'' ''current'' following
      in (AList.update ''jwt_signing_key_next'' (newProjectSecret k c ref ''jwt_signing_key_next'' now)
            (AList.update ''jwt_signing_key_current'' following secrets), following))"

definition RotateProjectSecret :: "SecretLib \<Rightarrow> SecretCtx \<Rightarrow> string \<Rightarrow> string \<Rightarrow> MemoryStore \<Rightarrow> ProjectSecret op" where
  "RotateProjectSecret k c ref kind s =
     and_then (normalizeManagedProjectSecretKind kind) (\<lambda>kind.
     and_then (refuse (HasPrefix kind ''jwt_signing_key_previous_'') ''archived JWT signing keys cannot be rotated'') (\<lambda>_.
     and_then (secretProject ref s) (\<lambda>_.
     and_then (secretAt ref kind s) (\<lambda>secret.
     if kind = ''jwt_signing_key_current'' then
       (case rotateCurrentJWTSigningKeyLocked k c ref secret (secretsOf ref s) of (secrets, following) \<Rightarrow> Inr (putSecrets ref secrets s, following))
     else
       let now = sc_now c; isKey = (kind = ''anon_key'' \<or> kind = ''service_role'');
           secrets = (if isKey then ensureSupabaseAPIKeys k c ref now (secretsOf ref s) else secretsOf ref s);
           value = (if isKey
             then supabaseRoleJWT k c True ref (if kind = ''anon_key'' then ''anon'' else ''service_role'')
               (Secret_Value (get_or zeroSecret secrets ''jwt_secret''))
             else randomSecretValue k c ref kind);
           secret = secret\<lparr>Secret_Value := value, Secret_Masked := maskSecret value, Secret_RotatedAt := Some now\<rparr>;
           secrets = AList.update kind secret secrets;
           secrets = (if kind = ''jwt_secret'' then ensureSupabaseAPIKeys k c ref now secrets else secrets)
       in Inr (putSecrets ref secrets s, secret)))))"

section \<open>The environment of a project (secrets.go)\<close>

definition managedSecretEnvironmentMappings :: "(string \<times> string) list" where
  "managedSecretEnvironmentMappings =
     [(''JWT_SECRET'', ''jwt_secret''), (''GOTRUE_JWT_SECRET'', ''jwt_secret''), (''PGRST_JWT_SECRET'', ''jwt_secret''),
      (''REALTIME_JWT_SECRET'', ''jwt_secret''), (''SUPADUPA_JWT_SIGNING_KEY_CURRENT'', ''jwt_signing_key_current''),
      (''SUPADUPA_JWT_SIGNING_KEY_NEXT'', ''jwt_signing_key_next''), (''ANON_KEY'', ''anon_key''), (''SERVICE_ROLE_KEY'', ''service_role''),
      (''SUPABASE_PUBLISHABLE_KEY'', ''publishable_key''), (''SUPABASE_SECRET_KEY'', ''secret_key''), (''POSTGRES_PASSWORD'', ''db_password''),
      (''S3_ACCESS_KEY'', ''s3_access_key''), (''S3_SECRET_KEY'', ''s3_secret_key''), (''STORAGE_ACCESS_KEY_ID'', ''s3_access_key''),
      (''STORAGE_SECRET_ACCESS_KEY'', ''s3_secret_key''), (''S3_PROTOCOL_ACCESS_KEY_ID'', ''s3_access_key''),
      (''S3_PROTOCOL_ACCESS_KEY_SECRET'', ''s3_secret_key'')]"

definition ManagedSecretEnvironmentKeys :: "string list" where
  "ManagedSecretEnvironmentKeys = map fst managedSecretEnvironmentMappings"

definition secretValues :: "ProjectSecret list \<Rightarrow> (string, string) gomap" where
  "secretValues secrets = foldl (\<lambda>values secret. AList.update (Secret_Kind secret) (Secret_Value secret) values) [] secrets"

definition setManaged :: "(string, string) gomap \<Rightarrow> (string, string) gomap \<Rightarrow> string \<times> string \<Rightarrow> (string, string) gomap" where
  "setManaged values environment = (\<lambda>(envKey, secretKind).
     let value = get_or [] values secretKind in if value \<noteq> [] then AList.update envKey value environment else environment)"

definition ProjectSpecWithSecrets :: "ProjectSpec \<Rightarrow> ProjectSecret list \<Rightarrow> ProjectSpec" where
  "ProjectSpecWithSecrets spec secrets =
     spec\<lparr>Spec_Environment := foldl (setManaged (secretValues secrets)) (Spec_Environment spec) managedSecretEnvironmentMappings\<rparr>"

text \<open>Without secrets the specification stays as it is; an unmanaged variable is never touched.\<close>

lemma setManaged_other: "key \<noteq> fst mapping \<Longrightarrow> map_of (setManaged values environment mapping) key = map_of environment key"
  by (cases mapping) (simp add: setManaged_def update_conv' Let_def)

lemma unmanaged_environment:
  assumes "key \<notin> set ManagedSecretEnvironmentKeys"
  shows "map_of (Spec_Environment (ProjectSpecWithSecrets spec secrets)) key = map_of (Spec_Environment spec) key"
proof -
  have "map_of (foldl (setManaged vs) environment ms) key = map_of environment key" if "key \<notin> fst ` set ms" for vs environment ms
    using that by (induction ms arbitrary: environment) (simp_all add: setManaged_other)
  then show ?thesis using assms by (simp add: ProjectSpecWithSecrets_def ManagedSecretEnvironmentKeys_def)
qed

lemma spec_without_secrets [simp]: "ProjectSpecWithSecrets spec [] = spec"
proof -
  have "foldl (setManaged []) environment ms = environment" for environment ms
    by (induction ms arbitrary: environment) (auto simp: setManaged_def get_or_def)
  then show ?thesis by (simp add: ProjectSpecWithSecrets_def secretValues_def)
qed

end
