(* ===== verification/Secret_Rotation.thy ===== *)
theory Secret_Rotation
  imports Project_Secrets Capacity
begin

text \<open>
  What holds of the secrets of a project in every store that can be reached: the API keys verify under the JWT secret that is stored with
  them. What a rotation of the signing key does to the three keys, and where an archived key is lost.
\<close>

section \<open>Tokens verify\<close>

text \<open>JSON gives back the role and the audience that were encoded.\<close>

definition claims_decode :: "SecretLib \<Rightarrow> bool" where
  "claims_decode k \<longleftrightarrow> (\<forall>ref role iat jti. sl_parse k (sl_claims k ref role iat jti) = Some (Some role, Some ''authenticated''))"

lemma plain_text: "(\<And>x. x \<in> set s \<Longrightarrow> \<not> is_space x) \<Longrightarrow> TrimSpace s = s"
  unfolding TrimSpace_def by (rule TrimFunc_id)

lemma base64_no_space: "x \<in> set (RawURLEncode s) \<Longrightarrow> \<not> is_space x"
proof -
  assume "x \<in> set (RawURLEncode s)"
  then have "x \<in> set base64_alphabet" by (rule RawURLEncode_chars)
  then show ?thesis by (auto simp: base64_alphabet_def upper_case_def lower_case_def digits_def is_space_def byte_def)
qed

lemma hex_no_space: "x \<in> set (HexEncode s) \<Longrightarrow> \<not> is_space x"
proof -
  have len: "length hex_alphabet = 16" by (simp add: hex_alphabet_def digits_def)
  assume "x \<in> set (HexEncode s)"
  then have "x \<in> set hex_alphabet"
    using groups_small [of 4 _ "map byte s"] len by (auto simp: HexEncode_def encodeGroups_def)
  then show ?thesis by (auto simp: hex_alphabet_def digits_def is_space_def byte_def)
qed

lemma itoa_no_space: "x \<in> set (itoa n) \<Longrightarrow> \<not> is_space x"
proof (induction n rule: itoa.induct)
  case (1 n)
  have small: "\<not> is_space (char_of (48 + m))" if "m < 10" for m :: nat
    using that by (simp add: is_space_def byte_def)
  show ?case using 1 small [of n] small [of "n mod 10"] by (subst (asm) itoa.simps) (auto split: if_splits)
qed

lemma randomHex_no_space: "x \<in> set (randomHex c kind n) \<Longrightarrow> \<not> is_space x"
  by (auto simp: randomHex_def hex_no_space itoa_no_space split: option.splits)

lemma jwt_secret_plain: "TrimSpace (randomSecretValue k c ref ''jwt_secret'') = randomSecretValue k c ref ''jwt_secret''"
    "randomSecretValue k c ref ''jwt_secret'' \<noteq> []"
proof -
  have v: "randomSecretValue k c ref ''jwt_secret'' = ''jwt_'' @ randomHex c ''jwt_secret'' 32"
    by (simp add: randomSecretValue_def HasPrefix_def randomToken_def secretPrefixes_def secretByteLengths_def get_or_def)
  have "\<not> is_space x" if "x \<in> set ''jwt_''" for x using that by (auto simp: is_space_def byte_def)
  then show "TrimSpace (randomSecretValue k c ref ''jwt_secret'') = randomSecretValue k c ref ''jwt_secret''"
    unfolding v by (intro plain_text) (auto dest: randomHex_no_space)
  show "randomSecretValue k c ref ''jwt_secret'' \<noteq> []" unfolding v by simp
qed

lemma supabaseRoleJWT_parts:
  "Split CHR ''.'' (TrimSpace (supabaseRoleJWT k c again ref role secret)) =
     [RawURLEncode jwtHeader, RawURLEncode (sl_claims k ref role (unix_seconds (sc_now c)) (sc_jti c role again)),
      RawURLEncode (sl_hmac k secret (RawURLEncode jwtHeader @ ''.'' @
        RawURLEncode (sl_claims k ref role (unix_seconds (sc_now c)) (sc_jti c role again))))]"
proof -
  have dot: "\<not> is_space CHR ''.''" by (simp add: is_space_def byte_def)
  have "TrimSpace (supabaseRoleJWT k c again ref role secret) = supabaseRoleJWT k c again ref role secret"
    by (rule plain_text) (auto simp: supabaseRoleJWT_def Let_def dot dest: base64_no_space)
  then show ?thesis
    by (simp add: supabaseRoleJWT_def Let_def Split_append_sep RawURLEncode_no_dot Split_id)
qed

lemma own_token_verifies: "claims_decode k \<Longrightarrow> verifySupabaseRoleJWT k (supabaseRoleJWT k c again ref role secret) role secret"
  unfolding verifySupabaseRoleJWT_def supabaseRoleJWT_parts by (simp add: claims_decode_def)

lemma verified_looks: "verifySupabaseRoleJWT k token role secret \<Longrightarrow> looksLikeJWT token"
  by (auto simp: verifySupabaseRoleJWT_def looksLikeJWT_def split: list.splits)

section \<open>The keys of a project\<close>

definition storedSecret :: "(string, ProjectSecret) gomap \<Rightarrow> string \<Rightarrow> string" where
  "storedSecret secrets kind = Secret_Value (get_or zeroSecret secrets kind)"

definition keys_ok :: "SecretLib \<Rightarrow> (string, ProjectSecret) gomap \<Rightarrow> bool" where
  "keys_ok k secrets \<longleftrightarrow>
     storedSecret secrets ''jwt_secret'' \<noteq> [] \<and> TrimSpace (storedSecret secrets ''jwt_secret'') = storedSecret secrets ''jwt_secret'' \<and>
     verifySupabaseRoleJWT k (storedSecret secrets ''anon_key'') ''anon'' (storedSecret secrets ''jwt_secret'') \<and>
     verifySupabaseRoleJWT k (storedSecret secrets ''service_role'') ''service_role'' (storedSecret secrets ''jwt_secret'')"

definition jwt_plain :: "(string, ProjectSecret) gomap \<Rightarrow> bool" where
  "jwt_plain secrets \<longleftrightarrow> TrimSpace (storedSecret secrets ''jwt_secret'') = storedSecret secrets ''jwt_secret''"

lemma storedSecret_update [simp]:
  "storedSecret (AList.update kind secret secrets) kind' = (if kind' = kind then Secret_Value secret else storedSecret secrets kind')"
  by (simp add: storedSecret_def get_or_def)

lemma storedSecret_delete [simp]: "kind' \<noteq> kind \<Longrightarrow> storedSecret (AList.delete kind secrets) kind' = storedSecret secrets kind'"
  by (simp add: storedSecret_def get_or_def)

lemma roleKind_simps [simp]: "roleKind ''anon'' = ''anon_key''" "roleKind ''service_role'' = ''service_role''"
  by (simp_all add: roleKind_def)

lemma ensureRoleKey_other: "kind \<noteq> roleKind role \<Longrightarrow> map_of (ensureRoleKey k c ref now jwtSecret role secrets) kind = map_of secrets kind"
  by (simp add: ensureRoleKey_def Let_def)

lemma ensureRoleKey_verifies:
  assumes "claims_decode k"
  shows "verifySupabaseRoleJWT k (storedSecret (ensureRoleKey k c ref now jwtSecret role secrets) (roleKind role)) role jwtSecret"
proof (cases "map_of secrets (roleKind role)")
  case None
  then show ?thesis using own_token_verifies [OF assms] by (simp add: ensureRoleKey_def Let_def zeroSecret_def looksLikeJWT_def)
next
  case (Some secret)
  then have "storedSecret secrets (roleKind role) = Secret_Value secret" by (simp add: storedSecret_def get_or_def)
  then show ?thesis using Some own_token_verifies [OF assms] by (simp add: ensureRoleKey_def Let_def)
qed

lemma storedSecret_cong: "map_of a kind = map_of b kind \<Longrightarrow> storedSecret a kind = storedSecret b kind"
  by (simp add: storedSecret_def get_or_def)

text \<open>After the keys are ensured they verify, whatever they were before.\<close>

lemma ensure_keys_ok:
  assumes "claims_decode k" and "jwt_plain secrets"
  shows "keys_ok k (ensureSupabaseAPIKeys k c ref now secrets)"
proof -
  define trimmed where "trimmed = TrimSpace (storedSecret secrets ''jwt_secret'')"
  define s1 where "s1 = (if trimmed = [] then AList.update ''jwt_secret'' (newProjectSecret k c ref ''jwt_secret'' now) secrets else secrets)"
  define j where "j = storedSecret s1 ''jwt_secret''"
  have new: "Secret_Value (newProjectSecret k c ref ''jwt_secret'' now) = randomSecretValue k c ref ''jwt_secret''"
    by (simp add: newProjectSecret_def Let_def)
  have j: "j \<noteq> []" "TrimSpace j = j"
    using jwt_secret_plain [of k c ref] assms(2) unfolding j_def s1_def trimmed_def jwt_plain_def by (auto simp: new)
  have same: "(if trimmed = [] then j else trimmed) = j" using assms(2) by (simp add: j_def s1_def trimmed_def jwt_plain_def)
  define s2 where "s2 = ensureRoleKey k c ref now j ''anon'' s1"
  define s3 where "s3 = ensureRoleKey k c ref now j ''service_role'' s2"
  have s3: "ensureSupabaseAPIKeys k c ref now secrets = s3"
    unfolding ensureSupabaseAPIKeys_def Let_def storedSecret_def [symmetric] trimmed_def [symmetric] s1_def [symmetric] j_def [symmetric] same
      s2_def s3_def by simp
  have jwt: "storedSecret s3 ''jwt_secret'' = j"
    unfolding j_def s3_def s2_def by (intro storedSecret_cong) (simp add: ensureRoleKey_other)
  have anon: "storedSecret s3 ''anon_key'' = storedSecret s2 ''anon_key''"
    unfolding s3_def by (intro storedSecret_cong) (simp add: ensureRoleKey_other)
  show ?thesis
    using j ensureRoleKey_verifies [OF assms(1), of c ref now j "''anon''" s1] ensureRoleKey_verifies [OF assms(1), of c ref now j "''service_role''" s2]
    by (simp add: keys_ok_def s3 jwt anon s2_def [symmetric] s3_def [symmetric])
qed

section \<open>Every operation keeps the keys\<close>

lemma keys_ok_plain: "keys_ok k secrets \<Longrightarrow> jwt_plain secrets"
  by (simp add: keys_ok_def jwt_plain_def)

lemma generate_keys_ok: "claims_decode k \<Longrightarrow> keys_ok k (generateProjectSecrets k c ref)"
  unfolding generateProjectSecrets_def
  by (rule ensure_keys_ok)
    (simp_all add: jwt_plain_def storedSecret_def get_or_def secretPrefixes_def newProjectSecret_def Let_def jwt_secret_plain)

lemma storedSecret_signing: "kind \<noteq> ''jwt_signing_key_current'' \<Longrightarrow> kind \<noteq> ''jwt_signing_key_next'' \<Longrightarrow>
    storedSecret (ensureProjectSigningKeys k c ref secrets) kind = storedSecret secrets kind"
  by (simp add: ensureProjectSigningKeys_def)

text \<open>The keys depend on three kinds only.\<close>

lemma keys_ok_cong:
  assumes "storedSecret a ''jwt_secret'' = storedSecret b ''jwt_secret''" and "storedSecret a ''anon_key'' = storedSecret b ''anon_key''"
    and "storedSecret a ''service_role'' = storedSecret b ''service_role''"
  shows "keys_ok k a \<longleftrightarrow> keys_ok k b"
  by (simp add: keys_ok_def assms)

lemma custom_kind: "normalizeCustomProjectSecretKind kind = Inr custom \<Longrightarrow> map_of secretPrefixes custom = None"
  by (auto simp: normalizeCustomProjectSecretKind_def and_then_eq_Inr_iff refuse_def)

lemma custom_kinds_differ:
  assumes "map_of secretPrefixes custom = None"
  shows "''jwt_secret'' \<noteq> custom" "''anon_key'' \<noteq> custom" "''service_role'' \<noteq> custom"
  using assms by (auto simp: secretPrefixes_def)

lemma archive_differs: "archiveKind now = ''jwt_signing_key_previous_'' @ ToLower (compactTime now)"
    "archiveKind now \<noteq> ''jwt_secret''" "archiveKind now \<noteq> ''anon_key''" "archiveKind now \<noteq> ''service_role''"
    "archiveKind now \<noteq> ''jwt_signing_key_current''" "archiveKind now \<noteq> ''jwt_signing_key_next''"
  by (simp_all add: archiveKind_def)

lemma archived_differs [simp]: "''jwt_secret'' \<noteq> archiveKind now" "''anon_key'' \<noteq> archiveKind now" "''service_role'' \<noteq> archiveKind now"
    "''jwt_signing_key_current'' \<noteq> archiveKind now" "''jwt_signing_key_next'' \<noteq> archiveKind now"
  by (simp_all add: archiveKind_def)

lemma rotateCurrent_keys: "keys_ok k (fst (rotateCurrentJWTSigningKeyLocked k' c ref current secrets)) \<longleftrightarrow> keys_ok k secrets"
  by (rule keys_ok_cong) (simp_all add: rotateCurrentJWTSigningKeyLocked_def Let_def)

definition secrets_changed :: "string \<Rightarrow> (string, ProjectSecret) gomap \<Rightarrow> MemoryStore \<Rightarrow> MemoryStore \<Rightarrow> bool" where
  "secrets_changed ref secrets s s' \<longleftrightarrow> s' = putSecrets ref secrets s \<and> map_of (s_projects s) ref \<noteq> None"

lemma secretProject_Inr: "secretProject ref s = Inr u \<longleftrightarrow> map_of (s_projects s) ref \<noteq> None"
  by (auto simp: secretProject_def and_then_eq_Inr_iff)

lemma Ensure_keys:
  assumes "EnsureProjectSecrets k c ref s = Inr (s', r)" and "claims_decode k" and "keys_ok k (secretsOf ref s)"
  shows "\<exists>m. secrets_changed ref m s s' \<and> keys_ok k m"
proof -
  define m where "m = (if secretsOf ref s = [] then generateProjectSecrets k c ref
           else ensureSupabaseAPIKeys k c ref (sc_now c) (ensureProjectSigningKeys k c ref (secretsOf ref s)))"
  have "jwt_plain (ensureProjectSigningKeys k c ref (secretsOf ref s))"
    using keys_ok_plain [OF assms(3)] by (simp add: jwt_plain_def storedSecret_signing)
  then have "keys_ok k m" using assms(2) generate_keys_ok ensure_keys_ok by (auto simp: m_def)
  moreover have "secrets_changed ref m s s'"
    using assms(1) by (auto simp: EnsureProjectSecrets_def and_then_eq_Inr_iff secretProject_Inr Let_def secrets_changed_def m_def)
  ultimately show ?thesis by blast
qed

lemma Upsert_keys:
  assumes "UpsertProjectSecret c ref kind v s = Inr (s', r)" and "keys_ok k (secretsOf ref s)"
  shows "\<exists>m. secrets_changed ref m s s' \<and> keys_ok k m"
proof -
  from assms(1) obtain custom secret where c: "normalizeCustomProjectSecretKind kind = Inr custom"
    and s': "secrets_changed ref (AList.update custom secret (secretsOf ref s)) s s'"
    by (auto simp: UpsertProjectSecret_def and_then_eq_Inr_iff secretProject_Inr Let_def secrets_changed_def)
  have "keys_ok k (AList.update custom secret (secretsOf ref s)) \<longleftrightarrow> keys_ok k (secretsOf ref s)"
    by (rule keys_ok_cong) (simp_all add: custom_kinds_differ [OF custom_kind [OF c]])
  with assms(2) s' show ?thesis by blast
qed

lemma Delete_keys:
  assumes "DeleteProjectSecret ref kind s = Inr s'" and "keys_ok k (secretsOf ref s)"
  shows "\<exists>m. secrets_changed ref m s s' \<and> keys_ok k m"
proof -
  from assms(1) obtain custom where c: "normalizeCustomProjectSecretKind kind = Inr custom"
    and s': "secrets_changed ref (AList.delete custom (secretsOf ref s)) s s'"
    by (auto simp: DeleteProjectSecret_def and_then_eq_Inr_iff secretProject_Inr Let_def secrets_changed_def)
  have "keys_ok k (AList.delete custom (secretsOf ref s)) \<longleftrightarrow> keys_ok k (secretsOf ref s)"
    by (rule keys_ok_cong) (simp_all add: custom_kinds_differ [OF custom_kind [OF c]])
  with assms(2) s' show ?thesis by blast
qed

lemma Rotate_keys:
  assumes rot: "RotateProjectSecret k c ref kind0 s = Inr (s', r)" and k: "claims_decode k" and ok: "keys_ok k (secretsOf ref s)"
  shows "\<exists>m. secrets_changed ref m s s' \<and> keys_ok k m"
proof -
  from rot obtain kind secret where project: "map_of (s_projects s) ref \<noteq> None"
    and found: "map_of (secretsOf ref s) kind = Some secret"
    and s': "(if kind = ''jwt_signing_key_current'' then
       (case rotateCurrentJWTSigningKeyLocked k c ref secret (secretsOf ref s) of (secrets, following) \<Rightarrow> Inr (putSecrets ref secrets s, following))
     else
       let now = sc_now c; isKey = (kind = ''anon_key'' \<or> kind = ''service_role'');
           secrets = (if isKey then ensureSupabaseAPIKeys k c ref now (secretsOf ref s) else secretsOf ref s);
           value = (if isKey
             then supabaseRoleJWT k c True ref (if kind = ''anon_key'' then ''anon'' else ''service_role'')
               (Secret_Value (get_or zeroSecret secrets ''jwt_secret''))
             else randomSecretValue k c ref kind);
           secret = secret\<lparr>Secret_Value := value, Secret_Masked := maskSecret value, Secret_RotatedAt := Some now\<rparr>;
           secrets = AList.update kind secret secrets;
           secrets = (if kind = ''jwt_secret'' then ensureSupabaseAPIKeys k c ref now secrets else secrets)
       in Inr (putSecrets ref secrets s, secret)) = (Inr (s', r) :: (MemoryStore \<times> ProjectSecret) res)"
    unfolding RotateProjectSecret_def
    by (elim and_then_InrE) (auto simp: secretProject_Inr secretAt_def)
  let ?old = "secretsOf ref s"
  show ?thesis
  proof (cases "kind = ''jwt_signing_key_current''")
    case True
    with s' have "s' = putSecrets ref (fst (rotateCurrentJWTSigningKeyLocked k c ref secret ?old)) s" by (auto split: prod.splits)
    with project ok rotateCurrent_keys show ?thesis unfolding secrets_changed_def by blast
  next
    case False
    note s1 = s' [unfolded if_not_P [OF False] Let_def]
    let ?keyed = "ensureSupabaseAPIKeys k c ref (sc_now c) ?old"
    have keyed: "keys_ok k ?keyed" by (rule ensure_keys_ok [OF k keys_ok_plain [OF ok]])
    show ?thesis
    proof (cases "kind = ''anon_key'' \<or> kind = ''service_role''")
      case True
      define new where "new = secret\<lparr>Secret_Value := supabaseRoleJWT k c True ref (if kind = ''anon_key'' then ''anon'' else ''service_role'')
          (storedSecret ?keyed ''jwt_secret''),
        Secret_Masked := maskSecret (supabaseRoleJWT k c True ref (if kind = ''anon_key'' then ''anon'' else ''service_role'')
          (storedSecret ?keyed ''jwt_secret'')), Secret_RotatedAt := Some (sc_now c)\<rparr>"
      have "s' = putSecrets ref (AList.update kind new ?keyed) s" using s1 True by (auto simp: new_def storedSecret_def)
      moreover have "keys_ok k (AList.update kind new ?keyed)"
        using keyed own_token_verifies [OF k] True by (auto simp: keys_ok_def new_def)
      ultimately show ?thesis using project unfolding secrets_changed_def by blast
    next
      case other: False
      define new where "new = secret\<lparr>Secret_Value := randomSecretValue k c ref kind, Secret_Masked := maskSecret (randomSecretValue k c ref kind),
        Secret_RotatedAt := Some (sc_now c)\<rparr>"
      show ?thesis
      proof (cases "kind = ''jwt_secret''")
        case True
        have "s' = putSecrets ref (ensureSupabaseAPIKeys k c ref (sc_now c) (AList.update kind new ?old)) s"
          using s1 other True by (auto simp: new_def)
        moreover have "jwt_plain (AList.update kind new ?old)" using True jwt_secret_plain [of k c ref] by (simp add: jwt_plain_def new_def)
        ultimately show ?thesis using project ensure_keys_ok [OF k] unfolding secrets_changed_def by blast
      next
        case plain: False
        have "s' = putSecrets ref (AList.update kind new ?old) s" using s1 other plain by (auto simp: new_def)
        moreover have "keys_ok k (AList.update kind new ?old) \<longleftrightarrow> keys_ok k ?old" by (rule keys_ok_cong) (use other plain in auto)
        ultimately show ?thesis using project ok unfolding secrets_changed_def by blast
      qed
    qed
  qed
qed

section \<open>Reachable stores\<close>

text \<open>A step is a successful call on the secrets, one that creates or deletes a project (its secrets are generated then), or any other
  operation, which creates no project and leaves the secrets alone.\<close>

inductive secret_step :: "SecretLib \<Rightarrow> MemoryStore \<Rightarrow> MemoryStore \<Rightarrow> bool" for k where
  Secret_ensure: "EnsureProjectSecrets k sc ref s = Inr (s', r1) \<Longrightarrow> secret_step k s s'"
| Secret_upsert: "UpsertProjectSecret sc ref kind v s = Inr (s', r2) \<Longrightarrow> secret_step k s s'"
| Secret_delete: "DeleteProjectSecret ref kind s = Inr s' \<Longrightarrow> secret_step k s s'"
| Secret_rotate: "RotateProjectSecret k sc ref kind s = Inr (s', r3) \<Longrightarrow> secret_step k s s'"
| Secret_project: "CreateProject c defaults req s = Inr (s', p) \<Longrightarrow> ctx_secrets c = generateProjectSecrets k sc (Proj_Ref p) \<Longrightarrow> secret_step k s s'"
| Secret_branch: "CreateProjectBranch c ref input s = Inr (s', b, p) \<Longrightarrow> ctx_secrets c = generateProjectSecrets k sc (Proj_Ref p) \<Longrightarrow> secret_step k s s'"
| Secret_delete_project: "DeleteProject ref s = Inr (s', r4) \<Longrightarrow> secret_step k s s'"
| Secret_delete_branch: "DeleteProjectBranch src ref s = Inr (s', r5) \<Longrightarrow> secret_step k s s'"
| Secret_other: "s_secrets s' = s_secrets s \<Longrightarrow> dom (map_of (s_projects s')) \<subseteq> dom (map_of (s_projects s)) \<Longrightarrow> secret_step k s s'"

inductive secret_reachable :: "SecretLib \<Rightarrow> MemoryStore \<Rightarrow> bool" for k where
  Secret_init: "secret_reachable k (NewMemoryStore defaults)"
| Secret_next: "secret_reachable k s \<Longrightarrow> secret_step k s s' \<Longrightarrow> secret_reachable k s'"

definition secrets_ok :: "SecretLib \<Rightarrow> MemoryStore \<Rightarrow> bool" where
  "secrets_ok k s \<longleftrightarrow> (\<forall>ref. map_of (s_projects s) ref \<noteq> None \<longrightarrow> keys_ok k (secretsOf ref s))"

lemma secrets_ok_changed:
  assumes "secrets_ok k s" and "secrets_changed ref m s s'" and "keys_ok k m"
  shows "secrets_ok k s'"
  using assms by (simp add: secrets_ok_def secrets_changed_def putSecrets_def secretsOf_def get_or_def)

lemma bookHost_secrets: "bookHost h r s = Inr s' \<Longrightarrow> s_secrets s' = s_secrets s \<and> s_projects s' = s_projects s"
  by (auto simp: bookHost_def and_then_eq_Inr_iff Let_def split: if_splits)

lemma storeProject_secrets: "s_secrets (storeProject c p s) = AList.update (Proj_Ref p) (ctx_secrets c) (s_secrets s)"
  by (simp add: storeProject_def Let_def addOrioleConfig_def)

lemma CreateProject_secrets:
  assumes "CreateProject c defaults req s = Inr (s', p)"
  shows "s_secrets s' = AList.update (Proj_Ref p) (ctx_secrets c) (s_secrets s) \<and> s_projects s' = AList.update (Proj_Ref p) p (s_projects s)"
proof -
  from assms have "\<exists>h r s1. bookHost h r s = Inr s1 \<and> s' = storeProject c p s1"
    unfolding CreateProject_def Let_def by (elim and_then_InrE) blast
  then obtain h r s1 where b: "bookHost h r s = Inr s1" and s': "s' = storeProject c p s1" by blast
  then show ?thesis using bookHost_secrets [OF b] by (simp add: storeProject_secrets storeProject_fields)
qed

lemma CreateProjectBranch_secrets:
  assumes "CreateProjectBranch c ref input s = Inr (s', b, p)"
  shows "s_secrets s' = AList.update (Proj_Ref p) (ctx_secrets c) (s_secrets s) \<and> s_projects s' = AList.update (Proj_Ref p) p (s_projects s)"
proof -
  from assms have "\<exists>h r s1 bs po pi. bookHost h r s = Inr s1 \<and> s' = s1\<lparr>s_projects := AList.update (Proj_Ref p) p (s_projects s1),
      s_branches := bs, s_secrets := AList.update (Proj_Ref p) (ctx_secrets c) (s_secrets s1), s_policies := po, s_pitrPolicies := pi\<rparr>"
    unfolding CreateProjectBranch_def Let_def by (elim and_then_InrE) blast
  then obtain h r s1 where "bookHost h r s = Inr s1" "s_secrets s' = AList.update (Proj_Ref p) (ctx_secrets c) (s_secrets s1)"
    "s_projects s' = AList.update (Proj_Ref p) p (s_projects s1)" by auto
  then show ?thesis using bookHost_secrets by metis
qed

lemma releaseHost_secrets [simp]: "s_secrets (releaseHost h r s) = s_secrets s"
  by (auto simp: releaseHost_def Let_def split: option.splits)

lemma releaseReplicas_secrets [simp]: "s_secrets (releaseReplicas rs s) = s_secrets s"
  unfolding releaseReplicas_def by (induction rs arbitrary: s) simp_all

lemma deleteProjectLocked_secrets:
  assumes "deleteProjectLocked ref s = Inr (s', u)"
  shows "s_secrets s' = AList.delete ref (s_secrets s) \<and> s_projects s' = AList.delete ref (s_projects s)"
proof -
  have "s_secrets s' = AList.delete ref (s_secrets s)"
    using assms by (auto simp: deleteProjectLocked_def and_then_eq_Inr_iff Let_def cleanupRegisteredProjectChildrenLocked_def)
  with assms show ?thesis by (auto elim: deleteProjectLocked_eq)
qed

lemma created_secrets_ok:
  assumes "secrets_ok k s" and "keys_ok k m"
    and "s_secrets s' = AList.update ref m (s_secrets s) \<and> s_projects s' = AList.update ref p (s_projects s)"
  shows "secrets_ok k s'"
  using assms by (simp add: secrets_ok_def secretsOf_def get_or_def)

lemma deleted_secrets_ok:
  assumes "secrets_ok k s" and "deleteProjectLocked ref s = Inr (s', u)"
  shows "secrets_ok k s'"
  using assms(1) deleteProjectLocked_secrets [OF assms(2)] by (auto simp: secrets_ok_def secretsOf_def get_or_def)

lemma project_known: "RotateProjectSecret k c ref kind s = Inr (s', r) \<Longrightarrow> map_of (s_projects s) ref \<noteq> None"
    "UpsertProjectSecret c ref kind v s = Inr (s', r) \<Longrightarrow> map_of (s_projects s) ref \<noteq> None"
    "DeleteProjectSecret ref kind s = Inr s' \<Longrightarrow> map_of (s_projects s) ref \<noteq> None"
    "EnsureProjectSecrets k c ref s = Inr (s', r') \<Longrightarrow> map_of (s_projects s) ref \<noteq> None"
  unfolding RotateProjectSecret_def UpsertProjectSecret_def DeleteProjectSecret_def EnsureProjectSecrets_def Let_def
  by (elim and_then_InrE; simp add: secretProject_Inr)+

lemma secret_step_ok:
  assumes "secret_step k s s'" and "claims_decode k" and "secrets_ok k s"
  shows "secrets_ok k s'"
  using assms(1)
proof (cases rule: secret_step.cases)
  case (Secret_ensure sc ref r1)
  with project_known(4) [OF Secret_ensure] Ensure_keys [OF Secret_ensure assms(2)] show ?thesis
    using assms(3) secrets_ok_changed unfolding secrets_ok_def by metis
next
  case (Secret_upsert sc ref kind v r2)
  with project_known(2) [OF Secret_upsert] Upsert_keys [OF Secret_upsert] show ?thesis
    using assms(3) secrets_ok_changed unfolding secrets_ok_def by metis
next
  case (Secret_delete ref kind)
  with project_known(3) [OF Secret_delete] Delete_keys [OF Secret_delete] show ?thesis
    using assms(3) secrets_ok_changed unfolding secrets_ok_def by metis
next
  case (Secret_rotate sc ref kind r3)
  with project_known(1) [OF Secret_rotate] Rotate_keys [OF Secret_rotate assms(2)] show ?thesis
    using assms(3) secrets_ok_changed unfolding secrets_ok_def by metis
next
  case (Secret_project c defaults req p sc)
  show ?thesis
    by (rule created_secrets_ok [OF assms(3) _ CreateProject_secrets [OF Secret_project(1)]]) (simp add: Secret_project(2) generate_keys_ok assms(2))
next
  case (Secret_branch c ref input b p sc)
  show ?thesis
    by (rule created_secrets_ok [OF assms(3) _ CreateProjectBranch_secrets [OF Secret_branch(1)]]) (simp add: Secret_branch(2) generate_keys_ok assms(2))
next
  case (Secret_delete_project ref r4)
  then show ?thesis using deleted_secrets_ok [OF assms(3)] by (simp add: DeleteProject_def)
next
  case (Secret_delete_branch src ref r5)
  then show ?thesis using deleted_secrets_ok [OF assms(3)] DeleteProjectBranch_deletes by blast
next
  case Secret_other
  then show ?thesis using assms(3) by (auto simp: secrets_ok_def secretsOf_def dom_def)
qed

lemma secret_reachable_ok: "secret_reachable k s \<Longrightarrow> claims_decode k \<Longrightarrow> secrets_ok k s"
proof (induction rule: secret_reachable.induct)
  case (Secret_init defaults)
  then show ?case by (simp add: secrets_ok_def NewMemoryStore_def)
next
  case (Secret_next s s')
  then show ?case using secret_step_ok by blast
qed

text \<open>C20. The API keys of a project stay usable: in every reachable store the public and the service key of a project are tokens signed with the
  JWT secret that is stored with them, for their own role, whatever was generated, rotated, added or deleted before.\<close>

theorem api_keys_verify:
  assumes "secret_reachable k s" and "claims_decode k" and "map_of (s_projects s) ref \<noteq> None" and "role \<in> {''anon'', ''service_role''}"
  shows "verifySupabaseRoleJWT k (storedSecret (secretsOf ref s) (roleKind role)) role (storedSecret (secretsOf ref s) ''jwt_secret'')"
  using secret_reachable_ok [OF assms(1,2)] assms(3,4) by (auto simp: secrets_ok_def keys_ok_def)

section \<open>Rotating the signing key\<close>

lemma rotate_map:
  assumes "RotateProjectSecret k c ref ''jwt_signing_key_current'' s = Inr (s', r)"
    and "map_of (secretsOf ref s) ''jwt_signing_key_current'' = Some current" and "map_of (secretsOf ref s) ''jwt_signing_key_next'' = Some prepared"
  shows "map_of (secretsOf ref s') = (map_of (secretsOf ref s))
    (archiveKind (sc_now c) \<mapsto> withStatus k (sc_now c) (archiveKind (sc_now c)) ''previous'' current,
     ''jwt_signing_key_current'' \<mapsto> withStatus k (sc_now c) ''jwt_signing_key_current'' ''current'' prepared,
     ''jwt_signing_key_next'' \<mapsto> newProjectSecret k c ref ''jwt_signing_key_next'' (sc_now c))"
proof -
  have kind: "normalizeManagedProjectSecretKind ''jwt_signing_key_current'' = Inr ''jwt_signing_key_current''" by code_simp
  have prefix: "\<not> HasPrefix ''jwt_signing_key_current'' ''jwt_signing_key_previous_''" by code_simp
  have at: "secretAt ref ''jwt_signing_key_current'' s = Inr current" using assms(2) by (simp add: secretAt_def)
  have "s' = putSecrets ref (fst (rotateCurrentJWTSigningKeyLocked k c ref current (secretsOf ref s))) s"
    using assms(1) kind prefix at
    by (auto simp: RotateProjectSecret_def and_then_eq_Inr_iff refuse_def split: prod.splits)
  then have "secretsOf ref s' = fst (rotateCurrentJWTSigningKeyLocked k c ref current (secretsOf ref s))"
    by (simp add: putSecrets_def secretsOf_def get_or_def)
  then show ?thesis by (simp add: rotateCurrentJWTSigningKeyLocked_def Let_def assms(3) update_conv' fun_upd_twist)
qed

text \<open>What \<open>json.Marshal\<close> and \<open>json.Unmarshal\<close> do with a struct of strings.\<close>

definition keys_roundtrip :: "SecretLib \<Rightarrow> bool" where
  "keys_roundtrip k \<longleftrightarrow> (\<forall>m. \<exists>payload. sl_encodeKey k m = Some payload \<and> sl_decodeKey k payload = Some m)"

definition held_key :: "SecretLib \<Rightarrow> (string, ProjectSecret) gomap \<Rightarrow> string \<Rightarrow> JWTSigningKeyMaterial option" where
  "held_key k secrets kind = (case map_of secrets kind of None \<Rightarrow> None | Some secret \<Rightarrow> sl_decodeKey k (Secret_Value secret))"

lemma status_kept:
  assumes "keys_roundtrip k" and "sl_decodeKey k value = Some m"
  shows "sl_decodeKey k (updateJWTSigningKeyMaterialStatus k value status) = Some (m\<lparr>JK_Status := status\<rparr>)"
proof -
  obtain payload where "sl_encodeKey k (m\<lparr>JK_Status := status\<rparr>) = Some payload" "sl_decodeKey k payload = Some (m\<lparr>JK_Status := status\<rparr>)"
    using assms(1) unfolding keys_roundtrip_def by blast
  then show ?thesis using assms(2) by (simp add: updateJWTSigningKeyMaterialStatus_def)
qed

text \<open>C40. Rotating the signing key of a project keeps the key pairs in use, if no key was archived in the same second: the pair that was current
  is held, with its identifier, algorithm and both keys and the status previous, under a name made of the second of the rotation, the
  prepared pair is the current one, and every other secret but the newly prepared key is stored as before.\<close>

theorem rotation_keeps_keys:
  assumes "RotateProjectSecret k c ref ''jwt_signing_key_current'' s = Inr (s', r)" and "keys_roundtrip k"
    and "held_key k (secretsOf ref s) ''jwt_signing_key_current'' = Some current" and "held_key k (secretsOf ref s) ''jwt_signing_key_next'' = Some prepared"
    and "map_of (secretsOf ref s) (''jwt_signing_key_previous_'' @ ToLower (compactTime (sc_now c))) = None"
  shows "held_key k (secretsOf ref s') (''jwt_signing_key_previous_'' @ ToLower (compactTime (sc_now c))) = Some (current\<lparr>JK_Status := ''previous''\<rparr>) \<and>
    held_key k (secretsOf ref s') ''jwt_signing_key_current'' = Some (prepared\<lparr>JK_Status := ''current''\<rparr>) \<and>
    (\<forall>kind secret. map_of (secretsOf ref s) kind = Some secret \<longrightarrow> kind \<notin> {''jwt_signing_key_current'', ''jwt_signing_key_next''} \<longrightarrow>
      map_of (secretsOf ref s') kind = Some secret)"
proof -
  obtain x y where x: "map_of (secretsOf ref s) ''jwt_signing_key_current'' = Some x" "sl_decodeKey k (Secret_Value x) = Some current"
    and y: "map_of (secretsOf ref s) ''jwt_signing_key_next'' = Some y" "sl_decodeKey k (Secret_Value y) = Some prepared"
    using assms(3,4) by (auto simp: held_key_def split: option.splits)
  note m = rotate_map [OF assms(1) x(1) y(1)]
  have "held_key k (secretsOf ref s') (archiveKind (sc_now c)) = Some (current\<lparr>JK_Status := ''previous''\<rparr>)"
    by (simp add: held_key_def m archive_differs(5,6) archive_differs(5,6) [symmetric] withStatus_def Let_def status_kept [OF assms(2) x(2)])
  moreover have "held_key k (secretsOf ref s') ''jwt_signing_key_current'' = Some (prepared\<lparr>JK_Status := ''current''\<rparr>)"
    by (simp add: held_key_def m withStatus_def Let_def status_kept [OF assms(2) y(2)])
  moreover have "map_of (secretsOf ref s') kind = Some secret"
    if "map_of (secretsOf ref s) kind = Some secret" "kind \<notin> {''jwt_signing_key_current'', ''jwt_signing_key_next''}" for kind secret
    using that assms(5) by (auto simp: m archiveKind_def)
  ultimately show ?thesis unfolding archiveKind_def by blast
qed

section \<open>Concrete stores\<close>

text \<open>A small encoding of key material instead of JSON.\<close>

definition demo_escape :: "string \<Rightarrow> string" where
  "demo_escape s = concat (map (\<lambda>c. [CHR ''x'', c]) s) @ ''.''"

fun demo_field :: "string \<Rightarrow> (string \<times> string) option" where
  "demo_field (x # s) =
     (if x = CHR ''.'' then Some ([], s)
      else case s of [] \<Rightarrow> None | c # s \<Rightarrow> (case demo_field s of None \<Rightarrow> None | Some (t, rest) \<Rightarrow> Some (c # t, rest)))"
| "demo_field [] = None"

lemma demo_field_escape [simp]: "demo_field (demo_escape s @ rest) = Some (s, rest)"
  unfolding demo_escape_def by (induction s) simp_all

definition demo_encodeKey :: "JWTSigningKeyMaterial \<Rightarrow> string" where
  "demo_encodeKey m = demo_escape (JK_KID m) @ demo_escape (JK_Alg m) @ demo_escape (JK_PublicKey m) @ demo_escape (JK_PrivateKey m) @ demo_escape (JK_Status m)"

definition demo_decodeKey :: "string \<Rightarrow> JWTSigningKeyMaterial option" where
  "demo_decodeKey s =
     Option.bind (demo_field s) (\<lambda>(kid, s). Option.bind (demo_field s) (\<lambda>(alg, s). Option.bind (demo_field s) (\<lambda>(public, s).
     Option.bind (demo_field s) (\<lambda>(secret, s). Option.bind (demo_field s) (\<lambda>(status, s).
       Some \<lparr>JK_KID = kid, JK_Alg = alg, JK_PublicKey = public, JK_PrivateKey = secret, JK_Status = status\<rparr>)))))"

lemma demo_field_end [simp]: "demo_field (demo_escape s) = Some (s, [])"
  using demo_field_escape [of s "[]"] by simp

lemma demo_roundtrip: "demo_decodeKey (demo_encodeKey m) = Some m"
  unfolding demo_decodeKey_def demo_encodeKey_def by simp

definition demo_secret_lib :: SecretLib where
  "demo_secret_lib = \<lparr>sl_hmac = (\<lambda>key text. take 4 key), sl_claims = (\<lambda>ref role iat jti. role),
     sl_parse = (\<lambda>s. Some (Some s, Some ''authenticated'')), sl_decodeKey = demo_decodeKey, sl_encodeKey = (\<lambda>m. Some (demo_encodeKey m))\<rparr>"

definition demo_secret_ctx :: SecretCtx where
  "demo_secret_ctx = \<lparr>sc_now = 5, sc_newID = (\<lambda>kind. ''id''), sc_random = (\<lambda>kind n. Some ''x''),
     sc_signingKey = (\<lambda>status. Some (''public'', ''private'')), sc_jti = (\<lambda>role again. ''j'')\<rparr>"

lemma demo_claims_decode: "claims_decode demo_secret_lib"
  by (simp add: claims_decode_def demo_secret_lib_def)

lemma demo_created: "is_ok (CreateProject (demo_ctx\<lparr>ctx_secrets := secrets\<rparr>) demo_defaults demo_request demo_start)"
  by code_simp

theorem api_keys_verify_witness:
  "\<exists>s. map_of (s_projects s) ''acme'' \<noteq> None \<and>
     verifySupabaseRoleJWT demo_secret_lib (storedSecret (secretsOf ''acme'' s) ''anon_key'') ''anon'' (storedSecret (secretsOf ''acme'' s) ''jwt_secret'')"
proof -
  define c where "c = demo_ctx\<lparr>ctx_secrets := generateProjectSecrets demo_secret_lib demo_secret_ctx ''acme''\<rparr>"
  obtain x where "CreateProject c demo_defaults demo_request demo_start = Inr x"
    using demo_created [unfolded is_ok_iff] unfolding c_def by blast
  then obtain s p where s: "CreateProject c demo_defaults demo_request demo_start = Inr (s, p)" by (cases x) simp
  have ref: "Proj_Ref p = ''acme''"
  proof -
    obtain req where req: "req = createProjectRequestWithDefaults demo_defaults demo_request" and p: "Proj_Ref p = Req_Ref req"
      using s by (elim CreateProject_eq) (simp add: newProject_def)
    have "Req_Ref (createProjectRequestWithDefaults demo_defaults demo_request) = ''acme''" by code_simp
    with req p show ?thesis by simp
  qed
  have "secret_reachable demo_secret_lib demo_start"
    by (rule Secret_next [OF Secret_init Secret_other]) (simp_all add: demo_start_def NewMemoryStore_def)
  then have reach: "secret_reachable demo_secret_lib s"
    by (rule Secret_next [OF _ Secret_project [OF s]]) (simp add: c_def ref)
  have known: "map_of (s_projects s) ''acme'' \<noteq> None" using CreateProject_secrets [OF s] ref by simp
  from api_keys_verify [OF reach demo_claims_decode known, of "''anon''"] known show ?thesis by auto
qed

definition demo_material :: "string \<Rightarrow> string \<Rightarrow> JWTSigningKeyMaterial" where
  "demo_material kid status = \<lparr>JK_KID = kid, JK_Alg = ''EdDSA'', JK_PublicKey = ''P'', JK_PrivateKey = ''S'', JK_Status = status\<rparr>"

definition demo_key :: "string \<Rightarrow> JWTSigningKeyMaterial \<Rightarrow> ProjectSecret" where
  "demo_key kind m = zeroSecret\<lparr>Secret_ProjectRef := ''acme'', Secret_Kind := kind, Secret_Value := demo_encodeKey m\<rparr>"

definition demo_keyed :: MemoryStore where
  "demo_keyed = demo_store\<lparr>s_secrets := [(''acme'',
     [(''jwt_signing_key_current'', demo_key ''jwt_signing_key_current'' (demo_material ''K1'' ''current'')),
      (''jwt_signing_key_next'', demo_key ''jwt_signing_key_next'' (demo_material ''K2'' ''next''))])]\<rparr>"

text \<open>The names of archives stay symbolic here.\<close>

lemma rotated_ok:
  assumes "map_of (s_projects s) ref \<noteq> None" and "map_of (secretsOf ref s) ''jwt_signing_key_current'' \<noteq> None"
  shows "is_ok (RotateProjectSecret k c ref ''jwt_signing_key_current'' s)"
proof -
  have kind: "normalizeManagedProjectSecretKind ''jwt_signing_key_current'' = Inr ''jwt_signing_key_current''" by code_simp
  have prefix: "\<not> HasPrefix ''jwt_signing_key_current'' ''jwt_signing_key_previous_''" by code_simp
  from assms(2) obtain current where at: "secretAt ref ''jwt_signing_key_current'' s = Inr current" by (auto simp: secretAt_def)
  have project: "secretProject ref s = Inr ()" using assms(1) by (simp add: secretProject_Inr)
  show ?thesis by (simp add: RotateProjectSecret_def kind prefix refuse_def check_def at project split: prod.split)
qed

lemma demo_rotated: "is_ok (RotateProjectSecret demo_secret_lib demo_secret_ctx ''acme'' ''jwt_signing_key_current'' demo_keyed)"
  by (rule rotated_ok) (simp_all add: demo_keyed_def demo_store_def secretsOf_def get_or_def)

lemma demo_keys_roundtrip: "keys_roundtrip demo_secret_lib"
  by (simp add: keys_roundtrip_def demo_secret_lib_def demo_roundtrip)

theorem rotation_keeps_keys_witness:
  "\<exists>s r. RotateProjectSecret demo_secret_lib demo_secret_ctx ''acme'' ''jwt_signing_key_current'' demo_keyed = Inr (s, r) \<and>
     held_key demo_secret_lib (secretsOf ''acme'' s) (''jwt_signing_key_previous_'' @ ToLower (compactTime 5)) = Some (demo_material ''K1'' ''previous'') \<and>
     held_key demo_secret_lib (secretsOf ''acme'' s) ''jwt_signing_key_current'' = Some (demo_material ''K2'' ''current'')"
proof -
  obtain x where "RotateProjectSecret demo_secret_lib demo_secret_ctx ''acme'' ''jwt_signing_key_current'' demo_keyed = Inr x"
    using demo_rotated [unfolded is_ok_iff] by blast
  then obtain s r where s: "RotateProjectSecret demo_secret_lib demo_secret_ctx ''acme'' ''jwt_signing_key_current'' demo_keyed = Inr (s, r)"
    by (cases x) simp
  have now: "sc_now demo_secret_ctx = 5" by (simp add: demo_secret_ctx_def)
  have keys: "secretsOf ''acme'' demo_keyed = [(''jwt_signing_key_current'', demo_key ''jwt_signing_key_current'' (demo_material ''K1'' ''current'')),
     (''jwt_signing_key_next'', demo_key ''jwt_signing_key_next'' (demo_material ''K2'' ''next''))]"
    by (simp add: secretsOf_def demo_keyed_def get_or_def)
  have "held_key demo_secret_lib (secretsOf ''acme'' demo_keyed) ''jwt_signing_key_current'' = Some (demo_material ''K1'' ''current'')"
    "held_key demo_secret_lib (secretsOf ''acme'' demo_keyed) ''jwt_signing_key_next'' = Some (demo_material ''K2'' ''next'')"
    by (simp_all add: held_key_def keys demo_key_def demo_secret_lib_def demo_roundtrip)
  from rotation_keeps_keys [OF s demo_keys_roundtrip this] s show ?thesis
    by (simp add: now keys demo_material_def)
qed

text \<open>Archived keys are named by the second: of two rotations within one second the second overwrites the key that the first one
  archived, and tokens signed with it can no longer be checked.\<close>

lemma archived_key_lost:
  assumes "RotateProjectSecret k c ref ''jwt_signing_key_current'' s = Inr (s1, r1)" and "archiveKind (sc_now c) = archiveKind (sc_now c')"
    and "RotateProjectSecret k c' ref ''jwt_signing_key_current'' s1 = Inr (s2, r2)"
    and "map_of (secretsOf ref s) ''jwt_signing_key_current'' = Some first" and "map_of (secretsOf ref s) ''jwt_signing_key_next'' = Some second"
  shows "map_of (secretsOf ref s2) (archiveKind (sc_now c)) =
    Some (withStatus k (sc_now c') (archiveKind (sc_now c')) ''previous'' (withStatus k (sc_now c) ''jwt_signing_key_current'' ''current'' second))"
proof -
  note m1 = rotate_map [OF assms(1,4,5)]
  have "map_of (secretsOf ref s1) ''jwt_signing_key_current'' = Some (withStatus k (sc_now c) ''jwt_signing_key_current'' ''current'' second)"
    "map_of (secretsOf ref s1) ''jwt_signing_key_next'' = Some (newProjectSecret k c ref ''jwt_signing_key_next'' (sc_now c))"
    unfolding m1 by simp_all
  from rotate_map [OF assms(3) this] show ?thesis using assms(2) by (simp add: archive_differs)
qed

lemma same_second: "archiveKind 6 = archiveKind 5"
  by (simp add: archiveKind_def compactTime_def)

end
