(* ===== verification/Stack_Releases.thy ===== *)
theory Stack_Releases
  imports Projects Child_Values
begin

text \<open>
  Releases of the stack (internal/control/stack_releases.go) and upgrades between them (internal/api/project_lifecycle_handlers.go):
  the built-in manifests, their overrides from the environment, the supported versions, the order of versions and which target an
  upgrade may have. The two JSON shapes of the overrides are parsed by parameters. Versions are ASCII.
\<close>

section \<open>Manifests\<close>

record StackReleaseManifest =
  SR_Version :: string
  SR_Postgres :: string
  SR_Kong :: string
  SR_Studio :: string
  SR_PostgresMeta :: string
  SR_Auth :: string
  SR_REST :: string
  SR_Realtime :: string
  SR_Storage :: string
  SR_Imgproxy :: string
  SR_EdgeRuntime :: string
  SR_Pooler :: string
  SR_Analytics :: string
  SR_Vector :: string

definition DefaultStackReleaseVersion :: string where
  "DefaultStackReleaseVersion = ''15.8.1.085''"

definition builtinManifest :: "string \<Rightarrow> StackReleaseManifest" where
  "builtinManifest version =
     \<lparr>SR_Version = version, SR_Postgres = version, SR_Kong = ''3.9.1'', SR_Studio =
      ''2026.06.03-sha-0bca601'', SR_PostgresMeta = ''v0.96.6'', SR_Auth = ''v2.189.0'', SR_REST = ''v14.12'',
      SR_Realtime = ''v2.102.3'', SR_Storage = ''v1.60.4'', SR_Imgproxy = ''v3.30.1'', SR_EdgeRuntime = ''v1.74.0'',
      SR_Pooler = ''2.9.5'', SR_Analytics = ''1.43.1'', SR_Vector = ''0.53.0-alpine''\<rparr>"

definition builtinStackReleaseManifests :: "(string, StackReleaseManifest) gomap" where
  "builtinStackReleaseManifests =
     map (\<lambda>version. (version, builtinManifest version)) [''15.8.1.085'', ''15.8.1.060'', ''15.8.1.054'', ''15.8.1.049'']"

definition mergeStackReleaseManifestDefaults :: "StackReleaseManifest \<Rightarrow> StackReleaseManifest \<Rightarrow> StackReleaseManifest" where
  "mergeStackReleaseManifestDefaults defaults manifest =
     (let version = or_default (SR_Version defaults) (SR_Version manifest) in
      \<lparr>SR_Version = version, SR_Postgres = or_default version (SR_Postgres manifest),
      SR_Kong = or_default (SR_Kong defaults) (SR_Kong manifest),
      SR_Studio = or_default (SR_Studio defaults) (SR_Studio manifest),
      SR_PostgresMeta = or_default (SR_PostgresMeta defaults) (SR_PostgresMeta manifest),
      SR_Auth = or_default (SR_Auth defaults) (SR_Auth manifest),
      SR_REST = or_default (SR_REST defaults) (SR_REST manifest),
      SR_Realtime = or_default (SR_Realtime defaults) (SR_Realtime manifest),
      SR_Storage = or_default (SR_Storage defaults) (SR_Storage manifest),
      SR_Imgproxy = or_default (SR_Imgproxy defaults) (SR_Imgproxy manifest),
      SR_EdgeRuntime = or_default (SR_EdgeRuntime defaults) (SR_EdgeRuntime manifest),
      SR_Pooler = or_default (SR_Pooler defaults) (SR_Pooler manifest),
      SR_Analytics = or_default (SR_Analytics defaults) (SR_Analytics manifest),
      SR_Vector = or_default (SR_Vector defaults) (SR_Vector manifest)\<rparr>)"

definition missingStackReleaseManifestFields :: "StackReleaseManifest \<Rightarrow> string list" where
  "missingStackReleaseManifestFields manifest =
     sort_slice (<) (map fst (filter (\<lambda>(field, value). TrimSpace value = [])
      [(''version'', SR_Version manifest),
       (''postgres'', SR_Postgres manifest),
       (''kong'', SR_Kong manifest),
       (''studio'', SR_Studio manifest),
       (''postgres_meta'', SR_PostgresMeta manifest),
       (''auth'', SR_Auth manifest),
       (''rest'', SR_REST manifest),
       (''realtime'', SR_Realtime manifest),
       (''storage'', SR_Storage manifest),
       (''imgproxy'', SR_Imgproxy manifest),
       (''edge_runtime'', SR_EdgeRuntime manifest),
       (''pooler'', SR_Pooler manifest),
       (''analytics'', SR_Analytics manifest),
       (''vector'', SR_Vector manifest)]))"

section \<open>Overrides from the environment\<close>

record ReleaseLib =
  rl_parseList :: "string \<Rightarrow> StackReleaseManifest list option"
  rl_parseKeyed :: "string \<Rightarrow> (string, StackReleaseManifest) gomap option"
  rl_getenv :: "string \<Rightarrow> string"

fun stackReleaseListLoop :: "StackReleaseManifest list \<Rightarrow> (string, StackReleaseManifest) gomap \<Rightarrow> (string, StackReleaseManifest) gomap res" where
  "stackReleaseListLoop [] out = Inr out"
| "stackReleaseListLoop (manifest # manifests) out =
     (let version = TrimSpace (SR_Version manifest) in
      and_then (refuse (version = []) ''stack release manifest version is required'') (\<lambda>_.
      let version = NormalizeStackReleaseVersion version in
      stackReleaseListLoop manifests (AList.update version (manifest\<lparr>SR_Version := version\<rparr>) out)))"

definition stackReleaseListToMap :: "StackReleaseManifest list \<Rightarrow> (string, StackReleaseManifest) gomap res" where
  "stackReleaseListToMap manifests = stackReleaseListLoop manifests []"

text \<open>The loop over the parsed object changes the object: an entry goes under its normalised version.\<close>

definition normalizeKeyed :: "string \<Rightarrow> (string, StackReleaseManifest) gomap \<Rightarrow> (string, StackReleaseManifest) gomap" where
  "normalizeKeyed version keyed =
     (case map_of keyed version of
        None \<Rightarrow> keyed
      | Some manifest \<Rightarrow>
          let manifest = (if TrimSpace (SR_Version manifest) = [] then manifest\<lparr>SR_Version := version\<rparr> else manifest);
              normalized = NormalizeStackReleaseVersion version;
              keyed = AList.update normalized (manifest\<lparr>SR_Version := NormalizeStackReleaseVersion (SR_Version manifest)\<rparr>) keyed
          in if normalized \<noteq> version then AList.delete version keyed else keyed)"

definition parseStackReleaseManifestJSON :: "ReleaseLib \<Rightarrow> string \<Rightarrow> (string, StackReleaseManifest) gomap res" where
  "parseStackReleaseManifestJSON k payload =
     (case rl_parseList k payload of
        Some manifests \<Rightarrow> stackReleaseListToMap manifests
      | None \<Rightarrow>
          (case rl_parseKeyed k payload of
             None \<Rightarrow> Inl (ErrOther ''invalid stack release manifest JSON'')
           | Some keyed \<Rightarrow> Inr (foldl (\<lambda>out version. normalizeKeyed version out) keyed (map fst keyed))))"

definition overrideManifest :: "(string, StackReleaseManifest) gomap \<Rightarrow> string \<times> StackReleaseManifest \<Rightarrow> (string, StackReleaseManifest) gomap" where
  "overrideManifest manifests = (\<lambda>(version, manifest).
     let version = NormalizeStackReleaseVersion version in
     case map_of manifests version of
       Some builtin \<Rightarrow> AList.update version (mergeStackReleaseManifestDefaults builtin manifest) manifests
     | None \<Rightarrow> if missingStackReleaseManifestFields manifest = [] then AList.update version manifest manifests else manifests)"

text \<open>\<open>strings.FieldsFunc\<close>: the maximal runs of characters that \<open>f\<close> does not select.\<close>

fun fieldsLoop :: "(char \<Rightarrow> bool) \<Rightarrow> string \<Rightarrow> string \<Rightarrow> string list" where
  "fieldsLoop f field [] = (if field = [] then [] else [rev field])"
| "fieldsLoop f field (c # s) =
     (if f c then (if field = [] then [] else [rev field]) @ fieldsLoop f [] s else fieldsLoop f (c # field) s)"

definition FieldsFunc :: "(char \<Rightarrow> bool) \<Rightarrow> string \<Rightarrow> string list" where
  "FieldsFunc f s = fieldsLoop f [] s"

definition splitConfiguredStackVersions :: "string \<Rightarrow> string list" where
  "splitConfiguredStackVersions configured =
     filter (\<lambda>version. version \<noteq> []) (map NormalizeStackReleaseVersion
       (FieldsFunc (\<lambda>c. c = CHR '','' \<or> c = chr_lf \<or> c = CHR '' '' \<or> c = chr_tab) configured))"

definition filterManifests :: "(string, StackReleaseManifest) gomap \<Rightarrow> string list \<Rightarrow> (string, StackReleaseManifest) gomap" where
  "filterManifests manifests versions =
     foldl (\<lambda>out version. case map_of manifests version of Some manifest \<Rightarrow> AList.update version manifest out | None \<Rightarrow> out) [] versions"

definition stackReleaseManifestsFromEnv :: "ReleaseLib \<Rightarrow> (string, StackReleaseManifest) gomap" where
  "stackReleaseManifestsFromEnv k =
     (let payload = TrimSpace (rl_getenv k ''SUPADUPA_STACK_RELEASES_JSON'');
          manifests = (if payload = [] then builtinStackReleaseManifests
            else case parseStackReleaseManifestJSON k payload of
                Inl _ \<Rightarrow> builtinStackReleaseManifests
              | Inr overrides \<Rightarrow> foldl overrideManifest builtinStackReleaseManifests overrides);
          configured = TrimSpace (rl_getenv k ''SUPADUPA_SUPPORTED_STACK_VERSIONS'')
      in if configured = [] then manifests else filterManifests manifests (splitConfiguredStackVersions configured))"

definition SupportedStackReleaseVersionsFromEnv :: "ReleaseLib \<Rightarrow> string list" where
  "SupportedStackReleaseVersionsFromEnv k = sort_slice (>) (map fst (stackReleaseManifestsFromEnv k))"

text \<open>A normalised version is never empty, so the last case of the code, which looks up the default, is never taken.\<close>

definition ResolveStackReleaseManifestFromEnv :: "ReleaseLib \<Rightarrow> string \<Rightarrow> StackReleaseManifest option" where
  "ResolveStackReleaseManifestFromEnv k version =
     (let normalized = NormalizeStackReleaseVersion version in
      case map_of (stackReleaseManifestsFromEnv k) normalized of
        Some manifest \<Rightarrow> Some manifest
      | None \<Rightarrow> if normalized = [] then map_of (stackReleaseManifestsFromEnv k) DefaultStackReleaseVersion else None)"

section \<open>The order of versions\<close>

text \<open>\<open>strconv.Atoi\<close> of a string of digits: 0 for the empty one, the largest \<open>int\<close> when the number does not fit.\<close>

definition Atoi :: "string \<Rightarrow> int" where
  "Atoi ds = min (2 ^ 63 - 1) (foldl (\<lambda>n c. 10 * n + (int (byte c) - 48)) 0 ds)"

definition stackVersionParts :: "string \<Rightarrow> int list" where
  "stackVersionParts version =
     map (\<lambda>field. Atoi (takeWhile is_digit field))
       (FieldsFunc (\<lambda>c. c = CHR ''.'' \<or> c = CHR ''-'' \<or> c = CHR ''_'') (TrimSpace version))"

text \<open>A missing part counts as 0.\<close>

fun compareParts :: "int list \<Rightarrow> int list \<Rightarrow> int" where
  "compareParts [] [] = 0"
| "compareParts (l # ls) [] = (if l > 0 then 1 else if l < 0 then - 1 else compareParts ls [])"
| "compareParts [] (r # rs) = (if 0 > r then 1 else if 0 < r then - 1 else compareParts [] rs)"
| "compareParts (l # ls) (r # rs) = (if l > r then 1 else if l < r then - 1 else compareParts ls rs)"

definition strings_Compare :: "string \<Rightarrow> string \<Rightarrow> int" where
  "strings_Compare a b = (if a = b then 0 else if a < b then - 1 else 1)"

definition compareStackVersions :: "string \<Rightarrow> string \<Rightarrow> int" where
  "compareStackVersions left right =
     (let c = compareParts (stackVersionParts left) (stackVersionParts right) in
      if c \<noteq> 0 then c else strings_Compare (TrimSpace left) (TrimSpace right))"

definition validateUpgradeTarget :: "string list \<Rightarrow> string \<Rightarrow> string \<Rightarrow> unit res" where
  "validateUpgradeTarget supported currentVersion targetVersion =
     and_then (refuse (targetVersion = []) ''version is required'') (\<lambda>_.
     and_then (refuse (TrimSpace currentVersion = targetVersion) (''target version '' @ targetVersion @ '' is already installed'')) (\<lambda>_.
     if \<not> List.member supported targetVersion then Inl (ErrOther (''unsupported stack version '' @ targetVersion))
     else refuse (compareStackVersions targetVersion currentVersion \<le> 0)
       (''target version '' @ targetVersion @ '' is not newer than installed version '' @ currentVersion)))"

section \<open>Versions are ordered\<close>

definition first_part :: "int list \<Rightarrow> int" where
  "first_part xs = (case xs of [] \<Rightarrow> 0 | x # _ \<Rightarrow> x)"

lemma compareParts_step:
  "compareParts a b =
     (if first_part a > first_part b then 1 else if first_part a < first_part b then - 1 else compareParts (tl a) (tl b))"
  by (cases a; cases b) (simp_all add: first_part_def)

lemma compareParts_swap: "compareParts b a = - compareParts a b"
  by (induction a b rule: compareParts.induct) simp_all

lemma compareParts_trans:
  "compareParts a b \<ge> 0 \<Longrightarrow> compareParts b c \<ge> 0 \<Longrightarrow>
     compareParts a c \<ge> 0 \<and> (compareParts a c = 0 \<longleftrightarrow> compareParts a b = 0 \<and> compareParts b c = 0)"
proof (induction "length a + length b + length c" arbitrary: a b c rule: less_induct)
  case less
  show ?case
  proof (cases "a = [] \<and> b = [] \<and> c = []")
    case False
    then have shorter: "length (tl a) + length (tl b) + length (tl c) < length a + length b + length c"
      by (cases a; cases b; cases c) simp_all
    note IH = less.hyps [OF shorter]
    note step = compareParts_step [of a b] compareParts_step [of b c] compareParts_step [of a c]
    show ?thesis
    proof (cases "first_part a = first_part b \<and> first_part b = first_part c")
      case True
      then show ?thesis using less.prems IH unfolding step by simp
    next
      case False
      then show ?thesis using less.prems unfolding step by (auto split: if_splits)
    qed
  qed simp
qed

lemma strings_Compare_trans:
  "strings_Compare a b \<ge> 0 \<Longrightarrow> strings_Compare b c \<ge> 0 \<Longrightarrow>
     strings_Compare a c \<ge> 0 \<and> (strings_Compare a c = 0 \<longleftrightarrow> strings_Compare a b = 0 \<and> strings_Compare b c = 0)"
  by (auto simp: strings_Compare_def split: if_splits)

lemma compareStackVersions_trans:
  assumes "compareStackVersions a b > 0" and "compareStackVersions b c > 0"
  shows "compareStackVersions a c > 0"
proof -
  define p where "p = (\<lambda>x y. compareParts (stackVersionParts x) (stackVersionParts y))"
  define q where "q = (\<lambda>x y. strings_Compare (TrimSpace x) (TrimSpace y))"
  have c: "compareStackVersions x y = (if p x y \<noteq> 0 then p x y else q x y)" for x y
    by (simp add: compareStackVersions_def p_def q_def Let_def)
  have p: "p a b \<ge> 0" "p b c \<ge> 0" using assms unfolding c by (auto split: if_splits)
  have pt: "p a c \<ge> 0 \<and> (p a c = 0 \<longleftrightarrow> p a b = 0 \<and> p b c = 0)" using p unfolding p_def by (rule compareParts_trans)
  have qt: "q a b \<ge> 0 \<Longrightarrow> q b c \<ge> 0 \<Longrightarrow> q a c \<ge> 0 \<and> (q a c = 0 \<longleftrightarrow> q a b = 0 \<and> q b c = 0)"
    unfolding q_def by (rule strings_Compare_trans)
  show ?thesis
  proof (cases "p a c = 0")
    case True
    then have z: "p a b = 0" "p b c = 0" using pt by blast+
    then have "q a b > 0" "q b c > 0" using assms unfolding c by simp_all
    then show ?thesis using qt True unfolding c by force
  next
    case False
    then show ?thesis using pt unfolding c by auto
  qed
qed

lemma compareParts_same: "compareParts xs xs = 0"
  using compareParts_swap [of xs xs] by simp

lemma compareStackVersions_irrefl: "compareStackVersions a a = 0"
  by (simp add: compareStackVersions_def compareParts_same strings_Compare_def)

lemma upgrade_newer:
  "validateUpgradeTarget supported current target = Inr u \<Longrightarrow> List.member supported target \<and> compareStackVersions target current > 0"
  by (auto simp: validateUpgradeTarget_def and_then_eq_Inr_iff refuse_def split: if_splits)

text \<open>C21. Upgrades of a project end: an accepted target is a supported version that is newer than the installed one in an order
  without cycles, so with any list of supported versions there is no endless chain of accepted upgrades.\<close>

theorem upgrades_terminate: "wf {(target, current). validateUpgradeTarget supported current target = Inr ()}"
proof -
  define newer where "newer = (\<lambda>v. {t \<in> set supported. compareStackVersions t v > 0})"
  have "card (newer target) < card (newer current)" if "validateUpgradeTarget supported current target = Inr ()" for target current
  proof (rule psubset_card_mono)
    show "finite (newer current)" by (simp add: newer_def)
    have up: "target \<in> set supported" "compareStackVersions target current > 0"
      using upgrade_newer [OF that] by simp_all
    then have "newer target \<subseteq> newer current" using compareStackVersions_trans unfolding newer_def by blast
    moreover have "target \<in> newer current" "target \<notin> newer target"
      using up by (simp_all add: newer_def compareStackVersions_irrefl)
    ultimately show "newer target \<subset> newer current" by blast
  qed
  then have "{(target, current). validateUpgradeTarget supported current target = Inr ()} \<subseteq> measure (\<lambda>v. card (newer v))" by auto
  then show ?thesis by (rule wf_subset [OF wf_measure])
qed

section \<open>Supported releases are complete\<close>

definition complete :: "StackReleaseManifest \<Rightarrow> bool" where
  "complete m \<longleftrightarrow> list_all (\<lambda>value. value \<noteq> []) [SR_Version m, SR_Postgres m, SR_Kong m, SR_Studio m, SR_PostgresMeta m, SR_Auth m, SR_REST m,
     SR_Realtime m, SR_Storage m, SR_Imgproxy m, SR_EdgeRuntime m, SR_Pooler m, SR_Analytics m, SR_Vector m]"

lemma merge_complete: "complete d \<Longrightarrow> complete (mergeStackReleaseManifestDefaults d m)"
  by (simp add: complete_def mergeStackReleaseManifestDefaults_def or_default_def Let_def)

lemma TrimSpace_not_Nil: "TrimSpace s \<noteq> [] \<Longrightarrow> s \<noteq> []"
  by (auto simp: TrimSpace_def TrimFunc_def)

lemma sort_slice_Nil: "sort_slice lt xs = [] \<longleftrightarrow> xs = []"
  by (rule slice.srt_eq_Nil)

lemma not_missing_complete: "missingStackReleaseManifestFields m = [] \<Longrightarrow> complete m"
  unfolding missingStackReleaseManifestFields_def sort_slice_Nil map_is_Nil_conv filter_empty_conv complete_def
  by (simp add: TrimSpace_not_Nil)

definition all_complete :: "(string, StackReleaseManifest) gomap \<Rightarrow> bool" where
  "all_complete ms \<longleftrightarrow> (\<forall>v m. map_of ms v = Some m \<longrightarrow> complete m)"

lemma override_complete: "all_complete ms \<Longrightarrow> all_complete (overrideManifest ms e)"
  by (auto simp: all_complete_def overrideManifest_def Let_def merge_complete not_missing_complete split: option.splits prod.splits if_splits)

lemma overrides_complete: "all_complete ms \<Longrightarrow> all_complete (foldl overrideManifest ms es)"
  by (induction es arbitrary: ms) (simp_all add: override_complete)

lemma filter_complete: "all_complete ms \<Longrightarrow> all_complete (filterManifests ms vs)"
proof -
  assume ms: "all_complete ms"
  have add: "all_complete out \<Longrightarrow> complete m \<Longrightarrow> all_complete (AList.update v m out)" for out v m
    by (simp add: all_complete_def)
  have found: "map_of ms v = Some m \<Longrightarrow> complete m" for v m using ms by (simp add: all_complete_def)
  have "all_complete out \<Longrightarrow> all_complete (foldl (\<lambda>out version. case map_of ms version of
      Some manifest \<Rightarrow> AList.update version manifest out | None \<Rightarrow> out) out vs)" for out
    by (induction vs arbitrary: out) (simp_all add: add found split: option.split)
  moreover have "all_complete []" by (simp add: all_complete_def)
  ultimately show ?thesis unfolding filterManifests_def by blast
qed

lemma builtin_complete: "all_complete builtinStackReleaseManifests"
  by (auto simp: all_complete_def builtinStackReleaseManifests_def builtinManifest_def complete_def split: if_splits)

lemma supported_release_complete: "ResolveStackReleaseManifestFromEnv k version = Some m \<Longrightarrow> complete m"
proof -
  have "all_complete (stackReleaseManifestsFromEnv k)"
    by (simp add: stackReleaseManifestsFromEnv_def Let_def filter_complete overrides_complete builtin_complete split: sum.split)
  then show "ResolveStackReleaseManifestFromEnv k version = Some m \<Longrightarrow> complete m"
    by (auto simp: ResolveStackReleaseManifestFromEnv_def Let_def all_complete_def split: option.splits if_splits)
qed

end
