(* ===== verification/Spec2Isabelle.thy ===== *)
theory Spec2Isabelle
  imports Rate_Limiters Leader_Election Quotas Access_Steps Access_Review Audit_Log Child_Reach Docker_Confinement Recovery_Guarantees Secret_Rotation Stack_Releases
begin

text \<open>
  A verification development for supadupa, a control plane that runs self-hosted Supabase projects on a set of hosts.

  The program. A server (cmd/supadupa) offers an HTTP API (internal/api) over a store (internal/control). The store holds users,
  organisations, hosts, projects and everything that belongs to a project; store.go keeps it in memory, persistent_store.go in
  SQL with the same operations. A reconciler hands projects to a provisioner (Docker Compose or Kubernetes); an operator does the
  same inside a cluster and elects a leader among its replicas. The command line, the MCP server and the Terraform
  provider are clients of the API. Modelled here is the logic of its own that the program has: the store, the sizing of projects, the
  authorisation of requests, the rate limiters, tokens and passwords, the audit log, backups and recovery, the proxy in front of the Docker
  socket (cmd/supadupa-docker-proxy) and the leader election.

  Conventions. A Go struct is a record with a prefix for its fields, a map is an association list without duplicate keys
  (\<open>gomap\<close>: \<open>map_of\<close> reads, \<open>AList.update\<close> and \<open>AList.delete\<close> write), an error is a value of \<open>err\<close> and a fallible
  function returns \<open>err + 'a\<close> (\<open>'a res\<close>), chained with \<open>and_then\<close>. The message of an error is kept, without the values formatted
  into it. A method of the store takes the store last and returns the new one; the lock is held for the whole of a method,
  so methods are atomic steps. Instants are nanoseconds since the year 1 (\<open>time\<close>), the zero value of \<open>time.Time\<close> is 0. Fresh
  identifiers, the clock and the library functions the code relies on (HMAC, SHA-256, scrypt, base32, URL and network address parsers, JSON)
  are parameters: the records \<open>OpCtx\<close>, \<open>AuthLib\<close>, \<open>ChildCtx\<close>. Go's \<open>int\<close> is unbounded here; where overflow could matter a lemma
  shows that the values fit into 64 bits. Strings are lists of bytes. \<open>sort.Slice\<close> is a stable sort here. A loop over a Go
  map runs in the order of the association list; theorems hold for every order.

  Theories, in the order of the imports.
  \<^item> \<open>Go_Prelude\<close>: results, maps, strings, time and sorting; the lemmas the components share and the collection
    \<open>go_simps\<close>.
  \<^item> \<open>Resource_Sizing\<close> (store.go, types.go): tiers, recommended sizes, validation, the weighted split of a size into limits
    per container. The limits add up exactly and each is the fair share rounded down or up.
  \<^item> \<open>Rate_Limiters\<close> (internal/api/rate_limiters.go): the lockout of logins and the window limiter. The shared map refines isolated
    limiters per key as long as nothing is evicted (interface locale and its interpretation), what is evicted is no younger than
    what stays; bounds on memory and on requests per window.
  \<^item> \<open>Leader_Election\<close> (internal/operator/leaderelection.go, kubernetes_client.go): the lease protocol over a client interface, a
    locale with the contract of a lease client, interpreted on the Kubernetes client over a merge-patch server. Exclusion for
    calls that are not interleaved, when a call makes the caller the leader, an expired lease is not passed over in silence, and
    the interleaving that gives two leaders.
  \<^item> \<open>Store_Types\<close>, \<open>Host_Names\<close>, \<open>Projects\<close>, \<open>Replicas\<close>, \<open>Domains\<close> (store.go): the records of the store; host names and their
    reservation; hosts, capacity, projects and branches; read replicas, promotion and failover; custom domains.
  \<^item> \<open>Store_Steps\<close>, \<open>Capacity\<close>, \<open>Host_Ownership\<close>, \<open>Quotas\<close>: the store as a step relation, and what holds in every reachable store:
    used capacity is exactly what is placed on a host, nothing refers to a deleted host, host names have one owner, one primary
    replica at most, and organisations stay within their quotas when projects are created or resized.
  \<^item> \<open>Encodings\<close>, \<open>Auth_Tokens\<close>, \<open>Users\<close> (auth.go, store.go): base64 and hexadecimal; session tokens, password hashes, one-time codes;
    accounts and the second factor. A token accepted was signed and is not expired, a change of a credential revokes the
    tokens before it (for accounts whose token version has been stored), a one-time code is used once.
  \<^item> \<open>Orgs\<close>, \<open>Access\<close>, \<open>Access_Rights\<close>, \<open>Access_Steps\<close> (store.go): organisations and feature flags; members, teams, grants and the role on a
    project that follows; what holds of the roles in every reachable store.
  \<^item> \<open>Authz\<close>, \<open>Access_Review\<close> (internal/api/http_helpers.go, authz_helpers.go, store.go): the middleware and the role checks of the handlers over an
    interface of the store (locale \<open>access_store\<close>, interpreted on the memory store), and the equivalence of the access review with
    the decisions of these checks.
  \<^item> \<open>Audit_Log\<close> (store.go): recording, the hash chain, verification and listings. The log of a reachable store verifies; the
    head hash pins a log without line breaks, and without equals signs in the keys of its metadata, up to collisions.
  \<^item> \<open>Child_Types\<close>, \<open>Child_Values\<close>, \<open>Child_Normalize\<close>, \<open>Project_Children\<close> (store.go, functions.go, project_child_resources.go): the resources of a project,
    the validation of their inputs and their tables. \<open>Child_Invariant\<close>, \<open>Child_Steps\<close>, \<open>Child_Reach\<close>: the invariant of the tables with the
    rule of each table written out (\<open>client_ok\<close> to \<open>drain_ok\<close>), that every operation keeps it (locales \<open>child_field\<close>, \<open>child_table\<close> and \<open>independent_table\<close>, interpreted on each table), and what follows in every
    reachable store.
  \<^item> \<open>Docker_Requests\<close>, \<open>Docker_Confinement\<close> (cmd/supadupa-docker-proxy/main.go): which requests the proxy passes on to Docker, the validation of their
    JSON bodies and the filter on the lists that come back. What a created container may mount, the labels
    of what is changed, deleted and listed, and the requests that get past these checks; JSON values are a datatype, the JSON and query parsers and the answers of Docker are parameters.
  \<^item> \<open>Backup_Targets\<close>, \<open>Backups\<close>, \<open>Backup_Runs\<close>, \<open>Recovery\<close> (store.go, backup.go): storage targets and whether they survive the loss of the host;
    the records of backups, archives and policies; the runs that take backups over a state of files and commands (\<open>BackupWorld\<close>);
    the recoverability report and the restores. \<open>Backup_Steps\<close>, \<open>Recovery_Guarantees\<close>: the invariant of the store that makes the target of
    a backup resolve, the schedule, the quoting of shell commands, intact artifacts, and that the reported window is served.
  \<^item> \<open>Project_Secrets\<close>, \<open>Secret_Rotation\<close> (store.go, secrets.go): generation, storage and rotation of the secrets of a project; the API keys
    verify under the JWT secret in every reachable store, and what a rotation of the signing keys keeps.
  \<^item> \<open>Stack_Releases\<close> (stack_releases.go, internal/api/project_lifecycle_handlers.go): the releases a platform supports, the order of
    versions, and that upgrades terminate.

  Bounds. The loops of the program that are modelled all end: they recurse on lists, or on a measure (the eviction of
  old keys). There is no fuel anywhere.

  Not modelled. The SQL store repeats the operations over statements whose meaning is outside the sources. The provisioners,
  the operator besides its election and the certificates write files, run tools and call servers. The API handlers besides the
  authorisation decode and encode JSON around one store method each. The clients (command line, MCP, Terraform) are HTTP calls. Of
  the store, logs, telemetry, usage and billing, configuration areas and platform settings are left out so far. Of the backups,
  the default commands read from the environment, the connection test and the restore of the control plane itself are left out.
  The interleaving of HTTP requests is that of the store methods they call; the code between them holds no lock.
\<close>

end
